(* ===== verification/Prelude.thy ===== *)
theory Prelude
  imports Main "HOL-Library.Word"
begin

text \<open>
  Shared vocabulary of the development: results and state-passing actions with an explicit
  failure value, the unsigned integer types of the code, and the lemma collections the other
  theories extend.

  A Rust function that returns \<^verbatim>\<open>Result<T, E>\<close> is modelled by a value of type
  \<open>(T, E) res\<close>: \<open>Inr x\<close> is \<^verbatim>\<open>Ok(x)\<close>, \<open>Inl (Err e)\<close> is \<^verbatim>\<open>Err(e)\<close> and
  \<open>Inl (Panic m)\<close> is a panic (an \<^verbatim>\<open>unwrap\<close> or \<^verbatim>\<open>expect\<close> of the wrong variant, an
  index out of bounds). A function that changes a state is an action: it returns the result
  and the state, also when it fails, because the code has no transactions and leaves behind
  whatever it wrote before the error.
\<close>

section \<open>Integers\<close>

type_synonym u8 = "8 word"
type_synonym u32 = "32 word"
type_synonym u64 = "64 word"
type_synonym bytes = "8 word list"

section \<open>Lemma collections\<close>

named_theorems res_simps \<open>evaluation of the result and action combinators\<close>
named_theorems inv_intros \<open>preservation of a state predicate by the action combinators\<close>

section \<open>Results\<close>

datatype 'e failure = Err 'e | Panic string

type_synonym ('a, 'e) res = "'e failure + 'a"

abbreviation Ok :: "'a \<Rightarrow> ('a, 'e) res" where
  "Ok \<equiv> Inr"

abbreviation Fail :: "'e \<Rightarrow> ('a, 'e) res" where
  "Fail e \<equiv> Inl (Err e)"

abbreviation Abort :: "string \<Rightarrow> ('a, 'e) res" where
  "Abort m \<equiv> Inl (Panic m)"

text \<open>The \<^verbatim>\<open>?\<close> operator.\<close>

definition bindR :: "('a, 'e) res \<Rightarrow> ('a \<Rightarrow> ('b, 'e) res) \<Rightarrow> ('b, 'e) res" where
  "bindR m k = (case m of Inl e \<Rightarrow> Inl e | Inr x \<Rightarrow> k x)"

text \<open>\<^verbatim>\<open>map_err\<close>, which does not see a panic.\<close>

fun map_err :: "('e \<Rightarrow> 'f) \<Rightarrow> ('a, 'e) res \<Rightarrow> ('a, 'f) res" where
  "map_err f (Inl (Err e)) = Inl (Err (f e))"
| "map_err f (Inl (Panic m)) = Inl (Panic m)"
| "map_err f (Inr x) = Inr x"

definition ok_or :: "'e \<Rightarrow> 'a option \<Rightarrow> ('a, 'e) res" where
  "ok_or e x = (case x of None \<Rightarrow> Inl (Err e) | Some y \<Rightarrow> Inr y)"

text \<open>\<^verbatim>\<open>unwrap\<close> of an option.\<close>

definition unwrap :: "'a option \<Rightarrow> ('a, 'e) res" where
  "unwrap x = (case x of None \<Rightarrow> Inl (Panic ''unwrap on None'') | Some y \<Rightarrow> Inr y)"

text \<open>An early return \<^verbatim>\<open>if c { return Err(e) }\<close>.\<close>

definition fail_if :: "bool \<Rightarrow> 'e \<Rightarrow> (unit, 'e) res" where
  "fail_if c e = (if c then Inl (Err e) else Inr ())"

fun is_Ok :: "('a, 'e) res \<Rightarrow> bool" where
  "is_Ok (Inl _) = False"
| "is_Ok (Inr _) = True"

lemma bindR_simps [simp, res_simps]:
  "bindR (Inl e) k = Inl e" "bindR (Inr x) k = k x"
  by (simp_all add: bindR_def)

lemma bindR_eq_Inr: "bindR m k = Inr y \<longleftrightarrow> (\<exists>x. m = Inr x \<and> k x = Inr y)"
  by (cases m) simp_all

lemma bindR_OkE:
  assumes "bindR m k = Inr y"
  obtains x where "m = Inr x" "k x = Inr y"
  using assms by (auto simp: bindR_eq_Inr)

lemma bindR_eq_Inl: "bindR m k = Inl e \<longleftrightarrow> m = Inl e \<or> (\<exists>x. m = Inr x \<and> k x = Inl e)"
  by (cases m) auto

lemma map_err_eq_Inr [simp]: "map_err f m = Inr x \<longleftrightarrow> m = Inr x"
  by (cases "(f, m)" rule: map_err.cases) auto

lemma map_err_eq_Err: "map_err f m = Inl (Err e') \<longleftrightarrow> (\<exists>e. m = Inl (Err e) \<and> e' = f e)"
  by (cases "(f, m)" rule: map_err.cases) auto

lemma ok_or_simps [simp, res_simps]:
  "ok_or e None = Inl (Err e)" "ok_or e (Some x) = Inr x"
  by (simp_all add: ok_or_def)

lemma ok_or_eq_Inr [simp]: "ok_or e x = Inr y \<longleftrightarrow> x = Some y"
  by (cases x) simp_all

lemma unwrap_simps [simp, res_simps]:
  "unwrap None = Inl (Panic ''unwrap on None'')" "unwrap (Some x) = Inr x"
  by (simp_all add: unwrap_def)

lemma unwrap_eq_Inr [simp]: "unwrap x = Inr y \<longleftrightarrow> x = Some y"
  by (cases x) simp_all

lemma fail_if_eq_Inr [simp]: "fail_if c e = Inr u \<longleftrightarrow> \<not> c"
  by (simp add: fail_if_def)

lemma fail_if_simps [simp, res_simps]:
  "fail_if True e = Inl (Err e)" "fail_if False e = Inr ()"
  by (simp_all add: fail_if_def)

fun is_panic :: "('a, 'e) res \<Rightarrow> bool" where
  "is_panic (Inl (Panic _)) = True"
| "is_panic _ = False"

lemma is_panic_iff: "is_panic r \<longleftrightarrow> (\<exists>e. r = Abort e)"
  by (cases r rule: is_panic.cases) auto

lemma is_Ok_iff: "is_Ok r \<longleftrightarrow> (\<exists>x. r = Inr x)"
  by (cases r) simp_all

section \<open>Actions\<close>

type_synonym ('s, 'a, 'e) act = "'s \<Rightarrow> ('a, 'e) res \<times> 's"

definition retA :: "'a \<Rightarrow> ('s, 'a, 'e) act" where
  "retA x = (\<lambda>s. (Inr x, s))"

definition failA :: "'e \<Rightarrow> ('s, 'a, 'e) act" where
  "failA e = (\<lambda>s. (Inl (Err e), s))"

definition liftA :: "('a, 'e) res \<Rightarrow> ('s, 'a, 'e) act" where
  "liftA r = (\<lambda>s. (r, s))"

definition getA :: "('s \<Rightarrow> ('a, 'e) res) \<Rightarrow> ('s, 'a, 'e) act" where
  "getA f = (\<lambda>s. (f s, s))"

definition modA :: "('s \<Rightarrow> 's) \<Rightarrow> ('s, unit, 'e) act" where
  "modA f = (\<lambda>s. (Inr (), f s))"

definition bindA :: "('s, 'a, 'e) act \<Rightarrow> ('a \<Rightarrow> ('s, 'b, 'e) act) \<Rightarrow> ('s, 'b, 'e) act" where
  "bindA m k = (\<lambda>s. case m s of (Inl e, t) \<Rightarrow> (Inl e, t) | (Inr x, t) \<Rightarrow> k x t)"

text \<open>The state of a component inside the state of its user, with the error converted as
  \<^verbatim>\<open>#[from]\<close> does.\<close>

definition zoomA :: "('s \<Rightarrow> 't) \<Rightarrow> ('t \<Rightarrow> 's \<Rightarrow> 's) \<Rightarrow> ('e \<Rightarrow> 'f) \<Rightarrow> ('t, 'a, 'e) act \<Rightarrow> ('s, 'a, 'f) act" where
  "zoomA get put f m = (\<lambda>s. case m (get s) of (r, t) \<Rightarrow> (map_err f r, put t s))"

text \<open>A \<^verbatim>\<open>for\<close> loop whose body is an action.\<close>

fun forA :: "('x \<Rightarrow> ('s, unit, 'e) act) \<Rightarrow> 'x list \<Rightarrow> ('s, unit, 'e) act" where
  "forA f [] = retA ()"
| "forA f (x # xs) = bindA (f x) (\<lambda>_. forA f xs)"

lemma act_simps [simp, res_simps]:
  "retA x s = (Inr x, s)"
  "failA e s = (Inl (Err e), s)"
  "liftA r s = (r, s)"
  "getA f s = (f s, s)"
  "modA g s = (Inr (), g s)"
  by (simp_all add: retA_def failA_def liftA_def getA_def modA_def)

lemma bindA_run [res_simps]:
  "bindA m k s = (case m s of (Inl e, t) \<Rightarrow> (Inl e, t) | (Inr x, t) \<Rightarrow> k x t)"
  by (simp add: bindA_def)

lemma bindA_simps [simp]:
  "bindA (retA x) k = k x"
  "bindA (failA e) k = failA e"
  "bindA (liftA (Inr x)) k = k x"
  "bindA (liftA (Inl fl)) k = liftA (Inl fl)"
  by (simp_all add: bindA_def fun_eq_iff)

lemma bindA_eq_Inr:
  "bindA m k s = (Inr y, u) \<longleftrightarrow> (\<exists>x t. m s = (Inr x, t) \<and> k x t = (Inr y, u))"
  by (auto simp: bindA_def split: prod.splits sum.splits)

lemma bindA_OkE:
  assumes "bindA m k s = (Inr y, u)"
  obtains x t where "m s = (Inr x, t)" "k x t = (Inr y, u)"
  using assms by (auto simp: bindA_eq_Inr)

lemma zoomA_eq_Inr:
  "zoomA g p f m s = (Inr x, t) \<longleftrightarrow> (\<exists>u. m (g s) = (Inr x, u) \<and> t = p u s)"
  by (auto simp: zoomA_def split: prod.splits)

section \<open>Predicates every run of an action keeps\<close>

text \<open>
  \<open>keeps P m\<close>: whatever the result of \<open>m\<close>, error and panic included, the state it leaves
  satisfies \<open>P\<close> if the state it started from did.
\<close>

definition keeps :: "('s \<Rightarrow> bool) \<Rightarrow> ('s, 'a, 'e) act \<Rightarrow> bool" where
  "keeps P m \<longleftrightarrow> (\<forall>s. P s \<longrightarrow> P (snd (m s)))"

lemma keepsI: "(\<And>s. P s \<Longrightarrow> P (snd (m s))) \<Longrightarrow> keeps P m"
  by (simp add: keeps_def)

lemma keepsD: "keeps P m \<Longrightarrow> P s \<Longrightarrow> P (snd (m s))"
  by (simp add: keeps_def)

lemma keeps_simple [simp, inv_intros]:
  "keeps P (retA x)" "keeps P (failA e)" "keeps P (liftA r)" "keeps P (getA f)"
  by (simp_all add: keeps_def)

lemma keeps_modA [inv_intros]: "(\<And>s. P s \<Longrightarrow> P (f s)) \<Longrightarrow> keeps P (modA f)"
  by (simp add: keeps_def)

lemma keeps_bindA [inv_intros]:
  assumes "keeps P m" and "\<And>x. keeps P (k x)"
  shows "keeps P (bindA m k)"
  using assms by (auto simp: keeps_def bindA_def split: prod.splits sum.splits)

lemma keeps_forA [inv_intros]: "(\<And>x. keeps P (f x)) \<Longrightarrow> keeps P (forA f xs)"
  by (induction xs) (auto intro: inv_intros)

lemma keeps_zoomA [inv_intros]:
  assumes "\<And>s. P s \<Longrightarrow> P (p (snd (m (g s))) s)"
  shows "keeps P (zoomA g p f m)"
  using assms by (auto simp: keeps_def zoomA_def split: prod.splits) (metis snd_conv)

lemma keeps_option [inv_intros]:
  "keeps P a \<Longrightarrow> (\<And>y. keeps P (b y)) \<Longrightarrow> keeps P (case x of None \<Rightarrow> a | Some y \<Rightarrow> b y)"
  by (cases x) simp_all

lemma keeps_prod [inv_intros]: "(\<And>a b. keeps P (f a b)) \<Longrightarrow> keeps P (case x of (a, b) \<Rightarrow> f a b)"
  by (cases x) simp

lemma keeps_sum [inv_intros]:
  "(\<And>a. keeps P (f a)) \<Longrightarrow> (\<And>b. keeps P (g b)) \<Longrightarrow> keeps P (case x of Inl a \<Rightarrow> f a | Inr b \<Rightarrow> g b)"
  by (cases x) simp_all

lemma keeps_if [inv_intros]: "keeps P m \<Longrightarrow> keeps P n \<Longrightarrow> keeps P (if c then m else n)"
  by simp

end
