(* ===== verification/Rust_Str.thy ===== *)
theory Rust_Str
  imports Prelude "HOL-Library.Char_ord" "HOL-Library.List_Lexorder" "HOL-Library.Sublist"
begin

text \<open>
  The string operations the code uses. A Rust \<^verbatim>\<open>String\<close> is modelled by its UTF-8 bytes, a
  HOL \<open>string\<close> (a \<open>char\<close> is a byte): the order of \<^verbatim>\<open>str\<close>, its prefixes and its
  replacements are the ones of the byte sequences. \<^verbatim>\<open>char::MAX\<close> (U+10FFFF), which the
  database uses as a separator, is four bytes.
\<close>

section \<open>Prefixes and replacement\<close>

definition starts_with :: "string \<Rightarrow> string \<Rightarrow> bool" where
  "starts_with p s \<longleftrightarrow> take (length p) s = p"

definition strip_prefix :: "string \<Rightarrow> string \<Rightarrow> string option" where
  "strip_prefix p s = (if starts_with p s then Some (drop (length p) s) else None)"

lemma starts_with_prefix: "starts_with p s \<longleftrightarrow> prefix p s"
  by (auto simp: starts_with_def prefix_def) (metis append_take_drop_id)

lemma starts_with_append [simp]: "starts_with p (p @ s)"
  by (simp add: starts_with_def)

lemma starts_with_Nil [simp]: "starts_with [] s"
  by (simp add: starts_with_def)

text \<open>\<^verbatim>\<open>str::replace(pat, "")\<close>: every occurrence of the pattern goes, from the left. An
  empty pattern leaves the string as it is, since the replacement is empty too.\<close>

function remove_all :: "string \<Rightarrow> string \<Rightarrow> string" where
  "remove_all p [] = []"
| "remove_all p (c # cs) =
     (if p \<noteq> [] \<and> starts_with p (c # cs) then remove_all p (drop (length p) (c # cs))
      else c # remove_all p cs)"
  by pat_completeness auto
termination
  by (relation "measure (\<lambda>(p, s). length s)") auto

lemma remove_all_Nil [simp]: "remove_all [] s = s"
  by (induction s) simp_all

lemma remove_all_prefix: "p \<noteq> [] \<Longrightarrow> remove_all p (p @ s) = remove_all p s"
  by (cases p) (simp_all add: starts_with_def)

lemma remove_all_no_occ: "\<not> sublist p s \<Longrightarrow> remove_all p s = s"
proof (induction s)
  case (Cons c cs)
  then have "\<not> sublist p cs" and "\<not> starts_with p (c # cs)"
    by (auto simp: sublist_Cons_right starts_with_prefix)
  with Cons.IH show ?case by simp
qed simp

section \<open>Hexadecimal and decimal numerals\<close>

definition hex_digit :: "nat \<Rightarrow> char" where
  "hex_digit n = char_of (if n < 10 then 48 + n else 87 + n)"

text \<open>\<open>hexn k n\<close>: the \<open>k\<close> low hexadecimal digits of \<open>n\<close>, as \<^verbatim>\<open>format!("{:0kx}")\<close> prints a
  number below \<open>16 ^ k\<close>.\<close>

fun hexn :: "nat \<Rightarrow> nat \<Rightarrow> string" where
  "hexn 0 n = []"
| "hexn (Suc k) n = hexn k (n div 16) @ [hex_digit (n mod 16)]"

fun decimal :: "nat \<Rightarrow> string" where
  "decimal n = (if n < 10 then [char_of (48 + n)] else decimal (n div 10) @ [char_of (48 + n mod 10)])"

declare decimal.simps [simp del]

definition decimal_int :: "int \<Rightarrow> string" where
  "decimal_int i = (if i < 0 then CHR ''-'' # decimal (nat (- i)) else decimal (nat i))"

lemma length_hexn [simp]: "length (hexn k n) = k"
  by (induction k arbitrary: n) simp_all

lemma hex_digit_code:
  "n < 16 \<Longrightarrow> (of_char (hex_digit n) :: nat) = (if n < 10 then 48 + n else 87 + n)"
  by (auto simp: hex_digit_def)

lemma hex_digit_less_iff:
  assumes "a < 16" "b < 16"
  shows "hex_digit a < hex_digit b \<longleftrightarrow> a < b"
proof -
  have "hex_digit a < hex_digit b \<longleftrightarrow> (of_char (hex_digit a) :: nat) < of_char (hex_digit b)"
    by (simp add: less_char_def)
  also have "\<dots> \<longleftrightarrow> a < b"
    using assms by (auto simp: hex_digit_code)
  finally show ?thesis .
qed

lemma hex_digit_eq_iff:
  assumes "a < 16" "b < 16"
  shows "hex_digit a = hex_digit b \<longleftrightarrow> a = b"
  by (metis assms hex_digit_less_iff less_irrefl linorder_neqE_nat)

lemma hexn_eq_iff: "n < 16 ^ k \<Longrightarrow> m < 16 ^ k \<Longrightarrow> hexn k n = hexn k m \<longleftrightarrow> n = m"
proof (induction k arbitrary: n m)
  case (Suc k)
  have "n div 16 < 16 ^ k" "m div 16 < 16 ^ k"
    using Suc.prems by (auto simp: div_less_iff_less_mult mult.commute)
  then have "hexn (Suc k) n = hexn (Suc k) m \<longleftrightarrow> n div 16 = m div 16 \<and> n mod 16 = m mod 16"
    using Suc.IH by (simp add: hex_digit_eq_iff)
  also have "\<dots> \<longleftrightarrow> n = m"
    by (metis div_mult_mod_eq)
  finally show ?case .
qed simp

text \<open>Lists of one length are compared like numbers: the order of the last element decides
  only where the others agree.\<close>

lemma list_less_snoc:
  "length xs = length ys \<Longrightarrow>
     (xs @ [x] :: 'a :: linorder list) < ys @ [y] \<longleftrightarrow> xs < ys \<or> xs = ys \<and> x < y"
  by (induction xs ys rule: list_induct2) auto

lemma list_less_append:
  "length xs = length ys \<Longrightarrow> (xs :: 'a :: linorder list) < ys \<Longrightarrow> xs @ us < ys @ vs"
  by (induction xs ys rule: list_induct2) auto

lemma list_less_append_same [simp]:
  "((xs :: 'a :: linorder list) @ us < xs @ vs) \<longleftrightarrow> us < vs"
  by (induction xs) auto

lemma hexn_less_iff: "n < 16 ^ k \<Longrightarrow> m < 16 ^ k \<Longrightarrow> hexn k n < hexn k m \<longleftrightarrow> n < m"
proof (induction k arbitrary: n m)
  case (Suc k)
  have lt: "n div 16 < 16 ^ k" "m div 16 < 16 ^ k"
    using Suc.prems by (auto simp: div_less_iff_less_mult mult.commute)
  then have "hexn (Suc k) n < hexn (Suc k) m \<longleftrightarrow>
      n div 16 < m div 16 \<or> n div 16 = m div 16 \<and> n mod 16 < m mod 16"
    using Suc.IH by (simp add: list_less_snoc hexn_eq_iff hex_digit_less_iff)
  also have "\<dots> \<longleftrightarrow> n < m"
  proof -
    have digits: "a < c \<or> a = c \<and> b < d \<longleftrightarrow> a * 16 + b < c * 16 + d"
      if "b < 16" "d < 16" for a b c d :: nat
      using that by arith
    show ?thesis
      using digits [of "n mod 16" "m mod 16" "n div 16" "m div 16"] by simp
  qed
  finally show ?case .
qed simp

text \<open>Every character of these numerals is below \<open>128\<close>, so none is a byte of the separator.\<close>

definition ascii :: "string \<Rightarrow> bool" where
  "ascii s \<longleftrightarrow> list_all (\<lambda>c. (of_char c :: nat) < 128) s"

lemma ascii_simps [simp]:
  "ascii []" "ascii (c # cs) \<longleftrightarrow> (of_char c :: nat) < 128 \<and> ascii cs"
  "ascii (xs @ ys) \<longleftrightarrow> ascii xs \<and> ascii ys"
  by (auto simp: ascii_def)

lemma ascii_hexn [simp]: "ascii (hexn k n)"
  by (induction k arbitrary: n) (auto simp: hex_digit_code)

lemma decimal_digit_code: "d < 10 \<Longrightarrow> (of_char (char_of (48 + d) :: char) :: nat) = 48 + d"
  by simp

lemma ascii_decimal [simp]: "ascii (decimal n)"
proof (induction n rule: decimal.induct)
  case (1 n)
  show ?case
  proof (cases "n < 10")
    case True
    then show ?thesis by (simp add: decimal.simps [of n] decimal_digit_code)
  next
    case False
    have "n mod 10 < 10" by simp
    with False 1 show ?thesis by (simp add: decimal.simps [of n] decimal_digit_code)
  qed
qed

lemma decimal_digit_not_space: "(d :: nat) < 10 \<Longrightarrow> char_of (48 + d) \<noteq> CHR '' ''"
proof
  assume d: "d < 10" and "char_of (48 + d) = CHR '' ''"
  then have "(of_char (char_of (48 + d) :: char) :: nat) = of_char (CHR '' '')" by metis
  with d show False by simp
qed

lemma space_notin_decimal: "CHR '' '' \<notin> set (decimal n)"
proof (induction n rule: decimal.induct)
  case (1 n)
  show ?case
  proof (cases "n < 10")
    case True
    then show ?thesis using decimal_digit_not_space [of n] by (simp add: decimal.simps [of n])
  next
    case False
    with 1 show ?thesis
      using decimal_digit_not_space [of "n mod 10"] by (simp add: decimal.simps [of n])
  qed
qed

lemma space_notin_decimal_int: "CHR '' '' \<notin> set (decimal_int i)"
  by (auto simp: decimal_int_def space_notin_decimal)

end
