(* ===== verification/BTree.thy ===== *)
theory BTree
  imports Rust_Str
begin

text \<open>
  Rust's ordered map \<^verbatim>\<open>BTreeMap\<close>, which the in-memory database and the JSON objects use:
  the sequence of its entries in key order. The operations keep that order.
\<close>

type_synonym ('k, 'v) btree = "('k \<times> 'v) list"

definition bt_inv :: "('k :: linorder, 'v) btree \<Rightarrow> bool" where
  "bt_inv m \<longleftrightarrow> sorted_wrt (<) (map fst m)"

fun bt_insert :: "'k :: linorder \<Rightarrow> 'v \<Rightarrow> ('k, 'v) btree \<Rightarrow> ('k, 'v) btree" where
  "bt_insert k v [] = [(k, v)]"
| "bt_insert k v ((k', v') # m) =
     (if k < k' then (k, v) # (k', v') # m
      else if k = k' then (k, v) # m
      else (k', v') # bt_insert k v m)"

fun bt_remove :: "'k :: linorder \<Rightarrow> ('k, 'v) btree \<Rightarrow> ('k, 'v) btree" where
  "bt_remove k [] = []"
| "bt_remove k ((k', v') # m) = (if k = k' then m else (k', v') # bt_remove k m)"

abbreviation bt_get :: "('k, 'v) btree \<Rightarrow> 'k \<Rightarrow> 'v option" where
  "bt_get m \<equiv> map_of m"

lemma bt_inv_simps [simp]:
  "bt_inv []"
  "bt_inv ((k, v) # m) \<longleftrightarrow> (\<forall>x \<in> set (map fst m). k < x) \<and> bt_inv m"
  by (auto simp: bt_inv_def)

lemma bt_inv_distinct: "bt_inv m \<Longrightarrow> distinct (map fst m)"
  by (simp add: bt_inv_def strict_sorted_iff)

lemma set_bt_insert_keys: "fst ` set (bt_insert k v m) = insert k (fst ` set m)"
  by (induction k v m rule: bt_insert.induct) auto

lemma set_bt_remove_keys: "bt_inv m \<Longrightarrow> fst ` set (bt_remove k m) = fst ` set m - {k}"
  by (induction k m rule: bt_remove.induct) auto

lemma bt_inv_insert [simp]: "bt_inv m \<Longrightarrow> bt_inv (bt_insert k v m)"
  by (induction k v m rule: bt_insert.induct) (auto simp: set_bt_insert_keys)

lemma bt_inv_remove [simp]: "bt_inv m \<Longrightarrow> bt_inv (bt_remove k m)"
  by (induction k m rule: bt_remove.induct) (auto simp: set_bt_remove_keys)

lemma bt_get_insert: "bt_get (bt_insert k v m) = (bt_get m)(k \<mapsto> v)"
  by (induction k v m rule: bt_insert.induct) auto

lemma bt_get_remove: "bt_inv m \<Longrightarrow> bt_get (bt_remove k m) = (bt_get m)(k := None)"
proof (induction k m rule: bt_remove.induct)
  case (2 k k' v' m)
  have "bt_get m k' = None" if "bt_inv ((k', v') # m)"
    using that by (auto simp: map_of_eq_None_iff)
  with 2 show ?case by (auto simp: fun_eq_iff)
qed simp

lemma bt_insert_last: "\<forall>x \<in> set (map fst m). x < k \<Longrightarrow> bt_insert k v m = m @ [(k, v)]"
  by (induction k v m rule: bt_insert.induct) auto

lemma bt_inv_append:
  "bt_inv (m @ n) \<longleftrightarrow> bt_inv m \<and> bt_inv n \<and> (\<forall>x \<in> fst ` set m. \<forall>y \<in> fst ` set n. x < y)"
  by (auto simp: bt_inv_def sorted_wrt_append)

text \<open>Two ordered maps with the same look-ups are the same sequence.\<close>

lemma bt_canonical:
  assumes "bt_inv m"
  shows "m = map (\<lambda>k. (k, the (bt_get m k))) (map fst m)"
proof (rule nth_equalityI)
  fix i assume "i < length m"
  then have "m ! i \<in> set m" by simp
  then have "bt_get m (fst (m ! i)) = Some (snd (m ! i))"
    using bt_inv_distinct [OF assms] by (metis map_of_is_SomeI prod.collapse)
  with \<open>i < length m\<close> show "m ! i = map (\<lambda>k. (k, the (bt_get m k))) (map fst m) ! i"
    by (simp add: prod_eq_iff)
qed simp

lemma bt_ext:
  assumes "bt_inv m" "bt_inv n" "bt_get m = bt_get n"
  shows "m = n"
proof -
  have "fst ` set m = fst ` set n"
    using assms(3) by (metis dom_map_of_conv_image_fst)
  then have "map fst m = map fst n"
    using assms(1,2) unfolding bt_inv_def by (metis list.set_map strict_sorted_equal)
  then show ?thesis
    using bt_canonical [OF assms(1)] bt_canonical [OF assms(2)] assms(3) by metis
qed

end
