(* ===== verification/Json_Value.thy ===== *)
theory Json_Value
  imports BTree
begin

text \<open>
  JSON values and the wrapper that gives them a borsh encoding
  (\<^verbatim>\<open>commons/models/value_wrapper.rs\<close>). The borsh encoders and decoders of the primitive
  types are parameters; the layout built from them is the code's.
\<close>

section \<open>Values\<close>

text \<open>\<^verbatim>\<open>serde_json::Value\<close>. A number is an integer in the range of \<^verbatim>\<open>i64\<close> or \<^verbatim>\<open>u64\<close>, or a finite
  \<^verbatim>\<open>f64\<close>, kept as its 64 bits. An object is a \<^verbatim>\<open>BTreeMap\<close> from strings.\<close>

datatype json_number = NInt int | NFloat u64

datatype json =
    JNull
  | JBool bool
  | JNumber json_number
  | JString string
  | JArray "json list"
  | JObject "(string \<times> json) list"

fun json_as_str :: "json \<Rightarrow> string option" where
  "json_as_str (JString s) = Some s"
| "json_as_str _ = None"

fun json_as_array :: "json \<Rightarrow> json list option" where
  "json_as_array (JArray xs) = Some xs"
| "json_as_array _ = None"

fun json_get :: "json \<Rightarrow> string \<Rightarrow> json option" where
  "json_get (JObject m) k = bt_get m k"
| "json_get _ k = None"

definition is_f64 :: "json_number \<Rightarrow> bool" where
  "is_f64 n = (case n of NFloat _ \<Rightarrow> True | NInt _ \<Rightarrow> False)"

definition is_i64 :: "json_number \<Rightarrow> bool" where
  "is_i64 n = (case n of NFloat _ \<Rightarrow> False | NInt i \<Rightarrow> - (2 ^ 63) \<le> i \<and> i < 2 ^ 63)"

definition is_u64 :: "json_number \<Rightarrow> bool" where
  "is_u64 n = (case n of NFloat _ \<Rightarrow> False | NInt i \<Rightarrow> 0 \<le> i \<and> i < 2 ^ 64)"

definition f64_bits :: "json_number \<Rightarrow> u64" where
  "f64_bits n = (case n of NFloat b \<Rightarrow> b | NInt _ \<Rightarrow> 0)"

definition int_of_number :: "json_number \<Rightarrow> int" where
  "int_of_number n = (case n of NFloat _ \<Rightarrow> 0 | NInt i \<Rightarrow> i)"

text \<open>An \<^verbatim>\<open>f64\<close> is finite unless its exponent bits are all ones.\<close>

definition f64_finite :: "u64 \<Rightarrow> bool" where
  "f64_finite b \<longleftrightarrow> (unat b div 2 ^ 52) mod 2 ^ 11 \<noteq> 2 ^ 11 - 1"

section \<open>The borsh primitives\<close>

text \<open>An encoder gives the bytes it writes; a decoder takes the bytes left to read and gives the
  value with the rest, or nothing on an error.\<close>

record prims =
  wr_u8 :: "u8 \<Rightarrow> bytes"
  wr_bool :: "bool \<Rightarrow> bytes"
  wr_u32 :: "u32 \<Rightarrow> bytes"
  wr_64 :: "u64 \<Rightarrow> bytes"
  wr_str :: "string \<Rightarrow> bytes"
  rd_u8 :: "bytes \<Rightarrow> (u8 \<times> bytes) option"
  rd_bool :: "bytes \<Rightarrow> (bool \<times> bytes) option"
  rd_u32 :: "bytes \<Rightarrow> (u32 \<times> bytes) option"
  rd_64 :: "bytes \<Rightarrow> (u64 \<times> bytes) option"
  rd_str :: "bytes \<Rightarrow> (string \<times> bytes) option"

text \<open>What the code relies on: a decoder reads back what the encoder wrote and leaves the rest; a
  string has a 32-bit length.\<close>

definition prims_ok :: "prims \<Rightarrow> bool" where
  "prims_ok P \<longleftrightarrow>
     (\<forall>x r. rd_u8 P (wr_u8 P x @ r) = Some (x, r)) \<and>
     (\<forall>x r. rd_bool P (wr_bool P x @ r) = Some (x, r)) \<and>
     (\<forall>x r. rd_u32 P (wr_u32 P x @ r) = Some (x, r)) \<and>
     (\<forall>x r. rd_64 P (wr_64 P x @ r) = Some (x, r)) \<and>
     (\<forall>x r. length x < 2 ^ 32 \<longrightarrow> rd_str P (wr_str P x @ r) = Some (x, r))"

section \<open>Encoding\<close>

datatype io_error = InvalidData string | InvalidInput string | ReadError

text \<open>The 64-bit fields \<^verbatim>\<open>i64\<close>, \<^verbatim>\<open>u64\<close> and \<^verbatim>\<open>f64\<close> are written as the words that hold them.\<close>

definition ser_number :: "prims \<Rightarrow> json_number \<Rightarrow> (bytes, io_error) res" where
  "ser_number P n =
     (if is_f64 n then Ok (wr_u8 P 0 @ wr_64 P (f64_bits n))
      else if is_i64 n then Ok (wr_u8 P 1 @ wr_64 P (word_of_int (int_of_number n)))
      else if is_u64 n then Ok (wr_u8 P 2 @ wr_64 P (word_of_int (int_of_number n)))
      else Fail (InvalidData ''Invalid number type''))"

fun ser_value :: "prims \<Rightarrow> json \<Rightarrow> (bytes, io_error) res"
  and ser_elements :: "prims \<Rightarrow> json list \<Rightarrow> (bytes, io_error) res"
  and ser_entries :: "prims \<Rightarrow> (string \<times> json) list \<Rightarrow> (bytes, io_error) res" where
  "ser_value P (JBool b) = Ok (wr_u8 P 0 @ wr_bool P b)"
| "ser_value P (JNumber n) = bindR (ser_number P n) (\<lambda>b. Ok (wr_u8 P 1 @ b))"
| "ser_value P (JString s) = Ok (wr_u8 P 2 @ wr_str P s)"
| "ser_value P (JArray xs) =
     bindR (ser_elements P xs) (\<lambda>b. Ok (wr_u8 P 3 @ wr_u32 P (of_nat (length xs)) @ b))"
| "ser_value P (JObject m) =
     bindR (ser_entries P m) (\<lambda>b. Ok (wr_u8 P 4 @ wr_u32 P (of_nat (length m)) @ b))"
| "ser_value P JNull = Ok (wr_u8 P 5)"
| "ser_elements P [] = Ok []"
| "ser_elements P (x # xs) =
     bindR (ser_value P x) (\<lambda>a. bindR (ser_elements P xs) (\<lambda>b. Ok (a @ b)))"
| "ser_entries P [] = Ok []"
| "ser_entries P ((k, v) # m) =
     bindR (ser_value P v) (\<lambda>a. bindR (ser_entries P m) (\<lambda>b. Ok (wr_str P k @ a @ b)))"

section \<open>Decoding\<close>

text \<open>
  The decoder recurses on what it reads, so its recursion is bounded by fuel: one unit for each
  value entered. \<open>OutOfFuel\<close> is no behaviour of the code; \<open>decode_fuel\<close> below shows that one
  more unit than there are bytes is enough.
\<close>

datatype de_error = IO io_error | OutOfFuel

definition rd :: "('a \<times> bytes) option \<Rightarrow> ('a \<times> bytes, de_error) res" where
  "rd x = ok_or (IO ReadError) x"

text \<open>\<^verbatim>\<open>Number::from_f64(data).unwrap()\<close> panics on an infinity or a NaN.\<close>

definition de_number :: "prims \<Rightarrow> bytes \<Rightarrow> (json_number \<times> bytes, de_error) res" where
  "de_number P bs =
     bindR (rd (rd_u8 P bs)) (\<lambda>(order, r).
       if order = 0 then bindR (rd (rd_64 P r)) (\<lambda>(x, r).
         if f64_finite x then Ok (NFloat x, r) else Abort ''unwrap on None'')
       else if order = 1 then bindR (rd (rd_64 P r)) (\<lambda>(x, r). Ok (NInt (sint x), r))
       else if order = 2 then bindR (rd (rd_64 P r)) (\<lambda>(x, r). Ok (NInt (uint x), r))
       else Fail (IO (InvalidInput ''Invalid Number representation'')))"

fun de_value :: "prims \<Rightarrow> nat \<Rightarrow> bytes \<Rightarrow> (json \<times> bytes, de_error) res"
  and de_elements :: "prims \<Rightarrow> nat \<Rightarrow> nat \<Rightarrow> bytes \<Rightarrow> (json list \<times> bytes, de_error) res"
  and de_entries :: "prims \<Rightarrow> nat \<Rightarrow> nat \<Rightarrow> (string \<times> json) list \<Rightarrow> bytes \<Rightarrow>
    ((string \<times> json) list \<times> bytes, de_error) res" where
  "de_value P 0 bs = Fail OutOfFuel"
| "de_value P (Suc f) bs =
     bindR (rd (rd_u8 P bs)) (\<lambda>(order, r).
       if order = 0 then bindR (rd (rd_bool P r)) (\<lambda>(b, r). Ok (JBool b, r))
       else if order = 1 then bindR (de_number P r) (\<lambda>(n, r). Ok (JNumber n, r))
       else if order = 2 then bindR (rd (rd_str P r)) (\<lambda>(s, r). Ok (JString s, r))
       else if order = 3 then
         bindR (rd (rd_u32 P r)) (\<lambda>(len, r).
           if len = 0 then Ok (JArray [], r)
           else bindR (de_elements P f (unat len) r) (\<lambda>(xs, r). Ok (JArray xs, r)))
       else if order = 4 then
         bindR (rd (rd_u32 P r)) (\<lambda>(len, r).
           bindR (de_entries P f (unat len) [] r) (\<lambda>(m, r). Ok (JObject m, r)))
       else if order = 5 then Ok (JNull, r)
       else Fail (IO (InvalidInput ''Invalid Value representation'')))"
| "de_elements P f 0 bs = Ok ([], bs)"
| "de_elements P f (Suc n) bs =
     bindR (de_value P f bs) (\<lambda>(x, r).
     bindR (de_elements P f n r) (\<lambda>(xs, r). Ok (x # xs, r)))"
| "de_entries P f 0 m bs = Ok (m, bs)"
| "de_entries P f (Suc n) m bs =
     bindR (rd (rd_str P bs)) (\<lambda>(k, r).
     bindR (de_value P f r) (\<lambda>(v, r).
     de_entries P f n (bt_insert k v m) r))"

section \<open>Round trip\<close>

text \<open>The values the code can hold: numbers in range, sizes that fit the 32-bit length, objects
  in key order.\<close>

fun number_wf :: "json_number \<Rightarrow> bool" where
  "number_wf (NInt i) \<longleftrightarrow> - (2 ^ 63) \<le> i \<and> i < 2 ^ 64"
| "number_wf (NFloat b) \<longleftrightarrow> f64_finite b"

fun json_wf :: "json \<Rightarrow> bool" where
  "json_wf (JNumber n) = number_wf n"
| "json_wf (JString s) \<longleftrightarrow> length s < 2 ^ 32"
| "json_wf (JArray xs) \<longleftrightarrow> length xs < 2 ^ 32 \<and> list_all json_wf xs"
| "json_wf (JObject m) \<longleftrightarrow> length m < 2 ^ 32 \<and> bt_inv m \<and> list_all (\<lambda>kv. length (fst kv) < 2 ^ 32 \<and> json_wf (snd kv)) m"
| "json_wf _ = True"

text \<open>The depth of a value: the fuel its decoding takes.\<close>

fun json_depth :: "json \<Rightarrow> nat" where
  "json_depth (JArray xs) = Suc (foldr (\<lambda>x d. max (json_depth x) d) xs 0)"
| "json_depth (JObject m) = Suc (foldr (\<lambda>kv d. max (json_depth (snd kv)) d) m 0)"
| "json_depth _ = Suc 0"

lemma json_depth_pos: "0 < json_depth v"
  by (cases v) simp_all

lemma rd_simps [simp]: "rd (Some x) = Ok x" "rd None = Fail (IO ReadError)"
  by (simp_all add: rd_def)

lemma prims_okD:
  assumes "prims_ok P"
  shows "rd_u8 P (wr_u8 P a @ r) = Some (a, r)" "rd_bool P (wr_bool P b @ r) = Some (b, r)"
    "rd_u32 P (wr_u32 P c @ r) = Some (c, r)" "rd_64 P (wr_64 P d @ r) = Some (d, r)"
    "length s < 2 ^ 32 \<Longrightarrow> rd_str P (wr_str P s @ r) = Some (s, r)"
  using assms by (simp_all add: prims_ok_def)

lemma uint_of_int_64: "0 \<le> i \<Longrightarrow> i < 2 ^ 64 \<Longrightarrow> uint (word_of_int i :: u64) = i"
  by (simp add: uint_word_of_int)

lemma sint_of_int_64: "- (2 ^ 63) \<le> i \<Longrightarrow> i < 2 ^ 63 \<Longrightarrow> sint (word_of_int i :: u64) = i"
  using signed_take_bit_int_eq_self_iff [of 63 i] by (simp add: sint_sbintrunc')

lemma de_number_ser:
  assumes "prims_ok P" "number_wf n" "ser_number P n = Ok bs"
  shows "de_number P (bs @ r) = Ok (n, r)"
proof (cases n)
  case (NInt i)
  then show ?thesis
    using assms
    by (auto simp: ser_number_def de_number_def is_f64_def is_i64_def is_u64_def prims_okD
        int_of_number_def uint_of_int_64 sint_of_int_64 split: if_splits)
next
  case (NFloat b)
  then show ?thesis
    using assms
    by (auto simp: ser_number_def de_number_def is_f64_def f64_bits_def prims_okD)
qed

lemma foldr_max_le_iff:
  "foldr (\<lambda>x d. max (f x) d) xs 0 \<le> (n :: nat) \<longleftrightarrow> (\<forall>x \<in> set xs. f x \<le> n)"
  by (induction xs) auto

lemma unat_of_nat_u32: "n < 2 ^ 32 \<Longrightarrow> unat (of_nat n :: u32) = n"
  by (simp add: unat_of_nat)

lemma of_nat_u32_eq_0: "n < 2 ^ 32 \<Longrightarrow> (of_nat n :: u32) = 0 \<longleftrightarrow> n = 0"
  using unat_of_nat_u32 [of n] by (auto simp: unat_eq_zero [symmetric] simp del: unat_eq_zero)

lemma value_codec:
  shows de_value_ser: "prims_ok P \<Longrightarrow> ser_value P v = Ok bs \<Longrightarrow> json_wf v \<Longrightarrow> json_depth v \<le> f \<Longrightarrow>
      de_value P f (bs @ r) = Ok (v, r)"
    and de_elements_ser: "prims_ok P \<Longrightarrow> ser_elements P xs = Ok bs \<Longrightarrow> list_all json_wf xs \<Longrightarrow>
      \<forall>x \<in> set xs. json_depth x \<le> f \<Longrightarrow> de_elements P f (length xs) (bs @ r) = Ok (xs, r)"
    and de_entries_ser: "prims_ok P \<Longrightarrow> ser_entries P m = Ok bs \<Longrightarrow> list_all (\<lambda>kv. length (fst kv) < 2 ^ 32 \<and> json_wf (snd kv)) m \<Longrightarrow>
      \<forall>kv \<in> set m. json_depth (snd kv) \<le> f \<Longrightarrow> bt_inv (m0 @ m) \<Longrightarrow>
      de_entries P f (length m) m0 (bs @ r) = Ok (m0 @ m, r)"
proof (induction P v and P xs and P m arbitrary: bs f r and bs f r and bs f r m0
    rule: ser_value_ser_elements_ser_entries.induct)
  case (1 P b)
  then show ?case by (cases f) (auto simp: prims_okD)
next
  case (2 P n)
  then obtain b where "ser_number P n = Ok b" "bs = wr_u8 P 1 @ b" by (auto simp: bindR_eq_Inr)
  with 2 show ?case by (cases f) (auto simp: prims_okD de_number_ser)
next
  case (3 P s)
  then show ?case by (cases f) (auto simp: prims_okD)
next
  case (4 P xs)
  then obtain f' where f: "f = Suc f'" by (cases f) auto
  from 4 f obtain b where b: "ser_elements P xs = Ok b"
      "bs = wr_u8 P 3 @ wr_u32 P (of_nat (length xs)) @ b"
    by (auto simp: bindR_eq_Inr)
  have "de_elements P f' (length xs) (b @ r) = Ok (xs, r)"
    using 4 b(1) f by (auto simp: foldr_max_le_iff)
  then show ?case
    using 4 f b by (auto simp: prims_okD unat_of_nat_u32 of_nat_u32_eq_0)
next
  case (5 P m)
  then obtain f' where f: "f = Suc f'" by (cases f) auto
  from 5 f obtain b where b: "ser_entries P m = Ok b"
      "bs = wr_u8 P 4 @ wr_u32 P (of_nat (length m)) @ b"
    by (auto simp: bindR_eq_Inr)
  have "de_entries P f' (length m) [] (b @ r) = Ok ([] @ m, r)"
    using 5 b(1) f by (intro 5(1)) (auto simp: foldr_max_le_iff)
  then show ?case
    using 5 f b by (auto simp: prims_okD unat_of_nat_u32)
next
  case (6 P)
  then show ?case by (cases f) (auto simp: prims_okD)
next
  case (7 P)
  then show ?case by simp
next
  case (8 P x xs)
  then show ?case by (auto simp: bindR_eq_Inr)
next
  case (9 P)
  then show ?case by simp
next
  case (10 P k v m)
  then obtain a b where ab: "ser_value P v = Ok a" "ser_entries P m = Ok b" "bs = wr_str P k @ a @ b"
    by (auto simp: bindR_eq_Inr)
  have "bt_insert k v m0 = m0 @ [(k, v)]"
    using 10 by (intro bt_insert_last) (auto simp: bt_inv_append)
  moreover have "de_value P f (a @ b @ r) = Ok (v, b @ r)"
    using 10 ab by auto
  moreover have "de_entries P f (length m) (m0 @ [(k, v)]) (b @ r) = Ok ((m0 @ [(k, v)]) @ m, r)"
    using 10 ab by (intro 10(2)) auto
  ultimately show ?case
    using 10 ab by (auto simp: prims_okD)
qed

text \<open>Every well-formed value has an encoding.\<close>

lemma ser_number_total: "number_wf n \<Longrightarrow> \<exists>b. ser_number P n = Ok b"
  by (cases n) (auto simp: ser_number_def is_f64_def is_i64_def is_u64_def)

lemma value_encodable:
  shows ser_value_total: "json_wf v \<Longrightarrow> \<exists>b. ser_value P v = Ok b"
    and ser_elements_total: "list_all json_wf xs \<Longrightarrow> \<exists>b. ser_elements P xs = Ok b"
    and ser_entries_total: "list_all (\<lambda>kv. length (fst kv) < 2 ^ 32 \<and> json_wf (snd kv)) m \<Longrightarrow> \<exists>b. ser_entries P m = Ok b"
  by (induction P v and P xs and P m rule: ser_value_ser_elements_ser_entries.induct)
    (auto simp: bindR_eq_Inr dest: ser_number_total)

section \<open>The decoder returns\<close>

text \<open>A reader takes what it reads from the front: at least one byte for a \<^verbatim>\<open>u8\<close>.\<close>

definition readers_ok :: "prims \<Rightarrow> bool" where
  "readers_ok P \<longleftrightarrow>
     (\<forall>bs x r. rd_u8 P bs = Some (x, r) \<longrightarrow> length r < length bs) \<and>
     (\<forall>bs x r. rd_bool P bs = Some (x, r) \<longrightarrow> length r \<le> length bs) \<and>
     (\<forall>bs x r. rd_u32 P bs = Some (x, r) \<longrightarrow> length r \<le> length bs) \<and>
     (\<forall>bs x r. rd_64 P bs = Some (x, r) \<longrightarrow> length r \<le> length bs) \<and>
     (\<forall>bs x r. rd_str P bs = Some (x, r) \<longrightarrow> length r \<le> length bs)"

lemma rd_eq: "rd x = Ok y \<longleftrightarrow> x = Some y" "rd x \<noteq> Fail OutOfFuel"
  by (cases x; simp)+

lemma readers_okD:
  assumes "readers_ok P"
  shows "rd_u8 P bs = Some (a, r) \<Longrightarrow> length r < length bs"
    "rd_bool P bs = Some (b, r) \<Longrightarrow> length r \<le> length bs"
    "rd_u32 P bs = Some (c, r) \<Longrightarrow> length r \<le> length bs"
    "rd_64 P bs = Some (d, r) \<Longrightarrow> length r \<le> length bs"
    "rd_str P bs = Some (s, r) \<Longrightarrow> length r \<le> length bs"
  using assms by (auto simp: readers_ok_def)

lemma de_number_shrinks:
  "readers_ok P \<Longrightarrow> de_number P bs = Ok (n, r) \<Longrightarrow> length r < length bs"
  by (auto simp: de_number_def bindR_eq_Inr rd_eq split: if_splits)
    (metis readers_okD(1,4) order_le_less_trans)+

lemma decode_shrinks:
  shows "readers_ok P \<Longrightarrow> de_value P f bs = Ok (v, r) \<Longrightarrow> length r < length bs"
    and "readers_ok P \<Longrightarrow> de_elements P f n bs = Ok (xs, r) \<Longrightarrow> length r \<le> length bs"
    and "readers_ok P \<Longrightarrow> de_entries P f n m bs = Ok (m', r) \<Longrightarrow> length r \<le> length bs"
proof (induction P f bs and P f n bs and P f n m bs arbitrary: v r and xs r and m' r
    rule: de_value_de_elements_de_entries.induct)
  case (2 P f bs)
  from 2(4) obtain b r0 where b: "rd_u8 P bs = Some (b, r0)"
    by (auto simp: bindR_eq_Inr rd_eq)
  then have r0: "length r0 < length bs" using 2(3) readers_okD(1) by blast
  have "length r \<le> length r0"
  proof -
    note S = readers_okD [OF 2(3)]
    consider "b = 0" | "b = 1" | "b = 2" | "b = 3" | "b = 4" | "b = 5" | "b \<notin> {0, 1, 2, 3, 4, 5}"
      by blast
    then show ?thesis
    proof cases
      case 1
      then show ?thesis using \<open>de_value P (Suc f) bs = _\<close> b S(2) by (auto simp: bindR_eq_Inr rd_eq)
    next
      case 2
      then show ?thesis
        using \<open>de_value P (Suc f) bs = _\<close> b de_number_shrinks [OF \<open>readers_ok P\<close>]
        by (fastforce simp: bindR_eq_Inr rd_eq)
    next
      case 3
      then show ?thesis using 2(4) b S(5) by (auto simp: bindR_eq_Inr rd_eq)
    next
      case 4
      then obtain len r1 where l: "rd_u32 P r0 = Some (len, r1)"
        and e: "len = 0 \<and> r1 = r \<or> len \<noteq> 0 \<and> (\<exists>xs. de_elements P f (unat len) r1 = Ok (xs, r))"
        using 2(4) b by (auto simp: bindR_eq_Inr rd_eq split: if_splits)
      then have "length r \<le> length r1"
        using 2(1) [of b len] 4 2(3) by auto
      then show ?thesis using S(3) [OF l] by simp
    next
      case 5
      then obtain len r1 m where l: "rd_u32 P r0 = Some (len, r1)"
        and e: "de_entries P f (unat len) [] r1 = Ok (m, r)"
        using 2(4) b by (auto simp: bindR_eq_Inr rd_eq split: if_splits)
      then have "length r \<le> length r1"
        using 2(2) [of b] 5 2(3) by auto
      then show ?thesis using S(3) [OF l] by simp
    next
      case 6
      then show ?thesis using 2(4) b by (auto simp: bindR_eq_Inr rd_eq)
    next
      case 7
      then show ?thesis using 2(4) b by (auto simp: bindR_eq_Inr rd_eq)
    qed
  qed
  then show ?case using r0 by simp
next
  case (4 P f n bs)
  then show ?case by (fastforce simp: bindR_eq_Inr)
next
  case (6 P f n m bs)
  then show ?case by (fastforce simp: bindR_eq_Inr rd_eq dest: readers_okD)
qed auto

lemma de_number_fuel: "de_number P bs \<noteq> Fail OutOfFuel"
  by (auto simp: de_number_def bindR_eq_Inl rd_eq split: if_splits)

text \<open>One more unit of fuel than there are bytes is enough, whatever the bytes are.\<close>

lemma decode_fuel:
  shows "readers_ok P \<Longrightarrow> length bs < f \<Longrightarrow> de_value P f bs \<noteq> Fail OutOfFuel"
    and "readers_ok P \<Longrightarrow> length bs < f \<Longrightarrow> de_elements P f n bs \<noteq> Fail OutOfFuel"
    and "readers_ok P \<Longrightarrow> length bs < f \<Longrightarrow> de_entries P f n m bs \<noteq> Fail OutOfFuel"
proof (induction P f bs and P f n bs and P f n m bs rule: de_value_de_elements_de_entries.induct)
  case (2 P f bs)
  show ?case
  proof (cases "rd_u8 P bs")
    case (Some x)
    obtain b r0 where x: "x = (b, r0)" by fastforce
    then have r0: "length r0 < f" using readers_okD(1) [OF 2(3), of bs b r0] Some 2(4) by simp
    have arr: "length r1 < f" if "rd_u32 P r0 = Some (len, r1)" for len r1
      using readers_okD(3) [OF 2(3) that] r0 by simp
    show ?thesis
      using Some x 2(1,2,3) de_number_fuel arr
      by (auto simp: bindR_eq_Inl rd_eq split: if_splits)
  qed simp
next
  case (4 P f n bs)
  then show ?case
    using decode_shrinks(1) [OF 4(3), of f bs] by (fastforce simp: bindR_eq_Inl)
next
  case (6 P f n m bs)
  have "length r < f" if "rd_str P bs = Some (k, r)" for k r
    using readers_okD(5) [OF 6(3) that] 6(4) by simp
  moreover have "length r' < f" if "rd_str P bs = Some (k, r)" "de_value P f r = Ok (v, r')" for k r v r'
    using readers_okD(5) [OF 6(3) that(1)] decode_shrinks(1) [OF 6(3) that(2)] 6(4) by simp
  ultimately show ?case
    using 6 by (fastforce simp: bindR_eq_Inl rd_eq)
qed auto

end
