(* ===== verification/Floats.thy ===== *)
theory Floats
  imports Json_Value
begin

text \<open>
  The floating-point arithmetic of a percentage quorum, \<^verbatim>\<open>(signers.len() as f64 * percentage).ceil()
  as u32\<close>, written out over the bits of a binary64: a finite value is \<open>m * 2 ^ k\<close> with integers
  \<open>m\<close> and \<open>k\<close>, results are rounded to 53 significant bits, ties to even, and the conversion to
  \<^verbatim>\<open>u32\<close> saturates.
\<close>

function bit_length :: "int \<Rightarrow> nat" where
  "bit_length n = (if n \<le> 0 then 0 else Suc (bit_length (n div 2)))"
  by auto
termination by (relation "measure nat") auto

declare bit_length.simps [simp del]

lemma bit_length_0 [simp]: "bit_length 0 = 0"
  by (simp add: bit_length.simps)

lemma bit_length_le: "n < 2 ^ k \<Longrightarrow> bit_length n \<le> k"
proof (induction n arbitrary: k rule: bit_length.induct)
  case (1 n)
  show ?case
  proof (cases "n \<le> 0")
    case False
    then obtain j where k: "k = Suc j"
      using 1(2) by (cases k) auto
    then have "n div 2 < 2 ^ j"
      using 1(2) by simp
    then show ?thesis
      using 1(1) False k by (simp add: bit_length.simps [of n])
  qed (simp add: bit_length.simps)
qed

section \<open>Decoding and encoding\<close>

text \<open>A finite binary64 as mantissa and exponent.\<close>

definition f64_exponent :: "u64 \<Rightarrow> int" where
  "f64_exponent b = (uint b div 2 ^ 52) mod 2 ^ 11"

definition f64_dyadic :: "u64 \<Rightarrow> int \<times> int" where
  "f64_dyadic b =
     (let s = (if uint b div 2 ^ 63 = 1 then -1 else 1);
          e = f64_exponent b;
          f = uint b mod 2 ^ 52
      in if e = 0 then (s * f, -1074) else (s * (2 ^ 52 + f), e - 1075))"

text \<open>Rounding to 53 bits, ties to even.\<close>

definition round_nat :: "int \<Rightarrow> int \<times> nat" where
  "round_nat n =
     (let b = bit_length n - 53;
          q = n div 2 ^ b;
          r = n mod 2 ^ b
      in if 2 * r < 2 ^ b \<or> (2 * r = 2 ^ b \<and> even q) then (q, b) else (q + 1, b))"

lemma round_nat_exact: "n < 2 ^ 53 \<Longrightarrow> round_nat n = (n, 0)"
  using bit_length_le [of n 53] by (simp add: round_nat_def)

text \<open>\<^verbatim>\<open>as f64\<close> of an integer of at most 64 bits.\<close>

definition f64_of_int :: "int \<Rightarrow> u64" where
  "f64_of_int i =
     (let (q, b) = round_nat \<bar>i\<bar>;
          k = bit_length q;
          f = (if k \<le> 53 then q * 2 ^ (53 - k) else q div 2)
      in if q = 0 then 0
         else word_of_int ((if i < 0 then 2 ^ 63 else 0) + (1022 + int k + int b) * 2 ^ 52 + (f - 2 ^ 52)))"

section \<open>The product and its ceiling\<close>

text \<open>\<^verbatim>\<open>ceil() as u32\<close> of \<open>m * 2 ^ k\<close>.\<close>

definition ceil_u32 :: "int \<times> int \<Rightarrow> u32" where
  "ceil_u32 v =
     (case v of (m, k) \<Rightarrow>
        let c = (if 0 \<le> k then m * 2 ^ nat k else - ((- m) div 2 ^ nat (- k)))
        in word_of_int (max 0 (min c (2 ^ 32 - 1))))"

definition percentage_of :: "nat \<Rightarrow> u64 \<Rightarrow> u32" where
  "percentage_of n p =
     (let (a, i) = round_nat (int n);
          (m, k) = f64_dyadic p;
          (q, b) = round_nat (a * \<bar>m\<bar>)
      in ceil_u32 ((if m < 0 then - q else q), k + int i + int b))"

lemma percentage_of_0 [simp]: "percentage_of 0 p = 0"
  by (cases "f64_dyadic p")
    (simp add: percentage_of_def round_nat_def ceil_u32_def Let_def)

text \<open>One, a half and a third of a few signers.\<close>

lemma percentage_examples:
  "percentage_of 4 0x3FE0000000000000 = 2" "percentage_of 5 0x3FE0000000000000 = 3"
  "percentage_of 7 0x3FF0000000000000 = 7" "percentage_of 3 0x3FD5555555555555 = 1"
  by code_simp+

end
