(* ===== verification/Gov_Models.thy ===== *)
theory Gov_Models
  imports Floats
begin

text \<open>
  The pieces of a governance document (\<^verbatim>\<open>commons/schema_handler/gov_models.rs\<close>) and their JSON
  form. \<open>X_of_json\<close> is \<^verbatim>\<open>serde_json::from_value::<X>\<close> and \<open>X_to_json\<close> is \<^verbatim>\<open>to_value\<close>; the error
  of a failed conversion is never looked at, so the result is an option. A structure with a
  derived \<^verbatim>\<open>Deserialize\<close> is read from an object, ignoring unknown fields, or from an array of
  exactly its fields.
\<close>

section \<open>Quorum\<close>

datatype quorum = MAJORITY | FIXED u32 | PERCENTAGE u64

fun quorum_to_json :: "quorum \<Rightarrow> json" where
  "quorum_to_json MAJORITY = JString ''MAJORITY''"
| "quorum_to_json (FIXED n) = JObject [(''FIXED'', JNumber (NInt (uint n)))]"
| "quorum_to_json (PERCENTAGE p) = JObject [(''PERCENTAGE'', JNumber (NFloat p))]"

fun u32_of_json :: "json \<Rightarrow> u32 option" where
  "u32_of_json (JNumber (NInt i)) = (if 0 \<le> i \<and> i < 2 ^ 32 then Some (word_of_int i) else None)"
| "u32_of_json _ = None"

fun f64_of_json :: "json \<Rightarrow> u64 option" where
  "f64_of_json (JNumber (NInt i)) = Some (f64_of_int i)"
| "f64_of_json (JNumber (NFloat b)) = Some b"
| "f64_of_json _ = None"

fun quorum_of_json :: "json \<Rightarrow> quorum option" where
  "quorum_of_json (JString s) = (if s = ''MAJORITY'' then Some MAJORITY else None)"
| "quorum_of_json (JObject [(k, v)]) =
     (if k = ''FIXED'' then map_option FIXED (u32_of_json v)
      else if k = ''PERCENTAGE'' then map_option PERCENTAGE (f64_of_json v)
      else None)"
| "quorum_of_json _ = None"

lemma quorum_json_roundtrip [simp]: "quorum_of_json (quorum_to_json q) = Some q"
  by (cases q) (use uint_lt2p [where 'a = 32] in auto)

section \<open>Who\<close>

datatype who = WhoID string | WhoNAME string | WhoMEMBERS | WhoALL | WhoNOT_MEMBERS

fun who_to_json :: "who \<Rightarrow> json" where
  "who_to_json (WhoID i) = JObject [(''ID'', JString i)]"
| "who_to_json (WhoNAME n) = JObject [(''NAME'', JString n)]"
| "who_to_json WhoMEMBERS = JString ''MEMBERS''"
| "who_to_json WhoALL = JString ''ALL''"
| "who_to_json WhoNOT_MEMBERS = JString ''NOT_MEMBERS''"

fun who_of_json :: "json \<Rightarrow> who option" where
  "who_of_json (JString s) =
     (if s = ''MEMBERS'' then Some WhoMEMBERS
      else if s = ''ALL'' then Some WhoALL
      else if s = ''NOT_MEMBERS'' then Some WhoNOT_MEMBERS
      else None)"
| "who_of_json (JObject [(k, v)]) =
     (if k = ''ID'' then map_option WhoID (json_as_str v)
      else if k = ''NAME'' then map_option WhoNAME (json_as_str v)
      else None)"
| "who_of_json _ = None"

lemma who_json_roundtrip [simp]: "who_of_json (who_to_json w) = Some w"
  by (cases w) auto

section \<open>SchemaEnum\<close>

datatype schema_enum = SchemaID string | SchemaNOT_GOVERNANCE | SchemaALL

fun schema_enum_to_json :: "schema_enum \<Rightarrow> json" where
  "schema_enum_to_json (SchemaID i) = JObject [(''ID'', JString i)]"
| "schema_enum_to_json SchemaNOT_GOVERNANCE = JString ''NOT_GOVERNANCE''"
| "schema_enum_to_json SchemaALL = JString ''ALL''"

fun schema_enum_of_json :: "json \<Rightarrow> schema_enum option" where
  "schema_enum_of_json (JString s) =
     (if s = ''ALL'' then Some SchemaALL
      else if s = ''NOT_GOVERNANCE'' then Some SchemaNOT_GOVERNANCE
      else None)"
| "schema_enum_of_json (JObject [(k, v)]) =
     (if k = ''ID'' then map_option SchemaID (json_as_str v) else None)"
| "schema_enum_of_json _ = None"

lemma schema_enum_json_roundtrip [simp]: "schema_enum_of_json (schema_enum_to_json s) = Some s"
  by (cases s) auto

section \<open>Role and contract\<close>

record role =
  ro_who :: who
  ro_namespace :: string
  ro_role :: string
  ro_schema :: schema_enum

definition mk_role :: "json option \<Rightarrow> json option \<Rightarrow> json option \<Rightarrow> json option \<Rightarrow> role option" where
  "mk_role w n r s =
     (case (Option.bind w who_of_json, Option.bind n json_as_str, Option.bind r json_as_str,
            Option.bind s schema_enum_of_json) of
        (Some w', Some n', Some r', Some s') \<Rightarrow>
          Some \<lparr>ro_who = w', ro_namespace = n', ro_role = r', ro_schema = s'\<rparr>
      | _ \<Rightarrow> None)"

fun role_of_json :: "json \<Rightarrow> role option" where
  "role_of_json (JObject m) =
     mk_role (bt_get m ''who'') (bt_get m ''namespace'') (bt_get m ''role'') (bt_get m ''schema'')"
| "role_of_json (JArray [w, n, r, s]) = mk_role (Some w) (Some n) (Some r) (Some s)"
| "role_of_json _ = None"

fun sequence_opt :: "'a option list \<Rightarrow> 'a list option" where
  "sequence_opt [] = Some []"
| "sequence_opt (None # _) = None"
| "sequence_opt (Some x # xs) = map_option ((#) x) (sequence_opt xs)"

fun roles_of_json :: "json \<Rightarrow> role list option" where
  "roles_of_json (JArray xs) = sequence_opt (map role_of_json xs)"
| "roles_of_json _ = None"

definition role_to_json :: "role \<Rightarrow> json" where
  "role_to_json r = JObject [
     (''namespace'', JString (ro_namespace r)), (''role'', JString (ro_role r)),
     (''schema'', schema_enum_to_json (ro_schema r)), (''who'', who_to_json (ro_who r))]"

lemma role_json_roundtrip [simp]: "role_of_json (role_to_json r) = Some r"
  by (cases r) (simp add: role_to_json_def mk_role_def)

lemma roles_json_roundtrip [simp]: "roles_of_json (JArray (map role_to_json rs)) = Some rs"
  by (induction rs) simp_all

record contract =
  co_raw :: string

fun contract_of_json :: "json \<Rightarrow> contract option" where
  "contract_of_json (JObject m) =
     map_option (\<lambda>r. \<lparr>co_raw = r\<rparr>) (Option.bind (bt_get m ''raw'') json_as_str)"
| "contract_of_json (JArray [v]) = map_option (\<lambda>r. \<lparr>co_raw = r\<rparr>) (json_as_str v)"
| "contract_of_json _ = None"

section \<open>Validation stages\<close>

datatype validation_stage = Approve | Evaluate | Validate | Witness | StageCreate | Invoke

fun stage_to_str :: "validation_stage \<Rightarrow> string" where
  "stage_to_str Approve = ''approve''"
| "stage_to_str Evaluate = ''evaluate''"
| "stage_to_str Validate = ''validate''"
| "stage_to_str Witness = ''witness''"
| "stage_to_str StageCreate = ''create''"
| "stage_to_str Invoke = ''issue''"

fun stage_to_role :: "validation_stage \<Rightarrow> string" where
  "stage_to_role Approve = ''APPROVER''"
| "stage_to_role Evaluate = ''EVALUATOR''"
| "stage_to_role Validate = ''VALIDATOR''"
| "stage_to_role Witness = ''WITNESS''"
| "stage_to_role StageCreate = ''CREATOR''"
| "stage_to_role Invoke = ''ISSUER''"

lemma stage_to_role_inject [simp]: "stage_to_role s = stage_to_role t \<longleftrightarrow> s = t"
  by (cases s; cases t) simp_all

section \<open>The initial governance document\<close>

text \<open>\<^verbatim>\<open>get_governance_initial_state\<close>; the keys of an object are in order.\<close>

definition get_governance_initial_state :: json where
  "get_governance_initial_state = JObject [
     (''members'', JArray []),
     (''policies'', JArray [JObject [
        (''approve'', JObject [(''quorum'', JString ''MAJORITY'')]),
        (''evaluate'', JObject [(''quorum'', JString ''MAJORITY'')]),
        (''id'', JString ''governance''),
        (''validate'', JObject [(''quorum'', JString ''MAJORITY'')])]]),
     (''roles'', JArray [JObject [
        (''namespace'', JString []),
        (''role'', JString ''WITNESS''),
        (''schema'', JObject [(''ID'', JString ''governance'')]),
        (''who'', JString ''MEMBERS'')]]),
     (''schemas'', JArray [])]"

end
