(* ===== verification/Identifiers.thy ===== *)
theory Identifiers
  imports Rust_Str
begin

text \<open>
  Identifiers (\<^verbatim>\<open>commons/identifier\<close>): the derivators with their text codes, the three kinds of
  identifier, their text form \<^verbatim>\<open>to_str\<close> and its parser \<^verbatim>\<open>from_str\<close>. The base64 crate is a
  parameter (an encoder and a decoder).
\<close>

section \<open>Derivators\<close>

datatype digest_derivator = Blake3_256 | Blake3_512 | SHA2_256 | SHA2_512 | SHA3_256 | SHA3_512
datatype key_derivator = Ed25519 | Secp256k1
datatype signature_derivator = Ed25519Sha512 | ECDSAsecp256k1

datatype id_error =
    DeserializationError
  | SemanticError string
  | Base64DecodingError
  | VerificationError string
  | SignError string
  | SeedError string

fun digest_code :: "digest_derivator \<Rightarrow> string" where
  "digest_code Blake3_256 = ''J''"
| "digest_code Blake3_512 = ''0J''"
| "digest_code SHA2_256 = ''L''"
| "digest_code SHA2_512 = ''0L''"
| "digest_code SHA3_256 = ''M''"
| "digest_code SHA3_512 = ''0M''"

fun digest_code_len :: "digest_derivator \<Rightarrow> nat" where
  "digest_code_len d = (if d = Blake3_256 \<or> d = SHA2_256 \<or> d = SHA3_256 then 1 else 2)"

fun digest_derivative_len :: "digest_derivator \<Rightarrow> nat" where
  "digest_derivative_len d = (if d = Blake3_256 \<or> d = SHA2_256 \<or> d = SHA3_256 then 43 else 86)"

fun key_code :: "key_derivator \<Rightarrow> string" where
  "key_code Ed25519 = ''E''"
| "key_code Secp256k1 = ''S''"

fun key_code_len :: "key_derivator \<Rightarrow> nat" where
  "key_code_len _ = 1"

fun key_derivative_len :: "key_derivator \<Rightarrow> nat" where
  "key_derivative_len Ed25519 = 43"
| "key_derivative_len Secp256k1 = 87"

fun signature_code :: "signature_derivator \<Rightarrow> string" where
  "signature_code Ed25519Sha512 = ''SE''"
| "signature_code ECDSAsecp256k1 = ''SS''"

fun signature_code_len :: "signature_derivator \<Rightarrow> nat" where
  "signature_code_len _ = 2"

fun signature_derivative_len :: "signature_derivator \<Rightarrow> nat" where
  "signature_derivative_len _ = 86"

text \<open>\<^verbatim>\<open>Derivator::material_len\<close>, the trait's provided method.\<close>

definition material_len :: "nat \<Rightarrow> nat \<Rightarrow> nat" where
  "material_len code_len derivative_len = code_len + derivative_len"

fun key_to_signature_derivator :: "key_derivator \<Rightarrow> signature_derivator" where
  "key_to_signature_derivator Ed25519 = Ed25519Sha512"
| "key_to_signature_derivator Secp256k1 = ECDSAsecp256k1"

section \<open>String slices\<close>

text \<open>\<^verbatim>\<open>&s[a..b]\<close> panics unless both ends are in range and on a character boundary, that is, not
  before a UTF-8 continuation byte.\<close>

definition char_boundary :: "string \<Rightarrow> nat \<Rightarrow> bool" where
  "char_boundary s i \<longleftrightarrow>
     i = 0 \<or> i = length s \<or>
     (i < length s \<and> \<not> (128 \<le> (of_char (s ! i) :: nat) \<and> (of_char (s ! i) :: nat) < 192))"

definition slice :: "nat \<Rightarrow> nat \<Rightarrow> string \<Rightarrow> (string, 'e) res" where
  "slice a b s =
     (if a \<le> b \<and> char_boundary s a \<and> char_boundary s b then Ok (take (b - a) (drop a s))
      else Abort ''byte index is out of bounds or not a char boundary'')"

definition digest_derivator_from_str :: "string \<Rightarrow> (digest_derivator, id_error) res" where
  "digest_derivator_from_str s =
     bindR (slice 0 1 s) (\<lambda>c.
       if c = ''J'' then Ok Blake3_256
       else if c = ''L'' then Ok SHA2_256
       else if c = ''M'' then Ok SHA3_256
       else if c = ''0'' then
         bindR (slice 1 2 s) (\<lambda>d.
           if d = ''J'' then Ok Blake3_512
           else if d = ''L'' then Ok SHA2_512
           else if d = ''M'' then Ok SHA3_512
           else Fail DeserializationError)
       else Fail DeserializationError)"

definition key_derivator_from_str :: "string \<Rightarrow> (key_derivator, id_error) res" where
  "key_derivator_from_str s =
     (if length s = 0 then Fail DeserializationError
      else bindR (slice 0 1 s) (\<lambda>c.
        if c = ''E'' then Ok Ed25519
        else if c = ''S'' then Ok Secp256k1
        else Fail DeserializationError))"

definition signature_derivator_from_str :: "string \<Rightarrow> (signature_derivator, id_error) res" where
  "signature_derivator_from_str s =
     bindR (slice 0 1 s) (\<lambda>c.
       if c = ''S'' then
         bindR (slice 1 2 s) (\<lambda>d.
           if d = ''E'' then Ok Ed25519Sha512
           else if d = ''S'' then Ok ECDSAsecp256k1
           else Fail DeserializationError)
       else Fail DeserializationError)"

section \<open>Identifiers\<close>

record digest_identifier =
  di_derivator :: digest_derivator
  di_digest :: bytes

record key_identifier =
  ki_public_key :: bytes
  ki_derivator :: key_derivator

record signature_identifier =
  si_derivator :: signature_derivator
  si_signature :: bytes

definition default_digest :: digest_identifier where
  "default_digest = \<lparr>di_derivator = Blake3_256, di_digest = []\<rparr>"

definition new_digest :: "digest_derivator \<Rightarrow> bytes \<Rightarrow> digest_identifier" where
  "new_digest d b = \<lparr>di_derivator = d, di_digest = b\<rparr>"

definition new_key :: "key_derivator \<Rightarrow> bytes \<Rightarrow> key_identifier" where
  "new_key d pk = \<lparr>ki_public_key = pk, ki_derivator = d\<rparr>"

definition new_signature_id :: "signature_derivator \<Rightarrow> bytes \<Rightarrow> signature_identifier" where
  "new_signature_id d b = \<lparr>si_derivator = d, si_signature = b\<rparr>"

text \<open>The base64 crate: \<^verbatim>\<open>encode_config\<close> with \<^verbatim>\<open>URL_SAFE_NO_PAD\<close> and \<^verbatim>\<open>decode_config\<close> with
  \<^verbatim>\<open>URL_SAFE\<close>.\<close>

record b64 =
  b64_enc :: "bytes \<Rightarrow> string"
  b64_dec :: "string \<Rightarrow> bytes option"

text \<open>\<^verbatim>\<open>Derivable::to_str\<close>, the trait's provided method: nothing for an empty derivative.\<close>

definition derivable_to_str :: "b64 \<Rightarrow> string \<Rightarrow> bytes \<Rightarrow> string" where
  "derivable_to_str B code derivative = (if length derivative = 0 then [] else code @ b64_enc B derivative)"

definition digest_to_str :: "b64 \<Rightarrow> digest_identifier \<Rightarrow> string" where
  "digest_to_str B d = derivable_to_str B (digest_code (di_derivator d)) (di_digest d)"

definition key_to_str :: "b64 \<Rightarrow> key_identifier \<Rightarrow> string" where
  "key_to_str B k = derivable_to_str B (key_code (ki_derivator k)) (ki_public_key k)"

definition signature_to_str :: "b64 \<Rightarrow> signature_identifier \<Rightarrow> string" where
  "signature_to_str B s = derivable_to_str B (signature_code (si_derivator s)) (si_signature s)"

definition digest_from_str :: "b64 \<Rightarrow> string \<Rightarrow> (digest_identifier, id_error) res" where
  "digest_from_str B s =
     (if s = [] then Ok default_digest
      else bindR (digest_derivator_from_str s) (\<lambda>code.
        let m = material_len (digest_code_len code) (digest_derivative_len code) in
        if length s = m then
          bindR (slice (digest_code_len code) m s) (\<lambda>t.
          bindR (ok_or Base64DecodingError (b64_dec B t)) (\<lambda>b.
          Ok (new_digest code b)))
        else Fail (SemanticError (''Incorrect Prefix Length: '' @ s))))"

definition key_from_str :: "b64 \<Rightarrow> string \<Rightarrow> (key_identifier, id_error) res" where
  "key_from_str B s =
     bindR (key_derivator_from_str s) (\<lambda>code.
       let m = material_len (key_code_len code) (key_derivative_len code) in
       if length s = m then
         bindR (slice (key_code_len code) m s) (\<lambda>t.
         bindR (ok_or Base64DecodingError (b64_dec B t)) (\<lambda>k_vec.
         Ok \<lparr>ki_public_key = k_vec, ki_derivator = code\<rparr>))
       else Fail (SemanticError (''Incorrect Identifier Length: '' @ s)))"

definition signature_from_str :: "b64 \<Rightarrow> string \<Rightarrow> (signature_identifier, id_error) res" where
  "signature_from_str B s =
     bindR (signature_derivator_from_str s) (\<lambda>code.
       let m = material_len (signature_code_len code) (signature_derivative_len code) in
       if length s = m then
         bindR (slice (signature_code_len code) m s) (\<lambda>t.
         bindR (ok_or Base64DecodingError (b64_dec B t)) (\<lambda>b.
         Ok (new_signature_id code b)))
       else Fail (SemanticError (''Incorrect Prefix Length: '' @ decimal (length s))))"

datatype any_identifier = IdKey key_identifier | IdDigest digest_identifier | IdSign signature_identifier

text \<open>\<^verbatim>\<open>Identifier::from_str\<close> tries the three parsers in turn; a panic of one is not caught.\<close>

definition identifier_from_str :: "b64 \<Rightarrow> string \<Rightarrow> (any_identifier, id_error) res" where
  "identifier_from_str B s =
     (case digest_from_str B s of
        Inr d \<Rightarrow> Ok (IdDigest d)
      | Inl (Panic m) \<Rightarrow> Abort m
      | Inl (Err _) \<Rightarrow>
          (case key_from_str B s of
             Inr k \<Rightarrow> Ok (IdKey k)
           | Inl (Panic m) \<Rightarrow> Abort m
           | Inl (Err _) \<Rightarrow>
               (case signature_from_str B s of
                  Inr g \<Rightarrow> Ok (IdSign g)
                | Inl (Panic m) \<Rightarrow> Abort m
                | Inl (Err _) \<Rightarrow> Fail (SemanticError (''Incorrect Identifier: '' @ s)))))"

fun identifier_to_str :: "b64 \<Rightarrow> any_identifier \<Rightarrow> string" where
  "identifier_to_str B (IdKey k) = key_to_str B k"
| "identifier_to_str B (IdDigest d) = digest_to_str B d"
| "identifier_to_str B (IdSign g) = signature_to_str B g"

section \<open>Laws of the text form\<close>

text \<open>What the code relies on of base64, for the material \<open>b\<close> of an identifier whose derivator
  announces \<open>n\<close> characters.\<close>

definition b64_at :: "b64 \<Rightarrow> bytes \<Rightarrow> nat \<Rightarrow> bool" where
  "b64_at B b n \<longleftrightarrow>
     b64_dec B (b64_enc B b) = Some b \<and> length (b64_enc B b) = n \<and> ascii (b64_enc B b)"

lemma ascii_nth: "ascii s \<Longrightarrow> i < length s \<Longrightarrow> (of_char (s ! i) :: nat) < 128"
  by (auto simp: ascii_def list_all_length)

lemma char_boundary_ascii: "ascii s \<Longrightarrow> i \<le> length s \<Longrightarrow> char_boundary s i"
  using ascii_nth [of s i] by (auto simp: char_boundary_def)

lemma slice_ascii [simp]:
  "ascii s \<Longrightarrow> a \<le> b \<Longrightarrow> b \<le> length s \<Longrightarrow> slice a b s = Ok (take (b - a) (drop a s))"
  by (simp add: slice_def char_boundary_ascii)

lemma codes_ascii [simp]:
  "ascii (digest_code d)" "ascii (key_code k)" "ascii (signature_code g)"
  by (cases d; cases k; cases g; simp)+

lemma code_lens [simp]:
  "length (digest_code d) = digest_code_len d"
  "length (key_code k) = key_code_len k"
  "length (signature_code g) = signature_code_len g"
  by (cases d; cases k; cases g; simp)+

lemma digest_derivator_of_code:
  "ascii t \<Longrightarrow> digest_derivator_from_str (digest_code d @ t) = Ok d"
  by (cases d) (simp_all add: digest_derivator_from_str_def)

lemma key_derivator_of_code: "ascii t \<Longrightarrow> key_derivator_from_str (key_code k @ t) = Ok k"
  by (cases k) (simp_all add: key_derivator_from_str_def)

lemma signature_derivator_of_code:
  "ascii t \<Longrightarrow> signature_derivator_from_str (signature_code g @ t) = Ok g"
  by (cases g) (simp_all add: signature_derivator_from_str_def)

lemma digest_code_neq_Nil [simp]: "digest_code d \<noteq> []"
  by (cases d) simp_all

lemma digest_roundtrip:
  assumes "di_digest d \<noteq> []"
    and "b64_at B (di_digest d) (digest_derivative_len (di_derivator d))"
  shows "digest_from_str B (digest_to_str B d) = Ok d"
  using assms
  by (simp add: digest_from_str_def digest_to_str_def derivable_to_str_def b64_at_def Let_def
      digest_derivator_of_code material_len_def new_digest_def del: digest_derivative_len.simps
      digest_code_len.simps)

lemma key_roundtrip:
  assumes "ki_public_key k \<noteq> []"
    and "b64_at B (ki_public_key k) (key_derivative_len (ki_derivator k))"
  shows "key_from_str B (key_to_str B k) = Ok k"
  using assms
  by (simp add: key_from_str_def key_to_str_def derivable_to_str_def b64_at_def Let_def
      key_derivator_of_code material_len_def del: key_derivative_len.simps key_code_len.simps)

lemma signature_roundtrip:
  assumes "si_signature s \<noteq> []"
    and "b64_at B (si_signature s) (signature_derivative_len (si_derivator s))"
  shows "signature_from_str B (signature_to_str B s) = Ok s"
  using assms
  by (simp add: signature_from_str_def signature_to_str_def derivable_to_str_def b64_at_def Let_def
      signature_derivator_of_code material_len_def new_signature_id_def
      del: signature_derivative_len.simps signature_code_len.simps)

lemma digest_code_prefix_free:
  assumes "digest_code d @ s = digest_code d' @ s'"
  shows "d = d' \<and> s = s'"
  using assms by (cases d; cases d') simp_all

end
