(* ===== verification/Models.thy ===== *)
theory Models
  imports Identifiers Json_Value
begin

text \<open>
  The data of the ledger (\<^verbatim>\<open>commons/models\<close>): requests, events, subjects, approvals, validation
  proofs, signatures. A \<^verbatim>\<open>HashSet\<close> that the code only queries is a set; a \<^verbatim>\<open>HashSet\<close> that it
  iterates over is the list of its elements in iteration order.
\<close>

section \<open>Errors\<close>

datatype commons_error = BorshSerializationFailed

datatype channel_error = ChannelClosed | FullQueue

datatype subject_error =
    NotCreateEvent
  | NotStateEvent
  | EventAlreadyProcessing
  | EventAlreadyAppliedNotFound
  | SnNot0
  | EventSourcingNotInOrder u64 u64
  | EventSourcingHashNotEqual
  | ApplyInEmptySubject
  | SubjectNotFound
  | NotOwnerOfSubject
  | EventContentSerializationFailed
  | SubjectSignatureFailed
  | SubjectHasNoData
  | DeleteSignaturesFailed
  | SchemaValidationFailed
  | SchemaDoesNotCompile
  | CryptoError string
  | InvalidPayload string
  | ErrorParsingJsonString string
  | ErrorApplyingPatch string
  | DuplicatedSchemaOrMember
  | PoliciesMissing
  | InvalidPoliciesId
  | InvalidMemberInPolicies
  | InvalidMemberIdentifier string
  | InvalidUseOfJSONPATCH
  | ApproversAreNotValidators
  | ErrorCreatingSubjectId
  | SignatureCreationFails string
  | SignatureVerifyFails string
  | RepeatedSignature string
  | SignersError string

section \<open>Keys and signatures\<close>

record base_key_pair =
  bkp_public_key :: bytes
  bkp_secret_key :: "bytes option"

datatype key_pair = KPEd25519 base_key_pair | KPSecp256k1 base_key_pair

fun get_key_derivator :: "key_pair \<Rightarrow> key_derivator" where
  "get_key_derivator (KPEd25519 _) = Ed25519"
| "get_key_derivator (KPSecp256k1 _) = Secp256k1"

fun public_key_bytes :: "key_pair \<Rightarrow> bytes" where
  "public_key_bytes (KPEd25519 x) = bkp_public_key x"
| "public_key_bytes (KPSecp256k1 x) = bkp_public_key x"

text \<open>Nanoseconds since the epoch.\<close>

type_synonym timestamp = u64

record signature =
  sg_signer :: key_identifier
  sg_timestamp :: timestamp
  sg_content_hash :: digest_identifier
  sg_value :: signature_identifier

record 'a signed =
  content :: 'a
  signature :: signature

section \<open>Event requests\<close>

record start_request =
  st_governance_id :: digest_identifier
  st_schema_id :: string
  st_namespace :: string
  st_name :: string
  st_public_key :: key_identifier

record fact_request =
  fa_subject_id :: digest_identifier
  fa_payload :: json

record transfer_request =
  tr_subject_id :: digest_identifier
  tr_public_key :: key_identifier

record eol_request =
  eo_subject_id :: digest_identifier

datatype event_request =
    Create start_request
  | Fact fact_request
  | Transfer transfer_request
  | EOL eol_request

fun requires_eval_appr :: "event_request \<Rightarrow> bool" where
  "requires_eval_appr (Fact _) = True"
| "requires_eval_appr (Create _) = False"
| "requires_eval_appr (Transfer _) = False"
| "requires_eval_appr (EOL _) = False"

datatype request_state = Finished | RequestError | Processing

record taple_request =
  tq_id :: digest_identifier
  tq_subject_id :: "digest_identifier option"
  tq_sn :: "u64 option"
  tq_event_request :: "event_request signed"
  tq_state :: request_state
  tq_success :: "bool option"

section \<open>Events\<close>

record event =
  ev_subject_id :: digest_identifier
  ev_event_request :: "event_request signed"
  ev_sn :: u64
  ev_gov_version :: u64
  ev_patch :: json
  ev_state_hash :: digest_identifier
  ev_eval_success :: bool
  ev_appr_required :: bool
  ev_approved :: bool
  ev_hash_prev_event :: digest_identifier
  ev_evaluators :: "signature list"
  ev_approvers :: "signature list"

record metadata =
  md_namespace :: string
  md_subject_id :: digest_identifier
  md_governance_id :: digest_identifier
  md_governance_version :: u64
  md_schema_id :: string

section \<open>Subjects\<close>

record subject =
  su_keys :: "key_pair option"
  su_subject_id :: digest_identifier
  su_governance_id :: digest_identifier
  su_sn :: u64
  su_genesis_gov_version :: u64
  su_public_key :: key_identifier
  su_namespace :: string
  su_name :: string
  su_schema_id :: string
  su_owner :: key_identifier
  su_creator :: key_identifier
  su_properties :: json
  su_active :: bool

record subject_data =
  sd_subject_id :: digest_identifier
  sd_governance_id :: digest_identifier
  sd_sn :: u64
  sd_public_key :: key_identifier
  sd_namespace :: string
  sd_name :: string
  sd_schema_id :: string
  sd_owner :: key_identifier
  sd_creator :: key_identifier
  sd_properties :: json
  sd_active :: bool

definition subject_data_from :: "subject \<Rightarrow> subject_data" where
  "subject_data_from s = \<lparr>
     sd_subject_id = su_subject_id s,
     sd_governance_id = su_governance_id s,
     sd_sn = su_sn s,
     sd_public_key = su_public_key s,
     sd_namespace = su_namespace s,
     sd_name = su_name s,
     sd_schema_id = su_schema_id s,
     sd_owner = su_owner s,
     sd_creator = su_creator s,
     sd_properties = su_properties s,
     sd_active = su_active s\<rparr>"

section \<open>Evaluation and approval\<close>

record subject_context =
  sc_governance_id :: digest_identifier
  sc_schema_id :: string
  sc_is_owner :: bool
  sc_state :: json
  sc_namespace :: string

record evaluation_request =
  eq_event_request :: "event_request signed"
  eq_context :: subject_context
  eq_sn :: u64
  eq_gov_version :: u64

record evaluation_response =
  er_patch :: json
  er_eval_req_hash :: digest_identifier
  er_state_hash :: digest_identifier
  er_eval_success :: bool
  er_appr_required :: bool

record approval_request =
  aq_event_request :: "event_request signed"
  aq_sn :: u64
  aq_gov_version :: u64
  aq_patch :: json
  aq_state_hash :: digest_identifier
  aq_hash_prev_event :: digest_identifier
  aq_gov_id :: digest_identifier

record approval_response =
  ar_appr_req_hash :: digest_identifier
  ar_approved :: bool

datatype approval_state = Pending | RespondedAccepted | RespondedRejected | Obsolete

record approval_entity =
  ae_id :: digest_identifier
  ae_request :: "approval_request signed"
  ae_response :: "approval_response signed option"
  ae_state :: approval_state
  ae_sender :: key_identifier

section \<open>Validation proofs\<close>

record validation_proof =
  vp_subject_id :: digest_identifier
  vp_schema_id :: string
  vp_namespace :: string
  vp_name :: string
  vp_subject_public_key :: key_identifier
  vp_governance_id :: digest_identifier
  vp_genesis_governance_version :: u64
  vp_sn :: u64
  vp_prev_event_hash :: digest_identifier
  vp_event_hash :: digest_identifier
  vp_governance_version :: u64

record validation_event_response =
  vr_validation_signature :: signature
  vr_gov_version_validation :: u64

definition new_from_genesis_event ::
  "start_request \<Rightarrow> digest_identifier \<Rightarrow> u64 \<Rightarrow> digest_identifier \<Rightarrow> validation_proof" where
  "new_from_genesis_event start event_hash governance_version subject_id = \<lparr>
     vp_subject_id = subject_id,
     vp_schema_id = st_schema_id start,
     vp_namespace = st_namespace start,
     vp_name = st_name start,
     vp_subject_public_key = st_public_key start,
     vp_governance_id = st_governance_id start,
     vp_genesis_governance_version = governance_version,
     vp_sn = 0,
     vp_prev_event_hash = default_digest,
     vp_event_hash = event_hash,
     vp_governance_version = governance_version\<rparr>"

definition new_from_transfer_event ::
  "subject \<Rightarrow> u64 \<Rightarrow> digest_identifier \<Rightarrow> digest_identifier \<Rightarrow> u64 \<Rightarrow> key_identifier \<Rightarrow> validation_proof" where
  "new_from_transfer_event s sn prev_event_hash event_hash governance_version subject_public_key = \<lparr>
     vp_subject_id = su_subject_id s,
     vp_schema_id = su_schema_id s,
     vp_namespace = su_namespace s,
     vp_name = su_name s,
     vp_subject_public_key = subject_public_key,
     vp_governance_id = su_governance_id s,
     vp_genesis_governance_version = su_genesis_gov_version s,
     vp_sn = sn,
     vp_prev_event_hash = prev_event_hash,
     vp_event_hash = event_hash,
     vp_governance_version = governance_version\<rparr>"

definition new_proof ::
  "subject \<Rightarrow> u64 \<Rightarrow> digest_identifier \<Rightarrow> digest_identifier \<Rightarrow> u64 \<Rightarrow> validation_proof" where
  "new_proof s sn prev_event_hash event_hash governance_version = \<lparr>
     vp_subject_id = su_subject_id s,
     vp_schema_id = su_schema_id s,
     vp_namespace = su_namespace s,
     vp_name = su_name s,
     vp_subject_public_key = su_public_key s,
     vp_governance_id = su_governance_id s,
     vp_genesis_governance_version = su_genesis_gov_version s,
     vp_sn = sn,
     vp_prev_event_hash = prev_event_hash,
     vp_event_hash = event_hash,
     vp_governance_version = governance_version\<rparr>"

definition get_metadata :: "validation_proof \<Rightarrow> metadata" where
  "get_metadata p = \<lparr>
     md_namespace = vp_namespace p,
     md_subject_id = vp_subject_id p,
     md_governance_id = vp_governance_id p,
     md_governance_version = vp_governance_version p,
     md_schema_id = vp_schema_id p\<rparr>"

definition is_similar :: "validation_proof \<Rightarrow> validation_proof \<Rightarrow> bool" where
  "is_similar p q \<longleftrightarrow>
     vp_governance_id p = vp_governance_id q \<and>
     vp_subject_id p = vp_subject_id q \<and>
     vp_sn p = vp_sn q \<and>
     vp_schema_id p = vp_schema_id q \<and>
     vp_namespace p = vp_namespace q \<and>
     vp_prev_event_hash p = vp_prev_event_hash q \<and>
     vp_event_hash p = vp_event_hash q \<and>
     vp_subject_public_key p = vp_subject_public_key q \<and>
     vp_genesis_governance_version p = vp_genesis_governance_version q \<and>
     vp_name p = vp_name q"

text \<open>\<^verbatim>\<open>is_similar\<close> is equality up to the governance version of the validation.\<close>

lemma is_similar_iff: "is_similar p q \<longleftrightarrow> p\<lparr>vp_governance_version := vp_governance_version q\<rparr> = q"
  by (cases p; cases q) (auto simp: is_similar_def)

lemma is_similar_refl [simp]: "is_similar p p"
  by (simp add: is_similar_def)

lemma is_similar_sym: "is_similar p q \<Longrightarrow> is_similar q p"
  by (simp add: is_similar_def)

lemma is_similar_trans: "is_similar p q \<Longrightarrow> is_similar q r \<Longrightarrow> is_similar p r"
  by (simp add: is_similar_def)

end
