(* ===== verification/Messages.thy ===== *)
theory Messages
  imports Models
begin

text \<open>
  The messages the modules of a node exchange with other nodes and with each other: the command
  enumerations of \<^verbatim>\<open>ledger\<close>, \<^verbatim>\<open>event\<close>, \<^verbatim>\<open>validation\<close>, \<^verbatim>\<open>approval\<close>, \<^verbatim>\<open>evaluator\<close> and
  \<^verbatim>\<open>distribution\<close>, \<^verbatim>\<open>TapleMessages\<close> over them, the builders of \<^verbatim>\<open>utils/message\<close>, the
  notifications for the user of the node, and the routing of a received message.
\<close>

section \<open>Commands\<close>

record validation_event =
  ve_proof :: validation_proof
  ve_subject_signature :: signature
  ve_previous_proof :: "validation_proof option"
  ve_prev_event_validation_signatures :: "signature list"

datatype validation_command =
    ValidationEvent validation_event key_identifier
  | AskForValidation validation_event

datatype ledger_command =
    OwnEvent "event signed" "signature list" validation_proof
  | Genesis "event signed" "signature list" validation_proof
  | ExternalEvent key_identifier "event signed" "signature list" validation_proof
  | ExternalIntermediateEvent "event signed"
  | GetEvent key_identifier digest_identifier u64
  | GetNextGov key_identifier digest_identifier u64
  | GetLCE key_identifier digest_identifier
  | GenerateKey key_derivator

datatype event_command =
    EventCmd "event_request signed"
  | EvaluatorResponse "evaluation_response signed"
  | ApproverResponse "approval_response signed"
  | ValidatorResponse digest_identifier signature u64
  | HigherGovernanceExpected digest_identifier key_identifier

record emit_vote =
  vo_request_id :: digest_identifier
  vo_acceptance :: bool

datatype approval_messages =
    RequestApproval "approval_request signed"
  | RequestApprovalWithSender "approval_request signed" key_identifier
  | EmitVote emit_vote
  | GetAllRequest
  | GetSingleRequest digest_identifier

datatype evaluator_message =
    EvaluationEvent evaluation_request key_identifier
  | AskForEvaluation evaluation_request

record ask_for_signatures =
  as_subject_id :: digest_identifier
  as_sn :: u64
  as_signatures_requested :: "key_identifier set"
  as_sender_id :: key_identifier

record signatures_received =
  sr_subject_id :: digest_identifier
  sr_sn :: u64
  sr_signatures :: "signature list"

datatype distribution_message =
    ProvideSignatures ask_for_signatures
  | SignaturesReceived signatures_received
  | SignaturesNeeded digest_identifier u64

datatype taple_messages =
    DistributionMessage distribution_message
  | EvaluationMessage evaluator_message
  | ValidationMessage validation_command
  | EventMessage event_command
  | ApprovalMessages approval_messages
  | LedgerMessages ledger_command

text \<open>A message on the network: the signed \<^verbatim>\<open>MessageContent\<close>.\<close>

record message_content =
  me_sender_id :: key_identifier
  me_content :: taple_messages
  me_receiver :: key_identifier

section \<open>Hashed values\<close>

text \<open>Every value the code hands to borsh to hash or to sign it.\<close>

datatype payload =
    PEventRequest event_request
  | PSignedEventRequest "event_request signed"
  | PEvent event
  | PSignedEvent "event signed"
  | PValue json
  | PSubjectId string string string string u64
  | PEvaluationRequest evaluation_request
  | PEvaluationResponse evaluation_response
  | PEvaluationResponseId digest_identifier digest_identifier bool bool
  | PApprovalRequest approval_request
  | PApprovalResponse approval_response
  | PProof validation_proof
  | PString string
  | PMessage message_content
  | PStamped payload timestamp

section \<open>Orders to the message manager\<close>

text \<open>The replication factor is an \<^verbatim>\<open>f64\<close>, kept as its bits.\<close>

record message_config =
  mc_timeout :: u32
  mc_replication_factor :: u64

definition direct_response :: message_config where
  "direct_response = \<lparr>mc_timeout = 0, mc_replication_factor = 0x3FF0000000000000\<rparr>"

text \<open>\<^verbatim>\<open>MessageTaskCommand\<close>. The receivers are collected from a \<^verbatim>\<open>HashSet\<close>, or are one node: a set.\<close>

datatype message_task_command =
    TaskRequest "string option" taple_messages "key_identifier set" message_config
  | TaskCancel string

datatype notification =
    NewSubject string
  | NewEvent u64 string
  | StateUpdated u64 string
  | ApprovalReceived string string u64
  | ObsoletedApproval string string u64
  | UnrecoverableError string

section \<open>Builders\<close>

definition request_lce :: "key_identifier \<Rightarrow> digest_identifier \<Rightarrow> taple_messages" where
  "request_lce who_asked subject_id = LedgerMessages (GetLCE who_asked subject_id)"

definition request_event :: "key_identifier \<Rightarrow> digest_identifier \<Rightarrow> u64 \<Rightarrow> taple_messages" where
  "request_event who_asked subject_id sn = LedgerMessages (GetEvent who_asked subject_id sn)"

definition request_gov_event :: "key_identifier \<Rightarrow> digest_identifier \<Rightarrow> u64 \<Rightarrow> taple_messages" where
  "request_gov_event who_asked subject_id sn = LedgerMessages (GetNextGov who_asked subject_id sn)"

definition create_distribution_request ::
  "digest_identifier \<Rightarrow> u64 \<Rightarrow> key_identifier set \<Rightarrow> key_identifier \<Rightarrow> taple_messages" where
  "create_distribution_request subject_id sn signatures_requested sender_id =
     DistributionMessage (ProvideSignatures \<lparr>
       as_subject_id = subject_id, as_sn = sn,
       as_signatures_requested = signatures_requested, as_sender_id = sender_id\<rparr>)"

definition create_distribution_response ::
  "digest_identifier \<Rightarrow> u64 \<Rightarrow> signature list \<Rightarrow> taple_messages" where
  "create_distribution_response subject_id sn signatures =
     DistributionMessage (SignaturesReceived \<lparr>
       sr_subject_id = subject_id, sr_sn = sn, sr_signatures = signatures\<rparr>)"

definition create_approval_request :: "approval_request signed \<Rightarrow> taple_messages" where
  "create_approval_request event_proposal = ApprovalMessages (RequestApproval event_proposal)"

definition create_evaluator_request :: "evaluation_request \<Rightarrow> taple_messages" where
  "create_evaluator_request event_pre_eval = EvaluationMessage (AskForEvaluation event_pre_eval)"

definition create_validator_request :: "validation_event \<Rightarrow> taple_messages" where
  "create_validator_request validation_event = ValidationMessage (AskForValidation validation_event)"

definition create_evaluator_response :: "evaluation_response signed \<Rightarrow> taple_messages" where
  "create_evaluator_response r = EventMessage (EvaluatorResponse r)"

definition create_approver_response :: "approval_response signed \<Rightarrow> taple_messages" where
  "create_approver_response approval = EventMessage (ApproverResponse approval)"

section \<open>Routing a received message\<close>

text \<open>
  \<^verbatim>\<open>ProtocolManager::process_command\<close> built with all its features: which module gets
  which command. Commands a remote node must not send are dropped, and the sender the message
  manager has authenticated is attached to the others.
\<close>

datatype module_command =
    ToDistribution distribution_message
  | ToEvent event_command
  | ToEvaluator evaluator_message
  | ToValidation validation_command
  | ToApproval approval_messages
  | ToLedger ledger_command

fun route :: "taple_messages \<Rightarrow> key_identifier \<Rightarrow> module_command option" where
  "route (DistributionMessage data) sender = Some (ToDistribution data)"
| "route (EventMessage data) sender = Some (ToEvent data)"
| "route (EvaluationMessage (EvaluationEvent _ _)) sender = None"
| "route (EvaluationMessage (AskForEvaluation r)) sender = Some (ToEvaluator (EvaluationEvent r sender))"
| "route (ValidationMessage (ValidationEvent _ _)) sender = None"
| "route (ValidationMessage (AskForValidation v)) sender = Some (ToValidation (ValidationEvent v sender))"
| "route (ApprovalMessages (RequestApproval a)) sender =
     Some (ToApproval (RequestApprovalWithSender a sender))"
| "route (ApprovalMessages (RequestApprovalWithSender _ _)) sender = None"
| "route (ApprovalMessages data) sender = Some (ToApproval data)"
| "route (LedgerMessages data) sender = Some (ToLedger data)"

text \<open>A validation, evaluation or approval request reaches its module with the sender of the
  message, whatever the message says.\<close>

lemma route_sender:
  "route m sender = Some (ToValidation (ValidationEvent v who)) \<Longrightarrow> who = sender"
  "route m sender = Some (ToEvaluator (EvaluationEvent r who)) \<Longrightarrow> who = sender"
  "route m sender = Some (ToApproval (RequestApprovalWithSender a who)) \<Longrightarrow> who = sender"
  by (induction m sender rule: route.induct) auto

end
