(* ===== verification/Env.thy ===== *)
theory Env
  imports Messages
begin

text \<open>
  The third-party code the program calls, as one record of parameters, and the parts of
  \<^verbatim>\<open>commons/models\<close> and \<^verbatim>\<open>commons/crypto\<close> that use it: digests, signatures, the subject and event
  operations. The type \<open>'b\<close> stands for serialised byte vectors: the program stores and hashes
  them and never looks inside.
\<close>

section \<open>The parameters\<close>

text \<open>\<^verbatim>\<open>try_to_vec\<close> and \<^verbatim>\<open>try_from_slice\<close> of one type.\<close>

record ('a, 'b) codec =
  ser :: "'a \<Rightarrow> 'b option"
  de :: "'b \<Rightarrow> 'a option"

definition codec_ok :: "('a, 'b) codec \<Rightarrow> bool" where
  "codec_ok c \<longleftrightarrow> (\<forall>x b. ser c x = Some b \<longrightarrow> de c b = Some x)"

record 'b env =
  e_b64 :: b64
  e_borsh :: "payload \<Rightarrow> 'b option"
  e_hash :: "digest_derivator \<Rightarrow> 'b \<Rightarrow> bytes"
  e_key_parses :: "key_derivator \<Rightarrow> bytes \<Rightarrow> bool"
  e_sig_parses :: "signature_derivator \<Rightarrow> bytes \<Rightarrow> bool"
  e_verify :: "key_derivator \<Rightarrow> bytes \<Rightarrow> bytes \<Rightarrow> bytes \<Rightarrow> bool"
  e_sign :: "key_derivator \<Rightarrow> bytes \<Rightarrow> bytes \<Rightarrow> bytes"
  e_is_patch :: "json \<Rightarrow> bool"
  e_patch :: "json \<Rightarrow> json \<Rightarrow> json option"
  e_diff :: "json \<Rightarrow> json \<Rightarrow> json option"
  e_contract_raw :: "string \<Rightarrow> string option"
  e_governance_schema :: json
  c_subject :: "(subject, 'b) codec"
  c_event :: "(event signed, 'b) codec"
  c_signatures :: "(signature list \<times> validation_proof, 'b) codec"
  c_event_request :: "(event_request signed, 'b) codec"
  c_taple_request :: "(taple_request, 'b) codec"
  c_string :: "(string, 'b) codec"
  c_proof :: "(validation_proof, 'b) codec"
  c_contract :: "(bytes \<times> digest_identifier \<times> u64, 'b) codec"
  c_witness :: "(u64 \<times> signature list, 'b) codec"
  c_digest :: "(digest_identifier, 'b) codec"
  c_keys :: "(key_pair, 'b) codec"
  c_providers :: "(digest_identifier \<times> key_identifier list, 'b) codec"
  c_approval :: "(approval_entity, 'b) codec"

section \<open>Digests\<close>

abbreviation dstr :: "'b env \<Rightarrow> digest_identifier \<Rightarrow> string" where
  "dstr E d \<equiv> digest_to_str (e_b64 E) d"

abbreviation kstr :: "'b env \<Rightarrow> key_identifier \<Rightarrow> string" where
  "kstr E k \<equiv> key_to_str (e_b64 E) k"

definition from_serializable_borsh ::
  "'b env \<Rightarrow> payload \<Rightarrow> digest_derivator \<Rightarrow> (digest_identifier, commons_error) res" where
  "from_serializable_borsh E p d =
     (case e_borsh E p of
        None \<Rightarrow> Fail BorshSerializationFailed
      | Some b \<Rightarrow> Ok (new_digest d (e_hash E d b)))"

definition generate_with_blake3 :: "'b env \<Rightarrow> payload \<Rightarrow> (digest_identifier, commons_error) res" where
  "generate_with_blake3 E p =
     (case e_borsh E p of
        None \<Rightarrow> Fail BorshSerializationFailed
      | Some b \<Rightarrow> Ok (new_digest Blake3_256 (e_hash E Blake3_256 b)))"

lemma from_serializable_borsh_derivator:
  "from_serializable_borsh E p d = Ok h \<Longrightarrow> di_derivator h = d"
  by (auto simp: from_serializable_borsh_def new_digest_def split: option.splits)

section \<open>Signatures\<close>

text \<open>\<^verbatim>\<open>KeyIdentifier::verify\<close> with \<^verbatim>\<open>from_public_key\<close> and \<^verbatim>\<open>verify\<close> of the key pair: a public key
  that does not parse panics, and so does a secp256k1 signature that does not parse; an Ed25519
  signature that does not parse is an error.\<close>

definition key_verify ::
  "'b env \<Rightarrow> key_identifier \<Rightarrow> bytes \<Rightarrow> signature_identifier \<Rightarrow> (unit, id_error) res" where
  "key_verify E k data g =
     (if \<not> e_key_parses E (ki_derivator k) (ki_public_key k) then Abort ''cannot generate public key''
      else if si_derivator g \<noteq> key_to_signature_derivator (ki_derivator k)
      then Fail (VerificationError ''Wrong signature type'')
      else if \<not> e_sig_parses E (si_derivator g) (si_signature g) then
        (if ki_derivator k = Ed25519 then Fail (SignError ''Invalid signature data'')
         else Abort ''Couldn't parse signature'')
      else if e_verify E (ki_derivator k) (ki_public_key k) data (si_signature g) then Ok ()
      else Fail (SignError ''Signature verify failed''))"

definition signature_verify :: "'b env \<Rightarrow> signature \<Rightarrow> payload \<Rightarrow> (unit, subject_error) res" where
  "signature_verify E g p =
     bindR (map_err (\<lambda>_. SignatureCreationFails ''Signature hash fails'')
       (from_serializable_borsh E (PStamped p (sg_timestamp g)) (di_derivator (sg_content_hash g))))
     (\<lambda>h. map_err (\<lambda>_. SignatureVerifyFails ''Signature verify fails'')
       (key_verify E (sg_signer g) (di_digest h) (sg_value g)))"

text \<open>\<^verbatim>\<open>sign\<close> of the two key types: without the secret key, Ed25519 gives an error and
  secp256k1 panics.\<close>

fun key_pair_sign :: "'b env \<Rightarrow> key_pair \<Rightarrow> bytes \<Rightarrow> (bytes, id_error) res" where
  "key_pair_sign E (KPEd25519 x) data =
     (case bkp_secret_key x of
        None \<Rightarrow> Fail (SignError ''Secret key not found'')
      | Some sk \<Rightarrow> Ok (e_sign E Ed25519 sk data))"
| "key_pair_sign E (KPSecp256k1 x) data =
     (case bkp_secret_key x of
        None \<Rightarrow> Abort ''secret key not found''
      | Some sk \<Rightarrow> Ok (e_sign E Secp256k1 sk data))"

text \<open>\<^verbatim>\<open>Signature::new\<close>; the clock reading is an argument.\<close>

definition signature_new ::
  "'b env \<Rightarrow> timestamp \<Rightarrow> payload \<Rightarrow> key_pair \<Rightarrow> digest_derivator \<Rightarrow> (signature, subject_error) res" where
  "signature_new E now p keys d =
     (let signer = new_key (get_key_derivator keys) (public_key_bytes keys) in
      bindR (map_err (\<lambda>_. SignatureCreationFails ''Signature hash fails'')
        (from_serializable_borsh E (PStamped p now) d)) (\<lambda>h.
      bindR (map_err (\<lambda>_. SignatureCreationFails ''Keys sign fails'') (key_pair_sign E keys (di_digest h)))
      (\<lambda>s. Ok \<lparr>
        sg_signer = signer,
        sg_timestamp = now,
        sg_content_hash = h,
        sg_value = new_signature_id (key_to_signature_derivator (ki_derivator signer)) s\<rparr>)))"

text \<open>A signature produced with a key pair whose scheme accepts its own signatures verifies.\<close>

definition key_pair_ok :: "'b env \<Rightarrow> key_pair \<Rightarrow> bool" where
  "key_pair_ok E keys \<longleftrightarrow>
     e_key_parses E (get_key_derivator keys) (public_key_bytes keys) \<and>
     (\<forall>data s. key_pair_sign E keys data = Ok s \<longrightarrow>
        e_sig_parses E (key_to_signature_derivator (get_key_derivator keys)) s \<and>
        e_verify E (get_key_derivator keys) (public_key_bytes keys) data s)"

lemma signature_new_signer:
  "signature_new E now p keys d = Ok g \<Longrightarrow>
     sg_signer g = new_key (get_key_derivator keys) (public_key_bytes keys)"
  by (auto simp: signature_new_def Let_def bindR_eq_Inr)

lemma signature_new_verifies:
  assumes "key_pair_ok E keys" "signature_new E now p keys d = Ok g"
  shows "signature_verify E g p = Ok ()"
proof -
  from assms(2) obtain h s where h: "from_serializable_borsh E (PStamped p now) d = Ok h"
    and s: "key_pair_sign E keys (di_digest h) = Ok s"
    and g: "g = \<lparr>sg_signer = new_key (get_key_derivator keys) (public_key_bytes keys),
      sg_timestamp = now, sg_content_hash = h,
      sg_value = new_signature_id (key_to_signature_derivator (get_key_derivator keys)) s\<rparr>"
    by (auto simp: signature_new_def Let_def bindR_eq_Inr new_key_def)
  show ?thesis
    using assms(1) h s from_serializable_borsh_derivator [OF h]
    by (auto simp: signature_verify_def g key_verify_def new_key_def new_signature_id_def key_pair_ok_def)
qed

section \<open>Subjects\<close>

definition generate_subject_id ::
  "'b env \<Rightarrow> string \<Rightarrow> string \<Rightarrow> string \<Rightarrow> string \<Rightarrow> u64 \<Rightarrow> digest_derivator \<Rightarrow>
     (digest_identifier, subject_error) res" where
  "generate_subject_id E namespace schema_id public_key governance_id governance_version d =
     map_err (\<lambda>_. ErrorCreatingSubjectId)
       (from_serializable_borsh E
          (PSubjectId namespace schema_id public_key governance_id governance_version) d)"

definition get_subject_context :: "subject \<Rightarrow> key_identifier \<Rightarrow> subject_context" where
  "get_subject_context s invoker = \<lparr>
     sc_governance_id = su_governance_id s,
     sc_schema_id = su_schema_id s,
     sc_is_owner = (invoker = su_owner s),
     sc_state = su_properties s,
     sc_namespace = su_namespace s\<rparr>"

definition from_genesis_event ::
  "'b env \<Rightarrow> event signed \<Rightarrow> json \<Rightarrow> key_pair option \<Rightarrow> digest_derivator \<Rightarrow> (subject, subject_error) res" where
  "from_genesis_event E ev init_state keys d =
     (case content (ev_event_request (content ev)) of
        Create cr \<Rightarrow>
          bindR (generate_subject_id E (st_namespace cr) (st_schema_id cr) (kstr E (st_public_key cr))
            (dstr E (st_governance_id cr)) (ev_gov_version (content ev)) d) (\<lambda>subject_id.
          Ok \<lparr>
            su_keys = keys,
            su_subject_id = subject_id,
            su_governance_id = st_governance_id cr,
            su_sn = 0,
            su_genesis_gov_version = ev_gov_version (content ev),
            su_public_key = st_public_key cr,
            su_namespace = st_namespace cr,
            su_name = st_name cr,
            su_schema_id = st_schema_id cr,
            su_owner = sg_signer (signature (ev_event_request (content ev))),
            su_creator = sg_signer (signature (ev_event_request (content ev))),
            su_properties = init_state,
            su_active = True\<rparr>)
      | _ \<Rightarrow> Fail NotCreateEvent)"

text \<open>\<^verbatim>\<open>update_subject\<close> works in place: on an error the subject of the caller is not used again.\<close>

definition update_subject :: "'b env \<Rightarrow> json \<Rightarrow> u64 \<Rightarrow> subject \<Rightarrow> (subject, subject_error) res" where
  "update_subject E json_patch new_sn s =
     (if \<not> e_is_patch E json_patch then Fail (ErrorParsingJsonString ''Json Patch conversion fails'')
      else case e_patch E (su_properties s) json_patch of
        None \<Rightarrow> Fail (ErrorApplyingPatch ''Error Applying Patch'')
      | Some p \<Rightarrow> Ok (s\<lparr>su_properties := p, su_sn := new_sn\<rparr>))"

definition transfer_subject ::
  "key_identifier \<Rightarrow> key_identifier \<Rightarrow> key_pair option \<Rightarrow> u64 \<Rightarrow> subject \<Rightarrow> subject" where
  "transfer_subject owner public_key keys sn s =
     s\<lparr>su_owner := owner, su_public_key := public_key, su_keys := keys, su_sn := sn\<rparr>"

definition get_state_hash :: "'b env \<Rightarrow> digest_derivator \<Rightarrow> subject \<Rightarrow> (digest_identifier, subject_error) res" where
  "get_state_hash E d s =
     map_err (\<lambda>_. CryptoError ''Error calculating the hash of the state'')
       (from_serializable_borsh E (PValue (su_properties s)) d)"

definition eol_event :: "subject \<Rightarrow> subject" where
  "eol_event s = s\<lparr>su_active := False\<rparr>"

definition state_hash_after_apply ::
  "'b env \<Rightarrow> json \<Rightarrow> digest_derivator \<Rightarrow> subject \<Rightarrow> (digest_identifier, subject_error) res" where
  "state_hash_after_apply E json_patch d s =
     (if \<not> e_is_patch E json_patch then Fail (CryptoError ''Error parsing the json patch'')
      else case e_patch E (su_properties s) json_patch of
        None \<Rightarrow> Fail (CryptoError ''Error applying the json patch'')
      | Some p \<Rightarrow>
          map_err (\<lambda>_. CryptoError ''Error calculating the hash of the state'')
            (from_serializable_borsh E (PValue p) d))"

text \<open>The hash announced before applying a patch is the hash of the state after applying it.\<close>

lemma state_hash_after_apply_correct:
  assumes "update_subject E p n s = Ok s'"
  shows "state_hash_after_apply E p d s = get_state_hash E d s'"
  using assms
  by (auto simp: update_subject_def state_hash_after_apply_def get_state_hash_def
      split: if_splits option.splits)

lemma update_subject_frame:
  assumes "update_subject E p n s = Ok s'"
  shows "su_sn s' = n" "su_subject_id s' = su_subject_id s" "su_governance_id s' = su_governance_id s"
    "su_owner s' = su_owner s" "su_public_key s' = su_public_key s" "su_active s' = su_active s"
    "su_keys s' = su_keys s" "su_schema_id s' = su_schema_id s" "su_namespace s' = su_namespace s"
    "su_name s' = su_name s" "su_creator s' = su_creator s"
    "su_genesis_gov_version s' = su_genesis_gov_version s"
  using assms by (auto simp: update_subject_def split: if_splits option.splits)

section \<open>Requests\<close>

definition taple_request_from :: "'b env \<Rightarrow> event_request signed \<Rightarrow> (taple_request, subject_error) res" where
  "taple_request_from E er =
     bindR (map_err (\<lambda>_. CryptoError ''Error generation request hash'')
       (generate_with_blake3 E (PSignedEventRequest er))) (\<lambda>i.
     Ok \<lparr>
       tq_id = i,
       tq_subject_id = (case content er of
           Create _ \<Rightarrow> None
         | Fact f \<Rightarrow> Some (fa_subject_id f)
         | Transfer t \<Rightarrow> Some (tr_subject_id t)
         | EOL e \<Rightarrow> Some (eo_subject_id e)),
       tq_sn = None,
       tq_event_request = er,
       tq_state = Processing,
       tq_success = None\<rparr>)"

section \<open>Events\<close>

definition evaluation_response_hash ::
  "'b env \<Rightarrow> evaluation_response \<Rightarrow> digest_derivator \<Rightarrow> (digest_identifier, subject_error) res" where
  "evaluation_response_hash E r d =
     map_err (\<lambda>_. SignatureCreationFails ''HashId for EvaluationResponse Fails'')
       (from_serializable_borsh E
         (PEvaluationResponseId (er_eval_req_hash r) (er_state_hash r) (er_eval_success r)
           (er_appr_required r)) d)"

definition evaluation_request_hash ::
  "'b env \<Rightarrow> evaluation_request \<Rightarrow> digest_derivator \<Rightarrow> (digest_identifier, subject_error) res" where
  "evaluation_request_hash E r d =
     map_err (\<lambda>_. SignatureCreationFails ''HashId for EvaluationRequest Fails'')
       (from_serializable_borsh E (PEvaluationRequest r) d)"

definition approval_request_hash ::
  "'b env \<Rightarrow> approval_request \<Rightarrow> digest_derivator \<Rightarrow> (digest_identifier, subject_error) res" where
  "approval_request_hash E r d =
     map_err (\<lambda>_. SignatureCreationFails ''HashId for ApprovalRequest Fails'')
       (from_serializable_borsh E (PApprovalRequest r) d)"

definition get_approval_hash ::
  "'b env \<Rightarrow> digest_identifier \<Rightarrow> digest_derivator \<Rightarrow> event \<Rightarrow> (digest_identifier, subject_error) res" where
  "get_approval_hash E gov_id d ev =
     approval_request_hash E \<lparr>
       aq_event_request = ev_event_request ev,
       aq_sn = ev_sn ev,
       aq_gov_version = ev_gov_version ev,
       aq_patch = ev_patch ev,
       aq_state_hash = ev_state_hash ev,
       aq_hash_prev_event = ev_hash_prev_event ev,
       aq_gov_id = gov_id\<rparr> d"

definition event_from_genesis_request ::
  "'b env \<Rightarrow> timestamp \<Rightarrow> event_request signed \<Rightarrow> key_pair \<Rightarrow> u64 \<Rightarrow> json \<Rightarrow> digest_derivator \<Rightarrow>
     (event signed, subject_error) res" where
  "event_from_genesis_request E now er subject_keys gov_version init_state d =
     (case content er of
        Create start \<Rightarrow>
          bindR (ok_or (CryptoError ''Error converting patch to value'') (e_diff E (JObject []) init_state))
          (\<lambda>json_patch.
          let public_key = new_key (get_key_derivator subject_keys) (public_key_bytes subject_keys) in
          bindR (generate_subject_id E (st_namespace start) (st_schema_id start) (kstr E public_key)
            (dstr E (st_governance_id start)) gov_version d) (\<lambda>subject_id.
          bindR (map_err (\<lambda>_. CryptoError ''Error converting state to hash'')
            (from_serializable_borsh E (PValue init_state) d)) (\<lambda>state_hash.
          let ev = \<lparr>
            ev_subject_id = subject_id,
            ev_event_request = er,
            ev_sn = 0,
            ev_gov_version = gov_version,
            ev_patch = json_patch,
            ev_state_hash = state_hash,
            ev_eval_success = True,
            ev_appr_required = False,
            ev_approved = True,
            ev_hash_prev_event = default_digest,
            ev_evaluators = [],
            ev_approvers = []\<rparr> in
          bindR (map_err (\<lambda>_. CryptoError ''Error signing the hash of the proposal'')
            (signature_new E now (PEvent ev) subject_keys d)) (\<lambda>g.
          Ok \<lparr>content = ev, signature = g\<rparr>))))
      | _ \<Rightarrow> Fail NotCreateEvent)"

definition event_request_verify :: "'b env \<Rightarrow> event_request signed \<Rightarrow> (unit, subject_error) res" where
  "event_request_verify E er = signature_verify E (signature er) (PEventRequest (content er))"

definition verify_event_signatures :: "'b env \<Rightarrow> event signed \<Rightarrow> (unit, subject_error) res" where
  "verify_event_signatures E ev =
     bindR (signature_verify E (signature ev) (PEvent (content ev))) (\<lambda>_.
     event_request_verify E (ev_event_request (content ev)))"

text \<open>The loop over a set of signatures: each signer once, each signature valid.\<close>

fun collect_signers ::
  "'b env \<Rightarrow> payload \<Rightarrow> string \<Rightarrow> key_identifier set \<Rightarrow> signature list \<Rightarrow>
     (key_identifier set, subject_error) res" where
  "collect_signers E p msg acc [] = Ok acc"
| "collect_signers E p msg acc (g # gs) =
     (if sg_signer g \<in> acc then Fail (RepeatedSignature msg)
      else bindR (signature_verify E g p) (\<lambda>_. collect_signers E p msg (insert (sg_signer g) acc) gs))"

text \<open>The quorum information of a stage: the signers, the size of a positive and of a negative
  quorum.\<close>

type_synonym sign_info = "key_identifier set \<times> u32 \<times> u32"

definition check_quorum ::
  "string \<Rightarrow> string \<Rightarrow> sign_info \<Rightarrow> bool \<Rightarrow> key_identifier set \<Rightarrow> (unit, subject_error) res" where
  "check_quorum bad few info positive who =
     (case info of (signers, q, q_neg) \<Rightarrow>
        if \<not> who \<subseteq> signers then Fail (SignersError bad)
        else if card who < unat (if positive then q else q_neg) then Fail (SignersError few)
        else Ok ())"

definition event_evaluation_response ::
  "'b env \<Rightarrow> subject_context \<Rightarrow> event \<Rightarrow> (evaluation_response, subject_error) res" where
  "event_evaluation_response E ctx ev =
     bindR (evaluation_request_hash E \<lparr>
       eq_event_request = ev_event_request ev,
       eq_context = ctx,
       eq_sn = ev_sn ev,
       eq_gov_version = ev_gov_version ev\<rparr> Blake3_256) (\<lambda>h.
     Ok \<lparr>
       er_patch = ev_patch ev,
       er_eval_req_hash = h,
       er_state_hash = ev_state_hash ev,
       er_eval_success = ev_eval_success ev,
       er_appr_required = ev_appr_required ev\<rparr>)"

definition event_approval_response ::
  "'b env \<Rightarrow> digest_identifier \<Rightarrow> event \<Rightarrow> (approval_response, subject_error) res" where
  "event_approval_response E gov_id ev =
     bindR (get_approval_hash E gov_id Blake3_256 ev) (\<lambda>h.
     Ok \<lparr>ar_appr_req_hash = h, ar_approved = ev_approved ev\<rparr>)"

definition verify_eval_appr ::
  "'b env \<Rightarrow> subject_context \<Rightarrow> sign_info \<Rightarrow> sign_info \<Rightarrow> event signed \<Rightarrow> (unit, subject_error) res" where
  "verify_eval_appr E ctx eval_info appr_info sev =
     (let ev = content sev in
      if \<not> requires_eval_appr (content (ev_event_request ev))
         \<and> ev_eval_success ev \<and> ev_approved ev \<and> \<not> ev_appr_required ev
      then Ok ()
      else
        bindR (event_evaluation_response E ctx ev) (\<lambda>resp.
        bindR (collect_signers E (PEvaluationResponse resp) ''Repeated Signer in Evaluators'' {}
          (ev_evaluators ev)) (\<lambda>evaluators.
        bindR (check_quorum ''Incorrect Evaluators signed'' ''Not enough Evaluators signed''
          eval_info (ev_eval_success ev) evaluators) (\<lambda>_.
        if ev_approved ev \<and> \<not> ev_appr_required ev then Ok ()
        else
          bindR (event_approval_response E (sc_governance_id ctx) ev) (\<lambda>aresp.
          bindR (collect_signers E (PApprovalResponse aresp) ''Repeated Signer in Approvers'' {}
            (ev_approvers ev)) (\<lambda>approvers.
          check_quorum ''Incorrect Approvers signed'' ''Not enough Approvers signed''
            appr_info (ev_approved ev) approvers))))))"

section \<open>What an accepted set of signatures shows\<close>

lemma collect_signers_Ok:
  assumes "collect_signers E p msg acc gs = Ok S"
  shows "S = acc \<union> sg_signer ` set gs" "distinct (map sg_signer gs)"
    "sg_signer ` set gs \<inter> acc = {}" "\<forall>g \<in> set gs. signature_verify E g p = Ok ()"
proof -
  have "S = acc \<union> sg_signer ` set gs \<and> distinct (map sg_signer gs) \<and>
    sg_signer ` set gs \<inter> acc = {} \<and> (\<forall>g \<in> set gs. signature_verify E g p = Ok ())"
    using assms
    by (induction gs arbitrary: acc) (fastforce simp: bindR_eq_Inr split: if_splits)+
  then show "S = acc \<union> sg_signer ` set gs" "distinct (map sg_signer gs)"
    "sg_signer ` set gs \<inter> acc = {}" "\<forall>g \<in> set gs. signature_verify E g p = Ok ()"
    by simp_all
qed

lemma check_quorum_Ok:
  "check_quorum bad few (signers, q, q_neg) positive who = Ok () \<longleftrightarrow>
     who \<subseteq> signers \<and> unat (if positive then q else q_neg) \<le> card who"
  by (auto simp: check_quorum_def)

text \<open>\<open>quorum_signed\<close>: enough different allowed signers signed \<open>p\<close>.\<close>

definition quorum_signed :: "'b env \<Rightarrow> payload \<Rightarrow> key_identifier set \<Rightarrow> u32 \<Rightarrow> signature list \<Rightarrow> bool" where
  "quorum_signed E p signers q gs \<longleftrightarrow>
     sg_signer ` set gs \<subseteq> signers \<and> distinct (map sg_signer gs) \<and> unat q \<le> length gs \<and>
     (\<forall>g \<in> set gs. signature_verify E g p = Ok ())"

lemma collect_check_quorum:
  assumes "collect_signers E p msg {} gs = Ok S"
    and "check_quorum bad few (signers, q, q_neg) positive S = Ok ()"
  shows "quorum_signed E p signers (if positive then q else q_neg) gs"
proof -
  have S: "S = sg_signer ` set gs" "distinct (map sg_signer gs)"
    and ver: "\<forall>g \<in> set gs. signature_verify E g p = Ok ()"
    using collect_signers_Ok [OF assms(1)] by auto
  have "card S = length gs"
    using S distinct_card [of "map sg_signer gs"] by simp
  then show ?thesis
    using S ver assms(2) by (simp add: check_quorum_Ok quorum_signed_def)
qed

section \<open>Creation\<close>

text \<open>A node that receives the genesis event derives the subject the creator meant.\<close>

lemma genesis_roundtrip:
  assumes "event_from_genesis_request E now er keys v init_state d = Ok ev" "content er = Create start"
    and "st_public_key start = new_key (get_key_derivator keys) (public_key_bytes keys)"
  shows "\<exists>s. from_genesis_event E ev init_state k d = Ok s \<and> su_subject_id s = ev_subject_id (content ev) \<and>
      su_sn s = ev_sn (content ev) \<and> su_genesis_gov_version s = v \<and> su_properties s = init_state \<and>
      su_owner s = sg_signer (signature er) \<and> get_state_hash E d s = Ok (ev_state_hash (content ev))"
    and "key_pair_ok E keys \<Longrightarrow> signature_verify E (signature ev) (PEvent (content ev)) = Ok ()"
  using assms
  by (auto simp: event_from_genesis_request_def from_genesis_event_def bindR_eq_Inr Let_def
      get_state_hash_def intro: signature_new_verifies)

end
