(* ===== verification/Store.thy ===== *)
theory Store
  imports Env
begin

text \<open>
  The key-value store under the database: the in-memory implementation
  (\<^verbatim>\<open>database/memory.rs\<close>), the collection interface it implements (\<^verbatim>\<open>database/mod.rs\<close>), and the
  keys and range queries of the layers above it (\<^verbatim>\<open>database/layers/utils.rs\<close>).
\<close>

section \<open>Errors\<close>

datatype db_error =
    EntryNotFound
  | SerializeError
  | DeserializeError
  | SubjectApplyFailed
  | NoDigestIdentifier
  | KeyElementsError
  | CustomError string
  | NonExistentStatus

section \<open>The in-memory manager\<close>

text \<open>A \<^verbatim>\<open>DataStore\<close> is a shared ordered map; the manager keeps the stores it has handed out under
  a name. A collection is a reference to a store, here its address in the list of stores.\<close>

type_synonym 'b data_store = "(string, 'b) btree"

record 'b memory_manager =
  mm_data :: "(string \<times> nat) list"
  mm_stores :: "'b data_store list"

definition memory_manager_new :: "'b memory_manager" where
  "memory_manager_new = \<lparr>mm_data = [], mm_stores = []\<rparr>"

text \<open>\<^verbatim>\<open>create_collection\<close> ignores the identifier it is given.\<close>

definition create_collection :: "string \<Rightarrow> 'b memory_manager \<Rightarrow> nat \<times> 'b memory_manager" where
  "create_collection ident M =
     (case map_of (mm_data M) '''' of
        Some a \<Rightarrow> (a, M)
      | None \<Rightarrow>
          let a = length (mm_stores M) in
          (a, M\<lparr>mm_data := ('''', a) # mm_data M, mm_stores := mm_stores M @ [[]]\<rparr>))"

fun create_collections :: "string list \<Rightarrow> 'b memory_manager \<Rightarrow> nat list \<times> 'b memory_manager" where
  "create_collections [] M = ([], M)"
| "create_collections (i # is) M =
     (case create_collection i M of (a, M1) \<Rightarrow>
      case create_collections is M1 of (as, M2) \<Rightarrow> (a # as, M2))"

lemma create_collection_bound:
  "map_of (mm_data (snd (create_collection i M))) '''' = Some (fst (create_collection i M))"
  by (simp add: create_collection_def Let_def split: option.splits)

lemma create_collections_after:
  "map_of (mm_data M) '''' = Some a \<Longrightarrow>
     create_collections is M = (replicate (length is) a, M)"
  by (induction "is") (auto simp: create_collection_def)

lemma create_collections_shared:
  "fst (create_collections is (memory_manager_new :: 'b memory_manager)) = replicate (length is) 0"
proof (cases "is")
  case (Cons i js)
  have "create_collection i (memory_manager_new :: 'b memory_manager) =
    (0, \<lparr>mm_data = [('''', 0)], mm_stores = [[]]\<rparr>)"
    by (simp add: create_collection_def memory_manager_new_def)
  then show ?thesis
    using Cons by (simp add: create_collections_after)
qed simp

section \<open>Collections\<close>

text \<open>
  The operations of \<^verbatim>\<open>MemoryCollection\<close> on its store. Taking the lock cannot fail short of a
  panic elsewhere, and is not modelled.
\<close>

definition coll_get :: "string \<Rightarrow> 'b data_store \<Rightarrow> ('b, db_error) res" where
  "coll_get k m = (case bt_get m k of None \<Rightarrow> Fail EntryNotFound | Some d \<Rightarrow> Ok d)"

definition coll_put :: "string \<Rightarrow> 'b \<Rightarrow> ('b data_store, unit, db_error) act" where
  "coll_put k d = (\<lambda>m. (Ok (), bt_insert k d m))"

definition coll_del :: "string \<Rightarrow> ('b data_store, unit, db_error) act" where
  "coll_del k = (\<lambda>m. (Ok (), bt_remove k m))"

text \<open>\<^verbatim>\<open>MemoryIterator::next\<close> and \<^verbatim>\<open>RevMemoryIterator::next\<close>: the state is what is left of the
  whole map, in the direction of the iterator. An entry that does not start with the prefix
  ends the iteration.\<close>

fun iter_next :: "string \<Rightarrow> (string \<times> 'b) list \<Rightarrow> (string \<times> 'b) option \<times> (string \<times> 'b) list" where
  "iter_next t [] = (None, [])"
| "iter_next t ((k, v) # rest) =
     (if \<not> starts_with t k then (None, rest) else (Some (remove_all t k, v), rest))"

text \<open>What a \<^verbatim>\<open>for\<close> loop sees of an iterator: the items before the first \<^verbatim>\<open>None\<close>.\<close>

fun iter_items :: "string \<Rightarrow> (string \<times> 'b) list \<Rightarrow> (string \<times> 'b) list" where
  "iter_items t [] = []"
| "iter_items t (e # rest) =
     (case iter_next t (e # rest) of
        (None, _) \<Rightarrow> []
      | (Some x, _) \<Rightarrow> x # iter_items t rest)"

definition coll_iter :: "bool \<Rightarrow> string \<Rightarrow> 'b data_store \<Rightarrow> (string \<times> 'b) list" where
  "coll_iter reverse pre m = iter_items pre (if reverse then rev m else m)"

text \<open>The interface: what the layers above rely on.\<close>

locale database_collection =
  fixes inv :: "'m \<Rightarrow> bool"
    and get :: "string \<Rightarrow> 'm \<Rightarrow> ('b, db_error) res"
    and put :: "string \<Rightarrow> 'b \<Rightarrow> ('m, unit, db_error) act"
    and del :: "string \<Rightarrow> ('m, unit, db_error) act"
    and iter :: "bool \<Rightarrow> string \<Rightarrow> 'm \<Rightarrow> (string \<times> 'b) list"
  assumes put_Ok: "fst (put k d m) = Ok ()"
    and del_Ok: "fst (del k m) = Ok ()"
    and inv_put: "inv m \<Longrightarrow> inv (snd (put k d m))"
    and inv_del: "inv m \<Longrightarrow> inv (snd (del k m))"
    and get_put: "get k' (snd (put k d m)) = (if k' = k then Ok d else get k' m)"
    and get_del: "inv m \<Longrightarrow> get k' (snd (del k m)) = (if k' = k then Fail EntryNotFound else get k' m)"
    and iter_sound: "inv m \<Longrightarrow> (s, d) \<in> set (iter r p m) \<Longrightarrow>
      \<exists>k. get k m = Ok d \<and> starts_with p k \<and> s = remove_all p k"
begin

lemma put_run: "put k d m = (Ok (), snd (put k d m))"
  by (metis put_Ok prod.collapse)

lemma del_run: "del k m = (Ok (), snd (del k m))"
  by (metis del_Ok prod.collapse)

lemma get_put_same [simp]: "get k (snd (put k d m)) = Ok d"
  by (simp add: get_put)

lemma get_put_other [simp]: "k' \<noteq> k \<Longrightarrow> get k' (snd (put k d m)) = get k' m"
  by (simp add: get_put)

lemma get_del_same [simp]: "inv m \<Longrightarrow> get k (snd (del k m)) = Fail EntryNotFound"
  by (simp add: get_del)

lemma get_del_other [simp]: "inv m \<Longrightarrow> k' \<noteq> k \<Longrightarrow> get k' (snd (del k m)) = get k' m"
  by (simp add: get_del)

end

lemma coll_get_eq_Ok: "coll_get k m = Ok d \<longleftrightarrow> bt_get m k = Some d"
  by (simp add: coll_get_def split: option.splits)

lemma iter_items_sound:
  "(s, d) \<in> set (iter_items t es) \<Longrightarrow> \<exists>k. (k, d) \<in> set es \<and> starts_with t k \<and> s = remove_all t k"
  by (induction t es rule: iter_items.induct) (auto split: if_splits)

interpretation mem: database_collection bt_inv coll_get coll_put coll_del coll_iter
proof
  fix k k' :: string and d :: 'b and m :: "'b data_store"
  show "fst (coll_put k d m) = Ok ()" "fst (coll_del k m) = Ok ()"
    by (simp_all add: coll_put_def coll_del_def)
  show "bt_inv m \<Longrightarrow> bt_inv (snd (coll_put k d m))" "bt_inv m \<Longrightarrow> bt_inv (snd (coll_del k m))"
    by (simp_all add: coll_put_def coll_del_def)
  show "coll_get k' (snd (coll_put k d m)) = (if k' = k then Ok d else coll_get k' m)"
    by (simp add: coll_put_def coll_get_def bt_get_insert)
  show "bt_inv m \<Longrightarrow>
    coll_get k' (snd (coll_del k m)) = (if k' = k then Fail EntryNotFound else coll_get k' m)"
    by (simp add: coll_del_def coll_get_def bt_get_remove)
next
  fix s p :: string and d :: 'b and m :: "'b data_store" and r
  assume inv: "bt_inv m" and "(s, d) \<in> set (coll_iter r p m)"
  then obtain k where k: "(k, d) \<in> set m" "starts_with p k" "s = remove_all p k"
    by (auto simp: coll_iter_def dest: iter_items_sound split: if_splits)
  then have "bt_get m k = Some d"
    using bt_inv_distinct [OF inv] by simp
  with k show "\<exists>k. coll_get k m = Ok d \<and> starts_with p k \<and> s = remove_all p k"
    by (auto simp: coll_get_eq_Ok)
qed

text \<open>The iteration is the run of matching entries at the start of the map, which is all of
  them only if no smaller key comes first.\<close>

lemma iter_items_takeWhile:
  "iter_items t es =
     map (\<lambda>(k, v). (remove_all t k, v)) (takeWhile (\<lambda>(k, v). starts_with t k) es)"
  by (induction t es rule: iter_items.induct) auto

lemma iter_items_first_mismatch: "\<not> starts_with t k \<Longrightarrow> iter_items t ((k, v) # es) = []"
  by simp

section \<open>Keys\<close>

text \<open>\<^verbatim>\<open>char::MAX.to_string()\<close>\<close>

definition char_MAX :: string where
  "char_MAX = map char_of [0xF4, 0x8F, 0xBF, 0xBF :: nat]"

datatype elem = N u64 | S string

text \<open>\<^verbatim>\<open>format!("{:0width$}", format!("{:016x}", value), width = 17)\<close>: the zero flag pads numbers
  only; a string is filled up with spaces on its right.\<close>

definition MAX_U64 :: nat where
  "MAX_U64 = 17"

definition get_u64_as_hexadecimal :: "u64 \<Rightarrow> string" where
  "get_u64_as_hexadecimal v =
     (let s = hexn 16 (unat v) in s @ replicate (MAX_U64 - length s) CHR '' '')"

fun elem_str :: "elem \<Rightarrow> string" where
  "elem_str (N n) = get_u64_as_hexadecimal n"
| "elem_str (S s) = s"

definition get_key :: "elem list \<Rightarrow> (string, db_error) res" where
  "get_key es =
     (if length es > 0 then
        Ok (concat (map (\<lambda>i. elem_str (es ! i) @ char_MAX) [0..<length es - 1])
            @ elem_str (es ! (length es - 1)))
      else Fail KeyElementsError)"

text \<open>The same, by recursion on the elements.\<close>

fun join_key :: "elem list \<Rightarrow> string" where
  "join_key [] = []"
| "join_key [e] = elem_str e"
| "join_key (e # es) = elem_str e @ char_MAX @ join_key es"

lemma get_key_join: "es \<noteq> [] \<Longrightarrow> get_key es = Ok (join_key es)"
proof (induction es rule: join_key.induct)
  case (3 e e' es)
  have split: "[0..<Suc (length es)] = 0 # map Suc [0..<length es]"
    by (simp add: upt_conv_Cons map_Suc_upt del: upt_Suc)
  from 3 show ?case
    by (simp add: get_key_def split comp_def del: upt_Suc)
qed (simp_all add: get_key_def)

lemma get_u64_as_hexadecimal_eq: "get_u64_as_hexadecimal v = hexn 16 (unat v) @ '' ''"
  by (simp add: get_u64_as_hexadecimal_def MAX_U64_def)

lemma unat_lt_hex: "unat (v :: u64) < 16 ^ 16"
proof -
  have "unat v < 2 ^ LENGTH(64)" by (rule unsigned_less)
  then show ?thesis by simp
qed

lemma hexadecimal_inject: "get_u64_as_hexadecimal v = get_u64_as_hexadecimal w \<longleftrightarrow> v = w"
  by (simp only: get_u64_as_hexadecimal_eq append_same_eq hexn_eq_iff unat_lt_hex)
    (auto intro: unsigned_word_eqI)

lemma hexadecimal_less_iff: "get_u64_as_hexadecimal v < get_u64_as_hexadecimal w \<longleftrightarrow> v < w"
proof -
  have "get_u64_as_hexadecimal v < get_u64_as_hexadecimal w \<longleftrightarrow>
      hexn 16 (unat v) < hexn 16 (unat w)"
    by (simp only: get_u64_as_hexadecimal_eq length_hexn list_less_snoc) simp
  also have "\<dots> \<longleftrightarrow> v < w"
    by (simp only: hexn_less_iff unat_lt_hex word_less_nat_alt)
  finally show ?thesis .
qed

text \<open>The elements of the keys the layers build: none contains the first byte of the
  separator.\<close>

definition sep_free :: "string \<Rightarrow> bool" where
  "sep_free s \<longleftrightarrow> char_of (0xF4 :: nat) \<notin> set s"

lemma sep_free_ascii: "ascii s \<Longrightarrow> sep_free s"
  by (auto simp: sep_free_def ascii_def list_all_iff)

lemma sep_free_hexadecimal [simp]: "sep_free (get_u64_as_hexadecimal v)"
  by (rule sep_free_ascii) (simp add: get_u64_as_hexadecimal_eq)

lemma append_sep_inject:
  assumes "sep_free a" "sep_free b" "a @ char_MAX @ x = b @ char_MAX @ y"
  shows "a = b \<and> x = y"
  using assms
proof (induction a arbitrary: b)
  case Nil
  then show ?case by (cases b) (auto simp: sep_free_def char_MAX_def)
next
  case (Cons c a)
  then show ?case by (cases b) (auto simp: sep_free_def char_MAX_def)
qed

lemma append_sep_neq: "sep_free b \<Longrightarrow> a @ char_MAX @ x \<noteq> b"
  by (auto simp: sep_free_def char_MAX_def)

lemma join_key_Cons: "es \<noteq> [] \<Longrightarrow> join_key (e # es) = elem_str e @ char_MAX @ join_key es"
  by (cases es) simp_all

lemma join_key_inject:
  "list_all (\<lambda>e. sep_free (elem_str e)) es \<Longrightarrow> list_all (\<lambda>e. sep_free (elem_str e)) fs \<Longrightarrow>
     es \<noteq> [] \<Longrightarrow> fs \<noteq> [] \<Longrightarrow> join_key es = join_key fs \<Longrightarrow> map elem_str es = map elem_str fs"
proof (induction es arbitrary: fs)
  case (Cons e es)
  then obtain f fs' where fs: "fs = f # fs'" by (cases fs) auto
  have sep: "sep_free (elem_str e)" "sep_free (elem_str f)"
    using Cons.prems fs by simp_all
  consider "es = []" "fs' = []" | "es = []" "fs' \<noteq> []" | "es \<noteq> []" "fs' = []"
    | "es \<noteq> []" "fs' \<noteq> []" by blast
  then show ?case
  proof cases
    case 1
    then show ?thesis using Cons.prems(5) fs by simp
  next
    case 2
    then have "elem_str e = elem_str f @ char_MAX @ join_key fs'"
      using Cons.prems(5) fs by (simp add: join_key_Cons)
    then show ?thesis using append_sep_neq [OF sep(1)] by metis
  next
    case 3
    then have "elem_str f = elem_str e @ char_MAX @ join_key es"
      using Cons.prems(5) fs by (simp add: join_key_Cons)
    then show ?thesis using append_sep_neq [OF sep(2)] by metis
  next
    case 4
    then have "elem_str e @ char_MAX @ join_key es = elem_str f @ char_MAX @ join_key fs'"
      using Cons.prems(5) fs by (simp add: join_key_Cons)
    then have "elem_str e = elem_str f" "join_key es = join_key fs'"
      using append_sep_inject [OF sep] by blast+
    then show ?thesis using Cons.IH [of fs'] Cons.prems fs 4 by simp
  qed
qed simp

section \<open>Range queries\<close>

text \<open>\<^verbatim>\<open>isize::abs\<close>, which wraps on the smallest value, of a 64-bit \<^verbatim>\<open>isize\<close> given as an integer.\<close>

definition isize_abs :: "int \<Rightarrow> int" where
  "isize_abs q = (if q = - (2 ^ 63) then q else \<bar>q\<bar>)"

text \<open>The loop over the peekable iterator that looks for the key to start after.\<close>

fun seek :: "string \<Rightarrow> (string \<times> 'b) list \<Rightarrow> ((string \<times> 'b) list, db_error) res" where
  "seek k [] = Fail EntryNotFound"
| "seek k ((k', v) # rest) = (if k' = k then Ok rest else seek k rest)"

definition get_by_range ::
  "string option \<Rightarrow> int \<Rightarrow> string \<Rightarrow> 'b data_store \<Rightarrow> ('b list, db_error) res" where
  "get_by_range from quantity pre m =
     bindR (case from of
        Some key \<Rightarrow>
          bindR (seek key (coll_iter (quantity < 0) (pre @ char_MAX) m)) (\<lambda>it.
          Ok (it, isize_abs quantity))
      | None \<Rightarrow>
          if quantity \<ge> 0 then Ok (coll_iter False pre m, quantity)
          else Ok (coll_iter True pre m, isize_abs quantity))
     (\<lambda>(it, q). Ok (map snd (take (nat q) it)))"

lemma seek_Ok: "seek k it = Ok rest \<Longrightarrow> \<exists>v. (k, v) \<in> set it"
  by (induction k it rule: seek.induct) (auto split: if_splits)

lemma seek_not_found: "k \<notin> fst ` set it \<Longrightarrow> seek k it = Fail EntryNotFound"
  by (induction k it rule: seek.induct) auto

lemma get_by_range_Ok:
  fixes m :: "'b data_store"
  assumes "get_by_range fk q p m = Ok xs"
  obtains it :: "(string \<times> 'b) list" where "xs = map snd (take (nat (if q \<ge> 0 \<and> fk = None then q else isize_abs q)) it)"
  using assms by (cases fk) (auto simp: get_by_range_def bindR_eq_Inr split: if_splits)

lemma get_by_range_length:
  assumes "get_by_range fk q p m = Ok xs" "- (2 ^ 63) < q"
  shows "int (length xs) \<le> \<bar>q\<bar>"
proof -
  have "(if q \<ge> 0 \<and> fk = None then q else isize_abs q) = \<bar>q\<bar>"
    using assms(2) by (simp add: isize_abs_def)
  then show ?thesis
    using assms(1) by (elim get_by_range_Ok) (auto simp: min_def)
qed

end
