(* ===== verification/Db_Layers.thy ===== *)
theory Db_Layers
  imports Store
begin

text \<open>
  The typed tables over the store (\<^verbatim>\<open>database/layers\<close>): each builds its keys from a prefix and the
  identifiers of the entry, and stores borsh bytes. The tables of one in-memory manager share
  one store (\<open>create_collections_shared\<close>), on which all operations here work.
\<close>

section \<open>Reading and writing one entry\<close>

definition kv_get :: "('a, 'b) codec \<Rightarrow> string \<Rightarrow> 'b data_store \<Rightarrow> ('a, db_error) res" where
  "kv_get c key m = bindR (coll_get key m) (\<lambda>b. ok_or DeserializeError (de c b))"

definition kv_put :: "('a, 'b) codec \<Rightarrow> string \<Rightarrow> 'a \<Rightarrow> ('b data_store, unit, db_error) act" where
  "kv_put c key x = bindA (liftA (ok_or SerializeError (ser c x))) (\<lambda>d. coll_put key d)"

text \<open>Decoding a list of entries: \<^verbatim>\<open>map_err\<close> to an error, or \<^verbatim>\<open>unwrap\<close>.\<close>

fun decode_all :: "('a, 'b) codec \<Rightarrow> 'b list \<Rightarrow> ('a list, db_error) res" where
  "decode_all c [] = Ok []"
| "decode_all c (b # bs) =
     bindR (ok_or DeserializeError (de c b)) (\<lambda>x. bindR (decode_all c bs) (\<lambda>xs. Ok (x # xs)))"

fun unwrap_all :: "('a, 'b) codec \<Rightarrow> 'b list \<Rightarrow> ('a list, db_error) res" where
  "unwrap_all c [] = Ok []"
| "unwrap_all c (b # bs) =
     bindR (unwrap (de c b)) (\<lambda>x. bindR (unwrap_all c bs) (\<lambda>xs. Ok (x # xs)))"

section \<open>Events\<close>

definition get_event ::
  "'b env \<Rightarrow> digest_identifier \<Rightarrow> u64 \<Rightarrow> 'b data_store \<Rightarrow> (event signed, db_error) res" where
  "get_event E subject_id sn m =
     bindR (get_key [S ''event'', S (dstr E subject_id), N sn]) (\<lambda>key.
     kv_get (c_event E) key m)"

definition get_events_by_range ::
  "'b env \<Rightarrow> digest_identifier \<Rightarrow> int option \<Rightarrow> int \<Rightarrow> 'b data_store \<Rightarrow> (event signed list, db_error) res" where
  "get_events_by_range E subject_id from quantity m =
     bindR (get_key [S ''event'', S (dstr E subject_id)]) (\<lambda>key.
     bindR (get_by_range (map_option decimal_int from) quantity key m) (\<lambda>bs.
     unwrap_all (c_event E) bs))"

definition set_event ::
  "'b env \<Rightarrow> digest_identifier \<Rightarrow> event signed \<Rightarrow> ('b data_store, unit, db_error) act" where
  "set_event E subject_id ev =
     bindA (liftA (get_key [S ''event'', S (dstr E subject_id), N (ev_sn (content ev))])) (\<lambda>key.
     kv_put (c_event E) key ev)"

definition del_event :: "'b env \<Rightarrow> digest_identifier \<Rightarrow> u64 \<Rightarrow> ('b data_store, unit, db_error) act" where
  "del_event E subject_id sn =
     bindA (liftA (get_key [S ''event'', S (dstr E subject_id), N sn])) (\<lambda>key. coll_del key)"

section \<open>Validation signatures\<close>

definition get_signatures ::
  "'b env \<Rightarrow> digest_identifier \<Rightarrow> u64 \<Rightarrow> 'b data_store \<Rightarrow> (signature list \<times> validation_proof, db_error) res" where
  "get_signatures E subject_id sn m =
     bindR (get_key [S ''signature'', S (dstr E subject_id), N sn]) (\<lambda>key.
     kv_get (c_signatures E) key m)"

text \<open>\<^verbatim>\<open>signatures.union(&other)\<close>: the elements of the first set and those of the other that it
  does not hold.\<close>

definition union_list :: "'a list \<Rightarrow> 'a list \<Rightarrow> 'a list" where
  "union_list xs ys = xs @ filter (\<lambda>y. y \<notin> set xs) ys"

definition set_signatures ::
  "'b env \<Rightarrow> digest_identifier \<Rightarrow> u64 \<Rightarrow> signature list \<Rightarrow> validation_proof \<Rightarrow>
     ('b data_store, unit, db_error) act" where
  "set_signatures E subject_id sn signatures validation_proof =
     bindA (liftA (get_key [S ''signature'', S (dstr E subject_id), N sn])) (\<lambda>key.
     bindA (\<lambda>m.
       (case coll_get key m of
          Inr other \<Rightarrow>
            bindR (ok_or SerializeError (de (c_signatures E) other)) (\<lambda>(other, _).
            Ok (union_list signatures other))
        | Inl (Err EntryNotFound) \<Rightarrow> Ok signatures
        | Inl e \<Rightarrow> Inl e, m)) (\<lambda>total_signatures.
     kv_put (c_signatures E) key (total_signatures, validation_proof)))"

definition del_signatures ::
  "'b env \<Rightarrow> digest_identifier \<Rightarrow> u64 \<Rightarrow> ('b data_store, unit, db_error) act" where
  "del_signatures E subject_id sn =
     bindA (liftA (get_key [S ''signature'', S (dstr E subject_id), N sn])) (\<lambda>key. coll_del key)"

definition get_validation_proof ::
  "'b env \<Rightarrow> digest_identifier \<Rightarrow> 'b data_store \<Rightarrow> (signature list \<times> validation_proof, db_error) res" where
  "get_validation_proof E subject_id m =
     bindR (get_key [S ''signature'', S (dstr E subject_id)]) (\<lambda>key.
     case coll_iter False (key @ char_MAX) m of
       (_, b) # _ \<Rightarrow> ok_or DeserializeError (de (c_signatures E) b)
     | [] \<Rightarrow> Fail EntryNotFound)"

section \<open>Subjects\<close>

definition get_subject ::
  "'b env \<Rightarrow> digest_identifier \<Rightarrow> 'b data_store \<Rightarrow> (subject, db_error) res" where
  "get_subject E subject_id m =
     bindR (get_key [S ''subject'', S (dstr E subject_id)]) (\<lambda>key. kv_get (c_subject E) key m)"

definition set_subject ::
  "'b env \<Rightarrow> digest_identifier \<Rightarrow> subject \<Rightarrow> ('b data_store, unit, db_error) act" where
  "set_subject E subject_id s =
     bindA (liftA (get_key [S ''subject'', S (dstr E subject_id)])) (\<lambda>key. kv_put (c_subject E) key s)"

definition del_subject :: "'b env \<Rightarrow> digest_identifier \<Rightarrow> ('b data_store, unit, db_error) act" where
  "del_subject E subject_id =
     bindA (liftA (get_key [S ''subject'', S (dstr E subject_id)])) (\<lambda>key. coll_del key)"

definition get_subjects ::
  "'b env \<Rightarrow> string option \<Rightarrow> int \<Rightarrow> 'b data_store \<Rightarrow> (subject list, db_error) res" where
  "get_subjects E from quantity m =
     bindR (get_by_range from quantity ''subject'' m) (\<lambda>bs. unwrap_all (c_subject E) bs)"

definition get_all_subjects :: "'b env \<Rightarrow> 'b data_store \<Rightarrow> (subject list, db_error) res" where
  "get_all_subjects E m =
     unwrap_all (c_subject E) (map snd (coll_iter False (''subject'' @ char_MAX) m))"

section \<open>The index of subjects by governance\<close>

definition set_governance_index ::
  "'b env \<Rightarrow> digest_identifier \<Rightarrow> digest_identifier \<Rightarrow> ('b data_store, unit, db_error) act" where
  "set_governance_index E subject_id governance_id =
     bindA (liftA (get_key [S ''governance-index'', S (dstr E governance_id), S (dstr E subject_id)]))
       (\<lambda>key. kv_put (c_digest E) key subject_id)"

definition get_subjects_by_governance ::
  "'b env \<Rightarrow> digest_identifier \<Rightarrow> 'b data_store \<Rightarrow> (digest_identifier list, db_error) res" where
  "get_subjects_by_governance E governance_id m =
     bindR (get_key [S ''governance-index'', S (dstr E governance_id)]) (\<lambda>key.
     decode_all (c_digest E) (map snd (coll_iter False (key @ char_MAX) m)))"

fun return_subjects :: "'b env \<Rightarrow> 'b list \<Rightarrow> 'b data_store \<Rightarrow> (subject list, db_error) res" where
  "return_subjects E [] m = Ok []"
| "return_subjects E (v # vs) m =
     bindR (ok_or DeserializeError (de (c_digest E) v)) (\<lambda>subject_id.
     bindR (kv_get (c_subject E) (''subject'' @ char_MAX @ dstr E subject_id) m) (\<lambda>s.
     bindR (return_subjects E vs m) (\<lambda>ss. Ok (s # ss))))"

definition get_governances ::
  "'b env \<Rightarrow> string option \<Rightarrow> int \<Rightarrow> 'b data_store \<Rightarrow> (subject list, db_error) res" where
  "get_governances E from quantity m =
     bindR (case from of
         Some _ \<Rightarrow> get_by_range from quantity (''governance-index'' @ char_MAX) m
       | None \<Rightarrow> get_by_range from quantity (''governance-index'' @ char_MAX @ char_MAX) m)
     (\<lambda>governances. return_subjects E governances m)"

definition get_governance_subjects ::
  "'b env \<Rightarrow> digest_identifier \<Rightarrow> string option \<Rightarrow> int \<Rightarrow> 'b data_store \<Rightarrow> (subject list, db_error) res" where
  "get_governance_subjects E governance_id from quantity m =
     bindR (get_by_range from quantity (''governance-index'' @ char_MAX @ dstr E governance_id) m)
     (\<lambda>subjects. return_subjects E subjects m)"

section \<open>Requests\<close>

definition get_request ::
  "'b env \<Rightarrow> digest_identifier \<Rightarrow> 'b data_store \<Rightarrow> (event_request signed, db_error) res" where
  "get_request E subject_id m =
     bindR (get_key [S ''request'', S (dstr E subject_id)]) (\<lambda>key. kv_get (c_event_request E) key m)"

definition get_all_request :: "'b env \<Rightarrow> 'b data_store \<Rightarrow> (event_request signed list, db_error) res" where
  "get_all_request E m =
     unwrap_all (c_event_request E) (map snd (coll_iter False (''request'' @ char_MAX) m))"

definition set_request ::
  "'b env \<Rightarrow> digest_identifier \<Rightarrow> event_request signed \<Rightarrow> ('b data_store, unit, db_error) act" where
  "set_request E subject_id r =
     bindA (liftA (get_key [S ''request'', S (dstr E subject_id)])) (\<lambda>key.
     kv_put (c_event_request E) key r)"

definition del_request :: "'b env \<Rightarrow> digest_identifier \<Rightarrow> ('b data_store, unit, db_error) act" where
  "del_request E subject_id =
     bindA (liftA (get_key [S ''request'', S (dstr E subject_id)])) (\<lambda>key. coll_del key)"

definition get_taple_request ::
  "'b env \<Rightarrow> digest_identifier \<Rightarrow> 'b data_store \<Rightarrow> (taple_request, db_error) res" where
  "get_taple_request E request_id m =
     bindR (get_key [S ''taple-request'', S (dstr E request_id)]) (\<lambda>key.
     kv_get (c_taple_request E) key m)"

definition get_taple_all_request :: "'b env \<Rightarrow> 'b data_store \<Rightarrow> (taple_request list, db_error) res" where
  "get_taple_all_request E m =
     unwrap_all (c_taple_request E) (map snd (coll_iter False (''taple-request'' @ char_MAX) m))"

definition set_taple_request ::
  "'b env \<Rightarrow> digest_identifier \<Rightarrow> taple_request \<Rightarrow> ('b data_store, unit, db_error) act" where
  "set_taple_request E request_id r =
     bindA (liftA (get_key [S ''taple-request'', S (dstr E request_id)])) (\<lambda>key.
     kv_put (c_taple_request E) key r)"

definition del_taple_request :: "'b env \<Rightarrow> digest_identifier \<Rightarrow> ('b data_store, unit, db_error) act" where
  "del_taple_request E request_id =
     bindA (liftA (get_key [S ''taple-request'', S (dstr E request_id)])) (\<lambda>key. coll_del key)"

section \<open>Controller, contracts, validation register, prevalidated events\<close>

definition get_controller_id :: "'b env \<Rightarrow> 'b data_store \<Rightarrow> (string, db_error) res" where
  "get_controller_id E m =
     bindR (get_key [S ''controller-id'']) (\<lambda>key. kv_get (c_string E) key m)"

definition set_controller_id :: "'b env \<Rightarrow> string \<Rightarrow> ('b data_store, unit, db_error) act" where
  "set_controller_id E c =
     bindA (liftA (get_key [S ''controller-id''])) (\<lambda>key. kv_put (c_string E) key c)"

definition get_contract ::
  "'b env \<Rightarrow> digest_identifier \<Rightarrow> string \<Rightarrow> 'b data_store \<Rightarrow>
     (bytes \<times> digest_identifier \<times> u64, db_error) res" where
  "get_contract E governance_id schema_id m =
     bindR (get_key [S ''contract'', S (dstr E governance_id), S schema_id]) (\<lambda>key.
     kv_get (c_contract E) key m)"

definition put_contract ::
  "'b env \<Rightarrow> digest_identifier \<Rightarrow> string \<Rightarrow> bytes \<Rightarrow> digest_identifier \<Rightarrow> u64 \<Rightarrow>
     ('b data_store, unit, db_error) act" where
  "put_contract E governance_id schema_id contract h gov_version =
     bindA (liftA (get_key [S ''contract'', S (dstr E governance_id), S schema_id])) (\<lambda>key.
     kv_put (c_contract E) key (contract, h, gov_version))"

definition get_validation_register ::
  "'b env \<Rightarrow> digest_identifier \<Rightarrow> 'b data_store \<Rightarrow> (validation_proof, db_error) res" where
  "get_validation_register E subject_id m =
     bindR (get_key [S ''validation'', S (dstr E subject_id)]) (\<lambda>key. kv_get (c_proof E) key m)"

definition set_validation_register ::
  "'b env \<Rightarrow> digest_identifier \<Rightarrow> validation_proof \<Rightarrow> ('b data_store, unit, db_error) act" where
  "set_validation_register E subject_id p =
     bindA (liftA (get_key [S ''validation'', S (dstr E subject_id)])) (\<lambda>key. kv_put (c_proof E) key p)"

definition get_prevalidated_event ::
  "'b env \<Rightarrow> digest_identifier \<Rightarrow> 'b data_store \<Rightarrow> (event signed, db_error) res" where
  "get_prevalidated_event E subject_id m =
     bindR (get_key [S ''prevalidated-event'', S (dstr E subject_id)]) (\<lambda>key.
     kv_get (c_event E) key m)"

definition set_prevalidated_event ::
  "'b env \<Rightarrow> digest_identifier \<Rightarrow> event signed \<Rightarrow> ('b data_store, unit, db_error) act" where
  "set_prevalidated_event E subject_id ev =
     bindA (liftA (get_key [S ''prevalidated-event'', S (dstr E subject_id)])) (\<lambda>key.
     kv_put (c_event E) key ev)"

definition del_prevalidated_event ::
  "'b env \<Rightarrow> digest_identifier \<Rightarrow> ('b data_store, unit, db_error) act" where
  "del_prevalidated_event E subject_id =
     bindA (liftA (get_key [S ''prevalidated-event'', S (dstr E subject_id)])) (\<lambda>key. coll_del key)"

section \<open>Validation proofs of a last candidate event\<close>

definition get_lce_validation_proof ::
  "'b env \<Rightarrow> digest_identifier \<Rightarrow> 'b data_store \<Rightarrow> (validation_proof, db_error) res" where
  "get_lce_validation_proof E subject_id m =
     bindR (get_key [S ''lce-validation-proofs'', S (dstr E subject_id)]) (\<lambda>key.
     kv_get (c_proof E) key m)"

definition set_lce_validation_proof ::
  "'b env \<Rightarrow> digest_identifier \<Rightarrow> validation_proof \<Rightarrow> ('b data_store, unit, db_error) act" where
  "set_lce_validation_proof E subject_id p =
     bindA (liftA (get_key [S ''lce-validation-proofs'', S (dstr E subject_id)])) (\<lambda>key.
     kv_put (c_proof E) key p)"

definition del_lce_validation_proof ::
  "'b env \<Rightarrow> digest_identifier \<Rightarrow> ('b data_store, unit, db_error) act" where
  "del_lce_validation_proof E subject_id =
     bindA (liftA (get_key [S ''lce-validation-proofs'', S (dstr E subject_id)])) (\<lambda>key. coll_del key)"

section \<open>Witness signatures\<close>

definition get_witness_signatures ::
  "'b env \<Rightarrow> digest_identifier \<Rightarrow> 'b data_store \<Rightarrow> (u64 \<times> signature list, db_error) res" where
  "get_witness_signatures E subject_id m =
     bindR (get_key [S ''witness-signatures'', S (dstr E subject_id)]) (\<lambda>key.
     kv_get (c_witness E) key m)"

fun unwrap_witnesses ::
  "'b env \<Rightarrow> (string \<times> 'b) list \<Rightarrow> ((digest_identifier \<times> u64 \<times> signature list) list, db_error) res" where
  "unwrap_witnesses E [] = Ok []"
| "unwrap_witnesses E ((k, b) # rest) =
     bindR (unwrap (de (c_witness E) b)) (\<lambda>(sn, sigs).
     case digest_from_str (e_b64 E) k of
       Inl _ \<Rightarrow> Abort ''unwrap on Err''
     | Inr d \<Rightarrow> bindR (unwrap_witnesses E rest) (\<lambda>ws. Ok ((d, sn, sigs) # ws)))"

definition get_all_witness_signatures ::
  "'b env \<Rightarrow> 'b data_store \<Rightarrow> ((digest_identifier \<times> u64 \<times> signature list) list, db_error) res" where
  "get_all_witness_signatures E m =
     unwrap_witnesses E (coll_iter False (''witness-signatures'' @ char_MAX) m)"

definition set_witness_signatures ::
  "'b env \<Rightarrow> digest_identifier \<Rightarrow> u64 \<Rightarrow> signature list \<Rightarrow> ('b data_store, unit, db_error) act" where
  "set_witness_signatures E subject_id sn signatures =
     bindA (liftA (get_key [S ''witness-signatures'', S (dstr E subject_id)])) (\<lambda>key.
     bindA (\<lambda>m.
       (case coll_get key m of
          Inr other \<Rightarrow> bindR (unwrap (de (c_witness E) other)) (\<lambda>(_, other). Ok (union_list signatures other))
        | Inl (Err EntryNotFound) \<Rightarrow> Ok signatures
        | Inl e \<Rightarrow> Inl e, m)) (\<lambda>total_signatures.
     kv_put (c_witness E) key (sn, total_signatures)))"

definition del_witness_signatures ::
  "'b env \<Rightarrow> digest_identifier \<Rightarrow> ('b data_store, unit, db_error) act" where
  "del_witness_signatures E subject_id =
     bindA (liftA (get_key [S ''witness-signatures'', S (dstr E subject_id)])) (\<lambda>key. coll_del key)"

section \<open>Keys\<close>

definition get_keys :: "'b env \<Rightarrow> key_identifier \<Rightarrow> 'b data_store \<Rightarrow> (key_pair, db_error) res" where
  "get_keys E public_key m =
     bindR (get_key [S ''keys'', S (kstr E public_key)]) (\<lambda>key. kv_get (c_keys E) key m)"

definition set_keys ::
  "'b env \<Rightarrow> key_identifier \<Rightarrow> key_pair \<Rightarrow> ('b data_store, unit, db_error) act" where
  "set_keys E public_key keypair =
     bindA (liftA (get_key [S ''keys'', S (kstr E public_key)])) (\<lambda>key. kv_put (c_keys E) key keypair)"

definition del_keys :: "'b env \<Rightarrow> key_identifier \<Rightarrow> ('b data_store, unit, db_error) act" where
  "del_keys E public_key =
     bindA (liftA (get_key [S ''keys'', S (kstr E public_key)])) (\<lambda>key. coll_del key)"

definition get_all_keys :: "'b env \<Rightarrow> 'b data_store \<Rightarrow> (key_pair list, db_error) res" where
  "get_all_keys E m =
     bindR (get_key [S ''keys'']) (\<lambda>key. decode_all (c_keys E) (map snd (coll_iter False key m)))"

section \<open>Preauthorised subjects\<close>

definition get_preauthorized_subject_and_providers ::
  "'b env \<Rightarrow> digest_identifier \<Rightarrow> 'b data_store \<Rightarrow> (key_identifier list, db_error) res" where
  "get_preauthorized_subject_and_providers E subject_id m =
     bindR (get_key [S ''preauthorized-subjects-and-providers'', S (dstr E subject_id)]) (\<lambda>key.
     bindR (kv_get (c_providers E) key m) (\<lambda>r. Ok (snd r)))"

definition get_allowed_subjects_and_providers ::
  "'b env \<Rightarrow> string option \<Rightarrow> int \<Rightarrow> 'b data_store \<Rightarrow>
     ((digest_identifier \<times> key_identifier list) list, db_error) res" where
  "get_allowed_subjects_and_providers E from quantity m =
     bindR (get_by_range from quantity ''preauthorized-subjects-and-providers'' m) (\<lambda>bs.
     decode_all (c_providers E) bs)"

definition set_preauthorized_subject_and_providers ::
  "'b env \<Rightarrow> digest_identifier \<Rightarrow> key_identifier list \<Rightarrow> ('b data_store, unit, db_error) act" where
  "set_preauthorized_subject_and_providers E subject_id providers =
     bindA (liftA (get_key [S ''preauthorized-subjects-and-providers'', S (dstr E subject_id)])) (\<lambda>key.
     kv_put (c_providers E) key (subject_id, providers))"

section \<open>Approvals\<close>

definition set_subject_approval_index ::
  "'b env \<Rightarrow> digest_identifier \<Rightarrow> digest_identifier \<Rightarrow> ('b data_store, unit, db_error) act" where
  "set_subject_approval_index E subject_id request_id =
     bindA (liftA (get_key [S ''subjindex-approval-index'', S (dstr E subject_id), S (dstr E request_id)]))
       (\<lambda>key. kv_put (c_digest E) key request_id)"

definition del_subject_approval_index ::
  "'b env \<Rightarrow> digest_identifier \<Rightarrow> digest_identifier \<Rightarrow> ('b data_store, unit, db_error) act" where
  "del_subject_approval_index E subject_id request_id =
     bindA (liftA (get_key [S ''subjindex-approval-index'', S (dstr E subject_id), S (dstr E request_id)]))
       (\<lambda>key. coll_del key)"

definition set_governance_approval_index ::
  "'b env \<Rightarrow> digest_identifier \<Rightarrow> digest_identifier \<Rightarrow> ('b data_store, unit, db_error) act" where
  "set_governance_approval_index E governance_id request_id =
     bindA (liftA (get_key [S ''governance-approval-index'', S (dstr E governance_id), S (dstr E request_id)]))
       (\<lambda>key. kv_put (c_digest E) key request_id)"

definition del_governance_approval_index ::
  "'b env \<Rightarrow> digest_identifier \<Rightarrow> digest_identifier \<Rightarrow> ('b data_store, unit, db_error) act" where
  "del_governance_approval_index E governance_id request_id =
     bindA (liftA (get_key [S ''governance-approval-index'', S (dstr E governance_id), S (dstr E request_id)]))
       (\<lambda>key. coll_del key)"

definition get_approval ::
  "'b env \<Rightarrow> digest_identifier \<Rightarrow> 'b data_store \<Rightarrow> (approval_entity, db_error) res" where
  "get_approval E request_id m =
     bindR (get_key [S ''approvals'', S (dstr E request_id)]) (\<lambda>key. kv_get (c_approval E) key m)"

text \<open>The requests of an index: those still pending, and those the index should not hold.\<close>

fun split_index ::
  "'b env \<Rightarrow> 'b data_store \<Rightarrow> 'b list \<Rightarrow> (digest_identifier list \<times> digest_identifier list, db_error) res" where
  "split_index E m [] = Ok ([], [])"
| "split_index E m (b # bs) =
     bindR (ok_or SerializeError (de (c_digest E) b)) (\<lambda>request_id.
     case get_approval E request_id m of
       Inr a \<Rightarrow>
         bindR (split_index E m bs) (\<lambda>(keep, drop).
         Ok (if ae_state a = Pending then (request_id # keep, drop) else (keep, request_id # drop)))
     | Inl (Err EntryNotFound) \<Rightarrow>
         bindR (split_index E m bs) (\<lambda>(keep, drop). Ok (keep, request_id # drop))
     | Inl e \<Rightarrow> Inl e)"

definition get_approvals_by ::
  "'b env \<Rightarrow> string \<Rightarrow> digest_identifier \<Rightarrow> ('b data_store, digest_identifier list, db_error) act" where
  "get_approvals_by E prefix_name i =
     bindA (liftA (get_key [S prefix_name, S (dstr E i)])) (\<lambda>key.
     bindA (getA (\<lambda>m. split_index E m (map snd (coll_iter False key m)))) (\<lambda>(keep, drop).
     bindA (forA (\<lambda>request_id.
         bindA (liftA (get_key [S prefix_name, S (dstr E i), S (dstr E request_id)])) (\<lambda>k. coll_del k)) drop)
       (\<lambda>_. retA keep)))"

definition get_approvals_by_governance ::
  "'b env \<Rightarrow> digest_identifier \<Rightarrow> ('b data_store, digest_identifier list, db_error) act" where
  "get_approvals_by_governance E governance_id = get_approvals_by E ''governance-approval-index'' governance_id"

definition get_approvals_by_subject ::
  "'b env \<Rightarrow> digest_identifier \<Rightarrow> ('b data_store, digest_identifier list, db_error) act" where
  "get_approvals_by_subject E subject_id = get_approvals_by E ''subjindex-approval-index'' subject_id"

definition set_approval ::
  "'b env \<Rightarrow> digest_identifier \<Rightarrow> approval_entity \<Rightarrow> ('b data_store, unit, db_error) act" where
  "set_approval E request_id approval =
     bindA (liftA (get_key [S ''approvals'', S (dstr E request_id)])) (\<lambda>key.
     bindA (liftA (ok_or SerializeError (ser (c_approval E) approval))) (\<lambda>data.
     bindA (liftA (get_key [S ''pending-approval-index'', S (dstr E request_id)])) (\<lambda>key2.
     bindA (if ae_state approval = Pending then kv_put (c_digest E) key2 request_id else coll_del key2) (\<lambda>_.
     coll_put key data))))"

definition del_approval :: "'b env \<Rightarrow> digest_identifier \<Rightarrow> ('b data_store, unit, db_error) act" where
  "del_approval E request_id =
     bindA (liftA (get_key [S ''approvals'', S (dstr E request_id)])) (\<lambda>key. coll_del key)"

section \<open>All approvals\<close>

text \<open>One pass over the requests of the index of pending ones: those that are still pending are
  collected and counted, for the others the code deletes their key, which is the key of the
  approval itself, from the store all tables share.\<close>

fun pending_pass ::
  "'b env \<Rightarrow> bool \<Rightarrow> 'b list \<Rightarrow> string option \<Rightarrow> int \<Rightarrow> approval_entity list \<Rightarrow>
     ('b data_store, string option \<times> int \<times> approval_entity list, db_error) act" where
  "pending_pass E positive [] start quantity result = retA (start, quantity, result)"
| "pending_pass E positive (b # bs) start quantity result =
     bindA (liftA (ok_or DeserializeError (de (c_digest E) b))) (\<lambda>approval_id.
     bindA (liftA (get_key [S ''approvals'', S (dstr E approval_id)])) (\<lambda>key.
     (\<lambda>m. case coll_get key m of
        Inr approval \<Rightarrow>
          bindA (liftA (ok_or DeserializeError (de (c_approval E) approval))) (\<lambda>a.
          if ae_state a \<noteq> Pending then
            bindA (coll_del key) (\<lambda>_. pending_pass E positive bs (Some key) quantity result)
          else
            pending_pass E positive bs (Some key) (if positive then quantity - 1 else quantity + 1)
              (result @ [a])) m
      | Inl (Err EntryNotFound) \<Rightarrow>
          bindA (coll_del key) (\<lambda>_. pending_pass E positive bs (Some key) quantity result) m
      | Inl e \<Rightarrow> (Inl e, m))))"

text \<open>The loop around it, which may run again from the last key; \<open>fuel\<close> bounds the passes.\<close>

fun pending_loop ::
  "nat \<Rightarrow> 'b env \<Rightarrow> bool \<Rightarrow> string option \<Rightarrow> int \<Rightarrow> approval_entity list \<Rightarrow>
     ('b data_store, approval_entity list, db_error) act" where
  "pending_loop 0 E positive start quantity result = liftA (Abort ''out of fuel'')"
| "pending_loop (Suc fuel) E positive start quantity result =
     (if quantity = 0 then retA result
      else
        bindA (getA (get_by_range start quantity ''pending-approval-index'')) (\<lambda>approvals.
        bindA (pending_pass E positive approvals start quantity result) (\<lambda>(start, quantity', result).
        if length approvals < nat \<bar>quantity\<bar> then retA result
        else pending_loop fuel E positive start quantity' result)))"

fun unwrap_approvals :: "'b env \<Rightarrow> approval_state option \<Rightarrow> 'b list \<Rightarrow> (approval_entity list, db_error) res" where
  "unwrap_approvals E status [] = Ok []"
| "unwrap_approvals E status (b # bs) =
     bindR (unwrap (de (c_approval E) b)) (\<lambda>a.
     bindR (unwrap_approvals E status bs) (\<lambda>as.
     Ok (if status = None \<or> status = Some (ae_state a) then a # as else as)))"

definition get_approvals ::
  "nat \<Rightarrow> 'b env \<Rightarrow> approval_state option \<Rightarrow> string option \<Rightarrow> int \<Rightarrow>
     ('b data_store, approval_entity list, db_error) act" where
  "get_approvals fuel E status start quantity =
     (if status = Some Pending then pending_loop fuel E (quantity > 0) start quantity []
      else
        bindA (getA (get_by_range start quantity ''approvals'')) (\<lambda>approvals.
        liftA (unwrap_approvals E status approvals)))"

end
