(* ===== verification/Governance.thy ===== *)
theory Governance
  imports Gov_Models Db_Layers
begin

text \<open>
  The governance module (\<^verbatim>\<open>governance\<close>): reads the governance documents stored in the database and
  answers who may sign what and how many signatures are needed.

  Its functions return \<^verbatim>\<open>Result<Result<T, RequestError>, InternalError>\<close>. Here both errors are one
  sum, \<open>Request e\<close> for \<^verbatim>\<open>Ok(Err(e))\<close> and \<open>Internal e\<close> for \<^verbatim>\<open>Err(e)\<close>.
\<close>

section \<open>Errors\<close>

datatype request_error =
    RDatabaseError db_error
  | RSubjectError subject_error
  | GovernanceNotFound string
  | RSubjectNotFound
  | SchemaNotFound string
  | JSONCompileError
  | RErrorParsingJsonString string
  | InvalidKeyIdentifier string
  | InvalidName string
  | RUnexpectedResponse
  | RChannelClosed
  | GovernanceVersionTooHigh string u64
  | InvalidRequestType
  | SchemaNotFoundInPolicies
  | InvalidGovernanceID
  | UnexpectedPayloadType
  | SearchingSignersQuorumInWrongStage string
  | SearchingInvokeInfoInWrongStage string

datatype internal_error =
    IChannelError channel_error
  | OneshotClosed
  | DeserializationError
  | InvalidGovernancePayload string
  | IDatabaseError db_error
  | Base64DecodingError

datatype gov_error = Request request_error | Internal internal_error

text \<open>The \<^verbatim>\<open>match\<close> every query makes on the error of \<^verbatim>\<open>governance_event_sourcing\<close>.\<close>

fun sourcing_error :: "request_error \<Rightarrow> gov_error" where
  "sourcing_error (RDatabaseError e) = Internal (IDatabaseError e)"
| "sourcing_error e = Request e"

section \<open>Helpers\<close>

definition get_as_str :: "json \<Rightarrow> string \<Rightarrow> (string, gov_error) res" where
  "get_as_str data key =
     bindR (ok_or (Internal (InvalidGovernancePayload ''6'')) (json_get data key)) (\<lambda>v.
     ok_or (Internal (InvalidGovernancePayload ''7'')) (json_as_str v))"

definition get_as_array :: "json \<Rightarrow> string \<Rightarrow> (json list, gov_error) res" where
  "get_as_array data key =
     bindR (ok_or (Internal (InvalidGovernancePayload ''8'')) (json_get data key)) (\<lambda>v.
     ok_or (Internal (InvalidGovernancePayload ''9'')) (json_as_array v))"

fun get_schema_from_policies :: "json list \<Rightarrow> string \<Rightarrow> (json, gov_error) res" where
  "get_schema_from_policies [] key = Fail (Request SchemaNotFoundInPolicies)"
| "get_schema_from_policies (p # ps) key =
     bindR (unwrap (json_get p ''id'')) (\<lambda>v.
     bindR (unwrap (json_as_str v)) (\<lambda>i.
     if i = key then Ok p else get_schema_from_policies ps key))"

definition policy_quorum :: "json \<Rightarrow> string \<Rightarrow> (quorum, gov_error) res" where
  "policy_quorum data key =
     bindR (ok_or (Internal (InvalidGovernancePayload ''10'')) (json_get data key)) (\<lambda>v.
     bindR (ok_or (Internal (InvalidGovernancePayload ''11'')) (json_get v ''quorum'')) (\<lambda>q.
     unwrap (quorum_of_json q)))"

type_synonym members = "key_identifier set \<times> (string \<rightharpoonup> key_identifier)"

fun members_loop :: "'b env \<Rightarrow> json list \<Rightarrow> members \<Rightarrow> (members, gov_error) res" where
  "members_loop E [] acc = Ok acc"
| "members_loop E (m # ms) acc =
     bindR (unwrap (json_get m ''id'')) (\<lambda>v.
     bindR (unwrap (json_as_str v)) (\<lambda>member_id.
     bindR (unwrap (json_get m ''name'')) (\<lambda>w.
     bindR (unwrap (json_as_str w)) (\<lambda>member_name.
     bindR (map_err (\<lambda>_. Internal (InvalidGovernancePayload ''12: Invalid Keyidentifier in member''))
       (key_from_str (e_b64 E) member_id)) (\<lambda>k.
     if k \<in> fst acc then Fail (Internal (InvalidGovernancePayload ''13: Repeated Id in members''))
     else if member_name \<in> dom (snd acc)
     then Fail (Internal (InvalidGovernancePayload ''14: Repeated Name in members''))
     else members_loop E ms (insert k (fst acc), (snd acc)(member_name \<mapsto> k)))))))"

definition get_members_from_governance :: "'b env \<Rightarrow> json \<Rightarrow> (members, gov_error) res" where
  "get_members_from_governance E properties =
     bindR (unwrap (json_get properties ''members'')) (\<lambda>v.
     bindR (unwrap (json_as_array v)) (\<lambda>ms. members_loop E ms ({}, Map.empty)))"

text \<open>A role on a namespace applies to that namespace and to those below it.\<close>

definition namespace_contiene :: "string \<Rightarrow> string \<Rightarrow> bool" where
  "namespace_contiene namespace_padre namespace_hijo =
     (if namespace_padre = [] then True
      else if namespace_padre = namespace_hijo then True
      else if \<not> starts_with namespace_padre namespace_hijo then False
      else case strip_prefix namespace_padre namespace_hijo of
        Some remaining \<Rightarrow> starts_with ''.'' remaining
      | None \<Rightarrow> False)"

section \<open>Reading a governance at a version\<close>

text \<open>The loop \<^verbatim>\<open>for i in 1..=governance_version\<close>, as the \<open>k\<close> versions after \<open>i\<close>.\<close>

fun replay ::
  "'b env \<Rightarrow> digest_identifier \<Rightarrow> 'b data_store \<Rightarrow> u64 \<Rightarrow> nat \<Rightarrow> subject \<Rightarrow> (subject, request_error) res" where
  "replay E governance_id m i 0 s = Ok s"
| "replay E governance_id m i (Suc k) s =
     bindR (map_err RDatabaseError (get_event E governance_id i m)) (\<lambda>ev.
     bindR (map_err RSubjectError (update_subject E (ev_patch (content ev)) i s)) (\<lambda>s'.
     replay E governance_id m (i + 1) k s'))"

definition governance_event_sourcing ::
  "'b env \<Rightarrow> digest_identifier \<Rightarrow> u64 \<Rightarrow> 'b data_store \<Rightarrow> (subject, request_error) res" where
  "governance_event_sourcing E governance_id governance_version m =
     (case get_subject E governance_id m of
        Inl (Err EntryNotFound) \<Rightarrow> Fail (GovernanceNotFound (dstr E governance_id))
      | Inl e \<Rightarrow> map_err RDatabaseError (Inl e)
      | Inr gov_subject \<Rightarrow>
          if su_sn gov_subject = governance_version then Ok gov_subject
          else if su_sn gov_subject > governance_version then
            bindR (map_err RDatabaseError (get_event E governance_id 0 m)) (\<lambda>gov_genesis.
            bindR (map_err RSubjectError
              (from_genesis_event E gov_genesis get_governance_initial_state None
                (di_derivator governance_id))) (\<lambda>s.
            replay E governance_id m 1 (unat governance_version) s))
          else Fail (GovernanceVersionTooHigh (dstr E governance_id) governance_version))"

definition sourced :: "'b env \<Rightarrow> digest_identifier \<Rightarrow> u64 \<Rightarrow> 'b data_store \<Rightarrow> (subject, gov_error) res" where
  "sourced E governance_id governance_version m =
     map_err sourcing_error (governance_event_sourcing E governance_id governance_version m)"

section \<open>Schemas and initial states\<close>

text \<open>The loop over the schemas, with the field it returns.\<close>

fun find_schema :: "string \<Rightarrow> string \<Rightarrow> json list \<Rightarrow> (json, gov_error) res" where
  "find_schema schema_id field [] = Fail (Request (SchemaNotFound schema_id))"
| "find_schema schema_id field (x # xs) =
     bindR (get_as_str x ''id'') (\<lambda>tmp.
     if tmp = schema_id then unwrap (json_get x field) else find_schema schema_id field xs)"

definition get_init_state ::
  "'b env \<Rightarrow> digest_identifier \<Rightarrow> string \<Rightarrow> u64 \<Rightarrow> 'b data_store \<Rightarrow> (json, gov_error) res" where
  "get_init_state E governance_id schema_id governance_version m =
     (if di_digest governance_id = [] then Ok get_governance_initial_state
      else
        bindR (sourced E governance_id governance_version m) (\<lambda>governance.
        bindR (get_as_array (su_properties governance) ''schemas'') (\<lambda>schemas.
        find_schema schema_id ''initial_value'' schemas)))"

definition get_schema ::
  "'b env \<Rightarrow> digest_identifier \<Rightarrow> string \<Rightarrow> u64 \<Rightarrow> 'b data_store \<Rightarrow> (json, gov_error) res" where
  "get_schema E governance_id schema_id governance_version m =
     (if schema_id = ''governance'' then Ok (e_governance_schema E)
      else
        bindR (sourced E governance_id governance_version m) (\<lambda>governance.
        bindR (get_as_array (su_properties governance) ''schemas'') (\<lambda>schemas.
        find_schema schema_id ''schema'' schemas)))"

section \<open>Signers\<close>

text \<open>Whether a role is about this schema and namespace: the \<^verbatim>\<open>match role.schema\<close> and the namespace
  test the two loops over the roles share.\<close>

definition role_applies :: "string \<Rightarrow> string \<Rightarrow> bool \<Rightarrow> role \<Rightarrow> bool" where
  "role_applies schema_id namespace is_gov r \<longleftrightarrow>
     (case ro_schema r of
        SchemaID i \<Rightarrow> i = schema_id
      | SchemaNOT_GOVERNANCE \<Rightarrow> \<not> is_gov
      | SchemaALL \<Rightarrow> True)
     \<and> namespace_contiene (ro_namespace r) namespace"

fun get_signers_aux ::
  "'b env \<Rightarrow> role list \<Rightarrow> string \<Rightarrow> string \<Rightarrow> validation_stage \<Rightarrow> members \<Rightarrow> bool \<Rightarrow> key_identifier set \<Rightarrow>
     (key_identifier set, request_error) res" where
  "get_signers_aux E [] schema_id namespace stage members is_gov signers = Ok signers"
| "get_signers_aux E (r # rs) schema_id namespace stage members is_gov signers =
     (let next = get_signers_aux E rs schema_id namespace stage members is_gov in
      if stage = StageCreate \<or> stage = Invoke
      then Fail (SearchingSignersQuorumInWrongStage (stage_to_role stage))
      else if ro_role r \<noteq> stage_to_role stage then next signers
      else if \<not> role_applies schema_id namespace is_gov r then next signers
      else case ro_who r of
          WhoID i \<Rightarrow>
            bindR (map_err (\<lambda>_. InvalidKeyIdentifier i) (key_from_str (e_b64 E) i)) (\<lambda>k.
            if k \<notin> fst members then next signers else next (insert k signers))
        | WhoNAME n \<Rightarrow>
            bindR (ok_or (InvalidName (''Invalid Name in roles: '' @ n)) (snd members n)) (\<lambda>k.
            next (insert k signers))
        | WhoMEMBERS \<Rightarrow> Ok (fst members)
        | WhoALL \<Rightarrow> Ok (fst members)
        | WhoNOT_MEMBERS \<Rightarrow> next signers)"

text \<open>The governance a request is about: itself, for a governance.\<close>

definition gov_of :: "metadata \<Rightarrow> digest_identifier" where
  "gov_of md = (if di_digest (md_governance_id md) = [] then md_subject_id md else md_governance_id md)"

text \<open>The version at which it is read: the last one for the witnesses.\<close>

definition signers_version ::
  "'b env \<Rightarrow> metadata \<Rightarrow> validation_stage \<Rightarrow> 'b data_store \<Rightarrow> (u64, gov_error) res" where
  "signers_version E md stage m =
     (if stage = Witness then
        (case get_subject E (gov_of md) m of
           Inr s \<Rightarrow> Ok (su_sn s)
         | Inl (Err EntryNotFound) \<Rightarrow> Fail (Request RSubjectNotFound)
         | Inl e \<Rightarrow> map_err (\<lambda>d. Internal (IDatabaseError d)) (Inl e))
      else Ok (md_governance_version md))"

definition get_signers ::
  "'b env \<Rightarrow> metadata \<Rightarrow> validation_stage \<Rightarrow> 'b data_store \<Rightarrow> (key_identifier set, gov_error) res" where
  "get_signers E md stage m =
     bindR (signers_version E md stage m) (\<lambda>governance_version.
     bindR (sourced E (gov_of md) governance_version m) (\<lambda>governance.
     bindR (unwrap (json_get (su_properties governance) ''roles'')) (\<lambda>v.
     bindR (ok_or (Internal DeserializationError) (roles_of_json v)) (\<lambda>roles.
     bindR (get_members_from_governance E (su_properties governance)) (\<lambda>members.
     bindR (map_err Request
       (get_signers_aux E roles (md_schema_id md) (md_namespace md) stage members
         (di_digest (md_governance_id md) = []) {})) (\<lambda>signers.
     Ok (if signers = {} then {su_owner governance} else signers)))))))"

section \<open>Quorum\<close>

definition quorum_size :: "quorum \<Rightarrow> nat \<Rightarrow> u32" where
  "quorum_size q n =
     (case q of
        MAJORITY \<Rightarrow> of_nat n div 2 + 1
      | FIXED k \<Rightarrow> k
      | PERCENTAGE p \<Rightarrow> percentage_of n p)"

definition get_quorum ::
  "'b env \<Rightarrow> metadata \<Rightarrow> validation_stage \<Rightarrow> 'b data_store \<Rightarrow> (u32, gov_error) res" where
  "get_quorum E md stage m =
     (if stage = Witness
      then Fail (Request (SearchingSignersQuorumInWrongStage (stage_to_str stage)))
      else
        bindR (sourced E (gov_of md) (md_governance_version md) m) (\<lambda>governance.
        bindR (get_as_array (su_properties governance) ''policies'') (\<lambda>policies.
        bindR (get_schema_from_policies policies (md_schema_id md)) (\<lambda>schema_policy.
        bindR (policy_quorum schema_policy (stage_to_str stage)) (\<lambda>quorum.
        bindR (get_signers E md stage m) (\<lambda>signers.
        Ok (quorum_size quorum (card signers))))))))"

section \<open>Creation and issuing permissions\<close>

fun issue_create_info ::
  "'b env \<Rightarrow> role list \<Rightarrow> string \<Rightarrow> string \<Rightarrow> validation_stage \<Rightarrow> members \<Rightarrow> bool \<Rightarrow> key_identifier \<Rightarrow>
     (bool, request_error) res" where
  "issue_create_info E [] schema_id namespace stage members is_gov invoker = Ok False"
| "issue_create_info E (r # rs) schema_id namespace stage members is_gov invoker =
     (let next = issue_create_info E rs schema_id namespace stage members is_gov invoker;
          is_member = invoker \<in> fst members in
      if ro_role r \<noteq> stage_to_role stage then next
      else if \<not> role_applies schema_id namespace is_gov r then next
      else case ro_who r of
          WhoID i \<Rightarrow> if is_member \<and> i = kstr E invoker then Ok True else next
        | WhoNAME n \<Rightarrow>
            bindR (ok_or (InvalidName (''Invalid Name in roles: '' @ n)) (snd members n)) (\<lambda>k.
            if is_member \<and> kstr E k = kstr E invoker then Ok True else next)
        | WhoMEMBERS \<Rightarrow> if is_member then Ok True else next
        | WhoALL \<Rightarrow> Ok True
        | WhoNOT_MEMBERS \<Rightarrow> if \<not> is_member then Ok True else next)"

definition get_issue_create_info ::
  "'b env \<Rightarrow> metadata \<Rightarrow> validation_stage \<Rightarrow> key_identifier \<Rightarrow> 'b data_store \<Rightarrow> (bool, gov_error) res" where
  "get_issue_create_info E md stage invoker m =
     (if stage \<noteq> StageCreate \<and> stage \<noteq> Invoke
      then Fail (Request (SearchingInvokeInfoInWrongStage (stage_to_str stage)))
      else
        bindR (sourced E (gov_of md) (md_governance_version md) m) (\<lambda>governance.
        bindR (unwrap (json_get (su_properties governance) ''roles'')) (\<lambda>v.
        bindR (ok_or (Internal DeserializationError) (roles_of_json v)) (\<lambda>roles.
        bindR (get_members_from_governance E (su_properties governance)) (\<lambda>members.
        map_err Request
          (issue_create_info E roles (md_schema_id md) (md_namespace md) stage members
            (di_digest (md_governance_id md) = []) invoker))))))"

section \<open>Contracts, versions\<close>

text \<open>\<^verbatim>\<open>schema["id"]\<close> is \<^verbatim>\<open>Null\<close> when there is no such field.\<close>

definition json_index :: "json \<Rightarrow> string \<Rightarrow> json" where
  "json_index v k = (case json_get v k of None \<Rightarrow> JNull | Some x \<Rightarrow> x)"

fun contracts_loop :: "'b env \<Rightarrow> json list \<Rightarrow> ((contract \<times> string) list, gov_error) res" where
  "contracts_loop E [] = Ok []"
| "contracts_loop E (x # xs) =
     bindR (unwrap (json_as_str (json_index x ''id''))) (\<lambda>schema_id.
     bindR (ok_or (Internal (InvalidGovernancePayload ''5''))
       (contract_of_json (json_index x ''contract''))) (\<lambda>c.
     bindR (ok_or (Internal Base64DecodingError) (e_contract_raw E (co_raw c))) (\<lambda>raw.
     bindR (contracts_loop E xs) (\<lambda>rest. Ok ((c\<lparr>co_raw := raw\<rparr>, schema_id) # rest)))))"

definition get_contracts ::
  "'b env \<Rightarrow> digest_identifier \<Rightarrow> u64 \<Rightarrow> 'b data_store \<Rightarrow> ((contract \<times> string) list, gov_error) res" where
  "get_contracts E governance_id governance_version m =
     bindR (sourced E governance_id governance_version m) (\<lambda>governance.
     bindR (get_as_array (su_properties governance) ''schemas'') (\<lambda>schemas.
     contracts_loop E schemas))"

definition get_governance_version ::
  "'b env \<Rightarrow> digest_identifier \<Rightarrow> digest_identifier \<Rightarrow> 'b data_store \<Rightarrow> (u64, gov_error) res" where
  "get_governance_version E subject_id governance_id m =
     (let g = (if di_digest governance_id = [] then subject_id else governance_id) in
      case get_subject E g m of
        Inl (Err EntryNotFound) \<Rightarrow> Fail (Request (GovernanceNotFound (dstr E g)))
      | Inl e \<Rightarrow> map_err (\<lambda>d. Internal (IDatabaseError d)) (Inl e)
      | Inr governance \<Rightarrow>
          if dstr E (su_governance_id governance) \<noteq> [] then Fail (Request InvalidGovernanceID)
          else Ok (su_sn governance))"

definition is_governance :: "'b env \<Rightarrow> digest_identifier \<Rightarrow> 'b data_store \<Rightarrow> (bool, gov_error) res" where
  "is_governance E subject_id m =
     (case get_subject E subject_id m of
        Inl (Err EntryNotFound) \<Rightarrow> Fail (Request RSubjectNotFound)
      | Inl e \<Rightarrow> map_err (\<lambda>d. Internal (IDatabaseError d)) (Inl e)
      | Inr s \<Rightarrow> Ok (di_digest (su_governance_id s) = []))"

end
