(* ===== verification/Governance_Laws.thy ===== *)
theory Governance_Laws
  imports Governance
begin

text \<open>
  What the answers of the governance module mean: the namespaces a role covers, the signers its
  roles name, the sizes of the quorums and the state of a governance at a version.
\<close>

section \<open>Namespaces\<close>

lemma namespace_contiene_iff:
  "namespace_contiene p h \<longleftrightarrow> p = [] \<or> p = h \<or> (\<exists>r. h = p @ ''.'' @ r)"
proof -
  have "starts_with p h \<Longrightarrow> strip_prefix p h = Some (drop (length p) h)"
    by (simp add: strip_prefix_def)
  then show ?thesis
    by (auto simp: namespace_contiene_def starts_with_prefix prefix_def split: option.splits)
qed

lemma namespace_contiene_trans:
  assumes "namespace_contiene a b" "namespace_contiene b c" "b \<noteq> []"
  shows "namespace_contiene a c"
  using assms by (auto simp: namespace_contiene_iff)

section \<open>Members\<close>

text \<open>The names refer exactly to the identifiers.\<close>

definition members_ok :: "members \<Rightarrow> bool" where
  "members_ok ms \<longleftrightarrow> ran (snd ms) = fst ms \<and> finite (fst ms) \<and> finite (dom (snd ms))"

lemma members_loop_Ok:
  "members_loop E ms acc = Ok r \<Longrightarrow> members_ok acc \<Longrightarrow>
     members_ok r \<and> card (fst r) = card (fst acc) + length ms"
proof (induction ms arbitrary: acc)
  case (Cons m ms)
  obtain n k where run: "members_loop E ms (insert k (fst acc), (snd acc)(n \<mapsto> k)) = Ok r"
    and new: "k \<notin> fst acc" "n \<notin> dom (snd acc)"
    using Cons.prems(1) by (auto simp: bindR_eq_Inr split: if_splits)
  have "members_ok (insert k (fst acc), (snd acc)(n \<mapsto> k))"
    using new Cons.prems(2) by (simp add: members_ok_def domIff)
  from Cons.IH [OF run this] show ?case
    using new Cons.prems(2) by (simp add: members_ok_def)
qed simp

lemma get_members_Ok:
  assumes "get_members_from_governance E v = Ok ms"
  shows "members_ok ms"
  using assms members_loop_Ok [of E _ "({}, Map.empty)" ms]
  by (auto simp: get_members_from_governance_def bindR_eq_Inr members_ok_def)

text \<open>
  The members as the document of a governance lists them, with their names: every entry of its
  array \<^verbatim>\<open>members\<close>, independently of how the code reads it.
\<close>

definition member_entry :: "'b env \<Rightarrow> json \<Rightarrow> string \<Rightarrow> key_identifier \<Rightarrow> bool" where
  "member_entry E m n k \<longleftrightarrow> Option.bind (json_get m ''name'') json_as_str = Some n \<and>
     (\<exists>i. Option.bind (json_get m ''id'') json_as_str = Some i \<and> key_from_str (e_b64 E) i = Ok k)"

definition listed_members :: "'b env \<Rightarrow> json \<Rightarrow> (string \<times> key_identifier) set" where
  "listed_members E properties = {(n, k). \<exists>entries m.
     Option.bind (json_get properties ''members'') json_as_array = Some entries \<and>
     m \<in> set entries \<and> member_entry E m n k}"

definition members_are :: "members \<Rightarrow> (string \<times> key_identifier) set \<Rightarrow> bool" where
  "members_are ms M \<longleftrightarrow> (\<forall>k. k \<in> fst ms \<longleftrightarrow> (\<exists>n. (n, k) \<in> M)) \<and> (\<forall>n k. snd ms n = Some k \<longleftrightarrow> (n, k) \<in> M)"

lemma members_loop_listed:
  "members_loop E ms acc = Ok r \<Longrightarrow> members_are acc M \<Longrightarrow>
     members_are r (M \<union> {(n, k). \<exists>m \<in> set ms. member_entry E m n k})"
proof (induction ms arbitrary: acc M)
  case (Cons m ms)
  obtain n k where run: "members_loop E ms (insert k (fst acc), (snd acc)(n \<mapsto> k)) = Ok r"
    and new: "n \<notin> dom (snd acc)" and entry: "member_entry E m n k"
    using Cons.prems(1) by (auto simp: bindR_eq_Inr member_entry_def split: if_splits)
  have m: "member_entry E m n' k' \<longleftrightarrow> n' = n \<and> k' = k" for n' k'
    using entry by (auto simp: member_entry_def)
  have "members_are (insert k (fst acc), (snd acc)(n \<mapsto> k)) (insert (n, k) M)"
    using new Cons.prems(2) by (auto simp: members_are_def)
  from Cons.IH [OF run this] show ?case
    by (rule back_subst [of "members_are r"]) (auto simp: m)
qed simp

lemma get_members_listed:
  assumes "get_members_from_governance E v = Ok ms"
  shows "members_are ms (listed_members E v)"
proof -
  from assms obtain entries where e: "Option.bind (json_get v ''members'') json_as_array = Some entries"
      "members_loop E entries ({}, Map.empty) = Ok ms"
    by (auto simp: get_members_from_governance_def bindR_eq_Inr)
  have "members_are ({}, Map.empty) {}" by (simp add: members_are_def)
  from members_loop_listed [OF e(2) this] show ?thesis
    by (rule back_subst [of "members_are ms"]) (use e(1) in \<open>auto simp: listed_members_def\<close>)
qed

section \<open>Signers\<close>

text \<open>The keys a role names for a stage, given the members.\<close>

definition role_grants ::
  "'b env \<Rightarrow> (string \<times> key_identifier) set \<Rightarrow> string \<Rightarrow> string \<Rightarrow> validation_stage \<Rightarrow> bool \<Rightarrow> role \<Rightarrow>
     key_identifier set" where
  "role_grants E M schema_id namespace stage is_gov r =
     (if ro_role r = stage_to_role stage \<and> role_applies schema_id namespace is_gov r
      then (case ro_who r of
          WhoID i \<Rightarrow> {k \<in> snd ` M. key_from_str (e_b64 E) i = Ok k}
        | WhoNAME n \<Rightarrow> {k. (n, k) \<in> M}
        | WhoMEMBERS \<Rightarrow> snd ` M
        | WhoALL \<Rightarrow> snd ` M
        | WhoNOT_MEMBERS \<Rightarrow> {})
      else {})"

lemma role_grants_members: "role_grants E M schema_id namespace stage is_gov r \<subseteq> snd ` M"
  by (auto simp: role_grants_def split: who.splits intro: image_eqI [where f = snd, OF snd_conv [symmetric]])

lemma members_are_keys: "members_are ms M \<Longrightarrow> fst ms = snd ` M"
  by (auto simp: members_are_def intro: image_eqI [where f = snd, OF snd_conv [symmetric]])

lemma get_signers_aux_grants:
  assumes "members_are ms M"
  shows "get_signers_aux E rs schema_id namespace stage ms is_gov acc = Ok who \<Longrightarrow> acc \<subseteq> snd ` M \<Longrightarrow>
    who = acc \<union> (\<Union>r \<in> set rs. role_grants E M schema_id namespace stage is_gov r)"
proof (induction rs arbitrary: acc)
  case (Cons r rs)
  let ?g = "role_grants E M schema_id namespace stage is_gov"
  note keys = members_are_keys [OF assms]
  have sub: "(\<Union>r \<in> set (r # rs). ?g r) \<subseteq> snd ` M"
    using role_grants_members by (intro UN_least)
  have stage: "stage \<noteq> StageCreate" "stage \<noteq> Invoke"
    using Cons.prems(1) by (auto simp: Let_def)
  show ?case
  proof (cases "ro_role r = stage_to_role stage \<and> role_applies schema_id namespace is_gov r")
    case False
    then have "?g r = {}" by (auto simp: role_grants_def)
    with False show ?thesis
      using Cons.prems Cons.IH stage by (auto simp: Let_def split: if_splits)
  next
    case True
    show ?thesis
    proof (cases "ro_who r")
      case (WhoID i)
      then obtain k where k: "key_from_str (e_b64 E) i = Ok k"
        using True stage Cons.prems(1) by (auto simp: Let_def bindR_eq_Inr)
      then have "?g r = (if k \<in> fst ms then {k} else {})"
        using True WhoID keys by (auto simp: role_grants_def)
      then show ?thesis
        using True stage WhoID k keys Cons.prems Cons.IH [of acc] Cons.IH [of "insert k acc"]
        by (auto simp: Let_def split: if_splits)
    next
      case (WhoNAME n)
      then obtain k where k: "snd ms n = Some k"
        using True stage Cons.prems(1) by (auto simp: Let_def bindR_eq_Inr)
      then have M: "(n, k') \<in> M \<longleftrightarrow> k' = k" for k'
        using assms unfolding members_are_def by (metis option.inject)
      then have "k \<in> snd ` M" by force
      then have "?g r = {k}" "k \<in> snd ` M"
        using True WhoNAME M by (auto simp: role_grants_def)
      then show ?thesis
        using True stage WhoNAME k Cons.prems Cons.IH [of "insert k acc"] by (auto simp: Let_def)
    next
      case WhoMEMBERS
      then have "?g r = fst ms" using True keys by (simp add: role_grants_def)
      then show ?thesis
        using True stage WhoMEMBERS keys Cons.prems sub by (auto simp: Let_def)
    next
      case WhoALL
      then have "?g r = fst ms" using True keys by (simp add: role_grants_def)
      then show ?thesis
        using True stage WhoALL keys Cons.prems sub by (auto simp: Let_def)
    next
      case WhoNOT_MEMBERS
      then have "?g r = {}" using True by (simp add: role_grants_def)
      then show ?thesis
        using True stage WhoNOT_MEMBERS Cons.prems Cons.IH by (auto simp: Let_def)
    qed
  qed
qed simp

lemma sourcing_current:
  "get_subject E i m = Ok s \<Longrightarrow> governance_event_sourcing E i (su_sn s) m = Ok s"
  by (simp add: governance_event_sourcing_def)

lemma get_signers_Ok:
  assumes "get_signers E md stage m = Ok who"
  obtains version governance roles where
    "sourced E (gov_of md) version m = Ok governance"
    "stage \<noteq> Witness \<Longrightarrow> version = md_governance_version md"
    "stage = Witness \<Longrightarrow> get_subject E (gov_of md) m = Ok governance"
    "Option.bind (json_get (su_properties governance) ''roles'') roles_of_json = Some roles"
    "finite (listed_members E (su_properties governance))"
    "who = (let named = (\<Union>r \<in> set roles. role_grants E (listed_members E (su_properties governance))
        (md_schema_id md) (md_namespace md) stage (di_digest (md_governance_id md) = []) r)
      in if named = {} then {su_owner governance} else named)"
  using assms unfolding get_signers_def
proof (elim bindR_OkE, goal_cases)
  case (1 version governance v roles ms signers)
  note ms = get_members_listed [OF 1(6)]
  have "listed_members E (su_properties governance) = Map.graph (snd ms)"
    using ms by (auto simp: members_are_def Map.graph_def)
  then have fin: "finite (listed_members E (su_properties governance))"
    using get_members_Ok [OF 1(6)] by (simp add: members_ok_def)
  have ver: "stage \<noteq> Witness \<Longrightarrow> version = md_governance_version md"
    using 1(2) by (simp add: signers_version_def)
  have named: "signers = (\<Union>r \<in> set roles. role_grants E (listed_members E (su_properties governance))
      (md_schema_id md) (md_namespace md) stage (di_digest (md_governance_id md) = []) r)"
    using get_signers_aux_grants [OF ms 1(7) [unfolded map_err_eq_Inr]] by simp
  show ?case
  proof (rule 1(1) [OF 1(3) ver _ _ fin])
    show "Option.bind (json_get (su_properties governance) ''roles'') roles_of_json = Some roles"
      using 1(4,5) by simp
    show "who = (let named = (\<Union>r \<in> set roles. role_grants E (listed_members E (su_properties governance))
        (md_schema_id md) (md_namespace md) stage (di_digest (md_governance_id md) = []) r)
      in if named = {} then {su_owner governance} else named)"
      using 1(8) by (simp only: named Let_def sum.inject)
    show "get_subject E (gov_of md) m = Ok governance" if "stage = Witness"
      using that 1(2,3) by (auto simp: signers_version_def sourced_def sourcing_current
          split: sum.splits failure.splits db_error.splits)
  qed
qed

lemma get_signers_finite:
  assumes "get_signers E md stage m = Ok who"
  shows "finite who" "who \<noteq> {}"
proof -
  from assms obtain roles and governance :: subject where
    fin: "finite (listed_members E (su_properties governance))"
    and who: "who = (let named = (\<Union>r \<in> set roles. role_grants E (listed_members E (su_properties governance))
      (md_schema_id md) (md_namespace md) stage (di_digest (md_governance_id md) = []) r)
      in if named = {} then {su_owner governance} else named)"
    by (rule get_signers_Ok) (rule that)
  have "finite (role_grants E (listed_members E (su_properties governance)) x y z b r)" for x y z b r
    using role_grants_members fin by (meson finite_imageI finite_subset)
  then show "finite who" using who by (simp add: Let_def)
  show "who \<noteq> {}" using who by (simp add: Let_def)
qed

section \<open>Permissions\<close>

text \<open>Whether a role lets the invoker create or issue.\<close>

definition role_permits ::
  "'b env \<Rightarrow> members \<Rightarrow> string \<Rightarrow> string \<Rightarrow> validation_stage \<Rightarrow> bool \<Rightarrow> key_identifier \<Rightarrow> role \<Rightarrow> bool" where
  "role_permits E ms schema_id namespace stage is_gov invoker r \<longleftrightarrow>
     ro_role r = stage_to_role stage \<and> role_applies schema_id namespace is_gov r \<and>
     (case ro_who r of
        WhoID i \<Rightarrow> invoker \<in> fst ms \<and> i = kstr E invoker
      | WhoNAME n \<Rightarrow> invoker \<in> fst ms \<and> map_option (kstr E) (snd ms n) = Some (kstr E invoker)
      | WhoMEMBERS \<Rightarrow> invoker \<in> fst ms
      | WhoALL \<Rightarrow> True
      | WhoNOT_MEMBERS \<Rightarrow> invoker \<notin> fst ms)"

lemma issue_create_info_permits:
  "issue_create_info E rs schema_id namespace stage ms is_gov invoker = Ok b \<Longrightarrow>
     b \<longleftrightarrow> (\<exists>r \<in> set rs. role_permits E ms schema_id namespace stage is_gov invoker r)"
proof (induction rs)
  case (Cons r rs)
  then show ?case
    by (cases "ro_who r") (auto simp: Let_def role_permits_def bindR_eq_Inr split: if_splits)
qed simp

section \<open>Quorum sizes\<close>

lemma majority_size: "n < 2 ^ 32 \<Longrightarrow> unat (quorum_size MAJORITY n) = n div 2 + 1"
proof -
  assume n: "n < 2 ^ 32"
  then have "unat ((of_nat n :: u32) div 2) = n div 2"
    by (simp add: unat_div unat_of_nat)
  then show ?thesis
    using n by (simp add: quorum_size_def unat_word_ariths)
qed

text \<open>Two majorities of one set of signers share a signer.\<close>

lemma majorities_intersect:
  assumes "finite signers" "card signers < 2 ^ 32" "A \<subseteq> signers" "B \<subseteq> signers"
    and "unat (quorum_size MAJORITY (card signers)) \<le> card A"
    and "unat (quorum_size MAJORITY (card signers)) \<le> card B"
  shows "A \<inter> B \<noteq> {}"
proof
  assume "A \<inter> B = {}"
  then have "card A + card B = card (A \<union> B)"
    using assms(1,3,4) by (simp add: card_Un_disjoint finite_subset)
  also have "\<dots> \<le> card signers"
    using assms(1,3,4) by (simp add: card_mono)
  finally show False
    using assms(5,6) majority_size [OF assms(2)] by simp
qed

section \<open>A governance at a version\<close>

lemma sourcing_future:
  "get_subject E i m = Ok s \<Longrightarrow> su_sn s < v \<Longrightarrow>
     governance_event_sourcing E i v m = Fail (GovernanceVersionTooHigh (dstr E i) v)"
  by (auto simp: governance_event_sourcing_def)

text \<open>The states of a governance, one patch after the other.\<close>

fun patched :: "'b env \<Rightarrow> json list \<Rightarrow> json \<Rightarrow> json option" where
  "patched E [] v = Some v"
| "patched E (p # ps) v = Option.bind (e_patch E v p) (patched E ps)"

lemma replay_patched:
  assumes "replay E g m i k s = Ok s'"
  shows "\<exists>evs. length evs = k \<and>
      (\<forall>j < k. get_event E g (i + of_nat j) m = Ok (evs ! j)) \<and>
      patched E (map (\<lambda>ev. ev_patch (content ev)) evs) (su_properties s) = Some (su_properties s')"
    and "k \<noteq> 0 \<Longrightarrow> su_sn s' = i + of_nat (k - 1)"
    and "su_owner s' = su_owner s" "su_subject_id s' = su_subject_id s"
proof -
  have "(\<exists>evs. length evs = k \<and>
      (\<forall>j < k. get_event E g (i + of_nat j) m = Ok (evs ! j)) \<and>
      patched E (map (\<lambda>ev. ev_patch (content ev)) evs) (su_properties s) = Some (su_properties s')) \<and>
    (k \<noteq> 0 \<longrightarrow> su_sn s' = i + of_nat (k - 1)) \<and> su_owner s' = su_owner s \<and> su_subject_id s' = su_subject_id s"
    using assms
  proof (induction k arbitrary: i s)
    case (Suc k)
    obtain ev s1 where ev: "get_event E g i m = Ok ev"
      and s1: "update_subject E (ev_patch (content ev)) i s = Ok s1"
      and rest: "replay E g m (i + 1) k s1 = Ok s'"
      using Suc.prems by (auto elim!: bindR_OkE)
    from Suc.IH [OF rest] obtain evs where evs: "length evs = k"
      "\<forall>j < k. get_event E g (i + 1 + of_nat j) m = Ok (evs ! j)"
      "patched E (map (\<lambda>ev. ev_patch (content ev)) evs) (su_properties s1) = Some (su_properties s')"
      and sn: "k \<noteq> 0 \<longrightarrow> su_sn s' = i + 1 + of_nat (k - 1)"
      and fr: "su_owner s' = su_owner s1" "su_subject_id s' = su_subject_id s1"
      by blast
    have "\<forall>j < Suc k. get_event E g (i + of_nat j) m = Ok ((ev # evs) ! j)"
      using ev evs(2) by (auto simp: nth_Cons add.assoc split: nat.split)
    moreover have "patched E (map (\<lambda>ev. ev_patch (content ev)) (ev # evs)) (su_properties s) =
        Some (su_properties s')"
      using s1 evs(3) by (auto simp: update_subject_def split: if_splits option.splits)
    moreover have "su_sn s' = i + of_nat k"
      using sn rest update_subject_frame(1) [OF s1] by (cases k) (auto simp: add.assoc)
    ultimately show ?case
      using evs(1) fr update_subject_frame [OF s1] by (auto intro!: exI [of _ "ev # evs"])
  qed (auto intro: exI [of _ "[]"])
  then show "\<exists>evs. length evs = k \<and>
      (\<forall>j < k. get_event E g (i + of_nat j) m = Ok (evs ! j)) \<and>
      patched E (map (\<lambda>ev. ev_patch (content ev)) evs) (su_properties s) = Some (su_properties s')"
    "k \<noteq> 0 \<Longrightarrow> su_sn s' = i + of_nat (k - 1)"
    "su_owner s' = su_owner s" "su_subject_id s' = su_subject_id s" by blast+
qed

text \<open>An older version is the initial state with the patches of all the events up to it: those
  that were not approved included.\<close>

lemma sourcing_past:
  assumes "get_subject E g m = Ok cur" "v < su_sn cur" "governance_event_sourcing E g v m = Ok s"
  shows "\<exists>evs. length evs = unat v \<and> (\<forall>j < unat v. get_event E g (1 + of_nat j) m = Ok (evs ! j)) \<and>
      patched E (map (\<lambda>ev. ev_patch (content ev)) evs) get_governance_initial_state =
        Some (su_properties s)"
    and "su_sn s = v"
proof -
  obtain gen s0 where gen: "get_event E g 0 m = Ok gen"
    and s0: "from_genesis_event E gen get_governance_initial_state None (di_derivator g) = Ok s0"
    and rep: "replay E g m 1 (unat v) s0 = Ok s"
    using assms by (auto simp: governance_event_sourcing_def elim!: bindR_OkE split: if_splits)
  have init: "su_properties s0 = get_governance_initial_state" "su_sn s0 = 0"
    using s0 by (auto simp: from_genesis_event_def bindR_eq_Inr split: event_request.splits)
  show "\<exists>evs. length evs = unat v \<and> (\<forall>j < unat v. get_event E g (1 + of_nat j) m = Ok (evs ! j)) \<and>
      patched E (map (\<lambda>ev. ev_patch (content ev)) evs) get_governance_initial_state =
        Some (su_properties s)"
    using replay_patched(1) [OF rep] init by simp
  show "su_sn s = v"
  proof (cases "unat v = 0")
    case True
    then have "v = 0" by (simp add: unat_eq_0)
    then show ?thesis using rep init by simp
  next
    case False
    then have "su_sn s = 1 + of_nat (unat v - 1)" using replay_patched(2) [OF rep] by simp
    also have "\<dots> = of_nat (Suc (unat v - 1))" by (simp only: of_nat_Suc)
    also have "\<dots> = v" using False by simp
    finally show ?thesis .
  qed
qed

end
