(* ===== verification/Node.thy ===== *)
theory Node
  imports Governance Messages
begin

text \<open>
  The environment of a module of the node: the database it shares with the others, the channels
  to the governance module, to the message manager, to the distribution module and to the user.
  A channel is the list of what was sent on it and whether its receiver is still there.

  The modules run as tasks, each handling one message at a time. A handler is an action on this
  environment; what other modules do between its steps is outside the model, except that the
  governance module answers the questions it is asked.
\<close>

section \<open>The environment\<close>

record 'b node =
  nd_db :: "'b data_store"
  nd_gov_alive :: bool
  nd_gov_updates :: "(digest_identifier \<times> u64) list"
  nd_message_open :: bool
  nd_messages :: "message_task_command list"
  nd_distribution_open :: bool
  nd_distribution :: "distribution_message list"
  nd_notification_open :: bool
  nd_notifications :: "notification list"

definition dbA ::
  "(db_error \<Rightarrow> 'e) \<Rightarrow> ('b data_store, 'a, db_error) act \<Rightarrow> (('b, 'z) node_scheme, 'a, 'e) act" where
  "dbA f m = zoomA nd_db (\<lambda>d s. s\<lparr>nd_db := d\<rparr>) f m"

definition db_read ::
  "(db_error \<Rightarrow> 'e) \<Rightarrow> ('b data_store \<Rightarrow> ('a, db_error) res) \<Rightarrow> (('b, 'z) node_scheme, 'a, 'e) act" where
  "db_read f q = getA (\<lambda>s. map_err f (q (nd_db s)))"

text \<open>Reading the database where an error is a case and not a failure.\<close>

definition db_case ::
  "('b data_store \<Rightarrow> ('a, db_error) res) \<Rightarrow> (('a, db_error) res \<Rightarrow> (('b, 'z) node_scheme, 'c, 'e) act) \<Rightarrow>
     (('b, 'z) node_scheme, 'c, 'e) act" where
  "db_case q k = (\<lambda>s. k (q (nd_db s)) s)"

section \<open>Sending\<close>

definition tell_message ::
  "(channel_error \<Rightarrow> 'e) \<Rightarrow> message_task_command \<Rightarrow> (('b, 'z) node_scheme, unit, 'e) act" where
  "tell_message f c = (\<lambda>s.
     if nd_message_open s then (Ok (), s\<lparr>nd_messages := nd_messages s @ [c]\<rparr>)
     else (Fail (f ChannelClosed), s))"

definition tell_distribution ::
  "(channel_error \<Rightarrow> 'e) \<Rightarrow> distribution_message \<Rightarrow> (('b, 'z) node_scheme, unit, 'e) act" where
  "tell_distribution f c = (\<lambda>s.
     if nd_distribution_open s then (Ok (), s\<lparr>nd_distribution := nd_distribution s @ [c]\<rparr>)
     else (Fail (f ChannelClosed), s))"

text \<open>\<^verbatim>\<open>let _ = notification_sender.send(..).await\<close>: a failure is ignored.\<close>

definition notify :: "notification \<Rightarrow> (('b, 'z) node_scheme, unit, 'e) act" where
  "notify n = modA (\<lambda>s.
     if nd_notification_open s then s\<lparr>nd_notifications := nd_notifications s @ [n]\<rparr> else s)"

section \<open>The governance interface\<close>

text \<open>
  \<^verbatim>\<open>GovernanceAPI\<close>: a question is sent to the governance module and the answer awaited. When the
  module fails with an internal error, or panics, its task ends: the one who asked and all who
  ask later get \<^verbatim>\<open>ChannelClosed\<close>.
\<close>

definition ask_gov ::
  "(request_error \<Rightarrow> 'e) \<Rightarrow> ('b data_store \<Rightarrow> ('a, gov_error) res) \<Rightarrow> (('b, 'z) node_scheme, 'a, 'e) act" where
  "ask_gov f q = (\<lambda>s.
     if \<not> nd_gov_alive s then (Fail (f RChannelClosed), s)
     else case q (nd_db s) of
         Inr x \<Rightarrow> (Ok x, s)
       | Inl (Err (Request e)) \<Rightarrow> (Fail (f e), s)
       | Inl _ \<Rightarrow> (Fail (f RChannelClosed), s\<lparr>nd_gov_alive := False\<rparr>))"

definition gov_updated ::
  "(request_error \<Rightarrow> 'e) \<Rightarrow> digest_identifier \<Rightarrow> u64 \<Rightarrow> (('b, 'z) node_scheme, unit, 'e) act" where
  "gov_updated f governance_id version = (\<lambda>s.
     if nd_gov_alive s
     then (Ok (), s\<lparr>nd_gov_updates := nd_gov_updates s @ [(governance_id, version)]\<rparr>)
     else (Fail (f RChannelClosed), s))"

text \<open>What the governance module does with one of those updates
  (\<^verbatim>\<open>InnerGovernance::governance_updated\<close>): broadcast it, and stop if nobody is subscribed.\<close>

definition governance_updated ::
  "nat \<Rightarrow> digest_identifier \<Rightarrow> u64 \<Rightarrow> (digest_identifier \<times> u64, gov_error) res" where
  "governance_updated receivers governance_id version =
     (if receivers = 0 then Fail (Internal (IChannelError ChannelClosed))
      else Ok (governance_id, version))"

section \<open>Our own signature\<close>

datatype protocol_errors =
    SignatureError
  | PChannelError channel_error
  | OneshotUnavailable
  | UnexpectedLedgerResponse
  | NotValidator
  | PGovernanceError request_error

record self_signature_manager =
  sm_keys :: key_pair
  sm_identifier :: key_identifier
  sm_digest_derivator :: digest_derivator

definition self_signature_manager_new :: "key_pair \<Rightarrow> digest_derivator \<Rightarrow> self_signature_manager" where
  "self_signature_manager_new keys d =
     \<lparr>sm_keys = keys,
      sm_identifier = new_key (get_key_derivator keys) (public_key_bytes keys),
      sm_digest_derivator = d\<rparr>"

text \<open>Of the settings only the digest derivator is taken.\<close>

definition sm_change_settings :: "digest_derivator \<Rightarrow> self_signature_manager \<Rightarrow> self_signature_manager" where
  "sm_change_settings d m = m\<lparr>sm_digest_derivator := d\<rparr>"

definition get_own_identifier :: "self_signature_manager \<Rightarrow> key_identifier" where
  "get_own_identifier m = sm_identifier m"

definition sm_sign ::
  "'b env \<Rightarrow> self_signature_manager \<Rightarrow> timestamp \<Rightarrow> payload \<Rightarrow> digest_derivator \<Rightarrow>
     (signature, protocol_errors) res" where
  "sm_sign E sm now p d = map_err (\<lambda>_. SignatureError) (signature_new E now p (sm_keys sm) d)"

definition check_if_signature_present :: "self_signature_manager \<Rightarrow> key_identifier set \<Rightarrow> bool" where
  "check_if_signature_present sm signers \<longleftrightarrow> sm_identifier sm \<in> signers"

section \<open>What the operations leave alone\<close>

text \<open>None of the operations on the channels writes the database, so a predicate on the database
  is kept by all of them.\<close>

definition on_db :: "('b data_store \<Rightarrow> bool) \<Rightarrow> ('b, 'z) node_scheme \<Rightarrow> bool" where
  "on_db P s = P (nd_db s)"

lemma on_db_channels [simp]:
  "nd_db (snd (tell_message f c s)) = nd_db s"
  "nd_db (snd (tell_distribution g d s)) = nd_db s"
  "nd_db (snd (notify n s)) = nd_db s"
  "nd_db (snd (ask_gov h q s)) = nd_db s"
  "nd_db (snd (gov_updated h i v s)) = nd_db s"
  by (auto simp: tell_message_def tell_distribution_def notify_def ask_gov_def gov_updated_def
      split: sum.splits failure.splits gov_error.splits)

lemma keeps_db_channels [inv_intros]:
  "keeps (on_db P) (tell_message f c)" "keeps (on_db P) (tell_distribution g d)"
  "keeps (on_db P) (notify n)" "keeps (on_db P) (ask_gov h q)" "keeps (on_db P) (gov_updated h i v)"
  by (simp_all add: keeps_def on_db_def)

lemma keeps_db_read [inv_intros]: "keeps Q (db_read f q)"
  by (simp add: db_read_def)

lemma keeps_db_case [inv_intros]: "(\<And>r. keeps Q (k r)) \<Longrightarrow> keeps Q (db_case q k)"
  by (simp add: keeps_def db_case_def)

lemma keeps_dbA [inv_intros]: "keeps P m \<Longrightarrow> keeps (on_db P) (dbA f m)"
  by (auto simp: keeps_def on_db_def dbA_def zoomA_def split: prod.splits)

lemma db_read_eq_Inr: "db_read f q s = (Inr x, t) \<longleftrightarrow> q (nd_db s) = Inr x \<and> t = s"
  by (auto simp: db_read_def)

lemma dbA_eq_Inr: "dbA f m s = (Inr x, t) \<longleftrightarrow> (\<exists>d. m (nd_db s) = (Inr x, d) \<and> t = s\<lparr>nd_db := d\<rparr>)"
  by (auto simp: dbA_def zoomA_eq_Inr)

lemma ask_gov_eq_Inr:
  "ask_gov f q s = (Inr x, t) \<longleftrightarrow> nd_gov_alive s \<and> q (nd_db s) = Inr x \<and> t = s"
  by (auto simp: ask_gov_def split: sum.splits failure.splits gov_error.splits)

lemma gov_updated_eq_Inr:
  "gov_updated f i v s = (Inr x, t) \<longleftrightarrow>
     nd_gov_alive s \<and> t = s\<lparr>nd_gov_updates := nd_gov_updates s @ [(i, v)]\<rparr>"
  by (auto simp: gov_updated_def)

lemma tell_message_eq_Inr:
  "tell_message f c s = (Inr x, t) \<longleftrightarrow>
     nd_message_open s \<and> t = s\<lparr>nd_messages := nd_messages s @ [c]\<rparr>"
  by (auto simp: tell_message_def)

lemma tell_distribution_eq_Inr:
  "tell_distribution f c s = (Inr x, t) \<longleftrightarrow>
     nd_distribution_open s \<and> t = s\<lparr>nd_distribution := nd_distribution s @ [c]\<rparr>"
  by (auto simp: tell_distribution_def)

lemma notify_run:
  "notify n s = (Ok (), if nd_notification_open s
     then s\<lparr>nd_notifications := nd_notifications s @ [n]\<rparr> else s)"
  by (simp add: notify_def)

end
