(* ===== verification/Ledger.thy ===== *)
theory Ledger
  imports Node
begin

text \<open>
  The ledger (\<^verbatim>\<open>ledger/ledger.rs\<close>): stores validated events and keeps the subjects up to date
  with them, checks the events other nodes send, and asks for those it misses. Its own state is,
  for each subject, whether it is a governance, the last event it has applied and the last
  event it knows of (the head) when some between are missing.
\<close>

section \<open>State and errors\<close>

datatype ledger_error =
    LChannelClosed
  | LUnexpectedResponse
  | LSubjectNotFound string
  | UnexpectedTransfer
  | LErrorParsingJsonString string
  | LErrorApplyingPatch string
  | StateInGenesis
  | LChannelError channel_error
  | LSubjectError subject_error
  | LCryptoError string
  | SubjectAlreadyExists string
  | LGovernanceError request_error
  | LDatabaseError db_error
  | EventAlreadyExists
  | Unauthorized string
  | NotEnoughSignatures string
  | ZeroEventsSubject string
  | WrongSnInSubject string
  | LCEBiggerSN
  | UnsignedUnknowEvent
  | UnexpectEventMissingInEventSourcing
  | EventNotNext
  | EventDoesNotFitHash
  | WeAreNotWitnesses string
  | InvalidLCEAfterGenesis string
  | GovernanceNotPreauthorized string
  | GovernanceLCE string
  | EvaluationInTransferEvent
  | ApprovalInTransferEvent
  | StateEventWithZeroSNDetected
  | UnexpectedCreateEvent
  | ValidationProofError string
  | EOLWhenActiveLCE string
  | IntermediateEOL string
  | SubjectLifeEnd string
  | RepeatedRequestId string
  | SubjectIdError
  | NotificationChannelError

record ledger_state =
  ls_current_sn :: "u64 option"
  ls_head :: "u64 option"

record 'b ledger = "'b node" +
  lg_subject_is_gov :: "digest_identifier \<rightharpoonup> bool"
  lg_ledger_state :: "digest_identifier \<rightharpoonup> ledger_state"

text \<open>What does not change: who we are and how we hash.\<close>

record ledger_config =
  lc_our_id :: key_identifier
  lc_derivator :: digest_derivator

type_synonym ('b, 'a) lact = "('b ledger, 'a, ledger_error) act"

definition ldb :: "('b data_store, 'a, db_error) act \<Rightarrow> ('b, 'a) lact" where
  "ldb m = dbA LDatabaseError m"

definition lread :: "('b data_store \<Rightarrow> ('a, db_error) res) \<Rightarrow> ('b, 'a) lact" where
  "lread q = db_read LDatabaseError q"

text \<open>A read whose missing entry has an error of its own.\<close>

fun missing :: "ledger_error \<Rightarrow> db_error \<Rightarrow> ledger_error" where
  "missing e EntryNotFound = e"
| "missing e d = LDatabaseError d"

definition lread_or :: "ledger_error \<Rightarrow> ('b data_store \<Rightarrow> ('a, db_error) res) \<Rightarrow> ('b, 'a) lact" where
  "lread_or e q = db_read (missing e) q"

definition lask :: "('b data_store \<Rightarrow> ('a, gov_error) res) \<Rightarrow> ('b, 'a) lact" where
  "lask q = ask_gov LGovernanceError q"

definition set_is_gov :: "digest_identifier \<Rightarrow> bool \<Rightarrow> ('b, unit) lact" where
  "set_is_gov i b = modA (\<lambda>s. s\<lparr>lg_subject_is_gov := (lg_subject_is_gov s)(i \<mapsto> b)\<rparr>)"

definition set_state :: "digest_identifier \<Rightarrow> u64 option \<Rightarrow> u64 option \<Rightarrow> ('b, unit) lact" where
  "set_state i c h = modA (\<lambda>s. s\<lparr>lg_ledger_state :=
     (lg_ledger_state s)(i \<mapsto> \<lparr>ls_current_sn = c, ls_head = h\<rparr>)\<rparr>)"

definition lift_subject :: "('a, subject_error) res \<Rightarrow> ('b, 'a) lact" where
  "lift_subject r = liftA (map_err LSubjectError r)"

definition request_hash :: "'b env \<Rightarrow> event_request signed \<Rightarrow> ('b, digest_identifier) lact" where
  "request_hash E er = liftA (map_err (\<lambda>_. LCryptoError ''Error generating request hash'')
     (generate_with_blake3 E (PSignedEventRequest er)))"

section \<open>Start-up\<close>

definition init_state_of :: "'b env \<Rightarrow> subject \<Rightarrow> ('b, unit) lact" where
  "init_state_of E s =
     (let i = su_subject_id s in
      bindA (lread (get_events_by_range E i None (-2))) (\<lambda>last_two_events.
      case last_two_events of
        [] \<Rightarrow> failA (ZeroEventsSubject (dstr E i))
      | [_] \<Rightarrow> set_state i (Some 0) None
      | last_event # _ \<Rightarrow>
          let pre_last_event = last last_two_events;
              last_event = last (butlast last_two_events) in
          if ev_sn (content last_event) = ev_sn (content pre_last_event) + 1 then
            bindA (liftA (fail_if (su_sn s \<noteq> ev_sn (content last_event)) (WrongSnInSubject (dstr E i)))) (\<lambda>_.
            set_state i (Some (ev_sn (content last_event))) None)
          else
            bindA (liftA (fail_if (su_sn s \<noteq> ev_sn (content pre_last_event)) (WrongSnInSubject (dstr E i)))) (\<lambda>_.
            set_state i (Some (ev_sn (content pre_last_event))) (Some (ev_sn (content last_event))))))"

definition init :: "'b env \<Rightarrow> ('b, unit) lact" where
  "init E =
     bindA (lread (get_all_subjects E)) (\<lambda>subjects.
     forA (\<lambda>s.
       bindA (lask (is_governance E (su_subject_id s))) (\<lambda>g.
       bindA (set_is_gov (su_subject_id s) g) (\<lambda>_.
       init_state_of E s))) subjects)"

section \<open>Requests that are done\<close>

definition set_finished_request ::
  "'b env \<Rightarrow> digest_identifier \<Rightarrow> event_request signed \<Rightarrow> u64 \<Rightarrow> digest_identifier \<Rightarrow> bool \<Rightarrow>
     ('b, unit) lact" where
  "set_finished_request E request_id event_request sn subject_id success =
     bindA (lift_subject (taple_request_from E event_request)) (\<lambda>taple_request.
     ldb (set_taple_request E request_id (taple_request\<lparr>
       tq_sn := Some sn,
       tq_subject_id := Some subject_id,
       tq_state := Finished,
       tq_success := Some success\<rparr>)))"

section \<open>Genesis\<close>

definition genesis_version :: "'b env \<Rightarrow> start_request \<Rightarrow> ('b, u64) lact" where
  "genesis_version E cr =
     (if st_schema_id cr = ''governance'' \<and> di_digest (st_governance_id cr) = [] then retA 0
      else lask (get_governance_version E default_digest (st_governance_id cr)))"

definition genesis_state :: "digest_identifier \<Rightarrow> ('b, unit) lact" where
  "genesis_state i = modA (\<lambda>s. s\<lparr>lg_ledger_state := (lg_ledger_state s)(i \<mapsto>
     (case lg_ledger_state s i of
        Some l \<Rightarrow> l\<lparr>ls_current_sn := Some 0\<rparr>
      | None \<Rightarrow> \<lparr>ls_current_sn = Some 0, ls_head = None\<rparr>))\<rparr>)"

definition genesis ::
  "'b env \<Rightarrow> ledger_config \<Rightarrow> event signed \<Rightarrow> signature list \<Rightarrow> validation_proof \<Rightarrow> ('b, unit) lact" where
  "genesis E C ev signatures validation_proof =
     (let er = ev_event_request (content ev); sn = ev_sn (content ev) in
      bindA (request_hash E er) (\<lambda>request_id.
      case content er of
        Create cr \<Rightarrow>
          bindA (genesis_version E cr) (\<lambda>governance_version.
          bindA (lask (get_init_state E (st_governance_id cr) (st_schema_id cr) governance_version))
            (\<lambda>init_state.
          bindA (db_read (\<lambda>_. LCryptoError ''Error getting keys from database'')
            (get_keys E (st_public_key cr))) (\<lambda>subject_keys.
          bindA (lift_subject (from_genesis_event E ev init_state (Some subject_keys) (lc_derivator C)))
            (\<lambda>subject.
          let subject_id = su_subject_id subject in
          bindA (if st_schema_id cr = ''governance'' then
              bindA (set_is_gov subject_id True) (\<lambda>_. gov_updated LGovernanceError subject_id sn)
            else set_is_gov subject_id False) (\<lambda>_.
          bindA (ldb (set_governance_index E subject_id (su_governance_id subject))) (\<lambda>_.
          bindA (ldb (set_subject E subject_id subject)) (\<lambda>_.
          bindA (ldb (set_signatures E subject_id sn signatures validation_proof)) (\<lambda>_.
          bindA (ldb (set_event E subject_id ev)) (\<lambda>_.
          bindA (set_finished_request E request_id er sn subject_id True) (\<lambda>_.
          bindA (notify (NewEvent sn (dstr E subject_id))) (\<lambda>_.
          bindA (notify (NewSubject (dstr E subject_id))) (\<lambda>_.
          bindA (genesis_state subject_id) (\<lambda>_.
          tell_distribution LChannelError (SignaturesNeeded subject_id 0))))))))))))))
      | _ \<Rightarrow> failA StateInGenesis))"

section \<open>Keys\<close>

text \<open>\<^verbatim>\<open>generate_key\<close>, given the key pair the random generator yields for the derivator.\<close>

definition generate_key :: "'b env \<Rightarrow> key_pair \<Rightarrow> ('b, key_identifier) lact" where
  "generate_key E keys =
     (let public_key = new_key (get_key_derivator keys) (public_key_bytes keys) in
      bindA (ldb (set_keys E public_key keys)) (\<lambda>_. retA public_key))"

section \<open>A validated event of our own subject\<close>

text \<open>The end of the three branches: keep track of the governances, tell the governance module
  of a new version if \<open>tell_gov\<close>, drop the signatures of the previous event of the others.\<close>

definition after_event :: "'b env \<Rightarrow> bool \<Rightarrow> digest_identifier \<Rightarrow> u64 \<Rightarrow> ('b, unit) lact" where
  "after_event E tell_gov subject_id sn =
     (let is_a_gov = (if tell_gov then gov_updated LGovernanceError subject_id sn else retA ());
          is_not = ldb (del_signatures E subject_id (sn - 1)) in
      bindA (getA (\<lambda>s. Ok (lg_subject_is_gov s subject_id))) (\<lambda>is_gov.
      case is_gov of
        Some True \<Rightarrow> is_a_gov
      | Some False \<Rightarrow> is_not
      | None \<Rightarrow>
          bindA (lask (is_governance E subject_id)) (\<lambda>g.
          if g then bindA (set_is_gov subject_id True) (\<lambda>_. is_a_gov)
          else bindA (set_is_gov subject_id False) (\<lambda>_. is_not))))"

definition validated_fact ::
  "'b env \<Rightarrow> digest_identifier \<Rightarrow> event signed \<Rightarrow> signature list \<Rightarrow> validation_proof \<Rightarrow>
     digest_identifier \<Rightarrow> ('b, unit) lact" where
  "validated_fact E request_id ev signatures validation_proof subject_id =
     (let c = content ev; er = ev_event_request c; sn = ev_sn c in
      bindA (lread_or (LSubjectNotFound (dstr E subject_id)) (get_subject E subject_id)) (\<lambda>subject.
      bindA (ldb (set_signatures E subject_id sn signatures validation_proof)) (\<lambda>_.
      bindA (liftA (fail_if (su_sn subject \<noteq> sn - 1) (WrongSnInSubject (dstr E subject_id)))) (\<lambda>_.
      bindA (if ev_approved c then lift_subject (update_subject E (ev_patch c) sn subject)
        else retA (subject\<lparr>su_sn := sn\<rparr>)) (\<lambda>subject.
      bindA (notify (StateUpdated sn (dstr E (su_subject_id subject)))) (\<lambda>_.
      bindA (ldb (set_event E subject_id ev)) (\<lambda>_.
      bindA (set_finished_request E request_id er sn subject_id True) (\<lambda>_.
      bindA (notify (NewEvent sn (dstr E subject_id))) (\<lambda>_.
      bindA (ldb (set_subject E subject_id subject)) (\<lambda>_.
      after_event E True subject_id sn))))))))))"

definition validated_transfer ::
  "'b env \<Rightarrow> ledger_config \<Rightarrow> digest_identifier \<Rightarrow> event signed \<Rightarrow> signature list \<Rightarrow> validation_proof \<Rightarrow>
     transfer_request \<Rightarrow> ('b, unit) lact" where
  "validated_transfer E C request_id ev signatures validation_proof tr =
     (let c = content ev; er = ev_event_request c; sn = ev_sn c; subject_id = tr_subject_id tr;
          owner = sg_signer (signature er) in
      bindA (lread_or (LSubjectNotFound (dstr E subject_id)) (get_subject E subject_id)) (\<lambda>subject.
      bindA (if owner = lc_our_id C
        then bindA (lread (get_keys E (tr_public_key tr))) (\<lambda>keys. retA (Some keys))
        else retA None) (\<lambda>keys.
      let subject = subject\<lparr>su_public_key := tr_public_key tr, su_owner := owner, su_keys := keys\<rparr> in
      bindA (ldb (set_signatures E subject_id sn signatures validation_proof)) (\<lambda>_.
      bindA (ldb (set_event E subject_id ev)) (\<lambda>_.
      bindA (set_finished_request E request_id er sn subject_id True) (\<lambda>_.
      bindA (notify (NewEvent sn (dstr E subject_id))) (\<lambda>_.
      bindA (ldb (set_subject E subject_id (subject\<lparr>su_sn := sn\<rparr>))) (\<lambda>_.
      after_event E False subject_id sn))))))))"

definition validated_eol ::
  "'b env \<Rightarrow> digest_identifier \<Rightarrow> event signed \<Rightarrow> signature list \<Rightarrow> validation_proof \<Rightarrow>
     digest_identifier \<Rightarrow> ('b, unit) lact" where
  "validated_eol E request_id ev signatures validation_proof subject_id =
     (let er = ev_event_request (content ev); sn = ev_sn (content ev) in
      bindA (lread_or (LSubjectNotFound (dstr E subject_id)) (get_subject E subject_id)) (\<lambda>subject.
      bindA (ldb (set_signatures E subject_id sn signatures validation_proof)) (\<lambda>_.
      bindA (ldb (set_event E subject_id ev)) (\<lambda>_.
      bindA (set_finished_request E request_id er sn subject_id True) (\<lambda>_.
      bindA (notify (NewEvent sn (dstr E subject_id))) (\<lambda>_.
      bindA (ldb (set_subject E subject_id (eol_event (subject\<lparr>su_sn := sn\<rparr>)))) (\<lambda>_.
      after_event E True subject_id sn)))))))"

text \<open>Moving the position of the subject one event further.\<close>

definition advance_state :: "digest_identifier \<Rightarrow> ('b, unit) lact" where
  "advance_state subject_id = (\<lambda>s.
     case lg_ledger_state s subject_id of
       None \<Rightarrow> set_state subject_id (Some 0) None s
     | Some l \<Rightarrow>
         bindA (liftA (unwrap (ls_current_sn l))) (\<lambda>current_sn.
         set_state subject_id (Some (current_sn + 1)) (ls_head l)) s)"

text \<open>The branches over the kind of request, which give the subject.\<close>

definition validated_request ::
  "'b env \<Rightarrow> ledger_config \<Rightarrow> digest_identifier \<Rightarrow> event signed \<Rightarrow> signature list \<Rightarrow> validation_proof \<Rightarrow>
     ('b, digest_identifier) lact" where
  "validated_request E C request_id ev signatures validation_proof =
     (case content (ev_event_request (content ev)) of
        Fact f \<Rightarrow>
          bindA (validated_fact E request_id ev signatures validation_proof (fa_subject_id f))
            (\<lambda>_. retA (fa_subject_id f))
      | Create _ \<Rightarrow> failA StateInGenesis
      | Transfer tr \<Rightarrow>
          bindA (validated_transfer E C request_id ev signatures validation_proof tr)
            (\<lambda>_. retA (tr_subject_id tr))
      | EOL e \<Rightarrow>
          bindA (validated_eol E request_id ev signatures validation_proof (eo_subject_id e))
            (\<lambda>_. retA (eo_subject_id e)))"

definition event_validated ::
  "'b env \<Rightarrow> ledger_config \<Rightarrow> event signed \<Rightarrow> signature list \<Rightarrow> validation_proof \<Rightarrow> ('b, unit) lact" where
  "event_validated E C ev signatures validation_proof =
     (let c = content ev; er = ev_event_request c; sn = ev_sn c in
      bindA (request_hash E er) (\<lambda>request_id.
      bindA (validated_request E C request_id ev signatures validation_proof) (\<lambda>subject_id.
      bindA (set_finished_request E request_id er sn subject_id (ev_eval_success c \<and> ev_approved c)) (\<lambda>_.
      bindA (advance_state subject_id) (\<lambda>_.
      tell_distribution LChannelError (SignaturesNeeded subject_id sn))))))"

end
