(* ===== verification/Ledger_Sync.thy ===== *)
theory Ledger_Sync
  imports Ledger
begin

text \<open>
  The ledger as a follower (\<^verbatim>\<open>ledger/ledger.rs\<close>, second half): the checks of events and proofs
  received from other nodes, event sourcing, the events between the last applied one and the
  head, and the answers to other nodes.
\<close>

section \<open>Signatures and quorum\<close>

text \<open>\<^verbatim>\<open>verify_signatures\<close> skips a signature that does not verify, that is not of an allowed signer
  or whose signer it has seen.\<close>

fun count_signers ::
  "'b env \<Rightarrow> payload \<Rightarrow> key_identifier set \<Rightarrow> key_identifier set \<Rightarrow> signature list \<Rightarrow>
     (key_identifier set, ledger_error) res" where
  "count_signers E p signers acc [] = Ok acc"
| "count_signers E p signers acc (g # gs) =
     (case signature_verify E g p of
        Inl (Panic m) \<Rightarrow> Abort m
      | Inl (Err _) \<Rightarrow> count_signers E p signers acc gs
      | Inr _ \<Rightarrow>
          if sg_signer g \<notin> signers then count_signers E p signers acc gs
          else count_signers E p signers (insert (sg_signer g) acc) gs)"

definition verify_signatures ::
  "'b env \<Rightarrow> signature list \<Rightarrow> key_identifier set \<Rightarrow> u32 \<Rightarrow> validation_proof \<Rightarrow> (unit, ledger_error) res" where
  "verify_signatures E signatures signers required validation_proof =
     bindR (count_signers E (PProof validation_proof) signers {} signatures) (\<lambda>who.
     if card who < unat required then Fail (NotEnoughSignatures ''buenas tardes'') else Ok ())"

text \<open>\<^verbatim>\<open>verify_approval_signatures\<close>: the same over signed approval responses to one request.\<close>

fun count_approvals ::
  "'b env \<Rightarrow> digest_identifier \<Rightarrow> key_identifier set \<Rightarrow> key_identifier set \<Rightarrow>
     approval_response signed list \<Rightarrow> (key_identifier set, ledger_error) res" where
  "count_approvals E h signers acc [] = Ok acc"
| "count_approvals E h signers acc (a # as) =
     (if ar_appr_req_hash (content a) \<noteq> h then count_approvals E h signers acc as
      else case signature_verify E (signature a) (PApprovalResponse (content a)) of
          Inl (Panic m) \<Rightarrow> Abort m
        | Inl (Err _) \<Rightarrow> count_approvals E h signers acc as
        | Inr _ \<Rightarrow>
            if sg_signer (signature a) \<notin> signers then count_approvals E h signers acc as
            else count_approvals E h signers (insert (sg_signer (signature a)) acc) as)"

definition verify_approval_signatures ::
  "'b env \<Rightarrow> approval_response signed list \<Rightarrow> key_identifier set \<Rightarrow> u32 \<Rightarrow> digest_identifier \<Rightarrow>
     (unit, ledger_error) res" where
  "verify_approval_signatures E approvals signers required event_proposal_hash =
     bindR (count_approvals E event_proposal_hash signers {} approvals) (\<lambda>who.
     if card who < unat required then Fail (NotEnoughSignatures ''Approval failed'') else Ok ())"

definition get_witnesses :: "'b env \<Rightarrow> metadata \<Rightarrow> ('b, key_identifier set) lact" where
  "get_witnesses E md = lask (get_signers E md Witness)"

definition get_signers_and_quorum ::
  "'b env \<Rightarrow> metadata \<Rightarrow> validation_stage \<Rightarrow> ('b, key_identifier set \<times> u32) lact" where
  "get_signers_and_quorum E md stage =
     bindA (lask (get_signers E md stage)) (\<lambda>signers.
     bindA (lask (get_quorum E md stage)) (\<lambda>quorum_size.
     retA (signers, quorum_size)))"

section \<open>Checks of one event\<close>

text \<open>The negative quorum, in \<^verbatim>\<open>u32\<close> arithmetic.\<close>

definition quorum_negative :: "key_identifier set \<Rightarrow> u32 \<Rightarrow> u32" where
  "quorum_negative signers quorum = (of_nat (card signers) - quorum) + 1"

definition check_event ::
  "'b env \<Rightarrow> event signed \<Rightarrow> metadata \<Rightarrow> subject_context \<Rightarrow> ('b, unit) lact" where
  "check_event E ev md ctx =
     bindA (get_signers_and_quorum E md Evaluate) (\<lambda>(signers_eval, quorum_eval).
     bindA (get_signers_and_quorum E md Approve) (\<lambda>(signers, quorum).
     lift_subject (verify_eval_appr E ctx
       (signers_eval, quorum_eval, quorum_negative signers_eval quorum_eval)
       (signers, quorum, quorum_negative signers quorum) ev)))"

definition check_transfer_event :: "event signed \<Rightarrow> (unit, ledger_error) res" where
  "check_transfer_event ev =
     (let c = content ev in
      if \<not> ev_eval_success c \<or> ev_patch c \<noteq> JArray [] then Fail EvaluationInTransferEvent
      else if ev_appr_required c \<or> \<not> ev_approved c then Fail ApprovalInTransferEvent
      else Ok ())"

definition content_hash_as ::
  "'b env \<Rightarrow> ledger_error \<Rightarrow> digest_derivator \<Rightarrow> event \<Rightarrow> (digest_identifier, ledger_error) res" where
  "content_hash_as E e d ev = map_err (\<lambda>_. e) (from_serializable_borsh E (PEvent ev) d)"

text \<open>The hash of the last event of the subject, as the proof must refer to it.\<close>

definition proof_prev_hash ::
  "'b env \<Rightarrow> validation_proof \<Rightarrow> subject \<Rightarrow> 'b data_store \<Rightarrow> (digest_identifier, ledger_error) res" where
  "proof_prev_hash E p s m =
     (case get_event E (su_subject_id s) (su_sn s) m of
        Inr ev \<Rightarrow> content_hash_as E (ValidationProofError ''Error parsing prev event content'')
          (di_derivator (vp_prev_event_hash p)) (content ev)
      | Inl (Err EntryNotFound) \<Rightarrow>
          if su_sn s = 0 then Ok default_digest else Fail (LDatabaseError EntryNotFound)
      | Inl e \<Rightarrow> map_err LDatabaseError (Inl e))"

definition check_validation_proof ::
  "'b env \<Rightarrow> validation_proof \<Rightarrow> subject \<Rightarrow> digest_identifier \<Rightarrow> key_identifier \<Rightarrow> 'b data_store \<Rightarrow>
     (unit, ledger_error) res" where
  "check_validation_proof E p s event_hash public_key m =
     bindR (proof_prev_hash E p s m) (\<lambda>hash_prev_event.
     if su_governance_id s \<noteq> vp_governance_id p
     then Fail (ValidationProofError ''Governance ID does not match'')
     else if vp_subject_id p \<noteq> su_subject_id s
     then Fail (ValidationProofError ''Subject ID does not match'')
     else if vp_sn p \<noteq> su_sn s + 1
     then Fail (ValidationProofError ''Subject SN does not match'')
     else if vp_schema_id p \<noteq> su_schema_id s
     then Fail (ValidationProofError ''Schema ID does not match'')
     else if vp_namespace p \<noteq> su_namespace s
     then Fail (ValidationProofError ''Namespace does not match'')
     else if vp_prev_event_hash p \<noteq> hash_prev_event
     then Fail (ValidationProofError ''Hash Prev Event does not match'')
     else if vp_event_hash p \<noteq> event_hash
     then Fail (ValidationProofError ''Hash Event does not match'')
     else if vp_subject_public_key p \<noteq> public_key
     then Fail (ValidationProofError ''Subject Public Key does not match'')
     else if vp_name p \<noteq> su_name s
     then Fail (ValidationProofError ''Subject Name does not match'')
     else if vp_genesis_governance_version p \<noteq> su_genesis_gov_version s
     then Fail (ValidationProofError ''Genesis gov versiob does not match'')
     else Ok ())"

section \<open>Event sourcing\<close>

text \<open>The test the four cases share: the stored previous event has the hash this one names.\<close>

definition check_prev_hash ::
  "'b env \<Rightarrow> digest_identifier \<Rightarrow> u64 \<Rightarrow> digest_identifier \<Rightarrow> ('b, unit) lact" where
  "check_prev_hash E subject_id sn hash_prev_event =
     bindA (lread_or UnexpectEventMissingInEventSourcing (get_event E subject_id (sn - 1))) (\<lambda>prev.
     bindA (liftA (content_hash_as E (LCryptoError ''Error generating hash'')
       (di_derivator hash_prev_event) (content prev))) (\<lambda>prev_event_hash.
     liftA (fail_if (hash_prev_event \<noteq> prev_event_hash) EventDoesNotFitHash)))"

definition event_sourcing_eol :: "'b env \<Rightarrow> event signed \<Rightarrow> ('b, subject) lact" where
  "event_sourcing_eol E ev =
     (case content (ev_event_request (content ev)) of
        EOL e \<Rightarrow>
          bindA (check_prev_hash E (eo_subject_id e) (ev_sn (content ev)) (ev_hash_prev_event (content ev)))
            (\<lambda>_.
          bindA (lread (get_subject E (eo_subject_id e))) (\<lambda>subject.
          bindA (ldb (set_subject E (eo_subject_id e) (eol_event subject))) (\<lambda>_.
          retA (eol_event subject))))
      | _ \<Rightarrow> failA EventDoesNotFitHash)"

definition event_sourcing_transfer ::
  "'b env \<Rightarrow> ledger_config \<Rightarrow> digest_identifier \<Rightarrow> u64 \<Rightarrow> key_identifier \<Rightarrow> key_identifier \<Rightarrow>
     ('b, subject) lact" where
  "event_sourcing_transfer E C subject_id sn owner public_key =
     bindA (lread_or UnexpectEventMissingInEventSourcing (get_event E subject_id sn)) (\<lambda>ev.
     bindA (check_prev_hash E subject_id sn (ev_hash_prev_event (content ev))) (\<lambda>_.
     bindA (lread (get_subject E subject_id)) (\<lambda>subject.
     bindA (if sg_signer (signature (ev_event_request (content ev))) = lc_our_id C
       then bindA (lread_or UnexpectedTransfer (get_keys E public_key)) (\<lambda>keypair.
         retA (Some keypair, True))
       else retA (None, False)) (\<lambda>(keypair, to_delete).
     let subject = transfer_subject owner public_key keypair (ev_sn (content ev)) subject in
     bindA (ldb (set_subject E subject_id subject)) (\<lambda>_.
     bindA (if to_delete then ldb (del_keys E public_key) else retA ()) (\<lambda>_.
     retA subject))))))"

definition event_sourcing_rejected_event :: "'b env \<Rightarrow> event signed \<Rightarrow> ('b, subject) lact" where
  "event_sourcing_rejected_event E ev =
     (let c = content ev; subject_id = ev_subject_id c in
      bindA (check_prev_hash E subject_id (ev_sn c) (ev_hash_prev_event c)) (\<lambda>_.
      bindA (lread (get_subject E subject_id)) (\<lambda>subject.
      bindA (liftA (fail_if (ev_sn c \<noteq> su_sn subject + 1) EventNotNext)) (\<lambda>_.
      let subject = subject\<lparr>su_sn := ev_sn c\<rparr> in
      bindA (notify (StateUpdated (ev_sn c) (dstr E (su_subject_id subject)))) (\<lambda>_.
      bindA (ldb (set_subject E subject_id subject)) (\<lambda>_.
      retA subject))))))"

definition event_sourcing_state ::
  "'b env \<Rightarrow> digest_identifier \<Rightarrow> u64 \<Rightarrow> event signed \<Rightarrow> ('b, subject) lact" where
  "event_sourcing_state E subject_id sn ev =
     (let c = content ev in
      bindA (check_prev_hash E subject_id sn (ev_hash_prev_event c)) (\<lambda>_.
      bindA (lread (get_subject E subject_id)) (\<lambda>subject.
      bindA (lift_subject (update_subject E (ev_patch c) (ev_sn c) subject)) (\<lambda>subject.
      bindA (notify (StateUpdated (ev_sn c) (dstr E (su_subject_id subject)))) (\<lambda>_.
      bindA (ldb (set_subject E subject_id subject)) (\<lambda>_.
      retA subject))))))"

definition event_sourcing :: "'b env \<Rightarrow> ledger_config \<Rightarrow> event signed \<Rightarrow> ('b, subject) lact" where
  "event_sourcing E C ev =
     (let c = content ev in
      if \<not> ev_approved c then event_sourcing_rejected_event E ev
      else case content (ev_event_request c) of
          Transfer tr \<Rightarrow>
            event_sourcing_transfer E C (tr_subject_id tr) (ev_sn c)
              (sg_signer (signature (ev_event_request c))) (tr_public_key tr)
        | Create _ \<Rightarrow> failA UnexpectedCreateEvent
        | Fact f \<Rightarrow> event_sourcing_state E (fa_subject_id f) (ev_sn c) ev
        | EOL _ \<Rightarrow> event_sourcing_eol E ev)"

section \<open>A genesis event from another node\<close>

definition check_genesis ::
  "'b env \<Rightarrow> event signed \<Rightarrow> digest_identifier \<Rightarrow> digest_derivator \<Rightarrow> ('b, metadata) lact" where
  "check_genesis E ev subject_id d =
     (let c = content ev; er = ev_event_request c in
      case content er of
        Create cr \<Rightarrow>
          let md = \<lparr>
            md_namespace = st_namespace cr,
            md_subject_id = subject_id,
            md_governance_id = st_governance_id cr,
            md_governance_version = ev_gov_version c,
            md_schema_id = st_schema_id cr\<rparr> in
          bindA (if st_schema_id cr \<noteq> ''governance'' then
              bindA (lask (get_issue_create_info E md StageCreate (sg_signer (signature er)))) (\<lambda>creation_roles.
              liftA (fail_if (\<not> creation_roles) (Unauthorized ''Crreator not allowed'')))
            else retA ()) (\<lambda>_.
          bindA (lask (get_init_state E (md_governance_id md) (md_schema_id md) (md_governance_version md)))
            (\<lambda>init_state.
          bindA (lift_subject (from_genesis_event E ev init_state None d)) (\<lambda>subject.
          bindA (ldb (set_governance_index E subject_id (su_governance_id subject))) (\<lambda>_.
          bindA (request_hash E er) (\<lambda>request_id.
          bindA (ldb (set_event E subject_id ev)) (\<lambda>_.
          bindA (set_finished_request E request_id er (ev_sn c) subject_id
            (ev_eval_success c \<and> ev_approved c)) (\<lambda>_.
          bindA (notify (NewEvent (ev_sn c) (dstr E subject_id))) (\<lambda>_.
          bindA (ldb (set_subject E subject_id subject)) (\<lambda>_.
          bindA (notify (NewSubject (dstr E subject_id))) (\<lambda>_.
          retA md))))))))))
      | _ \<Rightarrow> failA StateInGenesis)"

section \<open>An event between the last applied one and the head\<close>

text \<open>The identifier of the subject of an event that is not the head.\<close>

definition intermediate_subject_id :: "'b env \<Rightarrow> event signed \<Rightarrow> (digest_identifier, ledger_error) res" where
  "intermediate_subject_id E ev =
     (case content (ev_event_request (content ev)) of
        Create cr \<Rightarrow> map_err LSubjectError
          (generate_subject_id E (st_namespace cr) (st_schema_id cr) (kstr E (st_public_key cr))
            (dstr E (st_governance_id cr)) (ev_gov_version (content ev))
            (di_derivator (ev_subject_id (content ev))))
      | Fact f \<Rightarrow> Ok (fa_subject_id f)
      | Transfer tr \<Rightarrow> Ok (tr_subject_id tr)
      | EOL e \<Rightarrow> Fail (IntermediateEOL (dstr E (eo_subject_id e))))"

text \<open>A request is processed once.\<close>

definition check_new_request :: "'b env \<Rightarrow> digest_identifier \<Rightarrow> ('b, unit) lact" where
  "check_new_request E request_id =
     db_case (get_taple_request E request_id) (\<lambda>r.
       case r of
         Inr _ \<Rightarrow> failA (RepeatedRequestId (dstr E request_id))
       | Inl (Err EntryNotFound) \<Rightarrow> retA ()
       | Inl e \<Rightarrow> liftA (map_err LDatabaseError (Inl e)))"

text \<open>An approval request we still had pending for the event is obsolete.\<close>

definition obsolete_approval ::
  "'b env \<Rightarrow> digest_identifier \<Rightarrow> digest_identifier \<Rightarrow> u64 \<Rightarrow> ('b, unit) lact" where
  "obsolete_approval E h subject_id sn =
     db_case (get_approval E h) (\<lambda>r.
       case r of
         Inr data \<Rightarrow>
           if ae_state data = Pending then
             bindA (ldb (set_approval E h (data\<lparr>ae_state := Obsolete\<rparr>))) (\<lambda>_.
             notify (ObsoletedApproval (dstr E h) (dstr E subject_id) sn))
           else retA ()
       | Inl (Err EntryNotFound) \<Rightarrow> retA ()
       | Inl e \<Rightarrow> liftA (map_err LDatabaseError (Inl e)))"

text \<open>Applying the head once the event before it has been applied: its validation proof is
  checked against the subject, the head is sourced, and nothing is missing any more.\<close>

definition apply_head ::
  "'b env \<Rightarrow> ledger_config \<Rightarrow> digest_identifier \<Rightarrow> u64 \<Rightarrow> subject \<Rightarrow> ('b, unit) lact" where
  "apply_head E C subject_id head subject =
     bindA (lread_or UnexpectEventMissingInEventSourcing (get_event E subject_id head)) (\<lambda>head_event.
     bindA (lread (get_lce_validation_proof E subject_id)) (\<lambda>validation_proof.
     let public_key = (case content (ev_event_request (content head_event)) of
         Transfer data \<Rightarrow> tr_public_key data
       | _ \<Rightarrow> su_public_key subject) in
     bindA (liftA (content_hash_as E (LCryptoError ''Error generating event hash'')
       (di_derivator (vp_event_hash validation_proof)) (content head_event))) (\<lambda>event_hash.
     bindA (getA (\<lambda>s. check_validation_proof E validation_proof subject event_hash public_key (nd_db s))) (\<lambda>_.
     bindA (event_sourcing E C head_event) (\<lambda>_.
     bindA (set_state subject_id (Some head) None) (\<lambda>_.
     bindA (ldb (del_lce_validation_proof E subject_id)) (\<lambda>_.
     tell_distribution LChannelError (SignaturesNeeded subject_id head))))))))"

definition request_config :: message_config where
  "request_config = \<lparr>mc_timeout = 2000, mc_replication_factor = 0x3FE999999999999A\<rparr>"

text \<open>Asking the witnesses and the owner for the next event.\<close>

definition ask_next ::
  "'b env \<Rightarrow> ledger_config \<Rightarrow> metadata \<Rightarrow> digest_identifier \<Rightarrow> key_identifier \<Rightarrow> u64 \<Rightarrow> ('b, unit) lact" where
  "ask_next E C md subject_id owner sn =
     bindA (get_witnesses E md) (\<lambda>witnesses.
     tell_message LChannelError (TaskRequest None (request_event (lc_our_id C) subject_id sn)
       (insert owner witnesses) request_config))"

definition intermediate_next ::
  "'b env \<Rightarrow> ledger_config \<Rightarrow> event signed \<Rightarrow> digest_identifier \<Rightarrow> digest_identifier \<Rightarrow> u64 \<Rightarrow> u64 \<Rightarrow>
     ('b, unit) lact" where
  "intermediate_next E C ev request_id subject_id current_sn head =
     (let c = content ev; er = ev_event_request c in
      bindA (lread_or (LSubjectNotFound []) (get_subject E subject_id)) (\<lambda>subject.
      let md = \<lparr>
        md_namespace = su_namespace subject,
        md_subject_id = su_subject_id subject,
        md_governance_id = su_governance_id subject,
        md_governance_version = ev_gov_version c,
        md_schema_id = su_schema_id subject\<rparr> in
      bindA (liftA (fail_if (ev_sn c \<noteq> current_sn + 1) EventNotNext)) (\<lambda>_.
      bindA (case content er of
          Create _ \<Rightarrow> failA UnexpectedCreateEvent
        | Fact _ \<Rightarrow> check_event E ev md (get_subject_context subject (sg_signer (signature er)))
        | Transfer _ \<Rightarrow> liftA (check_transfer_event ev)
        | EOL _ \<Rightarrow> liftA (Abort ''unreachable'')) (\<lambda>_.
      bindA (ldb (set_event E subject_id ev)) (\<lambda>_.
      bindA (set_finished_request E request_id er (ev_sn c) subject_id
        (ev_eval_success c \<and> ev_approved c)) (\<lambda>_.
      bindA (notify (NewEvent (ev_sn c) (dstr E subject_id))) (\<lambda>_.
      bindA (liftA (map_err (\<lambda>_. LCryptoError ''Error generating approval request hash'')
        (get_approval_hash E (su_governance_id subject) Blake3_256 c))) (\<lambda>approval_request_hash.
      bindA (obsolete_approval E approval_request_hash subject_id (ev_sn c)) (\<lambda>_.
      bindA (event_sourcing E C ev) (\<lambda>subject.
      if head = current_sn + 2 then apply_head E C subject_id head subject
      else
        bindA (set_state subject_id (Some (current_sn + 1)) (Some head)) (\<lambda>_.
        bindA (lread (get_subject E subject_id)) (\<lambda>_.
        ask_next E C md subject_id (su_owner subject) (current_sn + 2)))))))))))))"

definition intermediate_genesis ::
  "'b env \<Rightarrow> ledger_config \<Rightarrow> event signed \<Rightarrow> digest_identifier \<Rightarrow> u64 \<Rightarrow> ('b, unit) lact" where
  "intermediate_genesis E C ev subject_id head =
     (let c = content ev in
      bindA (liftA (fail_if (ev_sn c \<noteq> 0) UnsignedUnknowEvent)) (\<lambda>_.
      bindA (check_genesis E ev subject_id (di_derivator (ev_subject_id c))) (\<lambda>md.
      if head = 1 then
        bindA (lread (get_subject E subject_id)) (\<lambda>subject. apply_head E C subject_id head subject)
      else
        bindA (set_state subject_id (Some 0) (Some head)) (\<lambda>_.
        ask_next E C md subject_id (sg_signer (signature (ev_event_request c))) 1))))"

definition external_intermediate_event ::
  "'b env \<Rightarrow> ledger_config \<Rightarrow> event signed \<Rightarrow> ('b, unit) lact" where
  "external_intermediate_event E C ev =
     bindA (request_hash E (ev_event_request (content ev))) (\<lambda>request_id.
     bindA (check_new_request E request_id) (\<lambda>_.
     bindA (lift_subject (verify_event_signatures E ev)) (\<lambda>_.
     bindA (liftA (intermediate_subject_id E ev)) (\<lambda>subject_id.
     bindA (liftA (fail_if (subject_id \<noteq> ev_subject_id (content ev)) SubjectIdError)) (\<lambda>_.
     bindA (getA (\<lambda>s. Ok (lg_ledger_state s subject_id))) (\<lambda>state.
     case state of
       None \<Rightarrow> failA UnsignedUnknowEvent
     | Some l \<Rightarrow>
         (case ls_head l of
            None \<Rightarrow> failA UnsignedUnknowEvent
          | Some head \<Rightarrow>
              (case ls_current_sn l of
                 Some current_sn \<Rightarrow>
                   intermediate_next E C ev request_id subject_id current_sn head
               | None \<Rightarrow> intermediate_genesis E C ev subject_id head))))))))"

section \<open>Answers to other nodes\<close>

definition answer_with ::
  "key_identifier \<Rightarrow> ledger_command \<Rightarrow> ('b, unit) lact" where
  "answer_with who_asked c =
     tell_message LChannelError (TaskRequest None (LedgerMessages c) {who_asked} direct_response)"

definition ledger_get_event ::
  "'b env \<Rightarrow> key_identifier \<Rightarrow> digest_identifier \<Rightarrow> u64 \<Rightarrow> ('b, event signed) lact" where
  "ledger_get_event E who_asked subject_id sn =
     bindA (lread (get_event E subject_id sn)) (\<lambda>ev.
     bindA (answer_with who_asked (ExternalIntermediateEvent ev)) (\<lambda>_. retA ev))"

definition get_next_gov ::
  "'b env \<Rightarrow> ledger_config \<Rightarrow> key_identifier \<Rightarrow> digest_identifier \<Rightarrow> u64 \<Rightarrow>
     ('b, event signed \<times> signature list) lact" where
  "get_next_gov E C who_asked subject_id sn =
     bindA (lread (get_event E subject_id sn)) (\<lambda>ev.
     bindA (lread (get_signatures E subject_id sn)) (\<lambda>(signatures, validation_proof).
     bindA (answer_with who_asked (ExternalEvent (lc_our_id C) ev signatures validation_proof)) (\<lambda>_.
     retA (ev, signatures))))"

definition get_lce ::
  "'b env \<Rightarrow> ledger_config \<Rightarrow> key_identifier \<Rightarrow> digest_identifier \<Rightarrow>
     ('b, event signed \<times> signature list) lact" where
  "get_lce E C who_asked subject_id =
     bindA (lread (get_subject E subject_id)) (\<lambda>subject.
     bindA (lread (get_event E subject_id (su_sn subject))) (\<lambda>ev.
     bindA (lread (get_signatures E subject_id (su_sn subject))) (\<lambda>(signatures, validation_proof).
     bindA (answer_with who_asked (ExternalEvent (lc_our_id C) ev signatures validation_proof)) (\<lambda>_.
     retA (ev, signatures)))))"

end
