(* ===== verification/Db_Laws.thy ===== *)
theory Db_Laws
  imports Db_Layers
begin

text \<open>
  The contract of the tables: what is read after a write, and that the tables of one store do not
  disturb each other. The contract is a locale; each table of the database is an
  interpretation of it.
\<close>

section \<open>Keys\<close>

text \<open>What the keys rely on of base64: it is injective and writes ASCII.\<close>

definition b64_ok :: "b64 \<Rightarrow> bool" where
  "b64_ok B \<longleftrightarrow> inj (b64_enc B) \<and> (\<forall>x. ascii (b64_enc B x))"

text \<open>The digests whose text identifies them: all but the empty ones with another derivator than
  the default one.\<close>

definition digest_wf :: "digest_identifier \<Rightarrow> bool" where
  "digest_wf d \<longleftrightarrow> di_digest d \<noteq> [] \<or> d = default_digest"

lemma digest_wf_nonempty: "di_digest d \<noteq> [] \<Longrightarrow> digest_wf d"
  by (simp add: digest_wf_def)

lemma dstr_sep_free: "b64_ok (e_b64 E) \<Longrightarrow> sep_free (dstr E d)"
  by (rule sep_free_ascii) (simp add: b64_ok_def digest_to_str_def derivable_to_str_def)

lemma dstr_eq_Nil_iff: "dstr E d = [] \<longleftrightarrow> di_digest d = []"
  by (simp add: digest_to_str_def derivable_to_str_def)

lemma dstr_inject:
  assumes "b64_ok (e_b64 E)" "digest_wf d" "digest_wf d'"
  shows "dstr E d = dstr E d' \<longleftrightarrow> d = d'"
proof
  assume eq: "dstr E d = dstr E d'"
  show "d = d'"
  proof (cases "di_digest d = []")
    case True
    then have "di_digest d' = []" using eq by (metis dstr_eq_Nil_iff)
    then show ?thesis using True assms by (simp add: digest_wf_def)
  next
    case False
    then have "di_digest d' \<noteq> []" using eq by (metis dstr_eq_Nil_iff)
    then have "digest_code (di_derivator d) @ b64_enc (e_b64 E) (di_digest d) =
        digest_code (di_derivator d') @ b64_enc (e_b64 E) (di_digest d')"
      using eq False by (simp add: digest_to_str_def derivable_to_str_def)
    then have "di_derivator d = di_derivator d'" "di_digest d = di_digest d'"
      using assms(1) by (auto dest!: digest_code_prefix_free simp: b64_ok_def inj_eq)
    then show ?thesis by (cases d; cases d') simp
  qed
qed simp

text \<open>The same for a digest that is not empty and any other one.\<close>

lemma dstr_inject_left:
  assumes "b64_ok (e_b64 E)" "di_digest d \<noteq> []" "dstr E d = dstr E d'"
  shows "d = d'"
proof -
  have "di_digest d' \<noteq> []" using assms by (metis dstr_eq_Nil_iff)
  then show ?thesis using assms dstr_inject digest_wf_nonempty by blast
qed

lemma kstr_inject:
  assumes "b64_ok (e_b64 E)" "ki_public_key k \<noteq> []" "kstr E k = kstr E k'"
  shows "k = k'"
proof -
  have ne: "ki_public_key k' \<noteq> []"
    using assms by (cases "ki_derivator k") (auto simp: key_to_str_def derivable_to_str_def split: if_splits)
  have "ki_derivator k = ki_derivator k'" "ki_public_key k = ki_public_key k'"
    using assms ne by (cases "ki_derivator k"; cases "ki_derivator k'";
      auto simp: key_to_str_def derivable_to_str_def b64_ok_def inj_eq)+
  then show ?thesis by (cases k; cases k') simp
qed

section \<open>Writes under a prefix\<close>

text \<open>\<open>writes p m m'\<close>: \<open>m'\<close> differs from \<open>m\<close> at most on keys of the table with prefix \<open>p\<close>.\<close>

definition writes :: "string \<Rightarrow> 'b data_store \<Rightarrow> 'b data_store \<Rightarrow> bool" where
  "writes p m m' \<longleftrightarrow> (\<forall>j. (\<forall>r. j \<noteq> p @ char_MAX @ r) \<longrightarrow> coll_get j m' = coll_get j m)"

lemma writes_refl [simp]: "writes p m m"
  by (simp add: writes_def)

lemma writes_trans: "writes p a b \<Longrightarrow> writes p b c \<Longrightarrow> writes p a c"
  by (simp add: writes_def)

lemma coll_get_del_other: "j \<noteq> k \<Longrightarrow> coll_get j (snd (coll_del k m)) = coll_get j m"
proof -
  assume "j \<noteq> k"
  then have "bt_get (bt_remove k m) j = bt_get m j"
    by (induction k m rule: bt_remove.induct) auto
  then show ?thesis by (simp add: coll_del_def coll_get_def)
qed

lemma writes_del: "writes p m (snd (coll_del (p @ char_MAX @ r) m))"
  by (simp add: writes_def coll_get_del_other)

lemma writes_put: "writes p m (snd (coll_put (p @ char_MAX @ r) d m))"
  by (simp add: writes_def)

lemma writes_kv_put: "writes p m (snd (kv_put c (p @ char_MAX @ r) x m))"
  by (cases "ser c x") (simp_all add: kv_put_def writes_put)

lemma get_key_2: "get_key [S a, S b] = Ok (a @ char_MAX @ b)"
  by (simp add: get_key_join)

lemma get_key_2N: "get_key [S a, S b, N n] = Ok (a @ char_MAX @ b @ char_MAX @ get_u64_as_hexadecimal n)"
  by (simp add: get_key_join)

lemma get_key_3: "get_key [S a, S b, S c] = Ok (a @ char_MAX @ b @ char_MAX @ c)"
  by (simp add: get_key_join)

lemmas get_key_eval = get_key_2 get_key_2N get_key_3

section \<open>The contract of a table\<close>

locale table =
  fixes codec :: "('a, 'b) codec"
    and pre :: string
    and suf :: "'k \<Rightarrow> string"
    and valid :: "'k \<Rightarrow> bool"
    and fits :: "'k \<Rightarrow> 'a \<Rightarrow> bool"
    and get :: "'k \<Rightarrow> 'b data_store \<Rightarrow> ('a, db_error) res"
    and put :: "'k \<Rightarrow> 'a \<Rightarrow> ('b data_store, unit, db_error) act"
  assumes pre_free: "sep_free pre"
    and suf_inj: "valid k \<Longrightarrow> valid k' \<Longrightarrow> suf k = suf k' \<Longrightarrow> k = k'"
    and get_local: "coll_get (pre @ char_MAX @ suf k) m' = coll_get (pre @ char_MAX @ suf k) m \<Longrightarrow>
      get k m' = get k m"
    and get_missing: "coll_get (pre @ char_MAX @ suf k) m = Fail EntryNotFound \<Longrightarrow>
      get k m = Fail EntryNotFound"
    and get_put: "codec_ok codec \<Longrightarrow> fits k x \<Longrightarrow> put k x m = (Ok (), m') \<Longrightarrow> get k m' = Ok x"
    and put_local: "fits k x \<Longrightarrow> j \<noteq> pre @ char_MAX @ suf k \<Longrightarrow>
      coll_get j (snd (put k x m)) = coll_get j m"
    and put_fail: "put k x m = (Inl e, m') \<Longrightarrow> m' = m"
    and inv_put: "bt_inv m \<Longrightarrow> bt_inv (snd (put k x m))"
begin

lemma get_put_other:
  assumes "valid k" "valid k'" "k \<noteq> k'" "fits k x"
  shows "get k' (snd (put k x m)) = get k' m"
proof (rule get_local, rule put_local [OF assms(4)])
  show "pre @ char_MAX @ suf k' \<noteq> pre @ char_MAX @ suf k"
    using suf_inj [OF assms(1,2)] assms(3) by auto
qed

lemma writes_table: "fits k x \<Longrightarrow> writes pre m (snd (put k x m))"
  by (auto simp: writes_def put_local)

lemma get_foreign:
  assumes "writes p m m'" "p \<noteq> pre" "sep_free p"
  shows "get k m' = get k m"
proof (rule get_local)
  have "\<forall>r. pre @ char_MAX @ suf k \<noteq> p @ char_MAX @ r"
    using append_sep_inject [OF pre_free assms(3)] assms(2) by metis
  then show "coll_get (pre @ char_MAX @ suf k) m' = coll_get (pre @ char_MAX @ suf k) m"
    using assms(1) by (simp add: writes_def)
qed

text \<open>The abstraction: the table as a map, which a write updates in one place.\<close>

definition view :: "'b data_store \<Rightarrow> 'k \<rightharpoonup> 'a" where
  "view m k = (if valid k then (case get k m of Inr x \<Rightarrow> Some x | Inl _ \<Rightarrow> None) else None)"

lemma view_put:
  assumes "codec_ok codec" "valid k" "fits k x" "put k x m = (Ok (), m')"
  shows "view m' = (view m)(k \<mapsto> x)"
proof
  fix k'
  have m': "m' = snd (put k x m)" using assms(4) by simp
  show "view m' k' = ((view m)(k \<mapsto> x)) k'"
    using assms get_put [OF assms(1,3,4)] get_put_other [of k k' x m]
    by (cases "k' = k") (auto simp: view_def m')
qed

lemma view_put_fail: "put k x m = (Inl e, m') \<Longrightarrow> view m' = view m"
  by (drule put_fail) simp

lemma view_foreign:
  "writes p m m' \<Longrightarrow> p \<noteq> pre \<Longrightarrow> sep_free p \<Longrightarrow> view m' = view m"
  by (simp add: view_def fun_eq_iff get_foreign)

end

text \<open>All tables that store one borsh value under a key satisfy it.\<close>

lemma table_kv:
  assumes "sep_free p"
    and "\<And>k k'. valid k \<Longrightarrow> valid k' \<Longrightarrow> f k = f k' \<Longrightarrow> k = k'"
    and "\<And>k. get k = kv_get c (p @ char_MAX @ f k)"
    and "\<And>k x. fits k x \<Longrightarrow> put k x = kv_put c (p @ char_MAX @ f k) x"
    and "\<And>k x. \<exists>key. put k x = kv_put c key x"
  shows "table c p f valid fits get put"
proof
  fix k x m m' j e
  show "codec_ok c \<Longrightarrow> fits k x \<Longrightarrow> put k x m = (Ok (), m') \<Longrightarrow> get k m' = Ok x"
    by (cases "ser c x") (auto simp: assms kv_get_def kv_put_def codec_ok_def coll_put_def
        coll_get_def bt_get_insert)
  show "fits k x \<Longrightarrow> j \<noteq> p @ char_MAX @ f k \<Longrightarrow> coll_get j (snd (put k x m)) = coll_get j m"
    by (cases "ser c x") (simp_all add: assms kv_put_def)
  show "put k x m = (Inl e, m') \<Longrightarrow> m' = m"
    using assms(5) [of k x] by (cases "ser c x") (auto simp: kv_put_def coll_put_def)
  show "bt_inv m \<Longrightarrow> bt_inv (snd (put k x m))"
    using assms(5) [of k x] by (cases "ser c x") (auto simp: kv_put_def mem.inv_put)
qed (use assms in \<open>auto simp: kv_get_def\<close>)

section \<open>The tables\<close>

definition id_valid :: "'b env \<Rightarrow> digest_identifier \<Rightarrow> bool" where
  "id_valid E d \<longleftrightarrow> b64_ok (e_b64 E) \<and> digest_wf d"

lemma id_valid_inject: "id_valid E d \<Longrightarrow> id_valid E d' \<Longrightarrow> dstr E d = dstr E d' \<Longrightarrow> d = d'"
  by (auto simp: id_valid_def dstr_inject)

definition ev_key :: "'b env \<Rightarrow> digest_identifier \<times> u64 \<Rightarrow> string" where
  "ev_key E k = dstr E (fst k) @ char_MAX @ get_u64_as_hexadecimal (snd k)"

lemma ev_key_inject:
  assumes "id_valid E (fst k)" "id_valid E (fst k')" "ev_key E k = ev_key E k'"
  shows "k = k'"
proof -
  have sf: "sep_free (dstr E (fst k))" "sep_free (dstr E (fst k'))"
    using assms by (auto simp: id_valid_def dstr_sep_free)
  have "dstr E (fst k) = dstr E (fst k') \<and>
      get_u64_as_hexadecimal (snd k) = get_u64_as_hexadecimal (snd k')"
    by (rule append_sep_inject [OF sf]) (use assms(3) in \<open>simp add: ev_key_def\<close>)
  then show ?thesis
    using id_valid_inject [OF assms(1,2)] by (simp add: hexadecimal_inject prod_eq_iff)
qed

lemma get_event_ev: "get_event E (fst k) (snd k) = kv_get (c_event E) (''event'' @ char_MAX @ ev_key E k)"
  by (simp add: get_event_def get_key_eval ev_key_def fun_eq_iff)

lemma set_event_ev:
  "set_event E d ev = kv_put (c_event E) (''event'' @ char_MAX @ ev_key E (d, ev_sn (content ev))) ev"
  by (simp add: set_event_def get_key_eval ev_key_def fun_eq_iff)

lemma prefixes_free [simp]:
  "sep_free ''subject''" "sep_free ''event''" "sep_free ''signature''" "sep_free ''taple-request''"
  "sep_free ''validation''" "sep_free ''lce-validation-proofs''" "sep_free ''prevalidated-event''"
  "sep_free ''request''" "sep_free ''approvals''" "sep_free ''governance-index''" "sep_free ''keys''"
  "sep_free ''pending-approval-index''" "sep_free ''witness-signatures''"
  "sep_free ''subjindex-approval-index''" "sep_free ''governance-approval-index''"
  by (rule sep_free_ascii, simp)+

interpretation subjects: table "c_subject E" "''subject''" "dstr E" "id_valid E" "\<lambda>_ _. True"
  "get_subject E" "set_subject E" for E :: "'b env"
  by (rule table_kv) (auto simp: get_subject_def set_subject_def get_key_eval fun_eq_iff
      intro: id_valid_inject)

interpretation events: table "c_event E" "''event''" "ev_key E" "\<lambda>k. id_valid E (fst k)"
  "\<lambda>k ev. ev_sn (content ev) = snd k" "\<lambda>k. get_event E (fst k) (snd k)" "\<lambda>k. set_event E (fst k)"
  for E :: "'b env"
proof (rule table_kv)
  fix k k' :: "digest_identifier \<times> u64" and x
  show "\<exists>key. set_event E (fst k) x = kv_put (c_event E) key x"
    unfolding set_event_ev by blast
  show "id_valid E (fst k) \<Longrightarrow> id_valid E (fst k') \<Longrightarrow> ev_key E k = ev_key E k' \<Longrightarrow> k = k'"
    by (rule ev_key_inject)
qed (simp_all add: set_event_ev get_event_ev)

interpretation taple_requests: table "c_taple_request E" "''taple-request''" "dstr E" "id_valid E"
  "\<lambda>_ _. True" "get_taple_request E" "set_taple_request E" for E :: "'b env"
  by (rule table_kv) (auto simp: get_taple_request_def set_taple_request_def get_key_eval fun_eq_iff
      intro: id_valid_inject)

interpretation requests: table "c_event_request E" "''request''" "dstr E" "id_valid E"
  "\<lambda>_ _. True" "get_request E" "set_request E" for E :: "'b env"
  by (rule table_kv) (auto simp: get_request_def set_request_def get_key_eval fun_eq_iff
      intro: id_valid_inject)

interpretation registers: table "c_proof E" "''validation''" "dstr E" "id_valid E"
  "\<lambda>_ _. True" "get_validation_register E" "set_validation_register E" for E :: "'b env"
  by (rule table_kv) (auto simp: get_validation_register_def set_validation_register_def get_key_eval
      fun_eq_iff intro: id_valid_inject)

interpretation lce_proofs: table "c_proof E" "''lce-validation-proofs''" "dstr E" "id_valid E"
  "\<lambda>_ _. True" "get_lce_validation_proof E" "set_lce_validation_proof E" for E :: "'b env"
  by (rule table_kv) (auto simp: get_lce_validation_proof_def set_lce_validation_proof_def get_key_eval
      fun_eq_iff intro: id_valid_inject)

interpretation prevalidated: table "c_event E" "''prevalidated-event''" "dstr E" "id_valid E"
  "\<lambda>_ _. True" "get_prevalidated_event E" "set_prevalidated_event E" for E :: "'b env"
  by (rule table_kv) (auto simp: get_prevalidated_event_def set_prevalidated_event_def get_key_eval
      fun_eq_iff intro: id_valid_inject)

interpretation key_pairs: table "c_keys E" "''keys''" "kstr E"
  "\<lambda>k. b64_ok (e_b64 E) \<and> ki_public_key k \<noteq> []" "\<lambda>_ _. True" "get_keys E" "set_keys E" for E :: "'b env"
  by (rule table_kv) (auto simp: get_keys_def set_keys_def get_key_eval fun_eq_iff intro: kstr_inject)

section \<open>Iterations and ranges\<close>

text \<open>A range of events that starts after a given one is never found: the numbers are compared in
  decimal with keys in hexadecimal.\<close>

definition event_keys_ok :: "'b env \<Rightarrow> digest_identifier \<Rightarrow> 'b data_store \<Rightarrow> bool" where
  "event_keys_ok E i m \<longleftrightarrow> (\<forall>k \<in> fst ` set m.
     starts_with (''event'' @ char_MAX @ dstr E i @ char_MAX) k \<longrightarrow> (\<exists>sn. k = ''event'' @ char_MAX @ ev_key E (i, sn)))"

lemma events_from_not_found:
  assumes "event_keys_ok E i m" 
  shows "get_events_by_range E i (Some n) q m = Fail EntryNotFound"
proof -
  let ?p = "''event'' @ char_MAX @ dstr E i @ char_MAX"
  have "decimal_int n \<notin> fst ` set (coll_iter r ?p m)" for r
  proof
    assume "decimal_int n \<in> fst ` set (coll_iter r ?p m)"
    then obtain k where k: "k \<in> fst ` set m" "starts_with ?p k" "decimal_int n = remove_all ?p k"
      by (force simp: coll_iter_def dest!: iter_items_sound split: if_splits)
    then obtain sn where "k = ?p @ get_u64_as_hexadecimal sn"
      using assms by (auto simp: event_keys_ok_def ev_key_def)
    moreover have "\<not> sublist ?p (get_u64_as_hexadecimal sn)"
    proof
      assume "sublist ?p (get_u64_as_hexadecimal sn)"
      then have "set ?p \<subseteq> set (get_u64_as_hexadecimal sn)" by (rule set_mono_sublist)
      then have "char_of (0xF4 :: nat) \<in> set (get_u64_as_hexadecimal sn)"
        by (auto simp: char_MAX_def)
      then show False using sep_free_hexadecimal [of sn] by (simp add: sep_free_def)
    qed
    ultimately have "decimal_int n = get_u64_as_hexadecimal sn"
      using k(3) remove_all_prefix [of ?p] remove_all_no_occ [of ?p] by simp
    then have "CHR '' '' \<in> set (decimal_int n)" by (simp add: get_u64_as_hexadecimal_eq)
    then show False using space_notin_decimal_int by blast
  qed
  then show ?thesis
    by (simp add: get_events_by_range_def get_key_eval get_by_range_def seek_not_found)
qed

text \<open>The iteration stops at the first key of another table.\<close>

lemma get_all_subjects_hidden:
  assumes "m = (k, d) # rest" "\<not> starts_with (''subject'' @ char_MAX) k"
  shows "get_all_subjects E m = Ok []"
  using assms by (simp add: get_all_subjects_def coll_iter_def)

section \<open>The pending approvals\<close>

text \<open>The loop over the pending approvals never makes a third pass: the second one looks for
  a key of the main table in the index and fails.\<close>

definition pending_keys_ok :: "'b env \<Rightarrow> 'b data_store \<Rightarrow> bool" where
  "pending_keys_ok E m \<longleftrightarrow> (\<forall>k \<in> fst ` set m.
     starts_with (''pending-approval-index'' @ char_MAX) k \<longrightarrow>
     (\<exists>i. k = ''pending-approval-index'' @ char_MAX @ dstr E i))"

lemma bt_remove_keys: "fst ` set (bt_remove k m) \<subseteq> fst ` set m"
  by (induction k m rule: bt_remove.induct) auto

lemma coll_del_run: "coll_del k m = (Ok (), bt_remove k m)"
  by (simp add: coll_del_def)

lemma pending_pass_run:
  "pending_pass E p bs start q r m = (x, m') \<Longrightarrow>
     fst ` set m' \<subseteq> fst ` set m \<and> \<not> is_panic x \<and>
     (\<forall>start' q' r'. x = Ok (start', q', r') \<longrightarrow> bs \<noteq> [] \<longrightarrow>
        (\<exists>i. start' = Some (''approvals'' @ char_MAX @ dstr E i)))"
proof (induction bs arbitrary: start q r m)
  case (Cons b bs)
  show ?case
  proof (cases "de (c_digest E) b")
    case None
    then show ?thesis using Cons.prems by (auto simp: bindA_run)
  next
    case (Some i)
    let ?key = "''approvals'' @ char_MAX @ dstr E i"
    have last: "pending_pass E p bs (Some ?key) q' r'' n = (x, m') \<Longrightarrow> fst ` set n \<subseteq> fst ` set m \<Longrightarrow> ?thesis"
      for q' r'' n
    proof (cases "bs = []")
      case False
      assume "pending_pass E p bs (Some ?key) q' r'' n = (x, m')" and n: "fst ` set n \<subseteq> fst ` set m"
      from Cons.IH [OF this(1)] show ?thesis using False subset_trans [OF _ n] by blast
    qed auto
    have del: "pending_pass E p bs (Some ?key) q r (bt_remove ?key m) = (x, m') \<Longrightarrow> ?thesis"
      using last bt_remove_keys by blast
    show ?thesis
    proof (cases "coll_get ?key m")
      case (Inl e)
      show ?thesis
      proof (cases "e = Err EntryNotFound")
        case True
        then show ?thesis using Cons.prems Some Inl del by (simp add: get_key_eval bindA_run coll_del_run)
      next
        case False
        then have "x = Inl e" "m' = m" "\<not> is_panic x"
          using Cons.prems Some Inl
          by (auto simp: get_key_eval bindA_run coll_get_def ok_or_def split: failure.splits db_error.splits option.splits)
        then show ?thesis by simp
      qed
    next
      case (Inr d)
      then show ?thesis
        using Cons.prems Some del last [of "if p then q - 1 else q + 1"]
        by (cases "de (c_approval E) d")
          (auto simp: get_key_eval bindA_run coll_del_run ok_or_def split: if_splits)
    qed
  qed
qed (auto simp: is_panic_iff)

lemma get_by_range_no_panic: "\<not> is_panic (get_by_range start q p m)"
proof -
  have "seek k it \<noteq> Abort e" for k e and it :: "(string \<times> 'b) list"
    by (induction k it rule: seek.induct) auto
  then show ?thesis
    by (cases start) (auto simp: get_by_range_def bindR_def is_panic_iff split: sum.splits)
qed

lemma pending_second_pass:
  assumes "b64_ok (e_b64 E)" "pending_keys_ok E m"
  shows "get_by_range (Some (''approvals'' @ char_MAX @ dstr E i)) q ''pending-approval-index'' m =
    Fail EntryNotFound"
proof -
  let ?p = "''pending-approval-index'' @ char_MAX"
  have "''approvals'' @ char_MAX @ dstr E i \<notin> fst ` set (coll_iter r ?p m)" for r
  proof
    assume "''approvals'' @ char_MAX @ dstr E i \<in> fst ` set (coll_iter r ?p m)"
    then obtain k where k: "k \<in> fst ` set m" "starts_with ?p k"
        "''approvals'' @ char_MAX @ dstr E i = remove_all ?p k"
      by (force simp: coll_iter_def dest!: iter_items_sound split: if_splits)
    then obtain j where "k = ?p @ dstr E j"
      using assms(2) by (auto simp: pending_keys_ok_def)
    moreover have "\<not> sublist ?p (dstr E j)"
    proof
      assume "sublist ?p (dstr E j)"
      then have "set ?p \<subseteq> set (dstr E j)" by (rule set_mono_sublist)
      then show False using dstr_sep_free [OF assms(1), of j] by (auto simp: sep_free_def char_MAX_def)
    qed
    ultimately have "''approvals'' @ char_MAX @ dstr E i = dstr E j"
      using k(3) remove_all_prefix [of ?p] remove_all_no_occ [of ?p] by simp
    then show False
      using append_sep_neq [OF dstr_sep_free [OF assms(1)]] by metis
  qed
  then show ?thesis by (simp add: get_by_range_def seek_not_found)
qed

lemma pending_loop_ends:
  assumes "b64_ok (e_b64 E)" "pending_keys_ok E m"
  shows "pending_loop (n + 2) E p start q r m = pending_loop 2 E p start q r m"
    and "\<not> is_panic (fst (pending_loop 2 E p start q r m))"
proof -
  have "pending_loop (n + 2) E p start q r m = pending_loop 2 E p start q r m \<and>
      \<not> is_panic (fst (pending_loop 2 E p start q r m))"
  proof (cases "q = 0")
    case False
    show ?thesis
    proof (cases "get_by_range start q ''pending-approval-index'' m")
      case (Inl e)
      then show ?thesis
        using False get_by_range_no_panic [of start q "''pending-approval-index''" m]
        by (auto simp: numeral_2_eq_2 bindA_run is_panic_iff)
    next
      case (Inr bs)
      obtain x m' where pass: "pending_pass E p bs start q r m = (x, m')" by fastforce
      note run = pending_pass_run [OF pass]
      have ok: "pending_keys_ok E m'" using run assms(2) unfolding pending_keys_ok_def by blast
      show ?thesis
      proof (cases x)
        case (Inl e)
        then show ?thesis using False Inr pass run by (auto simp: numeral_2_eq_2 bindA_run is_panic_iff)
      next
        case Ok: (Inr y)
        obtain start' q' r' where y: "y = (start', q', r')" by (cases y)
        show ?thesis
        proof (cases "length bs < nat \<bar>q\<bar>")
          case True
          then show ?thesis using False Inr pass Ok y by (simp add: numeral_2_eq_2 bindA_run)
        next
          case more: False
          then have "bs \<noteq> []" using False by auto
          then obtain i where "start' = Some (''approvals'' @ char_MAX @ dstr E i)"
            using run Ok y by blast
          then have "pending_loop (Suc k) E p start' q' r' m' =
              (if q' = 0 then (Ok r', m') else (Fail EntryNotFound, m'))" for k
            using pending_second_pass [OF assms(1) ok] by (simp add: bindA_run)
          then show ?thesis using False Inr pass Ok y more by (simp add: numeral_2_eq_2 bindA_run)
        qed
      qed
    qed
  qed (simp add: numeral_2_eq_2)
  then show "pending_loop (n + 2) E p start q r m = pending_loop 2 E p start q r m"
    "\<not> is_panic (fst (pending_loop 2 E p start q r m))" by blast+
qed

section \<open>The signatures of an event\<close>

text \<open>Their table merges what it is given with what it holds, so it is no instance of the contract.\<close>

lemma get_signatures_foreign:
  "writes p m m' \<Longrightarrow> p \<noteq> ''signature'' \<Longrightarrow> sep_free p \<Longrightarrow>
     get_signatures E i sn m' = get_signatures E i sn m"
  using append_sep_inject [OF prefixes_free(3), of p]
  by (simp add: get_signatures_def get_key_eval kv_get_def writes_def) metis

end
