(* ===== verification/Ledger_Laws.thy ===== *)
theory Ledger_Laws
  imports Ledger_Sync Db_Laws
begin

text \<open>
  What the ledger guarantees: the effect of a validated event on the stored event, subject and
  position, the signatures an accepted proof or event carries, the fit of a proof with the
  subject, and the movement of the position of a subject towards its head.
\<close>

section \<open>Which tables an operation writes\<close>

text \<open>\<open>writes_in P m m'\<close>: \<open>m'\<close> differs from \<open>m\<close> only in tables whose prefix is in \<open>P\<close>.\<close>

definition writes_in :: "string set \<Rightarrow> 'b data_store \<Rightarrow> 'b data_store \<Rightarrow> bool" where
  "writes_in P m m' \<longleftrightarrow>
     (\<forall>j. (\<forall>p \<in> P. \<forall>r. j \<noteq> p @ char_MAX @ r) \<longrightarrow> coll_get j m' = coll_get j m)"

lemma writes_in_refl [simp]: "writes_in P m m"
  by (simp add: writes_in_def)

lemma writes_in_step: "writes_in P a b \<Longrightarrow> writes p b c \<Longrightarrow> p \<in> P \<Longrightarrow> writes_in P a c"
  by (auto simp: writes_in_def writes_def)

context table
begin

lemma get_unwritten:
  assumes "writes_in P m m'" "pre \<notin> P" "\<And>p. p \<in> P \<Longrightarrow> sep_free p"
  shows "get k m' = get k m"
proof (rule get_local)
  have "\<forall>p \<in> P. \<forall>r. pre @ char_MAX @ suf k \<noteq> p @ char_MAX @ r"
    using append_sep_inject [OF pre_free assms(3)] assms(2) by metis
  then show "coll_get (pre @ char_MAX @ suf k) m' = coll_get (pre @ char_MAX @ suf k) m"
    using assms(1) by (simp add: writes_in_def)
qed

end

lemma keeps_writes:
  assumes "\<And>b. writes p b (snd (m b))" "p \<in> P"
  shows "keeps (writes_in P a) m"
  using assms writes_in_step by (fastforce intro: keepsI)

text \<open>The writes of the layers the ledger uses.\<close>

lemma writes_kv_put_at: "\<exists>r. key = p @ char_MAX @ r \<Longrightarrow> writes p m (snd (kv_put c key x m))"
  by (auto simp: writes_kv_put)

lemma writes_del_at: "\<exists>r. key = p @ char_MAX @ r \<Longrightarrow> writes p m (snd (coll_del key m))"
  by (auto simp: writes_del)

lemma writes_set_signatures: "writes ''signature'' m (snd (set_signatures E d sn gs p m))"
  by (auto simp: set_signatures_def get_key_eval bindA_def intro!: writes_kv_put_at split: sum.splits)

lemma writes_del_signatures: "writes ''signature'' m (snd (del_signatures E d sn m))"
  by (auto simp: del_signatures_def get_key_eval intro!: writes_del_at)

lemma writes_set_event: "writes ''event'' m (snd (set_event E d ev m))"
  by (auto simp: set_event_ev intro!: writes_kv_put_at)

lemma writes_set_governance_index: "writes ''governance-index'' m (snd (set_governance_index E d g m))"
  by (auto simp: set_governance_index_def get_key_eval intro!: writes_kv_put_at)

lemma writes_del_keys: "writes ''keys'' m (snd (del_keys E k m))"
  by (auto simp: del_keys_def get_key_eval intro!: writes_del_at)

lemma writes_del_lce: "writes ''lce-validation-proofs'' m (snd (del_lce_validation_proof E d m))"
  by (auto simp: del_lce_validation_proof_def get_key_eval intro!: writes_del_at)

lemma writes_sets:
  "writes ''subject'' m (snd (set_subject E d s m))"
  "writes ''taple-request'' m (snd (set_taple_request E d r m))"
  "writes ''keys'' m (snd (set_keys E k kp m))"
  by (rule subjects.writes_table taple_requests.writes_table key_pairs.writes_table; rule TrueI)+

lemmas layer_writes = writes_set_signatures writes_del_signatures writes_set_event
  writes_set_governance_index writes_del_keys writes_del_lce writes_sets

lemma keeps_layers [inv_intros]:
  "''signature'' \<in> P \<Longrightarrow> keeps (writes_in P a) (set_signatures E d sn gs p)"
  "''signature'' \<in> P \<Longrightarrow> keeps (writes_in P a) (del_signatures E d sn)"
  "''event'' \<in> P \<Longrightarrow> keeps (writes_in P a) (set_event E d ev)"
  "''governance-index'' \<in> P \<Longrightarrow> keeps (writes_in P a) (set_governance_index E d g)"
  "''keys'' \<in> P \<Longrightarrow> keeps (writes_in P a) (del_keys E k)"
  "''keys'' \<in> P \<Longrightarrow> keeps (writes_in P a) (set_keys E k kp)"
  "''lce-validation-proofs'' \<in> P \<Longrightarrow> keeps (writes_in P a) (del_lce_validation_proof E d)"
  "''subject'' \<in> P \<Longrightarrow> keeps (writes_in P a) (set_subject E d s)"
  "''taple-request'' \<in> P \<Longrightarrow> keeps (writes_in P a) (set_taple_request E d r)"
  by (rule keeps_writes, rule layer_writes, assumption)+

lemma keeps_ldb [inv_intros]: "keeps P m \<Longrightarrow> keeps (on_db P) (ldb m)"
  unfolding ldb_def by (rule keeps_dbA)

lemma keeps_lread [inv_intros]:
  "keeps Q (lread q)" "keeps Q (lread_or e q)" "keeps (on_db P) (lask a)" "keeps Q (lift_subject r)"
  "keeps Q (request_hash E er)"
  unfolding lread_def lread_or_def lask_def lift_subject_def request_hash_def by (intro inv_intros)+

lemma keeps_own_state [inv_intros]:
  "keeps (on_db P) (set_is_gov i b)" "keeps (on_db P) (set_state i c h)"
  "keeps (on_db P) (genesis_state i)"
  by (simp_all add: keeps_def on_db_def set_is_gov_def set_state_def genesis_state_def)

lemma keeps_advance [inv_intros]: "keeps (on_db P) (advance_state i)"
  by (auto simp: keeps_def on_db_def advance_state_def set_state_def bindA_def unwrap_def
      split: option.splits)

lemma keeps_set_finished [inv_intros]:
  "''taple-request'' \<in> P \<Longrightarrow> keeps (on_db (writes_in P a)) (set_finished_request E i er sn d ok)"
  unfolding set_finished_request_def by (intro inv_intros)

lemma keeps_after_event [inv_intros]:
  "''signature'' \<in> P \<Longrightarrow> keeps (on_db (writes_in P a)) (after_event E tg d sn)"
  unfolding after_event_def Let_def by (intro inv_intros keeps_if) (auto split: bool.split intro!: inv_intros)

lemma writes_run:
  assumes "m s = (r, t)" "\<And>a. keeps (on_db (writes_in P a)) m"
  shows "writes_in P (nd_db s) (nd_db t)"
  using keepsD [OF assms(2), of "nd_db s" s] assms(1) by (simp add: on_db_def)

section \<open>Signatures\<close>

text \<open>The allowed signers with a valid signature in the set.\<close>

definition good_signers ::
  "'b env \<Rightarrow> payload \<Rightarrow> key_identifier set \<Rightarrow> signature list \<Rightarrow> key_identifier set" where
  "good_signers E p signers gs =
     {k \<in> signers. \<exists>g \<in> set gs. sg_signer g = k \<and> signature_verify E g p = Ok ()}"

lemma count_signers_Ok:
  "count_signers E p signers acc gs = Ok who \<Longrightarrow> who = acc \<union> good_signers E p signers gs"
  by (induction E p signers acc gs rule: count_signers.induct)
    (fastforce simp: good_signers_def split: sum.splits failure.splits if_splits)+

lemma count_signers_total:
  "(\<And>g m. g \<in> set gs \<Longrightarrow> signature_verify E g p \<noteq> Abort m) \<Longrightarrow> is_Ok (count_signers E p signers acc gs)"
  by (induction E p signers acc gs rule: count_signers.induct)
    (auto split: sum.splits failure.splits)

lemma verify_signatures_Ok:
  assumes "verify_signatures E gs signers q p = Ok ()"
  shows "unat q \<le> card (good_signers E (PProof p) signers gs)"
  using assms count_signers_Ok
  by (fastforce simp: verify_signatures_def bindR_eq_Inr not_less split: if_splits)

lemma verify_signatures_iff:
  assumes "\<And>g m. g \<in> set gs \<Longrightarrow> signature_verify E g (PProof p) \<noteq> Abort m"
  shows "verify_signatures E gs signers q p = Ok () \<longleftrightarrow>
    unat q \<le> card (good_signers E (PProof p) signers gs)"
proof -
  obtain who where who: "count_signers E (PProof p) signers {} gs = Ok who"
    using count_signers_total [of gs E "PProof p" signers "{}"] assms unfolding is_Ok_iff by blast
  then show ?thesis
    using count_signers_Ok [OF who] by (simp add: verify_signatures_def not_less)
qed

section \<open>Evaluation and approval of an event\<close>

lemma quorum_negative_sum:
  assumes "unat q \<le> card signers" "card signers < 2 ^ 32 - 1"
  shows "unat q + unat (quorum_negative signers q) = card signers + 1"
proof -
  have n: "unat (of_nat (card signers) :: u32) = card signers"
    using assms(2) by (simp add: unat_of_nat)
  then have "q \<le> of_nat (card signers)"
    using assms(1) by (simp add: word_le_nat_alt)
  then have d: "unat ((of_nat (card signers) :: u32) - q) = card signers - unat q"
    using n by (simp add: unat_sub)
  have "unat ((of_nat (card signers) :: u32) - q + 1) = card signers - unat q + 1"
    using d assms(2) by (subst unat_word_ariths) simp
  then show ?thesis
    using assms(1) by (simp add: quorum_negative_def)
qed

lemma quorum_negative_wraps:
  "quorum_negative signers (of_nat (card signers) + 1) = 0"
  by (simp add: quorum_negative_def)

text \<open>An accepted event that needs evaluation carries the signatures of its result, and those of
  its approval unless it needs none.\<close>

lemma collect_pos:
  "collect_signers E p msg {} gs = Ok who \<Longrightarrow> check_quorum bad few (es, q, qn) True who = Ok () \<Longrightarrow>
     quorum_signed E p es q gs"
  using collect_check_quorum [of E p msg gs who bad few es q qn True] by simp

lemma collect_neg:
  "collect_signers E p msg {} gs = Ok who \<Longrightarrow> check_quorum bad few (es, q, qn) False who = Ok () \<Longrightarrow>
     quorum_signed E p es qn gs"
  using collect_check_quorum [of E p msg gs who bad few es q qn False] by simp

lemma verify_eval_appr_Ok:
  assumes "verify_eval_appr E ctx (es, q, qn) (as, r, rn) ev = Ok ()"
    and "requires_eval_appr (content (ev_event_request (content ev)))"
  shows "\<exists>resp. event_evaluation_response E ctx (content ev) = Ok resp \<and>
      quorum_signed E (PEvaluationResponse resp) es (if ev_eval_success (content ev) then q else qn)
        (ev_evaluators (content ev))"
    and "\<not> (ev_approved (content ev) \<and> \<not> ev_appr_required (content ev)) \<Longrightarrow>
      \<exists>aresp. event_approval_response E (sc_governance_id ctx) (content ev) = Ok aresp \<and>
        quorum_signed E (PApprovalResponse aresp) as (if ev_approved (content ev) then r else rn)
          (ev_approvers (content ev))"
  using assms by (auto simp: verify_eval_appr_def Let_def bindR_eq_Inr split: if_splits)
    (blast intro: collect_pos collect_neg)+

lemma lask_Ok: "lask q s = (Ok x, t) \<longleftrightarrow> nd_gov_alive s \<and> q (nd_db s) = Ok x \<and> t = s"
  by (simp add: lask_def ask_gov_eq_Inr)

lemma lift_subject_Ok: "lift_subject r s = (Ok x, t) \<longleftrightarrow> r = Ok x \<and> t = s"
  by (auto simp: lift_subject_def)

lemma check_event_Ok:
  assumes "check_event E ev md ctx s = (Ok (), t)"
  shows "t = s \<and> (\<exists>es q as r.
    get_signers E md Evaluate (nd_db s) = Ok es \<and> get_quorum E md Evaluate (nd_db s) = Ok q \<and>
    get_signers E md Approve (nd_db s) = Ok as \<and> get_quorum E md Approve (nd_db s) = Ok r \<and>
    verify_eval_appr E ctx (es, q, quorum_negative es q) (as, r, quorum_negative as r) ev = Ok ())"
  using assms
  by (auto simp: check_event_def get_signers_and_quorum_def lask_Ok lift_subject_Ok bindA_eq_Inr)

section \<open>A proof that fits a subject\<close>

definition proof_fits ::
  "'b env \<Rightarrow> validation_proof \<Rightarrow> subject \<Rightarrow> digest_identifier \<Rightarrow> key_identifier \<Rightarrow> 'b data_store \<Rightarrow> bool" where
  "proof_fits E p s event_hash public_key m \<longleftrightarrow>
     proof_prev_hash E p s m = Ok (vp_prev_event_hash p) \<and>
     vp_event_hash p = event_hash \<and> vp_subject_public_key p = public_key \<and>
     vp_sn p = su_sn s + 1 \<and> vp_subject_id p = su_subject_id s \<and>
     vp_governance_id p = su_governance_id s \<and> vp_schema_id p = su_schema_id s \<and>
     vp_namespace p = su_namespace s \<and> vp_name p = su_name s \<and>
     vp_genesis_governance_version p = su_genesis_gov_version s"

lemma check_validation_proof_iff:
  "check_validation_proof E p s h pk m = Ok () \<longleftrightarrow> proof_fits E p s h pk m"
  by (cases "proof_prev_hash E p s m") (auto simp: check_validation_proof_def proof_fits_def)

section \<open>The effect of a validated event\<close>

lemma ldb_Ok: "ldb m s = (Ok x, t) \<longleftrightarrow> (\<exists>d. m (nd_db s) = (Ok x, d) \<and> t = s\<lparr>nd_db := d\<rparr>)"
  by (simp add: ldb_def dbA_eq_Inr)

lemma lread_Ok:
  "lread q s = (Ok x, t) \<longleftrightarrow> q (nd_db s) = Ok x \<and> t = s"
  "lread_or e q s = (Ok x, t) \<longleftrightarrow> q (nd_db s) = Ok x \<and> t = s"
  by (simp_all add: lread_def lread_or_def db_read_eq_Inr)

lemma notify_Ok: "notify n s = (Ok x, t) \<Longrightarrow> nd_db t = nd_db s"
  by (auto simp: notify_run)

lemma liftA_Ok: "liftA r s = (Ok x, t) \<longleftrightarrow> r = Ok x \<and> t = s"
  by auto

lemma writes_in_sub: "writes_in P a b \<Longrightarrow> P \<subseteq> Q \<Longrightarrow> writes_in Q a b"
  by (auto simp: writes_in_def)

lemma writes_in_trans: "writes_in P a b \<Longrightarrow> writes_in P b c \<Longrightarrow> writes_in P a c"
  by (simp add: writes_in_def)

text \<open>\<open>event_stored\<close>: the event and the subject it leads to are in the database.\<close>

definition event_stored ::
  "'b env \<Rightarrow> digest_identifier \<Rightarrow> event signed \<Rightarrow> subject \<Rightarrow> 'b data_store \<Rightarrow> bool" where
  "event_stored E i ev subject m \<longleftrightarrow>
     get_event E i (ev_sn (content ev)) m = Ok ev \<and> get_subject E i m = Ok subject"

lemma event_stored_after:
  assumes "event_stored E i ev s m" "writes_in P m m'" "P \<subseteq> {''signature'', ''taple-request'', ''keys''}"
  shows "event_stored E i ev s m'"
proof -
  have p: "\<And>p. p \<in> P \<Longrightarrow> sep_free p" "''event'' \<notin> P" "''subject'' \<notin> P"
    using assms(3) by auto
  show ?thesis
    using assms(1) events.get_unwritten [OF assms(2) p(2,1), of E "(i, ev_sn (content ev))"]
      subjects.get_unwritten [OF assms(2) p(3,1), of E i]
    by (simp add: event_stored_def)
qed

text \<open>The common end of the three branches: store the event, finish the request, store the subject.\<close>

lemma store_event_subject:
  fixes s t :: "'b ledger"
  assumes ok: "codec_ok (c_event E)" "codec_ok (c_subject E)"
    and 1: "ldb (set_event E i ev) s = (Ok (), s1)"
    and 2: "set_finished_request E rid er sn i b s1 = (Ok (), s2)"
    and 3: "notify n s2 = (Ok (), s3)"
    and 4: "ldb (set_subject E i subject) s3 = (Ok (), s4)"
    and 5: "after_event E tg i sn s4 = (Ok (), t)"
  shows "event_stored E i ev subject (nd_db t)"
proof -
  have ev1: "get_event E i (ev_sn (content ev)) (nd_db s1) = Ok ev"
    using 1 events.get_put [OF ok(1), where k = "(i, ev_sn (content ev))" and x = ev]
    by (auto simp: ldb_Ok)
  have w12: "writes_in {''taple-request''} (nd_db s1) (nd_db s2)"
    by (rule writes_run [where m = "set_finished_request E rid er sn i b", OF 2])
      (simp add: keeps_set_finished)
  have db23: "nd_db s3 = nd_db s2" by (rule notify_Ok [OF 3])
  have w34: "writes_in {''subject''} (nd_db s3) (nd_db s4)"
    by (rule writes_run [where m = "ldb (set_subject E i subject)", OF 4]) (intro inv_intros, simp)
  have w45: "writes_in {''signature''} (nd_db s4) (nd_db t)"
    by (rule writes_run [where m = "after_event E tg i sn", OF 5]) (simp add: keeps_after_event)
  have sub4: "get_subject E i (nd_db s4) = Ok subject"
    using 4 subjects.get_put [OF ok(2), where k = i and x = subject] by (auto simp: ldb_Ok)
  have "get_event E i (ev_sn (content ev)) (nd_db s4) = Ok ev"
    using ev1 events.get_unwritten [OF w12, of E "(i, ev_sn (content ev))"]
      events.get_unwritten [OF w34, of E "(i, ev_sn (content ev))"] db23 by simp
  then have "event_stored E i ev subject (nd_db s4)"
    using sub4 by (simp add: event_stored_def)
  then show ?thesis
    by (rule event_stored_after [OF _ w45]) simp
qed

text \<open>What the branches make of the subject.\<close>

definition fact_result :: "'b env \<Rightarrow> event \<Rightarrow> subject \<Rightarrow> subject \<Rightarrow> bool" where
  "fact_result E c s s' \<longleftrightarrow>
     (if ev_approved c
      then e_patch E (su_properties s) (ev_patch c) = Some (su_properties s')
      else su_properties s' = su_properties s) \<and>
     s' = s\<lparr>su_sn := ev_sn c, su_properties := su_properties s'\<rparr>"

lemma update_subject_shape:
  "update_subject E p n s = Ok s' \<longleftrightarrow>
     e_is_patch E p \<and> e_patch E (su_properties s) p = Some (su_properties s') \<and>
     s' = s\<lparr>su_sn := n, su_properties := su_properties s'\<rparr>"
  by (cases s; cases s') (auto simp: update_subject_def split: option.splits)

lemma validated_fact_Ok:
  fixes s t :: "'b ledger"
  assumes ok: "codec_ok (c_event E)" "codec_ok (c_subject E)"
    and run: "validated_fact E rid ev gs p i s = (Ok (), t)"
  obtains subject subject' where "get_subject E i (nd_db s) = Ok subject"
    "su_sn subject = ev_sn (content ev) - 1" "fact_result E (content ev) subject subject'"
    "event_stored E i ev subject' (nd_db t)"
proof -
  let ?c = "content ev"
  from run show thesis
    unfolding validated_fact_def Let_def
  proof (elim bindA_OkE, goal_cases)
    case (1 subject s0 u1 s1 u2 s2 subject' s3 u3 s4 u4 s5 u5 s6 u6 s7 u7 s8)
    have upd: "fact_result E ?c subject subject'"
      using 1(4) by (auto simp: fact_result_def lift_subject_Ok update_subject_shape split: if_splits)
    have "event_stored E i ev subject' (nd_db t)"
      using 1(6-10) store_event_subject [OF ok] by simp
    then show ?thesis
      using that [OF _ _ upd] 1(1,3) by (simp add: lread_Ok)
  qed
qed

lemma validated_transfer_Ok:
  fixes s t :: "'b ledger"
  assumes ok: "codec_ok (c_event E)" "codec_ok (c_subject E)"
    and run: "validated_transfer E C rid ev gs p tr s = (Ok (), t)"
  obtains subject keys where "get_subject E (tr_subject_id tr) (nd_db s) = Ok subject"
    "event_stored E (tr_subject_id tr) ev
       (transfer_subject (sg_signer (signature (ev_event_request (content ev)))) (tr_public_key tr) keys
         (ev_sn (content ev)) subject) (nd_db t)"
    "keys = None \<longleftrightarrow> sg_signer (signature (ev_event_request (content ev))) \<noteq> lc_our_id C"
    "\<And>k. keys = Some k \<Longrightarrow> get_keys E (tr_public_key tr) (nd_db s) = Ok k"
proof -
  let ?i = "tr_subject_id tr" and ?owner = "sg_signer (signature (ev_event_request (content ev)))"
  from run show thesis
    unfolding validated_transfer_def Let_def
  proof (elim bindA_OkE, goal_cases)
    case (1 subject s0 keys s1 u2 s2 u3 s3 u4 s4 u5 s5 u6 s6)
    have "s0 = s" using 1(1) by (simp add: lread_Ok)
    then have keys: "keys = None \<longleftrightarrow> ?owner \<noteq> lc_our_id C"
      "keys = Some k \<Longrightarrow> get_keys E (tr_public_key tr) (nd_db s) = Ok k" for k
      using 1(2) by (auto simp: lread_Ok bindA_eq_Inr split: if_splits)
    have "event_stored E ?i ev (subject\<lparr>su_public_key := tr_public_key tr, su_owner := ?owner,
        su_keys := keys, su_sn := ev_sn (content ev)\<rparr>) (nd_db t)"
      using 1(4-8) store_event_subject [OF ok] by simp
    also have "subject\<lparr>su_public_key := tr_public_key tr, su_owner := ?owner, su_keys := keys,
        su_sn := ev_sn (content ev)\<rparr> =
        transfer_subject ?owner (tr_public_key tr) keys (ev_sn (content ev)) subject"
      by (cases subject) (simp add: transfer_subject_def)
    finally show ?thesis
      using that [OF _ _ keys] 1(1) by (simp add: lread_Ok)
  qed
qed

lemma validated_eol_Ok:
  fixes s t :: "'b ledger"
  assumes ok: "codec_ok (c_event E)" "codec_ok (c_subject E)"
    and run: "validated_eol E rid ev gs p i s = (Ok (), t)"
  obtains subject where "get_subject E i (nd_db s) = Ok subject"
    "event_stored E i ev (subject\<lparr>su_sn := ev_sn (content ev), su_active := False\<rparr>) (nd_db t)"
proof -
  from run show thesis
    unfolding validated_eol_def Let_def
  proof (elim bindA_OkE, goal_cases)
    case (1 subject s0 u2 s2 u3 s3 u4 s4 u5 s5 u6 s6)
    have "event_stored E i ev (eol_event (subject\<lparr>su_sn := ev_sn (content ev)\<rparr>)) (nd_db t)"
      using 1(3-7) store_event_subject [OF ok] by simp
    then show ?thesis
      using that 1(1) by (simp add: lread_Ok eol_event_def)
  qed
qed

section \<open>The position of the subjects\<close>

definition positions :: "(digest_identifier \<rightharpoonup> ledger_state) \<Rightarrow> 'b ledger \<Rightarrow> bool" where
  "positions L s \<longleftrightarrow> lg_ledger_state s = L"

lemma keeps_positions [inv_intros]:
  "keeps (positions L) (ldb m)" "keeps (positions L) (notify n)" "keeps (positions L) (lask q)"
  "keeps (positions L) (gov_updated f i v)" "keeps (positions L) (tell_message g c)"
  "keeps (positions L) (tell_distribution h d)" "keeps (positions L) (set_is_gov i b)"
  by (auto simp: keeps_def positions_def ldb_def dbA_def zoomA_def notify_def lask_def ask_gov_def
      gov_updated_def tell_message_def tell_distribution_def set_is_gov_def
      split: prod.splits sum.splits failure.splits gov_error.splits)

lemma keeps_positions_ops [inv_intros]:
  "keeps (positions L) (set_finished_request E rid er sn i b)"
  "keeps (positions L) (after_event E tg i sn)"
  "keeps (positions L) (validated_fact E rid ev gs p i)"
  "keeps (positions L) (validated_transfer E C rid ev gs p tr)"
  "keeps (positions L) (validated_request E C rid ev gs p)"
proof -
  show fin: "keeps (positions L) (set_finished_request E rid er sn i b)" for er sn i b
    unfolding set_finished_request_def by (intro inv_intros)
  show aft: "keeps (positions L) (after_event E tg i sn)" for tg i sn
    unfolding after_event_def Let_def by (intro inv_intros) (auto split: bool.split intro!: inv_intros)
  show fact: "keeps (positions L) (validated_fact E rid ev gs p i)" for i
    unfolding validated_fact_def Let_def by (intro inv_intros fin aft)
  show transfer: "keeps (positions L) (validated_transfer E C rid ev gs p tr)" for tr
    unfolding validated_transfer_def Let_def by (intro inv_intros fin aft)
  have eol: "keeps (positions L) (validated_eol E rid ev gs p i)" for i
    unfolding validated_eol_def Let_def by (intro inv_intros fin aft)
  show "keeps (positions L) (validated_request E C rid ev gs p)"
    unfolding validated_request_def
    by (auto split: event_request.split intro!: inv_intros fact transfer eol)
qed

text \<open>The position after one more event.\<close>

definition next_position :: "ledger_state option \<Rightarrow> ledger_state option" where
  "next_position x =
     (case x of
        None \<Rightarrow> Some \<lparr>ls_current_sn = Some 0, ls_head = None\<rparr>
      | Some l \<Rightarrow> map_option (\<lambda>c. l\<lparr>ls_current_sn := Some (c + 1)\<rparr>) (ls_current_sn l))"

lemma advance_state_Ok:
  assumes "advance_state i s = (Ok (), t)"
  shows "next_position (lg_ledger_state s i) \<noteq> None"
    "lg_ledger_state t = (lg_ledger_state s)(i := next_position (lg_ledger_state s i))"
    "nd_db t = nd_db s"
  using assms by (auto simp: advance_state_def next_position_def set_state_def bindA_eq_Inr
      split: option.splits)

definition request_subject :: "event_request \<Rightarrow> digest_identifier option" where
  "request_subject er =
     (case er of
        Create _ \<Rightarrow> None
      | Fact f \<Rightarrow> Some (fa_subject_id f)
      | Transfer tr \<Rightarrow> Some (tr_subject_id tr)
      | EOL e \<Rightarrow> Some (eo_subject_id e))"

text \<open>A validated event moves the position of its subject by one, and its distribution starts.\<close>

lemma event_validated_position:
  fixes s t :: "'b ledger"
  assumes run: "event_validated E C ev gs p s = (Ok (), t)"
    and i: "request_subject (content (ev_event_request (content ev))) = Some i"
  shows "lg_ledger_state t = (lg_ledger_state s)(i := next_position (lg_ledger_state s i))"
    "next_position (lg_ledger_state s i) \<noteq> None"
    "\<exists>l. nd_distribution t = l @ [SignaturesNeeded i (ev_sn (content ev))]"
proof -
  let ?er = "ev_event_request (content ev)"
  from run obtain rid j and s0 s1 s2 s3 :: "'b ledger" where
    0: "request_hash E ?er s = (Ok rid, s0)" and
    1: "validated_request E C rid ev gs p s0 = (Ok j, s1)" and
    2: "set_finished_request E rid ?er (ev_sn (content ev)) j
      (ev_eval_success (content ev) \<and> ev_approved (content ev)) s1 = (Ok (), s2)" and
    3: "advance_state j s2 = (Ok (), s3)" and
    4: "tell_distribution LChannelError (SignaturesNeeded j (ev_sn (content ev))) s3 = (Ok (), t)"
    unfolding event_validated_def Let_def by (auto elim!: bindA_OkE)
  have s0: "s0 = s" using 0 by (simp add: request_hash_def)
  have ij: "j = i"
    using 1 i by (auto simp: validated_request_def request_subject_def bindA_eq_Inr
      split: event_request.splits)
  have "keeps (positions (lg_ledger_state s)) (validated_request E C rid ev gs p)"
    by (rule keeps_positions_ops)
  from keepsD [OF this, of s] have p1: "lg_ledger_state s1 = lg_ledger_state s"
    using 1 s0 by (simp add: positions_def)
  have "keeps (positions (lg_ledger_state s)) (set_finished_request E rid ?er (ev_sn (content ev)) j
      (ev_eval_success (content ev) \<and> ev_approved (content ev)))"
    by (rule keeps_positions_ops)
  from keepsD [OF this, of s1] have p2: "lg_ledger_state s2 = lg_ledger_state s"
    using 2 p1 by (simp add: positions_def)
  show "lg_ledger_state t = (lg_ledger_state s)(i := next_position (lg_ledger_state s i))"
    "next_position (lg_ledger_state s i) \<noteq> None"
    "\<exists>l. nd_distribution t = l @ [SignaturesNeeded i (ev_sn (content ev))]"
    using advance_state_Ok [OF 3] 4 p2 ij by (auto simp: tell_distribution_eq_Inr)
qed

section \<open>Proofs and quorums that fit together\<close>

lemma new_proof_fits:
  assumes "get_event E (su_subject_id s) (su_sn s) m = Ok prev"
    and "from_serializable_borsh E (PEvent (content prev)) d = Ok h"
  shows "proof_fits E (new_proof s (su_sn s + 1) h eh v) s eh (su_public_key s) m"
    and "proof_fits E (new_from_transfer_event s (su_sn s + 1) h eh v pk) s eh pk m"
  using assms from_serializable_borsh_derivator [OF assms(2)]
  by (simp_all add: proof_fits_def new_proof_def new_from_transfer_event_def proof_prev_hash_def
      content_hash_as_def)

lemma quorums_intersect:
  assumes "finite signers" "unat q \<le> card signers" "card signers < 2 ^ 32 - 1"
    and "quorum_signed E p signers q gs" "quorum_signed E p' signers (quorum_negative signers q) gs'"
  shows "\<exists>k. k \<in> sg_signer ` set gs \<inter> sg_signer ` set gs'"
proof (rule ccontr)
  let ?A = "sg_signer ` set gs" and ?B = "sg_signer ` set gs'"
  assume "\<not> ?thesis"
  then have "card (?A \<union> ?B) = card ?A + card ?B"
    by (intro card_Un_disjoint) auto
  moreover have "card ?A = length gs" "card ?B = length gs'"
    using assms(4,5) distinct_card [of "map sg_signer gs"] distinct_card [of "map sg_signer gs'"]
    by (simp_all add: quorum_signed_def)
  moreover have "card (?A \<union> ?B) \<le> card signers"
    using assms(1,4,5) by (intro card_mono) (auto simp: quorum_signed_def)
  ultimately show False
    using assms(4,5) quorum_negative_sum [OF assms(2,3)] by (simp add: quorum_signed_def)
qed

end
