(* ===== verification/Ledger_Sync_Laws.thy ===== *)
theory Ledger_Sync_Laws
  imports Ledger_Laws
begin

text \<open>
  The subjects and requests after a validated event, and the movement of a subject that is
  behind its head: each accepted event moves it by one, until it reaches the head.
\<close>

section \<open>A validated event is stored, and its request finished\<close>

lemma event_validated_stages:
  fixes s t :: "'b ledger"
  assumes "event_validated E C ev gs p s = (Ok (), t)"
  obtains rid i and s1 s2 :: "'b ledger" where
    "generate_with_blake3 E (PSignedEventRequest (ev_event_request (content ev))) = Ok rid"
    "validated_request E C rid ev gs p s = (Ok i, s1)"
    "set_finished_request E rid (ev_event_request (content ev)) (ev_sn (content ev)) i
       (ev_eval_success (content ev) \<and> ev_approved (content ev)) s1 = (Ok (), s2)"
    "nd_db t = nd_db s2"
proof -
  from assms obtain rid i and s0 s1 s2 s3 :: "'b ledger" where
    0: "request_hash E (ev_event_request (content ev)) s = (Ok rid, s0)" and
    1: "validated_request E C rid ev gs p s0 = (Ok i, s1)" and
    2: "set_finished_request E rid (ev_event_request (content ev)) (ev_sn (content ev)) i
      (ev_eval_success (content ev) \<and> ev_approved (content ev)) s1 = (Ok (), s2)" and
    3: "advance_state i s2 = (Ok (), s3)" and
    4: "tell_distribution LChannelError (SignaturesNeeded i (ev_sn (content ev))) s3 = (Ok (), t)"
    unfolding event_validated_def Let_def by (auto elim!: bindA_OkE)
  have "s0 = s" "generate_with_blake3 E (PSignedEventRequest (ev_event_request (content ev))) = Ok rid"
    using 0 by (auto simp: request_hash_def)
  moreover have "nd_db t = nd_db s2"
    using advance_state_Ok(3) [OF 3] 4 by (auto simp: tell_distribution_eq_Inr)
  ultimately show thesis using that 1 2 by blast
qed

lemma set_finished_Ok:
  fixes s t :: "'b ledger"
  assumes "codec_ok (c_taple_request E)"
    and "set_finished_request E rid er sn i b s = (Ok (), t)"
  shows "\<exists>r. get_taple_request E rid (nd_db t) = Ok r \<and> tq_state r = Finished \<and> tq_success r = Some b \<and>
    tq_sn r = Some sn \<and> tq_subject_id r = Some i \<and> tq_event_request r = er"
  using assms taple_requests.get_put [OF assms(1)]
  by (fastforce simp: set_finished_request_def bindA_eq_Inr lift_subject_Ok ldb_Ok taple_request_from_def
      bindR_eq_Inr)

lemma finished_keeps_stored:
  fixes s t :: "'b ledger"
  assumes "event_stored E i ev subject (nd_db s)"
    and "set_finished_request E rid er sn j b s = (Ok (), t)"
  shows "event_stored E i ev subject (nd_db t)"
proof -
  have "writes_in {''taple-request''} (nd_db s) (nd_db t)"
    by (rule writes_run [where m = "set_finished_request E rid er sn j b", OF assms(2)])
      (simp add: keeps_set_finished)
  with assms(1) show ?thesis by (rule event_stored_after) simp
qed

lemma event_validated_finished:
  fixes s t :: "'b ledger"
  assumes "codec_ok (c_taple_request E)" "event_validated E C ev gs p s = (Ok (), t)"
  shows "\<exists>rid r. generate_with_blake3 E (PSignedEventRequest (ev_event_request (content ev))) = Ok rid \<and>
    get_taple_request E rid (nd_db t) = Ok r \<and> tq_state r = Finished \<and>
    tq_success r = Some (ev_eval_success (content ev) \<and> ev_approved (content ev)) \<and>
    tq_sn r = Some (ev_sn (content ev)) \<and> tq_event_request r = ev_event_request (content ev)"
  using assms(2)
proof (rule event_validated_stages, goal_cases)
  case (1 rid i s1 s2)
  then show ?case using set_finished_Ok [OF assms(1) 1(3)] by metis
qed

lemma event_validated_fact:
  fixes s t :: "'b ledger"
  assumes ok: "codec_ok (c_event E)" "codec_ok (c_subject E)"
    and run: "event_validated E C ev gs p s = (Ok (), t)"
    and f: "content (ev_event_request (content ev)) = Fact f"
  shows "\<exists>subject subject'. get_subject E (fa_subject_id f) (nd_db s) = Ok subject \<and>
    su_sn subject = ev_sn (content ev) - 1 \<and> fact_result E (content ev) subject subject' \<and>
    event_stored E (fa_subject_id f) ev subject' (nd_db t)"
  using run
proof (rule event_validated_stages, goal_cases)
  case (1 rid i s1 s2)
  then have "validated_fact E rid ev gs p (fa_subject_id f) s = (Ok (), s1)"
    using f by (auto simp: validated_request_def bindA_eq_Inr)
  then show ?case
  proof (rule validated_fact_Ok [OF ok], goal_cases)
    case (1 subject subject')
    then show ?case
      using finished_keeps_stored [OF 1(4) \<open>set_finished_request _ _ _ _ _ _ s1 = _\<close>] \<open>nd_db t = nd_db s2\<close>
      by auto
  qed
qed

lemma event_validated_transfer:
  fixes s t :: "'b ledger"
  assumes ok: "codec_ok (c_event E)" "codec_ok (c_subject E)"
    and run: "event_validated E C ev gs p s = (Ok (), t)"
    and tr: "content (ev_event_request (content ev)) = Transfer tr"
  shows "\<exists>subject keys. get_subject E (tr_subject_id tr) (nd_db s) = Ok subject \<and>
    event_stored E (tr_subject_id tr) ev
      (transfer_subject (sg_signer (signature (ev_event_request (content ev)))) (tr_public_key tr) keys
        (ev_sn (content ev)) subject) (nd_db t) \<and>
    (keys = None \<longleftrightarrow> sg_signer (signature (ev_event_request (content ev))) \<noteq> lc_our_id C)"
  using run
proof (rule event_validated_stages, goal_cases)
  case (1 rid i s1 s2)
  then have "validated_transfer E C rid ev gs p tr s = (Ok (), s1)"
    using tr by (auto simp: validated_request_def bindA_eq_Inr)
  then show ?case
  proof (rule validated_transfer_Ok [OF ok], goal_cases)
    case (1 subject keys)
    then show ?case
      using finished_keeps_stored [OF 1(2) \<open>set_finished_request _ _ _ _ _ _ s1 = _\<close>] \<open>nd_db t = nd_db s2\<close>
      by auto
  qed
qed

lemma event_validated_eol:
  fixes s t :: "'b ledger"
  assumes ok: "codec_ok (c_event E)" "codec_ok (c_subject E)"
    and run: "event_validated E C ev gs p s = (Ok (), t)"
    and e: "content (ev_event_request (content ev)) = EOL e"
  shows "\<exists>subject. get_subject E (eo_subject_id e) (nd_db s) = Ok subject \<and>
    event_stored E (eo_subject_id e) ev
      (subject\<lparr>su_sn := ev_sn (content ev), su_active := False\<rparr>) (nd_db t)"
  using run
proof (rule event_validated_stages, goal_cases)
  case (1 rid i s1 s2)
  then have "validated_eol E rid ev gs p (eo_subject_id e) s = (Ok (), s1)"
    using e by (auto simp: validated_request_def bindA_eq_Inr)
  then show ?case
  proof (rule validated_eol_Ok [OF ok], goal_cases)
    case (1 subject)
    then show ?case
      using finished_keeps_stored [OF 1(2) \<open>set_finished_request _ _ _ _ _ _ s1 = _\<close>] \<open>nd_db t = nd_db s2\<close>
      by auto
  qed
qed

section \<open>Catching up with the head\<close>

text \<open>The position after the event that follows it, with the head at \<open>h\<close>.\<close>

definition sync_position :: "u64 option \<Rightarrow> u64 \<Rightarrow> ledger_state" where
  "sync_position c h =
     (case c of
        None \<Rightarrow>
          if h = 1 then \<lparr>ls_current_sn = Some h, ls_head = None\<rparr>
          else \<lparr>ls_current_sn = Some 0, ls_head = Some h\<rparr>
      | Some n \<Rightarrow>
          if h = n + 2 then \<lparr>ls_current_sn = Some h, ls_head = None\<rparr>
          else \<lparr>ls_current_sn = Some (n + 1), ls_head = Some h\<rparr>)"

text \<open>The sequence number that is missing next.\<close>

definition next_sn :: "u64 option \<Rightarrow> u64" where
  "next_sn c = (case c of None \<Rightarrow> 0 | Some n \<Rightarrow> n + 1)"

lemma keeps_positions_reads [inv_intros]:
  "keeps (positions L) (check_prev_hash E i sn h)"
  "keeps (positions L) (check_event E ev md ctx)"
  "keeps (positions L) (check_new_request E rid)"
  unfolding check_prev_hash_def check_event_def get_signers_and_quorum_def check_new_request_def
  by (intro inv_intros, auto intro!: inv_intros split: sum.split failure.split db_error.split)+

lemma keeps_positions_sourcing [inv_intros]:
  "keeps (positions L) (event_sourcing E C ev)"
proof -
  have "keeps (positions L) (event_sourcing_eol E ev)"
    unfolding event_sourcing_eol_def by (auto split: event_request.split intro!: inv_intros)
  moreover have "keeps (positions L) (event_sourcing_transfer E C i sn owner pk)" for i sn owner pk
    unfolding event_sourcing_transfer_def Let_def by (intro inv_intros)
  moreover have "keeps (positions L) (event_sourcing_rejected_event E ev)"
    unfolding event_sourcing_rejected_event_def Let_def by (intro inv_intros)
  moreover have "keeps (positions L) (event_sourcing_state E i sn ev)" for i sn
    unfolding event_sourcing_state_def Let_def by (intro inv_intros)
  ultimately show ?thesis
    unfolding event_sourcing_def Let_def by (auto split: event_request.split)
qed

lemma keeps_positions_obsolete [inv_intros]:
  "keeps (positions L) (obsolete_approval E h i sn)"
  unfolding obsolete_approval_def
  by (intro inv_intros) (auto intro!: inv_intros split: failure.split db_error.split)

lemma keeps_positions_genesis [inv_intros]: "keeps (positions L) (check_genesis E ev i d)"
  unfolding check_genesis_def Let_def by (auto split: event_request.split intro!: inv_intros)

lemma keeps_positions_ask [inv_intros]: "keeps (positions L) (ask_next E C md i k sn)"
  unfolding ask_next_def get_witnesses_def by (intro inv_intros)

text \<open>Carrying the positions through a successful step.\<close>

lemma positions_run:
  assumes "\<And>L. keeps (positions L) m" "m s = (r, t)"
  shows "lg_ledger_state t = lg_ledger_state s"
  using keepsD [OF assms(1), of "lg_ledger_state s" s] assms(2) by (simp add: positions_def)

lemma apply_head_position:
  fixes s t :: "'b ledger"
  assumes "apply_head E C i h subject s = (Ok (), t)"
  shows "lg_ledger_state t = (lg_ledger_state s)(i \<mapsto> \<lparr>ls_current_sn = Some h, ls_head = None\<rparr>)"
    "\<exists>ev p. get_event E i h (nd_db s) = Ok ev \<and> get_lce_validation_proof E i (nd_db s) = Ok p \<and>
      (\<exists>eh pk. content_hash_as E (LCryptoError ''Error generating event hash'')
         (di_derivator (vp_event_hash p)) (content ev) = Ok eh \<and> proof_fits E p subject eh pk (nd_db s))"
    "\<exists>l. nd_distribution t = l @ [SignaturesNeeded i h]"
proof -
  from assms have "lg_ledger_state t = (lg_ledger_state s)(i \<mapsto> \<lparr>ls_current_sn = Some h, ls_head = None\<rparr>) \<and>
    (\<exists>ev p. get_event E i h (nd_db s) = Ok ev \<and> get_lce_validation_proof E i (nd_db s) = Ok p \<and>
      (\<exists>eh pk. content_hash_as E (LCryptoError ''Error generating event hash'')
         (di_derivator (vp_event_hash p)) (content ev) = Ok eh \<and> proof_fits E p subject eh pk (nd_db s))) \<and>
    (\<exists>l. nd_distribution t = l @ [SignaturesNeeded i h])"
    unfolding apply_head_def Let_def
  proof (elim bindA_OkE, goal_cases)
    case (1 ev s0 p s1 eh s2 u3 s3 sub s4 u5 s5 u6 s6)
    have "s3 = s" "s2 = s" "s1 = s" "s0 = s" using 1(1-4) by (auto simp: lread_Ok)
    moreover have "lg_ledger_state s4 = lg_ledger_state s3"
      by (rule positions_run [OF keeps_positions_sourcing 1(5)])
    ultimately show ?case
      using 1 by (auto simp: lread_Ok ldb_Ok set_state_def tell_distribution_eq_Inr
          check_validation_proof_iff)
  qed
  then show "lg_ledger_state t = (lg_ledger_state s)(i \<mapsto> \<lparr>ls_current_sn = Some h, ls_head = None\<rparr>)"
    "\<exists>ev p. get_event E i h (nd_db s) = Ok ev \<and> get_lce_validation_proof E i (nd_db s) = Ok p \<and>
      (\<exists>eh pk. content_hash_as E (LCryptoError ''Error generating event hash'')
         (di_derivator (vp_event_hash p)) (content ev) = Ok eh \<and> proof_fits E p subject eh pk (nd_db s))"
    "\<exists>l. nd_distribution t = l @ [SignaturesNeeded i h]"
    by blast+
qed

lemma intermediate_next_position:
  fixes s t :: "'b ledger"
  assumes "intermediate_next E C ev rid i c h s = (Ok (), t)"
  shows "ev_sn (content ev) = c + 1" "lg_ledger_state t = (lg_ledger_state s)(i \<mapsto> sync_position (Some c) h)"
proof -
  from assms have "ev_sn (content ev) = c + 1 \<and>
      lg_ledger_state t = (lg_ledger_state s)(i \<mapsto> sync_position (Some c) h)"
    unfolding intermediate_next_def Let_def
  proof (elim bindA_OkE, goal_cases)
    case (1 sub0 s0 u1 s1 u2 s2 u3 s3 u4 s4 u5 s5 ah s6 u7 s7 sub s8)
    let ?check = "case content (ev_event_request (content ev)) of
        Create _ \<Rightarrow> failA UnexpectedCreateEvent
      | Fact _ \<Rightarrow> check_event E ev \<lparr>md_namespace = su_namespace sub0, md_subject_id = su_subject_id sub0,
          md_governance_id = su_governance_id sub0, md_governance_version = ev_gov_version (content ev),
          md_schema_id = su_schema_id sub0\<rparr>
          (get_subject_context sub0 (sg_signer (signature (ev_event_request (content ev)))))
      | Transfer _ \<Rightarrow> liftA (check_transfer_event ev)
      | EOL _ \<Rightarrow> liftA (Abort ''unreachable'')"
    have "s1 = s" "ev_sn (content ev) = c + 1" using 1(1,2) by (auto simp: lread_Ok)
    moreover have "lg_ledger_state s2 = lg_ledger_state s1"
      by (rule positions_run [where m = ?check, OF _ 1(3)])
        (auto split: event_request.split intro!: inv_intros)
    moreover have "lg_ledger_state s4 = lg_ledger_state s3"
      by (rule positions_run [OF keeps_positions_ops(1) 1(5)])
    moreover have "lg_ledger_state s3 = lg_ledger_state s2" "lg_ledger_state s5 = lg_ledger_state s4"
      "lg_ledger_state s6 = lg_ledger_state s5"
      using 1(4,6,7) by (auto simp: ldb_Ok notify_run)
    moreover have "lg_ledger_state s7 = lg_ledger_state s6"
      by (rule positions_run [OF keeps_positions_obsolete 1(8)])
    moreover have "lg_ledger_state s8 = lg_ledger_state s7"
      by (rule positions_run [OF keeps_positions_sourcing 1(9)])
    ultimately have same: "lg_ledger_state s8 = lg_ledger_state s" by simp
    show ?case
    proof (cases "h = c + 2")
      case True
      then show ?thesis
        using 1(10) apply_head_position(1) [of E C i h sub s8 t] same \<open>ev_sn (content ev) = c + 1\<close>
        by (auto simp: sync_position_def)
    next
      case False
      then obtain s9 :: "'b ledger" where 9: "set_state i (Some (c + 1)) (Some h) s8 = (Ok (), s9)"
        and rest: "ask_next E C \<lparr>md_namespace = su_namespace sub0, md_subject_id = su_subject_id sub0,
          md_governance_id = su_governance_id sub0, md_governance_version = ev_gov_version (content ev),
          md_schema_id = su_schema_id sub0\<rparr> i (su_owner sub) (c + 2) s9 = (Ok (), t)"
        using 1(10) by (auto simp: bindA_eq_Inr lread_Ok)
      have "lg_ledger_state t = lg_ledger_state s9"
        by (rule positions_run [OF keeps_positions_ask rest])
      then show ?thesis
        using 9 same False \<open>ev_sn (content ev) = c + 1\<close> by (auto simp: set_state_def sync_position_def)
    qed
  qed
  then show "ev_sn (content ev) = c + 1"
    "lg_ledger_state t = (lg_ledger_state s)(i \<mapsto> sync_position (Some c) h)" by blast+
qed

lemma intermediate_genesis_position:
  fixes s t :: "'b ledger"
  assumes "intermediate_genesis E C ev i h s = (Ok (), t)"
  shows "ev_sn (content ev) = 0" "lg_ledger_state t = (lg_ledger_state s)(i \<mapsto> sync_position None h)"
proof -
  from assms have "ev_sn (content ev) = 0 \<and>
      lg_ledger_state t = (lg_ledger_state s)(i \<mapsto> sync_position None h)"
    unfolding intermediate_genesis_def Let_def
  proof (elim bindA_OkE, goal_cases)
    case (1 u0 s0 md s1)
    have s0: "s0 = s" "ev_sn (content ev) = 0" using 1(1) by auto
    have s1: "lg_ledger_state s1 = lg_ledger_state s0"
      by (rule positions_run [OF keeps_positions_genesis 1(2)])
    show ?case
    proof (cases "h = 1")
      case True
      then obtain sub where "apply_head E C i h sub s1 = (Ok (), t)"
        using 1(3) by (auto simp: bindA_eq_Inr lread_Ok)
      then show ?thesis
        using apply_head_position(1) [of E C i h sub s1 t] s0 s1 True by (simp add: sync_position_def)
    next
      case False
      then obtain s9 :: "'b ledger" where 9: "set_state i (Some 0) (Some h) s1 = (Ok (), s9)"
        and rest: "ask_next E C md i (sg_signer (signature (ev_event_request (content ev)))) 1 s9 = (Ok (), t)"
        using 1(3) by (auto simp: bindA_eq_Inr)
      have "lg_ledger_state t = lg_ledger_state s9"
        by (rule positions_run [OF keeps_positions_ask rest])
      then show ?thesis
        using 9 s0 s1 False by (auto simp: set_state_def sync_position_def)
    qed
  qed
  then show "ev_sn (content ev) = 0"
    "lg_ledger_state t = (lg_ledger_state s)(i \<mapsto> sync_position None h)" by blast+
qed

lemma intermediate_Ok:
  fixes s t :: "'b ledger"
  assumes "external_intermediate_event E C ev s = (Ok (), t)"
  obtains l h where
    "lg_ledger_state s (ev_subject_id (content ev)) = Some l" "ls_head l = Some h"
    "verify_event_signatures E ev = Ok ()"
    "intermediate_subject_id E ev = Ok (ev_subject_id (content ev))"
    "ev_sn (content ev) = next_sn (ls_current_sn l)"
    "lg_ledger_state t =
       (lg_ledger_state s)(ev_subject_id (content ev) \<mapsto> sync_position (ls_current_sn l) h)"
proof -
  from assms show thesis
    unfolding external_intermediate_event_def
  proof (elim bindA_OkE, goal_cases)
    case (1 rid s0 u1 s1 u2 s2 i s3 u4 s4 st s5)
    have s0: "s0 = s" using 1(1) by (simp add: request_hash_def)
    have s1: "lg_ledger_state s1 = lg_ledger_state s0"
      by (rule positions_run [OF keeps_positions_reads(3) 1(2)])
    have i: "i = ev_subject_id (content ev)" "s5 = s1" "st = lg_ledger_state s1 i"
      "verify_event_signatures E ev = Ok ()" "intermediate_subject_id E ev = Ok i"
      using 1(3-6) by (auto simp: lift_subject_Ok)
    obtain l h where l: "st = Some l" "ls_head l = Some h"
      using 1(7) by (auto split: option.splits)
    have "ev_sn (content ev) = next_sn (ls_current_sn l) \<and>
        lg_ledger_state t = (lg_ledger_state s5)(i \<mapsto> sync_position (ls_current_sn l) h)"
    proof (cases "ls_current_sn l")
      case None
      then show ?thesis
        using 1(7) l intermediate_genesis_position [of E C ev i h s5 t] by (simp add: next_sn_def)
    next
      case (Some c)
      then show ?thesis
        using 1(7) l intermediate_next_position [of E C ev rid i c h s5 t] by (simp add: next_sn_def)
    qed
    then show ?case
      using that [of l h] l i s0 s1 by simp
  qed
qed

section \<open>The head is always ahead\<close>

text \<open>A subject that is behind its head misses at least one event: the head is after the next
  event to apply. Positions are far from the end of the integers.\<close>

definition position_ok :: "ledger_state \<Rightarrow> bool" where
  "position_ok l \<longleftrightarrow>
     (case ls_head l of
        None \<Rightarrow> ls_current_sn l \<noteq> None
      | Some h \<Rightarrow> (case ls_current_sn l of None \<Rightarrow> 0 < unat h | Some c \<Rightarrow> unat c + 1 < unat h))"

definition distance :: "ledger_state \<Rightarrow> nat" where
  "distance l =
     (case ls_head l of
        None \<Rightarrow> 0
      | Some h \<Rightarrow> (case ls_current_sn l of None \<Rightarrow> unat h + 1 | Some c \<Rightarrow> unat h - unat c))"

lemma unat_plus_small:
  "unat (c :: u64) + k < 2 ^ 64 \<Longrightarrow> k < 2 ^ 64 \<Longrightarrow> unat (c + of_nat k) = unat c + k"
  by (simp add: unat_word_ariths unat_of_nat)

lemma sync_position_ok:
  assumes "position_ok l" "ls_head l = Some h"
  shows "position_ok (sync_position (ls_current_sn l) h)"
    "distance (sync_position (ls_current_sn l) h) < distance l"
proof -
  have "position_ok (sync_position (ls_current_sn l) h) \<and>
      distance (sync_position (ls_current_sn l) h) < distance l"
  proof (cases "ls_current_sn l")
    case None
    have "1 < unat h" if "h \<noteq> 1"
    proof -
      have "unat h \<noteq> unat (1 :: u64)" using that unsigned_word_eqI by blast
      then show ?thesis using None assms by (simp add: position_ok_def)
    qed
    then show ?thesis
      using None assms by (auto simp: position_ok_def sync_position_def distance_def)
  next
    case (Some c)
    have b: "unat c + 1 < unat h" using Some assms by (simp add: position_ok_def)
    have h: "unat h < 2 ^ 64" using unsigned_less [of h, where 'a = nat] by simp
    have c1: "unat (c + 1) = unat c + 1" using unat_plus_small [of c 1] b h by simp
    have c2: "unat (c + 2) = unat c + 2" using unat_plus_small [of c 2] b h by simp
    have "unat c + 2 < unat h" if "h \<noteq> c + 2"
    proof -
      have "unat h \<noteq> unat (c + 2)" using that unsigned_word_eqI by blast
      then show ?thesis using b c2 by simp
    qed
    then show ?thesis
      using Some assms b c1 by (auto simp: position_ok_def sync_position_def distance_def)
  qed
  then show "position_ok (sync_position (ls_current_sn l) h)"
    "distance (sync_position (ls_current_sn l) h) < distance l" by blast+
qed

section \<open>A run of events\<close>

lemma sync_position_next:
  assumes "ls_head (sync_position c h) \<noteq> None"
  shows "next_sn (ls_current_sn (sync_position c h)) = next_sn c + 1"
  using assms by (auto simp: sync_position_def next_sn_def split: option.splits if_splits)

lemma forA_Cons_OkE:
  assumes "forA f (x # xs) s = (Ok (), t)"
  obtains u where "f x s = (Ok (), u)" "forA f xs u = (Ok (), t)"
  using assms by (auto simp: bindA_eq_Inr)

text \<open>The accepted events come in order from the next one, and each brings the head closer.\<close>

lemma catch_up:
  fixes s t :: "'b ledger"
  assumes "forA (external_intermediate_event E C) evs s = (Ok (), t)"
    and "\<forall>ev \<in> set evs. ev_subject_id (content ev) = i"
    and "lg_ledger_state s i = Some l" "position_ok l"
  shows "map (\<lambda>ev. ev_sn (content ev)) evs =
      map (\<lambda>j. next_sn (ls_current_sn l) + of_nat j) [0..<length evs]"
    and "\<exists>l'. lg_ledger_state t i = Some l' \<and> position_ok l' \<and> distance l' + length evs \<le> distance l"
proof -
  have "map (\<lambda>ev. ev_sn (content ev)) evs =
      map (\<lambda>j. next_sn (ls_current_sn l) + of_nat j) [0..<length evs] \<and>
    (\<exists>l'. lg_ledger_state t i = Some l' \<and> position_ok l' \<and> distance l' + length evs \<le> distance l)"
    using assms
  proof (induction evs arbitrary: s l)
    case (Cons ev evs)
    obtain u :: "'b ledger" where step: "external_intermediate_event E C ev s = (Ok (), u)"
      and rest: "forA (external_intermediate_event E C) evs u = (Ok (), t)"
      using Cons.prems(1) by (rule forA_Cons_OkE)
    obtain h where h: "ls_head l = Some h" and sn: "ev_sn (content ev) = next_sn (ls_current_sn l)"
      and u: "lg_ledger_state u i = Some (sync_position (ls_current_sn l) h)"
      using step by (rule intermediate_Ok) (use Cons.prems(2,3) that in auto)
    let ?l = "sync_position (ls_current_sn l) h"
    have ok: "position_ok ?l" "distance ?l < distance l"
      using sync_position_ok [OF Cons.prems(4) h] by blast+
    from Cons.IH [OF rest _ u ok(1)] Cons.prems(2)
    have sns: "map (\<lambda>ev. ev_sn (content ev)) evs =
        map (\<lambda>j. next_sn (ls_current_sn ?l) + of_nat j) [0..<length evs]"
      and dist: "\<exists>l'. lg_ledger_state t i = Some l' \<and> position_ok l' \<and>
        distance l' + length evs \<le> distance ?l" by simp_all
    have "map (\<lambda>ev. ev_sn (content ev)) evs =
        map (\<lambda>j. next_sn (ls_current_sn l) + of_nat (Suc j)) [0..<length evs]"
    proof (cases evs)
      case (Cons ev' evs')
      obtain v :: "'b ledger" where "external_intermediate_event E C ev' u = (Ok (), v)"
        using rest unfolding Cons by (rule forA_Cons_OkE)
      then have "ls_head ?l \<noteq> None"
        by (rule intermediate_Ok) (use u Cons Cons.prems(2) in auto)
      then show ?thesis using sns sync_position_next [of "ls_current_sn l" h] by (simp add: add.assoc)
    qed simp
    then show ?case
      using sn ok(2) dist
      by (fastforce simp: upt_conv_Cons map_Suc_upt [symmetric] simp del: upt_Suc)
  qed (use assms in auto)
  then show "map (\<lambda>ev. ev_sn (content ev)) evs =
      map (\<lambda>j. next_sn (ls_current_sn l) + of_nat j) [0..<length evs]"
    "\<exists>l'. lg_ledger_state t i = Some l' \<and> position_ok l' \<and> distance l' + length evs \<le> distance l" by blast+
qed

section \<open>The end of a life, sourced\<close>

text \<open>Unlike a validated event of our own, a sourced one leaves the sequence number of the subject.\<close>

lemma event_sourcing_eol_sn:
  fixes s t :: "'b ledger"
  assumes ok: "codec_ok (c_subject E)" and run: "event_sourcing_eol E ev s = (Ok subject', t)"
    and e: "content (ev_event_request (content ev)) = EOL e"
  shows "\<exists>subject. get_subject E (eo_subject_id e) (nd_db s) = Ok subject \<and>
    get_subject E (eo_subject_id e) (nd_db t) = Ok (subject\<lparr>su_active := False\<rparr>)"
proof -
  from run have "bindA (check_prev_hash E (eo_subject_id e) (ev_sn (content ev)) (ev_hash_prev_event (content ev)))
            (\<lambda>_.
          bindA (lread (get_subject E (eo_subject_id e))) (\<lambda>subject.
          bindA (ldb (set_subject E (eo_subject_id e) (eol_event subject))) (\<lambda>_.
          retA (eol_event subject)))) s = (Ok subject', t)"
    using e by (simp add: event_sourcing_eol_def)
  then show ?thesis
  proof (elim bindA_OkE, goal_cases)
    case (1 u s1 subject s2 v s3)
    have "s1 = s" using 1(1) by (auto simp: check_prev_hash_def bindA_eq_Inr lread_Ok liftA_Ok)
    then show ?case
      using 1 subjects.get_put [OF ok, where k = "eo_subject_id e" and x = "eol_event subject"]
      by (auto simp: lread_Ok ldb_Ok eol_event_def)
  qed
qed

end
