(* ===== verification/Samples.thy ===== *)
theory Samples
  imports Db_Laws
begin

text \<open>
  A concrete environment, on which the hypotheses about third-party code hold and the
  definitions can be evaluated: serialising puts a value in an envelope, all hashes are the same
  and every signature is valid, a patch is the new state. The text encoding is hexadecimal with
  a leading dash, so that material of 21 bytes has the 43 characters of an identifier.
\<close>

section \<open>A text encoding\<close>

definition hex_value :: "char \<Rightarrow> nat" where
  "hex_value c = (let n = of_char c in if n < 58 then n - 48 else n - 87)"

fun unhex :: "string \<Rightarrow> bytes option" where
  "unhex [] = Some []"
| "unhex [c] = None"
| "unhex (c # d # s) = map_option ((#) (of_nat (16 * hex_value c + hex_value d))) (unhex s)"

definition sample_enc :: "bytes \<Rightarrow> string" where
  "sample_enc bs = CHR ''-'' # concat (map (\<lambda>b. hexn 2 (unat b)) bs)"

fun sample_dec :: "string \<Rightarrow> bytes option" where
  "sample_dec [] = None"
| "sample_dec (_ # s) = unhex s"

definition sample_b64 :: b64 where
  "sample_b64 = \<lparr>b64_enc = sample_enc, b64_dec = sample_dec\<rparr>"

lemma hex_value_digit: "n < 16 \<Longrightarrow> hex_value (hex_digit n) = n"
  by (auto simp: hex_value_def hex_digit_code Let_def)

lemma unhex_hex: "unhex (concat (map (\<lambda>b. hexn 2 (unat b)) bs)) = Some bs"
proof (induction bs)
  case (Cons b bs)
  have "unat b div 16 < 16" using unsigned_less [of b, where 'a = nat] by (simp add: less_mult_imp_div_less)
  then have "hex_value (hex_digit (unat b div 16 mod 16)) = unat b div 16"
    by (simp add: hex_value_digit)
  moreover have "(of_nat (16 * (unat b div 16) + unat b mod 16) :: 8 word) = b"
    by (simp only: mult_div_mod_eq) simp
  ultimately show ?case
    using Cons by (simp add: numeral_2_eq_2 hex_value_digit)
qed simp

lemma sample_roundtrip [simp]: "sample_dec (sample_enc bs) = Some bs"
  by (simp add: sample_enc_def unhex_hex)

lemma sample_b64_ok [simp]: "b64_ok sample_b64"
proof -
  have "inj sample_enc"
    by (rule injI) (metis sample_roundtrip option.inject)
  moreover have "ascii (sample_enc x)" for x
    by (induction x) (auto simp: sample_enc_def)
  ultimately show ?thesis by (simp add: b64_ok_def sample_b64_def)
qed

section \<open>The borsh primitives\<close>

text \<open>Little-endian numbers, and strings after their 32-bit length.\<close>

fun to_le :: "nat \<Rightarrow> nat \<Rightarrow> bytes" where
  "to_le 0 n = []"
| "to_le (Suc k) n = of_nat (n mod 256) # to_le k (n div 256)"

fun of_le :: "nat \<Rightarrow> bytes \<Rightarrow> (nat \<times> bytes) option" where
  "of_le 0 bs = Some (0, bs)"
| "of_le (Suc k) [] = None"
| "of_le (Suc k) (b # bs) = map_option (\<lambda>(n, r). (unat b + 256 * n, r)) (of_le k bs)"

lemma of_le_to_le: "n < 256 ^ k \<Longrightarrow> of_le k (to_le k n @ r) = Some (n, r)"
proof (induction k arbitrary: n)
  case (Suc k)
  then have "n div 256 < 256 ^ k" by (simp add: less_mult_imp_div_less mult.commute)
  then show ?case using Suc.IH by (simp add: unat_of_nat)
qed simp

lemma of_le_length: "of_le k bs = Some (n, r) \<Longrightarrow> length bs = k + length r"
  by (induction k bs arbitrary: n rule: of_le.induct) auto

definition rd_string :: "bytes \<Rightarrow> (string \<times> bytes) option" where
  "rd_string bs = Option.bind (of_le 4 bs) (\<lambda>(n, r).
     if n \<le> length r then Some (map (\<lambda>b. char_of (unat b)) (take n r), drop n r) else None)"

definition sample_prims :: prims where
  "sample_prims = \<lparr>
     wr_u8 = \<lambda>x. [x],
     wr_bool = \<lambda>b. [if b then 1 else 0],
     wr_u32 = \<lambda>x. to_le 4 (unat x),
     wr_64 = \<lambda>x. to_le 8 (unat x),
     wr_str = \<lambda>s. to_le 4 (length s) @ map (\<lambda>c. of_nat (of_char c)) s,
     rd_u8 = \<lambda>bs. (case bs of [] \<Rightarrow> None | b # r \<Rightarrow> Some (b, r)),
     rd_bool = \<lambda>bs. (case bs of [] \<Rightarrow> None | b # r \<Rightarrow> if b \<le> 1 then Some (b = 1, r) else None),
     rd_u32 = \<lambda>bs. map_option (map_prod of_nat id) (of_le 4 bs),
     rd_64 = \<lambda>bs. map_option (map_prod of_nat id) (of_le 8 bs),
     rd_str = rd_string\<rparr>"

lemma unat_less_le: "unat (x :: u32) < 256 ^ 4" "unat (y :: u64) < 256 ^ 8"
  using unsigned_less [of x, where 'a = nat] unsigned_less [of y, where 'a = nat] by simp_all

lemma sample_prims_ok: "prims_ok sample_prims"
proof -
  have "(of_char c :: nat) < 2 ^ 8" for c
    by (rule order_less_le_trans [OF nat_of_char_less_256]) simp
  then have "char_of (unat (of_nat (of_char c) :: u8)) = c" for c
    by (simp add: unat_of_nat)
  moreover have "of_le 4 (to_le 4 (unat x) @ r) = Some (unat x, r)"
      "of_le 8 (to_le 8 (unat y) @ r) = Some (unat y, r)" for x :: u32 and y :: u64 and r
    by (rule of_le_to_le, rule unat_less_le)+
  ultimately show ?thesis
    by (simp add: prims_ok_def sample_prims_def of_le_to_le rd_string_def comp_def)
qed

lemma sample_readers_ok: "readers_ok sample_prims"
  by (auto simp: readers_ok_def sample_prims_def rd_string_def bind_eq_Some_conv
      split: list.splits if_splits dest!: of_le_length)

section \<open>The environment\<close>

datatype blob =
    BPayload payload
  | BSubject subject
  | BEvent "event signed"
  | BSignatures "signature list \<times> validation_proof"
  | BEventRequest "event_request signed"
  | BTapleRequest taple_request
  | BString string
  | BProof validation_proof
  | BContract "bytes \<times> digest_identifier \<times> u64"
  | BWitness "u64 \<times> signature list"
  | BDigest digest_identifier
  | BKeys key_pair
  | BProviders "digest_identifier \<times> key_identifier list"
  | BApproval approval_entity

definition sample_hash :: bytes where
  "sample_hash = replicate 21 7"

definition sample_env :: "blob env" where
  "sample_env = \<lparr>
     e_b64 = sample_b64,
     e_borsh = \<lambda>p. Some (BPayload p),
     e_hash = \<lambda>_ _. sample_hash,
     e_key_parses = \<lambda>_ _. True,
     e_sig_parses = \<lambda>_ _. True,
     e_verify = \<lambda>_ _ _ _. True,
     e_sign = \<lambda>_ sk _. sk,
     e_is_patch = \<lambda>_. True,
     e_patch = \<lambda>_ p. Some p,
     e_diff = \<lambda>_ b. Some b,
     e_contract_raw = Some,
     e_governance_schema = JNull,
     c_subject = \<lparr>ser = \<lambda>x. Some (BSubject x), de = \<lambda>b. case b of BSubject x \<Rightarrow> Some x | _ \<Rightarrow> None\<rparr>,
     c_event = \<lparr>ser = \<lambda>x. Some (BEvent x), de = \<lambda>b. case b of BEvent x \<Rightarrow> Some x | _ \<Rightarrow> None\<rparr>,
     c_signatures =
       \<lparr>ser = \<lambda>x. Some (BSignatures x), de = \<lambda>b. case b of BSignatures x \<Rightarrow> Some x | _ \<Rightarrow> None\<rparr>,
     c_event_request =
       \<lparr>ser = \<lambda>x. Some (BEventRequest x), de = \<lambda>b. case b of BEventRequest x \<Rightarrow> Some x | _ \<Rightarrow> None\<rparr>,
     c_taple_request =
       \<lparr>ser = \<lambda>x. Some (BTapleRequest x), de = \<lambda>b. case b of BTapleRequest x \<Rightarrow> Some x | _ \<Rightarrow> None\<rparr>,
     c_string = \<lparr>ser = \<lambda>x. Some (BString x), de = \<lambda>b. case b of BString x \<Rightarrow> Some x | _ \<Rightarrow> None\<rparr>,
     c_proof = \<lparr>ser = \<lambda>x. Some (BProof x), de = \<lambda>b. case b of BProof x \<Rightarrow> Some x | _ \<Rightarrow> None\<rparr>,
     c_contract = \<lparr>ser = \<lambda>x. Some (BContract x), de = \<lambda>b. case b of BContract x \<Rightarrow> Some x | _ \<Rightarrow> None\<rparr>,
     c_witness = \<lparr>ser = \<lambda>x. Some (BWitness x), de = \<lambda>b. case b of BWitness x \<Rightarrow> Some x | _ \<Rightarrow> None\<rparr>,
     c_digest = \<lparr>ser = \<lambda>x. Some (BDigest x), de = \<lambda>b. case b of BDigest x \<Rightarrow> Some x | _ \<Rightarrow> None\<rparr>,
     c_keys = \<lparr>ser = \<lambda>x. Some (BKeys x), de = \<lambda>b. case b of BKeys x \<Rightarrow> Some x | _ \<Rightarrow> None\<rparr>,
     c_providers = \<lparr>ser = \<lambda>x. Some (BProviders x), de = \<lambda>b. case b of BProviders x \<Rightarrow> Some x | _ \<Rightarrow> None\<rparr>,
     c_approval = \<lparr>ser = \<lambda>x. Some (BApproval x), de = \<lambda>b. case b of BApproval x \<Rightarrow> Some x | _ \<Rightarrow> None\<rparr>\<rparr>"

lemma sample_codecs [simp]:
  "codec_ok (c_subject sample_env)" "codec_ok (c_event sample_env)"
  "codec_ok (c_signatures sample_env)" "codec_ok (c_event_request sample_env)"
  "codec_ok (c_taple_request sample_env)" "codec_ok (c_string sample_env)"
  "codec_ok (c_proof sample_env)" "codec_ok (c_contract sample_env)"
  "codec_ok (c_witness sample_env)" "codec_ok (c_digest sample_env)"
  "codec_ok (c_keys sample_env)" "codec_ok (c_providers sample_env)"
  "codec_ok (c_approval sample_env)"
  by (auto simp: codec_ok_def sample_env_def)

lemma sample_env_b64 [simp]: "e_b64 sample_env = sample_b64"
  by (simp add: sample_env_def)

section \<open>Identifiers\<close>

definition sample_id :: "u8 \<Rightarrow> digest_identifier" where
  "sample_id n = new_digest Blake3_256 (replicate 21 n)"

definition sample_key :: "u8 \<Rightarrow> key_identifier" where
  "sample_key n = new_key Ed25519 (replicate 21 n)"

definition sample_keys :: "u8 \<Rightarrow> key_pair" where
  "sample_keys n = KPEd25519 \<lparr>bkp_public_key = replicate 21 n, bkp_secret_key = Some [n]\<rparr>"

definition sample_signature :: "u8 \<Rightarrow> signature" where
  "sample_signature n = \<lparr>
     sg_signer = sample_key n,
     sg_timestamp = 1,
     sg_content_hash = new_digest Blake3_256 sample_hash,
     sg_value = new_signature_id Ed25519Sha512 [n]\<rparr>"

lemma sample_id_nonempty [simp]: "di_digest (sample_id n) \<noteq> []"
  by (simp add: sample_id_def new_digest_def)

lemma sample_id_valid [simp]: "id_valid sample_env (sample_id n)"
  by (simp add: id_valid_def digest_wf_def)

lemma sample_signature_verify [simp]:
  "signature_verify sample_env (sample_signature n) p = Ok ()"
  by (simp add: signature_verify_def from_serializable_borsh_def key_verify_def sample_signature_def
      sample_key_def sample_env_def new_key_def new_signature_id_def new_digest_def)

end
