(* ===== verification/Validation.thy ===== *)
theory Validation
  imports Node Db_Laws
begin

text \<open>
  The validator (\<^verbatim>\<open>validation/validation.rs\<close>): checks the proof of a new event against the last
  proof it signed for the subject, registers it and signs it. Then the safety of the register:
  whatever requests arrive, a validator never signs two different events for one sequence
  number of a subject.
\<close>

section \<open>Errors and configuration\<close>

datatype validation_error =
    ProtocolErrors protocol_errors
  | VChannelError channel_error
  | VGovernanceError request_error
  | InputChannelError
  | OwnerSubjectNotKnown
  | VGovernanceNotFound
  | GovApiUnexpectedResponse
  | VGovernanceVersionTooHigh
  | GovernanceVersionTooLow
  | EventSnLowerThanLastSigned
  | DifferentProofForEvent
  | SerializingError
  | VDatabaseError
  | PreviousProofLeft
  | InvalidSignature
  | InvalidSigner
  | QuorumNotReached
  | SubjectSignatureNotValid
  | GenesisGovVersionsDoesNotMatch string

record validator =
  va_signature_manager :: self_signature_manager
  va_derivator :: digest_derivator

section \<open>The previous proof\<close>

definition validation_signers_and_quorum ::
  "'b env \<Rightarrow> metadata \<Rightarrow> validation_stage \<Rightarrow>
     (('b, 'z) node_scheme, key_identifier set \<times> u32, validation_error) act" where
  "validation_signers_and_quorum E md stage =
     bindA (ask_gov VGovernanceError (get_signers E md stage)) (\<lambda>signers.
     bindA (ask_gov VGovernanceError (get_quorum E md stage)) (\<lambda>quorum_size.
     retA (signers, quorum_size)))"

text \<open>The signers of a set of signatures, if all of them verify.\<close>

fun actual_signers :: "'b env \<Rightarrow> payload \<Rightarrow> signature list \<Rightarrow> (key_identifier set, validation_error) res" where
  "actual_signers E p [] = Ok {}"
| "actual_signers E p (g # gs) =
     bindR (map_err (\<lambda>_. InvalidSignature) (signature_verify E g p)) (\<lambda>_.
     bindR (actual_signers E p gs) (\<lambda>S. Ok (insert (sg_signer g) S)))"

text \<open>The comparisons of the two proofs, all with the same error.\<close>

definition follows :: "validation_proof \<Rightarrow> validation_proof \<Rightarrow> bool" where
  "follows previous_proof nproof \<longleftrightarrow>
     vp_event_hash previous_proof = vp_prev_event_hash nproof \<and>
     vp_sn previous_proof + 1 = vp_sn nproof \<and>
     vp_genesis_governance_version previous_proof = vp_genesis_governance_version nproof \<and>
     vp_namespace previous_proof = vp_namespace nproof \<and>
     vp_name previous_proof = vp_name nproof \<and>
     vp_subject_id previous_proof = vp_subject_id nproof \<and>
     vp_schema_id previous_proof = vp_schema_id nproof \<and>
     vp_governance_id previous_proof = vp_governance_id nproof"

definition validate_previous_proof ::
  "'b env \<Rightarrow> validation_proof \<Rightarrow> validation_proof \<Rightarrow> signature list option \<Rightarrow>
     (('b, 'z) node_scheme, key_identifier, validation_error) act" where
  "validate_previous_proof E nproof previous_proof validation_signatures =
     bindA (liftA (fail_if (\<not> follows previous_proof nproof) DifferentProofForEvent)) (\<lambda>_.
     bindA (case validation_signatures of
         Some gs \<Rightarrow>
           bindA (liftA (actual_signers E (PProof previous_proof) gs)) (\<lambda>who.
           bindA (validation_signers_and_quorum E (get_metadata previous_proof) Validate)
             (\<lambda>(signers, quorum_size).
           bindA (liftA (fail_if (\<not> who \<subseteq> signers) InvalidSigner)) (\<lambda>_.
           liftA (fail_if (card who < unat quorum_size) QuorumNotReached))))
       | None \<Rightarrow> retA ()) (\<lambda>_.
     retA (vp_subject_public_key previous_proof)))"

section \<open>The last signed proof\<close>

definition check_proofs ::
  "'b env \<Rightarrow> validation_proof \<Rightarrow> validation_proof option \<Rightarrow> signature list \<Rightarrow> validation_proof option \<Rightarrow>
     (('b, 'z) node_scheme, key_identifier, validation_error) act" where
  "check_proofs E nproof previous_proof validation_signatures last_proof =
     (case last_proof of
        Some lastp \<Rightarrow>
          if vp_sn lastp > vp_sn nproof then failA EventSnLowerThanLastSigned
          else if vp_sn lastp = vp_sn nproof \<and> vp_sn lastp \<noteq> 0 then
            (if \<not> is_similar lastp nproof then failA DifferentProofForEvent
             else retA (vp_subject_public_key lastp))
          else if vp_sn lastp + 1 = vp_sn nproof then
            (case previous_proof of
               None \<Rightarrow> failA PreviousProofLeft
             | Some prev \<Rightarrow>
                 if \<not> is_similar lastp prev then failA DifferentProofForEvent
                 else validate_previous_proof E nproof lastp None)
          else if vp_sn nproof = 0 then
            (if lastp \<noteq> nproof then failA DifferentProofForEvent
             else retA (vp_subject_public_key nproof))
          else
            (case previous_proof of
               None \<Rightarrow> failA PreviousProofLeft
             | Some prev \<Rightarrow> validate_previous_proof E nproof prev (Some validation_signatures))
      | None \<Rightarrow>
          (case previous_proof of
             None \<Rightarrow>
               if vp_sn nproof \<noteq> 0 then failA PreviousProofLeft
               else if vp_governance_version nproof \<noteq> vp_genesis_governance_version nproof
               then failA (GenesisGovVersionsDoesNotMatch (dstr E (vp_subject_id nproof)))
               else retA (vp_subject_public_key nproof)
           | Some prev \<Rightarrow>
               if vp_sn nproof \<noteq> 0
               then validate_previous_proof E nproof prev (Some validation_signatures)
               else if vp_governance_version nproof \<noteq> vp_genesis_governance_version nproof
               then failA (GenesisGovVersionsDoesNotMatch (dstr E (vp_subject_id nproof)))
               else retA (vp_subject_public_key nproof)))"

section \<open>The request\<close>

text \<open>The error of the governance version request.\<close>

fun version_error :: "request_error \<Rightarrow> validation_error" where
  "version_error (GovernanceNotFound _) = VGovernanceNotFound"
| "version_error RSubjectNotFound = VGovernanceNotFound"
| "version_error InvalidGovernanceID = VGovernanceNotFound"
| "version_error RChannelClosed = VChannelError ChannelClosed"
| "version_error _ = GovApiUnexpectedResponse"

definition actual_version ::
  "'b env \<Rightarrow> validation_proof \<Rightarrow> (('b, 'z) node_scheme, u64, validation_error) act" where
  "actual_version E p =
     (if vp_schema_id p = ''governance'' \<and> vp_sn p = 0 then retA 0
      else ask_gov version_error (get_governance_version E (vp_subject_id p) (vp_governance_id p)))"

definition read_register ::
  "'b env \<Rightarrow> digest_identifier \<Rightarrow> (('b, 'z) node_scheme, validation_proof option, validation_error) act" where
  "read_register E subject_id =
     db_case (get_validation_register E subject_id) (\<lambda>r.
       case r of
         Inr lastp \<Rightarrow> retA (Some lastp)
       | Inl (Err EntryNotFound) \<Rightarrow> retA None
       | Inl (Err _) \<Rightarrow> failA VDatabaseError
       | Inl (Panic m) \<Rightarrow> liftA (Abort m))"

text \<open>The part before the write of the register, which gives the governance version found.\<close>

definition validation_checks ::
  "'b env \<Rightarrow> validator \<Rightarrow> validation_event \<Rightarrow> key_identifier \<Rightarrow>
     (('b, 'z) node_scheme, u64, validation_error) act" where
  "validation_checks E V ve sender =
     (let proof = ve_proof ve in
      bindA (actual_version E proof) (\<lambda>actual_gov_version.
      bindA (if actual_gov_version < vp_governance_version proof then failA VGovernanceVersionTooHigh
        else if actual_gov_version > vp_governance_version proof then
          bindA (tell_message VChannelError (TaskRequest None
            (EventMessage (HigherGovernanceExpected (vp_governance_id proof)
              (sm_identifier (va_signature_manager V)))) {sender} direct_response)) (\<lambda>_.
          failA GovernanceVersionTooLow)
        else retA ()) (\<lambda>_.
      bindA (read_register E (vp_subject_id proof)) (\<lambda>last_proof.
      bindA (liftA (map_err (\<lambda>_. SubjectSignatureNotValid)
        (signature_verify E (ve_subject_signature ve) (PProof proof)))) (\<lambda>_.
      bindA (check_proofs E proof (ve_previous_proof ve) (ve_prev_event_validation_signatures ve) last_proof)
        (\<lambda>subject_pk.
      bindA (liftA (fail_if (sg_signer (ve_subject_signature ve) \<noteq> subject_pk) SubjectSignatureNotValid))
        (\<lambda>_. retA actual_gov_version)))))))"

definition validation_answer ::
  "'b env \<Rightarrow> validator \<Rightarrow> timestamp \<Rightarrow> validation_proof \<Rightarrow> key_identifier \<Rightarrow> u64 \<Rightarrow>
     (('b, 'z) node_scheme, validation_event_response, validation_error) act" where
  "validation_answer E V now proof sender actual_gov_version =
     bindA (liftA (map_err ProtocolErrors
       (sm_sign E (va_signature_manager V) now (PProof proof) (va_derivator V)))) (\<lambda>validation_signature.
     bindA (tell_message VChannelError (TaskRequest None
       (EventMessage (ValidatorResponse (vp_event_hash proof) validation_signature actual_gov_version))
       {sender} direct_response)) (\<lambda>_.
     retA \<lparr>vr_validation_signature = validation_signature,
           vr_gov_version_validation = actual_gov_version\<rparr>))"

definition validation_event ::
  "'b env \<Rightarrow> validator \<Rightarrow> timestamp \<Rightarrow> validation_event \<Rightarrow> key_identifier \<Rightarrow>
     (('b, 'z) node_scheme, validation_event_response, validation_error) act" where
  "validation_event E V now ve sender =
     bindA (validation_checks E V ve sender) (\<lambda>actual_gov_version.
     bindA (dbA (\<lambda>_. VDatabaseError)
       (set_validation_register E (vp_subject_id (ve_proof ve)) (ve_proof ve))) (\<lambda>_.
     validation_answer E V now (ve_proof ve) sender actual_gov_version))"

section \<open>What a request does to the register\<close>

text \<open>\<open>extends lastp p\<close>: signing \<open>p\<close> after \<open>lastp\<close> goes forward, or signs the same event again.\<close>

definition extends :: "validation_proof \<Rightarrow> validation_proof \<Rightarrow> bool" where
  "extends lastp p \<longleftrightarrow> vp_sn lastp < vp_sn p \<or> (vp_sn lastp = vp_sn p \<and> is_similar lastp p)"

lemma extends_trans: "extends p q \<Longrightarrow> extends q r \<Longrightarrow> extends p r"
  by (auto simp: extends_def dest: is_similar_trans)

lemma extends_refl [simp]: "extends p p"
  by (simp add: extends_def)

lemma check_proofs_extends:
  assumes "check_proofs E p prev gs (Some lastp) s = (Ok pk, t)"
  shows "extends lastp p"
  using assms by (auto simp: check_proofs_def extends_def not_less split: if_splits option.splits)

lemma validate_previous_proof_db [inv_intros]:
  "keeps (on_db P) (validate_previous_proof E p prev gs)"
  unfolding validate_previous_proof_def validation_signers_and_quorum_def
  by (intro inv_intros)

lemma check_proofs_db [inv_intros]: "keeps (on_db P) (check_proofs E p prev gs lastp)"
  unfolding check_proofs_def by (intro inv_intros)

lemma actual_version_db [inv_intros]: "keeps (on_db P) (actual_version E p)"
  unfolding actual_version_def by (auto intro: inv_intros)

lemma read_register_db [inv_intros]: "keeps (on_db P) (read_register E d)"
  unfolding read_register_def
  by (auto intro!: inv_intros split: sum.splits failure.splits db_error.splits)

lemma validation_checks_db [inv_intros]: "keeps (on_db P) (validation_checks E V ve sender)"
  unfolding validation_checks_def Let_def by (intro inv_intros)

lemma validation_answer_db [inv_intros]: "keeps (on_db P) (validation_answer E V now p sender v)"
  unfolding validation_answer_def by (intro inv_intros)

text \<open>A step that succeeds without having sent anything leaves the state as it was.\<close>

lemma actual_version_Ok: "actual_version E p s = (Ok v, t) \<Longrightarrow> t = s"
  by (auto simp: actual_version_def ask_gov_eq_Inr split: if_splits)

lemma read_register_Ok:
  "read_register E d s = (Ok r, t) \<Longrightarrow> t = s \<and>
     (case r of Some lastp \<Rightarrow> get_validation_register E d (nd_db s) = Ok lastp
      | None \<Rightarrow> get_validation_register E d (nd_db s) = Fail EntryNotFound)"
  by (auto simp: read_register_def db_case_def
      split: sum.splits failure.splits db_error.splits option.splits)

lemma validation_checks_Ok:
  fixes s :: "('b, 'z) node_scheme"
  assumes run: "validation_checks E V ve sender s = (Ok v, t)"
    and reg: "get_validation_register E (vp_subject_id (ve_proof ve)) (nd_db s) = Ok lastp"
  shows "extends lastp (ve_proof ve)"
proof -
  let ?p = "ve_proof ve"
  obtain r pk and s1 s3 s4 s5 :: "('b, 'z) node_scheme" where ver: "actual_version E ?p s = (Ok v, s1)"
    and same: "v = vp_governance_version ?p"
    and rd: "read_register E (vp_subject_id ?p) s1 = (Ok r, s3)"
    and chk: "check_proofs E ?p (ve_previous_proof ve) (ve_prev_event_validation_signatures ve) r s4
      = (Ok pk, s5)"
    using run unfolding validation_checks_def Let_def
    by (auto elim!: bindA_OkE split: if_splits)
  have "s1 = s" using ver by (rule actual_version_Ok)
  then have "r = Some lastp"
    using read_register_Ok [OF rd] reg by (auto split: option.splits)
  then show ?thesis using chk check_proofs_extends by blast
qed

text \<open>A request leaves the database as it was, or writes the register of its subject, and only
  with a proof that extends the last one.\<close>

lemma validation_event_register:
  assumes run: "validation_event E V now ve sender s = (r, t)"
  obtains "nd_db t = nd_db s" "\<not> is_Ok r"
  | "set_validation_register E (vp_subject_id (ve_proof ve)) (ve_proof ve) (nd_db s) = (Ok (), nd_db t)"
    "\<And>lastp. get_validation_register E (vp_subject_id (ve_proof ve)) (nd_db s) = Ok lastp \<Longrightarrow>
       extends lastp (ve_proof ve)"
proof -
  let ?p = "ve_proof ve" and ?chk = "validation_checks E V ve sender"
  obtain w u where chk: "?chk s = (w, u)" by fastforce
  have db: "nd_db u = nd_db s"
    using keepsD [OF validation_checks_db [of "(=) (nd_db s)" E V ve sender], of s] chk
    by (simp add: on_db_def)
  show thesis
  proof (cases w)
    case (Inl e)
    then show thesis
      using run chk db that(1) by (auto simp: validation_event_def bindA_def)
  next
    case (Inr v)
    obtain x d where put: "set_validation_register E (vp_subject_id ?p) ?p (nd_db s) = (x, d)"
      by fastforce
    show thesis
    proof (cases x)
      case (Inl e)
      then have "d = nd_db s" using put registers.put_fail by metis
      then show thesis
        using run chk db Inr Inl put that(1)
        by (cases e) (auto simp: validation_event_def bindA_def dbA_def zoomA_def)
    next
      case (Inr y)
      have run': "validation_answer E V now ?p sender v (u\<lparr>nd_db := d\<rparr>) = (r, t)"
        using run chk db \<open>w = Ok v\<close> Inr put
        by (auto simp: validation_event_def bindA_def dbA_def zoomA_def)
      have "keeps (on_db ((=) d)) (validation_answer E V now ?p sender v)"
        by (rule validation_answer_db)
      from keepsD [OF this, of "u\<lparr>nd_db := d\<rparr>"] run' have "nd_db t = d"
        by (simp add: on_db_def)
      moreover have "extends lastp ?p" if "get_validation_register E (vp_subject_id ?p) (nd_db s) = Ok lastp"
        for lastp
        by (rule validation_checks_Ok [OF _ that]) (use chk \<open>w = Ok v\<close> in auto)
      ultimately show thesis
        using that(2) put Inr by simp
    qed
  qed
qed

section \<open>What an answer says of the proof\<close>

text \<open>Enough allowed validators signed the proof.\<close>

definition validators_signed ::
  "'b env \<Rightarrow> validation_proof \<Rightarrow> signature list \<Rightarrow> 'b data_store \<Rightarrow> bool" where
  "validators_signed E p gs m \<longleftrightarrow>
     (\<exists>signers q. get_signers E (get_metadata p) Validate m = Ok signers \<and>
        get_quorum E (get_metadata p) Validate m = Ok q \<and>
        sg_signer ` set gs \<subseteq> signers \<and> unat q \<le> card (sg_signer ` set gs) \<and>
        (\<forall>g \<in> set gs. signature_verify E g (PProof p) = Ok ()))"

lemma actual_signers_Ok:
  "actual_signers E p gs = Ok who \<Longrightarrow>
     who = sg_signer ` set gs \<and> (\<forall>g \<in> set gs. signature_verify E g p = Ok ())"
  by (induction gs arbitrary: who) (auto simp: bindR_eq_Inr)

lemma validate_previous_proof_Ok:
  assumes "validate_previous_proof E p prev gs s = (Ok pk, t)"
  shows "follows prev p" "pk = vp_subject_public_key prev" "t = s"
    "gs = Some l \<Longrightarrow> validators_signed E prev l (nd_db s)"
proof -
  have "follows prev p \<and> pk = vp_subject_public_key prev \<and> t = s \<and>
      (gs = Some l \<longrightarrow> validators_signed E prev l (nd_db s))"
    using assms
    by (auto simp: validate_previous_proof_def validation_signers_and_quorum_def bindA_eq_Inr
        ask_gov_eq_Inr validators_signed_def not_less split: option.splits dest!: actual_signers_Ok)
  then show "follows prev p" "pk = vp_subject_public_key prev" "t = s"
    "gs = Some l \<Longrightarrow> validators_signed E prev l (nd_db s)" by blast+
qed

text \<open>A proof for a later event than the registered one, or the first the validator sees, comes
  with a previous proof that it follows: the registered one, or one that the validators signed.\<close>

lemma check_proofs_chain:
  assumes run: "check_proofs E p prevo gs lasto s = (Ok pk, t)"
    and "vp_sn p \<noteq> 0" "\<And>lastp. lasto = Some lastp \<Longrightarrow> vp_sn lastp \<noteq> vp_sn p"
  shows "\<exists>prev. prevo = Some prev \<and> follows prev p \<and> pk = vp_subject_public_key prev \<and>
    ((\<exists>lastp. lasto = Some lastp \<and> is_similar lastp prev) \<or> validators_signed E prev gs (nd_db s))"
proof (cases lasto)
  case None
  then obtain prev where prev: "prevo = Some prev"
      "validate_previous_proof E p prev (Some gs) s = (Ok pk, t)"
    using run assms(2) by (auto simp: check_proofs_def split: option.splits if_splits)
  then show ?thesis
    using validate_previous_proof_Ok(1,2) [OF prev(2)] validate_previous_proof_Ok(4) [OF prev(2) refl]
    by blast
next
  case (Some lastp)
  then consider prev where "prevo = Some prev" "is_similar lastp prev"
      "validate_previous_proof E p lastp None s = (Ok pk, t)"
    | prev where "prevo = Some prev" "validate_previous_proof E p prev (Some gs) s = (Ok pk, t)"
    using run assms(2,3) by (auto simp: check_proofs_def split: option.splits if_splits)
  then show ?thesis
  proof cases
    case 1
    then have "follows prev p" "vp_subject_public_key lastp = vp_subject_public_key prev"
      using validate_previous_proof_Ok(1) [OF 1(3)] by (auto simp: follows_def is_similar_def)
    then show ?thesis
      using 1 Some validate_previous_proof_Ok(2) [OF 1(3)] by blast
  next
    case 2
    then show ?thesis
      using validate_previous_proof_Ok(1,2) [OF 2(2)] validate_previous_proof_Ok(4) [OF 2(2) refl]
      by blast
  qed
qed

lemma validation_checks_parts:
  fixes s t :: "('b, 'z) node_scheme"
  assumes run: "validation_checks E V ve sender s = (Ok v, t)"
  obtains r pk where "v = vp_governance_version (ve_proof ve)" "t = s"
    "case r of Some lastp \<Rightarrow> get_validation_register E (vp_subject_id (ve_proof ve)) (nd_db s) = Ok lastp
      | None \<Rightarrow> get_validation_register E (vp_subject_id (ve_proof ve)) (nd_db s) = Fail EntryNotFound"
    "signature_verify E (ve_subject_signature ve) (PProof (ve_proof ve)) = Ok ()"
    "check_proofs E (ve_proof ve) (ve_previous_proof ve) (ve_prev_event_validation_signatures ve) r s =
       (Ok pk, s)"
    "sg_signer (ve_subject_signature ve) = pk"
proof -
  from run show thesis
    unfolding validation_checks_def Let_def
  proof (elim bindA_OkE, goal_cases)
    case (1 ver s1 u2 s2 r s3 u4 s4 pk s5 u6 s6)
    have s1: "s1 = s" using 1(1) by (rule actual_version_Ok)
    have s2: "s2 = s1" "ver = vp_governance_version (ve_proof ve)"
      using 1(2) by (auto simp: bindA_eq_Inr split: if_splits)
    have r: "s3 = s2" "case r of
        Some lastp \<Rightarrow> get_validation_register E (vp_subject_id (ve_proof ve)) (nd_db s2) = Ok lastp
      | None \<Rightarrow> get_validation_register E (vp_subject_id (ve_proof ve)) (nd_db s2) = Fail EntryNotFound"
      using read_register_Ok [OF 1(3)] by blast+
    have s4: "s4 = s3" "signature_verify E (ve_subject_signature ve) (PProof (ve_proof ve)) = Ok ()"
      using 1(4) by auto
    have s5: "s5 = s4"
      using 1(5) validate_previous_proof_Ok(3)
      by (auto simp: check_proofs_def split: option.splits if_splits)
    have reg: "case r of
        Some lastp \<Rightarrow> get_validation_register E (vp_subject_id (ve_proof ve)) (nd_db s) = Ok lastp
      | None \<Rightarrow> get_validation_register E (vp_subject_id (ve_proof ve)) (nd_db s) = Fail EntryNotFound"
      using r(2) s1 s2(1) by (simp split: option.splits)
    show ?case
      by (rule that [OF _ _ reg]) (use 1 s1 s2 r(1) s4 s5 in auto)
  qed
qed

lemma validation_event_Ok:
  fixes s t :: "('b, 'z) node_scheme"
  assumes run: "validation_event E V now ve sender s = (Ok resp, t)"
  obtains g s1 where "validation_checks E V ve sender s = (Ok (vp_governance_version (ve_proof ve)), s)"
    "set_validation_register E (vp_subject_id (ve_proof ve)) (ve_proof ve) (nd_db s) = (Ok (), nd_db t)"
    "sm_sign E (va_signature_manager V) now (PProof (ve_proof ve)) (va_derivator V) = Ok g"
    "nd_messages t = nd_messages s @ [TaskRequest None (EventMessage
       (ValidatorResponse (vp_event_hash (ve_proof ve)) g (vp_governance_version (ve_proof ve))))
       {sender} direct_response]"
    "resp = \<lparr>vr_validation_signature = g,
       vr_gov_version_validation = vp_governance_version (ve_proof ve)\<rparr>"
proof -
  from run show thesis
    unfolding validation_event_def validation_answer_def
  proof (elim bindA_OkE, goal_cases)
    case (1 v s1 u2 s2 g s3 u4 s4)
    have "v = vp_governance_version (ve_proof ve)" "s1 = s"
      by (rule validation_checks_parts [OF 1(1)], simp)+
    moreover have "set_validation_register E (vp_subject_id (ve_proof ve)) (ve_proof ve) (nd_db s1) =
        (Ok (), nd_db s2)" "nd_messages s2 = nd_messages s1"
      using 1(2) by (auto simp: dbA_eq_Inr)
    ultimately show ?case
      using that [of g] 1 by (auto simp: tell_message_eq_Inr)
  qed
qed

section \<open>The runs of a validator\<close>

text \<open>
  The state is the node and the proofs it has signed and sent so far. A step is a request, or
  anything the other modules do, which may change everything but the register of the
  validator: no other module writes it.
\<close>

definition same_registers :: "('b, 'z) node_scheme \<Rightarrow> ('b, 'z) node_scheme \<Rightarrow> bool" where
  "same_registers s t \<longleftrightarrow>
     (\<forall>r. coll_get (''validation'' @ char_MAX @ r) (nd_db t) =
          coll_get (''validation'' @ char_MAX @ r) (nd_db s))"

inductive validator_step ::
  "'b env \<Rightarrow> validator \<Rightarrow> ('b, 'z) node_scheme \<times> validation_proof list \<Rightarrow>
     ('b, 'z) node_scheme \<times> validation_proof list \<Rightarrow> bool"
  for E V where
  Request: "validation_event E V now ve sender s = (r, t) \<Longrightarrow>
    validator_step E V (s, signed_proofs)
      (t, if is_Ok r then ve_proof ve # signed_proofs else signed_proofs)"
| Others: "same_registers s t \<Longrightarrow> validator_step E V (s, signed_proofs) (t, signed_proofs)"

inductive_cases validator_stepE: "validator_step E V (s, l) (t, l')"

definition validator_run ::
  "'b env \<Rightarrow> validator \<Rightarrow> ('b, 'z) node_scheme \<times> validation_proof list \<Rightarrow>
     ('b, 'z) node_scheme \<times> validation_proof list \<Rightarrow> bool" where
  "validator_run E V = (validator_step E V)\<^sup>*\<^sup>*"

text \<open>The register of a subject covers a proof: it is at a later event, or at the same one.\<close>

definition covered :: "'b env \<Rightarrow> ('b, 'z) node_scheme \<Rightarrow> validation_proof \<Rightarrow> bool" where
  "covered E s p \<longleftrightarrow> (\<exists>q. get_validation_register E (vp_subject_id p) (nd_db s) = Ok q \<and> extends p q)"

definition no_conflict :: "validation_proof list \<Rightarrow> bool" where
  "no_conflict l \<longleftrightarrow> (\<forall>p \<in> set l. \<forall>q \<in> set l.
     di_digest (vp_subject_id p) \<noteq> [] \<and> vp_subject_id p = vp_subject_id q \<and> vp_sn p = vp_sn q \<longrightarrow>
     is_similar p q)"

definition validator_inv :: "'b env \<Rightarrow> ('b, 'z) node_scheme \<times> validation_proof list \<Rightarrow> bool" where
  "validator_inv E x \<longleftrightarrow>
     (\<forall>p \<in> set (snd x). di_digest (vp_subject_id p) \<noteq> [] \<longrightarrow> covered E (fst x) p) \<and> no_conflict (snd x)"

lemma same_registers_get:
  "same_registers s t \<Longrightarrow>
     get_validation_register E d (nd_db t) = get_validation_register E d (nd_db s)"
  by (rule registers.get_local) (simp add: same_registers_def)

lemma register_other:
  assumes "b64_ok (e_b64 E)" "di_digest d \<noteq> []" "d \<noteq> d'"
  shows "get_validation_register E d (snd (set_validation_register E d' p m)) = get_validation_register E d m"
proof (rule registers.get_local, rule registers.put_local)
  show "''validation'' @ char_MAX @ dstr E d \<noteq> ''validation'' @ char_MAX @ dstr E d'"
    using dstr_inject_left [OF assms(1,2), of d'] assms(3) by auto
qed simp

lemma covered_after:
  assumes "b64_ok (e_b64 E)" "codec_ok (c_proof E)"
    and set: "set_validation_register E (vp_subject_id n) n (nd_db s) = (Ok (), nd_db t)"
    and ext: "\<And>lastp. get_validation_register E (vp_subject_id n) (nd_db s) = Ok lastp \<Longrightarrow> extends lastp n"
    and p: "di_digest (vp_subject_id p) \<noteq> []" "covered E s p"
  shows "covered E t p"
proof (cases "vp_subject_id p = vp_subject_id n")
  case True
  then have "get_validation_register E (vp_subject_id p) (nd_db t) = Ok n"
    using registers.get_put [OF assms(2) _ set] by simp
  moreover have "extends p n"
    using p(2) ext True extends_trans by (auto simp: covered_def)
  ultimately show ?thesis by (auto simp: covered_def)
next
  case False
  then have "get_validation_register E (vp_subject_id p) (nd_db t) =
      get_validation_register E (vp_subject_id p) (nd_db s)"
    using register_other [OF assms(1) p(1), of "vp_subject_id n" n "nd_db s"] set by simp
  then show ?thesis using p(2) by (simp add: covered_def)
qed

text \<open>The new proof does not conflict with a covered one.\<close>

lemma covered_similar:
  assumes "covered E s p" "vp_subject_id p = vp_subject_id n" "vp_sn p = vp_sn n"
    and ext: "\<And>lastp. get_validation_register E (vp_subject_id n) (nd_db s) = Ok lastp \<Longrightarrow> extends lastp n"
  shows "is_similar p n"
proof -
  obtain q where "get_validation_register E (vp_subject_id n) (nd_db s) = Ok q" "extends p q"
    using assms(1,2) by (auto simp: covered_def)
  then have "extends p n" using ext extends_trans by blast
  then show ?thesis using assms(3) by (simp add: extends_def)
qed

lemma validator_step_inv:
  assumes ok: "b64_ok (e_b64 E)" "codec_ok (c_proof E)"
    and "validator_step E V x y" "validator_inv E x"
  shows "validator_inv E y"
  using assms(3,4)
proof (cases rule: validator_step.cases)
  case (Request now ve sender s r t l)
  let ?n = "ve_proof ve"
  have cov: "\<forall>p \<in> set l. di_digest (vp_subject_id p) \<noteq> [] \<longrightarrow> covered E s p" and nc: "no_conflict l"
    using assms(4) Request(1) by (simp_all add: validator_inv_def)
  from Request(3) show ?thesis
  proof (cases rule: validation_event_register)
    case 1
    then show ?thesis
      using cov nc Request(2) by (simp add: validator_inv_def covered_def)
  next
    case 2
    have cov': "\<forall>p \<in> set l. di_digest (vp_subject_id p) \<noteq> [] \<longrightarrow> covered E t p"
      using cov covered_after [OF ok 2] by blast
    have "get_validation_register E (vp_subject_id ?n) (nd_db t) = Ok ?n"
      using registers.get_put [OF ok(2) _ 2(1)] by simp
    then have n: "covered E t ?n" by (simp add: covered_def)
    have "is_similar p ?n \<and> is_similar ?n p" if "p \<in> set l" "di_digest (vp_subject_id p) \<noteq> []"
      "vp_subject_id p = vp_subject_id ?n" "vp_sn p = vp_sn ?n" for p
      using covered_similar [of E s p ?n] cov that 2(2) is_similar_sym by blast
    then have "no_conflict (?n # l)"
      using nc by (auto simp: no_conflict_def)
    then show ?thesis
      using cov' n nc Request(2) by (simp add: validator_inv_def)
  qed
next
  case (Others s t l)
  then show ?thesis
    using assms(4) by (simp add: validator_inv_def covered_def same_registers_get)
qed

lemma validator_run_inv:
  assumes "b64_ok (e_b64 E)" "codec_ok (c_proof E)" "validator_run E V x y" "validator_inv E x"
  shows "validator_inv E y"
  using assms(3) unfolding validator_run_def
  by (induction rule: rtranclp_induct) (use assms validator_step_inv in blast)+

lemma validator_inv_start: "validator_inv E (s, [])"
  by (simp add: validator_inv_def no_conflict_def)

end
