(* ===== verification/Sample_Runs.thy ===== *)
theory Sample_Runs
  imports Samples Validation
begin

text \<open>
  Concrete subjects, proofs and nodes over the sample environment, for evaluating the modules:
  a governance with identifier 2 at version 0, owned by node 1, that names node 3 and node 4.
\<close>

section \<open>A governance\<close>

definition sample_subject :: "digest_identifier \<Rightarrow> digest_identifier \<Rightarrow> string \<Rightarrow> u64 \<Rightarrow> json \<Rightarrow> subject" where
  "sample_subject i gov schema_id sn state = \<lparr>
     su_keys = None,
     su_subject_id = i,
     su_governance_id = gov,
     su_sn = sn,
     su_genesis_gov_version = 0,
     su_public_key = sample_key 9,
     su_namespace = ''ns'',
     su_name = ''name'',
     su_schema_id = schema_id,
     su_owner = sample_key 1,
     su_creator = sample_key 1,
     su_properties = state,
     su_active = True\<rparr>"

definition sample_governance :: subject where
  "sample_governance =
     sample_subject (sample_id 2) default_digest ''governance'' 0 get_governance_initial_state"

definition sample_db :: "blob data_store" where
  "sample_db = snd (set_subject sample_env (sample_id 2) sample_governance [])"

definition sample_node :: "blob data_store \<Rightarrow> blob node" where
  "sample_node db = \<lparr>
     nd_db = db,
     nd_gov_alive = True,
     nd_gov_updates = [],
     nd_message_open = True,
     nd_messages = [],
     nd_distribution_open = True,
     nd_distribution = [],
     nd_notification_open = True,
     nd_notifications = []\<rparr>"

section \<open>A validation request\<close>

definition sample_proof :: validation_proof where
  "sample_proof = \<lparr>
     vp_subject_id = sample_id 5,
     vp_schema_id = ''schema'',
     vp_namespace = ''ns'',
     vp_name = ''name'',
     vp_subject_public_key = sample_key 9,
     vp_governance_id = sample_id 2,
     vp_genesis_governance_version = 0,
     vp_sn = 0,
     vp_prev_event_hash = default_digest,
     vp_event_hash = sample_id 6,
     vp_governance_version = 0\<rparr>"

definition sample_validator :: validator where
  "sample_validator = \<lparr>
     va_signature_manager = self_signature_manager_new (sample_keys 3) Blake3_256,
     va_derivator = Blake3_256\<rparr>"

definition sample_request :: validation_event where
  "sample_request = \<lparr>
     ve_proof = sample_proof,
     ve_subject_signature = sample_signature 9,
     ve_previous_proof = None,
     ve_prev_event_validation_signatures = []\<rparr>"

text \<open>What the sample database holds, by the laws of the tables.\<close>

lemma set_subject_sample: "set_subject sample_env d x m = (Ok (), snd (set_subject sample_env d x m))"
  by (simp add: set_subject_def get_key_eval kv_put_def sample_env_def coll_put_def)

lemma get_subject_sample_set [simp]:
  "get_subject sample_env d (snd (set_subject sample_env d x m)) = Ok x"
  by (rule subjects.get_put [OF _ _ set_subject_sample]) simp_all

lemma register_subject [simp]:
  "get_validation_register E d (snd (set_subject E' d' x m)) = get_validation_register E d m"
  by (rule registers.get_foreign [OF subjects.writes_table]) simp_all

lemma register_empty [simp]: "get_validation_register E d [] = Fail EntryNotFound"
  by (rule registers.get_missing) (simp add: coll_get_def)

lemma set_register_sample:
  "set_validation_register sample_env d x m = (Ok (), snd (set_validation_register sample_env d x m))"
  by (simp add: set_validation_register_def get_key_eval kv_put_def sample_env_def coll_put_def)

lemma sample_sign: "sm_sign sample_env (self_signature_manager_new (sample_keys n) d) now p d' = Ok (
    \<lparr>sg_signer = sample_key n, sg_timestamp = now, sg_content_hash = new_digest d' sample_hash,
     sg_value = new_signature_id Ed25519Sha512 [n]\<rparr>)"
  by (simp add: sm_sign_def signature_new_def self_signature_manager_new_def sample_keys_def
      from_serializable_borsh_def sample_env_def sample_key_def new_key_def)

lemma sample_version [simp]:
  "get_governance_version sample_env d (sample_id 2) sample_db = Ok 0"
  by (simp add: get_governance_version_def sample_db_def sample_governance_def sample_subject_def
      digest_to_str_def derivable_to_str_def default_digest_def)

lemma sample_db_register [simp]: "get_validation_register E d sample_db = Fail EntryNotFound"
  by (simp add: sample_db_def)

lemma sample_request_sel [simp]:
  "ve_proof sample_request = sample_proof"
  "ve_subject_signature sample_request = sample_signature 9"
  "ve_previous_proof sample_request = None"
  "vp_schema_id sample_proof = ''schema''" "vp_sn sample_proof = 0"
  "vp_governance_version sample_proof = 0" "vp_genesis_governance_version sample_proof = 0"
  "vp_governance_id sample_proof = sample_id 2" "vp_subject_id sample_proof = sample_id 5"
  "vp_subject_public_key sample_proof = sample_key 9"
  "sg_signer (sample_signature n) = sample_key n"
  "va_signature_manager sample_validator = self_signature_manager_new (sample_keys 3) Blake3_256"
  by (simp_all add: sample_request_def sample_proof_def sample_signature_def sample_validator_def)

lemma sample_node_sel [simp]:
  "nd_db (sample_node m) = m" "nd_gov_alive (sample_node m)" "nd_message_open (sample_node m)"
  by (simp_all add: sample_node_def)

lemma sample_checks:
  "validation_checks sample_env sample_validator sample_request who (sample_node sample_db) =
     (Ok 0, sample_node sample_db)"
  by (simp add: validation_checks_def actual_version_def ask_gov_def read_register_def db_case_def
      check_proofs_def bindA_run)

definition sample_registered :: "blob data_store" where
  "sample_registered = snd (set_validation_register sample_env (sample_id 5) sample_proof sample_db)"

lemma sample_registered [simp]:
  "set_validation_register sample_env (sample_id 5) sample_proof sample_db = (Ok (), sample_registered)"
  unfolding sample_registered_def by (rule set_register_sample)

lemma sample_request_Ok:
  "is_Ok (fst (validation_event sample_env sample_validator now sample_request who
     (sample_node sample_db)))"
  by (simp add: validation_event_def validation_answer_def sample_checks bindA_run dbA_def zoomA_def
      sample_sign tell_message_def)

section \<open>A second event\<close>

definition sample_proof_1 :: validation_proof where
  "sample_proof_1 = sample_proof\<lparr>vp_sn := 1, vp_prev_event_hash := sample_id 6, vp_event_hash := sample_id 7\<rparr>"

definition sample_request_1 :: validation_event where
  "sample_request_1 = \<lparr>
     ve_proof = sample_proof_1,
     ve_subject_signature = sample_signature 9,
     ve_previous_proof = Some sample_proof,
     ve_prev_event_validation_signatures = []\<rparr>"

lemma sample_request_1_sel [simp]:
  "ve_proof sample_request_1 = sample_proof_1"
  "ve_subject_signature sample_request_1 = sample_signature 9"
  "ve_previous_proof sample_request_1 = Some sample_proof"
  "vp_schema_id sample_proof_1 = ''schema''" "vp_sn sample_proof_1 = 1"
  "vp_governance_version sample_proof_1 = 0"
  "vp_governance_id sample_proof_1 = sample_id 2" "vp_subject_id sample_proof_1 = sample_id 5"
  "follows sample_proof sample_proof_1"
  by (simp_all add: sample_request_1_def sample_proof_1_def sample_proof_def follows_def)

lemma sample_registered_reads [simp]:
  "get_validation_register sample_env (sample_id 5) sample_registered = Ok sample_proof"
  "get_governance_version sample_env d (sample_id 2) sample_registered = Ok 0"
proof -
  show "get_validation_register sample_env (sample_id 5) sample_registered = Ok sample_proof"
    by (rule registers.get_put [OF _ _ sample_registered]) simp_all
  have "get_subject sample_env (sample_id 2) sample_registered = get_subject sample_env (sample_id 2) sample_db"
    unfolding sample_registered_def by (rule subjects.get_foreign [OF registers.writes_table]) simp_all
  then show "get_governance_version sample_env d (sample_id 2) sample_registered = Ok 0"
    using sample_version [of d] by (simp add: get_governance_version_def)
qed

lemma sample_request_1_Ok:
  "is_Ok (fst (validation_event sample_env sample_validator now sample_request_1 who
     (sample_node sample_registered)))"
proof -
  have "validation_checks sample_env sample_validator sample_request_1 who (sample_node sample_registered) =
     (Ok 0, sample_node sample_registered)"
    by (simp add: validation_checks_def actual_version_def ask_gov_def read_register_def db_case_def
        check_proofs_def validate_previous_proof_def bindA_run)
  moreover obtain m where "set_validation_register sample_env (sample_id 5) sample_proof_1 sample_registered = (Ok (), m)"
    using set_register_sample by blast
  ultimately show ?thesis
    by (simp add: validation_event_def validation_answer_def bindA_run dbA_def zoomA_def
        sample_sign tell_message_def)
qed

lemma sample_keys_ok [simp]: "key_pair_ok sample_env (sample_keys n)"
  by (simp add: key_pair_ok_def sample_env_def)

end
