(* ===== verification/Sample_Ledger.thy ===== *)
theory Sample_Ledger
  imports Sample_Runs Ledger_Sync_Laws
begin

text \<open>
  Concrete ledgers over the sample environment and the runs of the ledger on them. The database
  after a write is kept as \<open>db_after\<close>, about which only the laws of the tables are used.
\<close>

section \<open>The database after a write\<close>

definition db_after :: "('s \<Rightarrow> 'a \<times> 's) \<Rightarrow> 's \<Rightarrow> 's" where
  "db_after m s = snd (m s)"

lemma sample_puts [simp]:
  "set_subject sample_env i x m = (Ok (), db_after (set_subject sample_env i x) m)"
  "set_event sample_env i ev m = (Ok (), db_after (set_event sample_env i ev) m)"
  "set_taple_request sample_env i r m = (Ok (), db_after (set_taple_request sample_env i r) m)"
  "set_lce_validation_proof sample_env i p m = (Ok (), db_after (set_lce_validation_proof sample_env i p) m)"
  "set_governance_index sample_env i j m = (Ok (), db_after (set_governance_index sample_env i j) m)"
  "del_lce_validation_proof sample_env i m = (Ok (), db_after (del_lce_validation_proof sample_env i) m)"
  "del_signatures sample_env i sn m = (Ok (), db_after (del_signatures sample_env i sn) m)"
  by (simp_all add: db_after_def set_subject_def set_event_def set_taple_request_def
      set_lce_validation_proof_def set_governance_index_def del_lce_validation_proof_def
      del_signatures_def get_key_eval kv_put_def sample_env_def coll_put_def coll_del_def)

text \<open>The tables the ledger does not write through an interpretation of the contract.\<close>

lemma get_approval_foreign:
  "writes p m m' \<Longrightarrow> p \<noteq> ''approvals'' \<Longrightarrow> sep_free p \<Longrightarrow> get_approval E h m' = get_approval E h m"
  using append_sep_inject [OF prefixes_free(9), of p]
  by (simp add: get_approval_def get_key_eval kv_get_def writes_def) metis

lemma sample_set_signatures [simp]:
  assumes "get_signatures sample_env i sn m = Fail EntryNotFound"
  shows "set_signatures sample_env i sn gs p m = (Ok (), db_after (set_signatures sample_env i sn gs p) m)"
proof -
  have "coll_get (''signature'' @ char_MAX @ dstr sample_env i @ char_MAX @ get_u64_as_hexadecimal sn) m =
      Fail EntryNotFound"
    using assms by (auto simp: get_signatures_def get_key_eval kv_get_def coll_get_def split: option.splits)
      (auto simp: ok_or_def split: option.splits)
  then show ?thesis
    by (simp add: db_after_def set_signatures_def get_key_eval kv_put_def bindA_run coll_put_def
        sample_env_def)
qed

lemma writes_after [simp]:
  "writes ''subject'' m (db_after (set_subject E i x) m)"
  "writes ''event'' m (db_after (set_event E i ev) m)"
  "writes ''taple-request'' m (db_after (set_taple_request E i r) m)"
  "writes ''signature'' m (db_after (set_signatures E i sn gs p) m)"
  "writes ''signature'' m (db_after (del_signatures E i sn) m)"
  "writes ''lce-validation-proofs'' m (db_after (set_lce_validation_proof E i p) m)"
  "writes ''lce-validation-proofs'' m (db_after (del_lce_validation_proof E i) m)"
  by (simp_all add: db_after_def layer_writes lce_proofs.writes_table)

text \<open>Reading what was just written, and through writes to other tables.\<close>

lemma sample_get_put [simp]:
  "get_subject sample_env i (db_after (set_subject sample_env i x) m) = Ok x"
  "get_event sample_env i sn (db_after (set_event sample_env i ev) m) =
     (if sn = ev_sn (content ev) then Ok ev else get_event sample_env i sn m)"
  if "id_valid sample_env i"
proof -
  show "get_subject sample_env i (db_after (set_subject sample_env i x) m) = Ok x"
    unfolding db_after_def by (rule get_subject_sample_set)
  have "get_event sample_env i (ev_sn (content ev)) (db_after (set_event sample_env i ev) m) = Ok ev"
    by (rule events.get_put [of sample_env ev "(i, ev_sn (content ev))", simplified]) simp
  moreover have "sn \<noteq> ev_sn (content ev) \<Longrightarrow>
      get_event sample_env i sn (db_after (set_event sample_env i ev) m) = get_event sample_env i sn m"
    using events.get_put_other [of sample_env "(i, ev_sn (content ev))" "(i, sn)" ev m] that
    by (simp add: db_after_def del: sample_puts)
  ultimately show "get_event sample_env i sn (db_after (set_event sample_env i ev) m) =
     (if sn = ev_sn (content ev) then Ok ev else get_event sample_env i sn m)"
    by simp
qed

lemma sample_get_lce [simp]:
  "get_lce_validation_proof sample_env i (db_after (set_lce_validation_proof sample_env i p) m) = Ok p"
  using lce_proofs.get_put [OF _ _ sample_puts(4)] by simp

lemma sample_get_subject_other [simp]:
  "i \<noteq> j \<Longrightarrow> id_valid sample_env i \<Longrightarrow> id_valid sample_env j \<Longrightarrow>
     get_subject sample_env i (db_after (set_subject sample_env j x) m) = get_subject sample_env i m"
  unfolding db_after_def by (rule subjects.get_put_other) auto

lemmas foreign_reads =
  subjects.get_foreign [OF writes_after(2)] subjects.get_foreign [OF writes_after(3)]
  subjects.get_foreign [OF writes_after(4)] subjects.get_foreign [OF writes_after(5)]
  subjects.get_foreign [OF writes_after(6)] subjects.get_foreign [OF writes_after(7)]
  get_signatures_foreign [OF writes_after(1)] get_signatures_foreign [OF writes_after(2)]
  get_signatures_foreign [OF writes_after(3)] get_signatures_foreign [OF writes_after(6)]
  get_approval_foreign [OF writes_after(1)] get_approval_foreign [OF writes_after(2)]
  get_approval_foreign [OF writes_after(3)] get_approval_foreign [OF writes_after(4)]
  taple_requests.get_foreign [OF writes_after(1)] taple_requests.get_foreign [OF writes_after(2)]
  taple_requests.get_foreign [OF writes_after(6)]
  lce_proofs.get_foreign [OF writes_after(1)] lce_proofs.get_foreign [OF writes_after(2)]
  lce_proofs.get_foreign [OF writes_after(3)]

lemmas event_foreign = events.get_foreign [where k = "(i, sn)" for i sn, simplified]

lemmas event_reads =
  event_foreign [OF writes_after(1)] event_foreign [OF writes_after(3)]
  event_foreign [OF writes_after(4)] event_foreign [OF writes_after(5)]
  event_foreign [OF writes_after(6)] event_foreign [OF writes_after(7)]

lemma empty_reads [simp]:
  "get_subject E i [] = Fail EntryNotFound" "get_event E i sn [] = Fail EntryNotFound"
  "get_signatures E i sn [] = Fail EntryNotFound" "get_approval E i [] = Fail EntryNotFound"
  "get_taple_request E i [] = Fail EntryNotFound"
  by (simp_all add: get_subject_def get_event_def get_signatures_def get_approval_def
      get_taple_request_def get_key_eval kv_get_def coll_get_def)


lemma db_after_fold: "snd (set_subject sample_env i x m) = db_after (set_subject sample_env i x) m"
  by (simp only: db_after_def)

section \<open>Events of subject 5\<close>

definition sample_event :: "event_request \<Rightarrow> u64 \<Rightarrow> bool \<Rightarrow> event signed" where
  "sample_event er sn approved = \<lparr>
     content = \<lparr>
       ev_subject_id = sample_id 5,
       ev_event_request = \<lparr>content = er, signature = sample_signature 1\<rparr>,
       ev_sn = sn,
       ev_gov_version = 0,
       ev_patch = JArray [],
       ev_state_hash = new_digest Blake3_256 sample_hash,
       ev_eval_success = True,
       ev_appr_required = False,
       ev_approved = approved,
       ev_hash_prev_event = new_digest Blake3_256 sample_hash,
       ev_evaluators = [sample_signature 1],
       ev_approvers = [sample_signature 1]\<rparr>,
     signature = sample_signature 9\<rparr>"

definition sample_start :: start_request where
  "sample_start = \<lparr>
     st_governance_id = sample_id 2,
     st_schema_id = ''schema'',
     st_namespace = ''ns'',
     st_name = ''name'',
     st_public_key = sample_key 9\<rparr>"

definition sample_fact :: fact_request where
  "sample_fact = \<lparr>fa_subject_id = sample_id 5, fa_payload = JNull\<rparr>"

definition sample_transfer :: transfer_request where
  "sample_transfer = \<lparr>tr_subject_id = sample_id 5, tr_public_key = sample_key 8\<rparr>"

definition sample_eol :: eol_request where
  "sample_eol = \<lparr>eo_subject_id = sample_id 5\<rparr>"

lemma sample_event_sel [simp]:
  "ev_subject_id (content (sample_event er sn a)) = sample_id 5"
  "content (ev_event_request (content (sample_event er sn a))) = er"
  "signature (ev_event_request (content (sample_event er sn a))) = sample_signature 1"
  "ev_sn (content (sample_event er sn a)) = sn"
  "ev_gov_version (content (sample_event er sn a)) = 0"
  "ev_patch (content (sample_event er sn a)) = JArray []"
  "ev_eval_success (content (sample_event er sn a))"
  "ev_appr_required (content (sample_event er sn a)) = False"
  "ev_approved (content (sample_event er sn a)) = a"
  "ev_hash_prev_event (content (sample_event er sn a)) = new_digest Blake3_256 sample_hash"
  "ev_evaluators (content (sample_event er sn a)) = [sample_signature 1]"
  "ev_approvers (content (sample_event er sn a)) = [sample_signature 1]"
  "signature (sample_event er sn a) = sample_signature 9"
  "fa_subject_id sample_fact = sample_id 5" "tr_subject_id sample_transfer = sample_id 5"
  "tr_public_key sample_transfer = sample_key 8" "eo_subject_id sample_eol = sample_id 5"
  by (simp_all add: sample_event_def sample_fact_def sample_transfer_def sample_eol_def)

section \<open>Ledgers\<close>

text \<open>Node 3 with a database, in which subject 5 is at the given position.\<close>

definition sample_ledger :: "blob data_store \<Rightarrow> u64 option \<Rightarrow> u64 option \<Rightarrow> blob ledger" where
  "sample_ledger db c h = \<lparr>
     nd_db = db,
     nd_gov_alive = True,
     nd_gov_updates = [],
     nd_message_open = True,
     nd_messages = [],
     nd_distribution_open = True,
     nd_distribution = [],
     nd_notification_open = True,
     nd_notifications = [],
     lg_subject_is_gov = [sample_id 5 \<mapsto> False],
     lg_ledger_state = [sample_id 5 \<mapsto> \<lparr>ls_current_sn = c, ls_head = h\<rparr>]\<rparr>"

definition sample_config :: ledger_config where
  "sample_config = \<lparr>lc_our_id = sample_key 3, lc_derivator = Blake3_256\<rparr>"

definition sample_subject_5 :: subject where
  "sample_subject_5 = sample_subject (sample_id 5) (sample_id 2) ''schema'' 0 JNull"

definition ledger_db :: "blob data_store" where
  "ledger_db = db_after (set_subject sample_env (sample_id 5) sample_subject_5)
     (db_after (set_event sample_env (sample_id 5) (sample_event (Create sample_start) 0 True)) sample_db)"

lemma sample_ledger_sel [simp]:
  "nd_db (sample_ledger db c h) = db" "nd_gov_alive (sample_ledger db c h)"
  "nd_message_open (sample_ledger db c h)" "nd_distribution_open (sample_ledger db c h)"
  "lg_subject_is_gov (sample_ledger db c h) = [sample_id 5 \<mapsto> False]"
  "lg_ledger_state (sample_ledger db c h) = [sample_id 5 \<mapsto> \<lparr>ls_current_sn = c, ls_head = h\<rparr>]"
  "lc_our_id sample_config = sample_key 3" "su_sn sample_subject_5 = 0"
  "su_subject_id sample_subject_5 = sample_id 5" "su_governance_id sample_subject_5 = sample_id 2"
  "su_owner sample_subject_5 = sample_key 1"
  by (simp_all add: sample_ledger_def sample_config_def sample_subject_5_def sample_subject_def)

lemma sample_inject [simp]:
  "sample_id n = sample_id k \<longleftrightarrow> n = k" "sample_key n = sample_key k \<longleftrightarrow> n = k"
  by (simp_all add: sample_id_def sample_key_def new_digest_def new_key_def replicate_eq_replicate)

lemma new_digest_sel [simp]: "di_derivator (new_digest d h) = d" "di_digest (new_digest d h) = h"
  by (simp_all add: new_digest_def)

lemma sample_hashes [simp]:
  "from_serializable_borsh sample_env p d = Ok (new_digest d sample_hash)"
  "generate_with_blake3 sample_env p = Ok (new_digest Blake3_256 sample_hash)"
  by (simp_all add: from_serializable_borsh_def generate_with_blake3_def sample_env_def)

lemma ledger_db_reads [simp]:
  "get_subject sample_env (sample_id 5) ledger_db = Ok sample_subject_5"
  "get_subject sample_env (sample_id 2) ledger_db = Ok sample_governance"
  "get_signatures sample_env (sample_id 5) sn ledger_db = Fail EntryNotFound"
  "get_event sample_env (sample_id 5) 0 ledger_db = Ok (sample_event (Create sample_start) 0 True)"
  "get_taple_request sample_env d ledger_db = Fail EntryNotFound"
  "get_approval sample_env d ledger_db = Fail EntryNotFound"
  by (simp_all add: ledger_db_def sample_db_def db_after_fold foreign_reads event_reads)

section \<open>A validated event of each kind\<close>

lemmas run_ledger = event_validated_def validated_request_def validated_fact_def validated_transfer_def
  validated_eol_def after_event_def set_finished_request_def request_hash_def advance_state_def
  lread_or_def lread_def ldb_def lift_subject_def db_read_def dbA_def zoomA_def set_state_def
  notify_run tell_distribution_def taple_request_from_def bindA_run update_subject_def Let_def

lemma sample_patch [simp]: "e_is_patch sample_env p" "e_patch sample_env v p = Some p"
  by (simp_all add: sample_env_def)

lemma sample_validated:
  "is_Ok (fst (event_validated sample_env sample_config (sample_event (Fact sample_fact) 1 True) [] sample_proof
     (sample_ledger ledger_db (Some 0) None)))"
  "is_Ok (fst (event_validated sample_env sample_config (sample_event (Transfer sample_transfer) 1 True) []
     sample_proof (sample_ledger ledger_db (Some 0) None)))"
  "is_Ok (fst (event_validated sample_env sample_config (sample_event (EOL sample_eol) 1 True) []
     sample_proof (sample_ledger ledger_db (Some 0) None)))"
  by (simp_all add: run_ledger foreign_reads)

section \<open>Catching up\<close>

lemmas run_sync = run_ledger external_intermediate_event_def check_new_request_def db_case_def
  intermediate_subject_id_def intermediate_next_def check_transfer_event_def get_approval_hash_def
  approval_request_hash_def obsolete_approval_def event_sourcing_def event_sourcing_transfer_def
  check_prev_hash_def content_hash_as_def ask_next_def get_witnesses_def lask_def ask_gov_def
  tell_message_def verify_event_signatures_def event_request_verify_def

lemma sample_witnesses:
  assumes "get_subject sample_env (sample_id 2) m = Ok sample_governance"
  shows "get_signers sample_env \<lparr>md_namespace = ns, md_subject_id = i, md_governance_id = sample_id 2,
     md_governance_version = v, md_schema_id = sc\<rparr> Witness m = Ok {sample_key 1}"
  using assms
  by (simp add: get_signers_def signers_version_def gov_of_def sourced_def governance_event_sourcing_def
      sample_governance_def sample_subject_def get_governance_initial_state_def mk_role_def
      get_members_from_governance_def role_applies_def Let_def)

lemma sample_synced:
  "is_Ok (fst (external_intermediate_event sample_env sample_config
     (sample_event (Transfer sample_transfer) 1 True) (sample_ledger ledger_db (Some 0) (Some 3))))"
  by (simp add: run_sync foreign_reads event_reads sample_witnesses)

text \<open>The head at version 1, with its proof stored.\<close>

definition sample_head_proof :: validation_proof where
  "sample_head_proof = new_from_transfer_event sample_subject_5 1 (new_digest Blake3_256 sample_hash)
     (new_digest Blake3_256 sample_hash) 0 (sample_key 8)"

definition head_db :: "blob data_store" where
  "head_db = db_after (set_lce_validation_proof sample_env (sample_id 5) sample_head_proof)
     (db_after (set_event sample_env (sample_id 5) (sample_event (Transfer sample_transfer) 1 True))
       ledger_db)"

lemma head_db_reads [simp]:
  "get_subject sample_env (sample_id 5) head_db = Ok sample_subject_5"
  "get_subject sample_env (sample_id 2) head_db = Ok sample_governance"
  "get_event sample_env (sample_id 5) 0 head_db = Ok (sample_event (Create sample_start) 0 True)"
  "get_event sample_env (sample_id 5) 1 head_db = Ok (sample_event (Transfer sample_transfer) 1 True)"
  "get_lce_validation_proof sample_env (sample_id 5) head_db = Ok sample_head_proof"
  by (simp_all add: head_db_def foreign_reads event_reads)

lemma sample_head_applied:
  "is_Ok (fst (apply_head sample_env sample_config (sample_id 5) 1 sample_subject_5
     (sample_ledger head_db (Some 0) (Some 1))))"
  by (simp add: run_sync apply_head_def foreign_reads event_reads check_validation_proof_def
      proof_prev_hash_def sample_head_proof_def new_from_transfer_event_def)

section \<open>A governance event and its evaluation\<close>

definition sample_metadata :: metadata where
  "sample_metadata = \<lparr>
     md_namespace = ''ns'',
     md_subject_id = sample_id 2,
     md_governance_id = default_digest,
     md_governance_version = 0,
     md_schema_id = ''governance''\<rparr>"

lemma sample_sourced:
  "sourced sample_env (gov_of sample_metadata) 0 ledger_db = Ok sample_governance"
  by (simp add: sourced_def gov_of_def sample_metadata_def default_digest_def
      governance_event_sourcing_def sample_governance_def sample_subject_def)

lemma sample_signers:
  "stage \<in> {Evaluate, Approve, Validate} \<Longrightarrow>
     get_signers sample_env sample_metadata stage ledger_db = Ok {sample_key 1}"
  using sample_sourced
  by (auto simp: get_signers_def signers_version_def sample_metadata_def
      sample_governance_def sample_subject_def get_governance_initial_state_def mk_role_def
      get_members_from_governance_def Let_def)

lemma sample_quorum:
  "stage \<in> {Evaluate, Approve, Validate} \<Longrightarrow>
     get_quorum sample_env sample_metadata stage ledger_db = Ok 1"
  using sample_sourced sample_signers [of stage]
  by (auto simp: get_quorum_def quorum_size_def sample_metadata_def sample_governance_def
      sample_subject_def get_governance_initial_state_def get_as_array_def policy_quorum_def)

lemma sample_checked:
  "check_event sample_env (sample_event (Fact sample_fact) 1 True) sample_metadata
     (get_subject_context sample_governance (sample_key 1)) (sample_ledger ledger_db (Some 0) None) =
     (Ok (), sample_ledger ledger_db (Some 0) None)"
  by (simp add: check_event_def get_signers_and_quorum_def lask_def ask_gov_def bindA_run
      sample_signers sample_quorum lift_subject_def quorum_negative_def verify_eval_appr_def
      event_evaluation_response_def evaluation_request_hash_def check_quorum_def)

section \<open>A governance with a past\<close>

text \<open>The governance at version 2, the first of whose events was not approved.\<close>

definition governance_db :: "blob data_store" where
  "governance_db =
     db_after (set_subject sample_env (sample_id 2) (sample_governance\<lparr>su_sn := 2\<rparr>))
     (db_after (set_event sample_env (sample_id 2) (sample_event (Fact sample_fact) 1 False))
     (db_after (set_event sample_env (sample_id 2) (sample_event (Create sample_start) 0 True)) []))"

lemma governance_db_reads [simp]:
  "get_subject sample_env (sample_id 2) governance_db = Ok (sample_governance\<lparr>su_sn := 2\<rparr>)"
  "get_event sample_env (sample_id 2) 0 governance_db = Ok (sample_event (Create sample_start) 0 True)"
  "get_event sample_env (sample_id 2) 1 governance_db = Ok (sample_event (Fact sample_fact) 1 False)"
  by (simp_all add: governance_db_def foreign_reads event_reads)

lemma sample_past: "is_Ok (governance_event_sourcing sample_env (sample_id 2) 1 governance_db)"
  by (simp add: governance_event_sourcing_def from_genesis_event_def generate_subject_id_def
      update_subject_def)

end
