(* ===== verification/Ledger_External.thy ===== *)
theory Ledger_External
  imports Ledger_Sync
begin

text \<open>
  The last candidate event of a subject, received from another node with its validation
  signatures and proof (\<^verbatim>\<open>external_event\<close> of \<^verbatim>\<open>ledger/ledger.rs\<close>). If it is the next event of the
  subject it is applied; if it is a later one it becomes the head, and the events between are
  asked for; of an unknown subject the genesis event is asked for. Each kind of request has its own
  branches, which differ in the order of their writes and in their checks.
\<close>

section \<open>Steps the branches share\<close>

definition sender_config :: message_config where
  "sender_config = \<lparr>mc_timeout = 2000, mc_replication_factor = 0x3FF0000000000000\<rparr>"

definition ask_sender :: "taple_messages \<Rightarrow> key_identifier \<Rightarrow> ('b, unit) lact" where
  "ask_sender msg sender = tell_message LChannelError (TaskRequest None msg {sender} sender_config)"

text \<open>The events of a governance are taken in order: an event that comes too early is refused, and
  the sender asked for the one after ours.\<close>

definition refuse_governance ::
  "'b env \<Rightarrow> ledger_config \<Rightarrow> digest_identifier \<Rightarrow> digest_identifier \<Rightarrow> u64 \<Rightarrow> key_identifier \<Rightarrow> ('b, unit) lact"
  where
  "refuse_governance E C i asked_id sn sender =
     bindA (ask_sender (request_gov_event (lc_our_id C) asked_id sn) sender) (\<lambda>_.
     failA (GovernanceLCE (dstr E i)))"

definition check_position :: "ledger_state \<Rightarrow> u64 \<Rightarrow> (unit, ledger_error) res" where
  "check_position l sn =
     (case ls_current_sn l of
        Some current_sn \<Rightarrow> fail_if (sn \<le> current_sn) EventAlreadyExists
      | None \<Rightarrow> Fail LCEBiggerSN)"

definition known_subject ::
  "'b env \<Rightarrow> ledger_config \<Rightarrow> digest_identifier \<Rightarrow> key_identifier \<Rightarrow> ledger_error \<Rightarrow> ('b, subject) lact" where
  "known_subject E C i sender not_found =
     db_case (get_subject E i) (\<lambda>r.
       case r of
         Inr subject \<Rightarrow> retA subject
       | Inl (Err EntryNotFound) \<Rightarrow>
           bindA (ask_sender (request_event (lc_our_id C) i 0) sender) (\<lambda>_. failA not_found)
       | Inl e \<Rightarrow> liftA (map_err LDatabaseError (Inl e)))"

definition is_gov_of :: "digest_identifier \<Rightarrow> ('b, bool) lact" where
  "is_gov_of i = getA (\<lambda>s. unwrap (lg_subject_is_gov s i))"

definition check_preauthorized ::
  "'b env \<Rightarrow> digest_identifier \<Rightarrow> ledger_error \<Rightarrow> ('b, unit) lact" where
  "check_preauthorized E i not_found =
     db_case (get_preauthorized_subject_and_providers E i) (\<lambda>r.
       case r of
         Inr _ \<Rightarrow> retA ()
       | Inl (Err EntryNotFound) \<Rightarrow> failA not_found
       | Inl e \<Rightarrow> liftA (map_err LDatabaseError (Inl e)))"

text \<open>The witnesses, if we are one of them or the subject is preauthorised.\<close>

definition check_witness ::
  "'b env \<Rightarrow> ledger_config \<Rightarrow> metadata \<Rightarrow> digest_identifier \<Rightarrow> ('b, key_identifier set) lact" where
  "check_witness E C md i =
     bindA (get_witnesses E md) (\<lambda>witnesses.
     bindA (if lc_our_id C \<in> witnesses then retA ()
       else check_preauthorized E (md_subject_id md) (WeAreNotWitnesses (dstr E i))) (\<lambda>_.
     retA witnesses))"

definition check_validators ::
  "'b env \<Rightarrow> metadata \<Rightarrow> signature list \<Rightarrow> validation_proof \<Rightarrow> ('b, unit) lact" where
  "check_validators E md gs p =
     bindA (get_signers_and_quorum E md Validate) (\<lambda>(signers, quorum).
     liftA (verify_signatures E gs signers quorum p))"

definition check_proof ::
  "'b env \<Rightarrow> validation_proof \<Rightarrow> subject \<Rightarrow> digest_identifier \<Rightarrow> key_identifier \<Rightarrow> ('b, unit) lact" where
  "check_proof E p subject event_hash public_key =
     getA (\<lambda>s. check_validation_proof E p subject event_hash public_key (nd_db s))"

text \<open>The end of the next-event case.\<close>

definition next_applied ::
  "'b env \<Rightarrow> ledger_config \<Rightarrow> digest_identifier \<Rightarrow> u64 \<Rightarrow> key_identifier \<Rightarrow> ledger_state \<Rightarrow> ('b, unit) lact" where
  "next_applied E C i sn sender l =
     bindA (is_gov_of i) (\<lambda>is_gov.
     bindA (if is_gov then
         bindA (ask_sender (request_gov_event (lc_our_id C) i (sn + 1)) sender) (\<lambda>_.
         gov_updated LGovernanceError i sn)
       else ldb (del_signatures E i (sn - 1))) (\<lambda>_.
     bindA (set_state i (Some sn) (ls_head l)) (\<lambda>_.
     tell_distribution LChannelError (SignaturesNeeded i sn))))"

text \<open>The head the new one replaces, which must not be a smaller one.\<close>

definition last_head :: "ledger_state \<Rightarrow> u64 \<Rightarrow> (u64 option, ledger_error) res" where
  "last_head l sn =
     (case ls_head l of
        Some h \<Rightarrow> if sn > h then Fail LCEBiggerSN else Ok (Some h)
      | None \<Rightarrow> Ok None)"

text \<open>The end of the later-event case: the old head goes, the new one is set, and the witnesses and
  the owner are asked for an event: the first one.\<close>

definition new_head ::
  "'b env \<Rightarrow> ledger_config \<Rightarrow> digest_identifier \<Rightarrow> u64 \<Rightarrow> ledger_state \<Rightarrow> subject \<Rightarrow> u64 option \<Rightarrow>
     key_identifier set \<Rightarrow> ('b, unit) lact" where
  "new_head E C i sn l subject last_lce witnesses =
     bindA (case last_lce of
         Some h \<Rightarrow> bindA (ldb (del_signatures E i h)) (\<lambda>_. ldb (del_event E i h))
       | None \<Rightarrow> ldb (del_signatures E i (su_sn subject))) (\<lambda>_.
     bindA (set_state i (ls_current_sn l) (Some sn)) (\<lambda>_.
     tell_message LChannelError (TaskRequest None (request_event (lc_our_id C) i 0)
       (insert (su_owner subject) witnesses) request_config)))"

text \<open>An unknown subject: a governance is asked for from its start, and refused for now.\<close>

definition unknown_subject ::
  "'b env \<Rightarrow> ledger_config \<Rightarrow> metadata \<Rightarrow> digest_identifier \<Rightarrow> key_identifier \<Rightarrow> ('b, unit) lact" where
  "unknown_subject E C md i sender =
     (if md_schema_id md = ''governance'' then
        bindA (set_is_gov i True) (\<lambda>_. refuse_governance E C i i 0 sender)
      else set_is_gov i False)"

definition first_head ::
  "ledger_config \<Rightarrow> digest_identifier \<Rightarrow> u64 \<Rightarrow> key_identifier \<Rightarrow> ('b, unit) lact" where
  "first_head C i sn sender =
     bindA (set_state i None (Some sn)) (\<lambda>_. ask_sender (request_event (lc_our_id C) i 0) sender)"

section \<open>Transfer\<close>

definition transfer_next ::
  "'b env \<Rightarrow> ledger_config \<Rightarrow> digest_identifier \<Rightarrow> digest_identifier \<Rightarrow> event signed \<Rightarrow> signature list \<Rightarrow>
     key_identifier \<Rightarrow> validation_proof \<Rightarrow> transfer_request \<Rightarrow> ledger_state \<Rightarrow> subject \<Rightarrow> ('b, unit) lact" where
  "transfer_next E C request_id event_hash ev gs sender p tr l subject =
     (let c = content ev; er = ev_event_request c; i = tr_subject_id tr; sn = ev_sn c;
          owner = sg_signer (signature er); public_key = tr_public_key tr in
      bindA (check_proof E p subject event_hash public_key) (\<lambda>_.
      bindA (if owner = lc_our_id C
        then bindA (lread_or UnexpectedTransfer (get_keys E public_key)) (\<lambda>keypair.
          retA (Some keypair, True))
        else retA (None, False)) (\<lambda>(keypair, to_delete).
      let subject = transfer_subject owner public_key keypair sn subject in
      bindA (ldb (set_signatures E i sn gs p)) (\<lambda>_.
      bindA (set_finished_request E request_id er sn i True) (\<lambda>_.
      bindA (ldb (set_event E i ev)) (\<lambda>_.
      bindA (ldb (set_subject E i subject)) (\<lambda>_.
      bindA (if to_delete then ldb (del_keys E public_key) else retA ()) (\<lambda>_.
      next_applied E C i sn sender l))))))))"

definition transfer_later ::
  "'b env \<Rightarrow> ledger_config \<Rightarrow> digest_identifier \<Rightarrow> event signed \<Rightarrow> signature list \<Rightarrow>
     key_identifier \<Rightarrow> validation_proof \<Rightarrow> transfer_request \<Rightarrow> ledger_state \<Rightarrow> subject \<Rightarrow>
     key_identifier set \<Rightarrow> ('b, unit) lact" where
  "transfer_later E C request_id ev gs sender p tr l subject witnesses =
     (let c = content ev; er = ev_event_request c; i = tr_subject_id tr; sn = ev_sn c in
      bindA (is_gov_of i) (\<lambda>is_gov.
      bindA (if is_gov then refuse_governance E C i i (su_sn subject + 1) sender else retA ()) (\<lambda>_.
      bindA (liftA (last_head l sn)) (\<lambda>last_lce.
      bindA (ldb (set_signatures E i sn gs p)) (\<lambda>_.
      bindA (set_finished_request E request_id er sn i (ev_eval_success c \<and> ev_approved c)) (\<lambda>_.
      bindA (ldb (set_event E i ev)) (\<lambda>_.
      bindA (ldb (set_lce_validation_proof E i p)) (\<lambda>_.
      new_head E C i sn l subject last_lce witnesses))))))))"

definition transfer_known ::
  "'b env \<Rightarrow> ledger_config \<Rightarrow> digest_identifier \<Rightarrow> digest_identifier \<Rightarrow> event signed \<Rightarrow> signature list \<Rightarrow>
     key_identifier \<Rightarrow> validation_proof \<Rightarrow> transfer_request \<Rightarrow> ledger_state \<Rightarrow> ('b, unit) lact" where
  "transfer_known E C request_id event_hash ev gs sender p tr l =
     (let c = content ev; i = tr_subject_id tr; sn = ev_sn c; md = get_metadata p in
      bindA (liftA (check_position l sn)) (\<lambda>_.
      bindA (known_subject E C i sender (LSubjectNotFound (dstr E i))) (\<lambda>subject.
      bindA (liftA (fail_if (\<not> su_active subject) (SubjectLifeEnd (dstr E (su_subject_id subject))))) (\<lambda>_.
      bindA (is_gov_of i) (\<lambda>is_gov.
      bindA (if is_gov \<and> ls_head l = Some sn
        then refuse_governance E C i (su_subject_id subject) (su_sn subject + 1) sender
        else retA ()) (\<lambda>_.
      bindA (check_witness E C md i) (\<lambda>witnesses.
      bindA (liftA (check_transfer_event ev)) (\<lambda>_.
      bindA (check_validators E md gs p) (\<lambda>_.
      if sn = su_sn subject + 1 \<and> ls_head l = None
      then transfer_next E C request_id event_hash ev gs sender p tr l subject
      else if sn > su_sn subject
      then transfer_later E C request_id ev gs sender p tr l subject witnesses
      else failA EventAlreadyExists)))))))))"

definition transfer_unknown ::
  "'b env \<Rightarrow> ledger_config \<Rightarrow> digest_identifier \<Rightarrow> event signed \<Rightarrow> signature list \<Rightarrow>
     key_identifier \<Rightarrow> validation_proof \<Rightarrow> transfer_request \<Rightarrow> ('b, unit) lact" where
  "transfer_unknown E C request_id ev gs sender p tr =
     (let c = content ev; er = ev_event_request c; i = tr_subject_id tr; sn = ev_sn c; md = get_metadata p in
      bindA (unknown_subject E C md i sender) (\<lambda>_.
      bindA (check_witness E C md i) (\<lambda>_.
      bindA (liftA (check_transfer_event ev)) (\<lambda>_.
      bindA (check_validators E md gs p) (\<lambda>_.
      bindA (ldb (set_signatures E i sn gs p)) (\<lambda>_.
      bindA (ldb (set_lce_validation_proof E i p)) (\<lambda>_.
      bindA (ldb (set_event E i ev)) (\<lambda>_.
      bindA (set_finished_request E request_id er sn i (ev_eval_success c \<and> ev_approved c)) (\<lambda>_.
      first_head C i sn sender)))))))))"

section \<open>Create\<close>

definition external_create ::
  "'b env \<Rightarrow> ledger_config \<Rightarrow> event signed \<Rightarrow> validation_proof \<Rightarrow> start_request \<Rightarrow> ('b, unit) lact" where
  "external_create E C ev p cr =
     (let c = content ev; d = di_derivator (vp_event_hash p) in
      bindA (liftA (fail_if (\<not> ev_eval_success c)
        (LErrorParsingJsonString ''Evaluation Success should be true in external genesis event''))) (\<lambda>_.
      bindA (lift_subject (generate_subject_id E (st_namespace cr) (st_schema_id cr)
        (kstr E (st_public_key cr)) (dstr E (st_governance_id cr)) (ev_gov_version c) d)) (\<lambda>subject_id.
      bindA (db_case (get_subject E subject_id) (\<lambda>r.
        case r of
          Inr _ \<Rightarrow> failA (SubjectAlreadyExists (dstr E subject_id))
        | Inl (Err EntryNotFound) \<Rightarrow> retA ()
        | Inl e \<Rightarrow> liftA (map_err LDatabaseError (Inl e)))) (\<lambda>_.
      bindA (if st_schema_id cr = ''governance'' then retA 0
        else lask (get_governance_version E subject_id (st_governance_id cr))) (\<lambda>our_gov_version.
      let md = \<lparr>
        md_namespace = st_namespace cr,
        md_subject_id = subject_id,
        md_governance_id = st_governance_id cr,
        md_governance_version = our_gov_version,
        md_schema_id = st_schema_id cr\<rparr> in
      bindA (if st_schema_id cr = ''governance'' then
          bindA (check_preauthorized E subject_id (GovernanceNotPreauthorized (dstr E subject_id))) (\<lambda>_.
          bindA (check_genesis E ev subject_id d) (\<lambda>_.
          bindA (gov_updated LGovernanceError subject_id 0) (\<lambda>_.
          set_is_gov subject_id True)))
        else
          bindA (check_witness E C md subject_id) (\<lambda>_.
          bindA (check_genesis E ev subject_id d) (\<lambda>_.
          set_is_gov subject_id False))) (\<lambda>_.
      bindA (genesis_state subject_id) (\<lambda>_.
      tell_distribution LChannelError (SignaturesNeeded subject_id 0))))))))"

section \<open>Fact\<close>

definition fact_next ::
  "'b env \<Rightarrow> ledger_config \<Rightarrow> digest_identifier \<Rightarrow> digest_identifier \<Rightarrow> event signed \<Rightarrow> signature list \<Rightarrow>
     key_identifier \<Rightarrow> validation_proof \<Rightarrow> digest_identifier \<Rightarrow> ledger_state \<Rightarrow> subject \<Rightarrow> ('b, unit) lact" where
  "fact_next E C request_id event_hash ev gs sender p i l subject =
     (let c = content ev; er = ev_event_request c; sn = ev_sn c in
      bindA (check_proof E p subject event_hash (su_public_key subject)) (\<lambda>_.
      bindA (if ev_approved c then lift_subject (update_subject E (ev_patch c) sn subject)
        else retA (subject\<lparr>su_sn := sn\<rparr>)) (\<lambda>subject.
      bindA (notify (StateUpdated sn (dstr E (su_subject_id subject)))) (\<lambda>_.
      bindA (ldb (set_signatures E i sn gs p)) (\<lambda>_.
      bindA (set_finished_request E request_id er sn i (ev_eval_success c \<and> ev_approved c)) (\<lambda>_.
      bindA (ldb (set_event E i ev)) (\<lambda>_.
      bindA (notify (NewEvent sn (dstr E i))) (\<lambda>_.
      bindA (ldb (set_subject E i subject)) (\<lambda>_.
      next_applied E C i sn sender l)))))))))"

definition fact_later ::
  "'b env \<Rightarrow> ledger_config \<Rightarrow> digest_identifier \<Rightarrow> event signed \<Rightarrow> signature list \<Rightarrow>
     key_identifier \<Rightarrow> validation_proof \<Rightarrow> digest_identifier \<Rightarrow> ledger_state \<Rightarrow> subject \<Rightarrow>
     key_identifier set \<Rightarrow> ('b, unit) lact" where
  "fact_later E C request_id ev gs sender p i l subject witnesses =
     (let c = content ev; er = ev_event_request c; sn = ev_sn c in
      bindA (is_gov_of i) (\<lambda>is_gov.
      bindA (if is_gov then refuse_governance E C i i (su_sn subject + 1) sender else retA ()) (\<lambda>_.
      bindA (liftA (last_head l sn)) (\<lambda>last_lce.
      bindA (ldb (set_signatures E i sn gs p)) (\<lambda>_.
      bindA (ldb (set_lce_validation_proof E i p)) (\<lambda>_.
      bindA (set_finished_request E request_id er sn i (ev_eval_success c \<and> ev_approved c)) (\<lambda>_.
      bindA (ldb (set_event E i ev)) (\<lambda>_.
      bindA (notify (NewEvent sn (dstr E i))) (\<lambda>_.
      new_head E C i sn l subject last_lce witnesses)))))))))"

text \<open>Who may issue facts: the owner, and whoever the governance permits.\<close>

definition check_issuer ::
  "'b env \<Rightarrow> metadata \<Rightarrow> subject \<Rightarrow> key_identifier \<Rightarrow> ('b, unit) lact" where
  "check_issuer E md subject invoker =
     bindA (if su_owner subject = invoker then retA True
       else lask (get_issue_create_info E md Invoke invoker)) (\<lambda>permitted.
     liftA (fail_if (\<not> permitted)
       (Unauthorized (''Invokation unauthorized for KeyId: '' @ kstr E invoker))))"

definition fact_known ::
  "'b env \<Rightarrow> ledger_config \<Rightarrow> digest_identifier \<Rightarrow> digest_identifier \<Rightarrow> event signed \<Rightarrow> signature list \<Rightarrow>
     key_identifier \<Rightarrow> validation_proof \<Rightarrow> digest_identifier \<Rightarrow> ledger_state \<Rightarrow> ('b, unit) lact" where
  "fact_known E C request_id event_hash ev gs sender p i l =
     (let c = content ev; sn = ev_sn c; md = get_metadata p;
          invoker = sg_signer (signature (ev_event_request c)) in
      bindA (getA (\<lambda>s. Ok (lg_subject_is_gov s i = Some True))) (\<lambda>is_gov.
      bindA (liftA (check_position l sn)) (\<lambda>_.
      bindA (known_subject E C i sender (LSubjectNotFound ''aaa'')) (\<lambda>subject.
      bindA (liftA (map_err (\<lambda>_. LCryptoError ''Error generating approval request hash'')
        (get_approval_hash E (su_governance_id subject) Blake3_256 c))) (\<lambda>approval_request_hash.
      bindA (liftA (fail_if (\<not> su_active subject) (SubjectLifeEnd (dstr E (su_subject_id subject))))) (\<lambda>_.
      bindA (if is_gov \<and> sn > su_sn subject + 1
        then refuse_governance E C i (su_subject_id subject) (su_sn subject + 1) sender
        else retA ()) (\<lambda>_.
      bindA (check_issuer E md subject invoker) (\<lambda>_.
      bindA (check_witness E C md i) (\<lambda>witnesses.
      bindA (check_event E ev md (get_subject_context subject invoker)) (\<lambda>_.
      bindA (check_validators E md gs p) (\<lambda>_.
      bindA (if sn = su_sn subject + 1 \<and> ls_head l = None
          then fact_next E C request_id event_hash ev gs sender p i l subject
          else if sn > su_sn subject
          then fact_later E C request_id ev gs sender p i l subject witnesses
          else failA EventAlreadyExists) (\<lambda>_.
      obsolete_approval E approval_request_hash i sn))))))))))))"

definition fact_unknown ::
  "'b env \<Rightarrow> ledger_config \<Rightarrow> digest_identifier \<Rightarrow> event signed \<Rightarrow> signature list \<Rightarrow>
     key_identifier \<Rightarrow> validation_proof \<Rightarrow> digest_identifier \<Rightarrow> ('b, unit) lact" where
  "fact_unknown E C request_id ev gs sender p i =
     (let c = content ev; er = ev_event_request c; sn = ev_sn c; md = get_metadata p in
      bindA (unknown_subject E C md i sender) (\<lambda>_.
      bindA (check_witness E C md i) (\<lambda>_.
      bindA (check_validators E md gs p) (\<lambda>_.
      bindA (ldb (set_signatures E i sn gs p)) (\<lambda>_.
      bindA (ldb (set_lce_validation_proof E i p)) (\<lambda>_.
      bindA (ldb (set_event E i ev)) (\<lambda>_.
      bindA (set_finished_request E request_id er sn i True) (\<lambda>_.
      bindA (notify (NewEvent sn (dstr E i))) (\<lambda>_.
      bindA (set_finished_request E request_id er sn i (ev_eval_success c \<and> ev_approved c)) (\<lambda>_.
      first_head C i sn sender))))))))))"

section \<open>End of life\<close>

definition eol_next ::
  "'b env \<Rightarrow> ledger_config \<Rightarrow> digest_identifier \<Rightarrow> digest_identifier \<Rightarrow> event signed \<Rightarrow> signature list \<Rightarrow>
     key_identifier \<Rightarrow> validation_proof \<Rightarrow> digest_identifier \<Rightarrow> ledger_state \<Rightarrow> subject \<Rightarrow> ('b, unit) lact" where
  "eol_next E C request_id event_hash ev gs sender p i l subject =
     (let c = content ev; er = ev_event_request c; sn = ev_sn c in
      bindA (check_proof E p subject event_hash (su_public_key subject)) (\<lambda>_.
      let subject = eol_event (subject\<lparr>su_sn := sn\<rparr>) in
      bindA (ldb (set_signatures E i sn gs p)) (\<lambda>_.
      bindA (set_finished_request E request_id er sn i True) (\<lambda>_.
      bindA (ldb (set_event E i ev)) (\<lambda>_.
      bindA (notify (NewEvent sn (dstr E i))) (\<lambda>_.
      bindA (ldb (set_subject E i subject)) (\<lambda>_.
      next_applied E C i sn sender l)))))))"

text \<open>An end of life does not replace a head.\<close>

definition eol_head :: "'b env \<Rightarrow> digest_identifier \<Rightarrow> ledger_state \<Rightarrow> u64 \<Rightarrow> (u64 option, ledger_error) res" where
  "eol_head E i l sn =
     (case ls_head l of
        Some h \<Rightarrow> if sn > h then Fail LCEBiggerSN else Fail (EOLWhenActiveLCE (dstr E i))
      | None \<Rightarrow> Ok None)"

definition eol_later ::
  "'b env \<Rightarrow> ledger_config \<Rightarrow> digest_identifier \<Rightarrow> event signed \<Rightarrow> signature list \<Rightarrow>
     key_identifier \<Rightarrow> validation_proof \<Rightarrow> digest_identifier \<Rightarrow> ledger_state \<Rightarrow> subject \<Rightarrow>
     key_identifier set \<Rightarrow> ('b, unit) lact" where
  "eol_later E C request_id ev gs sender p i l subject witnesses =
     (let c = content ev; er = ev_event_request c; sn = ev_sn c in
      bindA (is_gov_of i) (\<lambda>is_gov.
      bindA (if is_gov then refuse_governance E C i i (su_sn subject + 1) sender else retA ()) (\<lambda>_.
      bindA (liftA (eol_head E i l sn)) (\<lambda>last_lce.
      bindA (ldb (set_signatures E i sn gs p)) (\<lambda>_.
      bindA (ldb (set_lce_validation_proof E i p)) (\<lambda>_.
      bindA (set_finished_request E request_id er sn i (ev_eval_success c \<and> ev_approved c)) (\<lambda>_.
      bindA (ldb (set_event E i ev)) (\<lambda>_.
      bindA (notify (NewEvent sn (dstr E i))) (\<lambda>_.
      new_head E C i sn l subject last_lce witnesses)))))))))"

definition eol_known ::
  "'b env \<Rightarrow> ledger_config \<Rightarrow> digest_identifier \<Rightarrow> digest_identifier \<Rightarrow> event signed \<Rightarrow> signature list \<Rightarrow>
     key_identifier \<Rightarrow> validation_proof \<Rightarrow> digest_identifier \<Rightarrow> ledger_state \<Rightarrow> ('b, unit) lact" where
  "eol_known E C request_id event_hash ev gs sender p i l =
     (let c = content ev; sn = ev_sn c; md = get_metadata p;
          invoker = sg_signer (signature (ev_event_request c)) in
      bindA (liftA (check_position l sn)) (\<lambda>_.
      bindA (known_subject E C i sender (LSubjectNotFound ''aaa'')) (\<lambda>subject.
      bindA (liftA (fail_if (\<not> su_active subject) (SubjectLifeEnd (dstr E (su_subject_id subject))))) (\<lambda>_.
      bindA (liftA (fail_if (su_creator subject \<noteq> invoker)
        (Unauthorized (''Invokation unauthorized for KeyId: '' @ kstr E invoker)))) (\<lambda>_.
      bindA (is_gov_of i) (\<lambda>is_gov.
      bindA (if is_gov \<and> sn > su_sn subject + 1
        then refuse_governance E C i (su_subject_id subject) (su_sn subject + 1) sender
        else retA ()) (\<lambda>_.
      bindA (check_witness E C md i) (\<lambda>witnesses.
      bindA (check_event E ev md (get_subject_context subject invoker)) (\<lambda>_.
      bindA (check_validators E md gs p) (\<lambda>_.
      if sn = su_sn subject + 1 \<and> ls_head l = None
      then eol_next E C request_id event_hash ev gs sender p i l subject
      else if sn > su_sn subject
      then eol_later E C request_id ev gs sender p i l subject witnesses
      else failA EventAlreadyExists))))))))))"

definition eol_unknown ::
  "'b env \<Rightarrow> ledger_config \<Rightarrow> digest_identifier \<Rightarrow> event signed \<Rightarrow> signature list \<Rightarrow>
     key_identifier \<Rightarrow> validation_proof \<Rightarrow> digest_identifier \<Rightarrow> ('b, unit) lact" where
  "eol_unknown E C request_id ev gs sender p i =
     (let c = content ev; er = ev_event_request c; sn = ev_sn c; md = get_metadata p in
      bindA (unknown_subject E C md i sender) (\<lambda>_.
      bindA (check_witness E C md i) (\<lambda>_.
      bindA (check_validators E md gs p) (\<lambda>_.
      bindA (ldb (set_signatures E i sn gs p)) (\<lambda>_.
      bindA (ldb (set_lce_validation_proof E i p)) (\<lambda>_.
      bindA (ldb (set_event E i ev)) (\<lambda>_.
      bindA (set_finished_request E request_id er sn i (ev_eval_success c \<and> ev_approved c)) (\<lambda>_.
      bindA (notify (NewEvent sn (dstr E i))) (\<lambda>_.
      first_head C i sn sender)))))))))"

section \<open>The handler\<close>

definition external_event ::
  "'b env \<Rightarrow> ledger_config \<Rightarrow> event signed \<Rightarrow> signature list \<Rightarrow> key_identifier \<Rightarrow> validation_proof \<Rightarrow>
     ('b, unit) lact" where
  "external_event E C ev gs sender p =
     (let c = content ev; er = ev_event_request c in
      bindA (request_hash E er) (\<lambda>request_id.
      bindA (liftA (content_hash_as E (LCryptoError ''Error generating event hash'')
        (di_derivator (vp_event_hash p)) c)) (\<lambda>event_hash.
      bindA (check_new_request E request_id) (\<lambda>_.
      bindA (lift_subject (verify_event_signatures E ev)) (\<lambda>_.
      bindA (getA (\<lambda>s. Ok (lg_ledger_state s))) (\<lambda>positions.
      case content er of
        Transfer tr \<Rightarrow>
          (case positions (tr_subject_id tr) of
             Some l \<Rightarrow> transfer_known E C request_id event_hash ev gs sender p tr l
           | None \<Rightarrow> transfer_unknown E C request_id ev gs sender p tr)
      | Create cr \<Rightarrow> external_create E C ev p cr
      | Fact f \<Rightarrow>
          (case positions (fa_subject_id f) of
             Some l \<Rightarrow> fact_known E C request_id event_hash ev gs sender p (fa_subject_id f) l
           | None \<Rightarrow> fact_unknown E C request_id ev gs sender p (fa_subject_id f))
      | EOL e \<Rightarrow>
          (case positions (eo_subject_id e) of
             Some l \<Rightarrow> eol_known E C request_id event_hash ev gs sender p (eo_subject_id e) l
           | None \<Rightarrow> eol_unknown E C request_id ev gs sender p (eo_subject_id e))))))))"

end
