(* ===== verification/Ledger_External_Laws.thy ===== *)
theory Ledger_External_Laws
  imports Ledger_External Ledger_Sync_Laws
begin

text \<open>
  What the ledger guarantees of the last candidate event of a subject: who signed an event that
  is accepted, what is checked before the next event is applied, and where the subject stands
  afterwards. A later event that replaces a known head can leave the subject in a position it
  never gets out of.
\<close>

section \<open>Successful steps\<close>

lemma refuse_not_Ok [simp]: "refuse_governance E C i j sn sender s \<noteq> (Ok (), t)"
  by (simp add: refuse_governance_def bindA_eq_Inr)

lemma check_position_Ok [simp]:
  "check_position l sn = Ok () \<longleftrightarrow> (\<exists>c. ls_current_sn l = Some c \<and> c < sn)"
  by (auto simp: check_position_def split: option.splits)

lemma known_subject_Ok [simp]:
  "known_subject E C i sender e s = (Ok x, t) \<longleftrightarrow> get_subject E i (nd_db s) = Ok x \<and> t = s"
  by (auto simp: known_subject_def db_case_def bindA_eq_Inr
      split: sum.splits failure.splits db_error.splits)

lemma is_gov_of_Ok [simp]:
  "is_gov_of i s = (Ok b, t) \<longleftrightarrow> lg_subject_is_gov s i = Some b \<and> t = s"
  by (auto simp: is_gov_of_def)

lemma check_preauthorized_Ok:
  "check_preauthorized E i e s = (Ok (), t) \<Longrightarrow> t = s \<and> is_Ok (get_preauthorized_subject_and_providers E i (nd_db s))"
  by (auto simp: check_preauthorized_def db_case_def split: sum.splits failure.splits db_error.splits)

text \<open>We are a witness of the subject, or the user preauthorised it.\<close>

definition our_business :: "'b env \<Rightarrow> ledger_config \<Rightarrow> metadata \<Rightarrow> 'b data_store \<Rightarrow> bool" where
  "our_business E C md m \<longleftrightarrow>
     (\<exists>witnesses. get_signers E md Witness m = Ok witnesses \<and>
        (lc_our_id C \<in> witnesses \<or> is_Ok (get_preauthorized_subject_and_providers E (md_subject_id md) m)))"

lemma check_witness_Ok:
  fixes s t :: "'b ledger"
  assumes "check_witness E C md i s = (Ok ws, t)"
  shows "t = s \<and> our_business E C md (nd_db s)"
  using assms by (auto simp: check_witness_def get_witnesses_def bindA_eq_Inr lask_Ok our_business_def
      split: if_splits dest!: check_preauthorized_Ok)

text \<open>Enough validators of the governance the proof names have a valid signature of it in the set.\<close>

definition quorum_of_validators ::
  "'b env \<Rightarrow> validation_proof \<Rightarrow> signature list \<Rightarrow> 'b data_store \<Rightarrow> bool" where
  "quorum_of_validators E p gs m \<longleftrightarrow>
     (\<exists>signers q. get_signers E (get_metadata p) Validate m = Ok signers \<and>
        get_quorum E (get_metadata p) Validate m = Ok q \<and>
        unat q \<le> card (good_signers E (PProof p) signers gs))"

lemma check_validators_Ok:
  fixes s t :: "'b ledger"
  assumes "check_validators E (get_metadata p) gs p s = (Ok (), t)"
  shows "t = s \<and> quorum_of_validators E p gs (nd_db s)"
  using assms by (auto simp: check_validators_def get_signers_and_quorum_def bindA_eq_Inr lask_Ok
      quorum_of_validators_def dest: verify_signatures_Ok)

lemma check_proof_Ok [simp]:
  "check_proof E p subject h pk s = (Ok (), t) \<longleftrightarrow> proof_fits E p subject h pk (nd_db s) \<and> t = s"
  by (auto simp: check_proof_def check_validation_proof_iff)

lemma last_head_Ok [simp]:
  "last_head l sn = Ok x \<longleftrightarrow> x = ls_head l \<and> (\<forall>h. ls_head l = Some h \<longrightarrow> sn \<le> h)"
  by (auto simp: last_head_def not_less split: option.splits)

lemma eol_head_Ok [simp]: "eol_head E i l sn = Ok x \<longleftrightarrow> x = None \<and> ls_head l = None"
  by (auto simp: eol_head_def split: option.splits)

lemmas candidate_steps = ldb_Ok lread_Ok lask_Ok lift_subject_Ok bindA_eq_Inr notify_run
  tell_message_eq_Inr tell_distribution_eq_Inr gov_updated_eq_Inr

section \<open>The two ends\<close>

lemma next_applied_Ok:
  fixes s t :: "'b ledger"
  assumes "next_applied E C i sn sender l s = (Ok (), t)"
  shows "lg_ledger_state t = (lg_ledger_state s)(i \<mapsto> \<lparr>ls_current_sn = Some sn, ls_head = ls_head l\<rparr>) \<and>
    writes_in {''signature''} (nd_db s) (nd_db t) \<and>
    (\<exists>ds. nd_distribution t = ds @ [SignaturesNeeded i sn])"
proof -
  have "writes_in {''signature''} (nd_db s) (nd_db t)"
    by (rule writes_run [where m = "next_applied E C i sn sender l", OF assms])
      (unfold next_applied_def is_gov_of_def ask_sender_def, intro inv_intros, simp_all)
  then show ?thesis
    using assms by (auto simp: next_applied_def ask_sender_def set_state_def candidate_steps split: if_splits)
qed

lemma new_head_Ok:
  fixes s t :: "'b ledger"
  assumes "new_head E C i sn l subject last_lce ws s = (Ok (), t)"
  shows "lg_ledger_state t = (lg_ledger_state s)(i \<mapsto> \<lparr>ls_current_sn = ls_current_sn l, ls_head = Some sn\<rparr>) \<and>
    (\<forall>h. last_lce = Some h \<longrightarrow> (\<exists>m. m = snd (del_signatures E i h (nd_db s)) \<and>
       nd_db t = snd (del_event E i h m))) \<and>
    (last_lce = None \<longrightarrow> writes_in {''signature''} (nd_db s) (nd_db t)) \<and>
    (\<exists>ms. nd_messages t = ms @ [TaskRequest None (request_event (lc_our_id C) i 0)
       (insert (su_owner subject) ws) request_config])"
proof -
  have "writes_in {''signature''} (nd_db s) (nd_db t)" if "last_lce = None"
    by (rule writes_run [where m = "new_head E C i sn l subject last_lce ws", OF assms])
      (unfold new_head_def that option.case, intro inv_intros, simp_all)
  then show ?thesis
    using assms by (cases last_lce) (force simp: new_head_def set_state_def candidate_steps)+
qed

lemma first_head_Ok:
  fixes s t :: "'b ledger"
  assumes "first_head C i sn sender s = (Ok (), t)"
  shows "lg_ledger_state t = (lg_ledger_state s)(i \<mapsto> \<lparr>ls_current_sn = None, ls_head = Some sn\<rparr>) \<and>
    nd_db t = nd_db s"
  using assms by (auto simp: first_head_def ask_sender_def set_state_def candidate_steps)

lemma unknown_subject_Ok:
  fixes s t :: "'b ledger"
  assumes "unknown_subject E C md i sender s = (Ok (), t)"
  shows "md_schema_id md \<noteq> ''governance'' \<and> lg_ledger_state t = lg_ledger_state s \<and> nd_db t = nd_db s"
  using assms by (auto simp: unknown_subject_def set_is_gov_def bindA_eq_Inr split: if_splits)

section \<open>The next event is applied\<close>

lemma event_then_subject:
  fixes s1 s2 s3 s4 s5 :: "'b ledger"
  assumes ok: "codec_ok (c_event E)" "codec_ok (c_subject E)"
    and 1: "ldb (set_event E i ev) s1 = (Ok (), s2)" "nd_db s3 = nd_db s2"
    and 2: "ldb (set_subject E i subject) s3 = (Ok (), s4)"
    and 3: "writes_in P (nd_db s4) (nd_db s5)" "P \<subseteq> {''signature'', ''taple-request'', ''keys''}"
  shows "event_stored E i ev subject (nd_db s5)"
proof -
  have ev: "get_event E i (ev_sn (content ev)) (nd_db s3) = Ok ev"
    using 1 events.get_put [OF ok(1), where k = "(i, ev_sn (content ev))" and x = ev]
    by (auto simp: ldb_Ok)
  have w: "writes_in {''subject''} (nd_db s3) (nd_db s4)"
    by (rule writes_run [where m = "ldb (set_subject E i subject)", OF 2]) (intro inv_intros, simp)
  have "event_stored E i ev subject (nd_db s4)"
    using ev events.get_unwritten [OF w, of E "(i, ev_sn (content ev))"] 2
      subjects.get_put [OF ok(2), where k = i and x = subject]
    by (auto simp: event_stored_def ldb_Ok)
  then show ?thesis using 3 by (rule event_stored_after)
qed

definition candidate_next ::
  "'b env \<Rightarrow> digest_identifier \<Rightarrow> event signed \<Rightarrow> validation_proof \<Rightarrow> digest_identifier \<Rightarrow> key_identifier \<Rightarrow>
     ledger_state \<Rightarrow> subject \<Rightarrow> subject \<Rightarrow> 'b ledger \<Rightarrow> 'b ledger \<Rightarrow> bool" where
  "candidate_next E i ev p event_hash public_key l subject subject' s t \<longleftrightarrow>
     proof_fits E p subject event_hash public_key (nd_db s) \<and>
     event_stored E i ev subject' (nd_db t) \<and>
     lg_ledger_state t = (lg_ledger_state s)(i \<mapsto>
       \<lparr>ls_current_sn = Some (ev_sn (content ev)), ls_head = ls_head l\<rparr>) \<and>
     (\<exists>ds. nd_distribution t = ds @ [SignaturesNeeded i (ev_sn (content ev))])"

lemma fact_next_Ok:
  fixes s t :: "'b ledger"
  assumes ok: "codec_ok (c_event E)" "codec_ok (c_subject E)"
    and run: "fact_next E C rid h ev gs sender p i l subject s = (Ok (), t)"
  shows "\<exists>subject'. fact_result E (content ev) subject subject' \<and>
    candidate_next E i ev p h (su_public_key subject) l subject subject' s t"
  using run unfolding fact_next_def Let_def
proof (elim bindA_OkE, goal_cases)
  case (1 u0 s0 subject' s1 u2 s2 u3 s3 u4 s4 u5 s5 u6 s6 u7 s7)
  have pos: "lg_ledger_state s7 = lg_ledger_state s"
    using 1(1-4,6-8) positions_run [OF keeps_positions_ops(1) 1(5)]
    by (auto simp: notify_run lift_subject_Ok ldb_Ok split: if_splits)
  have "fact_result E (content ev) subject subject'"
    using 1(2) by (auto simp: fact_result_def lift_subject_Ok update_subject_shape split: if_splits)
  moreover have "event_stored E i ev subject' (nd_db t)"
    using next_applied_Ok [OF 1(9)] 1(6,8) notify_Ok [OF 1(7)] by (intro event_then_subject [OF ok]) auto
  ultimately show ?case
    using 1(1) next_applied_Ok [OF 1(9)] pos by (auto simp: candidate_next_def)
qed

lemma eol_next_Ok:
  fixes s t :: "'b ledger"
  assumes ok: "codec_ok (c_event E)" "codec_ok (c_subject E)"
    and run: "eol_next E C rid h ev gs sender p i l subject s = (Ok (), t)"
  shows "candidate_next E i ev p h (su_public_key subject) l subject
    (subject\<lparr>su_sn := ev_sn (content ev), su_active := False\<rparr>) s t"
  using run unfolding eol_next_def Let_def
proof (elim bindA_OkE, goal_cases)
  case (1 u0 s0 u1 s1 u2 s2 u3 s3 u4 s4 u5 s5)
  have pos: "lg_ledger_state s5 = lg_ledger_state s"
    using 1(1,2,4-6) positions_run [OF keeps_positions_ops(1) 1(3)]
    by (auto simp: notify_run ldb_Ok split: if_splits)
  have "event_stored E i ev (eol_event (subject\<lparr>su_sn := ev_sn (content ev)\<rparr>)) (nd_db t)"
    using next_applied_Ok [OF 1(7)] 1(4,6) notify_Ok [OF 1(5)] by (intro event_then_subject [OF ok]) auto
  then show ?case
    using 1(1) next_applied_Ok [OF 1(7)] pos by (auto simp: candidate_next_def eol_event_def)
qed

lemma transfer_next_Ok:
  fixes s t :: "'b ledger"
  assumes ok: "codec_ok (c_event E)" "codec_ok (c_subject E)"
    and run: "transfer_next E C rid h ev gs sender p tr l subject s = (Ok (), t)"
  shows "\<exists>keys. (keys = None \<longleftrightarrow> sg_signer (signature (ev_event_request (content ev))) \<noteq> lc_our_id C) \<and>
    candidate_next E (tr_subject_id tr) ev p h (tr_public_key tr) l subject
      (transfer_subject (sg_signer (signature (ev_event_request (content ev)))) (tr_public_key tr) keys
        (ev_sn (content ev)) subject) s t"
  using run unfolding transfer_next_def Let_def
proof (elim bindA_OkE, goal_cases)
  case (1 u0 s0 ks s1)
  obtain keys del where ks: "ks = (keys, del)" by fastforce
  let ?i = "tr_subject_id tr"
  let ?subject = "transfer_subject (sg_signer (signature (ev_event_request (content ev)))) (tr_public_key tr)
      keys (ev_sn (content ev)) subject"
  from 1(3) have "event_stored E ?i ev ?subject (nd_db t) \<and>
      lg_ledger_state t = (lg_ledger_state s1)(?i \<mapsto>
        \<lparr>ls_current_sn = Some (ev_sn (content ev)), ls_head = ls_head l\<rparr>) \<and>
      (\<exists>ds. nd_distribution t = ds @ [SignaturesNeeded ?i (ev_sn (content ev))])"
    unfolding ks prod.case
  proof (elim bindA_OkE, goal_cases)
    case (1 u2 s2 u3 s3 u4 s4 u5 s5 u6 s6)
    have pos: "lg_ledger_state s6 = lg_ledger_state s1"
      using 1(1,3-5) positions_run [OF keeps_positions_ops(1) 1(2)] by (auto simp: ldb_Ok split: if_splits)
    have "writes_in {''keys''} (nd_db s5) (nd_db s6)"
      by (rule writes_run [where m = "if del then ldb (del_keys E (tr_public_key tr)) else retA ()", OF 1(5)])
        (intro inv_intros, simp)
    then have "writes_in {''signature'', ''keys''} (nd_db s5) (nd_db t)"
      using next_applied_Ok [OF 1(6)]
      by (blast intro: writes_in_trans writes_in_sub [where Q = "{''signature'', ''keys''}"])
    then have "event_stored E ?i ev ?subject (nd_db t)"
      using 1(3,4) by (intro event_then_subject [OF ok]) auto
    then show ?case using next_applied_Ok [OF 1(6)] pos by simp
  qed
  moreover have "s1 = s0" "keys = None \<longleftrightarrow> sg_signer (signature (ev_event_request (content ev))) \<noteq> lc_our_id C"
    using 1(2) ks by (auto simp: bindA_eq_Inr lread_Ok split: if_splits)
  ultimately show ?case using 1(1) by (auto simp: candidate_next_def)
qed

section \<open>A later event becomes the head\<close>

lemma keeps_ordered_layers [inv_intros]:
  "keeps bt_inv (set_event E i ev)" "keeps bt_inv (set_signatures E i sn gs p)"
  "keeps bt_inv (del_signatures E i sn)" "keeps bt_inv (set_taple_request E rid r)"
  "keeps bt_inv (set_lce_validation_proof E i p)"
  using mem.inv_put mem.inv_del events.inv_put [of _ E "(i, sn')" for sn'] taple_requests.inv_put
    lce_proofs.inv_put
  by (auto simp: keeps_def set_signatures_def del_signatures_def bindA_def kv_put_def
      split: sum.splits prod.splits)

lemma keeps_ordered_finished [inv_intros]:
  "keeps (on_db bt_inv) (set_finished_request E rid er sn i b)"
  unfolding set_finished_request_def by (intro inv_intros)

lemma keeps_lce [inv_intros]:
  "''lce-validation-proofs'' \<in> P \<Longrightarrow> keeps (writes_in P a) (set_lce_validation_proof E i p)"
  by (rule keeps_writes, rule lce_proofs.writes_table) simp_all

text \<open>The event is in the database when its number is not that of the head it replaces; then it
  is deleted as the old head.\<close>

lemma head_event_kept:
  fixes s1 s2 s3 t :: "'b ledger"
  assumes ok: "codec_ok (c_event E)" "id_valid E i"
    and 1: "ldb (set_event E i ev) s1 = (Ok (), s2)"
    and 2: "writes_in P (nd_db s2) (nd_db s3)" "\<And>p. p \<in> P \<Longrightarrow> sep_free p" "''event'' \<notin> P"
    and 3: "new_head E C i (ev_sn (content ev)) l subject last_lce ws s3 = (Ok (), t)"
    and h: "last_lce \<noteq> Some (ev_sn (content ev))"
  shows "get_event E i (ev_sn (content ev)) (nd_db t) = Ok ev"
proof -
  let ?k = "(i, ev_sn (content ev))"
  have "get_event E i (ev_sn (content ev)) (nd_db s2) = Ok ev"
    using 1 events.get_put [OF ok(1), where k = ?k and x = ev] by (auto simp: ldb_Ok)
  then have ev: "get_event E i (ev_sn (content ev)) (nd_db s3) = Ok ev"
    using events.get_unwritten [OF 2(1,3,2), of E ?k] by simp
  show ?thesis
  proof (cases last_lce)
    case None
    then have "writes_in {''signature''} (nd_db s3) (nd_db t)" using new_head_Ok [OF 3] by simp
    then show ?thesis using ev events.get_unwritten [where k = ?k] by fastforce
  next
    case (Some h')
    let ?m = "snd (del_signatures E i h' (nd_db s3))"
    have t: "nd_db t = snd (del_event E i h' ?m)" using new_head_Ok [OF 3] Some by auto
    have "writes_in {''signature''} (nd_db s3) ?m"
      by (rule writes_in_step [OF writes_in_refl writes_del_signatures]) simp
    then have m: "get_event E i (ev_sn (content ev)) ?m = Ok ev"
      using ev events.get_unwritten [where k = ?k] by fastforce
    have "ev_key E ?k \<noteq> ev_key E (i, h')"
      using ev_key_inject [of E ?k "(i, h')"] ok(2) h Some by auto
    then have "coll_get (''event'' @ char_MAX @ ev_key E ?k) (nd_db t) =
        coll_get (''event'' @ char_MAX @ ev_key E ?k) ?m"
      unfolding t del_event_def get_key_eval
      by (simp add: ev_key_def coll_get_del_other)
    from events.get_local [OF this] show ?thesis using m by simp
  qed
qed

lemma head_event_lost:
  fixes s3 t :: "'b ledger"
  assumes "bt_inv (nd_db s3)" "new_head E C i sn l subject (Some sn) ws s3 = (Ok (), t)"
  shows "get_event E i sn (nd_db t) = Fail EntryNotFound"
proof -
  let ?m = "snd (del_signatures E i sn (nd_db s3))"
  have "bt_inv ?m" using keepsD [OF keeps_ordered_layers(3) assms(1)] .
  moreover have "nd_db t = snd (del_event E i sn ?m)" using new_head_Ok [OF assms(2)] by auto
  ultimately have "coll_get (''event'' @ char_MAX @ ev_key E (i, sn)) (nd_db t) = Fail EntryNotFound"
    by (simp add: del_event_def get_key_eval ev_key_def mem.get_del)
  then show ?thesis using events.get_missing [of E "(i, sn)"] by simp
qed

definition candidate_later ::
  "'b env \<Rightarrow> digest_identifier \<Rightarrow> event signed \<Rightarrow> validation_proof \<Rightarrow> ledger_state \<Rightarrow> 'b ledger \<Rightarrow> 'b ledger \<Rightarrow> bool"
  where
  "candidate_later E i ev p l s t \<longleftrightarrow>
     lg_subject_is_gov s i = Some False \<and>
     (\<forall>h. ls_head l = Some h \<longrightarrow> ev_sn (content ev) \<le> h) \<and>
     lg_ledger_state t = (lg_ledger_state s)(i \<mapsto>
       \<lparr>ls_current_sn = ls_current_sn l, ls_head = Some (ev_sn (content ev))\<rparr>) \<and>
     (id_valid E i \<longrightarrow> ls_head l \<noteq> Some (ev_sn (content ev)) \<longrightarrow>
        get_event E i (ev_sn (content ev)) (nd_db t) = Ok ev) \<and>
     (bt_inv (nd_db s) \<longrightarrow> ls_head l = Some (ev_sn (content ev)) \<longrightarrow>
        get_event E i (ev_sn (content ev)) (nd_db t) = Fail EntryNotFound)"

lemma candidate_laterI:
  fixes s s1 s2 s3 t :: "'b ledger"
  assumes ok: "codec_ok (c_event E)"
    and gov: "lg_subject_is_gov s i = Some False"
    and head: "last_lce = ls_head l" "\<And>h. ls_head l = Some h \<Longrightarrow> ev_sn (content ev) \<le> h"
    and 1: "ldb (set_event E i ev) s1 = (Ok u, s2)"
    and 2: "writes_in {''taple-request'', ''lce-validation-proofs''} (nd_db s2) (nd_db s3)"
    and 3: "new_head E C i (ev_sn (content ev)) l subject last_lce ws s3 = (Ok (), t)"
    and 4: "lg_ledger_state s3 = lg_ledger_state s" "bt_inv (nd_db s) \<Longrightarrow> bt_inv (nd_db s3)"
  shows "candidate_later E i ev p l s t"
proof -
  have "get_event E i (ev_sn (content ev)) (nd_db t) = Ok ev"
    if "id_valid E i" "ls_head l \<noteq> Some (ev_sn (content ev))"
    using that head(1) 1 by (intro head_event_kept [OF ok that(1) _ 2 _ _ 3]) auto
  moreover have "get_event E i (ev_sn (content ev)) (nd_db t) = Fail EntryNotFound"
    if "bt_inv (nd_db s)" "ls_head l = Some (ev_sn (content ev))"
    using that head(1) 3 4(2) by (intro head_event_lost) auto
  ultimately show ?thesis
    using gov head(2) new_head_Ok [OF 3] 4(1) by (simp add: candidate_later_def)
qed

lemma taple_run:
  fixes s t :: "'b ledger"
  assumes "set_finished_request E rid er sn i b s = (Ok u, t)" "''taple-request'' \<in> P"
  shows "writes_in P (nd_db s) (nd_db t)"
  by (rule writes_run [where m = "set_finished_request E rid er sn i b", OF assms(1)])
    (simp add: keeps_set_finished assms(2))

lemma lce_run:
  fixes s t :: "'b ledger"
  assumes "ldb (set_lce_validation_proof E i p) s = (Ok u, t)" "''lce-validation-proofs'' \<in> P"
  shows "writes_in P (nd_db s) (nd_db t)"
  by (rule writes_run [where m = "ldb (set_lce_validation_proof E i p)", OF assms(1)])
    (intro inv_intros assms(2))

text \<open>The checks before the writes of the three branches.\<close>

lemma later_start:
  fixes s s1 t :: "'b ledger"
  assumes "is_gov_of i s = (Ok g, s1)" "(if g then refuse_governance E C i j sn sender else retA ()) s1 = (Ok u, t)"
  shows "lg_subject_is_gov s i = Some False \<and> t = s"
  using assms by (auto split: if_splits)

lemma ordered_ldb:
  fixes s t :: "'b ledger"
  assumes "ldb m s = (Ok x, t)" "keeps bt_inv m" "bt_inv (nd_db s)"
  shows "bt_inv (nd_db t)"
  using keepsD [OF assms(2,3)] assms(1) by (auto simp: ldb_Ok)

lemma ordered_finished:
  fixes s t :: "'b ledger"
  assumes "set_finished_request E rid er sn i b s = (r, t)" "bt_inv (nd_db s)"
  shows "bt_inv (nd_db t)"
  using keepsD [OF keeps_ordered_finished [of E rid er sn i b], of s] assms by (simp add: on_db_def)

lemma fact_later_Ok:
  fixes s t :: "'b ledger"
  assumes ok: "codec_ok (c_event E)"
    and run: "fact_later E C rid ev gs sender p i l subject ws s = (Ok (), t)"
  shows "candidate_later E i ev p l s t"
  using run unfolding fact_later_def Let_def
proof (elim bindA_OkE, goal_cases)
  case (1 g s1 u2 s2 last_lce s3 u4 s4 u5 s5 u6 s6 u7 s7 u8 s8)
  have start: "lg_subject_is_gov s i = Some False" "s2 = s" "s3 = s2"
    "last_lce = ls_head l" "\<And>h. ls_head l = Some h \<Longrightarrow> ev_sn (content ev) \<le> h"
    using later_start [OF 1(1,2)] 1(3) by auto
  have "lg_ledger_state s8 = lg_ledger_state s"
    using start(2,3) 1(4,5,7,8) positions_run [OF keeps_positions_ops(1) 1(6)]
    by (auto simp: notify_run ldb_Ok split: if_splits)
  moreover have "bt_inv (nd_db s8)" if "bt_inv (nd_db s)"
    using that start ordered_ldb [OF 1(4)] ordered_ldb [OF 1(5)] ordered_finished [OF 1(6)] ordered_ldb [OF 1(7)] notify_Ok [OF 1(8)]
    by (simp add: keeps_ordered_layers)
  moreover have "nd_db s8 = nd_db s7" by (rule notify_Ok [OF 1(8)])
  ultimately show ?case
    by (intro candidate_laterI [OF ok start(1,4,5) 1(7) _ 1(9)]) auto
qed

lemma eol_later_Ok:
  fixes s t :: "'b ledger"
  assumes ok: "codec_ok (c_event E)"
    and run: "eol_later E C rid ev gs sender p i l subject ws s = (Ok (), t)"
  shows "candidate_later E i ev p l s t"
  using run unfolding eol_later_def Let_def
proof (elim bindA_OkE, goal_cases)
  case (1 g s1 u2 s2 last_lce s3 u4 s4 u5 s5 u6 s6 u7 s7 u8 s8)
  have start: "lg_subject_is_gov s i = Some False" "s2 = s" "s3 = s2"
    "last_lce = ls_head l" "\<And>h. ls_head l = Some h \<Longrightarrow> ev_sn (content ev) \<le> h"
    using later_start [OF 1(1,2)] 1(3) by auto
  have "lg_ledger_state s8 = lg_ledger_state s"
    using start(2,3) 1(4,5,7,8) positions_run [OF keeps_positions_ops(1) 1(6)]
    by (auto simp: notify_run ldb_Ok split: if_splits)
  moreover have "bt_inv (nd_db s8)" if "bt_inv (nd_db s)"
    using that start ordered_ldb [OF 1(4)] ordered_ldb [OF 1(5)] ordered_finished [OF 1(6)] ordered_ldb [OF 1(7)] notify_Ok [OF 1(8)]
    by (simp add: keeps_ordered_layers)
  moreover have "nd_db s8 = nd_db s7" by (rule notify_Ok [OF 1(8)])
  ultimately show ?case
    by (intro candidate_laterI [OF ok start(1,4,5) 1(7) _ 1(9)]) auto
qed

lemma transfer_later_Ok:
  fixes s t :: "'b ledger"
  assumes ok: "codec_ok (c_event E)"
    and run: "transfer_later E C rid ev gs sender p tr l subject ws s = (Ok (), t)"
  shows "candidate_later E (tr_subject_id tr) ev p l s t"
  using run unfolding transfer_later_def Let_def
proof (elim bindA_OkE, goal_cases)
  case (1 g s1 u2 s2 last_lce s3 u4 s4 u5 s5 u6 s6 u7 s7)
  let ?i = "tr_subject_id tr"
  have start: "lg_subject_is_gov s ?i = Some False" "s2 = s" "s3 = s2"
    "last_lce = ls_head l" "\<And>h. ls_head l = Some h \<Longrightarrow> ev_sn (content ev) \<le> h"
    using later_start [OF 1(1,2)] 1(3) by auto
  have "lg_ledger_state s7 = lg_ledger_state s"
    using start(2,3) 1(4,6,7) positions_run [OF keeps_positions_ops(1) 1(5)]
    by (auto simp: ldb_Ok)
  moreover have "bt_inv (nd_db s7)" if "bt_inv (nd_db s)"
    using that start ordered_ldb [OF 1(4)] ordered_finished [OF 1(5)] ordered_ldb [OF 1(6)] ordered_ldb [OF 1(7)]
    by (simp add: keeps_ordered_layers)
  ultimately show ?case
    using 1(8) by (intro candidate_laterI [OF ok start(1,4,5) 1(6) lce_run [OF 1(7)]]) auto
qed

section \<open>A known subject\<close>

text \<open>What the handler makes of the subject, and the key the proof must name.\<close>

definition next_subject :: "'b env \<Rightarrow> ledger_config \<Rightarrow> event \<Rightarrow> subject \<Rightarrow> subject \<Rightarrow> bool" where
  "next_subject E C c s s' \<longleftrightarrow>
     (case content (ev_event_request c) of
        Create _ \<Rightarrow> False
      | Fact _ \<Rightarrow> fact_result E c s s'
      | Transfer tr \<Rightarrow>
          (\<exists>keys. s' = transfer_subject (sg_signer (signature (ev_event_request c))) (tr_public_key tr) keys
             (ev_sn c) s)
      | EOL _ \<Rightarrow> s' = s\<lparr>su_sn := ev_sn c, su_active := False\<rparr>)"

definition next_key :: "event \<Rightarrow> subject \<Rightarrow> key_identifier" where
  "next_key c s = (case content (ev_event_request c) of Transfer tr \<Rightarrow> tr_public_key tr | _ \<Rightarrow> su_public_key s)"

text \<open>The next event is applied, a later one becomes the head.\<close>

definition candidate_taken ::
  "'b env \<Rightarrow> ledger_config \<Rightarrow> digest_identifier \<Rightarrow> event signed \<Rightarrow> validation_proof \<Rightarrow> digest_identifier \<Rightarrow>
     ledger_state \<Rightarrow> subject \<Rightarrow> 'b ledger \<Rightarrow> 'b ledger \<Rightarrow> bool" where
  "candidate_taken E C i ev p h l subject s t \<longleftrightarrow>
     (if ev_sn (content ev) = su_sn subject + 1 \<and> ls_head l = None
      then \<exists>subject'. next_subject E C (content ev) subject subject' \<and>
        candidate_next E i ev p h (next_key (content ev) subject) l subject subject' s t
      else su_sn subject < ev_sn (content ev) \<and> candidate_later E i ev p l s t)"

text \<open>What is checked before: the event is after the last applied one of an active subject we are
  to hold, and the validators signed its proof.\<close>

definition candidate_checked ::
  "'b env \<Rightarrow> ledger_config \<Rightarrow> digest_identifier \<Rightarrow> event signed \<Rightarrow> signature list \<Rightarrow> validation_proof \<Rightarrow>
     ledger_state \<Rightarrow> subject \<Rightarrow> 'b ledger \<Rightarrow> bool" where
  "candidate_checked E C i ev gs p l subject s \<longleftrightarrow>
     (\<exists>c. ls_current_sn l = Some c \<and> c < ev_sn (content ev)) \<and>
     get_subject E i (nd_db s) = Ok subject \<and> su_active subject \<and>
     our_business E C (get_metadata p) (nd_db s) \<and> quorum_of_validators E p gs (nd_db s)"

lemma transfer_known_Ok:
  fixes s t :: "'b ledger"
  assumes ok: "codec_ok (c_event E)" "codec_ok (c_subject E)"
    and run: "transfer_known E C rid h ev gs sender p tr l s = (Ok (), t)"
    and tr: "content (ev_event_request (content ev)) = Transfer tr"
  shows "\<exists>subject. candidate_checked E C (tr_subject_id tr) ev gs p l subject s \<and>
    candidate_taken E C (tr_subject_id tr) ev p h l subject s t"
  using run unfolding transfer_known_def Let_def
proof (elim bindA_OkE, goal_cases)
  case (1 u0 s0 subject s1 u2 s2 g s3 u4 s4 ws s5 u6 s6 u7 s7)
  have before: "s4 = s" "\<exists>c. ls_current_sn l = Some c \<and> c < ev_sn (content ev)"
    "get_subject E (tr_subject_id tr) (nd_db s) = Ok subject" "su_active subject"
    using 1(1-5) by (auto split: if_splits)
  then have "s7 = s" "candidate_checked E C (tr_subject_id tr) ev gs p l subject s"
    using check_witness_Ok [OF 1(6)] 1(7) check_validators_Ok [of E p gs s6 s7] 1(8)
    by (auto simp: candidate_checked_def)
  moreover have "candidate_taken E C (tr_subject_id tr) ev p h l subject s7 t"
    using 1(9) transfer_next_Ok [OF ok, of C rid h ev gs sender p tr l subject s7 t]
      transfer_later_Ok [OF ok(1), of C rid ev gs sender p tr l subject ws s7 t]
    by (fastforce simp: candidate_taken_def next_subject_def next_key_def tr split: if_splits)
  ultimately show ?case by blast
qed

lemma eol_known_Ok:
  fixes s t :: "'b ledger"
  assumes ok: "codec_ok (c_event E)" "codec_ok (c_subject E)"
    and run: "eol_known E C rid h ev gs sender p i l s = (Ok (), t)"
    and e: "content (ev_event_request (content ev)) = EOL e"
  shows "\<exists>subject. candidate_checked E C i ev gs p l subject s \<and>
    su_creator subject = sg_signer (signature (ev_event_request (content ev))) \<and>
    candidate_taken E C i ev p h l subject s t"
  using run unfolding eol_known_def Let_def
proof (elim bindA_OkE, goal_cases)
  case (1 u0 s0 subject s1 u2 s2 u3 s3 g s4 u5 s5 ws s6 u7 s7 u8 s8)
  have before: "s5 = s" "\<exists>c. ls_current_sn l = Some c \<and> c < ev_sn (content ev)"
    "get_subject E i (nd_db s) = Ok subject" "su_active subject"
    "su_creator subject = sg_signer (signature (ev_event_request (content ev)))"
    using 1(1-6) by (auto split: if_splits)
  then have "s8 = s" "candidate_checked E C i ev gs p l subject s"
    using check_witness_Ok [OF 1(7)] check_event_Ok [of E ev _ _ s6 s7] 1(8)
      check_validators_Ok [of E p gs s7 s8] 1(9)
    by (auto simp: candidate_checked_def)
  moreover have "candidate_taken E C i ev p h l subject s8 t"
    using 1(10) eol_next_Ok [OF ok, of C rid h ev gs sender p i l subject s8 t]
      eol_later_Ok [OF ok(1), of C rid ev gs sender p i l subject ws s8 t]
    by (fastforce simp: candidate_taken_def next_subject_def next_key_def e split: if_splits)
  ultimately show ?case using before by blast
qed

section \<open>A fact, and the approval it makes obsolete\<close>

lemma set_approval_writes:
  "\<exists>m1. writes ''pending-approval-index'' m m1 \<and> writes ''approvals'' m1 (snd (set_approval E h a m))"
proof (cases "ser (c_approval E) a")
  case None
  then have "writes ''approvals'' m (snd (set_approval E h a m))"
    by (simp add: set_approval_def get_key_eval)
  then show ?thesis using writes_refl by blast
next
  case (Some d)
  let ?key = "''pending-approval-index'' @ char_MAX @ dstr E h"
  let ?index = "if ae_state a = Pending then kv_put (c_digest E) ?key h else coll_del ?key"
  obtain r m1 where m1: "?index m = (r, m1)" by fastforce
  then have "writes ''pending-approval-index'' m m1"
    using writes_kv_put [of "''pending-approval-index''" m "c_digest E" "dstr E h" h]
      writes_del [of "''pending-approval-index''" m "dstr E h"] by (auto split: if_splits)
  moreover have "writes ''approvals'' m1 (snd (set_approval E h a m))"
    using Some m1 writes_put [of "''approvals''" m1 "dstr E h" d]
    by (cases r) (auto simp: set_approval_def get_key_eval bindA_run)
  ultimately show ?thesis by blast
qed

lemma keeps_set_approval [inv_intros]:
  assumes "''approvals'' \<in> P" "''pending-approval-index'' \<in> P"
  shows "keeps (writes_in P a) (set_approval E h x)"
proof (rule keepsI)
  fix m assume "writes_in P a m"
  then show "writes_in P a (snd (set_approval E h x m))"
    using set_approval_writes [of m E h x] assms by (blast intro: writes_in_step)
qed

lemma obsolete_approval_Ok:
  fixes s t :: "'b ledger"
  assumes "obsolete_approval E h i sn s = (Ok (), t)"
  shows "writes_in {''approvals'', ''pending-approval-index''} (nd_db s) (nd_db t) \<and>
    lg_ledger_state t = lg_ledger_state s \<and> nd_distribution t = nd_distribution s"
proof -
  have "writes_in {''approvals'', ''pending-approval-index''} (nd_db s) (nd_db t)"
    by (rule writes_run [where m = "obsolete_approval E h i sn", OF assms])
      (unfold obsolete_approval_def, intro inv_intros, auto split: failure.split db_error.split)
  moreover have "keeps (\<lambda>u :: 'b ledger. nd_distribution u = nd_distribution s) (obsolete_approval E h i sn)"
    unfolding obsolete_approval_def ldb_def dbA_def notify_def
    by (intro inv_intros) (auto split: failure.split db_error.split)
  then have "nd_distribution t = nd_distribution s" using assms by (auto dest!: keepsD [where s = s])
  ultimately show ?thesis
    using positions_run [OF keeps_positions_obsolete assms] by simp
qed

text \<open>Nothing that was said of the event is about the tables of the approvals.\<close>

lemma candidate_taken_after:
  fixes s t u :: "'b ledger"
  assumes "candidate_taken E C i ev p h l subject s t"
    and w: "writes_in P (nd_db t) (nd_db u)" "\<And>q. q \<in> P \<Longrightarrow> sep_free q" "''event'' \<notin> P" "''subject'' \<notin> P"
    and "lg_ledger_state u = lg_ledger_state t" "nd_distribution u = nd_distribution t"
  shows "candidate_taken E C i ev p h l subject s u"
proof -
  have "get_event E i (ev_sn (content ev)) (nd_db u) = get_event E i (ev_sn (content ev)) (nd_db t)"
    using events.get_unwritten [OF w(1,3,2), of E "(i, ev_sn (content ev))"] by simp
  moreover have "get_subject E i (nd_db u) = get_subject E i (nd_db t)"
    using subjects.get_unwritten [OF w(1,4,2)] by simp
  ultimately have "candidate_next E i ev p h pk l x y s u = candidate_next E i ev p h pk l x y s t"
    "candidate_later E i ev p l s u = candidate_later E i ev p l s t" for pk x y
    using assms(6,7) by (simp_all add: candidate_next_def candidate_later_def event_stored_def)
  then show ?thesis using assms(1) by (simp only: candidate_taken_def)
qed

text \<open>Who may issue the fact: the owner of the subject, or whoever the governance permits to.\<close>

definition may_invoke :: "'b env \<Rightarrow> metadata \<Rightarrow> subject \<Rightarrow> key_identifier \<Rightarrow> 'b data_store \<Rightarrow> bool" where
  "may_invoke E md subject k m \<longleftrightarrow>
     su_owner subject = k \<or> get_issue_create_info E md Invoke k m = Ok True"

lemma check_issuer_Ok:
  fixes s t :: "'b ledger"
  assumes "check_issuer E md subject k s = (Ok (), t)"
  shows "t = s \<and> may_invoke E md subject k (nd_db s)"
  using assms by (auto simp: check_issuer_def may_invoke_def bindA_eq_Inr lask_Ok split: if_splits)

lemma fact_known_Ok:
  fixes s t :: "'b ledger"
  assumes ok: "codec_ok (c_event E)" "codec_ok (c_subject E)"
    and run: "fact_known E C rid h ev gs sender p i l s = (Ok (), t)"
    and f: "content (ev_event_request (content ev)) = Fact f"
  shows "\<exists>subject. candidate_checked E C i ev gs p l subject s \<and>
    may_invoke E (get_metadata p) subject (sg_signer (signature (ev_event_request (content ev)))) (nd_db s) \<and>
    check_event E ev (get_metadata p)
      (get_subject_context subject (sg_signer (signature (ev_event_request (content ev))))) s = (Ok (), s) \<and>
    candidate_taken E C i ev p h l subject s t"
  using run unfolding fact_known_def Let_def
proof (elim bindA_OkE, goal_cases)
  case (1 g s0 u0 s1 subject s2 ah s3 u4 s4 u5 s5 u6 s6 ws s7 u8 s8 u9 s9 u10 s10)
  let ?k = "sg_signer (signature (ev_event_request (content ev)))"
  have "s3 = s" "\<exists>c. ls_current_sn l = Some c \<and> c < ev_sn (content ev)"
    "get_subject E i (nd_db s) = Ok subject"
    using 1(1-4) by auto
  moreover have "s5 = s3" "su_active subject" using 1(5,6) by (auto split: if_splits)
  ultimately have before: "s5 = s" "\<exists>c. ls_current_sn l = Some c \<and> c < ev_sn (content ev)"
    "get_subject E i (nd_db s) = Ok subject" "su_active subject" by simp_all
  have s7: "s7 = s" "may_invoke E (get_metadata p) subject ?k (nd_db s)"
    "our_business E C (get_metadata p) (nd_db s)"
    using check_issuer_Ok [of E "get_metadata p" subject ?k s5 s6] 1(7) check_witness_Ok [OF 1(8)] before(1)
    by auto
  have s8: "s8 = s" "check_event E ev (get_metadata p) (get_subject_context subject ?k) s = (Ok (), s)"
    using check_event_Ok [of E ev "get_metadata p" "get_subject_context subject ?k" s7 s8] 1(9) s7(1) by auto
  have s9: "s9 = s" "candidate_checked E C i ev gs p l subject s"
    using before s7 s8 check_validators_Ok [of E p gs s8 s9] 1(10) by (auto simp: candidate_checked_def)
  have "candidate_taken E C i ev p h l subject s9 s10"
  proof (cases "ev_sn (content ev) = su_sn subject + 1 \<and> ls_head l = None")
    case True
    then have "fact_next E C rid h ev gs sender p i l subject s9 = (Ok (), s10)" using 1(11) by simp
    from fact_next_Ok [OF ok this] show ?thesis
      using True by (simp add: candidate_taken_def next_subject_def next_key_def f)
  next
    case False
    then have "su_sn subject < ev_sn (content ev)"
      "fact_later E C rid ev gs sender p i l subject ws s9 = (Ok (), s10)"
      using 1(11) by (auto split: if_splits)
    then show ?thesis
      using fact_later_Ok [OF ok(1), of C rid ev gs sender p i l subject ws s9 s10]
      unfolding candidate_taken_def if_not_P [OF False] by blast
  qed
  moreover have "q \<in> {''approvals'', ''pending-approval-index''} \<Longrightarrow> sep_free q" for q by auto
  ultimately have "candidate_taken E C i ev p h l subject s t"
    using obsolete_approval_Ok [OF 1(12)] s9(1)
      candidate_taken_after [of E C i ev p h l subject s9 s10 "{''approvals'', ''pending-approval-index''}" t]
    by simp
  then show ?case using s7 s8 s9 by blast
qed

section \<open>An unknown subject\<close>

definition candidate_first ::
  "'b env \<Rightarrow> ledger_config \<Rightarrow> digest_identifier \<Rightarrow> event signed \<Rightarrow> signature list \<Rightarrow> validation_proof \<Rightarrow>
     'b ledger \<Rightarrow> 'b ledger \<Rightarrow> bool" where
  "candidate_first E C i ev gs p s t \<longleftrightarrow>
     vp_schema_id p \<noteq> ''governance'' \<and>
     our_business E C (get_metadata p) (nd_db s) \<and> quorum_of_validators E p gs (nd_db s) \<and>
     lg_ledger_state t = (lg_ledger_state s)(i \<mapsto>
       \<lparr>ls_current_sn = None, ls_head = Some (ev_sn (content ev))\<rparr>) \<and>
     get_event E i (ev_sn (content ev)) (nd_db t) = Ok ev \<and> get_lce_validation_proof E i (nd_db t) = Ok p"

lemma event_run:
  fixes s t :: "'b ledger"
  assumes "ldb (set_event E i ev) s = (Ok u, t)" "''event'' \<in> P"
  shows "writes_in P (nd_db s) (nd_db t)"
  by (rule writes_run [where m = "ldb (set_event E i ev)", OF assms(1)]) (intro inv_intros assms(2))

text \<open>The steps the three branches end with: the proof and the event are stored, the request is
  finished, and the event becomes the head.\<close>

lemma first_stored:
  fixes s1 s2 s3 s4 t :: "'b ledger"
  assumes ok: "codec_ok (c_event E)" "codec_ok (c_proof E)"
    and 1: "ldb (set_lce_validation_proof E i p) s1 = (Ok u1, s2)" "ldb (set_event E i ev) s2 = (Ok u2, s3)"
    and 2: "writes_in {''taple-request''} (nd_db s3) (nd_db s4)" "lg_ledger_state s4 = lg_ledger_state s"
    and 3: "first_head C i (ev_sn (content ev)) sender s4 = (Ok (), t)"
    and 4: "vp_schema_id p \<noteq> ''governance''" "our_business E C (get_metadata p) (nd_db s)"
      "quorum_of_validators E p gs (nd_db s)"
  shows "candidate_first E C i ev gs p s t"
proof -
  have lce: "get_lce_validation_proof E i (nd_db s2) = Ok p"
    using 1(1) lce_proofs.get_put [OF ok(2), where k = i and x = p] by (auto simp: ldb_Ok)
  have ev: "get_event E i (ev_sn (content ev)) (nd_db s3) = Ok ev"
    using 1(2) events.get_put [OF ok(1), where k = "(i, ev_sn (content ev))" and x = ev] by (auto simp: ldb_Ok)
  have w: "writes_in {''event'', ''taple-request''} (nd_db s2) (nd_db s4)"
    using event_run [OF 1(2), of "{''event'', ''taple-request''}"] 2(1)
    by (auto intro: writes_in_trans writes_in_sub)
  have "get_lce_validation_proof E i (nd_db t) = Ok p"
    using lce lce_proofs.get_unwritten [OF w, of E i] first_head_Ok [OF 3] by fastforce
  moreover have "get_event E i (ev_sn (content ev)) (nd_db t) = Ok ev"
    using ev events.get_unwritten [OF 2(1), of E "(i, ev_sn (content ev))"] first_head_Ok [OF 3] by fastforce
  ultimately show ?thesis
    using 4 2(2) first_head_Ok [OF 3] by (simp add: candidate_first_def)
qed

text \<open>The checks the three branches start with.\<close>

lemma first_checks:
  fixes s s1 s2 s3 s4 :: "'b ledger"
  assumes "unknown_subject E C (get_metadata p) i sender s = (Ok u1, s1)"
    and "check_witness E C (get_metadata p) i s1 = (Ok ws, s2)"
    and "check_validators E (get_metadata p) gs p s2 = (Ok u2, s3)"
  shows "vp_schema_id p \<noteq> ''governance'' \<and> our_business E C (get_metadata p) (nd_db s) \<and>
    quorum_of_validators E p gs (nd_db s) \<and> lg_ledger_state s3 = lg_ledger_state s"
  using assms unknown_subject_Ok [of E C "get_metadata p" i sender s s1] check_witness_Ok [OF assms(2)]
    check_validators_Ok [of E p gs s2 s3] by (auto simp: get_metadata_def)

lemma transfer_unknown_Ok:
  fixes s t :: "'b ledger"
  assumes ok: "codec_ok (c_event E)" "codec_ok (c_proof E)"
    and run: "transfer_unknown E C rid ev gs sender p tr s = (Ok (), t)"
  shows "candidate_first E C (tr_subject_id tr) ev gs p s t"
  using run unfolding transfer_unknown_def Let_def
proof (elim bindA_OkE, goal_cases)
  case (1 u1 s1 ws s2 u3 s3 u4 s4 u5 s5 u6 s6 u7 s7 u8 s8)
  have "s3 = s2" using 1(3) by simp
  then have c: "vp_schema_id p \<noteq> ''governance''" "our_business E C (get_metadata p) (nd_db s)"
    "quorum_of_validators E p gs (nd_db s)" "lg_ledger_state s4 = lg_ledger_state s"
    using first_checks [OF 1(1,2), of gs u4 s4] 1(4) by auto
  have "lg_ledger_state s8 = lg_ledger_state s"
    using c(4) 1(5-7) positions_run [OF keeps_positions_ops(1) 1(8)] by (auto simp: ldb_Ok)
  from first_stored [OF ok 1(6,7) taple_run [OF 1(8)] this 1(9) c(1-3)] show ?case by simp
qed

lemma eol_unknown_Ok:
  fixes s t :: "'b ledger"
  assumes ok: "codec_ok (c_event E)" "codec_ok (c_proof E)"
    and run: "eol_unknown E C rid ev gs sender p i s = (Ok (), t)"
  shows "candidate_first E C i ev gs p s t"
  using run unfolding eol_unknown_def Let_def
proof (elim bindA_OkE, goal_cases)
  case (1 u1 s1 ws s2 u4 s4 u5 s5 u6 s6 u7 s7 u8 s8 u9 s9)
  have c: "vp_schema_id p \<noteq> ''governance''" "our_business E C (get_metadata p) (nd_db s)"
    "quorum_of_validators E p gs (nd_db s)" "lg_ledger_state s4 = lg_ledger_state s"
    using first_checks [OF 1(1,2,3)] by auto
  have "lg_ledger_state s9 = lg_ledger_state s"
    using c(4) 1(4-6,8) positions_run [OF keeps_positions_ops(1) 1(7)]
    by (auto simp: ldb_Ok notify_run split: if_splits)
  moreover have "writes_in {''taple-request''} (nd_db s7) (nd_db s9)"
    using taple_run [OF 1(7), of "{''taple-request''}"] notify_Ok [OF 1(8)] by simp
  ultimately show ?case using first_stored [OF ok 1(5,6) _ _ 1(9) c(1-3)] by blast
qed

lemma fact_unknown_Ok:
  fixes s t :: "'b ledger"
  assumes ok: "codec_ok (c_event E)" "codec_ok (c_proof E)"
    and run: "fact_unknown E C rid ev gs sender p i s = (Ok (), t)"
  shows "candidate_first E C i ev gs p s t"
  using run unfolding fact_unknown_def Let_def
proof (elim bindA_OkE, goal_cases)
  case (1 u1 s1 ws s2 u4 s4 u5 s5 u6 s6 u7 s7 u8 s8 u9 s9 u10 s10)
  have c: "vp_schema_id p \<noteq> ''governance''" "our_business E C (get_metadata p) (nd_db s)"
    "quorum_of_validators E p gs (nd_db s)" "lg_ledger_state s4 = lg_ledger_state s"
    using first_checks [OF 1(1,2,3)] by auto
  have "lg_ledger_state s10 = lg_ledger_state s"
    using c(4) 1(4-6,8) positions_run [OF keeps_positions_ops(1) 1(7)]
      positions_run [OF keeps_positions_ops(1) 1(9)]
    by (auto simp: ldb_Ok notify_run split: if_splits)
  moreover have "writes_in {''taple-request''} (nd_db s7) (nd_db s10)"
    using taple_run [OF 1(7), of "{''taple-request''}"] taple_run [OF 1(9), of "{''taple-request''}"]
      notify_Ok [OF 1(8)] writes_in_trans by fastforce
  ultimately show ?case using first_stored [OF ok 1(5,6) _ _ 1(10) c(1-3)] by blast
qed

section \<open>The handler\<close>

text \<open>The case of an event that is not a genesis, of the subject \<open>i\<close>.\<close>

definition candidate_accepted ::
  "'b env \<Rightarrow> ledger_config \<Rightarrow> digest_identifier \<Rightarrow> event signed \<Rightarrow> signature list \<Rightarrow> validation_proof \<Rightarrow>
     digest_identifier \<Rightarrow> 'b ledger \<Rightarrow> 'b ledger \<Rightarrow> bool" where
  "candidate_accepted E C i ev gs p h s t \<longleftrightarrow>
     (case lg_ledger_state s i of
        None \<Rightarrow> candidate_first E C i ev gs p s t
      | Some l \<Rightarrow> \<exists>subject. candidate_checked E C i ev gs p l subject s \<and> candidate_taken E C i ev p h l subject s t)"

lemma external_event_signed:
  "external_event E C ev gs sender p s = (Ok (), t) \<Longrightarrow> verify_event_signatures E ev = Ok ()"
  by (auto simp: external_event_def Let_def bindA_eq_Inr lift_subject_def)

lemma external_event_Ok:
  fixes s t :: "'b ledger"
  assumes ok: "codec_ok (c_event E)" "codec_ok (c_subject E)" "codec_ok (c_proof E)"
    and run: "external_event E C ev gs sender p s = (Ok (), t)"
    and i: "request_subject (content (ev_event_request (content ev))) = Some i"
  shows "verify_event_signatures E ev = Ok () \<and>
    (\<exists>h. from_serializable_borsh E (PEvent (content ev)) (di_derivator (vp_event_hash p)) = Ok h \<and>
      candidate_accepted E C i ev gs p h s t)"
  using run unfolding external_event_def Let_def
proof (elim bindA_OkE, goal_cases)
  case (1 rid s0 h s1 u2 s2 u3 s3 ps s4)
  have s4: "s4 = s" "verify_event_signatures E ev = Ok ()" "ps = lg_ledger_state s"
    "from_serializable_borsh E (PEvent (content ev)) (di_derivator (vp_event_hash p)) = Ok h"
    using 1(1-5)
    by (auto simp: request_hash_def content_hash_as_def lift_subject_Ok check_new_request_def db_case_def
        split: sum.splits failure.splits db_error.splits)
  have "candidate_accepted E C i ev gs p h s t"
  proof (cases "content (ev_event_request (content ev))")
    case (Fact f)
    then show ?thesis
      using i 1(6) s4 fact_known_Ok [OF ok(1,2), of C rid h ev gs sender p i _ s t]
        fact_unknown_Ok [OF ok(1,3), of C rid ev gs sender p i s t]
      by (fastforce simp: candidate_accepted_def request_subject_def split: option.splits)
  next
    case (Transfer tr)
    then show ?thesis
      using i 1(6) s4 transfer_known_Ok [OF ok(1,2), of C rid h ev gs sender p tr _ s t]
        transfer_unknown_Ok [OF ok(1,3), of C rid ev gs sender p tr s t]
      by (fastforce simp: candidate_accepted_def request_subject_def split: option.splits)
  next
    case (EOL e)
    then show ?thesis
      using i 1(6) s4 eol_known_Ok [OF ok(1,2), of C rid h ev gs sender p i _ s t]
        eol_unknown_Ok [OF ok(1,3), of C rid ev gs sender p i s t]
      by (fastforce simp: candidate_accepted_def request_subject_def split: option.splits)
  qed (use i in \<open>simp add: request_subject_def\<close>)
  then show ?case using s4 by blast
qed

lemma candidate_accepted_signed:
  "candidate_accepted E C i ev gs p h s t \<Longrightarrow>
     our_business E C (get_metadata p) (nd_db s) \<and> quorum_of_validators E p gs (nd_db s)"
  by (auto simp: candidate_accepted_def candidate_checked_def candidate_first_def split: option.splits)

section \<open>A head that is never reached\<close>

text \<open>An event accepted while a head is known replaces it, whatever its number.\<close>

lemma candidate_replaces_head:
  fixes s t :: "'b ledger"
  assumes ok: "codec_ok (c_event E)" "codec_ok (c_subject E)" "codec_ok (c_proof E)"
    and run: "external_event E C ev gs sender p s = (Ok (), t)"
    and i: "request_subject (content (ev_event_request (content ev))) = Some i"
    and l: "lg_ledger_state s i = Some l" "ls_head l = Some h"
  shows "ev_sn (content ev) \<le> h \<and> (\<exists>c. ls_current_sn l = Some c \<and> c < ev_sn (content ev) \<and>
      lg_ledger_state t i = Some \<lparr>ls_current_sn = Some c, ls_head = Some (ev_sn (content ev))\<rparr>) \<and>
    (bt_inv (nd_db s) \<longrightarrow> ev_sn (content ev) = h \<longrightarrow> get_event E i h (nd_db t) = Fail EntryNotFound)"
  using external_event_Ok [OF ok run i] l
  by (auto simp: candidate_accepted_def candidate_checked_def candidate_taken_def candidate_later_def)

text \<open>From such a position the events that follow never reach the head, before the numbers
  run out.\<close>

lemma stuck_run:
  fixes s t :: "'b ledger"
  assumes "forA (external_intermediate_event E C) evs s = (Ok (), t)"
    and "\<forall>ev \<in> set evs. ev_subject_id (content ev) = i"
    and "lg_ledger_state s i = Some \<lparr>ls_current_sn = Some c, ls_head = Some h\<rparr>"
    and "unat h \<le> unat c + 1" "unat c + length evs + 2 < 2 ^ 64"
  shows "lg_ledger_state t i = Some \<lparr>ls_current_sn = Some (c + of_nat (length evs)), ls_head = Some h\<rparr>"
  using assms
proof (induction evs arbitrary: s c)
  case (Cons ev evs)
  obtain u :: "'b ledger" where step: "external_intermediate_event E C ev s = (Ok (), u)"
    and rest: "forA (external_intermediate_event E C) evs u = (Ok (), t)"
    using Cons.prems(1) by (rule forA_Cons_OkE)
  have c: "unat (c + 1) = unat c + 1" "unat (c + 2) = unat c + 2"
    using unat_plus_small [of c 1] unat_plus_small [of c 2] Cons.prems(5) by simp_all
  then have h: "h \<noteq> c + 2" using Cons.prems(4) by auto
  have u: "lg_ledger_state u i = Some \<lparr>ls_current_sn = Some (c + 1), ls_head = Some h\<rparr>"
    using step by (rule intermediate_Ok) (use h Cons.prems(2,3) in \<open>auto simp: sync_position_def\<close>)
  from Cons.IH [OF rest _ u] show ?case
    using Cons.prems(2,4,5) c by (simp add: add.assoc)
qed simp

section \<open>A genesis event\<close>

lemma external_genesis_unvalidated:
  assumes "content (ev_event_request (content ev)) = Create cr"
    and "di_derivator (vp_event_hash p) = di_derivator (vp_event_hash p')"
  shows "external_event E C ev gs sender p s = external_event E C ev gs' sender' p' s"
  using assms by (simp add: external_event_def external_create_def)

end
