(* ===== verification/Sample_External.thy ===== *)
theory Sample_External
  imports Sample_Ledger Ledger_External_Laws
begin

text \<open>
  Runs of the handler of last candidate events on the sample ledger: the next event of the
  governance, and candidate events of subject 5 while it has a head.
\<close>

definition owner_config :: ledger_config where
  "owner_config = \<lparr>lc_our_id = sample_key 1, lc_derivator = Blake3_256\<rparr>"

definition candidate_event :: "event_request \<Rightarrow> event signed" where
  "candidate_event er = sample_event er 1 True"

definition governance_fact :: fact_request where
  "governance_fact = \<lparr>fa_subject_id = sample_id 2, fa_payload = JNull\<rparr>"

definition candidate_proof :: validation_proof where
  "candidate_proof = new_proof sample_governance 1 (new_digest Blake3_256 sample_hash)
     (new_digest Blake3_256 sample_hash) 0"

text \<open>The governance with its genesis event.\<close>

definition candidate_db :: "blob data_store" where
  "candidate_db = db_after (set_event sample_env (sample_id 2) (sample_event (Create sample_start) 0 True)) ledger_db"

text \<open>The same node, which also follows the governance.\<close>

definition candidate_ledger :: "u64 option \<Rightarrow> blob ledger" where
  "candidate_ledger h = (sample_ledger candidate_db (Some 0) h)
     \<lparr>lg_subject_is_gov := [sample_id 5 \<mapsto> False, sample_id 2 \<mapsto> True],
      lg_ledger_state := [sample_id 5 \<mapsto> \<lparr>ls_current_sn = Some 0, ls_head = h\<rparr>,
        sample_id 2 \<mapsto> \<lparr>ls_current_sn = Some 0, ls_head = None\<rparr>]\<rparr>"

lemma candidate_sel [simp]:
  "nd_db (candidate_ledger h) = candidate_db" "nd_gov_alive (candidate_ledger h)"
  "nd_message_open (candidate_ledger h)" "nd_distribution_open (candidate_ledger h)"
  "lg_subject_is_gov (candidate_ledger h) = [sample_id 5 \<mapsto> False, sample_id 2 \<mapsto> True]"
  "lg_ledger_state (candidate_ledger h) = [sample_id 5 \<mapsto> \<lparr>ls_current_sn = Some 0, ls_head = h\<rparr>,
     sample_id 2 \<mapsto> \<lparr>ls_current_sn = Some 0, ls_head = None\<rparr>]"
  "lc_our_id owner_config = sample_key 1" "fa_subject_id governance_fact = sample_id 2"
  "get_metadata candidate_proof = sample_metadata"
  by (simp_all add: candidate_ledger_def owner_config_def governance_fact_def candidate_proof_def
      new_proof_def get_metadata_def sample_metadata_def sample_governance_def sample_subject_def)

lemma candidate_reads [simp]:
  "get_subject sample_env (sample_id 5) candidate_db = Ok sample_subject_5"
  "get_subject sample_env (sample_id 2) candidate_db = Ok sample_governance"
  "get_signatures sample_env (sample_id 5) sn candidate_db = Fail EntryNotFound"
  "get_taple_request sample_env d candidate_db = Fail EntryNotFound"
  "get_approval sample_env d candidate_db = Fail EntryNotFound"
  "get_event sample_env (sample_id 2) 0 candidate_db = Ok (sample_event (Create sample_start) 0 True)"
  by (simp_all add: candidate_db_def foreign_reads)

lemma candidate_signatures [simp]:
  "get_signatures sample_env (sample_id 2) sn candidate_db = Fail EntryNotFound"
  by (simp add: candidate_db_def ledger_db_def sample_db_def db_after_fold foreign_reads)

lemma candidate_subjects [simp]:
  "su_active sample_subject_5" "su_active sample_governance" "su_sn sample_governance = 0"
  "su_subject_id sample_governance = sample_id 2" "su_governance_id sample_governance = default_digest"
  "su_owner sample_governance = sample_key 1" "su_public_key sample_governance = sample_key 9"
  "su_properties sample_governance = get_governance_initial_state"
  by (simp_all add: sample_subject_5_def sample_governance_def sample_subject_def)

lemma candidate_sourced [simp]:
  "sourced sample_env (gov_of sample_metadata) 0 candidate_db = Ok sample_governance"
  by (simp add: sourced_def gov_of_def sample_metadata_def default_digest_def
      governance_event_sourcing_def)

lemma candidate_roles [simp]:
  "get_signers sample_env sample_metadata Witness candidate_db = Ok {sample_key 1}"
  "stage \<in> {Evaluate, Approve, Validate} \<Longrightarrow>
     get_signers sample_env sample_metadata stage candidate_db = Ok {sample_key 1}"
proof -
  have gov: "gov_of sample_metadata = sample_id 2"
    by (simp add: gov_of_def sample_metadata_def default_digest_def)
  show "get_signers sample_env sample_metadata Witness candidate_db = Ok {sample_key 1}"
    unfolding get_signers_def signers_version_def gov sourced_def governance_event_sourcing_def
    by (simp add: sample_metadata_def get_governance_initial_state_def mk_role_def
        get_members_from_governance_def role_applies_def Let_def)
  show "get_signers sample_env sample_metadata stage candidate_db = Ok {sample_key 1}"
    if "stage \<in> {Evaluate, Approve, Validate}"
    using candidate_sourced that
    by (auto simp: get_signers_def signers_version_def sample_metadata_def
        get_governance_initial_state_def mk_role_def get_members_from_governance_def Let_def)
qed

lemma candidate_quorum [simp]:
  "get_quorum sample_env sample_metadata stage candidate_db = Ok 1"
  if "stage \<in> {Evaluate, Approve, Validate}"
  using that candidate_sourced candidate_roles(2) [of stage]
  by (auto simp: get_quorum_def quorum_size_def sample_metadata_def
      get_governance_initial_state_def get_as_array_def policy_quorum_def)

lemma candidate_fits [simp]:
  "check_validation_proof sample_env candidate_proof sample_governance (new_digest Blake3_256 sample_hash)
     (sample_key 9) candidate_db = Ok ()"
  by (simp add: check_validation_proof_def proof_prev_hash_def content_hash_as_def candidate_proof_def
      new_proof_def)

lemma candidate_proof_hash [simp]: "vp_event_hash candidate_proof = new_digest Blake3_256 sample_hash"
  by (simp add: candidate_proof_def new_proof_def)

lemma sample_del_event [simp]:
  "del_event sample_env i sn m = (Ok (), db_after (del_event sample_env i sn) m)"
  by (simp add: db_after_def del_event_def get_key_eval coll_del_def)

lemmas run_candidate = run_sync external_event_def known_subject_def is_gov_of_def check_witness_def
  check_validators_def check_proof_def get_signers_and_quorum_def verify_signatures_def
  next_applied_def new_head_def last_head_def check_position_def refuse_governance_def ask_sender_def
  transfer_known_def transfer_later_def fact_known_def fact_next_def check_issuer_def
  check_event_def gov_updated_def set_is_gov_def verify_eval_appr_def event_evaluation_response_def
  evaluation_request_hash_def check_quorum_def quorum_negative_def

lemma candidate_next_run:
  "is_Ok (fst (fact_next sample_env owner_config (new_digest Blake3_256 sample_hash)
     (new_digest Blake3_256 sample_hash) (candidate_event (Fact governance_fact)) [sample_signature 1]
     (sample_key 9) candidate_proof (sample_id 2) \<lparr>ls_current_sn = Some 0, ls_head = None\<rparr> sample_governance
     (candidate_ledger None)))"
  by (simp add: run_candidate candidate_event_def foreign_reads event_reads)

lemma candidate_head:
  "is_Ok (fst (external_event sample_env owner_config (candidate_event (Transfer sample_transfer))
     [sample_signature 1] (sample_key 9) candidate_proof (candidate_ledger (Some 3))))"
  by (simp add: run_candidate candidate_event_def foreign_reads event_reads)

lemma candidate_checks_run:
  "fact_known sample_env owner_config (new_digest Blake3_256 sample_hash)
     (new_digest Blake3_256 sample_hash) (candidate_event (Fact governance_fact)) [sample_signature 1]
     (sample_key 9) candidate_proof (sample_id 2) \<lparr>ls_current_sn = Some 0, ls_head = None\<rparr>
     (candidate_ledger None) =
   bindA (fact_next sample_env owner_config (new_digest Blake3_256 sample_hash)
     (new_digest Blake3_256 sample_hash) (candidate_event (Fact governance_fact)) [sample_signature 1]
     (sample_key 9) candidate_proof (sample_id 2) \<lparr>ls_current_sn = Some 0, ls_head = None\<rparr> sample_governance)
     (\<lambda>_. obsolete_approval sample_env (new_digest Blake3_256 sample_hash) (sample_id 2) 1)
     (candidate_ledger None)"
  by (simp add: fact_known_def candidate_event_def run_sync known_subject_def is_gov_of_def check_witness_def
      check_validators_def get_signers_and_quorum_def verify_signatures_def check_position_def
      check_issuer_def check_event_def verify_eval_appr_def event_evaluation_response_def
      evaluation_request_hash_def check_quorum_def quorum_negative_def del: obsolete_approval_def)

lemma candidate_applied_run:
  "is_Ok (fst (bindA (fact_next sample_env owner_config (new_digest Blake3_256 sample_hash)
     (new_digest Blake3_256 sample_hash) (candidate_event (Fact governance_fact)) [sample_signature 1]
     (sample_key 9) candidate_proof (sample_id 2) \<lparr>ls_current_sn = Some 0, ls_head = None\<rparr> sample_governance)
     (\<lambda>_. obsolete_approval sample_env (new_digest Blake3_256 sample_hash) (sample_id 2) 1)
     (candidate_ledger None)))"
  by (simp add: run_candidate candidate_event_def foreign_reads event_reads)

lemma candidate_applied:
  "is_Ok (fst (external_event sample_env owner_config (candidate_event (Fact governance_fact))
     [sample_signature 1] (sample_key 9) candidate_proof (candidate_ledger None)))"
proof -
  have "external_event sample_env owner_config (candidate_event (Fact governance_fact))
      [sample_signature 1] (sample_key 9) candidate_proof (candidate_ledger None) =
    fact_known sample_env owner_config (new_digest Blake3_256 sample_hash)
      (new_digest Blake3_256 sample_hash) (candidate_event (Fact governance_fact)) [sample_signature 1]
      (sample_key 9) candidate_proof (sample_id 2) \<lparr>ls_current_sn = Some 0, ls_head = None\<rparr>
      (candidate_ledger None)"
    by (simp add: external_event_def candidate_event_def run_sync)
  then show ?thesis by (simp only: candidate_checks_run candidate_applied_run)
qed

lemma candidate_head_again:
  "is_Ok (fst (external_event sample_env owner_config (candidate_event (Transfer sample_transfer))
     [sample_signature 1] (sample_key 9) candidate_proof (candidate_ledger (Some 1))))"
  by (simp add: run_candidate candidate_event_def foreign_reads event_reads)

lemma candidate_db_ordered: "bt_inv candidate_db"
  using events.inv_put [of _ sample_env "(i, sn)" for i sn] subjects.inv_put [of _ sample_env]
  by (simp add: candidate_db_def ledger_db_def sample_db_def db_after_def del: sample_puts)

lemma candidate_subject [simp]:
  "request_subject (content (ev_event_request (content (candidate_event (Transfer sample_transfer))))) =
     Some (sample_id 5)"
  "request_subject (content (ev_event_request (content (candidate_event (Fact governance_fact))))) =
     Some (sample_id 2)"
  "ev_sn (content (candidate_event er)) = 1"
  by (simp_all add: candidate_event_def request_subject_def)

end
