(* ===== verification/Approval.thy ===== *)
theory Approval
  imports Node Db_Laws
begin

text \<open>
  The approver (\<^verbatim>\<open>approval/inner_manager.rs\<close> and \<^verbatim>\<open>approval/manager.rs\<close>): keeps the approval requests
  of other nodes, asks the user, or answers them itself as configured, and signs the votes.
\<close>

section \<open>Errors and configuration\<close>

datatype approval_manager_error =
    AskNoAllowed
  | GovernanceChannelFailed
  | MessageChannelFailed
  | AUnexpectedError
  | ADatabaseError
  | HashGenerationFailed
  | SignProcessFailed
  | ResponseChannelClosed
  | InvalidRequestTypeFound
  | UnexpectedRequestType
  | MoreRequestThanMaxAllowed
  | EventApplyFailed

datatype approval_error_response =
    NotEvaluationInRequest
  | APIChannelNotAvailable
  | RequestAlreadyKnown
  | NoFactEvent
  | PreviousEventDetected
  | AGovernanceNotFound
  | AInvalidGovernanceID
  | InvalidGovernanceVersion
  | OurGovIsLower key_identifier key_identifier digest_identifier
  | OurGovIsHigher key_identifier key_identifier digest_identifier
  | ASubjectNotFound
  | GovernanceNoCorrelation
  | SubjectNotSynchronized
  | SignatureSignerIsNotSubject
  | InvalidSubjectSignature
  | NodeIsNotApprover
  | InvalidEvaluator
  | InvalidEvaluatorSignature
  | InvalidInvokator
  | InvalidInvokatorPermission
  | NoQuorumReached
  | ApprovalRequestNotFound
  | NoHashCorrelation
  | InvalidAcceptance
  | ErrorHashing
  | InvalidStateHashAfterApply
  | RequestNotFound
  | NotPendingRequest
  | RequestAlreadyResponded

datatype votation_type = VoteNormal | AlwaysAccept | AlwaysReject

definition votation_type_from :: "u8 \<Rightarrow> votation_type" where
  "votation_type_from passvotation =
     (if passvotation = 2 then AlwaysReject else if passvotation = 1 then AlwaysAccept else VoteNormal)"

record approver =
  ap_signature_manager :: self_signature_manager
  ap_pass_votation :: votation_type
  ap_derivator :: digest_derivator

text \<open>An operation may fail with an error that ends the manager, or answer with an error: a sum.
  The notifications of this module are built and never awaited, so they are not sent.\<close>

type_synonym ('b, 'z, 'a) aact = "(('b, 'z) node_scheme, 'a, approval_manager_error) act"

definition adb :: "('b data_store, 'a, db_error) act \<Rightarrow> ('b, 'z, 'a) aact" where
  "adb m = dbA (\<lambda>_. ADatabaseError) m"

section \<open>Requests\<close>

definition get_single_request ::
  "'b env \<Rightarrow> digest_identifier \<Rightarrow> 'b data_store \<Rightarrow> approval_error_response + approval_entity" where
  "get_single_request E request_id m =
     (case get_approval E request_id m of Inr a \<Rightarrow> Inr a | Inl _ \<Rightarrow> Inl ApprovalRequestNotFound)"

text \<open>All pending requests; \<open>isize::MAX\<close> is more than there are.\<close>

definition get_all_request :: "'b env \<Rightarrow> ('b, 'z, approval_entity list) aact" where
  "get_all_request E = (\<lambda>s.
     case get_approvals 2 E (Some Pending) None (2 ^ 63 - 1) (nd_db s) of
       (Inr as, m) \<Rightarrow> (Ok as, s\<lparr>nd_db := m\<rparr>)
     | (Inl _, m) \<Rightarrow> (Abort ''unwrap on Err'', s\<lparr>nd_db := m\<rparr>))"

definition approval_governance_version ::
  "'b env \<Rightarrow> digest_identifier \<Rightarrow> digest_identifier \<Rightarrow> ('b, 'z, approval_error_response + u64) aact" where
  "approval_governance_version E governance_id subject_id = (\<lambda>s.
     case ask_gov id (get_governance_version E subject_id governance_id) s of
       (Inr v, t) \<Rightarrow> (Ok (Inr v), t)
     | (Inl (Err (GovernanceNotFound _)), t) \<Rightarrow> (Ok (Inl AGovernanceNotFound), t)
     | (Inl (Err InvalidGovernanceID), t) \<Rightarrow> (Ok (Inl AInvalidGovernanceID), t)
     | (Inl (Err RChannelClosed), t) \<Rightarrow> (Fail GovernanceChannelFailed, t)
     | (Inl (Err _), t) \<Rightarrow> (Fail AUnexpectedError, t)
     | (Inl (Panic m), t) \<Rightarrow> (Abort m, t))"

definition subject_id_by_request ::
  "'b env \<Rightarrow> event_request \<Rightarrow> u64 \<Rightarrow> digest_derivator \<Rightarrow> (digest_identifier, approval_manager_error) res" where
  "subject_id_by_request E request gov_version d =
     (case request of
        Fact f \<Rightarrow> Ok (fa_subject_id f)
      | Create cr \<Rightarrow> map_err (\<lambda>_. AUnexpectedError)
          (generate_subject_id E (st_namespace cr) (st_schema_id cr) (kstr E (st_public_key cr))
            (dstr E (st_governance_id cr)) gov_version d)
      | _ \<Rightarrow> Fail UnexpectedRequestType)"

text \<open>When a governance has a new version, its pending requests are dropped.\<close>

definition drop_request ::
  "'b env \<Rightarrow> approver \<Rightarrow> digest_identifier \<Rightarrow> digest_identifier \<Rightarrow> ('b, 'z, unit) aact" where
  "drop_request E A governance_id request_id =
     bindA (db_read (\<lambda>_. ADatabaseError) (get_approval E request_id)) (\<lambda>a.
     let q = content (ae_request a) in
     bindA (liftA (subject_id_by_request E (content (aq_event_request q)) (aq_gov_version q) (ap_derivator A)))
       (\<lambda>subject_id.
     bindA (adb (del_approval E request_id)) (\<lambda>_.
     bindA (adb (del_governance_approval_index E governance_id request_id)) (\<lambda>_.
     adb (del_subject_approval_index E subject_id request_id)))))"

definition new_governance_version ::
  "'b env \<Rightarrow> approver \<Rightarrow> digest_identifier \<Rightarrow> ('b, 'z, unit) aact" where
  "new_governance_version E A governance_id =
     bindA (adb (get_approvals_by_governance E governance_id)) (\<lambda>affected_requests.
     forA (drop_request E A governance_id) affected_requests)"

section \<open>Votes\<close>

text \<open>The vote is signed at the time \<open>now\<close>.\<close>

definition generate_vote ::
  "'b env \<Rightarrow> approver \<Rightarrow> timestamp \<Rightarrow> digest_identifier \<Rightarrow> bool \<Rightarrow>
     ('b, 'z, approval_error_response + approval_entity \<times> key_identifier) aact" where
  "generate_vote E A now request_id acceptance = (\<lambda>s.
     case get_single_request E request_id (nd_db s) of
       Inl _ \<Rightarrow> (Ok (Inl RequestNotFound), s)
     | Inr data \<Rightarrow>
         if ae_state data = RespondedAccepted \<or> ae_state data = RespondedRejected
         then (Ok (Inl RequestAlreadyResponded), s)
         else
           (let response = \<lparr>ar_appr_req_hash = request_id, ar_approved = acceptance\<rparr>;
                q = content (ae_request data) in
            bindA (liftA (subject_id_by_request E (content (aq_event_request q)) (aq_gov_version q)
              (ap_derivator A))) (\<lambda>subject_id.
            bindA (liftA (map_err (\<lambda>_. SignProcessFailed)
              (sm_sign E (ap_signature_manager A) now (PApprovalResponse response) (ap_derivator A)))) (\<lambda>g.
            let data = data\<lparr>
              ae_response := Some \<lparr>content = response, signature = g\<rparr>,
              ae_state := if acceptance then RespondedAccepted else RespondedRejected\<rparr> in
            bindA (adb (set_approval E request_id data)) (\<lambda>_.
            bindA (adb (del_subject_approval_index E subject_id request_id)) (\<lambda>_.
            bindA (adb (del_governance_approval_index E (aq_gov_id q) request_id)) (\<lambda>_.
            retA (Inr (data, ae_sender data))))))) s))"

text \<open>The vote of a request that was just stored, where a failure to find it or its response is
  a panic.\<close>

definition vote_now ::
  "'b env \<Rightarrow> approver \<Rightarrow> timestamp \<Rightarrow> digest_identifier \<Rightarrow> bool \<Rightarrow>
     ('b, 'z, approval_error_response + (approval_response signed \<times> key_identifier) option) aact" where
  "vote_now E A now request_id acceptance =
     bindA (generate_vote E A now request_id acceptance) (\<lambda>r.
     case r of
       Inl _ \<Rightarrow> liftA (Abort ''Request should be in data structure'')
     | Inr (vote, sender) \<Rightarrow>
         bindA (liftA (unwrap (ae_response vote))) (\<lambda>response. retA (Inr (Some (response, sender)))))"

definition store_request ::
  "'b env \<Rightarrow> digest_identifier \<Rightarrow> approval_request signed \<Rightarrow> digest_identifier \<Rightarrow> key_identifier \<Rightarrow>
     ('b, 'z, unit) aact" where
  "store_request E request_id approval_request subject_id sender =
     (let gov_id = aq_gov_id (content approval_request) in
      bindA (adb (set_subject_approval_index E subject_id request_id)) (\<lambda>_.
      bindA (if di_digest gov_id \<noteq> [] then adb (set_governance_approval_index E gov_id request_id)
        else retA ()) (\<lambda>_.
      adb (set_approval E request_id \<lparr>
        ae_id = request_id,
        ae_request = approval_request,
        ae_response = None,
        ae_state = Pending,
        ae_sender = sender\<rparr>))))"

text \<open>At most one request of a subject is to be pending, and of a later event than before.\<close>

definition check_queue ::
  "'b env \<Rightarrow> digest_identifier \<Rightarrow> u64 \<Rightarrow> ('b, 'z, approval_error_response + unit) aact" where
  "check_queue E subject_id sn =
     bindA (adb (get_approvals_by_subject E subject_id)) (\<lambda>request_queue.
     case request_queue of
       [] \<Rightarrow> retA (Inr ())
     | [request_id] \<Rightarrow> (\<lambda>s.
         case get_single_request E request_id (nd_db s) of
           Inl _ \<Rightarrow> (Abort ''unwrap on Err'', s)
         | Inr data \<Rightarrow>
             (Ok (if sn \<le> aq_sn (content (ae_request data)) then Inl PreviousEventDetected else Inr ()), s))
     | _ \<Rightarrow> failA MoreRequestThanMaxAllowed)"

definition check_version ::
  "'b env \<Rightarrow> approver \<Rightarrow> approval_request \<Rightarrow> digest_identifier \<Rightarrow> key_identifier \<Rightarrow>
     ('b, 'z, approval_error_response + unit) aact" where
  "check_version E A q subject_id sender =
     bindA (approval_governance_version E (aq_gov_id q) subject_id) (\<lambda>r.
     case r of
       Inl e \<Rightarrow> retA (Inl e)
     | Inr version \<Rightarrow> retA
         (if version > aq_gov_version q then
            Inl (OurGovIsHigher (sm_identifier (ap_signature_manager A)) sender (aq_gov_id q))
          else if version < aq_gov_version q then
            Inl (OurGovIsLower (sm_identifier (ap_signature_manager A)) sender (aq_gov_id q))
          else Inr ()))"

text \<open>An answer with an error ends the handler.\<close>

definition orelse ::
  "('b, 'z, approval_error_response + 'a) aact \<Rightarrow> ('a \<Rightarrow> ('b, 'z, approval_error_response + 'c) aact) \<Rightarrow>
     ('b, 'z, approval_error_response + 'c) aact" where
  "orelse m k = bindA m (\<lambda>r. case r of Inl e \<Rightarrow> retA (Inl e) | Inr x \<Rightarrow> k x)"

text \<open>A request that is not known yet.\<close>

definition new_request ::
  "'b env \<Rightarrow> approver \<Rightarrow> timestamp \<Rightarrow> digest_identifier \<Rightarrow> approval_request signed \<Rightarrow> key_identifier \<Rightarrow>
     ('b, 'z, approval_error_response + (approval_response signed \<times> key_identifier) option) aact" where
  "new_request E A now request_id approval_request sender =
     (let q = content approval_request in
      bindA (liftA (subject_id_by_request E (content (aq_event_request q)) (aq_gov_version q) (ap_derivator A)))
        (\<lambda>subject_id.
      orelse (check_queue E subject_id (aq_sn q)) (\<lambda>_.
      orelse (check_version E A q subject_id sender) (\<lambda>_.
      bindA (store_request E request_id approval_request subject_id sender) (\<lambda>_.
      case ap_pass_votation A of
        VoteNormal \<Rightarrow> retA (Inr None)
      | AlwaysAccept \<Rightarrow> vote_now E A now request_id True
      | AlwaysReject \<Rightarrow> vote_now E A now request_id False)))))"

definition process_approval_request ::
  "'b env \<Rightarrow> approver \<Rightarrow> timestamp \<Rightarrow> approval_request signed \<Rightarrow> key_identifier \<Rightarrow>
     ('b, 'z, approval_error_response + (approval_response signed \<times> key_identifier) option) aact" where
  "process_approval_request E A now approval_request sender = (\<lambda>s.
     case generate_with_blake3 E (PApprovalRequest (content approval_request)) of
       Inl (Panic m) \<Rightarrow> (Abort m, s)
     | Inl (Err _) \<Rightarrow> (Ok (Inl ErrorHashing), s)
     | Inr request_id \<Rightarrow>
         (case get_single_request E request_id (nd_db s) of
            Inr data \<Rightarrow>
              if ae_state data = Pending \<or> ae_state data = Obsolete
              then (Ok (Inl RequestAlreadyKnown), s)
              else
                (case ae_response data of
                   None \<Rightarrow> (Abort ''Has to have a response because it is Reponded already'', s)
                 | Some response \<Rightarrow> (Ok (Inr (Some (response, ae_sender data))), s))
          | Inl _ \<Rightarrow> new_request E A now request_id approval_request sender s))"

section \<open>The manager\<close>

datatype approval_responses =
    RespRequestApproval "approval_error_response + unit"
  | RespEmitVote "approval_error_response + approval_entity"
  | RespGetAllRequest "approval_entity list"
  | RespGetSingleRequest "approval_error_response + approval_entity"

text \<open>A command comes with a channel for the answer, open or closed by now, or with none.\<close>

definition answer :: "bool option \<Rightarrow> approval_responses \<Rightarrow> ('b, 'z, approval_responses option) aact" where
  "answer sender_top r =
     (case sender_top of
        None \<Rightarrow> retA None
      | Some True \<Rightarrow> retA (Some r)
      | Some False \<Rightarrow> failA ResponseChannelClosed)"

definition send_message :: "taple_messages \<Rightarrow> key_identifier \<Rightarrow> ('b, 'z, unit) aact" where
  "send_message msg receiver =
     tell_message (\<lambda>_. MessageChannelFailed) (TaskRequest None msg {receiver} direct_response)"

definition approval_command ::
  "'b env \<Rightarrow> approver \<Rightarrow> timestamp \<Rightarrow> bool option \<Rightarrow> approval_messages \<Rightarrow>
     ('b, 'z, approval_responses option) aact" where
  "approval_command E A now sender_top msg =
     (case msg of
        RequestApproval _ \<Rightarrow> retA None
      | RequestApprovalWithSender approval sender \<Rightarrow>
          if sender_top \<noteq> None then failA AskNoAllowed
          else
            bindA (process_approval_request E A now approval sender) (\<lambda>r.
            bindA (case r of
                Inr (Some (response, sender)) \<Rightarrow> send_message (create_approver_response response) sender
              | Inr None \<Rightarrow> retA ()
              | Inl (OurGovIsLower our_id sender gov_id) \<Rightarrow>
                  send_message (LedgerMessages (GetLCE our_id gov_id)) sender
              | Inl (OurGovIsHigher our_id sender gov_id) \<Rightarrow>
                  send_message (EventMessage (HigherGovernanceExpected gov_id our_id)) sender
              | Inl _ \<Rightarrow> retA ()) (\<lambda>_.
            retA None))
      | EmitVote v \<Rightarrow>
          bindA (generate_vote E A now (vo_request_id v) (vo_acceptance v)) (\<lambda>r.
          case r of
            Inr (vote, owner) \<Rightarrow>
              bindA (liftA (unwrap (ae_response vote))) (\<lambda>response.
              bindA (send_message (create_approver_response response) owner) (\<lambda>_.
              answer sender_top (RespEmitVote (Inr vote))))
          | Inl e \<Rightarrow> answer sender_top (RespEmitVote (Inl e)))
      | GetAllRequest \<Rightarrow>
          bindA (get_all_request E) (\<lambda>as. answer sender_top (RespGetAllRequest as))
      | GetSingleRequest request_id \<Rightarrow>
          bindA (getA (\<lambda>s. Ok (get_single_request E request_id (nd_db s)))) (\<lambda>r.
          answer sender_top (RespGetSingleRequest r)))"

section \<open>The task\<close>

text \<open>What the task waits for: a command or the end of its channel, the shutdown of the node, a
  new version of a governance or an error of that channel. A turn that fails, or that has no
  next turn, ends the task and with it the node.\<close>

datatype approval_input =
    InputCommand "(bool option \<times> approval_messages) option"
  | InputShutdown
  | InputUpdate "digest_identifier option"

definition approval_turn :: "'b env \<Rightarrow> approver \<Rightarrow> timestamp \<Rightarrow> approval_input \<Rightarrow> ('b, 'z, bool) aact" where
  "approval_turn E A now i =
     (case i of
        InputCommand (Some (sender_top, msg)) \<Rightarrow>
          bindA (approval_command E A now sender_top msg) (\<lambda>_. retA True)
      | InputCommand None \<Rightarrow> retA False
      | InputShutdown \<Rightarrow> retA False
      | InputUpdate (Some governance_id) \<Rightarrow>
          bindA (new_governance_version E A governance_id) (\<lambda>_. retA True)
      | InputUpdate None \<Rightarrow> retA False)"

end
