(* ===== verification/Approval_Laws.thy ===== *)
theory Approval_Laws
  imports Approval
begin

text \<open>
  What the approver guarantees: it signs at most one vote for a request, whatever it is asked.
\<close>

section \<open>Approvals in the store\<close>

lemma approval_keys:
  "get_approval E h m = kv_get (c_approval E) (''approvals'' @ char_MAX @ dstr E h) m"
  by (simp add: get_approval_def get_key_eval)

lemma approval_local:
  "coll_get (''approvals'' @ char_MAX @ dstr E h) m' = coll_get (''approvals'' @ char_MAX @ dstr E h) m \<Longrightarrow>
     get_approval E h m' = get_approval E h m"
  by (simp add: approval_keys kv_get_def)

lemma approval_foreign:
  "writes p m m' \<Longrightarrow> p \<noteq> ''approvals'' \<Longrightarrow> sep_free p \<Longrightarrow> get_approval E h m' = get_approval E h m"
  using append_sep_inject [OF prefixes_free(9), of p]
  by (intro approval_local) (auto simp: writes_def)

lemma set_approval_run:
  "set_approval E h a m = (case ser (c_approval E) a of
     None \<Rightarrow> (Fail SerializeError, m)
   | Some d \<Rightarrow>
       (case (if ae_state a = Pending then kv_put (c_digest E) (''pending-approval-index'' @ char_MAX @ dstr E h) h
              else coll_del (''pending-approval-index'' @ char_MAX @ dstr E h)) m of
          (Inl e, m') \<Rightarrow> (Inl e, m')
        | (Inr _, m') \<Rightarrow> coll_put (''approvals'' @ char_MAX @ dstr E h) d m'))"
  by (simp add: set_approval_def get_key_eval bindA_run split: option.split sum.split prod.split)

lemma index_writes:
  "writes ''pending-approval-index'' m (snd ((if c then kv_put cd (''pending-approval-index'' @ char_MAX @ r) x
     else coll_del (''pending-approval-index'' @ char_MAX @ r)) m))"
  by (cases c) (simp_all only: if_True if_False writes_kv_put writes_del)

text \<open>A request other than the one that is set keeps its approval; that one has the new approval,
  unless the operation fails.\<close>

lemma set_approval_get:
  assumes "codec_ok (c_approval E)" "set_approval E h a m = (x, m')"
  shows "get_approval E k m' = (if is_Ok x \<and> dstr E k = dstr E h then Ok a else get_approval E k m)"
proof (cases "ser (c_approval E) a")
  case (Some d)
  obtain y n where i: "(if ae_state a = Pending then kv_put (c_digest E) (''pending-approval-index'' @ char_MAX @ dstr E h) h
      else coll_del (''pending-approval-index'' @ char_MAX @ dstr E h)) m = (y, n)" by fastforce
  have "writes ''pending-approval-index'' m n"
    using index_writes [of m "ae_state a = Pending" "c_digest E" "dstr E h" h] i by simp
  then have n: "get_approval E k n = get_approval E k m"
    by (rule approval_foreign) simp_all
  show ?thesis
  proof (cases y)
    case (Inl e)
    then show ?thesis using assms(2) Some i n by (auto simp: set_approval_run)
  next
    case (Inr u)
    then have run: "coll_put (''approvals'' @ char_MAX @ dstr E h) d n = (x, m')"
      using assms(2) Some i by (simp add: set_approval_run)
    then have "coll_get j m' = (if j = ''approvals'' @ char_MAX @ dstr E h then Ok d else coll_get j n)" for j
      using mem.get_put [of j "''approvals'' @ char_MAX @ dstr E h" d n] by simp
    then show ?thesis
      using n run assms(1) Some by (auto simp: approval_keys kv_get_def codec_ok_def coll_put_def)
  qed
qed (use assms(2) in \<open>auto simp: set_approval_run\<close>)

lemma kv_put_inv: "bt_inv m \<Longrightarrow> bt_inv (snd (kv_put c k x m))"
  by (cases "ser c x") (auto simp: kv_put_def mem.inv_put)

section \<open>Votes are kept\<close>

definition responded :: "approval_entity \<Rightarrow> bool" where
  "responded a \<longleftrightarrow> ae_state a = RespondedAccepted \<or> ae_state a = RespondedRejected"

text \<open>The answered requests, as a map; an operation keeps those of \<open>m\<close> and may add answers.\<close>

definition answered :: "'b env \<Rightarrow> 'b data_store \<Rightarrow> digest_identifier \<Rightarrow> approval_entity option" where
  "answered E m h =
     (case get_approval E h m of Inr a \<Rightarrow> if responded a then Some a else None | Inl _ \<Rightarrow> None)"

lemma answered_Some [simp]: "answered E m h = Some a \<longleftrightarrow> get_approval E h m = Ok a \<and> responded a"
  by (auto simp: answered_def split: sum.splits)

lemma answered_cong: "get_approval E h m' = get_approval E h m \<Longrightarrow> answered E m' h = answered E m h"
  by (simp add: answered_def)

text \<open>What the index of the pending requests holds: no answered request.\<close>

definition approval_codecs :: "'b env \<Rightarrow> bool" where
  "approval_codecs E \<longleftrightarrow> codec_ok (c_approval E) \<and> codec_ok (c_digest E)"

definition pending_ok :: "'b env \<Rightarrow> 'b data_store \<Rightarrow> bool" where
  "pending_ok E m \<longleftrightarrow> (\<forall>k b. starts_with ''pending-approval-index'' k \<longrightarrow> coll_get k m = Ok b \<longrightarrow>
     (\<exists>i. de (c_digest E) b = Some i \<and> k = ''pending-approval-index'' @ char_MAX @ dstr E i \<and>
       answered E m i = None))"

definition store_ok :: "'b env \<Rightarrow> 'b data_store \<Rightarrow> bool" where
  "store_ok E m \<longleftrightarrow> bt_inv m \<and> pending_ok E m"

lemma pending_ok_cong:
  assumes "pending_ok E m" "answered E m' = answered E m"
    and "\<And>k. starts_with ''pending-approval-index'' k \<Longrightarrow> coll_get k m' = coll_get k m"
  shows "pending_ok E m'"
  using assms unfolding pending_ok_def by simp

lemma not_pending_key:
  "p \<noteq> [] \<Longrightarrow> hd p \<noteq> CHR ''p'' \<Longrightarrow> starts_with ''pending-approval-index'' k \<Longrightarrow> k \<noteq> p @ r"
  by (cases p) (auto simp: starts_with_def)

text \<open>The other indices hold no answers.\<close>

definition keeps_approvals :: "'b env \<Rightarrow> 'b data_store \<Rightarrow> 'b data_store \<Rightarrow> bool" where
  "keeps_approvals E m m' \<longleftrightarrow>
     (store_ok E m \<longrightarrow> store_ok E m') \<and> (\<forall>h. get_approval E h m' = get_approval E h m)"

lemma keeps_approvals_simps [simp]: "keeps_approvals E m m"
  by (simp add: keeps_approvals_def)

lemma keeps_approvals_trans:
  "keeps_approvals E a b \<Longrightarrow> keeps_approvals E b c \<Longrightarrow> keeps_approvals E a c"
  by (simp add: keeps_approvals_def)

lemma keeps_approvalsI:
  assumes "writes p m m'" "bt_inv m \<Longrightarrow> bt_inv m'" "p \<noteq> ''approvals''" "sep_free p" "hd p \<noteq> CHR ''p''" "p \<noteq> []"
  shows "keeps_approvals E m m'"
proof -
  have get: "get_approval E h m' = get_approval E h m" for h
    by (rule approval_foreign [OF assms(1,3,4)])
  have "coll_get k m' = coll_get k m" if "starts_with ''pending-approval-index'' k" for k
    using assms(1) not_pending_key [OF assms(6,5) that] unfolding writes_def by blast
  moreover have "answered E m' = answered E m" using get by (simp add: fun_eq_iff answered_def)
  ultimately show ?thesis
    unfolding keeps_approvals_def store_ok_def using get assms(2) pending_ok_cong by blast
qed

lemma index_op_keeps:
  assumes "p \<noteq> ''approvals''" "sep_free p" "hd p \<noteq> CHR ''p''" "p \<noteq> []"
  shows "keeps (keeps_approvals E a) (kv_put c (p @ char_MAX @ r) x)"
    and "keeps (keeps_approvals E a) (coll_del (p @ char_MAX @ r))"
  by (intro keepsI; erule keeps_approvals_trans;
      intro keeps_approvalsI [OF writes_kv_put] keeps_approvalsI [OF writes_del] kv_put_inv mem.inv_del assms;
      assumption)+

lemma index_keeps [inv_intros]:
  "keeps (keeps_approvals E a) (set_subject_approval_index E i h)"
  "keeps (keeps_approvals E a) (del_subject_approval_index E i h)"
  "keeps (keeps_approvals E a) (set_governance_approval_index E i h)"
  "keeps (keeps_approvals E a) (del_governance_approval_index E i h)"
  unfolding set_subject_approval_index_def del_subject_approval_index_def
    set_governance_approval_index_def del_governance_approval_index_def
  by (simp_all only: get_key_eval bindA_simps, (rule index_op_keeps; simp)+)

lemma keeps_adb [inv_intros]: "keeps P m \<Longrightarrow> keeps (on_db P) (adb m)"
  unfolding adb_def by (rule keeps_dbA)

lemma get_approvals_by_keeps:
  assumes "p \<noteq> ''approvals''" "sep_free p" "hd p \<noteq> CHR ''p''" "p \<noteq> []"
  shows "keeps (keeps_approvals E a) (get_approvals_by E p i)"
  unfolding get_approvals_by_def get_key_eval bindA_simps
  by (intro inv_intros index_op_keeps assms)

section \<open>The invariant of the approver\<close>

text \<open>The votes among the messages of the node.\<close>

definition sent_votes :: "('b, 'z) node_scheme \<Rightarrow> approval_response signed set" where
  "sent_votes s = {v. \<exists>i R c. TaskRequest i (EventMessage (ApproverResponse v)) R c \<in> set (nd_messages s)}"

abbreviation vote_id :: "approval_response signed \<Rightarrow> digest_identifier" where
  "vote_id v \<equiv> ar_appr_req_hash (content v)"

definition recorded :: "'b env \<Rightarrow> approval_response signed \<Rightarrow> 'b data_store \<Rightarrow> bool" where
  "recorded E v m \<longleftrightarrow> (\<exists>a. answered E m (vote_id v) = Some a \<and> ae_response a = Some v)"

text \<open>An answered request holds a vote on it, and all votes sent are recorded so.\<close>

definition votes_ok :: "'b env \<Rightarrow> 'b data_store \<Rightarrow> bool" where
  "votes_ok E m \<longleftrightarrow> (\<forall>h a. answered E m h = Some a \<longrightarrow>
     (\<exists>v. ae_response a = Some v \<and> dstr E (vote_id v) = dstr E h))"

definition vote_inv :: "'b env \<Rightarrow> ('b, 'z) node_scheme \<Rightarrow> bool" where
  "vote_inv E s \<longleftrightarrow> store_ok E (nd_db s) \<and> votes_ok E (nd_db s) \<and> (\<forall>v \<in> sent_votes s. recorded E v (nd_db s))"

text \<open>A request that is not answered.\<close>

definition open_request :: "'b env \<Rightarrow> digest_identifier \<Rightarrow> 'b data_store \<Rightarrow> bool" where
  "open_request E h m \<longleftrightarrow> (\<forall>k. dstr E k = dstr E h \<longrightarrow> answered E m k = None)"

lemma open_requestI:
  assumes "get_single_request E h m = Inl e"
  shows "open_request E h m"
  unfolding open_request_def
proof (intro allI impI)
  fix k assume "dstr E k = dstr E h"
  then have "get_approval E k m = get_approval E h m" by (simp add: approval_keys)
  then show "answered E m k = None"
    using assms by (simp add: get_single_request_def answered_def split: sum.splits)
qed

text \<open>Setting the approval of an open request keeps the index in order.\<close>

lemma set_approval_store:
  assumes ok: "codec_ok (c_approval E)" and digest: "codec_ok (c_digest E)"
    and run: "set_approval E h a m = (x, m')"
    and h: "open_request E h m" and m: "store_ok E m"
  shows "store_ok E m'"
proof (cases "is_Ok x")
  case False
  then have "m' = m"
    using run by (auto simp: set_approval_run kv_put_def coll_del_def coll_put_def bindA_run ok_or_def
        split: option.splits if_splits prod.splits sum.splits)
  then show ?thesis using m by simp
next
  case True
  let ?p = "''pending-approval-index'' @ char_MAX @ dstr E h" and ?q = "''approvals'' @ char_MAX @ dstr E h"
  obtain n d b where n: "m' = bt_insert ?q d n"
      "n = (if ae_state a = Pending then bt_insert ?p b m else bt_remove ?p m)"
      "ae_state a = Pending \<Longrightarrow> ser (c_digest E) h = Some b"
    using True run
    by (auto simp: set_approval_run kv_put_def coll_del_def coll_put_def bindA_run ok_or_def
        split: option.splits if_splits prod.splits sum.splits)
  have ordered: "bt_inv m" "bt_inv n" "bt_inv m'" using m n(1,2) by (auto simp: store_ok_def)
  have get: "bt_get m' k = (if k = ?p then if ae_state a = Pending then Some b else None else bt_get m k)"
    if "starts_with ''pending-approval-index'' k" for k
    using n(1,2) ordered not_pending_key [of "''approvals''" k "char_MAX @ dstr E h"] that
    by (auto simp: bt_get_remove bt_get_insert)
  have "\<exists>i. de (c_digest E) d' = Some i \<and> k = ''pending-approval-index'' @ char_MAX @ dstr E i \<and>
      answered E m' i = None"
    if k: "starts_with ''pending-approval-index'' k" "coll_get k m' = Ok d'" for k d'
  proof (cases "k = ?p")
    case True
    then have "ae_state a = Pending" "d' = b"
      using k get [OF k(1)] by (auto simp: coll_get_eq_Ok split: if_splits)
    then have "de (c_digest E) d' = Some h" "answered E m' h = None"
      using n(3) digest set_approval_get [OF ok run, of h] \<open>is_Ok x\<close>
      by (auto simp: codec_ok_def answered_def responded_def)
    then show ?thesis using True by blast
  next
    case False
    then have "coll_get k m = Ok d'" using k get [OF k(1)] by (simp add: coll_get_eq_Ok)
    then obtain i where i: "de (c_digest E) d' = Some i" "k = ''pending-approval-index'' @ char_MAX @ dstr E i"
        "answered E m i = None"
      using m k(1) unfolding store_ok_def pending_ok_def by blast
    then have "dstr E i \<noteq> dstr E h" using False by auto
    then have "answered E m' i = None"
      using i(3) set_approval_get [OF ok run, of i] by (simp add: answered_def)
    then show ?thesis using i by blast
  qed
  then show ?thesis using ordered by (simp add: store_ok_def pending_ok_def)
qed

text \<open>What most steps do: nothing to the votes.\<close>

definition same_votes :: "'b env \<Rightarrow> ('b, 'z) node_scheme \<Rightarrow> ('b, 'z) node_scheme \<Rightarrow> bool" where
  "same_votes E s t \<longleftrightarrow> (store_ok E (nd_db s) \<longrightarrow> store_ok E (nd_db t)) \<and>
     answered E (nd_db t) = answered E (nd_db s) \<and> sent_votes t = sent_votes s"

lemma same_votes_refl [simp]: "same_votes E s s"
  by (simp add: same_votes_def)

lemma same_votes_trans: "same_votes E s t \<Longrightarrow> same_votes E t u \<Longrightarrow> same_votes E s u"
  by (simp add: same_votes_def)

lemma same_votes_inv: "same_votes E s t \<Longrightarrow> vote_inv E s \<Longrightarrow> vote_inv E t"
  by (simp add: same_votes_def vote_inv_def votes_ok_def recorded_def)

lemma same_votes_open: "same_votes E s t \<Longrightarrow> open_request E h (nd_db s) \<Longrightarrow> open_request E h (nd_db t)"
  by (simp add: same_votes_def open_request_def)

lemma keeps_approvals_answered: "keeps_approvals E m m' \<Longrightarrow> answered E m' = answered E m"
  by (auto simp: keeps_approvals_def fun_eq_iff intro: answered_cong)

lemma keeps_same_adb [inv_intros]:
  fixes a :: "('b, 'z) node_scheme"
  assumes "\<And>d. keeps (keeps_approvals E d) m"
  shows "keeps (same_votes E a) (adb m)"
proof (rule keepsI)
  fix s :: "('b, 'z) node_scheme" assume a: "same_votes E a s"
  obtain r d where d: "m (nd_db s) = (r, d)" by fastforce
  then have "answered E d = answered E (nd_db s)" "store_ok E (nd_db s) \<longrightarrow> store_ok E d"
    using keepsD [OF assms, of "nd_db s" "nd_db s"] by (simp_all add: keeps_approvals_answered) (simp add: keeps_approvals_def)
  then show "same_votes E a (snd (adb m s))"
    using a d by (simp add: same_votes_def adb_def dbA_def zoomA_def sent_votes_def)
qed

lemma keeps_same_channels [inv_intros]:
  "keeps (same_votes E a) (ask_gov f q)" "keeps (same_votes E a) (db_read g r)"
  by (auto simp: keeps_def same_votes_def sent_votes_def ask_gov_def db_read_def
      split: sum.splits failure.splits gov_error.splits)

lemma keeps_same_checks [inv_intros]:
  "keeps (same_votes E a) (check_queue E i sn)" "keeps (same_votes E a) (check_version E A q i sender)"
proof -
  have "keeps (same_votes E a) (adb (get_approvals_by_subject E i))"
    unfolding get_approvals_by_subject_def by (intro inv_intros get_approvals_by_keeps) simp_all
  then show "keeps (same_votes E a) (check_queue E i sn)"
    unfolding check_queue_def
    by (intro keeps_bindA, assumption) (auto simp: keeps_def split: list.split sum.split)
  have "keeps (same_votes E a) (approval_governance_version E g i)" for g
    using keeps_same_channels(1) [of E a id "get_governance_version E i g"]
    by (auto simp: keeps_def approval_governance_version_def
        split: prod.splits sum.splits failure.splits request_error.splits)
  then show "keeps (same_votes E a) (check_version E A q i sender)"
    unfolding check_version_def by (intro inv_intros) auto
qed

section \<open>The operations keep the invariant\<close>

lemma adb_set_approval:
  fixes s t :: "('b, 'z) node_scheme"
  assumes "approval_codecs E" "adb (set_approval E h a) s = (r, t)"
  shows "nd_messages t = nd_messages s" "open_request E h (nd_db s) \<Longrightarrow> store_ok E (nd_db s) \<Longrightarrow> store_ok E (nd_db t)"
    "get_approval E k (nd_db t) = (if is_Ok r \<and> dstr E k = dstr E h then Ok a else get_approval E k (nd_db s))"
proof -
  note codecs = assms(1) [unfolded approval_codecs_def, THEN conjunct1] assms(1) [unfolded approval_codecs_def, THEN conjunct2]
  obtain x d where d: "set_approval E h a (nd_db s) = (x, d)" by fastforce
  have r: "r = map_err (\<lambda>_. ADatabaseError) x" "t = s\<lparr>nd_db := d\<rparr>"
    using assms(2) d by (auto simp: adb_def dbA_def zoomA_def)
  have "is_Ok (map_err f x) = is_Ok x" for f :: "db_error \<Rightarrow> approval_manager_error"
    by (cases "(f, x)" rule: map_err.cases) auto
  then show "nd_messages t = nd_messages s" "open_request E h (nd_db s) \<Longrightarrow> store_ok E (nd_db s) \<Longrightarrow> store_ok E (nd_db t)"
    "get_approval E k (nd_db t) = (if is_Ok r \<and> dstr E k = dstr E h then Ok a else get_approval E k (nd_db s))"
    using set_approval_get [OF codecs(1) d, of k] set_approval_store [OF codecs d] r by simp_all
qed

text \<open>A pending approval of a request that is not answered answers nothing.\<close>

lemma set_pending_same:
  fixes s t :: "('b, 'z) node_scheme"
  assumes "approval_codecs E" "adb (set_approval E h a) s = (r, t)"
    and "ae_state a = Pending" "open_request E h (nd_db s)"
  shows "same_votes E s t"
proof -
  have "answered E (nd_db t) k = answered E (nd_db s) k" for k
    using adb_set_approval(3) [OF assms(1,2), of k] assms(3,4)
    by (auto simp: answered_def responded_def open_request_def split: if_splits sum.splits)
  then show ?thesis
    using adb_set_approval(1,2) [OF assms(1,2)] assms(4) by (simp add: same_votes_def sent_votes_def fun_eq_iff)
qed

lemma store_request_same:
  fixes s :: "('b, 'z) node_scheme"
  assumes ok: "approval_codecs E" and "open_request E h (nd_db s)"
  shows "same_votes E s (snd (store_request E h q i sender s))"
proof -
  let ?P = "\<lambda>u :: ('b, 'z) node_scheme. same_votes E s u"
  let ?a = "\<lparr>ae_id = h, ae_request = q, ae_response = None, ae_state = Pending, ae_sender = sender\<rparr>"
  have set: "keeps ?P (adb (set_approval E h ?a))"
  proof (rule keepsI)
    fix u :: "('b, 'z) node_scheme" assume u: "same_votes E s u"
    obtain r v where v: "adb (set_approval E h ?a) u = (r, v)" by fastforce
    then have "same_votes E u v"
      by (rule set_pending_same [OF ok]) (use same_votes_open [OF u assms(2)] in simp_all)
    then show "same_votes E s (snd (adb (set_approval E h ?a) u))"
      using u v same_votes_trans by auto
  qed
  have "keeps ?P (store_request E h q i sender)"
    unfolding store_request_def Let_def
    by (rule keeps_bindA [OF keeps_same_adb [OF index_keeps(1)]],
        rule keeps_bindA [OF keeps_if [OF keeps_same_adb [OF index_keeps(3)] keeps_simple(1)]], rule set)
  then show ?thesis by (rule keepsD) simp
qed

text \<open>The vote: either nothing changes, or the request was open and is now answered by it.\<close>

lemma set_vote_inv:
  fixes s t :: "('b, 'z) node_scheme"
  assumes ok: "approval_codecs E"
    and run: "adb (set_approval E h a) s = (r, t)"
    and inv: "vote_inv E s" and open_h: "get_approval E h (nd_db s) = Ok a0" "\<not> responded a0"
    and a: "ae_response a = Some v" "vote_id v = h"
  shows "vote_inv E t" and "is_Ok r \<Longrightarrow> responded a \<Longrightarrow> recorded E v (nd_db t)"
proof -
  note set = adb_set_approval [OF ok run]
  have same: "get_approval E k m = get_approval E h m" if "dstr E k = dstr E h" for k m
    using that by (simp add: approval_keys)
  have "votes_ok E (nd_db t)"
    unfolding votes_ok_def
  proof (intro allI impI)
    fix k x assume k: "answered E (nd_db t) k = Some x"
    show "\<exists>v. ae_response x = Some v \<and> dstr E (vote_id v) = dstr E k"
    proof (cases "is_Ok r \<and> dstr E k = dstr E h")
      case True
      then show ?thesis using k set(3) [of k] a by simp
    next
      case False
      then have "get_approval E k (nd_db t) = get_approval E k (nd_db s)" using set(3) [of k] by auto
      then have "answered E (nd_db s) k = Some x" using k by simp
      then show ?thesis using inv unfolding vote_inv_def votes_ok_def by blast
    qed
  qed
  moreover have "recorded E w (nd_db t)" if "w \<in> sent_votes t" for w
  proof -
    have "w \<in> sent_votes s" using that set(1) by (simp add: sent_votes_def)
    then obtain x where x: "answered E (nd_db s) (vote_id w) = Some x" "ae_response x = Some w"
      using inv unfolding vote_inv_def recorded_def by blast
    then have "dstr E (vote_id w) \<noteq> dstr E h" using same [of "vote_id w" "nd_db s"] open_h by auto
    then show ?thesis using x set(3) [of "vote_id w"] by (simp add: recorded_def)
  qed
  moreover have "open_request E h (nd_db s)"
    unfolding open_request_def
  proof (intro allI impI)
    fix k assume "dstr E k = dstr E h"
    then show "answered E (nd_db s) k = None"
      using same [of k "nd_db s"] open_h by (simp add: answered_def)
  qed
  ultimately show "vote_inv E t" using inv set(2) by (simp add: vote_inv_def)
  show "is_Ok r \<Longrightarrow> responded a \<Longrightarrow> recorded E v (nd_db t)"
    using set(3) [of h] a by (simp add: recorded_def)
qed

lemma recorded_same: "same_votes E s t \<Longrightarrow> recorded E v (nd_db s) \<Longrightarrow> recorded E v (nd_db t)"
  by (simp add: same_votes_def recorded_def)

lemma keeps_recorded:
  "m s = (r, t) \<Longrightarrow> (\<And>a. keeps (same_votes E a) m) \<Longrightarrow> same_votes E s t"
  using keepsD [of "same_votes E s" m s] by simp

lemma generate_vote_inv:
  fixes s t :: "('b, 'z) node_scheme"
  assumes ok: "approval_codecs E"
    and run: "generate_vote E A now h acceptance s = (r, t)" and inv: "vote_inv E s"
  shows "vote_inv E t \<and> (\<forall>a k. r = Ok (Inr (a, k)) \<longrightarrow>
    (\<exists>v. ae_response a = Some v \<and> recorded E v (nd_db t)))"
proof (cases "get_single_request E h (nd_db s)")
  case (Inl e)
  then show ?thesis using run inv by (auto simp: generate_vote_def)
next
  case (Inr data)
  then have data: "get_approval E h (nd_db s) = Ok data"
    by (auto simp: get_single_request_def split: sum.splits)
  show ?thesis
  proof (cases "responded data")
    case True
    then show ?thesis using run inv Inr by (auto simp: generate_vote_def responded_def)
  next
    case False
    let ?response = "\<lparr>ar_appr_req_hash = h, ar_approved = acceptance\<rparr>" and ?q = "content (ae_request data)"
    let ?sid = "subject_id_by_request E (content (aq_event_request ?q)) (aq_gov_version ?q) (ap_derivator A)"
    let ?sign = "map_err (\<lambda>_. SignProcessFailed)
      (sm_sign E (ap_signature_manager A) now (PApprovalResponse ?response) (ap_derivator A))"
    let ?data = "\<lambda>g. data\<lparr>ae_response := Some \<lparr>content = ?response, signature = g\<rparr>,
      ae_state := if acceptance then RespondedAccepted else RespondedRejected\<rparr>"
    let ?rest = "\<lambda>i g. bindA (adb (set_approval E h (?data g))) (\<lambda>_.
      bindA (adb (del_subject_approval_index E i h)) (\<lambda>_.
      bindA (adb (del_governance_approval_index E (aq_gov_id ?q) h)) (\<lambda>_. retA (Inr (?data g, ae_sender data)))))"
    have run: "bindA (liftA ?sid) (\<lambda>i. bindA (liftA ?sign) (\<lambda>g. ?rest i g)) s = (r, t)"
      using run Inr False by (simp add: generate_vote_def responded_def Let_def)
    show ?thesis
    proof (cases "is_Ok ?sid \<and> is_Ok ?sign")
      case False
      then show ?thesis using run inv by (cases ?sid; cases ?sign) (auto simp: bindA_run)
    next
      case True
      then obtain i g where "?sid = Ok i" "?sign = Ok g" unfolding is_Ok_iff by blast
      then have run: "?rest i g s = (r, t)" using run by (simp add: bindA_run)
      obtain x u where u: "adb (set_approval E h (?data g)) s = (x, u)" by fastforce
      have g: "ae_response (?data g) = Some \<lparr>content = ?response, signature = g\<rparr>"
        "vote_id \<lparr>content = ?response, signature = g\<rparr> = h" "responded (?data g)"
        by (simp_all add: responded_def)
      note vote = set_vote_inv [OF ok u inv data False g(1,2)]
      show ?thesis
      proof (cases x)
        case (Inl e)
        then show ?thesis using run u vote(1) by (auto simp: bindA_run)
      next
        case x: (Inr y)
        let ?tail = "bindA (adb (del_subject_approval_index E i h)) (\<lambda>_.
          bindA (adb (del_governance_approval_index E (aq_gov_id ?q) h)) (\<lambda>_.
          retA (Inr (?data g, ae_sender data))))"
        have tail: "?tail u = (r, t)" using run u x by (simp add: bindA_run)
        have "same_votes E u t"
          by (rule keeps_recorded [where m = ?tail, OF tail])
            (intro keeps_bindA keeps_same_adb index_keeps keeps_simple)
        moreover have "recorded E \<lparr>content = ?response, signature = g\<rparr> (nd_db u)"
          using vote(2) x g(3) by simp
        moreover have "r = Ok (Inr (a, k)) \<Longrightarrow> a = ?data g" for a k
          using tail by (auto simp: bindA_eq_Inr)
        ultimately show ?thesis
          using vote(1) same_votes_inv recorded_same g(1) by metis
      qed
    qed
  qed
qed

text \<open>A vote cast at once, and a whole request.\<close>

lemma vote_now_inv:
  fixes s t :: "('b, 'z) node_scheme"
  assumes ok: "approval_codecs E"
    and run: "vote_now E A now h acceptance s = (r, t)" and inv: "vote_inv E s"
  shows "vote_inv E t \<and> (\<forall>v k. r = Ok (Inr (Some (v, k))) \<longrightarrow> recorded E v (nd_db t))"
proof -
  obtain x u where g: "generate_vote E A now h acceptance s = (x, u)" by fastforce
  have "t = u" using run g
    by (auto simp: vote_now_def bindA_run split: sum.splits prod.splits)
  moreover have "\<exists>a. x = Ok (Inr (a, k)) \<and> ae_response a = Some v" if "r = Ok (Inr (Some (v, k)))" for v k
    using run g that
    by (auto simp: vote_now_def bindA_run unwrap_def split: sum.splits prod.splits option.splits)
  ultimately show ?thesis
    using generate_vote_inv [OF ok g inv] by fastforce
qed

lemma orelse_run:
  "orelse m k s = (case m s of
     (Inl e, t) \<Rightarrow> (Inl e, t) | (Inr (Inl e), t) \<Rightarrow> (Ok (Inl e), t) | (Inr (Inr x), t) \<Rightarrow> k x t)"
  by (simp add: orelse_def bindA_run split: prod.splits sum.splits)

lemma new_request_inv:
  fixes s t :: "('b, 'z) node_scheme"
  assumes ok: "approval_codecs E"
    and run: "new_request E A now h q sender s = (r, t)" and inv: "vote_inv E s"
    and new: "get_single_request E h (nd_db s) = Inl e"
  shows "vote_inv E t \<and> (\<forall>v k. r = Ok (Inr (Some (v, k))) \<longrightarrow> recorded E v (nd_db t))"
proof -
  let ?sid = "subject_id_by_request E (content (aq_event_request (content q))) (aq_gov_version (content q))
    (ap_derivator A)"
  show ?thesis
  proof (cases ?sid)
    case (Inl e)
    then show ?thesis using run inv by (auto simp: new_request_def bindA_run)
  next
    case (Inr i)
    obtain x1 s1 where 1: "check_queue E i (aq_sn (content q)) s = (x1, s1)" by fastforce
    obtain x2 s2 where 2: "check_version E A (content q) i sender s1 = (x2, s2)" by fastforce
    obtain x3 s3 where 3: "store_request E h q i sender s2 = (x3, s3)" by fastforce
    have s1: "same_votes E s s1" by (rule keeps_recorded [OF 1 keeps_same_checks(1)])
    have s2: "same_votes E s1 s2" by (rule keeps_recorded [OF 2 keeps_same_checks(2)])
    have "open_request E h (nd_db s2)"
      using open_requestI [OF new] s1 s2 same_votes_open by blast
    then have s3: "same_votes E s2 s3"
      using store_request_same [OF ok, of h s2 q i sender] 3 by simp
    have inv123: "vote_inv E s1" "vote_inv E s2" "vote_inv E s3"
      using inv s1 s2 s3 same_votes_inv by blast+
    have "\<exists>b. vote_now E A now h b s3 = (r, t) \<or> (t = s1 \<or> t = s2 \<or> t = s3) \<and>
        (\<forall>v k. r \<noteq> Ok (Inr (Some (v, k))))"
      using run Inr 1 2 3
      by (auto simp: new_request_def bindA_run orelse_run Let_def split: sum.splits votation_type.splits)
    then show ?thesis
      using inv123 vote_now_inv [OF ok _ inv123(3)] by blast
  qed
qed

lemma process_request_inv:
  fixes s t :: "('b, 'z) node_scheme"
  assumes ok: "approval_codecs E"
    and run: "process_approval_request E A now q sender s = (r, t)" and inv: "vote_inv E s"
  shows "vote_inv E t \<and> (\<forall>v k. r = Ok (Inr (Some (v, k))) \<longrightarrow> recorded E v (nd_db t))"
proof (cases "generate_with_blake3 E (PApprovalRequest (content q))")
  case (Inl e)
  then show ?thesis using run inv by (cases e) (auto simp: process_approval_request_def)
next
  case (Inr h)
  show ?thesis
  proof (cases "get_single_request E h (nd_db s)")
    case (Inl e)
    then show ?thesis
      using new_request_inv [OF ok _ inv Inl] run Inr by (simp add: process_approval_request_def)
  next
    case data: (Inr data)
    then have a: "get_approval E h (nd_db s) = Ok data"
      by (auto simp: get_single_request_def split: sum.splits)
    have "t = s" using run Inr data
      by (auto simp: process_approval_request_def split: if_splits option.splits)
    moreover have "recorded E v (nd_db s)" if "r = Ok (Inr (Some (v, k)))" for v k
    proof -
      have v: "ae_response data = Some v" "responded data"
        using run Inr data that
        by (auto simp: process_approval_request_def responded_def intro: approval_state.exhaust
            split: if_splits option.splits)
      then have "dstr E (vote_id v) = dstr E h"
        using a inv unfolding vote_inv_def votes_ok_def by fastforce
      then have "get_approval E (vote_id v) (nd_db s) = Ok data" using a by (simp add: approval_keys)
      then show ?thesis using v by (simp add: recorded_def)
    qed
    ultimately show ?thesis using inv by simp
  qed
qed

section \<open>A new version of a governance\<close>

text \<open>Two stores that answer alike, the second one still in order.\<close>

definition same_answers :: "'b env \<Rightarrow> 'b data_store \<Rightarrow> 'b data_store \<Rightarrow> bool" where
  "same_answers E m m' \<longleftrightarrow> (store_ok E m \<longrightarrow> store_ok E m') \<and> answered E m' = answered E m"

lemma same_answers_refl [simp]: "same_answers E m m"
  by (simp add: same_answers_def)

lemma same_answers_trans: "same_answers E a b \<Longrightarrow> same_answers E b c \<Longrightarrow> same_answers E a c"
  by (simp add: same_answers_def)

lemma same_answers_open: "same_answers E m m' \<Longrightarrow> open_request E h m \<Longrightarrow> open_request E h m'"
  by (simp add: same_answers_def open_request_def)

lemma same_answers_votes: "same_answers E (nd_db s) d \<Longrightarrow> same_votes E s (s\<lparr>nd_db := d\<rparr>)"
  by (simp add: same_answers_def same_votes_def sent_votes_def)

lemma remove_approval_same:
  assumes "open_request E h m" "store_ok E m"
  shows "same_answers E m (bt_remove (''approvals'' @ char_MAX @ dstr E h) m)" (is "same_answers E m ?m")
proof -
  let ?k = "\<lambda>k. ''approvals'' @ char_MAX @ dstr E k"
  have inv: "bt_inv m" using assms(2) by (simp add: store_ok_def)
  have removed: "coll_get k (bt_remove j m) = (if k = j then Fail EntryNotFound else coll_get k m)" for k j
    using mem.get_del [OF inv, of k j] by (simp add: coll_del_def)
  have "coll_get (?k k) ?m = (if ?k k = ?k h then Fail EntryNotFound else coll_get (?k k) m)" for k
    by (rule removed)
  then have "get_approval E k ?m = (if dstr E k = dstr E h then Fail EntryNotFound else get_approval E k m)" for k
    unfolding approval_keys kv_get_def by (simp only: same_append_eq) (simp add: bindR_def)
  then have "answered E ?m k = answered E m k" for k
    using assms(1) by (auto simp: answered_def open_request_def split: sum.splits if_splits)
  then have same: "answered E ?m = answered E m" by blast
  moreover have "pending_ok E ?m"
  proof (rule pending_ok_cong [OF _ same])
    show "pending_ok E m" using assms(2) by (simp add: store_ok_def)
    show "coll_get k ?m = coll_get k m" if "starts_with ''pending-approval-index'' k" for k
      using removed [of k "?k h"] not_pending_key [OF _ _ that, of "''approvals''"] by simp
  qed
  ultimately show ?thesis using inv by (simp add: same_answers_def store_ok_def)
qed

lemma del_approval_same:
  assumes "open_request E h (nd_db s)" "store_ok E (nd_db s)"
  shows "same_votes E s (snd (adb (del_approval E h) s))"
  using same_answers_votes [OF remove_approval_same [OF assms]]
  by (simp add: del_approval_def get_key_eval adb_def dbA_def zoomA_def coll_del_run)

lemma split_index_open:
  "split_index E m bs = Ok (hs, ds) \<Longrightarrow> h \<in> set hs \<Longrightarrow> open_request E h m"
proof (induction bs arbitrary: hs ds)
  case (Cons b bs)
  from Cons.prems(1) obtain i hs' ds' where i: "de (c_digest E) b = Some i"
      "split_index E m bs = Ok (hs', ds')"
      "h \<in> set hs' \<or> (h = i \<and> (\<exists>a. get_approval E i m = Ok a \<and> ae_state a = Pending))"
    using Cons.prems(2)
    by (auto simp: bindR_def ok_or_def split: sum.splits option.splits failure.splits db_error.splits if_splits)
  from i(3) show ?case
  proof
    assume "h = i \<and> (\<exists>a. get_approval E i m = Ok a \<and> ae_state a = Pending)"
    then show ?thesis
      by (auto simp: open_request_def answered_def approval_keys responded_def split: sum.splits)
  qed (use Cons.IH i(2) in blast)
qed simp

lemma get_approvals_by_open:
  assumes "get_approvals_by E p i m = (Ok hs, m')" "h \<in> set hs"
  shows "open_request E h m"
  using assms split_index_open
  by (fastforce simp: get_approvals_by_def bindA_eq_Inr get_key_eval)

lemma keeps_forA_in: "(\<And>x. x \<in> set xs \<Longrightarrow> keeps P (f x)) \<Longrightarrow> keeps P (forA f xs)"
  by (induction xs) (auto intro: inv_intros)

lemma drop_request_same:
  fixes s :: "('b, 'z) node_scheme"
  assumes "open_request E h (nd_db s)" "store_ok E (nd_db s)"
  shows "keeps (same_votes E s) (drop_request E A g h)"
proof -
  have "keeps (same_votes E s) (adb (del_approval E h))"
  proof (rule keepsI)
    fix u :: "('b, 'z) node_scheme" assume u: "same_votes E s u"
    then have "open_request E h (nd_db u)" "store_ok E (nd_db u)"
      using same_votes_open assms by (blast, simp add: same_votes_def)
    then show "same_votes E s (snd (adb (del_approval E h) u))"
      using u del_approval_same same_votes_trans by blast
  qed
  then show ?thesis
    unfolding drop_request_def Let_def
    by (intro keeps_bindA keeps_same_channels keeps_simple; (assumption | intro keeps_same_adb index_keeps))
qed

lemma new_governance_version_same:
  fixes s :: "('b, 'z) node_scheme"
  assumes "store_ok E (nd_db s)"
  shows "same_votes E s (snd (new_governance_version E A g s))"
proof -
  obtain r u where u: "adb (get_approvals_by_governance E g) s = (r, u)" by fastforce
  have listed: "same_votes E s u"
    by (rule keeps_recorded [where m = "adb (get_approvals_by_governance E g)", OF u])
      (unfold get_approvals_by_governance_def, intro keeps_same_adb get_approvals_by_keeps, simp_all)
  show ?thesis
  proof (cases r)
    case (Inl e)
    then show ?thesis using u listed by (simp add: new_governance_version_def bindA_run)
  next
    case (Inr hs)
    then obtain m' where "get_approvals_by_governance E g (nd_db s) = (Ok hs, m')"
      using u by (auto simp: adb_def dbA_def zoomA_eq_Inr)
    then have "open_request E h (nd_db s)" if "h \<in> set hs" for h
      using get_approvals_by_open [OF _ that] by (fastforce simp: get_approvals_by_governance_def)
    then have "keeps (same_votes E s) (forA (drop_request E A g) hs)"
      by (intro keeps_forA_in drop_request_same assms)
    then show ?thesis
      using u Inr listed keepsD by (fastforce simp: new_governance_version_def bindA_run)
  qed
qed

section \<open>All pending requests\<close>

lemma get_by_range_sound:
  assumes "get_by_range from q p m = Ok bs" "b \<in> set bs" "bt_inv m"
  shows "\<exists>k. coll_get k m = Ok b \<and> starts_with p k"
proof -
  have iter: "\<exists>k. coll_get k m = Ok b \<and> starts_with p k" if "(j, b) \<in> set (coll_iter r (p @ x) m)" for j r x
    using mem.iter_sound [OF assms(3) that] by (auto simp: starts_with_prefix dest: append_prefixD)
  have seek: "set it' \<subseteq> set it" if "seek k it = Ok it'" for k and it it' :: "(string \<times> 'a) list"
    using that by (induction k it rule: seek.induct) (auto split: if_splits)
  obtain j r x where "(j, b) \<in> set (coll_iter r (p @ x) m)"
  proof (cases "from")
    case None
    then show ?thesis
      using that [of _ _ "[]"] assms(1,2)
      by (auto simp: get_by_range_def bindR_eq_Inr split: if_splits dest!: in_set_takeD)
  next
    case (Some k)
    then show ?thesis
      using that [of _ _ char_MAX] assms(1,2) seek
      by (auto simp: get_by_range_def bindR_eq_Inr dest!: in_set_takeD) (metis subsetD)
  qed
  then show ?thesis by (rule iter)
qed

lemma pending_listed_open:
  assumes "store_ok E m" "get_by_range from q ''pending-approval-index'' m = Ok bs" "b \<in> set bs"
    and "de (c_digest E) b = Some h"
  shows "open_request E h m"
proof -
  obtain k where "coll_get k m = Ok b" "starts_with ''pending-approval-index'' k"
    using get_by_range_sound [OF assms(2,3)] assms(1) by (auto simp: store_ok_def)
  then obtain i where "de (c_digest E) b = Some i" "answered E m i = None"
    using assms(1) unfolding store_ok_def pending_ok_def by blast
  then have "answered E m h = None" using assms(4) by (metis option.inject)
  show ?thesis
    unfolding open_request_def
  proof (intro allI impI)
    fix k assume "dstr E k = dstr E h"
    then have "answered E m k = answered E m h" unfolding answered_def approval_keys by (rule arg_cong)
    then show "answered E m k = None" using \<open>answered E m h = None\<close> by (rule trans)
  qed
qed

lemma pending_pass_same:
  assumes "\<And>b h. b \<in> set bs \<Longrightarrow> de (c_digest E) b = Some h \<Longrightarrow> open_request E h m" "store_ok E m"
  shows "same_answers E m (snd (pending_pass E p bs start q r m))"
  using assms
proof (induction bs arbitrary: start q r m)
  case (Cons b bs)
  show ?case
  proof (cases "de (c_digest E) b")
    case None
    then show ?thesis by (simp add: bindA_run)
  next
    case (Some h)
    let ?k = "''approvals'' @ char_MAX @ dstr E h"
    have open_h: "open_request E h m" using Cons.prems(1) Some by auto
    note removed = remove_approval_same [OF open_h Cons.prems(2)]
    have keep: "same_answers E m (snd (pending_pass E p bs s' q' r' m))" for s' q' r'
      by (rule Cons.IH) (use Cons.prems in auto)
    have "same_answers E (bt_remove ?k m) (snd (pending_pass E p bs s' q' r' (bt_remove ?k m)))" for s' q' r'
      by (rule Cons.IH) (use Cons.prems same_answers_open [OF removed] removed in \<open>auto simp: same_answers_def\<close>)
    then have drop: "same_answers E m (snd (pending_pass E p bs s' q' r' (bt_remove ?k m)))" for s' q' r'
      using same_answers_trans [OF removed] by blast
    show ?thesis
      using keep drop Some
      by (auto simp: get_key_eval bindA_run coll_del_run ok_or_def
          split: sum.split failure.split db_error.split option.split)
  qed
qed simp

lemma pending_loop_same:
  "store_ok E m \<Longrightarrow> same_answers E m (snd (pending_loop fuel E p start q r m))"
proof (induction fuel arbitrary: start q r m)
  case (Suc fuel)
  show ?case
  proof (cases "q = 0 \<or> \<not> is_Ok (get_by_range start q ''pending-approval-index'' m)")
    case True
    then show ?thesis by (auto simp: bindA_run is_Ok_iff split: sum.split)
  next
    case False
    then obtain bs where bs: "get_by_range start q ''pending-approval-index'' m = Ok bs"
      by (auto simp: is_Ok_iff)
    obtain x n where pass: "pending_pass E p bs start q r m = (x, n)" by fastforce
    have n: "same_answers E m n"
      using pending_pass_same [of bs E m p start q r] pending_listed_open [OF Suc.prems bs] Suc.prems pass
      by simp
    then have "same_answers E m (snd (pending_loop fuel E p start' q' r' n))" for start' q' r'
      using Suc same_answers_trans same_answers_def by metis
    then show ?thesis using False bs pass n by (auto simp: bindA_run split: sum.split)
  qed
qed simp

lemma get_all_request_same:
  assumes "store_ok E (nd_db s)"
  shows "same_votes E s (snd (get_all_request E s))"
proof -
  have "same_answers E (nd_db s) (snd (get_approvals 2 E (Some Pending) None (2 ^ 63 - 1) (nd_db s)))"
    using pending_loop_same [OF assms] by (simp add: get_approvals_def)
  then show ?thesis
    by (auto simp: get_all_request_def split: prod.split sum.split intro: same_answers_votes)
qed

section \<open>Commands\<close>

lemma send_message_inv:
  fixes s t :: "('b, 'z) node_scheme"
  assumes "send_message msg k s = (r, t)" "vote_inv E s"
    and "\<And>v. msg = EventMessage (ApproverResponse v) \<Longrightarrow> recorded E v (nd_db s)"
  shows "vote_inv E t"
proof -
  have db: "nd_db t = nd_db s"
    using assms(1) by (auto simp: send_message_def tell_message_def split: if_splits)
  have "nd_messages t = nd_messages s \<or>
      nd_messages t = nd_messages s @ [TaskRequest None msg {k} direct_response]"
    using assms(1) by (auto simp: send_message_def tell_message_def split: if_splits)
  then have "v \<in> sent_votes s \<or> msg = EventMessage (ApproverResponse v)" if "v \<in> sent_votes t" for v
    using that unfolding sent_votes_def by force
  then have "recorded E v (nd_db s)" if "v \<in> sent_votes t" for v
    using that assms(2,3) unfolding vote_inv_def by blast
  then show ?thesis using db assms(2) by (simp add: vote_inv_def)
qed

lemma answer_same: "answer c x s = (r, t) \<Longrightarrow> t = s"
  by (auto simp: answer_def split: option.splits bool.splits)

lemma approval_command_inv:
  fixes s t :: "('b, 'z) node_scheme"
  assumes ok: "approval_codecs E"
    and run: "approval_command E A now c msg s = (r, t)" and inv: "vote_inv E s"
  shows "vote_inv E t"
proof (cases msg)
  case (RequestApprovalWithSender q k)
  obtain x u where u: "process_approval_request E A now q k s = (x, u)" by fastforce
  note inv_u = process_request_inv [OF ok u inv]
  show ?thesis
  proof (cases "c \<noteq> None \<or> \<not> is_Ok x")
    case True
    then show ?thesis
      using run u inv inv_u RequestApprovalWithSender
      by (cases x) (auto simp: approval_command_def bindA_run split: if_splits)
  next
    case False
    then obtain y where y: "x = Ok y" by (auto simp: is_Ok_iff)
    define reply where "reply = (case y of
        Inr (Some (response, sender)) \<Rightarrow> send_message (create_approver_response response) sender
      | Inr None \<Rightarrow> retA ()
      | Inl (OurGovIsLower our_id sender gov_id) \<Rightarrow> send_message (LedgerMessages (GetLCE our_id gov_id)) sender
      | Inl (OurGovIsHigher our_id sender gov_id) \<Rightarrow>
          send_message (EventMessage (HigherGovernanceExpected gov_id our_id)) sender
      | Inl _ \<Rightarrow> (retA () :: ('b, 'z, unit) aact))"
    have "snd (reply u) = t"
      using run u y False RequestApprovalWithSender
      by (auto simp: approval_command_def bindA_run reply_def split: prod.splits sum.splits)
    moreover have "vote_inv E (snd (reply u))"
      using inv_u y
      by (auto simp: reply_def create_approver_response_def
          intro!: send_message_inv [OF surjective_pairing, where s = u and E = E]
          split: sum.split option.split approval_error_response.split)
    ultimately show ?thesis by simp
  qed
next
  case (EmitVote v)
  obtain x u where u: "generate_vote E A now (vo_request_id v) (vo_acceptance v) s = (x, u)" by fastforce
  note inv_u = generate_vote_inv [OF ok u inv]
  show ?thesis
  proof (cases "\<exists>a k. x = Ok (Inr (a, k))")
    case False
    then show ?thesis
      using run u inv_u EmitVote
      by (cases x) (auto simp: approval_command_def bindA_run dest!: answer_same split: sum.splits)
  next
    case True
    then obtain a k where x: "x = Ok (Inr (a, k))" by blast
    then obtain w where w: "ae_response a = Some w" "recorded E w (nd_db u)" using inv_u by blast
    have "snd (send_message (create_approver_response w) k u) = t"
      using run u x w EmitVote
      by (auto simp: approval_command_def bindA_run unwrap_def dest!: answer_same split: prod.splits sum.splits)
    moreover have "vote_inv E (snd (send_message (create_approver_response w) k u))"
      using inv_u w
      by (auto simp: create_approver_response_def
          intro!: send_message_inv [OF surjective_pairing, where s = u and E = E])
    ultimately show ?thesis by simp
  qed
next
  case GetAllRequest
  then have "t = snd (get_all_request E s)"
    using run by (auto simp: approval_command_def bindA_run dest!: answer_same split: prod.splits sum.splits)
  moreover have "same_votes E s (snd (get_all_request E s))"
    using inv by (intro get_all_request_same) (simp add: vote_inv_def)
  ultimately show ?thesis using inv same_votes_inv by blast
qed (use run inv in \<open>auto simp: approval_command_def bindA_run dest!: answer_same\<close>)

section \<open>Voting on a pending request\<close>

lemma del_index_run:
  "del_subject_approval_index E i h m = (Ok (), snd (del_subject_approval_index E i h m))"
  "del_governance_approval_index E i h m = (Ok (), snd (del_governance_approval_index E i h m))"
  by (simp_all add: del_subject_approval_index_def del_governance_approval_index_def get_key_eval coll_del_run)

lemma set_approval_total:
  assumes "\<And>x. ser (c_approval E) x \<noteq> None" "ae_state a \<noteq> Pending"
  shows "set_approval E h a m = (Ok (), snd (set_approval E h a m))"
  using assms(1) [of a] assms(2) by (auto simp: set_approval_run coll_del_run coll_put_def)

lemma generate_vote_run:
  fixes s :: "('b, 'z) node_scheme"
  assumes total: "\<And>x. ser (c_approval E) x \<noteq> None"
    and a: "get_approval E h (nd_db s) = Ok a" "\<not> responded a"
    and i: "subject_id_by_request E (content (aq_event_request (content (ae_request a))))
      (aq_gov_version (content (ae_request a))) (ap_derivator A) = Ok i"
    and g: "sm_sign E (ap_signature_manager A) now
      (PApprovalResponse \<lparr>ar_appr_req_hash = h, ar_approved = b\<rparr>) (ap_derivator A) = Ok g"
  shows "\<exists>f. generate_vote E A now h b s = (Ok (Inr (a\<lparr>ae_response := Some \<lparr>content =
      \<lparr>ar_appr_req_hash = h, ar_approved = b\<rparr>, signature = g\<rparr>,
    ae_state := if b then RespondedAccepted else RespondedRejected\<rparr>, ae_sender a)), s\<lparr>nd_db := f\<rparr>)"
proof -
  let ?a = "a\<lparr>ae_response := Some \<lparr>content =
      \<lparr>ar_appr_req_hash = h, ar_approved = b\<rparr>, signature = g\<rparr>,
    ae_state := if b then RespondedAccepted else RespondedRejected\<rparr>"
  obtain d where d: "set_approval E h ?a (nd_db s) = (Ok (), d)"
    using set_approval_total [OF total, of ?a h "nd_db s"] by (cases b) auto
  define e where "e = snd (del_subject_approval_index E i h d)"
  define f where "f = snd (del_governance_approval_index E (aq_gov_id (content (ae_request a))) h e)"
  have "del_subject_approval_index E i h d = (Ok (), e)"
    "del_governance_approval_index E (aq_gov_id (content (ae_request a))) h e = (Ok (), f)"
    unfolding e_def f_def by (rule del_index_run)+
  then have "generate_vote E A now h b s = (Ok (Inr (?a, ae_sender a)), s\<lparr>nd_db := f\<rparr>)"
    using a i g d
    by (simp add: generate_vote_def get_single_request_def responded_def bindA_run adb_def dbA_def zoomA_def Let_def)
  then show ?thesis by blast
qed

lemma emit_vote_run:
  fixes s :: "('b, 'z) node_scheme"
  assumes total: "\<And>x. ser (c_approval E) x \<noteq> None"
    and a: "get_approval E (vo_request_id v) (nd_db s) = Ok a" "\<not> responded a"
    and i: "subject_id_by_request E (content (aq_event_request (content (ae_request a))))
      (aq_gov_version (content (ae_request a))) (ap_derivator A) = Ok i"
    and g: "sm_sign E (ap_signature_manager A) now
      (PApprovalResponse \<lparr>ar_appr_req_hash = vo_request_id v, ar_approved = vo_acceptance v\<rparr>)
      (ap_derivator A) = Ok g"
    and sending: "nd_message_open s"
  shows "\<exists>t. approval_command E A now None (EmitVote v) s = (Ok None, t) \<and>
    nd_messages t = nd_messages s @ [TaskRequest None (EventMessage (ApproverResponse
      \<lparr>content = \<lparr>ar_appr_req_hash = vo_request_id v, ar_approved = vo_acceptance v\<rparr>, signature = g\<rparr>))
      {ae_sender a} direct_response]"
  using generate_vote_run [OF total a i g] sending
  by (auto simp: approval_command_def bindA_run unwrap_def send_message_def tell_message_def answer_def
      create_approver_response_def)

section \<open>Runs\<close>

text \<open>The task, with the node it runs on.\<close>

datatype 'n approval_task = Running (task_node: 'n) | Ended (task_node: 'n)

text \<open>A step is a turn of the task, at any time and with any input, or something the other tasks
  do, which leaves the approvals and the votes alone.\<close>

inductive approval_step ::
  "'b env \<Rightarrow> approver \<Rightarrow> ('b, 'z) node_scheme approval_task \<Rightarrow> ('b, 'z) node_scheme approval_task \<Rightarrow> bool"
  for E A where
  Turn: "approval_turn E A now i s = (Ok True, t) \<Longrightarrow> approval_step E A (Running s) (Running t)"
| Last: "approval_turn E A now i s = (r, t) \<Longrightarrow> r \<noteq> Ok True \<Longrightarrow> approval_step E A (Running s) (Ended t)"
| Others: "same_votes E s t \<Longrightarrow> approval_step E A (Running s) (Running t)"

inductive_cases approval_stepE: "approval_step E A x y"

inductive_simps approval_step_Ended: "approval_step E A (Ended s) y"

lemma approval_turn_inv:
  fixes s t :: "('b, 'z) node_scheme"
  assumes ok: "approval_codecs E" and run: "approval_turn E A now i s = (r, t)" and inv: "vote_inv E s"
  shows "vote_inv E t"
proof (cases i)
  case (InputCommand c)
  show ?thesis
  proof (cases c)
    case (Some cm)
    then obtain x where "approval_command E A now (fst cm) (snd cm) s = (x, t)"
      using run InputCommand
      by (cases cm) (auto simp: approval_turn_def bindA_run split: prod.splits sum.splits)
    then show ?thesis using approval_command_inv [OF ok] inv by blast
  qed (use run InputCommand inv in \<open>simp add: approval_turn_def\<close>)
next
  case (InputUpdate g)
  show ?thesis
  proof (cases g)
    case (Some h)
    then have "t = snd (new_governance_version E A h s)"
      using run InputUpdate by (auto simp: approval_turn_def bindA_run split: prod.splits sum.splits)
    moreover have "same_votes E s (snd (new_governance_version E A h s))"
      using inv by (intro new_governance_version_same) (simp add: vote_inv_def)
    ultimately show ?thesis using inv same_votes_inv by blast
  qed (use run InputUpdate inv in \<open>simp add: approval_turn_def\<close>)
qed (use run inv in \<open>simp add: approval_turn_def\<close>)

lemma approval_step_inv:
  assumes "approval_codecs E" "approval_step E A x y" "vote_inv E (task_node x)"
  shows "vote_inv E (task_node y)"
  using assms(2,3)
  by (cases rule: approval_step.cases)
    (auto intro: approval_turn_inv [OF assms(1)] same_votes_inv)

lemma approval_run_inv:
  assumes "approval_codecs E" "(approval_step E A)\<^sup>*\<^sup>* x y" "vote_inv E (task_node x)"
  shows "vote_inv E (task_node y)"
  using assms(2,3) by induction (auto intro: approval_step_inv [OF assms(1)])

text \<open>Two votes on one request are recorded in the same place.\<close>

lemma vote_inv_unique:
  assumes "vote_inv E s" "v \<in> sent_votes s" "w \<in> sent_votes s" "dstr E (vote_id v) = dstr E (vote_id w)"
  shows "v = w"
proof -
  obtain a b where "answered E (nd_db s) (vote_id v) = Some a" "ae_response a = Some v"
      "answered E (nd_db s) (vote_id w) = Some b" "ae_response b = Some w"
    using assms(1-3) unfolding vote_inv_def recorded_def by blast
  moreover have "answered E (nd_db s) (vote_id v) = answered E (nd_db s) (vote_id w)"
    unfolding answered_def approval_keys by (rule arg_cong [OF assms(4)])
  ultimately show ?thesis by simp
qed

lemma vote_inv_start:
  "store_ok E (nd_db s) \<Longrightarrow> answered E (nd_db s) = (\<lambda>_. None) \<Longrightarrow> sent_votes s = {} \<Longrightarrow> vote_inv E s"
  by (simp add: vote_inv_def votes_ok_def del: answered_Some)

end
