(* ===== verification/Sample_Approval.thy ===== *)
theory Sample_Approval
  imports Sample_Runs Approval_Laws
begin

text \<open>
  An approver that holds one pending request, of a fact of subject 5, from node 4.
\<close>

definition sample_approver :: approver where
  "sample_approver = \<lparr>
     ap_signature_manager = self_signature_manager_new (sample_keys 1) Blake3_256,
     ap_pass_votation = VoteNormal,
     ap_derivator = Blake3_256\<rparr>"

definition approver_fact :: "event_request signed" where
  "approver_fact = \<lparr>content = Fact \<lparr>fa_subject_id = sample_id 5, fa_payload = JNull\<rparr>, signature = sample_signature 4\<rparr>"

definition sample_approval_request :: approval_request where
  "sample_approval_request = \<lparr>
     aq_event_request = approver_fact,
     aq_sn = 1,
     aq_gov_version = 0,
     aq_patch = JNull,
     aq_state_hash = sample_id 8,
     aq_hash_prev_event = sample_id 8,
     aq_gov_id = sample_id 2\<rparr>"

definition sample_pending :: approval_entity where
  "sample_pending = \<lparr>
     ae_id = sample_id 7,
     ae_request = \<lparr>content = sample_approval_request, signature = sample_signature 4\<rparr>,
     ae_response = None,
     ae_state = Pending,
     ae_sender = sample_key 4\<rparr>"

definition approver_node :: "blob node" where
  "approver_node = sample_node (snd (set_approval sample_env (sample_id 7) sample_pending []))"

definition sample_vote :: emit_vote where
  "sample_vote = \<lparr>vo_request_id = sample_id 7, vo_acceptance = True\<rparr>"

lemma sample_approval_codecs [simp]: "approval_codecs sample_env"
  by (simp add: approval_codecs_def)

lemma set_approval_sample:
  "fst (set_approval sample_env h a m) = Ok ()"
  by (simp add: set_approval_run kv_put_def sample_env_def coll_put_def coll_del_def bindA_run)

lemma get_approval_empty [simp]: "get_approval E h [] = Fail EntryNotFound"
  by (simp add: approval_keys kv_get_def coll_get_def)

lemma approver_db:
  "get_approval sample_env h (nd_db approver_node) =
     (if dstr sample_env h = dstr sample_env (sample_id 7) then Ok sample_pending else Fail EntryNotFound)"
  using set_approval_get [OF _ prod.collapse [symmetric], where E = sample_env and h = "sample_id 7" and
    a = sample_pending and m = "[]" and k = h]
  by (simp add: approver_node_def set_approval_sample)

lemma approver_empty:
  "store_ok sample_env (nd_db approver_node)" "answered sample_env (nd_db approver_node) = (\<lambda>_. None)"
  "sent_votes approver_node = {}" "nd_messages approver_node = []" "nd_message_open approver_node"
proof -
  show "store_ok sample_env (nd_db approver_node)"
    using set_approval_store [OF _ _ prod.collapse [symmetric], where E = sample_env and h = "sample_id 7" and
      a = sample_pending and m = "[]"]
    by (simp add: approver_node_def store_ok_def pending_ok_def open_request_def answered_def coll_get_def)
  have "answered sample_env (nd_db approver_node) h = None" for h
    by (simp add: answered_def approver_db responded_def sample_pending_def split: sum.split)
  then show "answered sample_env (nd_db approver_node) = (\<lambda>_. None)" by (rule ext)
  show "nd_messages approver_node = []" by (simp add: approver_node_def sample_node_def)
  then show "sent_votes approver_node = {}" by (simp add: sent_votes_def)
  show "nd_message_open approver_node" by (simp add: approver_node_def)
qed

lemma sample_ser_approval [simp]: "ser (c_approval sample_env) x = Some (BApproval x)"
  by (simp add: sample_env_def)

definition sample_response :: "approval_response signed" where
  "sample_response = \<lparr>
     content = \<lparr>ar_appr_req_hash = sample_id 7, ar_approved = True\<rparr>,
     signature = \<lparr>
       sg_signer = sample_key 1,
       sg_timestamp = 9,
       sg_content_hash = new_digest Blake3_256 sample_hash,
       sg_value = new_signature_id Ed25519Sha512 [1]\<rparr>\<rparr>"

lemma approver_votes:
  "\<exists>t. approval_command sample_env sample_approver 9 None (EmitVote sample_vote) approver_node = (Ok None, t) \<and>
     nd_messages t = [TaskRequest None (EventMessage (ApproverResponse sample_response)) {sample_key 4} direct_response]"
proof -
  have "\<exists>t. approval_command sample_env sample_approver 9 None (EmitVote sample_vote) approver_node = (Ok None, t) \<and>
    nd_messages t = nd_messages approver_node @ [TaskRequest None (EventMessage (ApproverResponse
      \<lparr>content = \<lparr>ar_appr_req_hash = vo_request_id sample_vote, ar_approved = vo_acceptance sample_vote\<rparr>,
       signature = signature sample_response\<rparr>)) {ae_sender sample_pending} direct_response]"
    by (rule emit_vote_run [where i = "sample_id 5"])
      (simp_all add: sample_ser_approval approver_db sample_vote_def sample_pending_def responded_def
        subject_id_by_request_def sample_approval_request_def approver_fact_def sample_approver_def sample_sign
        sample_response_def approver_empty(5))
  then show ?thesis
    by (simp add: approver_empty(4) sample_vote_def sample_response_def sample_pending_def)
qed

end
