(* ===== verification/Distribution.thy ===== *)
theory Distribution
  imports Node Db_Laws
begin

text \<open>
  The distribution of events among their witnesses (\<^verbatim>\<open>distribution/inner_manager.rs\<close> and
  \<^verbatim>\<open>distribution/manager.rs\<close>): each witness signs the last event of a subject, collects the
  signatures of the others and asks again for those that are missing.
\<close>

section \<open>Errors and configuration\<close>

text \<open>The code turns a database error into its text; here the error itself is kept.\<close>

datatype distribution_manager_error =
    TellNoAllowed
  | GovernanceChannelNotAvailable
  | DatabaseMismatch
  | DDatabaseError db_error
  | DUnexpectedError
  | DHashGenerationFailed
  | SignGenerarionFailed
  | MessageChannelNotAvailable
  | DSubjectCreationError
  | ResponseChannelNotAvailable

datatype distribution_error_responses =
    NoValidWitness
  | DChannelNotAvailable
  | DInvalidSubjectSignature
  | DInvalidEventLink
  | DInvalidEventSignatures
  | DInvalidInvokator
  | DInvalidRequestType
  | DGovernanceNotFound string
  | DInvalidKeyIdentifier string
  | DApprovalQuorumNotReached
  | DApprovalQuorumMismatch
  | DInvalidValidationSignatures
  | DSchemaNotFound string
  | DEventNotFound u64 string
  | DSubjectNotFound
  | DSignaturesNotFound
  | DNoValidatorSignatures
  | DInvalidValidatorSignatureHash
  | DEventNotNeeded
  | DInvalidEvent
  | DSignatureNotNeeded
  | DInvalidEvaluatorSignatures
  | DInvalidSignature
  | DInvalidSigner
  | DInvalidDigestIdentifier

record distributor =
  di_signature_manager :: self_signature_manager
  di_timeout :: u32
  di_replication_factor :: u64
  di_sign_derivator :: digest_derivator

type_synonym ('b, 'z, 'a) dact = "(('b, 'z) node_scheme, 'a, distribution_manager_error) act"

definition ddb :: "('b data_store, 'a, db_error) act \<Rightarrow> ('b, 'z, 'a) dact" where
  "ddb m = dbA DDatabaseError m"

definition dread :: "('b data_store \<Rightarrow> ('a, db_error) res) \<Rightarrow> ('b, 'z, 'a) dact" where
  "dread q = db_read DDatabaseError q"

definition dask :: "('b data_store \<Rightarrow> ('a, gov_error) res) \<Rightarrow> ('b, 'z, 'a) dact" where
  "dask q = ask_gov (\<lambda>_. GovernanceChannelNotAvailable) q"

abbreviation own_id :: "distributor \<Rightarrow> key_identifier" where
  "own_id D \<equiv> sm_identifier (di_signature_manager D)"

section \<open>Requests for signatures\<close>

definition build_metadata :: "subject \<Rightarrow> u64 \<Rightarrow> metadata" where
  "build_metadata subject governance_version = \<lparr>
     md_namespace = su_namespace subject,
     md_subject_id = su_subject_id subject,
     md_governance_id = su_governance_id subject,
     md_governance_version = governance_version,
     md_schema_id = su_schema_id subject\<rparr>"

definition witness_task :: "'b env \<Rightarrow> digest_identifier \<Rightarrow> string" where
  "witness_task E subject_id = ''WITNESS/'' @ dstr E subject_id"

definition cancel_signature_request :: "'b env \<Rightarrow> digest_identifier \<Rightarrow> ('b, 'z, unit) dact" where
  "cancel_signature_request E subject_id =
     tell_message (\<lambda>_. MessageChannelNotAvailable) (TaskCancel (witness_task E subject_id))"

definition send_signature_request ::
  "'b env \<Rightarrow> distributor \<Rightarrow> digest_identifier \<Rightarrow> u64 \<Rightarrow> key_identifier set \<Rightarrow> key_identifier set \<Rightarrow>
     ('b, 'z, unit) dact" where
  "send_signature_request E D subject_id sn targets signatures_requested =
     tell_message (\<lambda>_. MessageChannelNotAvailable)
       (TaskRequest (Some (witness_task E subject_id))
         (create_distribution_request subject_id sn signatures_requested (own_id D))
         targets
         \<lparr>mc_timeout = di_timeout D, mc_replication_factor = di_replication_factor D\<rparr>)"

definition answer_to :: "taple_messages \<Rightarrow> key_identifier \<Rightarrow> ('b, 'z, unit) dact" where
  "answer_to msg receiver =
     tell_message (\<lambda>_. MessageChannelNotAvailable) (TaskRequest None msg {receiver} direct_response)"

text \<open>The witnesses of a subject, its owner included.\<close>

definition get_targets :: "'b env \<Rightarrow> metadata \<Rightarrow> subject \<Rightarrow> ('b, 'z, key_identifier set) dact" where
  "get_targets E md subject =
     bindA (dask (get_signers E md Witness)) (\<lambda>targets. retA (insert (su_owner subject) targets))"

definition get_remaining_signers :: "signature list \<Rightarrow> key_identifier set \<Rightarrow> key_identifier set" where
  "get_remaining_signers current_signatures targets = targets - sg_signer ` set current_signatures"

definition restart_distribution ::
  "'b env \<Rightarrow> distributor \<Rightarrow> subject \<Rightarrow> signature list \<Rightarrow> key_identifier set \<Rightarrow> ('b, 'z, unit) dact" where
  "restart_distribution E D subject signatures witnesses =
     (let remaining = get_remaining_signers signatures witnesses in
      if remaining \<noteq> {}
      then send_signature_request E D (su_subject_id subject) (su_sn subject) witnesses remaining
      else retA ())"

section \<open>A new version of a governance\<close>

definition recheck_witness ::
  "'b env \<Rightarrow> distributor \<Rightarrow> u64 \<Rightarrow> digest_identifier \<Rightarrow> ('b, 'z, unit) dact" where
  "recheck_witness E D governance_sn i =
     bindA (dread (get_subject E i)) (\<lambda>subject.
     bindA (get_targets E (build_metadata subject governance_sn) subject) (\<lambda>witnesses.
     if own_id D \<notin> witnesses then ddb (del_witness_signatures E i)
     else
       bindA (dread (get_witness_signatures E i)) (\<lambda>(_, current_signatures).
       let remaining = witnesses - sg_signer ` set current_signatures in
       if remaining \<noteq> {}
       then send_signature_request E D i (su_sn subject) (insert (su_owner subject) witnesses) remaining
       else retA ())))"

definition witnesses_updated :: "'b env \<Rightarrow> distributor \<Rightarrow> digest_identifier \<Rightarrow> ('b, 'z, unit) dact" where
  "witnesses_updated E D governance_id =
     bindA (dread (get_subjects_by_governance E governance_id)) (\<lambda>all_subjects_ids.
     bindA (dread (get_subject E governance_id)) (\<lambda>governance.
     forA (recheck_witness E D (su_sn governance)) all_subjects_ids))"

section \<open>Start-up\<close>

text \<open>The loop over the stored signatures remembers the version of each governance, and for each
  governance, schema and namespace whether the node is a witness and who the others are.\<close>

type_synonym witness_flags =
  "digest_identifier \<times> string \<times> string \<rightharpoonup> bool \<times> key_identifier set option"

type_synonym init_state = "(digest_identifier \<rightharpoonup> u64) \<times> witness_flags"

text \<open>The version of the governance of a subject, unless the governance is not known.\<close>

definition init_version ::
  "'b env \<Rightarrow> subject \<Rightarrow> digest_identifier \<Rightarrow> (digest_identifier \<rightharpoonup> u64) \<Rightarrow>
     ('b, 'z, (u64 \<times> (digest_identifier \<rightharpoonup> u64)) option) dact" where
  "init_version E subject governance_id versions =
     (if su_schema_id subject = ''governance''
      then retA (Some (su_sn subject, versions(governance_id \<mapsto> su_sn subject)))
      else
        case versions (su_governance_id subject) of
          Some version \<Rightarrow> retA (Some (version, versions))
        | None \<Rightarrow>
            db_case (get_subject E governance_id) (\<lambda>r.
              case r of
                Inr governance \<Rightarrow>
                  retA (Some (su_sn governance, versions(governance_id \<mapsto> su_sn governance)))
              | Inl (Err EntryNotFound) \<Rightarrow> retA None
              | Inl e \<Rightarrow> liftA (map_err DDatabaseError (Inl e))))"

definition init_witness ::
  "'b env \<Rightarrow> distributor \<Rightarrow> digest_identifier \<Rightarrow> subject \<Rightarrow> signature list \<Rightarrow>
     digest_identifier \<times> string \<times> string \<Rightarrow> u64 \<Rightarrow> witness_flags \<Rightarrow> ('b, 'z, witness_flags) dact" where
  "init_witness E D subject_id subject signatures k governance_version flags =
     bindA (get_targets E (build_metadata subject governance_version) subject) (\<lambda>witnesses.
     if own_id D \<in> witnesses then
       let witnesses = insert (su_owner subject) witnesses - {own_id D} in
       bindA (restart_distribution E D subject signatures witnesses) (\<lambda>_.
       retA (flags(k \<mapsto> (True, Some witnesses))))
     else
       bindA (ddb (del_witness_signatures E subject_id)) (\<lambda>_.
       retA (flags(k \<mapsto> (False, None)))))"

definition init_subject ::
  "'b env \<Rightarrow> distributor \<Rightarrow> digest_identifier \<Rightarrow> u64 \<Rightarrow> signature list \<Rightarrow> init_state \<Rightarrow>
     ('b, 'z, init_state) dact" where
  "init_subject E D subject_id sn signatures st =
     db_case (get_subject E subject_id) (\<lambda>r.
       case r of
         Inl (Err EntryNotFound) \<Rightarrow> retA st
       | Inl e \<Rightarrow> liftA (map_err DDatabaseError (Inl e))
       | Inr subject \<Rightarrow>
           if sn \<noteq> su_sn subject then retA st
           else
             (let (versions, flags) = st;
                  governance_id = (if su_schema_id subject = ''governance'' then su_subject_id subject
                    else su_governance_id subject);
                  k = (governance_id, su_schema_id subject, su_namespace subject) in
              case flags k of
                Some (False, _) \<Rightarrow>
                  bindA (ddb (del_witness_signatures E subject_id)) (\<lambda>_. retA st)
              | Some (True, witnesses) \<Rightarrow>
                  bindA (liftA (unwrap witnesses)) (\<lambda>witnesses.
                  bindA (restart_distribution E D subject signatures witnesses) (\<lambda>_. retA st))
              | None \<Rightarrow>
                  bindA (init_version E subject governance_id versions) (\<lambda>v.
                  case v of
                    None \<Rightarrow> retA st
                  | Some (governance_version, versions) \<Rightarrow>
                      bindA (init_witness E D subject_id subject signatures k governance_version flags)
                        (\<lambda>flags. retA (versions, flags)))))"

fun init_subjects ::
  "'b env \<Rightarrow> distributor \<Rightarrow> (digest_identifier \<times> u64 \<times> signature list) list \<Rightarrow> init_state \<Rightarrow>
     ('b, 'z, unit) dact" where
  "init_subjects E D [] st = retA ()"
| "init_subjects E D ((subject_id, sn, signatures) # rest) st =
     bindA (init_subject E D subject_id sn signatures st) (\<lambda>st. init_subjects E D rest st)"

definition distribution_init :: "'b env \<Rightarrow> distributor \<Rightarrow> ('b, 'z, unit) dact" where
  "distribution_init E D =
     bindA (dread (get_all_witness_signatures E)) (\<lambda>signatures.
     init_subjects E D signatures (Map.empty, Map.empty))"

section \<open>Commands\<close>

text \<open>The ledger has stored an event: sign it and ask the other witnesses for their signatures.\<close>

definition ask_witnesses ::
  "'b env \<Rightarrow> distributor \<Rightarrow> digest_identifier \<Rightarrow> u64 \<Rightarrow>
     ('b, 'z, distribution_error_responses + unit) dact" where
  "ask_witnesses E D subject_id sn =
     bindA (dread (get_subject E subject_id)) (\<lambda>subject.
     bindA (dask (get_governance_version E (su_subject_id subject) (su_governance_id subject)))
       (\<lambda>governance_version.
     bindA (get_targets E (build_metadata subject governance_version) subject) (\<lambda>targets.
     let targets = insert (su_owner subject) targets - {own_id D} in
     bindA (if targets \<noteq> {}
       then send_signature_request E D (su_subject_id subject) sn targets targets
       else retA ()) (\<lambda>_.
     retA (Inr ())))))"

definition start_distribution ::
  "'b env \<Rightarrow> distributor \<Rightarrow> timestamp \<Rightarrow> digest_identifier \<Rightarrow> u64 \<Rightarrow>
     ('b, 'z, distribution_error_responses + unit) dact" where
  "start_distribution E D now subject_id sn =
     db_case (get_event E subject_id sn) (\<lambda>r.
       case r of
         Inl (Err EntryNotFound) \<Rightarrow> retA (Inl (DEventNotFound sn (dstr E subject_id)))
       | Inl e \<Rightarrow> liftA (map_err DDatabaseError (Inl e))
       | Inr ev \<Rightarrow>
           bindA (liftA (map_err (\<lambda>_. SignGenerarionFailed)
             (sm_sign E (di_signature_manager D) now (PSignedEvent ev) (di_sign_derivator D)))) (\<lambda>g.
           bindA (dbA (\<lambda>_. SignGenerarionFailed) (del_witness_signatures E subject_id)) (\<lambda>_.
           bindA (ddb (set_witness_signatures E subject_id sn [g])) (\<lambda>_.
           ask_witnesses E D subject_id sn))))"

definition provide_signatures ::
  "'b env \<Rightarrow> distributor \<Rightarrow> ask_for_signatures \<Rightarrow> ('b, 'z, distribution_error_responses + unit) dact" where
  "provide_signatures E D msg =
     bindA (db_case (get_witness_signatures E (as_subject_id msg)) (\<lambda>r.
       case r of
         Inr (sn, signatures) \<Rightarrow>
           if sn = as_sn msg then
             answer_to (create_distribution_response (as_subject_id msg) sn
               (filter (\<lambda>g. sg_signer g \<in> as_signatures_requested msg) signatures)) (as_sender_id msg)
           else if as_sn msg > sn then
             bindA (dask (is_governance E (as_subject_id msg))) (\<lambda>is_gov.
             answer_to (if is_gov then request_gov_event (own_id D) (as_subject_id msg) (sn + 1)
               else request_lce (own_id D) (as_subject_id msg)) (as_sender_id msg))
           else retA ()
       | Inl (Err EntryNotFound) \<Rightarrow>
           answer_to (request_lce (own_id D) (as_subject_id msg)) (as_sender_id msg)
       | Inl e \<Rightarrow> liftA (map_err DDatabaseError (Inl e)))) (\<lambda>_.
     retA (Inr ()))"

text \<open>The signatures of a message are those of witnesses of the event; the first one that is not
  refuses the whole message.\<close>

fun check_signatures ::
  "'b env \<Rightarrow> event signed \<Rightarrow> key_identifier set \<Rightarrow> signature list \<Rightarrow>
     (distribution_error_responses + unit, distribution_manager_error) res" where
  "check_signatures E ev targets [] = Ok (Inr ())"
| "check_signatures E ev targets (g # gs) =
     (if sg_signer g \<notin> targets then Ok (Inl DInvalidSigner)
      else case signature_verify E g (PSignedEvent ev) of
          Inl (Panic m) \<Rightarrow> Abort m
        | Inl (Err _) \<Rightarrow> Ok (Inl DInvalidSignature)
        | Inr _ \<Rightarrow> check_signatures E ev targets gs)"

definition add_signatures ::
  "'b env \<Rightarrow> distributor \<Rightarrow> signatures_received \<Rightarrow> signature list \<Rightarrow> subject \<Rightarrow> key_identifier set \<Rightarrow>
     ('b, 'z, distribution_error_responses + unit) dact" where
  "add_signatures E D msg current_signatures subject targets =
     (let targets = targets - {own_id D};
          current_signatures = union_list current_signatures (sr_signatures msg);
          remaining = get_remaining_signers current_signatures targets in
      bindA (ddb (set_witness_signatures E (sr_subject_id msg) (sr_sn msg) current_signatures)) (\<lambda>_.
      bindA (if remaining = {} then cancel_signature_request E (su_subject_id subject)
        else send_signature_request E D (su_subject_id subject) (sr_sn msg)
          (insert (su_owner subject) targets) remaining) (\<lambda>_.
      retA (Inr ()))))"

definition signatures_received ::
  "'b env \<Rightarrow> distributor \<Rightarrow> signatures_received \<Rightarrow> ('b, 'z, distribution_error_responses + unit) dact" where
  "signatures_received E D msg =
     db_case (get_witness_signatures E (sr_subject_id msg)) (\<lambda>r.
       case r of
         Inl (Err EntryNotFound) \<Rightarrow> retA (Inr ())
       | Inl e \<Rightarrow> liftA (map_err DDatabaseError (Inl e))
       | Inr (sn, current_signatures) \<Rightarrow>
           if sr_sn msg \<noteq> sn then retA (Inl DSignaturesNotFound)
           else db_case (get_event E (sr_subject_id msg) (sr_sn msg)) (\<lambda>r.
             case r of
               Inl (Err EntryNotFound) \<Rightarrow>
                 retA (Inl (DEventNotFound (sr_sn msg) (dstr E (sr_subject_id msg))))
             | Inl e \<Rightarrow> liftA (map_err DDatabaseError (Inl e))
             | Inr ev \<Rightarrow>
                 bindA (dread (get_subject E (sr_subject_id msg))) (\<lambda>subject.
                 bindA (dask (get_governance_version E (su_subject_id subject) (su_governance_id subject)))
                   (\<lambda>governance_version.
                 bindA (get_targets E (build_metadata subject governance_version) subject) (\<lambda>targets.
                 bindA (liftA (check_signatures E ev targets (sr_signatures msg))) (\<lambda>c.
                 case c of
                   Inl e \<Rightarrow> retA (Inl e)
                 | Inr _ \<Rightarrow> add_signatures E D msg current_signatures subject targets))))))"

section \<open>The task\<close>

definition distribution_command ::
  "'b env \<Rightarrow> distributor \<Rightarrow> timestamp \<Rightarrow> bool option \<Rightarrow> distribution_message \<Rightarrow>
     ('b, 'z, (distribution_error_responses + unit) option) dact" where
  "distribution_command E D now sender msg =
     bindA (case msg of
         ProvideSignatures data \<Rightarrow> provide_signatures E D data
       | SignaturesReceived data \<Rightarrow> signatures_received E D data
       | SignaturesNeeded subject_id sn \<Rightarrow> start_distribution E D now subject_id sn) (\<lambda>response.
     case sender of
       None \<Rightarrow> retA None
     | Some True \<Rightarrow> retA (Some response)
     | Some False \<Rightarrow> failA ResponseChannelNotAvailable)"

datatype distribution_input =
    DInputCommand "(bool option \<times> distribution_message) option"
  | DInputShutdown
  | DInputUpdate "digest_identifier option"

text \<open>At start-up an error is only logged.\<close>

definition distribution_start :: "'b env \<Rightarrow> distributor \<Rightarrow> ('b, 'z, unit) dact" where
  "distribution_start E D = (\<lambda>s.
     case distribution_init E D s of (Inl (Err _), t) \<Rightarrow> (Ok (), t) | rt \<Rightarrow> rt)"

text \<open>One turn of the task; it ends, and the node with it, after a turn that fails or has no next.\<close>

definition distribution_turn ::
  "'b env \<Rightarrow> distributor \<Rightarrow> timestamp \<Rightarrow> distribution_input \<Rightarrow> ('b, 'z, bool) dact" where
  "distribution_turn E D now i =
     (case i of
        DInputCommand (Some (sender, msg)) \<Rightarrow>
          bindA (distribution_command E D now sender msg) (\<lambda>_. retA True)
      | DInputCommand None \<Rightarrow> retA False
      | DInputShutdown \<Rightarrow> retA False
      | DInputUpdate (Some governance_id) \<Rightarrow>
          bindA (witnesses_updated E D governance_id) (\<lambda>_. retA True)
      | DInputUpdate None \<Rightarrow> retA False)"

end
