(* ===== verification/Distribution_Laws.thy ===== *)
theory Distribution_Laws
  imports Distribution
begin

text \<open>
  What the distribution of events guarantees, whatever the other tasks do to the stored events
  meanwhile (the ledger deletes the head it held when a newer one arrives): every witness
  signature it keeps is a valid signature of an event that was stored under that number.
\<close>

section \<open>Witness signatures in the store\<close>

lemma witness_keys:
  "get_witness_signatures E i m = kv_get (c_witness E) (''witness-signatures'' @ char_MAX @ dstr E i) m"
  by (simp add: get_witness_signatures_def get_key_eval)

lemma witness_foreign:
  "writes p m m' \<Longrightarrow> p \<noteq> ''witness-signatures'' \<Longrightarrow> sep_free p \<Longrightarrow>
     get_witness_signatures E i m' = get_witness_signatures E i m"
  using append_sep_inject [OF prefixes_free(13), of p]
  by (simp add: witness_keys kv_get_def writes_def) metis

definition witnesses_before :: "'b env \<Rightarrow> digest_identifier \<Rightarrow> 'b data_store \<Rightarrow> signature list" where
  "witnesses_before E i m = (case get_witness_signatures E i m of Inr (_, gs) \<Rightarrow> gs | Inl _ \<Rightarrow> [])"

lemma set_witness_run:
  assumes "set_witness_signatures E i sn gs m = (x, m')"
  shows "m' = m \<and> \<not> is_Ok x \<or>
    kv_put (c_witness E) (''witness-signatures'' @ char_MAX @ dstr E i)
      (sn, union_list gs (witnesses_before E i m)) m = (x, m')"
  using assms
  by (auto simp: set_witness_signatures_def get_key_eval bindA_run witnesses_before_def witness_keys kv_get_def
      bindR_def unwrap_def ok_or_def union_list_def
      split: sum.splits failure.splits db_error.splits option.splits prod.splits)

lemma set_witness_get:
  assumes "codec_ok (c_witness E)" "set_witness_signatures E i sn gs m = (x, m')"
  shows "get_witness_signatures E k m' =
    (if is_Ok x \<and> dstr E k = dstr E i then Ok (sn, union_list gs (witnesses_before E i m))
     else get_witness_signatures E k m)"
  using set_witness_run [OF assms(2)]
proof (elim disjE conjE)
  let ?p = "''witness-signatures'' @ char_MAX @ dstr E i" and ?v = "(sn, union_list gs (witnesses_before E i m))"
  assume put: "kv_put (c_witness E) ?p ?v m = (x, m')"
  show ?thesis
  proof (cases "ser (c_witness E) ?v")
    case None
    then show ?thesis using put by (auto simp: kv_put_def)
  next
    case (Some d)
    then have m': "x = Ok ()" "m' = snd (coll_put ?p d m)" using put by (auto simp: kv_put_def coll_put_def)
    have "coll_get j m' = (if j = ?p then Ok d else coll_get j m)" for j
      unfolding m'(2) by (rule mem.get_put)
    then show ?thesis using m'(1) Some assms(1) by (simp add: witness_keys kv_get_def codec_ok_def)
  qed
qed auto

lemma set_witness_writes:
  assumes "set_witness_signatures E i sn gs m = (x, m')"
  shows "writes ''witness-signatures'' m m'" and "bt_inv m \<Longrightarrow> bt_inv m'"
proof -
  let ?v = "(sn, union_list gs (witnesses_before E i m))"
  have "m' = m \<or> m' = snd (kv_put (c_witness E) (''witness-signatures'' @ char_MAX @ dstr E i) ?v m)"
    using set_witness_run [OF assms] by auto
  then show "writes ''witness-signatures'' m m'" "bt_inv m \<Longrightarrow> bt_inv m'"
    using writes_kv_put [of "''witness-signatures''" m "c_witness E" "dstr E i" ?v]
    by (auto simp: kv_put_def mem.inv_put split: option.splits)
       (cases "ser (c_witness E) ?v"; auto simp: kv_put_def mem.inv_put)
qed

lemma del_witness_run:
  "del_witness_signatures E i m = (Ok (), bt_remove (''witness-signatures'' @ char_MAX @ dstr E i) m)"
  by (simp add: del_witness_signatures_def get_key_eval coll_del_run)

lemma del_witness_get:
  assumes "bt_inv m"
  shows "get_witness_signatures E k (snd (del_witness_signatures E i m)) =
    (if dstr E k = dstr E i then Fail EntryNotFound else get_witness_signatures E k m)"
proof -
  let ?p = "\<lambda>k. ''witness-signatures'' @ char_MAX @ dstr E k"
  have "coll_get (?p k) (bt_remove (?p i) m) = (if ?p k = ?p i then Fail EntryNotFound else coll_get (?p k) m)"
    using mem.get_del [OF assms, of "?p k" "?p i"] by (simp add: coll_del_def)
  then show ?thesis
    unfolding witness_keys kv_get_def del_witness_run by (simp only: same_append_eq) (simp add: bindR_def)
qed

lemma witness_event:
  "writes ''witness-signatures'' m m' \<Longrightarrow> get_event E i sn m' = get_event E i sn m"
  using events.get_foreign [of "''witness-signatures''" m m' E "(i, sn)"] by simp

lemma del_witness_event: "get_event E j sn (snd (del_witness_signatures E i m)) = get_event E j sn m"
proof (rule witness_event)
  show "writes ''witness-signatures'' m (snd (del_witness_signatures E i m))"
    unfolding del_witness_signatures_def get_key_eval bindA_simps by (rule writes_del)
qed

section \<open>The invariant\<close>

definition valid_signature :: "'b env \<Rightarrow> event signed \<Rightarrow> signature \<Rightarrow> bool" where
  "valid_signature E ev g \<longleftrightarrow> signature_verify E g (PSignedEvent ev) = Ok ()"

text \<open>
  \<open>V\<close> are the events that have been stored so far. \<open>attested\<close> speaks of every identifier with the
  same text, for the text is what the tables are keyed by.
\<close>

definition attested ::
  "'b env \<Rightarrow> (digest_identifier \<Rightarrow> u64 \<Rightarrow> event signed \<Rightarrow> bool) \<Rightarrow> digest_identifier \<Rightarrow> u64 \<Rightarrow> signature \<Rightarrow> bool"
where
  "attested E V i sn g \<longleftrightarrow> (\<forall>k. dstr E k = dstr E i \<longrightarrow> (\<exists>ev. V k sn ev \<and> valid_signature E ev g))"

definition witnessed ::
  "'b env \<Rightarrow> (digest_identifier \<Rightarrow> u64 \<Rightarrow> event signed \<Rightarrow> bool) \<Rightarrow> 'b data_store \<Rightarrow> bool" where
  "witnessed E V m \<longleftrightarrow> bt_inv m \<and> (\<forall>i sn ev. get_event E i sn m = Ok ev \<longrightarrow> V i sn ev) \<and>
     (\<forall>i sn gs. get_witness_signatures E i m = Ok (sn, gs) \<longrightarrow> (\<forall>g \<in> set gs. attested E V i sn g))"

lemma witnessedD:
  assumes "witnessed E V m"
  shows "bt_inv m" "get_event E i sn m = Ok ev \<Longrightarrow> V i sn ev"
    "get_witness_signatures E i m = Ok (sn, gs) \<Longrightarrow> g \<in> set gs \<Longrightarrow> attested E V i sn g"
  using assms by (auto simp: witnessed_def)

lemma event_same_key: "dstr E i = dstr E j \<Longrightarrow> get_event E i sn m = get_event E j sn m"
  by (simp add: get_event_def)

lemma attested_stored:
  assumes "witnessed E V m" "get_event E i sn m = Ok ev" "valid_signature E ev g"
  shows "attested E V i sn g"
  unfolding attested_def
  using assms(3) witnessedD(2) [OF assms(1)] assms(2) event_same_key by metis

lemma attested_same_key: "dstr E k = dstr E i \<Longrightarrow> attested E V k sn g = attested E V i sn g"
  by (simp add: attested_def)

lemma attested_mono: "attested E V i sn g \<Longrightarrow> (\<And>i sn ev. V i sn ev \<Longrightarrow> W i sn ev) \<Longrightarrow> attested E W i sn g"
  unfolding attested_def by blast

lemma set_witness_inv:
  assumes "codec_ok (c_witness E)" "set_witness_signatures E i sn gs m = (x, m')" "witnessed E V m"
    and "\<forall>g \<in> set gs \<union> set (witnesses_before E i m). attested E V i sn g"
  shows "witnessed E V m'"
  unfolding witnessed_def
proof (intro conjI allI impI ballI)
  note w = set_witness_writes [OF assms(2)]
  show "bt_inv m'" using w(2) witnessedD(1) [OF assms(3)] by simp
  show "V k n ev" if "get_event E k n m' = Ok ev" for k n ev
    using that witness_event [OF w(1)] witnessedD(2) [OF assms(3)] by simp
  fix k n hs g assume k: "get_witness_signatures E k m' = Ok (n, hs)" and g: "g \<in> set hs"
  show "attested E V k n g"
  proof (cases "is_Ok x \<and> dstr E k = dstr E i")
    case True
    then have "n = sn" "hs = union_list gs (witnesses_before E i m)"
      using k set_witness_get [OF assms(1,2), of k] by auto
    then show ?thesis
      using g assms(4) True by (auto simp: union_list_def attested_same_key [of E k i])
  next
    case False
    then have "get_witness_signatures E k m = Ok (n, hs)"
      using k set_witness_get [OF assms(1,2), of k] by auto
    then show ?thesis using witnessedD(3) [OF assms(3)] g by blast
  qed
qed

lemma del_witness_inv:
  assumes "witnessed E V m"
  shows "witnessed E V (snd (del_witness_signatures E i m))" (is "witnessed E V ?m")
  unfolding witnessed_def del_witness_event
proof (intro conjI allI impI ballI)
  have inv: "bt_inv m" by (rule witnessedD(1) [OF assms])
  then show "bt_inv ?m" by (simp add: del_witness_run)
  show "V k n ev" if "get_event E k n m = Ok ev" for k n ev by (rule witnessedD(2) [OF assms that])
  fix k n hs g assume "get_witness_signatures E k ?m = Ok (n, hs)" and g: "g \<in> set hs"
  then have "get_witness_signatures E k m = Ok (n, hs)"
    using del_witness_get [OF inv, of E k i] by (simp split: if_splits)
  then show "attested E V k n g" using witnessedD(3) [OF assms] g by blast
qed

section \<open>The operations keep it\<close>

lemma keeps_distribution_channels [inv_intros]:
  "keeps (on_db P) (cancel_signature_request E i)"
  "keeps (on_db P) (send_signature_request E D i sn T R)"
  "keeps (on_db P) (answer_to msg k)"
  "keeps (on_db P) (dask q)" "keeps (on_db P) (dread r)"
  by (simp_all add: keeps_def on_db_def cancel_signature_request_def send_signature_request_def answer_to_def
      dask_def dread_def db_read_def)

lemma keeps_get_targets [inv_intros]: "keeps (on_db P) (get_targets E md x)"
  unfolding get_targets_def by (intro keeps_bindA keeps_distribution_channels keeps_simple)

lemma keeps_restart [inv_intros]: "keeps (on_db P) (restart_distribution E D x gs W)"
  unfolding restart_distribution_def Let_def
  by (intro keeps_if keeps_distribution_channels keeps_simple)

lemma keeps_del_witness [inv_intros]: "keeps (on_db (witnessed E V)) (ddb (del_witness_signatures E i))"
  unfolding ddb_def by (intro keeps_dbA keepsI del_witness_inv)

lemma keeps_updates: "keeps (on_db (witnessed E V)) (witnesses_updated E D i)"
  unfolding witnesses_updated_def recheck_witness_def Let_def
  by (intro keeps_bindA keeps_distribution_channels keeps_forA keeps_get_targets keeps_if keeps_del_witness
      keeps_prod keeps_simple)

lemma keeps_init: "keeps (on_db (witnessed E V)) (distribution_init E D)"
proof -
  have "keeps (on_db (witnessed E V)) (init_version E x i vs)" for x i vs
    unfolding init_version_def
    by (auto intro!: keeps_if keeps_option keeps_db_case split: sum.split failure.split db_error.split)
  moreover have "keeps (on_db (witnessed E V)) (init_witness E D i x gs k v fs)" for i x gs k v fs
    unfolding init_witness_def Let_def
    by (intro keeps_bindA keeps_get_targets keeps_if keeps_del_witness keeps_restart keeps_simple)
  ultimately have subject: "keeps (on_db (witnessed E V)) (init_subject E D i sn gs st)" for i sn gs st
    unfolding init_subject_def Let_def
    by (auto intro!: keeps_db_case keeps_if keeps_bindA keeps_option keeps_del_witness keeps_restart
        split: sum.split failure.split db_error.split option.split prod.split bool.split)
  have "keeps (on_db (witnessed E V)) (init_subjects E D xs st)" for xs st
  proof (induction xs arbitrary: st)
    case (Cons x xs)
    then show ?case by (cases x) (simp only: init_subjects.simps, intro keeps_bindA subject)
  qed simp
  then show ?thesis
    unfolding distribution_init_def by (intro keeps_bindA keeps_distribution_channels)
qed

lemma check_signatures_valid:
  "check_signatures E ev T gs = Ok (Inr u) \<Longrightarrow> g \<in> set gs \<Longrightarrow> valid_signature E ev g \<and> sg_signer g \<in> T"
  by (induction E ev T gs rule: check_signatures.induct)
    (auto simp: valid_signature_def split: if_splits sum.splits failure.splits)

lemma ddb_run: "ddb m s = (map_err DDatabaseError (fst (m (nd_db s))), s\<lparr>nd_db := snd (m (nd_db s))\<rparr>)"
  by (simp add: ddb_def dbA_def zoomA_def split: prod.split)

text \<open>Adding signatures to those that are stored.\<close>

lemma keeps_set_witness:
  assumes ok: "codec_ok (c_witness E)" and s: "witnessed E V (nd_db s)"
    and "\<forall>g \<in> set gs. attested E V i sn g" "\<forall>g \<in> set (witnesses_before E i (nd_db s)). attested E V i sn g"
  shows "on_db (witnessed E V) (snd (ddb (set_witness_signatures E i sn gs) s))"
  using set_witness_inv [OF ok prod.collapse [symmetric] s, of gs] assms(3,4)
  by (auto simp: ddb_run on_db_def)

lemma keeps_bindA_at:
  assumes "P (snd (m s))" "\<And>x. keeps P (k x)"
  shows "P (snd (bindA m k s))"
  using assms by (auto simp: keeps_def bindA_run split: prod.split sum.split)

text \<open>A step that only reads, and then one that starts from the same database.\<close>

lemma reads_then:
  fixes s :: "('b, 'z) node_scheme"
  assumes "keeps (on_db (\<lambda>m. m = nd_db s)) m" "on_db P s" "nd_db u = nd_db s"
    and "\<And>x t. nd_db t = nd_db s \<Longrightarrow> on_db P (snd (k x t))"
  shows "on_db P (snd (bindA m k u))"
proof -
  have "nd_db (snd (m u)) = nd_db s" using keepsD [OF assms(1), of u] assms(3) by (simp add: on_db_def)
  then show ?thesis
    using assms(2,4) by (auto simp: bindA_run on_db_def split: prod.split sum.split)
qed

lemma keeps_ask: "keeps (on_db P) (ask_witnesses E D i sn)"
  unfolding ask_witnesses_def Let_def
  by (intro keeps_bindA keeps_distribution_channels keeps_get_targets keeps_if keeps_simple)

lemma del_witness_step:
  "bindA (dbA f (del_witness_signatures E i)) k s = k () (s\<lparr>nd_db := snd (del_witness_signatures E i (nd_db s))\<rparr>)"
  by (simp add: bindA_run dbA_def zoomA_def del_witness_run)

lemma start_distribution_run:
  assumes "get_event E i sn (nd_db s) = Ok ev"
    and "sm_sign E (di_signature_manager D) now (PSignedEvent ev) (di_sign_derivator D) = Ok g"
  shows "start_distribution E D now i sn s =
    bindA (ddb (set_witness_signatures E i sn [g])) (\<lambda>_. ask_witnesses E D i sn)
      (s\<lparr>nd_db := snd (del_witness_signatures E i (nd_db s))\<rparr>)"
  using assms by (simp add: start_distribution_def db_case_def del_witness_step)

lemma keeps_start:
  fixes E :: "'b env"
  assumes ok: "codec_ok (c_witness E)" and keys: "key_pair_ok E (sm_keys (di_signature_manager D))"
  shows "keeps (on_db (witnessed E V) :: ('b, 'z) node_scheme \<Rightarrow> bool) (start_distribution E D now i sn)"
proof (rule keepsI)
  fix s :: "('b, 'z) node_scheme" assume inv: "on_db (witnessed E V) s"
  show "on_db (witnessed E V) (snd (start_distribution E D now i sn s))"
  proof (cases "get_event E i sn (nd_db s)")
    case (Inl e)
    then show ?thesis
      using inv by (auto simp: start_distribution_def db_case_def split: failure.split db_error.split)
  next
    case ev: (Inr ev)
    let ?sign = "map_err (\<lambda>_. SignGenerarionFailed)
      (sm_sign E (di_signature_manager D) now (PSignedEvent ev) (di_sign_derivator D))"
    show ?thesis
    proof (cases ?sign)
      case (Inl e)
      then show ?thesis using inv ev by (simp add: start_distribution_def db_case_def)
    next
      case (Inr g)
      then have g: "valid_signature E ev g"
        using signature_new_verifies [OF keys]
        by (auto simp: valid_signature_def sm_sign_def)
      let ?d = "snd (del_witness_signatures E i (nd_db s))"
      have d: "witnessed E V ?d" "get_event E i sn ?d = Ok ev"
        using del_witness_inv inv ev by (auto simp: on_db_def del_witness_event)
      have "get_witness_signatures E i ?d = Fail EntryNotFound"
        using inv by (auto simp: on_db_def witnessed_def del_witness_get)
      then have empty: "witnesses_before E i ?d = []" by (simp add: witnesses_before_def)
      have "on_db (witnessed E V) (snd (ddb (set_witness_signatures E i sn [g]) (s\<lparr>nd_db := ?d\<rparr>)))"
        using keeps_set_witness [OF ok, of V "s\<lparr>nd_db := ?d\<rparr>" "[g]" i sn] attested_stored [OF d g] d(1) empty by simp
      then have "on_db (witnessed E V) (snd (bindA (ddb (set_witness_signatures E i sn [g]))
          (\<lambda>_. ask_witnesses E D i sn) (s\<lparr>nd_db := ?d\<rparr>)))"
        by (rule keeps_bindA_at) (rule keeps_ask)
      moreover have "start_distribution E D now i sn s = bindA (ddb (set_witness_signatures E i sn [g]))
          (\<lambda>_. ask_witnesses E D i sn) (s\<lparr>nd_db := ?d\<rparr>)"
        using start_distribution_run [OF ev, of D now g] Inr by simp
      ultimately show ?thesis by simp
    qed
  qed
qed

lemma keeps_received:
  fixes E :: "'b env"
  assumes ok: "codec_ok (c_witness E)"
  shows "keeps (on_db (witnessed E V) :: ('b, 'z) node_scheme \<Rightarrow> bool) (signatures_received E D msg)"
proof (rule keepsI)
  fix s :: "('b, 'z) node_scheme" assume inv: "on_db (witnessed E V) s"
  let ?i = "sr_subject_id msg" and ?sn = "sr_sn msg"
  show "on_db (witnessed E V) (snd (signatures_received E D msg s))"
  proof (cases "\<exists>gs ev. get_witness_signatures E ?i (nd_db s) = Ok (?sn, gs) \<and> get_event E ?i ?sn (nd_db s) = Ok ev")
    case False
    then show ?thesis
      using inv
      by (auto simp: signatures_received_def db_case_def split: sum.split failure.split db_error.split)
  next
    case True
    then obtain gs ev where gs: "get_witness_signatures E ?i (nd_db s) = Ok (?sn, gs)"
        and ev: "get_event E ?i ?sn (nd_db s) = Ok ev" by blast
    have old: "\<forall>g \<in> set gs. attested E V ?i ?sn g" "witnesses_before E ?i (nd_db s) = gs"
      using witnessedD(3) [OF _ gs] inv by (auto simp: on_db_def gs witnesses_before_def)
    have add: "on_db (witnessed E V) (snd (add_signatures E D msg gs x T u))"
      if u: "nd_db u = nd_db s" and valid: "check_signatures E ev T (sr_signatures msg) = Ok (Inr ())" for x T u
    proof -
      have "on_db (witnessed E V) (snd (ddb (set_witness_signatures E ?i ?sn (union_list gs (sr_signatures msg))) u))"
        by (rule keeps_set_witness [OF ok])
          (use u inv old attested_stored [OF _ ev] check_signatures_valid [OF valid] in
            \<open>auto simp: on_db_def union_list_def\<close>)
      then show ?thesis
        unfolding add_signatures_def Let_def
        by (rule keeps_bindA_at)
          (intro keeps_bindA keeps_if keeps_distribution_channels keeps_simple)
    qed
    have "on_db (witnessed E V) (snd (bindA (dread (get_subject E ?i)) (\<lambda>subject.
      bindA (dask (get_governance_version E (su_subject_id subject) (su_governance_id subject))) (\<lambda>v.
      bindA (get_targets E (build_metadata subject v) subject) (\<lambda>targets.
      bindA (liftA (check_signatures E ev targets (sr_signatures msg))) (\<lambda>c.
      case c of Inl e \<Rightarrow> retA (Inl e) | Inr _ \<Rightarrow> add_signatures E D msg gs subject targets)))) s))"
      by (rule reads_then [OF keeps_distribution_channels(5) inv refl],
          rule reads_then [OF keeps_distribution_channels(4) inv], assumption,
          rule reads_then [OF keeps_get_targets inv], assumption)
        (use inv add in \<open>auto simp: on_db_def bindA_run split: sum.split\<close>)
    then show ?thesis using gs ev by (simp add: signatures_received_def db_case_def)
  qed
qed

lemma keeps_provide: "keeps (on_db P) (provide_signatures E D msg)"
  unfolding provide_signatures_def
  by (auto intro!: keeps_bindA keeps_db_case keeps_if keeps_distribution_channels
      split: sum.split failure.split db_error.split prod.split)

section \<open>Runs\<close>

lemma turn_inv:
  fixes E :: "'b env" and s t :: "('b, 'z) node_scheme"
  assumes ok: "codec_ok (c_witness E)" "key_pair_ok E (sm_keys (di_signature_manager D))"
    and run: "distribution_turn E D now i s = (r, t)" and inv: "witnessed E V (nd_db s)"
  shows "witnessed E V (nd_db t)"
proof -
  have "keeps (on_db (witnessed E V) :: ('b, 'z) node_scheme \<Rightarrow> bool) (distribution_command E D now c msg)" for c msg
    unfolding distribution_command_def
    by (rule keeps_bindA)
      (auto intro: keeps_provide keeps_received keeps_start ok
        split: distribution_message.split option.split bool.split)
  then have "keeps (on_db (witnessed E V) :: ('b, 'z) node_scheme \<Rightarrow> bool) (distribution_turn E D now i)"
    unfolding distribution_turn_def
    by (auto intro!: keeps_bindA keeps_updates split: distribution_input.split option.split)
  then show ?thesis using keepsD [of _ _ s] run inv by (fastforce simp: on_db_def)
qed

text \<open>
  What the other tasks may do between two turns: anything to the stored events. The witness
  signatures are the distribution's own table.
\<close>

definition distribution_others :: "'b env \<Rightarrow> ('b, 'z) node_scheme \<Rightarrow> ('b, 'z) node_scheme \<Rightarrow> bool" where
  "distribution_others E s t \<longleftrightarrow> bt_inv (nd_db t) \<and>
     (\<forall>i. get_witness_signatures E i (nd_db t) = get_witness_signatures E i (nd_db s))"

inductive distribution_step ::
  "'b env \<Rightarrow> distributor \<Rightarrow> ('b, 'z) node_scheme \<Rightarrow> ('b, 'z) node_scheme \<Rightarrow> bool" for E D where
  Start: "distribution_start E D s = (r, t) \<Longrightarrow> distribution_step E D s t"
| Turn: "distribution_turn E D now i s = (r, t) \<Longrightarrow> distribution_step E D s t"
| Others: "distribution_others E s t \<Longrightarrow> distribution_step E D s t"

lemma distribution_step_inv:
  assumes "codec_ok (c_witness E)" "key_pair_ok E (sm_keys (di_signature_manager D))"
    and "distribution_step E D s t" "witnessed E V (nd_db s)"
    and "\<And>i sn ev. V i sn ev \<Longrightarrow> W i sn ev" "\<And>i sn ev. get_event E i sn (nd_db t) = Ok ev \<Longrightarrow> W i sn ev"
  shows "witnessed E W (nd_db t)"
proof -
  have "bt_inv (nd_db t) \<and> (\<forall>i sn gs. get_witness_signatures E i (nd_db t) = Ok (sn, gs) \<longrightarrow>
      (\<forall>g \<in> set gs. attested E V i sn g))"
    using assms(3)
  proof (cases rule: distribution_step.cases)
    case (Start r)
    then have "t = snd (distribution_init E D s)"
      by (auto simp: distribution_start_def split: prod.splits sum.splits failure.splits)
    then have "witnessed E V (nd_db t)" using keepsD [OF keeps_init] assms(4) by (auto simp: on_db_def)
    then show ?thesis unfolding witnessed_def by blast
  next
    case (Turn now i r)
    then have "witnessed E V (nd_db t)" using turn_inv [OF assms(1,2)] assms(4) by blast
    then show ?thesis unfolding witnessed_def by blast
  next
    case Others
    then show ?thesis using assms(4) unfolding distribution_others_def witnessed_def by simp
  qed
  moreover have "attested E W i sn g" if "attested E V i sn g" for i sn g
    using that assms(5) by (rule attested_mono)
  ultimately show ?thesis unfolding witnessed_def using assms(6) by blast
qed

text \<open>
  A run, as the states the node goes through, and the events it has stored on the way. At the
  start every witness signature is one of the event that is stored.
\<close>

definition distribution_run :: "'b env \<Rightarrow> distributor \<Rightarrow> (nat \<Rightarrow> ('b, 'z) node_scheme) \<Rightarrow> nat \<Rightarrow> bool" where
  "distribution_run E D \<sigma> n \<longleftrightarrow> (\<forall>k<n. distribution_step E D (\<sigma> k) (\<sigma> (Suc k)))"

definition stored_by ::
  "'b env \<Rightarrow> (nat \<Rightarrow> ('b, 'z) node_scheme) \<Rightarrow> nat \<Rightarrow> digest_identifier \<Rightarrow> u64 \<Rightarrow> event signed \<Rightarrow> bool" where
  "stored_by E \<sigma> n i sn ev \<longleftrightarrow> (\<exists>k\<le>n. get_event E i sn (nd_db (\<sigma> k)) = Ok ev)"

definition witnessed_start :: "'b env \<Rightarrow> 'b data_store \<Rightarrow> bool" where
  "witnessed_start E m \<longleftrightarrow> bt_inv m \<and> (\<forall>i sn gs. get_witness_signatures E i m = Ok (sn, gs) \<longrightarrow>
     (\<exists>ev. get_event E i sn m = Ok ev \<and> (\<forall>g \<in> set gs. valid_signature E ev g)))"

lemma distribution_run_inv:
  assumes "codec_ok (c_witness E)" "key_pair_ok E (sm_keys (di_signature_manager D))"
    and "witnessed_start E (nd_db (\<sigma> 0))" "distribution_run E D \<sigma> n"
  shows "witnessed E (stored_by E \<sigma> n) (nd_db (\<sigma> n))"
  using assms(4)
proof (induction n)
  case 0
  have "attested E (stored_by E \<sigma> 0) i sn g"
    if "get_event E i sn (nd_db (\<sigma> 0)) = Ok ev" "valid_signature E ev g" for i sn ev g
    unfolding attested_def stored_by_def
  proof (intro allI impI)
    fix k assume "dstr E k = dstr E i"
    then have "get_event E k sn (nd_db (\<sigma> 0)) = Ok ev" using that(1) event_same_key by metis
    then show "\<exists>ev. (\<exists>j\<le>0. get_event E k sn (nd_db (\<sigma> j)) = Ok ev) \<and> valid_signature E ev g"
      using that(2) by blast
  qed
  moreover have "stored_by E \<sigma> 0 i sn ev" if "get_event E i sn (nd_db (\<sigma> 0)) = Ok ev" for i sn ev
    using that by (auto simp: stored_by_def)
  ultimately show ?case
    using assms(3) unfolding witnessed_def witnessed_start_def by metis
next
  case (Suc n)
  then have inv: "witnessed E (stored_by E \<sigma> n) (nd_db (\<sigma> n))" "distribution_step E D (\<sigma> n) (\<sigma> (Suc n))"
    by (simp_all add: distribution_run_def)
  show ?case
    by (rule distribution_step_inv [OF assms(1,2) inv(2,1)]) (auto simp: stored_by_def le_Suc_eq)
qed

lemma witness_signature_origin:
  assumes "codec_ok (c_witness E)" "key_pair_ok E (sm_keys (di_signature_manager D))"
    and "witnessed_start E (nd_db (\<sigma> 0))" "distribution_run E D \<sigma> n"
    and "get_witness_signatures E i (nd_db (\<sigma> n)) = Ok (sn, gs)" "g \<in> set gs"
  obtains k ev where "k \<le> n" "get_event E i sn (nd_db (\<sigma> k)) = Ok ev"
    "signature_verify E g (PSignedEvent ev) = Ok ()"
  using witnessedD(3) [OF distribution_run_inv [OF assms(1-4)] assms(5,6)] that
  unfolding attested_def stored_by_def valid_signature_def by blast

section \<open>A witness again\<close>

text \<open>A subject the node is a witness of, with no signatures yet: the check of the new version fails.\<close>

lemma recheck_unsigned:
  assumes "get_subject E i (nd_db s) = Ok x"
    and "get_targets E (build_metadata x v) x s = (Ok T, u)" "own_id D \<in> T"
    and "get_witness_signatures E i (nd_db s) = Fail EntryNotFound"
  shows "recheck_witness E D v i s = (Fail (DDatabaseError EntryNotFound), u)"
proof -
  have "nd_db u = nd_db s"
    using keepsD [OF keeps_get_targets, of "\<lambda>m. m = nd_db s" s E "build_metadata x v" x] assms(2)
    by (simp add: on_db_def)
  then show ?thesis
    using assms by (simp add: recheck_witness_def bindA_run dread_def db_read_def)
qed

end
