(* ===== verification/Ledger_Manager.thy ===== *)
theory Ledger_Manager
  imports Ledger_External Db_Laws
begin

text \<open>
  The task of the ledger (\<^verbatim>\<open>ledger/manager.rs\<close>): start-up, the commands and their answers.
\<close>

section \<open>Commands\<close>

datatype ledger_response =
    LGetEvent "ledger_error + event signed"
  | LGetNextGov "ledger_error + event signed \<times> signature list"
  | LGetLCE "ledger_error + event signed \<times> signature list"
  | LGenerateKey "ledger_error + key_identifier"
  | LNoResponse

fun ledger_channel_closed :: "ledger_error \<Rightarrow> bool" where
  "ledger_channel_closed LChannelClosed = True"
| "ledger_channel_closed (LGovernanceError e) = (e = RChannelClosed)"
| "ledger_channel_closed _ = False"

text \<open>A command that changes the ledger: a closed channel ends the task, another error is only
  part of the answer, if there is one.\<close>

definition ledger_attempt ::
  "('b, 'a) lact \<Rightarrow> (ledger_error + 'a \<Rightarrow> ledger_response) \<Rightarrow> ('b, ledger_response option) lact" where
  "ledger_attempt m f = (\<lambda>s.
     case m s of
       (Inl (Panic e), t) \<Rightarrow> (Abort e, t)
     | (Inl (Err e), t) \<Rightarrow>
         (if ledger_channel_closed e then Fail LChannelClosed else Ok (Some (f (Inl e))), t)
     | (Inr x, t) \<Rightarrow> (Ok (Some (f (Inr x))), t))"

text \<open>A question: what is not found is not answered at all.\<close>

definition ledger_query ::
  "('b, 'a) lact \<Rightarrow> (ledger_error + 'a \<Rightarrow> ledger_response) \<Rightarrow> ('b, ledger_response option) lact" where
  "ledger_query m f = (\<lambda>s.
     case m s of
       (Inl (Panic e), t) \<Rightarrow> (Abort e, t)
     | (Inl (Err e), t) \<Rightarrow>
         (if e = LChannelClosed then Fail LChannelClosed
          else if e = LDatabaseError EntryNotFound then Ok None
          else Ok (Some (f (Inl e))), t)
     | (Inr x, t) \<Rightarrow> (Ok (Some (f (Inr x))), t))"

text \<open>\<open>keys\<close> is the key pair the random generator yields for a derivator.\<close>

definition ledger_command_result ::
  "'b env \<Rightarrow> ledger_config \<Rightarrow> (key_derivator \<Rightarrow> key_pair) \<Rightarrow> ledger_command \<Rightarrow>
     ('b, ledger_response option) lact" where
  "ledger_command_result E C keys c =
     (case c of
        GenerateKey d \<Rightarrow> ledger_attempt (generate_key E (keys d)) LGenerateKey
      | OwnEvent ev signatures validation_proof \<Rightarrow>
          ledger_attempt (event_validated E C ev signatures validation_proof) (\<lambda>_. LNoResponse)
      | Genesis ev signatures validation_proof \<Rightarrow>
          ledger_attempt (genesis E C ev signatures validation_proof) (\<lambda>_. LNoResponse)
      | ExternalEvent sender ev signatures validation_proof \<Rightarrow>
          ledger_attempt (external_event E C ev signatures sender validation_proof) (\<lambda>_. LNoResponse)
      | ExternalIntermediateEvent ev \<Rightarrow>
          ledger_attempt (external_intermediate_event E C ev) (\<lambda>_. LNoResponse)
      | GetEvent who_asked subject_id sn \<Rightarrow>
          ledger_query (ledger_get_event E who_asked subject_id sn) LGetEvent
      | GetLCE who_asked subject_id \<Rightarrow> ledger_query (get_lce E C who_asked subject_id) LGetLCE
      | GetNextGov who_asked subject_id sn \<Rightarrow>
          ledger_query (get_next_gov E C who_asked subject_id sn) LGetNextGov)"

definition ledger_process_command ::
  "'b env \<Rightarrow> ledger_config \<Rightarrow> (key_derivator \<Rightarrow> key_pair) \<Rightarrow> bool option \<Rightarrow> ledger_command \<Rightarrow>
     ('b, ledger_response option) lact" where
  "ledger_process_command E C keys sender c =
     bindA (ledger_command_result E C keys c) (\<lambda>response.
     case response of
       None \<Rightarrow> retA None
     | Some r \<Rightarrow>
         (case sender of
            None \<Rightarrow> retA None
          | Some True \<Rightarrow> retA (Some r)
          | Some False \<Rightarrow> liftA (Abort ''Sender Dropped'')))"

section \<open>The task\<close>

datatype ledger_input =
    LInputCommand "(bool option \<times> ledger_command) option"
  | LInputShutdown

definition ledger_turn ::
  "'b env \<Rightarrow> ledger_config \<Rightarrow> (key_derivator \<Rightarrow> key_pair) \<Rightarrow> ledger_input \<Rightarrow> ('b, bool) lact" where
  "ledger_turn E C keys i =
     (case i of
        LInputCommand (Some (sender, c)) \<Rightarrow>
          bindA (ledger_process_command E C keys sender c) (\<lambda>_. retA True)
      | LInputCommand None \<Rightarrow> retA False
      | LInputShutdown \<Rightarrow> retA False)"

text \<open>\<^verbatim>\<open>EventManagerAPI::generate_keys\<close>: the answer of the task, if it gave one.\<close>

definition generate_keys :: "ledger_response option \<Rightarrow> (key_identifier, ledger_error) res" where
  "generate_keys response =
     (case response of
        None \<Rightarrow> Fail LChannelClosed
      | Some (LGenerateKey (Inr k)) \<Rightarrow> Ok k
      | Some (LGenerateKey (Inl e)) \<Rightarrow> Fail e
      | Some _ \<Rightarrow> Fail LUnexpectedResponse)"

section \<open>Its own keys\<close>

text \<open>A key that is answered is stored.\<close>

lemma generated_key_stored:
  assumes "ledger_process_command E C keys (Some True) (GenerateKey d) s = (Ok r, t)"
    and "generate_keys r = Ok k" and "codec_ok (c_keys E)"
  shows "get_keys E k (nd_db t) = Ok (keys d) \<and> k = new_key (get_key_derivator (keys d)) (public_key_bytes (keys d))"
proof -
  from assms(1,2) obtain d' where
    k: "k = new_key (get_key_derivator (keys d)) (public_key_bytes (keys d))"
    and put: "set_keys E k (keys d) (nd_db s) = (Ok (), d')" and t: "nd_db t = d'"
    by (auto simp: ledger_process_command_def ledger_command_result_def ledger_attempt_def generate_keys_def
        generate_key_def Let_def ldb_def dbA_def zoomA_def bindA_run
        split: prod.splits sum.splits failure.splits if_splits option.splits ledger_response.splits)
  show ?thesis
    using key_pairs.get_put [OF assms(3) _ put] k t by simp
qed

section \<open>The ledger as the event completer sees it\<close>

text \<open>What one command does to the shared database, and whether the task survives it, from the
  maps of a ledger.\<close>

definition ledger_answers ::
  "'b env \<Rightarrow> ledger_config \<Rightarrow> (key_derivator \<Rightarrow> key_pair) \<Rightarrow> 'b ledger \<Rightarrow> ledger_command \<Rightarrow>
     'b data_store \<Rightarrow> bool \<times> 'b data_store" where
  "ledger_answers E C keys lg c d =
     (case ledger_process_command E C keys (Some True) c (lg\<lparr>nd_db := d\<rparr>) of
        (r, t) \<Rightarrow> (is_Ok r, nd_db t))"

end
