(* ===== verification/Distribution_Ledger.thy ===== *)
theory Distribution_Ledger
  imports Distribution_Laws Ledger_Manager Ledger_External_Laws
begin

text \<open>
  The ledger as one of the other tasks of the distribution: no turn of it, whatever command it
  handles and however it ends, writes a witness signature or spoils the order of the store. The events
  are another matter: it deletes the head it held when a newer one arrives.
\<close>

section \<open>The tables of the ledger\<close>

definition witness_frame :: "'b env \<Rightarrow> 'b data_store \<Rightarrow> 'b data_store \<Rightarrow> bool" where
  "witness_frame E a m \<longleftrightarrow> bt_inv m \<and> (\<forall>i. get_witness_signatures E i m = get_witness_signatures E i a)"

lemma keeps_frame:
  assumes "\<And>m. writes p m (snd (x m))" "p \<noteq> ''witness-signatures''" "sep_free p" "keeps bt_inv x"
  shows "keeps (witness_frame E a) x"
proof (rule keepsI)
  fix m assume "witness_frame E a m"
  then show "witness_frame E a (snd (x m))"
    using witness_foreign [OF assms(1-3), of E _ m] keepsD [OF assms(4), of m] by (simp add: witness_frame_def)
qed

lemma keeps_ordered_store:
  "keeps bt_inv (coll_put k d)" "keeps bt_inv (coll_del k)" "keeps bt_inv (kv_put c k x)"
proof -
  show put: "keeps bt_inv (coll_put k d)" for d and k by (simp add: keeps_def mem.inv_put)
  show "keeps bt_inv (coll_del k)" by (simp add: keeps_def mem.inv_del)
  show "keeps bt_inv (kv_put c k x)" unfolding kv_put_def by (intro keeps_bindA keeps_simple put)
qed

lemma keeps_ordered_rest:
  "keeps bt_inv (del_event E i sn)" "keeps bt_inv (set_subject E i x)"
  "keeps bt_inv (set_governance_index E i g)" "keeps bt_inv (set_keys E k kp)" "keeps bt_inv (del_keys E k)"
  "keeps bt_inv (del_lce_validation_proof E i)"
  using mem.inv_put mem.inv_del subjects.inv_put key_pairs.inv_put
  by (auto simp: keeps_def del_event_def set_governance_index_def del_keys_def del_lce_validation_proof_def
      get_key_eval bindA_def kv_put_def split: sum.splits prod.splits option.splits)

lemma writes_ledger_layers:
  "writes ''event'' m (snd (del_event E i sn m))"
  "writes ''lce-validation-proofs'' m (snd (set_lce_validation_proof E i p m))"
  by (auto simp: del_event_def get_key_eval intro!: writes_del_at lce_proofs.writes_table)

lemma keeps_frame_layers:
  "keeps (witness_frame E a) (set_signatures E' i sn gs p)" "keeps (witness_frame E a) (del_signatures E' i sn)"
  "keeps (witness_frame E a) (set_event E' i ev)" "keeps (witness_frame E a) (del_event E' i sn)"
  "keeps (witness_frame E a) (set_governance_index E' i g)" "keeps (witness_frame E a) (set_subject E' i x)"
  "keeps (witness_frame E a) (set_keys E' k kp)" "keeps (witness_frame E a) (del_keys E' k)"
  "keeps (witness_frame E a) (set_taple_request E' i r)"
  "keeps (witness_frame E a) (set_lce_validation_proof E' i p)"
  "keeps (witness_frame E a) (del_lce_validation_proof E' i)"
  by (rule keeps_frame, rule layer_writes writes_ledger_layers, simp_all add: keeps_ordered_layers keeps_ordered_rest)+

lemma keeps_frame_approval: "keeps (witness_frame E a) (set_approval E' h x)"
proof (rule keepsI)
  fix m assume inv: "witness_frame E a m"
  obtain m1 where m1: "writes ''pending-approval-index'' m m1" "writes ''approvals'' m1 (snd (set_approval E' h x m))"
    using set_approval_writes by blast
  have "keeps bt_inv (set_approval E' h x)"
    unfolding set_approval_def
    by (intro keeps_bindA keeps_if keeps_ordered_store keeps_simple)
  from keepsD [OF this] have "bt_inv (snd (set_approval E' h x m))" using inv by (simp add: witness_frame_def)
  then show "witness_frame E a (snd (set_approval E' h x m))"
    using inv witness_foreign [OF m1(1)] witness_foreign [OF m1(2)] by (simp add: witness_frame_def)
qed

section \<open>The operations of the ledger\<close>

named_theorems frame \<open>operations of the ledger that leave the witness signatures alone\<close>

declare keeps_frame_layers [frame] keeps_frame_approval [frame] keeps_simple [frame] keeps_bindA [frame]
  keeps_forA [frame] keeps_option [frame] keeps_prod [frame] keeps_sum [frame] keeps_if [frame]
  keeps_db_channels [frame] keeps_db_read [frame] keeps_db_case [frame] keeps_ldb [frame]
  keeps_lread [frame] keeps_own_state [frame] keeps_advance [frame]

lemma keeps_frame_finished [frame]:
  "keeps (on_db (witness_frame E a)) (set_finished_request E' r er sn i b)"
  unfolding set_finished_request_def by (intro frame)

lemma keeps_frame_after [frame]: "keeps (on_db (witness_frame E a)) (after_event E' g i sn)"
  unfolding after_event_def Let_def by (intro frame) (auto split: bool.split intro!: frame)

lemma keeps_frame_validated [frame]:
  "keeps (on_db (witness_frame E a)) (event_validated E' C ev gs p)"
proof -
  have "keeps (on_db (witness_frame E a)) (validated_fact E' r ev gs p i)" for r i
    unfolding validated_fact_def Let_def by (intro frame)
  moreover have "keeps (on_db (witness_frame E a)) (validated_transfer E' C r ev gs p tr)" for r tr
    unfolding validated_transfer_def Let_def by (intro frame)
  moreover have "keeps (on_db (witness_frame E a)) (validated_eol E' r ev gs p i)" for r i
    unfolding validated_eol_def Let_def by (intro frame)
  ultimately have "keeps (on_db (witness_frame E a)) (validated_request E' C r ev gs p)" for r
    unfolding validated_request_def by (auto split: event_request.split intro!: frame)
  then show ?thesis unfolding event_validated_def Let_def by (intro frame)
qed

lemma keeps_frame_genesis [frame]:
  "keeps (on_db (witness_frame E a)) (genesis E' C ev gs p)"
  "keeps (on_db (witness_frame E a)) (generate_key E' keys)"
  unfolding genesis_def generate_key_def genesis_version_def Let_def
  by (auto split: event_request.split intro!: frame)

lemma keeps_frame_checks [frame]:
  fixes P :: "'b ledger \<Rightarrow> bool"
  shows "keeps (on_db Q) (get_witnesses E md)" "keeps (on_db Q) (get_signers_and_quorum E md st)"
    "keeps (on_db Q) (check_event E ev md ctx)" "keeps P (check_prev_hash E i sn h)"
    "keeps P (check_new_request E r)" "keeps P (check_proof E p x h k)" "keeps P (is_gov_of i)"
    "keeps P (check_preauthorized E i e)" "keeps (on_db Q) (check_witness E C md i)"
    "keeps (on_db Q) (check_validators E md gs p)" "keeps (on_db Q) (ask_sender msg k)"
    "keeps (on_db Q) (refuse_governance E C i j sn k)" "keeps (on_db Q) (known_subject E C i k e)"
    "keeps (on_db Q) (unknown_subject E C md i k)" "keeps (on_db Q) (first_head C i sn k)"
    "keeps (on_db Q) (ask_next E C md i k sn)"
    "keeps (on_db Q) (answer_with k c)"
  unfolding get_witnesses_def get_signers_and_quorum_def check_event_def check_prev_hash_def
    check_new_request_def check_proof_def is_gov_of_def check_preauthorized_def check_witness_def
    check_validators_def ask_sender_def refuse_governance_def known_subject_def unknown_subject_def
    first_head_def ask_next_def answer_with_def
  by (auto intro!: frame split: sum.split failure.split db_error.split)

lemma keeps_frame_issuer [frame]: "keeps (on_db Q) (check_issuer E md x k)"
  unfolding check_issuer_def by (intro frame)

lemma keeps_frame_obsolete [frame]: "keeps (on_db (witness_frame E a)) (obsolete_approval E' h i sn)"
  unfolding obsolete_approval_def by (auto intro!: frame split: sum.split failure.split db_error.split)

lemma keeps_frame_check_genesis [frame]: "keeps (on_db (witness_frame E a)) (check_genesis E' ev i d)"
  unfolding check_genesis_def Let_def by (auto split: event_request.split intro!: frame)

lemma keeps_frame_sourcing [frame]: "keeps (on_db (witness_frame E a)) (event_sourcing E' C ev)"
proof -
  have "keeps (on_db (witness_frame E a)) (event_sourcing_eol E' ev)"
    unfolding event_sourcing_eol_def by (auto split: event_request.split intro!: frame)
  moreover have "keeps (on_db (witness_frame E a)) (event_sourcing_transfer E' C i sn k l)" for i sn k l
    unfolding event_sourcing_transfer_def Let_def by (intro frame)
  moreover have "keeps (on_db (witness_frame E a)) (event_sourcing_rejected_event E' ev)"
    unfolding event_sourcing_rejected_event_def Let_def by (intro frame)
  moreover have "keeps (on_db (witness_frame E a)) (event_sourcing_state E' i sn ev)" for i sn
    unfolding event_sourcing_state_def Let_def by (intro frame)
  ultimately show ?thesis
    unfolding event_sourcing_def Let_def by (auto split: event_request.split)
qed

lemma keeps_frame_head [frame]: "keeps (on_db (witness_frame E a)) (apply_head E' C i h x)"
  unfolding apply_head_def Let_def by (intro frame)

lemma keeps_frame_intermediate [frame]:
  "keeps (on_db (witness_frame E a)) (external_intermediate_event E' C ev)"
proof -
  have "keeps (on_db (witness_frame E a)) (intermediate_next E' C ev r i c h)" for r i c h
    unfolding intermediate_next_def Let_def by (auto split: event_request.split intro!: frame)
  moreover have "keeps (on_db (witness_frame E a)) (intermediate_genesis E' C ev i h)" for i h
    unfolding intermediate_genesis_def Let_def by (intro frame)
  ultimately show ?thesis
    unfolding external_intermediate_event_def by (auto intro!: frame)
qed

lemma keeps_frame_next [frame]:
  "keeps (on_db (witness_frame E a)) (next_applied E' C i sn k l)"
  "keeps (on_db (witness_frame E a)) (new_head E' C i sn l x h W)"
  unfolding next_applied_def new_head_def by (intro frame)+

lemma keeps_frame_transfer:
  "keeps (on_db (witness_frame E a)) (transfer_known E' C r h ev gs k p tr l)"
  "keeps (on_db (witness_frame E a)) (transfer_unknown E' C r ev gs k p tr)"
  unfolding transfer_known_def transfer_unknown_def transfer_next_def transfer_later_def Let_def
  by (intro frame)+

lemma keeps_frame_fact:
  "keeps (on_db (witness_frame E a)) (fact_known E' C r h ev gs k p i l)"
  "keeps (on_db (witness_frame E a)) (fact_unknown E' C r ev gs k p i)"
  unfolding fact_known_def fact_unknown_def fact_next_def fact_later_def Let_def
  by (intro frame)+

lemma keeps_frame_eol:
  "keeps (on_db (witness_frame E a)) (eol_known E' C r h ev gs k p i l)"
  "keeps (on_db (witness_frame E a)) (eol_unknown E' C r ev gs k p i)"
  unfolding eol_known_def eol_unknown_def eol_next_def eol_later_def Let_def
  by (intro frame)+

lemma keeps_frame_create: "keeps (on_db (witness_frame E a)) (external_create E' C ev p cr)"
proof -
  have "keeps (on_db (witness_frame E a)) (genesis_state i)" for i by (rule keeps_own_state)
  then show ?thesis
    unfolding external_create_def Let_def
    by (auto intro!: frame split: sum.split failure.split db_error.split)
qed

lemma keeps_frame_external [frame]:
  "keeps (on_db (witness_frame E a)) (external_event E' C ev gs k p)"
  unfolding external_event_def Let_def
  by (auto intro!: frame keeps_frame_transfer keeps_frame_fact keeps_frame_eol keeps_frame_create
      split: event_request.split)

section \<open>Its turns\<close>

lemma keeps_frame_turn:
  fixes E :: "'b env"
  shows "keeps (on_db (witness_frame E a) :: 'b ledger \<Rightarrow> bool) (ledger_turn E' C keys i)"
proof -
  let ?P = "on_db (witness_frame E a) :: 'b ledger \<Rightarrow> bool"
  have run: "keeps ?P (ledger_attempt m f)" "keeps ?P (ledger_query m f)" if "keeps ?P m" for m :: "('b, 'x) lact" and f
    using that by (auto simp: keeps_def ledger_attempt_def ledger_query_def split: prod.split sum.split failure.split)
  have "keeps ?P (ledger_get_event E' k j sn)" "keeps ?P (get_lce E' C k j)" "keeps ?P (get_next_gov E' C k j sn)"
    for k j sn
    unfolding ledger_get_event_def get_lce_def get_next_gov_def by (intro frame)+
  then have "keeps ?P (ledger_command_result E' C keys c)" for c
    unfolding ledger_command_result_def by (auto split: ledger_command.split intro!: run frame)
  then have "keeps ?P (ledger_process_command E' C keys x c)" for x c
    unfolding ledger_process_command_def
    by (auto intro!: keeps_bindA keeps_option keeps_simple split: bool.split)
  then show ?thesis
    unfolding ledger_turn_def
    by (auto intro!: keeps_bindA keeps_simple split: ledger_input.split option.split)
qed

text \<open>So a turn of the ledger is a step of another task, as the distribution allows for.\<close>

lemma ledger_turn_is_other:
  assumes "ledger_turn E' C keys i s = (r, t)" "bt_inv (nd_db s)"
  shows "distribution_others E s t"
  using keepsD [OF keeps_frame_turn [of E "nd_db s" E' C keys i], of s] assms
  by (simp add: on_db_def witness_frame_def distribution_others_def)

end
