(* ===== verification/Sample_Distribution.thy ===== *)
theory Sample_Distribution
  imports Sample_External Distribution_Ledger
begin

text \<open>
  A witness that has stored the genesis event of a governance, and one that is a witness of a
  subject whose signatures it has dropped.
\<close>

definition sample_distributor :: distributor where
  "sample_distributor = \<lparr>
     di_signature_manager = self_signature_manager_new (sample_keys 1) Blake3_256,
     di_timeout = 10,
     di_replication_factor = 0x3FF0000000000000,
     di_sign_derivator = Blake3_256\<rparr>"

definition dropped_db :: "blob data_store" where
  "dropped_db =
     [(''governance-index'' @ char_MAX @ dstr sample_env (sample_id 2) @ char_MAX @ dstr sample_env (sample_id 5),
        BDigest (sample_id 5)),
      (''subject'' @ char_MAX @ dstr sample_env (sample_id 2), BSubject sample_governance),
      (''subject'' @ char_MAX @ dstr sample_env (sample_id 5), BSubject sample_subject_5)]"

lemma sample_own_id [simp]: "own_id sample_distributor = sample_key 1"
  by (simp add: sample_distributor_def self_signature_manager_new_def sample_keys_def sample_key_def new_key_def)

lemma sample_ids_differ [simp]:
  "digest_to_str sample_b64 (sample_id 2) \<noteq> digest_to_str sample_b64 (sample_id 5)"
  "digest_to_str sample_b64 (sample_id 5) \<noteq> digest_to_str sample_b64 (sample_id 2)"
proof -
  have "sample_id 2 \<noteq> sample_id 5" by (simp add: sample_id_def new_digest_def)
  then have "dstr sample_env (sample_id 2) \<noteq> dstr sample_env (sample_id 5)"
    using id_valid_inject [OF sample_id_valid sample_id_valid] by blast
  then show "digest_to_str sample_b64 (sample_id 2) \<noteq> digest_to_str sample_b64 (sample_id 5)"
    "digest_to_str sample_b64 (sample_id 5) \<noteq> digest_to_str sample_b64 (sample_id 2)" by simp_all
qed

lemma dropped_reads [simp]:
  "get_subject sample_env (sample_id 2) dropped_db = Ok sample_governance"
  "get_subject sample_env (sample_id 5) dropped_db = Ok sample_subject_5"
  "get_witness_signatures sample_env i dropped_db = Fail EntryNotFound"
  by (simp_all add: dropped_db_def get_subject_def witness_keys get_key_eval kv_get_def coll_get_def sample_env_def)

lemma dropped_listed:
  "get_subjects_by_governance sample_env (sample_id 2) dropped_db = Ok [sample_id 5]"
  by (simp add: get_subjects_by_governance_def get_key_eval coll_iter_def dropped_db_def starts_with_def
      sample_env_def)

lemma dropped_targets:
  "get_signers sample_env (build_metadata sample_subject_5 0) Witness dropped_db = Ok {sample_key 1}"
  unfolding get_signers_def signers_version_def sourced_def governance_event_sourcing_def
  by (simp add: build_metadata_def sample_subject_5_def sample_subject_def gov_of_def get_governance_initial_state_def mk_role_def
        get_members_from_governance_def role_applies_def Let_def)

text \<open>The turn in which a witness signs the genesis event of the governance.\<close>

definition sample_witness_signature :: signature where
  "sample_witness_signature = \<lparr>
     sg_signer = sample_key 1,
     sg_timestamp = 9,
     sg_content_hash = new_digest Blake3_256 sample_hash,
     sg_value = new_signature_id Ed25519Sha512 [1]\<rparr>"

lemma candidate_no_witnesses [simp]:
  "get_witness_signatures sample_env i candidate_db = Fail EntryNotFound"
proof -
  have "get_witness_signatures sample_env i candidate_db = get_witness_signatures sample_env i ledger_db"
    unfolding candidate_db_def by (rule witness_foreign [OF writes_after(2)]) simp_all
  also have "\<dots> = get_witness_signatures sample_env i
      (db_after (set_event sample_env (sample_id 5) (sample_event (Create sample_start) 0 True)) sample_db)"
    unfolding ledger_db_def by (rule witness_foreign [OF writes_after(1)]) simp_all
  also have "\<dots> = get_witness_signatures sample_env i sample_db"
    by (rule witness_foreign [OF writes_after(2)]) simp_all
  also have "\<dots> = get_witness_signatures sample_env i []"
    unfolding sample_db_def by (rule witness_foreign [OF subjects.writes_table]) simp_all
  finally show ?thesis by (simp add: witness_keys kv_get_def coll_get_def)
qed

lemma candidate_witnessed: "witnessed_start sample_env candidate_db"
  by (simp add: witnessed_start_def candidate_db_ordered)

lemma distribution_signed:
  "\<exists>t. distribution_step sample_env sample_distributor (candidate_ledger None) t \<and>
     get_witness_signatures sample_env (sample_id 2) (nd_db t) = Ok (0, [sample_witness_signature]) \<and>
     get_event sample_env (sample_id 2) 0 (nd_db t) = Ok (sample_event (Create sample_start) 0 True) \<and>
     bt_inv (nd_db t)"
proof -
  let ?s = "candidate_ledger None" and ?i = "sample_id 2"
  let ?ev = "sample_event (Create sample_start) 0 True"
  let ?d = "snd (del_witness_signatures sample_env ?i candidate_db)"
  let ?m = "set_witness_signatures sample_env ?i 0 [sample_witness_signature]"
  have sign: "sm_sign sample_env (di_signature_manager sample_distributor) 9 (PSignedEvent ?ev)
      (di_sign_derivator sample_distributor) = Ok sample_witness_signature"
    by (simp add: sample_distributor_def sample_sign sample_witness_signature_def)
  have none: "get_witness_signatures sample_env k ?d = Fail EntryNotFound" for k
    using del_witness_get [OF candidate_db_ordered] by simp
  have "\<exists>d'. ?m ?d = (Ok (), d')"
  proof -
    have "coll_get (''witness-signatures'' @ char_MAX @ dstr sample_env ?i) ?d = Fail EntryNotFound"
      using mem.get_del_same [OF candidate_db_ordered]
      by (simp add: del_witness_signatures_def get_key_eval)
    then show ?thesis
      unfolding set_witness_signatures_def get_key_eval bindA_simps
      by (simp add: bindA_run kv_put_def sample_env_def coll_put_def)
  qed
  then obtain d' where put: "?m ?d = (Ok (), d')" by blast
  let ?u = "?s\<lparr>nd_db := d'\<rparr>"
  obtain r t where t: "ask_witnesses sample_env sample_distributor ?i 0 ?u = (r, t)" by fastforce
  have db: "nd_db t = d'"
    using keepsD [OF keeps_ask, of "\<lambda>m. m = d'" ?u sample_env sample_distributor ?i 0] t
    by (simp add: on_db_def)
  have "start_distribution sample_env sample_distributor 9 ?i 0 ?s = (r, t)"
    using t put by (simp add: start_distribution_run [OF _ sign] bindA_run ddb_run)
  then have "\<exists>x. distribution_turn sample_env sample_distributor 9
      (DInputCommand (Some (None, SignaturesNeeded ?i 0))) ?s = (x, t)"
    by (cases r) (simp_all add: distribution_turn_def distribution_command_def bindA_run)
  then have "distribution_step sample_env sample_distributor ?s t"
    by (blast intro: distribution_step.Turn)
  moreover have "get_witness_signatures sample_env ?i (nd_db t) = Ok (0, [sample_witness_signature])"
    using set_witness_get [OF _ put, of ?i] db none by (simp add: witnesses_before_def union_list_def)
  moreover have "get_event sample_env ?i 0 (nd_db t) = Ok ?ev"
    using witness_event [OF set_witness_writes(1) [OF put]] db by (simp add: del_witness_event)
  moreover have "bt_inv (nd_db t)"
    using set_witness_writes(2) [OF put] db candidate_db_ordered by (simp add: del_witness_run mem.inv_del)
  ultimately show ?thesis by blast
qed

text \<open>Then the event is deleted, as the ledger does with an old head: the signature stays.\<close>

lemma distribution_signed_deleted:
  obtains \<sigma> where "distribution_run sample_env sample_distributor \<sigma> 2" "\<sigma> 0 = candidate_ledger None"
    "get_witness_signatures sample_env (sample_id 2) (nd_db (\<sigma> 2)) = Ok (0, [sample_witness_signature])"
    "get_event sample_env (sample_id 2) 0 (nd_db (\<sigma> 2)) = Fail EntryNotFound"
proof -
  let ?i = "sample_id 2"
  obtain t where t: "distribution_step sample_env sample_distributor (candidate_ledger None) t" "bt_inv (nd_db t)"
      "get_witness_signatures sample_env ?i (nd_db t) = Ok (0, [sample_witness_signature])"
    using distribution_signed by blast
  let ?d = "snd (del_event sample_env ?i 0 (nd_db t))"
  have frame: "witness_frame sample_env (nd_db t) ?d"
    by (rule keepsD [OF keeps_frame_layers(4)]) (simp add: witness_frame_def t(2))
  have gone: "get_event sample_env ?i 0 ?d = Fail EntryNotFound"
    using mem.get_del_same [OF t(2)]
    by (simp add: get_event_def del_event_def get_key_eval kv_get_def bindR_def)
  have "distribution_step sample_env sample_distributor t (t\<lparr>nd_db := ?d\<rparr>)"
    using frame by (intro distribution_step.Others) (simp add: distribution_others_def witness_frame_def)
  then have "distribution_run sample_env sample_distributor
      (\<lambda>k. if k = 0 then candidate_ledger None else if k = 1 then t else t\<lparr>nd_db := ?d\<rparr>) 2"
    using t(1) by (simp add: distribution_run_def less_2_cases_iff)
  then show ?thesis
    by (rule that) (use frame gone t(3) in \<open>simp_all add: witness_frame_def\<close>)
qed

end
