(* ===== verification/Completer.thy ===== *)
theory Completer
  imports Node Db_Laws
begin

text \<open>
  The event completer (\<^verbatim>\<open>event/event_completer.rs\<close>), first part: its state, and how the request of
  an event of one of our own subjects becomes an event to evaluate or to validate.
\<close>

section \<open>Errors and state\<close>

text \<open>The texts of database errors and of failed verifications are the errors themselves here.\<close>

datatype event_error =
    EventApiChannelNotAvailable
  | EvDatabaseError db_error
  | EvGovernanceError request_error
  | EvSubjectError subject_error
  | EvCryptoError "string + subject_error"
  | EvChannelClosed
  | EventAlreadyInProgress
  | EvSubjectNotFound string
  | WrongEventPhase
  | WrongGovernanceVersion
  | EvaluationOrApprovationInCreationEvent
  | EvErrorParsingJsonString string
  | ErrorParsingValue
  | EvErrorApplyingPatch string
  | EvChannelError channel_error
  | SubjectNotOwned string
  | ExternalGenesisEvent
  | CreatingPermissionDenied
  | GenesisInGovUpdate
  | NoEvaluationForTransferEvents
  | NoApprovalForTransferEvents
  | NoEvaluationForEOLEvents
  | NoApprovalForEOLEvents
  | CloseNotAuthorized string
  | SubjectLifeEnd string
  | InvokePermissionDenied string string
  | EvHashGenerationFailed
  | EvRequestAlreadyKnown
  | SubjectKeysNotFound string
  | Event0NotCreate
  | OwnTransferKeysDbError
  | ApprovalRequiredWhenEvalFailed
  | PublicKeyIsEmpty

text \<open>The phase of the event a subject is completing, who is still to answer, and the quorums for
  and against it.\<close>

type_synonym phase = "validation_stage \<times> key_identifier set \<times> u32 \<times> u32"

text \<open>
  Maps and sets of the code are maps and lists. The set of evaluations compares the signer, the
  result and the hash; those of approvals and validations compare the signers. The clock is a
  sequence of readings. Commands to the ledger are recorded in the order they are sent.
\<close>

record 'b completer = "'b node" +
  ec_subjects_by_governance :: "digest_identifier \<rightharpoonup> digest_identifier list"
  ec_completing :: "digest_identifier \<rightharpoonup> phase"
  ec_pre_evaluations :: "digest_identifier \<rightharpoonup> evaluation_request"
  ec_evaluations :: "digest_identifier \<rightharpoonup> (signature \<times> bool \<times> digest_identifier) list"
  ec_approval_evaluators :: "digest_identifier \<rightharpoonup> signature list"
  ec_approval_requests :: "digest_identifier \<rightharpoonup> approval_request signed"
  ec_approvals :: "digest_identifier \<rightharpoonup> approval_response signed list"
  ec_to_validate :: "digest_identifier \<rightharpoonup> event signed"
  ec_validations :: "digest_identifier \<rightharpoonup> signature list"
  ec_validation_events :: "digest_identifier \<rightharpoonup> validation_event"
  ec_ledger_open :: bool
  ec_ledger :: "ledger_command list"
  ec_clock :: "nat \<Rightarrow> timestamp"
  ec_ticks :: nat

record completer_config =
  cc_own_identifier :: key_identifier
  cc_derivator :: digest_derivator

type_synonym ('b, 'a) eact = "('b completer, 'a, event_error) act"

definition edb :: "('b data_store, 'a, db_error) act \<Rightarrow> ('b, 'a) eact" where
  "edb m = dbA EvDatabaseError m"

definition eread :: "('b data_store \<Rightarrow> ('a, db_error) res) \<Rightarrow> ('b, 'a) eact" where
  "eread q = db_read EvDatabaseError q"

definition eask :: "('b data_store \<Rightarrow> ('a, gov_error) res) \<Rightarrow> ('b, 'a) eact" where
  "eask q = ask_gov EvGovernanceError q"

definition esubject :: "('a, subject_error) res \<Rightarrow> ('b, 'a) eact" where
  "esubject r = liftA (map_err EvSubjectError r)"

definition ecrypto :: "string \<Rightarrow> ('a, 'e) res \<Rightarrow> ('b, 'a) eact" where
  "ecrypto msg r = liftA (map_err (\<lambda>_. EvCryptoError (Inl msg)) r)"

definition clock_now :: "('b, timestamp) eact" where
  "clock_now = (\<lambda>s. (Ok (ec_clock s (ec_ticks s)), s\<lparr>ec_ticks := Suc (ec_ticks s)\<rparr>))"

definition set_phase :: "digest_identifier \<Rightarrow> phase \<Rightarrow> ('b, unit) eact" where
  "set_phase i p = modA (\<lambda>s. s\<lparr>ec_completing := (ec_completing s)(i \<mapsto> p)\<rparr>)"

definition set_to_validate :: "digest_identifier \<Rightarrow> event signed \<Rightarrow> ('b, unit) eact" where
  "set_to_validate h ev = modA (\<lambda>s. s\<lparr>ec_to_validate := (ec_to_validate s)(h \<mapsto> ev)\<rparr>)"

definition set_validation_event :: "digest_identifier \<Rightarrow> validation_event \<Rightarrow> ('b, unit) eact" where
  "set_validation_event h ve = modA (\<lambda>s. s\<lparr>ec_validation_events := (ec_validation_events s)(h \<mapsto> ve)\<rparr>)"

text \<open>\<^verbatim>\<open>entry(governance).or_insert_with(HashSet::new).insert(subject)\<close>\<close>

definition add_by_governance :: "digest_identifier \<Rightarrow> digest_identifier \<Rightarrow> ('b, unit) eact" where
  "add_by_governance g i = modA (\<lambda>s.
     let is = (case ec_subjects_by_governance s g of None \<Rightarrow> [] | Some is \<Rightarrow> is) in
     s\<lparr>ec_subjects_by_governance :=
       (ec_subjects_by_governance s)(g \<mapsto> (if i \<in> set is then is else is @ [i]))\<rparr>)"

section \<open>Asking for signatures\<close>

text \<open>\<^verbatim>\<open>a as f64 / b as f64\<close>: the quotient rounded to 53 bits, ties to even, from a quotient with
  128 binary places and a bit for what is left. The values are below \<open>2 ^ 53\<close>.\<close>

definition f64_div :: "int \<Rightarrow> int \<Rightarrow> u64" where
  "f64_div a b =
     (if b = 0 then (if a = 0 then 0x7FF8000000000000 else 0x7FF0000000000000)
      else if a = 0 then 0
      else
        let q = 2 * (a * 2 ^ 128 div b) + (if a * 2 ^ 128 mod b = 0 then 0 else 1);
            (m, n) = round_nat q;
            k = bit_length m;
            f = (if k \<le> 53 then m * 2 ^ (53 - k) else m div 2)
        in word_of_int ((1022 + int k + int n - 129) * 2 ^ 52 + (f - 2 ^ 52)))"

lemma f64_div_examples:
  "f64_div 1 1 = 0x3FF0000000000000" "f64_div 2 4 = 0x3FE0000000000000"
  "f64_div 1 3 = 0x3FD5555555555555" "f64_div 2 3 = 0x3FE5555555555555"
  "f64_div 5 3 = 0x3FFAAAAAAAAAAAAB"
  by code_simp+

text \<open>A fifth more of the signers than the quorum are asked.\<close>

definition extend_quorum :: "u32 \<Rightarrow> nat \<Rightarrow> u64" where
  "extend_quorum quorum n =
     f64_div (uint (quorum + percentage_of n 0x3FC999999999999A)) (int n)"

definition ask_signatures ::
  "'b env \<Rightarrow> digest_identifier \<Rightarrow> taple_messages \<Rightarrow> key_identifier set \<Rightarrow> u32 \<Rightarrow> ('b, unit) eact" where
  "ask_signatures E subject_id event_message signers quorum =
     tell_message EvChannelError (TaskRequest (Some (dstr E subject_id)) event_message signers
       \<lparr>mc_timeout = 2000, mc_replication_factor = extend_quorum quorum (card signers)\<rparr>)"

definition get_signers_and_quorum ::
  "'b env \<Rightarrow> metadata \<Rightarrow> validation_stage \<Rightarrow> ('b, key_identifier set \<times> u32) eact" where
  "get_signers_and_quorum E md stage =
     bindA (eask (get_signers E md stage)) (\<lambda>signers.
     bindA (eask (get_quorum E md stage)) (\<lambda>quorum. retA (signers, quorum)))"

definition higher_governance_expected ::
  "completer_config \<Rightarrow> digest_identifier \<Rightarrow> key_identifier \<Rightarrow> ('b, unit) eact" where
  "higher_governance_expected C governance_id who_asked =
     tell_message EvChannelError (TaskRequest None (LedgerMessages (GetLCE (cc_own_identifier C) governance_id))
       {who_asked} \<lparr>mc_timeout = 2000, mc_replication_factor = 0x3FF0000000000000\<rparr>)"

section \<open>Events and their proofs\<close>

definition metadata_at :: "subject \<Rightarrow> digest_identifier \<Rightarrow> u64 \<Rightarrow> metadata" where
  "metadata_at subject subject_id gov_version = \<lparr>
     md_namespace = su_namespace subject,
     md_subject_id = subject_id,
     md_governance_id = su_governance_id subject,
     md_governance_version = gov_version,
     md_schema_id = su_schema_id subject\<rparr>"

definition event_hash_id :: "'b env \<Rightarrow> event \<Rightarrow> digest_derivator \<Rightarrow> (digest_identifier, subject_error) res" where
  "event_hash_id E ev d =
     map_err (\<lambda>_. SignatureCreationFails ''HashId for Event Fails'') (from_serializable_borsh E (PEvent ev) d)"

definition value_hash_id :: "'b env \<Rightarrow> json \<Rightarrow> digest_derivator \<Rightarrow> (digest_identifier, subject_error) res" where
  "value_hash_id E v d =
     map_err (\<lambda>_. CryptoError ''Hashing error'') (from_serializable_borsh E (PValue v) d)"

definition sign_now ::
  "'b env \<Rightarrow> completer_config \<Rightarrow> (subject_error \<Rightarrow> event_error) \<Rightarrow> payload \<Rightarrow> key_pair \<Rightarrow>
     ('b, signature) eact" where
  "sign_now E C f p keys =
     bindA clock_now (\<lambda>now. liftA (map_err f (signature_new E now p keys (cc_derivator C))))"

definition create_validation_event_from_genesis ::
  "'b env \<Rightarrow> completer_config \<Rightarrow> start_request \<Rightarrow> digest_identifier \<Rightarrow> u64 \<Rightarrow> digest_identifier \<Rightarrow>
     key_pair \<Rightarrow> ('b, validation_event) eact" where
  "create_validation_event_from_genesis E C create_request event_hash governance_version subject_id subject_keys =
     (let p = new_from_genesis_event create_request event_hash governance_version subject_id in
      bindA (sign_now E C EvSubjectError (PProof p) subject_keys) (\<lambda>g.
      retA \<lparr>
        ve_proof = p,
        ve_subject_signature = g,
        ve_previous_proof = None,
        ve_prev_event_validation_signatures = []\<rparr>))"

definition create_validation_event ::
  "'b env \<Rightarrow> completer_config \<Rightarrow> subject \<Rightarrow> event signed \<Rightarrow> u64 \<Rightarrow> ('b, validation_event) eact" where
  "create_validation_event E C subject ev gov_version =
     (let c = content ev in
      bindA (esubject (event_hash_id E c (cc_derivator C))) (\<lambda>h.
      let p = (case content (ev_event_request c) of
          Transfer t \<Rightarrow>
            new_from_transfer_event subject (ev_sn c) (ev_hash_prev_event c) h gov_version (tr_public_key t)
        | _ \<Rightarrow> new_proof subject (ev_sn c) (ev_hash_prev_event c) h gov_version) in
      bindA (eread (get_signatures E (su_subject_id subject) (su_sn subject))) (\<lambda>(prev_signatures, prev_proof).
      case su_keys subject of
        None \<Rightarrow> failA (SubjectNotOwned (dstr E (su_subject_id subject)))
      | Some keys \<Rightarrow>
          bindA (sign_now E C EvSubjectError (PProof p) keys) (\<lambda>g.
          retA \<lparr>
            ve_proof = p,
            ve_subject_signature = g,
            ve_previous_proof = Some prev_proof,
            ve_prev_event_validation_signatures = prev_signatures\<rparr>))))"

text \<open>The derivator of the previous event is the one of the hash in its proof.\<close>

definition previous_derivator ::
  "'b env \<Rightarrow> completer_config \<Rightarrow> subject \<Rightarrow> ('b, digest_derivator) eact" where
  "previous_derivator E C subject =
     db_case (get_signatures E (su_subject_id subject) (su_sn subject)) (\<lambda>r.
       case r of
         Inr (_, p) \<Rightarrow> retA (di_derivator (vp_event_hash p))
       | Inl (Err EntryNotFound) \<Rightarrow> retA (cc_derivator C)
       | Inl e \<Rightarrow> liftA (map_err EvDatabaseError (Inl e)))"

text \<open>The keys of our own subject; without them the code panics.\<close>

definition own_keys :: "subject \<Rightarrow> ('b, key_pair) eact" where
  "own_keys subject = liftA (unwrap (su_keys subject))"

definition create_event_prevalidated_no_eval ::
  "'b env \<Rightarrow> completer_config \<Rightarrow> event_request signed \<Rightarrow> subject \<Rightarrow> u64 \<Rightarrow> ('b, event signed) eact" where
  "create_event_prevalidated_no_eval E C event_request subject gov_version =
     bindA (previous_derivator E C subject) (\<lambda>d.
     bindA (eread (get_event E (su_subject_id subject) (su_sn subject))) (\<lambda>prev.
     bindA (esubject (event_hash_id E (content prev) d)) (\<lambda>hash_prev_event.
     bindA (esubject (value_hash_id E (su_properties subject) (cc_derivator C))) (\<lambda>state_hash.
     let ev = \<lparr>
       ev_subject_id = su_subject_id subject,
       ev_event_request = event_request,
       ev_sn = su_sn subject + 1,
       ev_gov_version = gov_version,
       ev_patch = JArray [],
       ev_state_hash = state_hash,
       ev_eval_success = True,
       ev_appr_required = False,
       ev_approved = True,
       ev_hash_prev_event = hash_prev_event,
       ev_evaluators = [],
       ev_approvers = []\<rparr> in
     bindA (esubject (event_hash_id E ev (cc_derivator C))) (\<lambda>event_content_hash.
     bindA (own_keys subject) (\<lambda>keys.
     bindA (sign_now E C (\<lambda>_. EvCryptoError (Inl ''Error signing the hash of the event content'')) (PEvent ev) keys)
       (\<lambda>g.
     let signed_event = \<lparr>content = ev, signature = g\<rparr> in
     bindA (set_to_validate event_content_hash signed_event) (\<lambda>_.
     bindA (edb (set_prevalidated_event E (su_subject_id subject) signed_event)) (\<lambda>_.
     bindA (edb (del_request E (su_subject_id subject))) (\<lambda>_.
     retA signed_event))))))))))"

definition generate_event_proposal ::
  "'b env \<Rightarrow> completer_config \<Rightarrow> event_request signed \<Rightarrow> subject \<Rightarrow> u64 \<Rightarrow> ('b, approval_request signed) eact" where
  "generate_event_proposal E C event_request subject gov_version =
     bindA (previous_derivator E C subject) (\<lambda>d.
     bindA (eread (get_event E (su_subject_id subject) (su_sn subject))) (\<lambda>prev.
     bindA (ecrypto ''Error calculating the hash of the previous event''
       (from_serializable_borsh E (PEvent (content prev)) d)) (\<lambda>hash_prev_event.
     bindA (esubject (value_hash_id E (su_properties subject) (cc_derivator C))) (\<lambda>state_hash.
     let q = \<lparr>
       aq_event_request = event_request,
       aq_sn = su_sn subject + 1,
       aq_gov_version = gov_version,
       aq_patch = JArray [],
       aq_state_hash = state_hash,
       aq_hash_prev_event = hash_prev_event,
       aq_gov_id = su_governance_id subject\<rparr> in
     bindA (own_keys subject) (\<lambda>keys.
     bindA (sign_now E C (\<lambda>_. EvCryptoError (Inl ''Error signing the hash of the proposal''))
       (PApprovalRequest q) keys) (\<lambda>g.
     retA \<lparr>content = q, signature = g\<rparr>))))))"

end
