(* ===== verification/Completer_Requests.thy ===== *)
theory Completer_Requests
  imports Completer
begin

text \<open>
  The event completer, second part: new requests, what is resumed at start-up, and what is started
  again when a governance changes.
\<close>

section \<open>Creations\<close>

text \<open>The version of the governance and the initial state of a new subject.\<close>

definition genesis_governance ::
  "'b env \<Rightarrow> completer_config \<Rightarrow> start_request \<Rightarrow> ('b, u64 \<times> json) eact" where
  "genesis_governance E C cr =
     (if st_schema_id cr \<noteq> ''governance'' then
        bindA (eask (get_governance_version E default_digest (st_governance_id cr))) (\<lambda>governance_version.
        bindA (eask (get_issue_create_info E \<lparr>
            md_namespace = st_namespace cr,
            md_subject_id = default_digest,
            md_governance_id = st_governance_id cr,
            md_governance_version = governance_version,
            md_schema_id = st_schema_id cr\<rparr> StageCreate (cc_own_identifier C))) (\<lambda>creation_permission.
        if \<not> creation_permission then failA CreatingPermissionDenied
        else
          bindA (eask (get_init_state E (st_governance_id cr) (st_schema_id cr) governance_version))
            (\<lambda>initial_state. retA (governance_version, initial_state))))
      else
        bindA (eask (get_init_state E (st_governance_id cr) (st_schema_id cr) 0))
          (\<lambda>initial_state. retA (0, initial_state)))"

definition genesis_keys ::
  "'b env \<Rightarrow> completer_config \<Rightarrow> event_request signed \<Rightarrow> start_request \<Rightarrow> ('b, key_pair) eact" where
  "genesis_keys E C event_request cr =
     (if sg_signer (signature event_request) \<noteq> cc_own_identifier C then failA ExternalGenesisEvent
      else if ki_public_key (st_public_key cr) = [] then failA PublicKeyIsEmpty
      else
        db_case (get_keys E (st_public_key cr)) (\<lambda>r.
          case r of
            Inr keys \<Rightarrow> retA keys
          | Inl (Err EntryNotFound) \<Rightarrow> failA (SubjectKeysNotFound (kstr E (st_public_key cr)))
          | Inl e \<Rightarrow> liftA (map_err EvDatabaseError (Inl e))))"

definition new_genesis ::
  "'b env \<Rightarrow> completer_config \<Rightarrow> digest_identifier \<Rightarrow> event_request signed \<Rightarrow> start_request \<Rightarrow>
     ('b, digest_identifier) eact" where
  "new_genesis E C request_id event_request cr =
     bindA (genesis_keys E C event_request cr) (\<lambda>subject_keys.
     bindA (genesis_governance E C cr) (\<lambda>(governance_version, initial_state).
     bindA (esubject (generate_subject_id E (st_namespace cr) (st_schema_id cr) (kstr E (st_public_key cr))
       (dstr E (st_governance_id cr)) governance_version (cc_derivator C))) (\<lambda>subject_id.
     bindA clock_now (\<lambda>now.
     bindA (esubject (event_from_genesis_request E now event_request subject_keys governance_version
       initial_state (cc_derivator C))) (\<lambda>ev.
     bindA (liftA (map_err (\<lambda>_. EvHashGenerationFailed)
       (from_serializable_borsh E (PEvent (content ev)) (cc_derivator C)))) (\<lambda>event_hash.
     bindA (create_validation_event_from_genesis E C cr event_hash governance_version subject_id subject_keys)
       (\<lambda>ve.
     bindA (if st_schema_id cr \<noteq> ''governance''
       then get_signers_and_quorum E (get_metadata (ve_proof ve)) Validate
       else retA ({cc_own_identifier C}, 1)) (\<lambda>(signers, quorum).
     bindA (ask_signatures E subject_id (create_validator_request ve) signers quorum) (\<lambda>_.
     bindA (set_validation_event event_hash ve) (\<lambda>_.
     bindA (set_to_validate event_hash ev) (\<lambda>_.
     bindA (esubject (taple_request_from E event_request)) (\<lambda>request_data.
     bindA (edb (set_taple_request E request_id request_data)) (\<lambda>_.
     bindA (edb (set_prevalidated_event E subject_id ev)) (\<lambda>_.
     bindA (if st_schema_id cr \<noteq> ''governance'' then add_by_governance (st_governance_id cr) subject_id
       else retA ()) (\<lambda>_.
     bindA (set_phase subject_id (Validate, signers, quorum, 0)) (\<lambda>_.
     retA request_id))))))))))))))))"

section \<open>Transfers and ends of life\<close>

text \<open>The checks of the two kinds of requests.\<close>

definition transfer_or_eol_allowed ::
  "'b env \<Rightarrow> completer_config \<Rightarrow> event_request signed \<Rightarrow> subject \<Rightarrow> ('b, unit) eact" where
  "transfer_or_eol_allowed E C event_request subject =
     (let signer = sg_signer (signature event_request) in
      case content event_request of
        Transfer t \<Rightarrow>
          if signer = cc_own_identifier C
          then bindA (db_read (\<lambda>_. OwnTransferKeysDbError) (get_keys E (tr_public_key t))) (\<lambda>_. retA ())
          else retA ()
      | EOL _ \<Rightarrow> if su_owner subject \<noteq> signer then failA (CloseNotAuthorized (kstr E signer)) else retA ()
      | _ \<Rightarrow> liftA (Abort ''unreachable''))"

definition start_validation ::
  "'b env \<Rightarrow> digest_identifier \<Rightarrow> metadata \<Rightarrow> validation_event \<Rightarrow> ('b, unit) eact" where
  "start_validation E subject_id md ve =
     bindA (get_signers_and_quorum E md Validate) (\<lambda>(signers, quorum).
     bindA (ask_signatures E subject_id (create_validator_request ve) signers quorum) (\<lambda>_.
     set_phase subject_id (Validate, signers, quorum, 0)))"

definition process_transfer_or_eol_event ::
  "'b env \<Rightarrow> completer_config \<Rightarrow> event_request signed \<Rightarrow> subject \<Rightarrow> u64 \<Rightarrow> ('b, unit) eact" where
  "process_transfer_or_eol_event E C event_request subject gov_version =
     (let subject_id = su_subject_id subject in
      bindA (getA (\<lambda>s. if ec_completing s subject_id \<noteq> None then Fail EventAlreadyInProgress else Ok ())) (\<lambda>_.
      bindA (transfer_or_eol_allowed E C event_request subject) (\<lambda>_.
      bindA (create_event_prevalidated_no_eval E C event_request subject gov_version) (\<lambda>ev.
      bindA (ecrypto ''Error generating event hash''
        (from_serializable_borsh E (PEvent (content ev)) (cc_derivator C))) (\<lambda>event_hash.
      bindA (create_validation_event E C subject ev gov_version) (\<lambda>ve.
      bindA (set_validation_event event_hash ve) (\<lambda>_.
      start_validation E subject_id (metadata_at subject subject_id gov_version) ve)))))))"

section \<open>Facts\<close>

definition may_issue ::
  "'b env \<Rightarrow> completer_config \<Rightarrow> metadata \<Rightarrow> event_request signed \<Rightarrow> digest_identifier \<Rightarrow> ('b, unit) eact" where
  "may_issue E C md event_request subject_id =
     (let signer = sg_signer (signature event_request) in
      if signer = cc_own_identifier C then retA ()
      else
        bindA (eask (get_issue_create_info E md Invoke signer)) (\<lambda>allowed.
        if allowed then retA () else failA (InvokePermissionDenied (kstr E signer) (dstr E subject_id))))"

definition new_fact ::
  "'b env \<Rightarrow> completer_config \<Rightarrow> event_request signed \<Rightarrow> digest_identifier \<Rightarrow> subject \<Rightarrow> u64 \<Rightarrow>
     ('b, unit) eact" where
  "new_fact E C event_request subject_id subject gov_version =
     (let md = metadata_at subject subject_id gov_version;
          q = \<lparr>
            eq_event_request = event_request,
            eq_context = \<lparr>
              sc_governance_id = su_governance_id subject,
              sc_schema_id = su_schema_id subject,
              sc_is_owner = (su_owner subject = sg_signer (signature event_request)),
              sc_state = su_properties subject,
              sc_namespace = su_namespace subject\<rparr>,
            eq_sn = su_sn subject + 1,
            eq_gov_version = gov_version\<rparr> in
      bindA (may_issue E C md event_request subject_id) (\<lambda>_.
      bindA (get_signers_and_quorum E md Evaluate) (\<lambda>(signers, quorum).
      bindA (ecrypto ''Error calculating the hash of the event pre-evaluation''
        (generate_with_blake3 E (PEvaluationRequest q))) (\<lambda>h.
      bindA (modA (\<lambda>s. s\<lparr>ec_pre_evaluations := (ec_pre_evaluations s)(h \<mapsto> q)\<rparr>)) (\<lambda>_.
      bindA (set_phase subject_id (Evaluate, signers, quorum, of_nat (card signers) - quorum + 1)) (\<lambda>_.
      ask_signatures E subject_id (create_evaluator_request q) signers quorum))))))"

section \<open>New requests\<close>

definition owned_subject :: "'b env \<Rightarrow> digest_identifier \<Rightarrow> ('b, subject) eact" where
  "owned_subject E subject_id =
     db_case (get_subject E subject_id) (\<lambda>r.
       case r of
         Inl (Err EntryNotFound) \<Rightarrow> failA (EvSubjectNotFound (dstr E subject_id))
       | Inl e \<Rightarrow> liftA (map_err EvDatabaseError (Inl e))
       | Inr subject \<Rightarrow>
           if \<not> su_active subject then failA (SubjectLifeEnd (dstr E subject_id))
           else if su_keys subject = None then failA (SubjectNotOwned (dstr E subject_id))
           else retA subject)"

definition request_subject_id :: "event_request \<Rightarrow> (digest_identifier, event_error) res" where
  "request_subject_id q =
     (case q of
        Transfer t \<Rightarrow> Ok (tr_subject_id t)
      | EOL e \<Rightarrow> Ok (eo_subject_id e)
      | Fact f \<Rightarrow> Ok (fa_subject_id f)
      | Create _ \<Rightarrow> Abort ''unreachable'')"

text \<open>What is stored of a request at the end. The index by governance gets the governance itself.\<close>

definition register_request ::
  "'b env \<Rightarrow> digest_identifier \<Rightarrow> event_request signed \<Rightarrow> subject \<Rightarrow> ('b, digest_identifier) eact" where
  "register_request E request_id event_request subject =
     bindA (add_by_governance (su_governance_id subject) (su_governance_id subject)) (\<lambda>_.
     bindA (esubject (taple_request_from E event_request)) (\<lambda>request_data.
     bindA (edb (set_taple_request E request_id (request_data\<lparr>
       tq_sn := Some (su_sn subject + 1),
       tq_subject_id := Some (su_subject_id subject)\<rparr>))) (\<lambda>_.
     bindA (edb (set_request E (su_subject_id subject) event_request)) (\<lambda>_.
     retA request_id))))"

definition new_event ::
  "'b env \<Rightarrow> completer_config \<Rightarrow> event_request signed \<Rightarrow> ('b, digest_identifier) eact" where
  "new_event E C event_request =
     bindA (liftA (map_err (\<lambda>_. EvHashGenerationFailed)
       (generate_with_blake3 E (PSignedEventRequest event_request)))) (\<lambda>request_id.
     case content event_request of
       Create cr \<Rightarrow> new_genesis E C request_id event_request cr
     | q \<Rightarrow>
         bindA (liftA (request_subject_id q)) (\<lambda>subject_id.
         bindA (owned_subject E subject_id) (\<lambda>subject.
         bindA (eask (get_governance_version E (su_subject_id subject) (su_governance_id subject)))
           (\<lambda>gov_version.
         bindA (case q of
             Fact _ \<Rightarrow> new_fact E C event_request subject_id subject gov_version
           | _ \<Rightarrow> process_transfer_or_eol_event E C event_request subject gov_version) (\<lambda>_.
         register_request E request_id event_request subject)))))"

definition pre_new_event ::
  "'b env \<Rightarrow> completer_config \<Rightarrow> event_request signed \<Rightarrow> ('b, digest_identifier) eact" where
  "pre_new_event E C event_request =
     bindA (esubject (event_request_verify E event_request)) (\<lambda>_.
     bindA (liftA (map_err (\<lambda>_. EvHashGenerationFailed)
       (generate_with_blake3 E (PSignedEventRequest event_request)))) (\<lambda>request_id.
     bindA (db_case (get_taple_request E request_id) (\<lambda>r.
       case r of
         Inr _ \<Rightarrow> failA EvRequestAlreadyKnown
       | Inl (Err EntryNotFound) \<Rightarrow> retA ()
       | Inl e \<Rightarrow> liftA (map_err EvDatabaseError (Inl e)))) (\<lambda>_.
     case content event_request of
       Create _ \<Rightarrow> new_event E C event_request
     | q \<Rightarrow>
         bindA (liftA (request_subject_id q)) (\<lambda>subject_id.
         bindA (getA (\<lambda>s. if ec_completing s subject_id \<noteq> None then Fail EventAlreadyInProgress else Ok ())) (\<lambda>_.
         new_event E C event_request)))))"

section \<open>Start-up\<close>

text \<open>The event of a subject that was being validated.\<close>

definition resume_validation ::
  "'b env \<Rightarrow> completer_config \<Rightarrow> subject \<Rightarrow> event signed \<Rightarrow> ('b, unit) eact" where
  "resume_validation E C subject last_event =
     bindA (eask (get_governance_version E (su_subject_id subject) (su_governance_id subject))) (\<lambda>gov_version.
     bindA (get_signers_and_quorum E (metadata_at subject (su_subject_id subject) gov_version) Validate)
       (\<lambda>(signers, quorum).
     bindA (create_validation_event E C subject last_event gov_version) (\<lambda>ve.
     bindA (ask_signatures E (su_subject_id subject) (create_validator_request ve) signers quorum) (\<lambda>_.
     bindA (ecrypto ''Error generating last event hash''
       (from_serializable_borsh E (PEvent (content last_event)) (cc_derivator C))) (\<lambda>h.
     bindA (set_validation_event h ve) (\<lambda>_.
     bindA (set_to_validate h last_event) (\<lambda>_.
     set_phase (su_subject_id subject) (Validate, signers, quorum, 0))))))))"

definition resume_subject :: "'b env \<Rightarrow> completer_config \<Rightarrow> subject \<Rightarrow> ('b, unit) eact" where
  "resume_subject E C subject =
     bindA (if su_schema_id subject \<noteq> ''governance''
       then add_by_governance (su_governance_id subject) (su_subject_id subject) else retA ()) (\<lambda>_.
     db_case (get_prevalidated_event E (su_subject_id subject)) (\<lambda>r.
       case r of
         Inr last_event \<Rightarrow> resume_validation E C subject last_event
       | Inl (Err EntryNotFound) \<Rightarrow>
           db_case (get_request E (su_subject_id subject)) (\<lambda>r.
             case r of
               Inr event_request \<Rightarrow> bindA (new_event E C event_request) (\<lambda>_. retA ())
             | Inl (Err EntryNotFound) \<Rightarrow> retA ()
             | Inl e \<Rightarrow> liftA (map_err EvDatabaseError (Inl e)))
       | Inl e \<Rightarrow> liftA (map_err EvDatabaseError (Inl e))))"

definition completer_init :: "'b env \<Rightarrow> completer_config \<Rightarrow> ('b, unit) eact" where
  "completer_init E C =
     bindA (eread (get_all_subjects E)) (\<lambda>subjects. forA (resume_subject E C) subjects)"

section \<open>A new version of a governance\<close>

definition restart_request :: "'b env \<Rightarrow> completer_config \<Rightarrow> digest_identifier \<Rightarrow> ('b, unit) eact" where
  "restart_request E C subject_id =
     db_case (get_request E subject_id) (\<lambda>r.
       case r of
         Inr event_request \<Rightarrow>
           (case content event_request of
              Fact _ \<Rightarrow> bindA (new_event E C event_request) (\<lambda>_. retA ())
            | _ \<Rightarrow> failA GenesisInGovUpdate)
       | Inl (Err EntryNotFound) \<Rightarrow> retA ()
       | Inl e \<Rightarrow> liftA (map_err EvDatabaseError (Inl e)))"

definition restart_genesis ::
  "'b env \<Rightarrow> completer_config \<Rightarrow> digest_identifier \<Rightarrow> event signed \<Rightarrow> ('b, unit) eact" where
  "restart_genesis E C subject_id ev =
     bindA (tell_message EvChannelError (TaskCancel (dstr E (ev_subject_id (content ev))))) (\<lambda>_.
     bindA (modA (\<lambda>s. s\<lparr>
       ec_completing := (ec_completing s)(subject_id := None),
       ec_subjects_by_governance := (ec_subjects_by_governance s)(subject_id := None)\<rparr>)) (\<lambda>_.
     bindA (edb (del_prevalidated_event E subject_id)) (\<lambda>_.
     bindA (new_event E C (ev_event_request (content ev))) (\<lambda>_. retA ()))))"

definition restart_validation ::
  "'b env \<Rightarrow> completer_config \<Rightarrow> u64 \<Rightarrow> digest_identifier \<Rightarrow> event signed \<Rightarrow> ('b, unit) eact" where
  "restart_validation E C new_version subject_id ev =
     bindA (eread (get_subject E subject_id)) (\<lambda>subject.
     bindA (create_validation_event E C subject ev new_version) (\<lambda>ve.
     bindA (get_signers_and_quorum E (metadata_at subject subject_id new_version) Validate) (\<lambda>(signers, quorum).
     bindA (ask_signatures E subject_id (create_validator_request ve) signers quorum) (\<lambda>_.
     bindA (ecrypto ''Error generating event prevalidated hash in NGV''
       (from_serializable_borsh E (PEvent (content ev)) (cc_derivator C))) (\<lambda>h.
     bindA (set_validation_event h ve) (\<lambda>_.
     set_phase subject_id (Validate, signers, quorum, 0)))))))"

definition restart_subject ::
  "'b env \<Rightarrow> completer_config \<Rightarrow> u64 \<Rightarrow> digest_identifier \<Rightarrow> ('b, unit) eact" where
  "restart_subject E C new_version subject_id =
     bindA (restart_request E C subject_id) (\<lambda>_.
     db_case (get_prevalidated_event E subject_id) (\<lambda>r.
       case r of
         Inr ev \<Rightarrow>
           (case content (ev_event_request (content ev)) of
              Create _ \<Rightarrow> restart_genesis E C subject_id ev
            | _ \<Rightarrow> restart_validation E C new_version subject_id ev)
       | Inl (Err EntryNotFound) \<Rightarrow> retA ()
       | Inl e \<Rightarrow> liftA (map_err EvDatabaseError (Inl e))))"

definition events_new_governance_version ::
  "'b env \<Rightarrow> completer_config \<Rightarrow> digest_identifier \<Rightarrow> u64 \<Rightarrow> ('b, unit) eact" where
  "events_new_governance_version E C governance_id new_version = (\<lambda>s.
     case ec_subjects_by_governance s governance_id of
       None \<Rightarrow> (Ok (), s)
     | Some subjects_affected \<Rightarrow> forA (restart_subject E C new_version) subjects_affected s)"

end
