(* ===== verification/Completer_Responses.thy ===== *)
theory Completer_Responses
  imports Completer_Requests
begin

text \<open>
  The event completer, third part: what it does with the evaluations, approvals and validations
  other nodes send, the commands, and the task (\<^verbatim>\<open>event/manager.rs\<close>).
\<close>

section \<open>Sets of answers\<close>

text \<open>The sets are lists without repetitions for the equality of their elements.\<close>

definition insert_or_replace_and_check :: "('a \<Rightarrow> 'a \<Rightarrow> bool) \<Rightarrow> 'a list \<Rightarrow> 'a \<Rightarrow> bool \<times> 'a list" where
  "insert_or_replace_and_check eq xs x =
     (list_ex (eq x) xs, filter (\<lambda>y. \<not> eq x y) xs @ [x])"

definition save_in :: "('a \<Rightarrow> 'a \<Rightarrow> bool) \<Rightarrow> 'a list option \<Rightarrow> 'a \<Rightarrow> 'a list" where
  "save_in eq xs x = (case xs of None \<Rightarrow> [x] | Some xs \<Rightarrow> snd (insert_or_replace_and_check eq xs x))"

text \<open>Two signatures are the same in these sets when their signers are.\<close>

definition same_signer :: "signature \<Rightarrow> signature \<Rightarrow> bool" where
  "same_signer g h \<longleftrightarrow> sg_signer g = sg_signer h"

fun same_evaluation ::
  "signature \<times> bool \<times> digest_identifier \<Rightarrow> signature \<times> bool \<times> digest_identifier \<Rightarrow> bool" where
  "same_evaluation (g, b, h) (g', b', h') \<longleftrightarrow> same_signer g g' \<and> b = b' \<and> h = h'"

definition same_approver :: "approval_response signed \<Rightarrow> approval_response signed \<Rightarrow> bool" where
  "same_approver a b \<longleftrightarrow> same_signer (signature a) (signature b)"

fun count_signatures_with_event_content_hash ::
  "(signature \<times> bool \<times> digest_identifier) list \<Rightarrow> digest_identifier \<Rightarrow> u32 \<times> u32" where
  "count_signatures_with_event_content_hash [] h = (0, 0)"
| "count_signatures_with_event_content_hash ((_, acceptance, h') # xs) h =
     (case count_signatures_with_event_content_hash xs h of (ok, ko) \<Rightarrow>
        if h' \<noteq> h then (ok, ko) else if acceptance then (ok + 1, ko) else (ok, ko + 1))"

text \<open>The state the evaluators announce is the state we get.\<close>

definition hash_match_after_patch ::
  "'b env \<Rightarrow> evaluation_response \<Rightarrow> json \<Rightarrow> json \<Rightarrow> (bool, event_error) res" where
  "hash_match_after_patch E evaluation json_patch prev_properties =
     (let hashed = (\<lambda>v. bindR (map_err (\<lambda>_. EvCryptoError (Inl ''Error calculating the hash of the state''))
        (from_serializable_borsh E (PValue v) (di_derivator (er_state_hash evaluation))))
        (\<lambda>h. Ok (h = er_state_hash evaluation))) in
      if \<not> er_eval_success evaluation then hashed prev_properties
      else if \<not> e_is_patch E json_patch then Fail (EvErrorParsingJsonString ''Error Parsing Patch'')
      else case e_patch E prev_properties json_patch of
          None \<Rightarrow> Fail (EvErrorApplyingPatch ''Error applying patch'')
        | Some v \<Rightarrow> hashed v)"

section \<open>What the answers share\<close>

text \<open>The signers and quorums of a subject whose event is in the phase of the answer.\<close>

definition in_phase ::
  "validation_stage \<Rightarrow> digest_identifier \<Rightarrow> ('b, key_identifier set \<times> u32 \<times> u32) eact" where
  "in_phase stage subject_id = getA (\<lambda>s.
     case ec_completing s subject_id of
       None \<Rightarrow> Fail WrongEventPhase
     | Some (stage', p) \<Rightarrow> if stage' = stage then Ok p else Fail WrongEventPhase)"

text \<open>The subject of an event with an evaluation and perhaps an approval.\<close>

definition answered_subject ::
  "event_error \<Rightarrow> event_error \<Rightarrow> event_request \<Rightarrow> (digest_identifier, event_error) res" where
  "answered_subject no_transfer no_eol q =
     (case q of
        Transfer _ \<Rightarrow> Fail no_transfer
      | EOL _ \<Rightarrow> Fail no_eol
      | Create _ \<Rightarrow> Fail EvaluationOrApprovationInCreationEvent
      | Fact f \<Rightarrow> Ok (fa_subject_id f))"

definition known_to_complete :: "'b env \<Rightarrow> digest_identifier \<Rightarrow> ('b, subject) eact" where
  "known_to_complete E subject_id =
     db_read (\<lambda>e. if e = EntryNotFound then EvSubjectNotFound (dstr E subject_id) else EvDatabaseError e)
       (get_subject E subject_id)"

definition listed_signer :: "string \<Rightarrow> key_identifier \<Rightarrow> key_identifier set \<Rightarrow> ('b, unit) eact" where
  "listed_signer msg signer signers = liftA (fail_if (signer \<notin> signers) (EvCryptoError (Inl msg)))"

definition verified :: "(unit, subject_error) res \<Rightarrow> ('b, unit) eact" where
  "verified r = liftA (map_err (\<lambda>e. EvCryptoError (Inr e)) r)"

section \<open>Evaluations\<close>

text \<open>The hash of the previous event, under the derivator of its proof.\<close>

definition previous_event_hash ::
  "'b env \<Rightarrow> completer_config \<Rightarrow> subject \<Rightarrow> ('b, digest_identifier) eact" where
  "previous_event_hash E C subject =
     bindA (previous_derivator E C subject) (\<lambda>d.
     bindA (eread (get_event E (su_subject_id subject) (su_sn subject))) (\<lambda>prev.
     ecrypto ''Error calculating the hash of the previous event''
       (from_serializable_borsh E (PEvent (content prev)) d)))"

text \<open>The evaluated event needs an approval.\<close>

definition evaluated_to_approve ::
  "'b env \<Rightarrow> completer_config \<Rightarrow> evaluation_request \<Rightarrow> evaluation_response \<Rightarrow> subject \<Rightarrow> u64 \<Rightarrow>
     digest_identifier \<Rightarrow> signature list \<Rightarrow> ('b, taple_messages) eact" where
  "evaluated_to_approve E C eq er subject governance_version hash_prev_event evaluators =
     (let q = \<lparr>
        aq_event_request = eq_event_request eq,
        aq_sn = eq_sn eq,
        aq_gov_version = governance_version,
        aq_patch = er_patch er,
        aq_state_hash = er_state_hash er,
        aq_hash_prev_event = hash_prev_event,
        aq_gov_id = su_governance_id subject\<rparr> in
      bindA (ecrypto ''Error calculating the hash of the proposal'' (approval_request_hash E q Blake3_256))
        (\<lambda>h.
      bindA (own_keys subject) (\<lambda>keys.
      bindA (sign_now E C (\<lambda>_. EvCryptoError (Inl ''Error signing the Approval Request''))
        (PApprovalRequest q) keys) (\<lambda>g.
      let approval_request = \<lparr>content = q, signature = g\<rparr> in
      bindA (modA (\<lambda>s. s\<lparr>
        ec_approval_evaluators := (ec_approval_evaluators s)(h \<mapsto> evaluators),
        ec_approval_requests := (ec_approval_requests s)(h \<mapsto> approval_request)\<rparr>)) (\<lambda>_.
      retA (create_approval_request approval_request))))))"

text \<open>What is done with an event ready for validation: our signature, its proof, and its storage.\<close>

definition sign_event ::
  "'b env \<Rightarrow> completer_config \<Rightarrow> string \<Rightarrow> event \<Rightarrow> subject \<Rightarrow>
     ('b, digest_identifier \<times> event signed) eact" where
  "sign_event E C msg ev subject =
     bindA (esubject (event_hash_id E ev (cc_derivator C))) (\<lambda>event_hash.
     bindA (own_keys subject) (\<lambda>keys.
     bindA (sign_now E C (\<lambda>_. EvCryptoError (Inl msg)) (PEvent ev) keys) (\<lambda>g.
     retA (event_hash, \<lparr>content = ev, signature = g\<rparr>))))"

definition to_be_validated ::
  "'b env \<Rightarrow> subject \<Rightarrow> digest_identifier \<Rightarrow> event signed \<Rightarrow> validation_event \<Rightarrow> ('b, unit) eact" where
  "to_be_validated E subject event_hash ev ve =
     bindA (set_validation_event event_hash ve) (\<lambda>_.
     bindA (set_to_validate event_hash ev) (\<lambda>_.
     bindA (edb (set_prevalidated_event E (su_subject_id subject) ev)) (\<lambda>_.
     edb (del_request E (su_subject_id subject)))))"

definition evaluated_to_validate ::
  "'b env \<Rightarrow> completer_config \<Rightarrow> evaluation_request \<Rightarrow> evaluation_response \<Rightarrow> digest_identifier \<Rightarrow>
     subject \<Rightarrow> u64 \<Rightarrow> digest_identifier \<Rightarrow> signature list \<Rightarrow> ('b, taple_messages) eact" where
  "evaluated_to_validate E C eq er subject_id subject governance_version hash_prev_event evaluators =
     bindA (eask (get_governance_version E (su_subject_id subject) (su_governance_id subject))) (\<lambda>gov_version.
     bindA (sign_event E C ''Error signing the Event'' \<lparr>
         ev_subject_id = subject_id,
         ev_event_request = eq_event_request eq,
         ev_sn = eq_sn eq,
         ev_gov_version = governance_version,
         ev_patch = er_patch er,
         ev_state_hash = er_state_hash er,
         ev_eval_success = er_eval_success er,
         ev_appr_required = er_appr_required er,
         ev_approved = True,
         ev_hash_prev_event = hash_prev_event,
         ev_evaluators = evaluators,
         ev_approvers = []\<rparr> subject) (\<lambda>(event_hash, ev).
     bindA (create_validation_event E C subject ev gov_version) (\<lambda>ve.
     bindA (to_be_validated E subject event_hash ev ve) (\<lambda>_.
     retA (create_validator_request ve)))))"

text \<open>The event goes on to its next phase.\<close>

definition next_phase ::
  "'b env \<Rightarrow> digest_identifier \<Rightarrow> metadata \<Rightarrow> validation_stage \<Rightarrow> taple_messages \<Rightarrow> ('b, unit) eact" where
  "next_phase E subject_id md stage event_message =
     bindA (get_signers_and_quorum E md stage) (\<lambda>(signers, quorum).
     bindA (ask_signatures E subject_id event_message signers quorum) (\<lambda>_.
     set_phase subject_id (stage, signers, quorum, of_nat (card signers) - quorum + 1)))"

text \<open>A quorum of evaluators agrees with the answer, or refuses with it.\<close>

definition evaluated ::
  "'b env \<Rightarrow> completer_config \<Rightarrow> evaluation_request \<Rightarrow> evaluation_response \<Rightarrow> digest_identifier \<Rightarrow>
     subject \<Rightarrow> u64 \<Rightarrow> signature list \<Rightarrow> ('b, unit) eact" where
  "evaluated E C eq er subject_id subject governance_version evaluators =
     bindA (previous_event_hash E C subject) (\<lambda>hash_prev_event.
     if er_appr_required er \<and> \<not> er_eval_success er then failA ApprovalRequiredWhenEvalFailed
     else
       bindA (if er_appr_required er
         then bindA (evaluated_to_approve E C eq er subject governance_version hash_prev_event evaluators)
           (\<lambda>m. retA (Approve, m))
         else bindA (evaluated_to_validate E C eq er subject_id subject governance_version hash_prev_event
           evaluators) (\<lambda>m. retA (Validate, m))) (\<lambda>(stage, event_message).
       bindA (modA (\<lambda>s. s\<lparr>
         ec_evaluations := (ec_evaluations s)(er_eval_req_hash er := None),
         ec_pre_evaluations := (ec_pre_evaluations s)(er_eval_req_hash er := None)\<rparr>)) (\<lambda>_.
       next_phase E subject_id (metadata_at subject subject_id governance_version) stage event_message)))"

definition more_evaluations ::
  "'b env \<Rightarrow> evaluation_request \<Rightarrow> digest_identifier \<Rightarrow> key_identifier \<Rightarrow> key_identifier set \<Rightarrow>
     u32 \<Rightarrow> u32 \<Rightarrow> ('b, unit) eact" where
  "more_evaluations E eq subject_id signer signers quorum negative_quorum =
     (let new_signers = signers - {signer} in
      bindA (ask_signatures E subject_id (create_evaluator_request eq) new_signers quorum) (\<lambda>_.
      set_phase subject_id (Evaluate, new_signers, quorum, negative_quorum)))"

definition save_evaluation ::
  "digest_identifier \<Rightarrow> signature \<times> bool \<times> digest_identifier \<Rightarrow>
     ('b, (signature \<times> bool \<times> digest_identifier) list) eact" where
  "save_evaluation h x = (\<lambda>s.
     let xs = save_in same_evaluation (ec_evaluations s h) x in
     (Ok xs, s\<lparr>ec_evaluations := (ec_evaluations s)(h \<mapsto> xs)\<rparr>))"

definition evaluator_signatures ::
  "'b env \<Rightarrow> completer_config \<Rightarrow> evaluation_response signed \<Rightarrow> ('b, unit) eact" where
  "evaluator_signatures E C evaluator_response =
     (let er = content evaluator_response; signer = sg_signer (signature evaluator_response) in
      bindA (getA (\<lambda>s. ok_or (EvCryptoError (Inl
        ''The hash of the event pre-evaluation does not match any of the pre-evaluations''))
        (ec_pre_evaluations s (er_eval_req_hash er)))) (\<lambda>eq.
      bindA (liftA (answered_subject NoEvaluationForTransferEvents NoEvaluationForEOLEvents
        (content (eq_event_request eq)))) (\<lambda>subject_id.
      bindA (in_phase Evaluate subject_id) (\<lambda>(signers, quorum, negative_quorum).
      bindA (listed_signer ''The signer is not in the list of evaluators or we already have the signature''
        signer signers) (\<lambda>_.
      bindA (verified (signature_verify E (signature evaluator_response) (PEvaluationResponse er))) (\<lambda>_.
      bindA (esubject (evaluation_response_hash E er (cc_derivator C))) (\<lambda>evaluation_hash.
      bindA (known_to_complete E subject_id) (\<lambda>subject.
      bindA (eask (get_governance_version E (su_subject_id subject) (su_governance_id subject)))
        (\<lambda>governance_version.
      bindA (liftA (hash_match_after_patch E er (er_patch er) (su_properties subject))) (\<lambda>matches.
      if \<not> matches then failA (EvCryptoError (Inl
        ''Json patch applied to state hash does not match the new state hash''))
      else
        bindA (save_evaluation (er_eval_req_hash er)
          (signature evaluator_response, er_eval_success er, evaluation_hash)) (\<lambda>signatures_set.
        case count_signatures_with_event_content_hash signatures_set evaluation_hash of (ok, ko) \<Rightarrow>
          if \<not> quorum \<le> ok \<and> \<not> negative_quorum \<le> ko
          then more_evaluations E eq subject_id signer signers quorum negative_quorum
          else
            evaluated E C eq er subject_id subject governance_version
              (map fst (filter (\<lambda>(_, acceptance, h). h = evaluation_hash \<and> (quorum \<le> ok) = acceptance)
                signatures_set)))))))))))))"

section \<open>Approvals\<close>

definition save_approval ::
  "digest_identifier \<Rightarrow> approval_response signed \<Rightarrow> ('b, approval_response signed list) eact" where
  "save_approval h x = (\<lambda>s.
     let xs = save_in same_approver (ec_approvals s h) x in
     (Ok xs, s\<lparr>ec_approvals := (ec_approvals s)(h \<mapsto> xs)\<rparr>))"

text \<open>The approvers are asked again, the one who just answered too.\<close>

definition more_approvals ::
  "'b env \<Rightarrow> approval_request signed \<Rightarrow> digest_identifier \<Rightarrow> key_identifier \<Rightarrow> key_identifier set \<Rightarrow>
     u32 \<Rightarrow> u32 \<times> u32 \<Rightarrow> ('b, unit) eact" where
  "more_approvals E approval_request subject_id signer signers quorum_now quorums =
     bindA (ask_signatures E subject_id (create_approval_request approval_request) signers quorum_now) (\<lambda>_.
     set_phase subject_id (Approve, signers - {signer}, quorums))"

definition approved_event ::
  "approval_request \<Rightarrow> digest_identifier \<Rightarrow> u64 \<Rightarrow> bool \<Rightarrow> signature list \<Rightarrow> signature list \<Rightarrow> event" where
  "approved_event q subject_id gov_version approved evaluators approvers = \<lparr>
     ev_subject_id = subject_id,
     ev_event_request = aq_event_request q,
     ev_sn = aq_sn q,
     ev_gov_version = gov_version,
     ev_patch = aq_patch q,
     ev_state_hash = aq_state_hash q,
     ev_eval_success = True,
     ev_appr_required = True,
     ev_approved = approved,
     ev_hash_prev_event = aq_hash_prev_event q,
     ev_evaluators = evaluators,
     ev_approvers = approvers\<rparr>"

definition forget_approval :: "digest_identifier \<Rightarrow> ('b, unit) eact" where
  "forget_approval h = modA (\<lambda>s. s\<lparr>
     ec_approval_evaluators := (ec_approval_evaluators s)(h := None),
     ec_approval_requests := (ec_approval_requests s)(h := None),
     ec_approvals := (ec_approvals s)(h := None)\<rparr>)"

text \<open>A quorum of approvers answered the same.\<close>

definition approved_to_validate ::
  "'b env \<Rightarrow> completer_config \<Rightarrow> approval_response \<Rightarrow> digest_identifier \<Rightarrow> subject \<Rightarrow> signature list \<Rightarrow>
     ('b, unit) eact" where
  "approved_to_validate E C ar subject_id subject approvers =
     (let h = ar_appr_req_hash ar in
      bindA (eask (get_governance_version E (su_subject_id subject) (su_governance_id subject)))
        (\<lambda>governance_version.
      bindA (getA (\<lambda>s. unwrap (ec_approval_requests s h))) (\<lambda>event_proposal.
      bindA (eask (get_governance_version E (su_subject_id subject) (su_governance_id subject)))
        (\<lambda>gov_version.
      bindA (getA (\<lambda>s. unwrap (ec_approval_evaluators s h))) (\<lambda>evaluators.
      bindA (sign_event E C ''Error signing the Event (Approval stage)''
        (approved_event (content event_proposal) subject_id gov_version (ar_approved ar) evaluators approvers)
        subject) (\<lambda>(event_hash, ev).
      bindA (create_validation_event E C subject ev gov_version) (\<lambda>ve.
      bindA (forget_approval h) (\<lambda>_.
      bindA (get_signers_and_quorum E (metadata_at subject subject_id governance_version) Validate)
        (\<lambda>(signers, quorum).
      bindA (ask_signatures E subject_id (create_validator_request ve) signers quorum) (\<lambda>_.
      bindA (to_be_validated E subject event_hash ev ve) (\<lambda>_.
      set_phase subject_id (Validate, signers, quorum, 0))))))))))))"

definition approver_signatures ::
  "'b env \<Rightarrow> completer_config \<Rightarrow> approval_response signed \<Rightarrow> ('b, unit) eact" where
  "approver_signatures E C approval =
     (let ar = content approval; signer = sg_signer (signature approval) in
      bindA (getA (\<lambda>s. ok_or (EvCryptoError (Inl
        ''The hash of the event proposal does not match any of the proposals''))
        (ec_approval_requests s (ar_appr_req_hash ar)))) (\<lambda>approval_request.
      bindA (liftA (answered_subject NoApprovalForTransferEvents NoApprovalForEOLEvents
        (content (aq_event_request (content approval_request))))) (\<lambda>subject_id.
      bindA (in_phase Approve subject_id) (\<lambda>(signers, quorums).
      bindA (listed_signer ''The signer is not in the list of approvers or we already have his approve''
        signer signers) (\<lambda>_.
      bindA (verified (signature_verify E (signature approval) (PApprovalResponse ar))) (\<lambda>_.
      bindA (known_to_complete E subject_id) (\<lambda>subject.
      bindA (save_approval (ar_appr_req_hash ar) approval) (\<lambda>approval_set.
      let same = filter (\<lambda>a. ar_approved (content a) = ar_approved ar) approval_set;
          quorum_now = (if ar_approved ar then fst quorums else snd quorums) in
      if of_nat (length same) < quorum_now
      then more_approvals E approval_request subject_id signer signers quorum_now quorums
      else approved_to_validate E C ar subject_id subject (map signature same)))))))))"

section \<open>Validations\<close>

text \<open>
  The question to the ledger: it is answered after the ledger has handled the command, with a
  response nobody looks at. \<open>L\<close> is what the ledger does with the database, and whether it
  survives; a ledger that does not survive closes its channel.
\<close>

type_synonym 'b ledger_task = "ledger_command \<Rightarrow> 'b data_store \<Rightarrow> bool \<times> 'b data_store"

definition ask_ledger :: "'b ledger_task \<Rightarrow> ledger_command \<Rightarrow> ('b, unit) eact" where
  "ask_ledger L c = (\<lambda>s.
     if \<not> ec_ledger_open s then (Fail (EvChannelError ChannelClosed), s)
     else case L c (nd_db s) of (alive, d) \<Rightarrow>
       (if alive then Ok () else Fail (EvChannelError ChannelClosed),
        s\<lparr>nd_db := d, ec_ledger := ec_ledger s @ [c], ec_ledger_open := alive\<rparr>))"

definition validated_subject_id ::
  "'b env \<Rightarrow> completer_config \<Rightarrow> event \<Rightarrow> (digest_identifier, event_error) res" where
  "validated_subject_id E C ev =
     (case content (ev_event_request ev) of
        Transfer t \<Rightarrow> Ok (tr_subject_id t)
      | EOL e \<Rightarrow> Ok (eo_subject_id e)
      | Create cr \<Rightarrow>
          map_err EvSubjectError (generate_subject_id E (st_namespace cr) (st_schema_id cr)
            (kstr E (st_public_key cr)) (dstr E (st_governance_id cr)) (ev_gov_version ev) (cc_derivator C))
      | Fact f \<Rightarrow> Ok (fa_subject_id f))"

text \<open>The version of the governance we know, and the governance.\<close>

definition our_governance ::
  "'b env \<Rightarrow> event \<Rightarrow> digest_identifier \<Rightarrow> subject option \<Rightarrow> ('b, u64 \<times> digest_identifier) eact" where
  "our_governance E ev subject_id subject =
     (case subject of
        None \<Rightarrow>
          if ev_sn ev = 0 then
            (case content (ev_event_request ev) of
               Create cr \<Rightarrow>
                 if st_schema_id cr = ''governance'' then retA (0, st_governance_id cr)
                 else bindA (eask (get_governance_version E subject_id (st_governance_id cr)))
                   (\<lambda>v. retA (v, st_governance_id cr))
             | _ \<Rightarrow> failA Event0NotCreate)
          else failA (EvSubjectNotFound (dstr E subject_id))
      | Some su \<Rightarrow>
          if ev_sn ev \<noteq> 0 then
            if su_schema_id su = ''governance'' then retA (su_sn su, su_subject_id su)
            else bindA (eask (get_governance_version E (su_subject_id su) (su_governance_id su)))
              (\<lambda>v. retA (v, su_governance_id su))
          else failA (EvSubjectNotFound (dstr E subject_id)))"

definition save_validation :: "digest_identifier \<Rightarrow> signature \<Rightarrow> ('b, signature list) eact" where
  "save_validation h x = (\<lambda>s.
     let xs = save_in same_signer (ec_validations s h) x in
     (Ok xs, s\<lparr>ec_validations := (ec_validations s)(h \<mapsto> xs)\<rparr>))"

definition more_validations ::
  "'b env \<Rightarrow> validation_event \<Rightarrow> digest_identifier \<Rightarrow> key_identifier \<Rightarrow> key_identifier set \<Rightarrow>
     u32 \<times> u32 \<Rightarrow> ('b, unit) eact" where
  "more_validations E ve subject_id signer signers quorums =
     (let new_signers = signers - {signer} in
      bindA (ask_signatures E subject_id (create_validator_request ve) new_signers (fst quorums)) (\<lambda>_.
      set_phase subject_id (Validate, new_signers, quorums)))"

definition validated ::
  "'b env \<Rightarrow> 'b ledger_task \<Rightarrow> digest_identifier \<Rightarrow> event signed \<Rightarrow> validation_event \<Rightarrow> digest_identifier \<Rightarrow>
     signature list \<Rightarrow> ('b, unit) eact" where
  "validated E L event_hash ev ve subject_id signatures =
     bindA (ask_ledger L (if ev_sn (content ev) = 0 then Genesis ev signatures (ve_proof ve)
       else OwnEvent ev signatures (ve_proof ve))) (\<lambda>_.
     bindA (edb (del_prevalidated_event E subject_id)) (\<lambda>_.
     bindA (edb (del_request E subject_id)) (\<lambda>_.
     bindA (tell_message EvChannelError (TaskCancel (dstr E subject_id))) (\<lambda>_.
     modA (\<lambda>s. s\<lparr>
       ec_to_validate := (ec_to_validate s)(event_hash := None),
       ec_validation_events := (ec_validation_events s)(event_hash := None),
       ec_validations := (ec_validations s)(event_hash := None),
       ec_completing := (ec_completing s)(subject_id := None)\<rparr>)))))"

text \<open>The validation is under our version of the governance.\<close>

definition accept_validation ::
  "'b env \<Rightarrow> 'b ledger_task \<Rightarrow> digest_identifier \<Rightarrow> event signed \<Rightarrow> validation_event \<Rightarrow> digest_identifier \<Rightarrow>
     signature \<Rightarrow> ('b, unit) eact" where
  "accept_validation E L event_hash ev ve subject_id g =
     bindA (in_phase Validate subject_id) (\<lambda>(signers, quorums).
     bindA (listed_signer ''The signer is not in the list of validators or we already have the validation''
       (sg_signer g) signers) (\<lambda>_.
     bindA (verified (signature_verify E g (PProof (ve_proof ve)))) (\<lambda>_.
     bindA (save_validation event_hash g) (\<lambda>validation_set.
     if of_nat (length validation_set) < fst quorums
     then more_validations E ve subject_id (sg_signer g) signers quorums
     else validated E L event_hash ev ve subject_id validation_set))))"

definition validation_signatures ::
  "'b env \<Rightarrow> completer_config \<Rightarrow> 'b ledger_task \<Rightarrow> digest_identifier \<Rightarrow> signature \<Rightarrow> u64 \<Rightarrow>
     ('b, unit) eact" where
  "validation_signatures E C L event_hash g governance_version =
     bindA (getA (\<lambda>s. ok_or (EvCryptoError (Inl ''The hash of the event does not match any of the events 1''))
       (ec_to_validate s event_hash))) (\<lambda>ev.
     bindA (getA (\<lambda>s. unwrap (ec_validation_events s event_hash))) (\<lambda>ve.
     bindA (liftA (validated_subject_id E C (content ev))) (\<lambda>subject_id.
     bindA (db_case (get_subject E subject_id) (\<lambda>r.
       case r of
         Inr su \<Rightarrow> retA (Some su)
       | Inl (Err EntryNotFound) \<Rightarrow> retA None
       | Inl e \<Rightarrow> liftA (map_err EvDatabaseError (Inl e)))) (\<lambda>subject.
     bindA (our_governance E (content ev) subject_id subject) (\<lambda>(our_version, governance_id).
     if our_version < governance_version then
       tell_message EvChannelError (TaskRequest None
         (request_gov_event (cc_own_identifier C) governance_id (our_version + 1)) {sg_signer g}
         \<lparr>mc_timeout = 2000, mc_replication_factor = 0x3FF0000000000000\<rparr>)
     else if our_version > governance_version then retA ()
     else accept_validation E L event_hash ev ve subject_id g)))))"

section \<open>The manager\<close>

datatype event_response = REvent "(digest_identifier, event_error) res" | RNoResponse

text \<open>An error of a command ends the task when a channel is closed; the other errors are answered
  or written to the log.\<close>

fun channel_is_closed :: "event_error \<Rightarrow> bool" where
  "channel_is_closed EvChannelClosed = True"
| "channel_is_closed (EvGovernanceError e) = (e = RChannelClosed)"
| "channel_is_closed _ = False"

definition attempt :: "('b, 'a) eact \<Rightarrow> (('a, event_error) res \<Rightarrow> event_response) \<Rightarrow> ('b, event_response) eact" where
  "attempt m f = (\<lambda>s.
     case m s of
       (Inl (Panic e), t) \<Rightarrow> (Inl (Panic e), t)
     | (Inl (Err e), t) \<Rightarrow>
         (if channel_is_closed e then Fail EvChannelClosed else Ok (f (Inl (Err e))), t)
     | (Inr x, t) \<Rightarrow> (Ok (f (Inr x)), t))"

text \<open>A command comes with a channel for the answer, open or dropped by now, or with none.\<close>

definition event_command_result ::
  "'b env \<Rightarrow> completer_config \<Rightarrow> 'b ledger_task \<Rightarrow> event_command \<Rightarrow> ('b, event_response) eact" where
  "event_command_result E C L c =
     (case c of
        EventCmd event_request \<Rightarrow> attempt (pre_new_event E C event_request) REvent
      | EvaluatorResponse r \<Rightarrow> attempt (evaluator_signatures E C r) (\<lambda>_. RNoResponse)
      | ApproverResponse a \<Rightarrow> attempt (approver_signatures E C a) (\<lambda>_. RNoResponse)
      | ValidatorResponse event_hash g governance_version \<Rightarrow>
          attempt (validation_signatures E C L event_hash g governance_version) (\<lambda>_. RNoResponse)
      | HigherGovernanceExpected governance_id who_asked \<Rightarrow>
          attempt (higher_governance_expected C governance_id who_asked) (\<lambda>_. RNoResponse))"

definition event_process_command ::
  "'b env \<Rightarrow> completer_config \<Rightarrow> 'b ledger_task \<Rightarrow> bool option \<Rightarrow> event_command \<Rightarrow>
     ('b, event_response option) eact" where
  "event_process_command E C L sender c =
     bindA (event_command_result E C L c) (\<lambda>response.
     case sender of
       None \<Rightarrow> retA None
     | Some True \<Rightarrow> retA (Some response)
     | Some False \<Rightarrow> liftA (Abort ''Sender Dropped''))"

section \<open>The task\<close>

datatype event_input =
    EInputCommand "(bool option \<times> event_command) option"
  | EInputUpdate "(digest_identifier \<times> u64) option"
  | EInputShutdown

definition event_turn ::
  "'b env \<Rightarrow> completer_config \<Rightarrow> 'b ledger_task \<Rightarrow> event_input \<Rightarrow> ('b, bool) eact" where
  "event_turn E C L i =
     (case i of
        EInputCommand (Some (sender, c)) \<Rightarrow> bindA (event_process_command E C L sender c) (\<lambda>_. retA True)
      | EInputCommand None \<Rightarrow> retA False
      | EInputUpdate (Some (governance_id, version)) \<Rightarrow>
          bindA (events_new_governance_version E C governance_id version) (\<lambda>_. retA True)
      | EInputUpdate None \<Rightarrow> retA False
      | EInputShutdown \<Rightarrow> retA False)"

text \<open>The Boolean is false when the task is over; it is over after an error too.\<close>

text \<open>
  The loop of the task over the inputs that arrive: it is left after an error and when a channel is
  closed, and then it cancels the token that the tasks of the node share; a panic unwinds the task
  before it gets there.
\<close>

datatype 'b event_end =
    Serving "'b completer"
  | TokenCancelled "'b completer"
  | TaskUnwound string "'b completer"

fun event_loop ::
  "'b env \<Rightarrow> completer_config \<Rightarrow> 'b ledger_task \<Rightarrow> event_input list \<Rightarrow> 'b completer \<Rightarrow> 'b event_end" where
  "event_loop E C L [] s = Serving s"
| "event_loop E C L (i # is) s =
     (case event_turn E C L i s of
        (Inr True, t) \<Rightarrow> event_loop E C L is t
      | (Inr False, t) \<Rightarrow> TokenCancelled t
      | (Inl (Err _), t) \<Rightarrow> TokenCancelled t
      | (Inl (Panic e), t) \<Rightarrow> TaskUnwound e t)"

definition event_run ::
  "'b env \<Rightarrow> completer_config \<Rightarrow> 'b ledger_task \<Rightarrow> event_input list \<Rightarrow> 'b completer \<Rightarrow> 'b event_end" where
  "event_run E C L is s =
     (case completer_init E C s of
        (Inr _, t) \<Rightarrow> event_loop E C L is t
      | (Inl (Err _), t) \<Rightarrow> TokenCancelled t
      | (Inl (Panic e), t) \<Rightarrow> TaskUnwound e t)"

definition event_api_send ::
  "('b completer \<Rightarrow> (event_response, event_error) res \<times> 'b completer) \<Rightarrow> bool \<Rightarrow> 'b completer \<Rightarrow>
     event_response \<times> 'b completer" where
  "event_api_send m channel_open s =
     (if \<not> channel_open then (REvent (Fail EventApiChannelNotAvailable), s)
      else case m s of
          (Inr r, t) \<Rightarrow> (r, t)
        | (Inl _, t) \<Rightarrow> (REvent (Fail EventApiChannelNotAvailable), t))"

end
