(* ===== verification/Completer_Laws.thy ===== *)
theory Completer_Laws
  imports Completer_Responses
begin

text \<open>
  What the event completer guarantees: everything it hands to the ledger is an event with
  signatures of different validators, enough for the quorum, for a proof of that event.
\<close>

section \<open>Results of actions\<close>

text \<open>\<open>gives P m Q\<close>: started where \<open>P\<close> holds, \<open>m\<close> only returns results that satisfy \<open>Q\<close>.\<close>

definition gives :: "('s \<Rightarrow> bool) \<Rightarrow> ('s, 'a, 'e) act \<Rightarrow> ('a \<Rightarrow> bool) \<Rightarrow> bool" where
  "gives P m Q \<longleftrightarrow> (\<forall>s x t. P s \<longrightarrow> m s = (Inr x, t) \<longrightarrow> Q x)"

lemma gives_simple:
  "gives P (liftA r) (\<lambda>x. r = Inr x)" "gives P (retA x) (\<lambda>y. y = x)" "gives P (failA e) Q"
  "gives P (getA f) (\<lambda>x. \<exists>s. P s \<and> f s = Inr x)" "gives P m (\<lambda>_. True)"
  by (auto simp: gives_def)

lemma gives_mono: "gives P m Q \<Longrightarrow> (\<And>x. Q x \<Longrightarrow> R x) \<Longrightarrow> gives P m R"
  by (auto simp: gives_def)

lemma gives_bindA:
  assumes "keeps P m" "gives P m Q" "\<And>x. Q x \<Longrightarrow> gives P (k x) R"
  shows "gives P (bindA m k) R"
  using assms by (fastforce simp: gives_def keeps_def bindA_eq_Inr)

lemma keeps_bindA_gives:
  assumes "keeps P m" "gives P m Q" "\<And>x. Q x \<Longrightarrow> keeps P (k x)"
  shows "keeps P (bindA m k)"
  unfolding keeps_def
proof (intro allI impI)
  fix s assume "P s"
  moreover obtain r t where "m s = (r, t)" by fastforce
  ultimately show "P (snd (bindA m k s))"
    using assms by (cases r) (auto simp: gives_def keeps_def bindA_run)
qed

section \<open>What the invariants are about\<close>

text \<open>Events to validate, their proofs, the signatures so far, and what went to the ledger.\<close>

type_synonym core =
  "(digest_identifier \<rightharpoonup> event signed) \<times> (digest_identifier \<rightharpoonup> validation_event) \<times>
   (digest_identifier \<rightharpoonup> signature list) \<times> ledger_command list"

definition on_core :: "(core \<Rightarrow> bool) \<Rightarrow> 'b completer \<Rightarrow> bool" where
  "on_core J s = J (ec_to_validate s, ec_validation_events s, ec_validations s, ec_ledger s)"

lemma keeps_core_basic [inv_intros]:
  "keeps (on_core J) (edb m)" "keeps (on_core J) (eread q)" "keeps (on_core J) (eask r)"
  "keeps (on_core J) (esubject x)" "keeps (on_core J) (ecrypto msg y)" "keeps (on_core J) clock_now"
  "keeps (on_core J) (set_phase i p)" "keeps (on_core J) (add_by_governance g i)"
  "keeps (on_core J) (tell_message f c)" "keeps (on_core J) (ask_signatures E i tm W n)"
  "keeps (on_core J) (in_phase st i)" "keeps (on_core J) (own_keys su)"
  "keeps (on_core J) (save_evaluation h e)" "keeps (on_core J) (save_approval h a)"
  "keeps (on_core J) (forget_approval h)" "keeps (on_core J) (verified v)"
  "keeps (on_core J) (listed_signer m2 k K)" "keeps (on_core J) (known_to_complete E i)"
  by (auto simp: keeps_def on_core_def edb_def eread_def eask_def esubject_def ecrypto_def clock_now_def
      set_phase_def add_by_governance_def tell_message_def ask_signatures_def in_phase_def own_keys_def
      save_evaluation_def save_approval_def forget_approval_def verified_def listed_signer_def
      known_to_complete_def dbA_def zoomA_def db_read_def ask_gov_def Let_def
      split: prod.splits sum.splits failure.splits gov_error.splits)

lemma keeps_core_signers [inv_intros]: "keeps (on_core J) (get_signers_and_quorum E md st)"
  unfolding get_signers_and_quorum_def by (intro inv_intros)

lemma keeps_core_sign [inv_intros]: "keeps (on_core J) (sign_now E C f p k)"
  unfolding sign_now_def by (intro inv_intros)

lemma keeps_core_derivator [inv_intros]: "keeps (on_core J) (previous_derivator E C su)"
  unfolding previous_derivator_def
  by (auto intro!: inv_intros split: sum.split failure.split db_error.split)

lemma keeps_core_validation_event [inv_intros]: "keeps (on_core J) (create_validation_event E C su ev v)"
  unfolding create_validation_event_def Let_def
  by (intro inv_intros)

lemma keeps_core_genesis_event [inv_intros]:
  "keeps (on_core J) (create_validation_event_from_genesis E C cr h v i k)"
  unfolding create_validation_event_from_genesis_def Let_def
  by (intro inv_intros)

lemma gives_genesis_event:
  "gives P (create_validation_event_from_genesis E C cr h v i k) (\<lambda>ve. vp_event_hash (ve_proof ve) = h)"
  by (auto simp: gives_def create_validation_event_from_genesis_def Let_def bindA_eq_Inr
      new_from_genesis_event_def)

text \<open>The hash in the proof of an event is the hash of the event.\<close>

definition hash_of :: "'b env \<Rightarrow> completer_config \<Rightarrow> event \<Rightarrow> digest_identifier \<Rightarrow> bool" where
  "hash_of E C ev h \<longleftrightarrow> from_serializable_borsh E (PEvent ev) (cc_derivator C) = Ok h"

lemma hash_of_unique: "hash_of E C ev h \<Longrightarrow> hash_of E C ev h' \<Longrightarrow> h = h'"
  by (simp add: hash_of_def)

lemma keeps_core_sign_event [inv_intros]: "keeps (on_core J) (sign_event E C msg ev su)"
  unfolding sign_event_def by (intro inv_intros)

lemma gives_validation_event:
  "gives P (create_validation_event E C su ev v) (\<lambda>ve. hash_of E C (content ev) (vp_event_hash (ve_proof ve)))"
  unfolding gives_def create_validation_event_def Let_def
  by (cases "content (ev_event_request (content ev))"; cases "su_keys su")
    (auto simp: bindA_eq_Inr esubject_def event_hash_id_def hash_of_def new_proof_def
      new_from_transfer_event_def)

lemma gives_sign_event: "gives P (sign_event E C msg ev su) (\<lambda>x. hash_of E C (content (snd x)) (fst x))"
  by (auto simp: gives_def sign_event_def bindA_eq_Inr esubject_def event_hash_id_def hash_of_def)

lemma gives_hash:
  "gives P (esubject (event_hash_id E ev (cc_derivator C))) (hash_of E C ev)"
  "gives P (ecrypto msg (from_serializable_borsh E (PEvent ev) (cc_derivator C))) (hash_of E C ev)"
  "gives P (liftA (map_err f (from_serializable_borsh E (PEvent ev) (cc_derivator C)))) (hash_of E C ev)"
  by (auto simp: gives_def esubject_def ecrypto_def event_hash_id_def hash_of_def)

text \<open>Going on after a step whose result is known.\<close>

lemma keeps_then_hash:
  "(\<And>h. hash_of E C ev h \<Longrightarrow> keeps (on_core J) (k h)) \<Longrightarrow>
     keeps (on_core J) (bindA (esubject (event_hash_id E ev (cc_derivator C))) k)"
  "(\<And>h. hash_of E C ev h \<Longrightarrow> keeps (on_core J) (k h)) \<Longrightarrow>
     keeps (on_core J) (bindA (ecrypto msg (from_serializable_borsh E (PEvent ev) (cc_derivator C))) k)"
  "(\<And>h. hash_of E C ev h \<Longrightarrow> keeps (on_core J) (k h)) \<Longrightarrow>
     keeps (on_core J) (bindA (liftA (map_err f (from_serializable_borsh E (PEvent ev) (cc_derivator C)))) k)"
  by (rule keeps_bindA_gives [OF keeps_core_basic(4) gives_hash(1)], assumption)
     (rule keeps_bindA_gives [OF keeps_core_basic(5) gives_hash(2)], assumption,
      rule keeps_bindA_gives [OF keeps_simple(3) gives_hash(3)])

lemma keeps_then_proof:
  "(\<And>ve. vp_event_hash (ve_proof ve) = h \<Longrightarrow> keeps (on_core J) (k ve)) \<Longrightarrow>
     keeps (on_core J) (bindA (create_validation_event_from_genesis E C cr h v i keys) k)"
  "(\<And>ve. hash_of E C (content ev) (vp_event_hash (ve_proof ve)) \<Longrightarrow> keeps (on_core J) (k ve)) \<Longrightarrow>
     keeps (on_core J) (bindA (create_validation_event E C su ev v) k)"
  by (rule keeps_bindA_gives [OF keeps_core_genesis_event gives_genesis_event], assumption)
     (rule keeps_bindA_gives [OF keeps_core_validation_event gives_validation_event])

lemma keeps_then_signed:
  "(\<And>h sev. hash_of E C (content sev) h \<Longrightarrow> keeps (on_core J) (k h sev)) \<Longrightarrow>
     keeps (on_core J) (bindA (sign_event E C msg ev su) (\<lambda>(h, sev). k h sev))"
  by (rule keeps_bindA_gives [OF keeps_core_sign_event gives_sign_event]) auto

lemmas core_rules = keeps_then_hash keeps_then_proof keeps_then_signed keeps_bindA keeps_prod keeps_if
  keeps_simple keeps_core_basic keeps_core_signers keeps_core_sign keeps_core_derivator

section \<open>What every operation but the last step of a validation keeps\<close>

text \<open>
  Registering an event under its hash, and a proof under the hash it names, are the only ways
  these operations change what the invariants are about.
\<close>

locale event_registry =
  fixes E :: "'b env" and C :: completer_config and J :: "core \<Rightarrow> bool"
  assumes event: "J (a, b, c, l) \<Longrightarrow> hash_of E C (content ev) h \<Longrightarrow> J (a(h \<mapsto> ev), b, c, l)"
    and proof_of: "J (a, b, c, l) \<Longrightarrow> vp_event_hash (ve_proof ve) = h \<Longrightarrow> J (a, b(h \<mapsto> ve), c, l)"
begin

lemma keeps_set_to_validate: "hash_of E C (content ev) h \<Longrightarrow> keeps (on_core J) (set_to_validate h ev)"
  using event by (auto simp: keeps_def on_core_def set_to_validate_def)

lemma keeps_set_validation_event:
  "vp_event_hash (ve_proof ve) = h \<Longrightarrow> keeps (on_core J) (set_validation_event h ve)"
  using proof_of by (auto simp: keeps_def on_core_def set_validation_event_def)

lemma keeps_new_genesis: "keeps (on_core J) (new_genesis E C r er cr)"
proof -
  have keys: "keeps (on_core J) (genesis_keys E C er cr)"
    unfolding genesis_keys_def
    by (auto intro!: inv_intros split: sum.split failure.split db_error.split)
  have gov: "keeps (on_core J) (genesis_governance E C cr)"
    unfolding genesis_governance_def by (intro inv_intros)
  show ?thesis
    unfolding new_genesis_def
    by (rule core_rules keys gov keeps_set_to_validate keeps_set_validation_event
        | assumption)+
qed

lemma keeps_no_eval: "keeps (on_core J) (create_event_prevalidated_no_eval E C er su v)"
  unfolding create_event_prevalidated_no_eval_def Let_def
  by (rule core_rules keeps_set_to_validate | simp)+

lemma keeps_transfer: "keeps (on_core J) (process_transfer_or_eol_event E C er su v)"
proof -
  have allowed: "keeps (on_core J) (transfer_or_eol_allowed E C er su)"
    unfolding transfer_or_eol_allowed_def Let_def
    by (cases "content er") (auto intro!: inv_intros)
  have start: "keeps (on_core J) (start_validation E i md ve)" for i md ve
    unfolding start_validation_def by (intro inv_intros)
  show ?thesis
    unfolding process_transfer_or_eol_event_def Let_def
    by (rule core_rules allowed keeps_no_eval start keeps_set_validation_event | erule (1) hash_of_unique)+
qed

lemma keeps_fact: "keeps (on_core J) (new_fact E C er i su v)"
proof -
  have may: "keeps (on_core J) (may_issue E C md er i)" for md
    unfolding may_issue_def Let_def by (intro inv_intros)
  have pre: "keeps (on_core J) (modA (\<lambda>s. s\<lparr>ec_pre_evaluations := f s\<rparr>))" for f
    by (simp add: keeps_def on_core_def)
  show ?thesis
    unfolding new_fact_def Let_def
    by (intro keeps_bindA keeps_prod keeps_core_basic keeps_core_signers may pre)
qed

lemma keeps_new_event: "keeps (on_core J) (new_event E C er)"
proof -
  have owned: "keeps (on_core J) (owned_subject E i)" for i
    unfolding owned_subject_def
    by (auto intro!: inv_intros split: sum.split failure.split db_error.split)
  have reg: "keeps (on_core J) (register_request E r q su)" for r q su
    unfolding register_request_def by (intro inv_intros)
  show ?thesis
    unfolding new_event_def
    by (cases "content er")
      (auto intro!: keeps_bindA keeps_simple keeps_new_genesis keeps_fact keeps_transfer
        keeps_core_basic owned reg)
qed

lemma keeps_pre_new_event: "keeps (on_core J) (pre_new_event E C er)"
  unfolding pre_new_event_def
  by (cases "content er")
    (auto intro!: keeps_bindA keeps_simple keeps_core_basic keeps_new_event keeps_db_case
      split: sum.split failure.split db_error.split)

lemma keeps_start_up: "keeps (on_core J) (completer_init E C)"
proof -
  have resume: "keeps (on_core J) (resume_validation E C su ev)" for su ev
    unfolding resume_validation_def
    by (rule core_rules keeps_set_to_validate keeps_set_validation_event | assumption | erule (1) hash_of_unique)+
  have "keeps (on_core J) (resume_subject E C su)" for su
    unfolding resume_subject_def
    by (auto intro!: keeps_bindA keeps_db_case keeps_simple keeps_core_basic resume keeps_new_event
        split: sum.split failure.split db_error.split)
  then show ?thesis unfolding completer_init_def by (intro inv_intros)
qed

lemma keeps_restart_request: "keeps (on_core J) (restart_request E C i)"
proof -
  have "keeps (on_core J) (bindA (new_event E C er) (\<lambda>_. retA ()))" for er
    by (intro keeps_bindA keeps_new_event keeps_simple)
  then show ?thesis
    unfolding restart_request_def
    by (auto intro!: keeps_db_case keeps_simple split: sum.split failure.split db_error.split event_request.split)
qed

lemma keeps_restart_genesis: "keeps (on_core J) (restart_genesis E C i ev)"
proof -
  have "keeps (on_core J) (modA (\<lambda>s. s\<lparr>ec_completing := f s, ec_subjects_by_governance := g s\<rparr>))" for f g
    by (simp add: keeps_def on_core_def)
  then show ?thesis
    unfolding restart_genesis_def by (intro keeps_bindA keeps_new_event keeps_simple keeps_core_basic)
qed

lemma keeps_restart_validation: "keeps (on_core J) (restart_validation E C v i ev)"
  unfolding restart_validation_def
  by (rule core_rules keeps_set_validation_event | erule (1) hash_of_unique)+

lemma keeps_update: "keeps (on_core J) (events_new_governance_version E C g v)"
proof -
  have "keeps (on_core J) (restart_subject E C v i)" for i
    unfolding restart_subject_def
    by (auto intro!: keeps_bindA keeps_db_case keeps_simple keeps_restart_request keeps_restart_genesis
        keeps_restart_validation split: sum.split failure.split db_error.split event_request.split)
  then have "keeps (on_core J) (forA (restart_subject E C v) is)" for "is" by (intro keeps_forA)
  then show ?thesis by (auto simp: keeps_def events_new_governance_version_def split: option.split)
qed

lemma keeps_to_be_validated:
  assumes "hash_of E C (content ev) h" "hash_of E C (content ev) (vp_event_hash (ve_proof ve))"
  shows "keeps (on_core J) (to_be_validated E su h ev ve)"
  unfolding to_be_validated_def
  by (intro keeps_bindA keeps_core_basic keeps_set_to_validate keeps_set_validation_event assms(1)
      hash_of_unique [OF assms(2,1)])

lemma keeps_evaluated: "keeps (on_core J) (evaluated E C q r i su v gs)"
proof -
  have maps: "keeps (on_core J) (modA (\<lambda>s. s\<lparr>ec_approval_evaluators := f s, ec_approval_requests := g s\<rparr>))"
    "keeps (on_core J) (modA (\<lambda>s. s\<lparr>ec_evaluations := f' s, ec_pre_evaluations := g' s\<rparr>))" for f g f' g'
    by (simp_all add: keeps_def on_core_def)
  have prev: "keeps (on_core J) (previous_event_hash E C su)"
    unfolding previous_event_hash_def by (intro inv_intros)
  have approve: "keeps (on_core J) (evaluated_to_approve E C q r su v h gs)" for h
    unfolding evaluated_to_approve_def Let_def by (intro inv_intros maps)
  have validate: "keeps (on_core J) (evaluated_to_validate E C q r i su v h gs)" for h
    unfolding evaluated_to_validate_def
    by (rule core_rules keeps_to_be_validated | assumption)+
  have phase: "keeps (on_core J) (next_phase E i md st m)" for md st m
    unfolding next_phase_def by (intro inv_intros)
  show ?thesis
    unfolding evaluated_def by (intro inv_intros prev maps approve validate phase)
qed

lemma keeps_evaluator: "keeps (on_core J) (evaluator_signatures E C r)"
proof -
  have more: "keeps (on_core J) (more_evaluations E q i k K n m)" for q i k K n m
    unfolding more_evaluations_def Let_def by (intro inv_intros)
  show ?thesis
    unfolding evaluator_signatures_def Let_def by (intro inv_intros more keeps_evaluated)
qed

lemma keeps_approved: "keeps (on_core J) (approved_to_validate E C a i su gs)"
  unfolding approved_to_validate_def Let_def
  by (rule core_rules keeps_to_be_validated | assumption)+

lemma keeps_approver: "keeps (on_core J) (approver_signatures E C a)"
proof -
  have more: "keeps (on_core J) (more_approvals E q i k K n m)" for q i k K n m
    unfolding more_approvals_def by (intro inv_intros)
  show ?thesis
    unfolding approver_signatures_def Let_def by (intro inv_intros more keeps_approved)
qed

end


section \<open>What goes to the ledger\<close>

text \<open>A signature of some proof of the event with this hash.\<close>

definition event_validation :: "'b env \<Rightarrow> digest_identifier \<Rightarrow> signature \<Rightarrow> bool" where
  "event_validation E h g \<longleftrightarrow> (\<exists>p. vp_event_hash p = h \<and> signature_verify E g (PProof p) = Ok ())"

definition validations_ok :: "'b env \<Rightarrow> digest_identifier \<Rightarrow> signature list \<Rightarrow> bool" where
  "validations_ok E h gs \<longleftrightarrow> distinct (map sg_signer gs) \<and> (\<forall>g \<in> set gs. event_validation E h g)"

definition ledger_request_ok :: "'b env \<Rightarrow> completer_config \<Rightarrow> ledger_command \<Rightarrow> bool" where
  "ledger_request_ok E C c \<longleftrightarrow> (\<exists>ev gs p.
     (c = Genesis ev gs p \<and> ev_sn (content ev) = 0 \<or> c = OwnEvent ev gs p \<and> ev_sn (content ev) \<noteq> 0) \<and>
     hash_of E C (content ev) (vp_event_hash p) \<and> validations_ok E (vp_event_hash p) gs \<and>
     (\<exists>g \<in> set gs. signature_verify E g (PProof p) = Ok ()))"

definition completer_inv :: "'b env \<Rightarrow> completer_config \<Rightarrow> core \<Rightarrow> bool" where
  "completer_inv E C = (\<lambda>(a, b, c, l).
     (\<forall>h ev. a h = Some ev \<longrightarrow> hash_of E C (content ev) h) \<and>
     (\<forall>h ve. b h = Some ve \<longrightarrow> vp_event_hash (ve_proof ve) = h) \<and>
     (\<forall>h gs. c h = Some gs \<longrightarrow> validations_ok E h gs) \<and>
     (\<forall>r \<in> set l. ledger_request_ok E C r))"

interpretation completed: event_registry E C "completer_inv E C" for E C
  by unfold_locales (auto simp: completer_inv_def)

interpretation unasked: event_registry E C "\<lambda>(_, _, _, l). l = l\<^sub>0" for E C l\<^sub>0
  by unfold_locales auto

lemma save_in_signer:
  assumes "case xs of None \<Rightarrow> True | Some xs \<Rightarrow> validations_ok E h xs" "event_validation E h g"
  shows "validations_ok E h (save_in same_signer xs g)" "g \<in> set (save_in same_signer xs g)"
proof -
  have "validations_ok E h (filter (\<lambda>k. \<not> same_signer g k) gs @ [g])" if "validations_ok E h gs" for gs
  proof -
    have "distinct (map sg_signer (filter (\<lambda>k. \<not> same_signer g k) gs))"
      using that by (simp add: validations_ok_def distinct_map_filter)
    then show ?thesis using that assms(2) by (auto simp: validations_ok_def same_signer_def)
  qed
  then show "validations_ok E h (save_in same_signer xs g)" "g \<in> set (save_in same_signer xs g)"
    using assms by (auto simp: save_in_def insert_or_replace_and_check_def validations_ok_def split: option.splits)
qed

lemma keeps_save_validation:
  fixes E :: "'b env"
  assumes g: "event_validation E h g"
  shows "keeps (on_core (completer_inv E C)) (save_validation h g :: ('b, _) eact)"
  unfolding keeps_def
proof (intro allI impI)
  fix s :: "'b completer"
  assume s: "on_core (completer_inv E C) s"
  have "validations_ok E h (save_in same_signer (ec_validations s h) g)"
    by (rule save_in_signer(1) [OF _ g]) (use s in \<open>auto simp: on_core_def completer_inv_def split: option.split\<close>)
  then show "on_core (completer_inv E C) (snd (save_validation h g s))"
    using s by (simp add: on_core_def completer_inv_def save_validation_def Let_def)
qed

lemma gives_save_validation:
  fixes E :: "'b env"
  assumes g: "event_validation E h g"
  shows "gives (on_core (completer_inv E C)) (save_validation h g :: ('b, _) eact)
     (\<lambda>gs. validations_ok E h gs \<and> g \<in> set gs)"
  unfolding gives_def
proof (intro allI impI)
  fix s t :: "'b completer" and gs
  assume s: "on_core (completer_inv E C) s"
    and run: "save_validation h g s = (Inr gs, t)"
  have "case ec_validations s h of None \<Rightarrow> True | Some xs \<Rightarrow> validations_ok E h xs"
    using s by (auto simp: on_core_def completer_inv_def split: option.split)
  then show "validations_ok E h gs \<and> g \<in> set gs"
    using save_in_signer [OF _ g] run by (auto simp: save_validation_def Let_def)
qed

lemma keeps_validated:
  assumes "hash_of E C (content ev) h" "vp_event_hash (ve_proof ve) = h" "validations_ok E h gs"
    and "g \<in> set gs" "signature_verify E g (PProof (ve_proof ve)) = Ok ()"
  shows "keeps (on_core (completer_inv E C)) (validated E L h ev ve i gs)"
proof -
  let ?c = "if ev_sn (content ev) = 0 then Genesis ev gs (ve_proof ve) else OwnEvent ev gs (ve_proof ve)"
  have "keeps (on_core (completer_inv E C)) (ask_ledger L c)" if "ledger_request_ok E C c" for c
    using that by (simp add: keeps_def ask_ledger_def on_core_def completer_inv_def split: prod.split)
  moreover have "ledger_request_ok E C ?c"
    using assms by (auto simp: ledger_request_ok_def)
  moreover have "keeps (on_core (completer_inv E C)) (modA (\<lambda>s. s\<lparr>
       ec_to_validate := (ec_to_validate s)(h := None),
       ec_validation_events := (ec_validation_events s)(h := None),
       ec_validations := (ec_validations s)(h := None),
       ec_completing := (ec_completing s)(i := None)\<rparr>))"
    by (auto simp: keeps_def on_core_def completer_inv_def)
  ultimately show ?thesis
    unfolding validated_def by (blast intro: keeps_bindA keeps_core_basic)
qed

lemma keeps_accept:
  assumes "hash_of E C (content ev) h" "vp_event_hash (ve_proof ve) = h"
  shows "keeps (on_core (completer_inv E C)) (accept_validation E L h ev ve i g)"
proof -
  have more: "keeps (on_core (completer_inv E C)) (more_validations E ve i k K q)" for k K q
    unfolding more_validations_def Let_def by (intro inv_intros)
  have checked: "gives P (verified (signature_verify E g (PProof (ve_proof ve))))
      (\<lambda>_. signature_verify E g (PProof (ve_proof ve)) = Ok ())" for P :: "'b completer \<Rightarrow> bool"
    by (auto simp: gives_def verified_def)
  have rest: "keeps (on_core (completer_inv E C)) (bindA (save_validation h g) (\<lambda>gs.
      if of_nat (length gs) < fst q then more_validations E ve i (sg_signer g) K q
      else validated E L h ev ve i gs))"
    if v: "signature_verify E g (PProof (ve_proof ve)) = Ok ()" for q :: "u32 \<times> u32" and K
  proof -
    have e: "event_validation E h g" using v assms(2) by (auto simp: event_validation_def)
    show ?thesis
      by (rule keeps_bindA_gives [OF keeps_save_validation [OF e] gives_save_validation [OF e]])
        (auto intro!: more keeps_validated [OF assms _ _ v])
  qed
  show ?thesis
    unfolding accept_validation_def
    by (rule keeps_bindA_gives [OF keeps_core_basic(16) checked] keeps_bindA keeps_prod keeps_core_basic rest
        | assumption)+
qed


lemma keeps_validation_signatures:
  "keeps (on_core (completer_inv E C)) (validation_signatures E C L h g v)"
proof -
  let ?I = "on_core (completer_inv E C)"
  have ev: "gives ?I (getA (\<lambda>s. ok_or e (ec_to_validate s h))) (\<lambda>ev. hash_of E C (content ev) h)" for e
    by (auto simp: gives_def on_core_def completer_inv_def)
  have ve: "gives ?I (getA (\<lambda>s. unwrap (ec_validation_events s h))) (\<lambda>ve. vp_event_hash (ve_proof ve) = h)"
    by (auto simp: gives_def on_core_def completer_inv_def)
  have subject: "keeps ?I (db_case (get_subject E i) (\<lambda>r. case r of
         Inr su \<Rightarrow> retA (Some su)
       | Inl (Err EntryNotFound) \<Rightarrow> retA None
       | Inl e \<Rightarrow> liftA (map_err EvDatabaseError (Inl e))))" for i
    by (auto intro!: keeps_db_case keeps_simple split: sum.split failure.split db_error.split)
  have ours: "keeps ?I (our_governance E x i su)" for x i su
    unfolding our_governance_def
    by (auto intro!: keeps_bindA keeps_simple keeps_core_basic split: option.split event_request.split)
  show ?thesis
    unfolding validation_signatures_def
    by (rule keeps_bindA_gives [OF keeps_simple(4) ev] keeps_bindA_gives [OF keeps_simple(4) ve]
        keeps_bindA keeps_prod keeps_if subject ours keeps_simple keeps_core_basic keeps_accept | assumption)+
qed

section \<open>Runs\<close>

lemma keeps_attempt: "keeps P m \<Longrightarrow> keeps P (attempt m f)"
  by (fastforce simp: keeps_def attempt_def split: sum.split failure.split prod.split)

text \<open>A turn that handles no validation leaves the requests to the ledger alone, and all keep the
  invariant.\<close>

lemma keeps_process_command:
  assumes "keeps P (event_command_result E C L c)"
  shows "keeps P (event_process_command E C L sender c)"
proof -
  have "keeps P (case sender of None \<Rightarrow> retA None | Some True \<Rightarrow> retA (Some r)
      | Some False \<Rightarrow> liftA (Abort ''Sender Dropped''))" for r
    by (auto intro!: keeps_simple split: option.split bool.split)
  then show ?thesis
    unfolding event_process_command_def by (intro keeps_bindA assms)
qed

lemma keeps_higher: "keeps (on_core J) (higher_governance_expected C i k)"
  unfolding higher_governance_expected_def by (rule keeps_core_basic)

lemma keeps_turn: "keeps (on_core (completer_inv E C)) (event_turn E C L i)"
proof -
  have "keeps (on_core (completer_inv E C)) (event_command_result E C L c)" for c
    unfolding event_command_result_def
    by (cases c) (simp_all add: keeps_attempt completed.keeps_pre_new_event completed.keeps_evaluator
        completed.keeps_approver keeps_validation_signatures keeps_higher)
  then show ?thesis
    unfolding event_turn_def
    by (auto intro!: keeps_bindA keeps_simple keeps_process_command completed.keeps_update
        split: event_input.split option.split)
qed

lemma turn_without_validation:
  assumes "\<nexists>sender h g v. i = EInputCommand (Some (sender, ValidatorResponse h g v))"
    and "event_turn E C L i s = (r, t)"
  shows "ec_ledger t = ec_ledger s"
proof -
  let ?J = "\<lambda>(_, _, _, l). l = ec_ledger s"
  have "keeps (on_core ?J) (event_command_result E C L c)" if "\<nexists>h g v. c = ValidatorResponse h g v" for c
    using that unfolding event_command_result_def
    by (cases c) (simp_all add: keeps_attempt unasked.keeps_pre_new_event unasked.keeps_evaluator
        unasked.keeps_approver keeps_higher)
  then have "keeps (on_core ?J) (event_turn E C L i)"
    using assms(1) unfolding event_turn_def
    by (auto intro!: keeps_bindA keeps_simple keeps_process_command unasked.keeps_update
        split: event_input.split option.split)
  from keepsD [OF this, of s] show ?thesis using assms(2) by (simp add: on_core_def)
qed

text \<open>
  The runs of the completer: the start-up, the turns of its task, and steps of the other tasks
  of the node, which change the database and the channels but not its maps.
\<close>

inductive event_step :: "'b env \<Rightarrow> completer_config \<Rightarrow> 'b ledger_task \<Rightarrow> 'b completer \<Rightarrow> 'b completer \<Rightarrow> bool"
  for E C L where
  Start: "completer_init E C s = (r, t) \<Longrightarrow> event_step E C L s t"
| Turn: "event_turn E C L i s = (r, t) \<Longrightarrow> event_step E C L s t"
| Others: "event_step E C L s (s\<lparr>nd_db := d, nd_gov_alive := alive, nd_message_open := msgs_open,
    nd_messages := msgs, ec_ledger_open := ledger_open\<rparr>)"

definition completer_fresh :: "'b completer \<Rightarrow> bool" where
  "completer_fresh s \<longleftrightarrow> ec_to_validate s = Map.empty \<and> ec_validation_events s = Map.empty \<and>
     ec_validations s = Map.empty \<and> ec_ledger s = []"

lemma fresh_inv: "completer_fresh s \<Longrightarrow> on_core (completer_inv E C) s"
  by (simp add: completer_fresh_def on_core_def completer_inv_def)

lemma event_step_inv:
  "event_step E C L s t \<Longrightarrow> on_core (completer_inv E C) s \<Longrightarrow> on_core (completer_inv E C) t"
proof (induction rule: event_step.induct)
  case (Start s r t)
  then show ?case using keepsD [OF completed.keeps_start_up [where E = E and C = C], of s] by simp
next
  case (Turn i s r t)
  then show ?case using keepsD [OF keeps_turn [where E = E and C = C and L = L and i = i], of s] by simp
next
  case (Others s d alive msgs_open msgs ledger_open)
  then show ?case by (simp add: on_core_def)
qed

lemma event_run_inv:
  "(event_step E C L)\<^sup>*\<^sup>* s t \<Longrightarrow> on_core (completer_inv E C) s \<Longrightarrow> on_core (completer_inv E C) t"
  by (induction rule: rtranclp_induct) (auto dest: event_step_inv)

section \<open>A request to the ledger\<close>

lemma asks_later:
  assumes "bindA m k s = (r, t)" "ec_ledger t \<noteq> ec_ledger s" "\<And>J. keeps (on_core J) m"
  obtains x u where "m s = (Inr x, u)" "k x u = (r, t)" "ec_ledger u = ec_ledger s"
    "ec_validations u = ec_validations s"
proof -
  obtain y u where m: "m s = (y, u)" by fastforce
  then have u: "ec_ledger u = ec_ledger s" "ec_validations u = ec_validations s"
    using keepsD [OF assms(3) [of "\<lambda>(_, _, c, l). l = ec_ledger s \<and> c = ec_validations s"], of s]
    by (simp_all add: on_core_def)
  then show ?thesis using assms(1,2) m that by (cases y) (auto simp: bindA_run)
qed

lemma in_phase_Ok: "in_phase st i s = (Inr p, t) \<longleftrightarrow> t = s \<and> ec_completing s i = Some (st, p)"
  by (auto simp: in_phase_def split: option.splits if_splits)

lemma more_keeps_core [inv_intros]: "keeps (on_core J) (more_validations E ve i k K q)"
  unfolding more_validations_def Let_def by (intro inv_intros)

lemma validated_state:
  "ec_ledger (snd (validated E L h ev ve i gs s)) = ec_ledger (snd (ask_ledger L (if ev_sn (content ev) = 0
    then Genesis ev gs (ve_proof ve) else OwnEvent ev gs (ve_proof ve)) s))"
proof -
  let ?c = "if ev_sn (content ev) = 0 then Genesis ev gs (ve_proof ve) else OwnEvent ev gs (ve_proof ve)"
  obtain x u where ask: "ask_ledger L ?c s = (x, u)" by fastforce
  have rest: "keeps (on_core (\<lambda>(_, _, _, l). l = ec_ledger u)) (bindA (edb (del_prevalidated_event E i)) (\<lambda>_.
     bindA (edb (del_request E i)) (\<lambda>_.
     bindA (tell_message EvChannelError (TaskCancel (dstr E i))) (\<lambda>_.
     modA (\<lambda>s. s\<lparr>
       ec_to_validate := (ec_to_validate s)(h := None),
       ec_validation_events := (ec_validation_events s)(h := None),
       ec_validations := (ec_validations s)(h := None),
       ec_completing := (ec_completing s)(i := None)\<rparr>)))))"
    by (intro keeps_bindA keeps_core_basic keeps_modA) (simp add: on_core_def)
  show ?thesis
    using ask keepsD [OF rest, of u]
    by (cases x) (auto simp: validated_def bindA_run on_core_def)
qed

lemma asked_validated:
  assumes "validated E L h ev ve i gs s = (r, t)"
  shows "ec_ledger t = ec_ledger s \<or> ec_ledger t = ec_ledger s @ [if ev_sn (content ev) = 0
    then Genesis ev gs (ve_proof ve) else OwnEvent ev gs (ve_proof ve)]"
  using validated_state [of E L h ev ve i gs s] assms by (auto simp: ask_ledger_def split: prod.split)

lemma asked_validated_open:
  "ec_ledger_open s \<Longrightarrow> ec_ledger (snd (validated E L h ev ve i gs s)) = ec_ledger s @ [if ev_sn (content ev) = 0
    then Genesis ev gs (ve_proof ve) else OwnEvent ev gs (ve_proof ve)]"
  unfolding validated_state by (simp add: ask_ledger_def split: prod.split)

lemma asked_accept:
  assumes run: "accept_validation E L h ev ve j g s = (r, t)" and asked: "ec_ledger t \<noteq> ec_ledger s"
  shows "\<exists>K q n gs. ec_completing s j = Some (Validate, K, q, n) \<and> sg_signer g \<in> K \<and>
    signature_verify E g (PProof (ve_proof ve)) = Ok () \<and>
    gs = save_in same_signer (ec_validations s h) g \<and> q \<le> of_nat (length gs) \<and>
    ec_ledger t = ec_ledger s @ [if ev_sn (content ev) = 0
      then Genesis ev gs (ve_proof ve) else OwnEvent ev gs (ve_proof ve)]"
proof -
  let ?gs = "save_in same_signer (ec_validations s h) g"
  from run obtain K q n where phase: "ec_completing s j = Some (Validate, K, q, n)"
    using asked by (auto simp: accept_validation_def bindA_run in_phase_def split: option.splits if_splits)
  then have signer: "sg_signer g \<in> K"
    using run asked by (auto simp: accept_validation_def bindA_run in_phase_def listed_signer_def fail_if_def
        split: if_splits)
  have verify: "signature_verify E g (PProof (ve_proof ve)) = Ok ()"
    using run asked phase signer
    by (cases "signature_verify E g (PProof (ve_proof ve))")
      (auto simp: accept_validation_def bindA_run in_phase_def listed_signer_def verified_def fail_if_def
        split: sum.splits)
  let ?u = "s\<lparr>ec_validations := (ec_validations s)(h \<mapsto> ?gs)\<rparr>"
  have step: "(if of_nat (length ?gs) < q then more_validations E ve j (sg_signer g) K (q, n)
      else validated E L h ev ve j ?gs) ?u = (r, t)"
    using run phase signer verify
    by (simp add: accept_validation_def bindA_run in_phase_def listed_signer_def verified_def
        save_validation_def Let_def)
  have quorum: "q \<le> of_nat (length ?gs)"
  proof (rule ccontr)
    assume "\<not> q \<le> of_nat (length ?gs)"
    then have "more_validations E ve j (sg_signer g) K (q, n) ?u = (r, t)"
      using step by (simp add: not_le)
    then show False
      using asked keepsD [OF more_keeps_core [of "\<lambda>(_, _, _, l). l = ec_ledger s" E ve j "sg_signer g" K "(q, n)"], of ?u]
      by (simp add: on_core_def)
  qed
  have "validated E L h ev ve j ?gs ?u = (r, t)" using step unfolding if_not_P [OF leD [OF quorum]] .
  from asked_validated [OF this] asked have "ec_ledger t = ec_ledger s @ [if ev_sn (content ev) = 0
      then Genesis ev ?gs (ve_proof ve) else OwnEvent ev ?gs (ve_proof ve)]" by simp
  with phase signer verify quorum show ?thesis by blast
qed

text \<open>Before the phase is looked at, only the governance module can notice anything.\<close>

lemma asked_signatures:
  assumes run: "validation_signatures E C L h g v s = (r, t)" and asked: "ec_ledger t \<noteq> ec_ledger s"
  shows "\<exists>ev ve j. ec_to_validate s h = Some ev \<and> ec_validation_events s h = Some ve \<and>
    validated_subject_id E C (content ev) = Ok j \<and> accept_validation E L h ev ve j g s = (r, t)"
proof -
  obtain ev where ev: "ec_to_validate s h = Some ev"
    using run asked by (cases "ec_to_validate s h") (auto simp: validation_signatures_def bindA_run)
  obtain ve where ve: "ec_validation_events s h = Some ve"
    using run asked ev
    by (cases "ec_validation_events s h") (auto simp: validation_signatures_def bindA_run)
  obtain j where j: "validated_subject_id E C (content ev) = Ok j"
    using run asked ev ve
    by (cases "validated_subject_id E C (content ev)") (auto simp: validation_signatures_def bindA_run)
  obtain su where run': "bindA (our_governance E (content ev) j su) (\<lambda>(our_version, governance_id).
     if our_version < v then
       tell_message EvChannelError (TaskRequest None
         (request_gov_event (cc_own_identifier C) governance_id (our_version + 1)) {sg_signer g}
         \<lparr>mc_timeout = 2000, mc_replication_factor = 0x3FF0000000000000\<rparr>)
     else if our_version > v then retA ()
     else accept_validation E L h ev ve j g) s = (r, t)"
    using run asked ev ve j
    by (auto simp: validation_signatures_def bindA_run db_case_def split: sum.splits failure.splits db_error.splits)
  have "keeps (on_core J) (our_governance E (content ev) j su)" for J
    unfolding our_governance_def
    by (auto intro!: keeps_bindA keeps_simple keeps_core_basic split: option.split event_request.split)
  from asks_later [OF run' asked this] obtain x u where
    ours: "our_governance E (content ev) j su s = (Inr x, u)"
    and rest: "(case x of (our_version, governance_id) \<Rightarrow>
     if our_version < v then
       tell_message EvChannelError (TaskRequest None
         (request_gov_event (cc_own_identifier C) governance_id (our_version + 1)) {sg_signer g}
         \<lparr>mc_timeout = 2000, mc_replication_factor = 0x3FF0000000000000\<rparr>)
     else if our_version > v then retA ()
     else accept_validation E L h ev ve j g) u = (r, t)" by (metis (no_types, lifting))
  have u: "u = s"
    using ours by (auto simp: our_governance_def bindA_eq_Inr eask_def ask_gov_eq_Inr
        split: option.splits if_splits event_request.splits)
  have "accept_validation E L h ev ve j g s = (r, t)"
    using rest asked unfolding u by (cases x) (auto simp: tell_message_def split: if_splits)
  with ev ve j show ?thesis by blast
qed

lemma attempt_state: "snd (attempt m f s) = snd (m s)"
  by (auto simp: attempt_def split: prod.split sum.split failure.split)

lemma asked_turn:
  assumes run: "event_turn E C L i s = (r, t)" and asked: "ec_ledger t \<noteq> ec_ledger s"
  shows "\<exists>sender h g v y. i = EInputCommand (Some (sender, ValidatorResponse h g v)) \<and>
    validation_signatures E C L h g v s = (y, t)"
proof -
  obtain sender h g v where i: "i = EInputCommand (Some (sender, ValidatorResponse h g v))"
    using turn_without_validation [OF _ run] asked by blast
  have "snd (event_turn E C L i s) = snd (validation_signatures E C L h g v s)"
    using attempt_state [of "validation_signatures E C L h g v" "\<lambda>_. RNoResponse" s]
    by (auto simp: i event_turn_def event_process_command_def event_command_result_def bindA_run
        split: prod.split sum.split option.split bool.split)
  then have "snd (validation_signatures E C L h g v s) = t" using run by simp
  then show ?thesis using i by (metis prod.collapse)
qed

end
