(* ===== verification/Completer_Transfers.thy ===== *)
theory Completer_Transfers
  imports Completer_Laws
begin

text \<open>
  What the event completer does with a transfer: a node that is ready accepts a valid request
  whoever signed it, and a new version of the governance while it is being validated ends the
  task. And what a new version does to the validations collected so far.
\<close>

section \<open>The database and the messages\<close>

lemma keeps_db_event [inv_intros]:
  fixes P :: "'b data_store \<Rightarrow> bool"
  shows "keeps (on_db P :: 'b completer \<Rightarrow> bool) (eread q)"
    "keeps (on_db P :: 'b completer \<Rightarrow> bool) (eask r)"
    "keeps (on_db P :: 'b completer \<Rightarrow> bool) (esubject x)"
    "keeps (on_db P :: 'b completer \<Rightarrow> bool) (ecrypto msg y)"
    "keeps (on_db P) (clock_now :: ('b, timestamp) eact)"
    "keeps (on_db P :: 'b completer \<Rightarrow> bool) (set_phase i p)"
    "keeps (on_db P :: 'b completer \<Rightarrow> bool) (set_to_validate h ev)"
    "keeps (on_db P :: 'b completer \<Rightarrow> bool) (set_validation_event h ve)"
    "keeps (on_db P :: 'b completer \<Rightarrow> bool) (add_by_governance g i)"
    "keeps (on_db P :: 'b completer \<Rightarrow> bool) (ask_signatures E i tm W n)"
    "keeps (on_db P :: 'b completer \<Rightarrow> bool) (own_keys su)"
  by (auto simp: keeps_def on_db_def eread_def eask_def esubject_def ecrypto_def clock_now_def
      set_phase_def set_to_validate_def set_validation_event_def add_by_governance_def
      ask_signatures_def own_keys_def db_read_def Let_def)

lemma keeps_edb: "keeps P m \<Longrightarrow> keeps (on_db P :: 'b completer \<Rightarrow> bool) (edb m)"
  unfolding edb_def by (rule keeps_dbA)

lemma keeps_db_signers [inv_intros]:
  "keeps (on_db P :: 'b completer \<Rightarrow> bool) (get_signers_and_quorum E md st)"
  unfolding get_signers_and_quorum_def by (intro inv_intros)

lemma keeps_db_sign [inv_intros]: "keeps (on_db P :: 'b completer \<Rightarrow> bool) (sign_now E C f p k)"
  unfolding sign_now_def by (intro inv_intros)

lemma keeps_db_validation_event [inv_intros]:
  "keeps (on_db P :: 'b completer \<Rightarrow> bool) (create_validation_event E C su ev v)"
  unfolding create_validation_event_def Let_def by (intro inv_intros)

lemma keeps_db_start [inv_intros]: "keeps (on_db P :: 'b completer \<Rightarrow> bool) (start_validation E i md ve)"
  unfolding start_validation_def by (intro inv_intros)

lemma db_kept: "(\<And>P. keeps (on_db P) m) \<Longrightarrow> m s = (r, t) \<Longrightarrow> nd_db t = nd_db s"
  using keepsD [of "on_db (\<lambda>d. d = nd_db s)" m s] by (simp add: on_db_def)

lemma edb_eq_Inr: "edb m s = (Inr x, t) \<longleftrightarrow> (\<exists>d. m (nd_db s) = (Inr x, d) \<and> t = s\<lparr>nd_db := d\<rparr>)"
  by (simp add: edb_def dbA_eq_Inr)

lemma del_request_writes: "writes ''request'' m (snd (del_request E i m))"
  unfolding del_request_def get_key_eval bindA_simps by (rule writes_del)

section \<open>A signed event\<close>

lemma sign_now_valid:
  assumes "sign_now E C f p keys s = (Inr g, t)" "key_pair_ok E keys"
  shows "signature_verify E g p = Ok ()" "sg_signer g = new_key (get_key_derivator keys) (public_key_bytes keys)"
  using assms signature_new_verifies [OF assms(2)] signature_new_signer
  by (auto simp: sign_now_def bindA_eq_Inr)

lemma prevalidated_run:
  assumes run: "create_event_prevalidated_no_eval E C er su v s = (Inr ev, t)"
    and ok: "codec_ok (c_event E)" "su_keys su = Some keys" "key_pair_ok E keys"
  shows "get_prevalidated_event E (su_subject_id su) (nd_db t) = Ok ev" "ev_event_request (content ev) = er"
    "ev_subject_id (content ev) = su_subject_id su" "ev_sn (content ev) = su_sn su + 1"
    "signature_verify E (signature ev) (PEvent (content ev)) = Ok ()"
    "sg_signer (signature ev) = new_key (get_key_derivator keys) (public_key_bytes keys)"
    "nd_messages t = nd_messages s"
proof -
  from run obtain c g u d d' where ev: "ev = \<lparr>content = c, signature = g\<rparr>"
    and c: "ev_event_request c = er" "ev_subject_id c = su_subject_id su" "ev_sn c = su_sn su + 1"
    and sign: "sign_now E C (\<lambda>_. EvCryptoError (Inl ''Error signing the hash of the event content'')) (PEvent c) keys s
      = (Inr g, u)"
    and put: "set_prevalidated_event E (su_subject_id su) ev (nd_db u) = (Inr (), d)"
    and del: "del_request E (su_subject_id su) d = (Inr (), d')" and t: "nd_db t = d'"
      "nd_messages t = nd_messages u"
    using ok(2)
    by (auto simp: create_event_prevalidated_no_eval_def bindA_eq_Inr edb_eq_Inr Let_def own_keys_def
        set_to_validate_def esubject_def eread_def db_read_eq_Inr previous_derivator_def db_case_def
        split: sum.splits failure.splits db_error.splits)
  show "ev_event_request (content ev) = er" "ev_subject_id (content ev) = su_subject_id su"
    "ev_sn (content ev) = su_sn su + 1" using c ev by simp_all
  show "signature_verify E (signature ev) (PEvent (content ev)) = Ok ()"
    "sg_signer (signature ev) = new_key (get_key_derivator keys) (public_key_bytes keys)"
    using sign_now_valid [OF sign ok(3)] by (simp_all add: ev)
  show "nd_messages t = nd_messages s"
    using sign t by (auto simp: sign_now_def bindA_eq_Inr clock_now_def)
  have "get_prevalidated_event E (su_subject_id su) d = Ok ev"
    by (rule prevalidated.get_put [OF ok(1) _ put]) simp
  moreover have "get_prevalidated_event E (su_subject_id su) d' = get_prevalidated_event E (su_subject_id su) d"
    using del_request_writes [of d E "su_subject_id su"] del
    by (intro prevalidated.get_foreign [where p = "''request''"]) simp_all
  ultimately show "get_prevalidated_event E (su_subject_id su) (nd_db t) = Ok ev" using t by simp
qed

lemma validation_event_run:
  assumes run: "create_validation_event E C su ev v s = (Inr ve, t)"
    and ok: "su_keys su = Some keys" "key_pair_ok E keys"
  shows "nd_db t = nd_db s" "nd_messages t = nd_messages s"
    "signature_verify E (ve_subject_signature ve) (PProof (ve_proof ve)) = Ok ()"
    "vp_subject_id (ve_proof ve) = su_subject_id su" "vp_governance_version (ve_proof ve) = v"
    "content (ev_event_request (content ev)) = Transfer tr \<Longrightarrow>
       vp_subject_public_key (ve_proof ve) = tr_public_key tr"
proof -
  show "nd_db t = nd_db s" by (rule db_kept [OF keeps_db_validation_event run])
  from run obtain p g u where sign: "sign_now E C EvSubjectError (PProof p) keys s = (Inr g, t)"
    and ve: "ve_proof ve = p" "ve_subject_signature ve = g"
    and p: "vp_subject_id p = su_subject_id su" "vp_governance_version p = v"
      "content (ev_event_request (content ev)) = Transfer tr \<Longrightarrow> vp_subject_public_key p = tr_public_key tr"
    unfolding create_validation_event_def Let_def
    by (cases "content (ev_event_request (content ev))")
      (auto simp: bindA_eq_Inr ok(1) esubject_def eread_def db_read_eq_Inr new_proof_def new_from_transfer_event_def)
  show "nd_messages t = nd_messages s" using sign by (auto simp: sign_now_def bindA_eq_Inr clock_now_def)
  show "signature_verify E (ve_subject_signature ve) (PProof (ve_proof ve)) = Ok ()"
    using sign_now_valid(1) [OF sign ok(2)] ve by simp
  show "vp_subject_id (ve_proof ve) = su_subject_id su" "vp_governance_version (ve_proof ve) = v"
    "content (ev_event_request (content ev)) = Transfer tr \<Longrightarrow>
       vp_subject_public_key (ve_proof ve) = tr_public_key tr"
    using ve p by simp_all
qed

text \<open>An accepted request for a transfer or an end of life.\<close>

lemma transfer_run:
  assumes run: "process_transfer_or_eol_event E C er su v s = (Inr (), t)"
    and ok: "codec_ok (c_event E)" "su_keys su = Some keys" "key_pair_ok E keys"
  shows "\<exists>ev ve K q. get_prevalidated_event E (su_subject_id su) (nd_db t) = Ok ev \<and>
    ev_event_request (content ev) = er \<and> ev_subject_id (content ev) = su_subject_id su \<and>
    ev_sn (content ev) = su_sn su + 1 \<and>
    signature_verify E (signature ev) (PEvent (content ev)) = Ok () \<and>
    sg_signer (signature ev) = new_key (get_key_derivator keys) (public_key_bytes keys) \<and>
    signature_verify E (ve_subject_signature ve) (PProof (ve_proof ve)) = Ok () \<and>
    vp_subject_id (ve_proof ve) = su_subject_id su \<and>
    (\<forall>tr. content er = Transfer tr \<longrightarrow> vp_subject_public_key (ve_proof ve) = tr_public_key tr) \<and>
    nd_messages t = nd_messages s @ [TaskRequest (Some (dstr E (su_subject_id su)))
      (create_validator_request ve) K \<lparr>mc_timeout = 2000, mc_replication_factor = extend_quorum q (card K)\<rparr>] \<and>
    ec_completing t (su_subject_id su) = Some (Validate, K, q, 0)"
proof -
  from run obtain u ev h a b ve where
    allowed: "transfer_or_eol_allowed E C er su s = (Inr (), u)"
    and ev: "create_event_prevalidated_no_eval E C er su v u = (Inr ev, a)"
    and ve: "create_validation_event E C su ev v a = (Inr ve, b)"
    and start: "start_validation E (su_subject_id su) (metadata_at su (su_subject_id su) v) ve
      (b\<lparr>ec_validation_events := (ec_validation_events b)(h \<mapsto> ve)\<rparr>) = (Inr (), t)"
    by (auto simp: process_transfer_or_eol_event_def Let_def bindA_eq_Inr ecrypto_def set_validation_event_def
        split: if_splits)
  have u: "u = s"
    using allowed by (auto simp: transfer_or_eol_allowed_def Let_def bindA_eq_Inr db_read_eq_Inr
        split: event_request.splits if_splits)
  note e = prevalidated_run [OF ev ok]
  note w = validation_event_run [OF ve ok(2,3)]
  from start obtain K q where t: "nd_messages t = nd_messages b @ [TaskRequest (Some (dstr E (su_subject_id su)))
      (create_validator_request ve) K \<lparr>mc_timeout = 2000, mc_replication_factor = extend_quorum q (card K)\<rparr>]"
      "ec_completing t (su_subject_id su) = Some (Validate, K, q, 0)"
    by (auto simp: start_validation_def bindA_eq_Inr get_signers_and_quorum_def eask_def ask_gov_eq_Inr
        ask_signatures_def tell_message_eq_Inr set_phase_def)
  have "nd_db t = nd_db (b\<lparr>ec_validation_events := (ec_validation_events b)(h \<mapsto> ve)\<rparr>)"
    by (rule db_kept [OF keeps_db_start start])
  then have "nd_db t = nd_db a" using w(1) by simp
  moreover have "nd_messages b = nd_messages s" using w(2) e(7) u by simp
  ultimately show ?thesis using e t w(3,4) w(6) by metis
qed

text \<open>What is left of an accepted request in the database: its event, and the request again.\<close>

lemma register_run:
  assumes run: "register_request E r er su s = (Inr x, t)" and ok: "codec_ok (c_event_request E)"
  shows "get_request E (su_subject_id su) (nd_db t) = Ok er"
    "get_prevalidated_event E j (nd_db t) = get_prevalidated_event E j (nd_db s)"
    "nd_messages t = nd_messages s" "ec_completing t = ec_completing s"
proof -
  from run obtain q d d' where puts: "set_taple_request E r q (nd_db s) = (Inr (), d)"
      "set_request E (su_subject_id su) er d = (Inr (), d')"
    and t: "nd_db t = d'" "nd_messages t = nd_messages s" "ec_completing t = ec_completing s"
    by (auto simp: register_request_def bindA_eq_Inr edb_eq_Inr esubject_def add_by_governance_def Let_def)
  show "get_request E (su_subject_id su) (nd_db t) = Ok er"
    unfolding t(1) by (rule requests.get_put [OF ok _ puts(2)]) simp
  have "writes ''taple-request'' (nd_db s) d" "writes ''request'' d d'"
    using taple_requests.writes_table [where E = E and k = r and x = q and m = "nd_db s"]
      requests.writes_table [where E = E and k = "su_subject_id su" and x = er and m = d] puts
    by simp_all
  then show "get_prevalidated_event E j (nd_db t) = get_prevalidated_event E j (nd_db s)"
    unfolding t(1)
    by (simp add: prevalidated.get_foreign [where p = "''request''"]
        prevalidated.get_foreign [where p = "''taple-request''"])
qed (use run in \<open>auto simp: register_request_def bindA_eq_Inr edb_eq_Inr esubject_def add_by_governance_def Let_def\<close>)

lemma absent_run:
  "db_case q (\<lambda>r. case r of Inr _ \<Rightarrow> failA e | Inl (Err EntryNotFound) \<Rightarrow> retA ()
     | Inl x \<Rightarrow> liftA (map_err f (Inl x))) s = (Inr u, t) \<longleftrightarrow> q (nd_db s) = Fail EntryNotFound \<and> t = s"
  by (auto simp: db_case_def split: sum.splits failure.splits db_error.splits)

lemma owned_run:
  "owned_subject E i s = (Inr su, t) \<longleftrightarrow>
     t = s \<and> get_subject E i (nd_db s) = Ok su \<and> su_active su \<and> su_keys su \<noteq> None"
  by (auto simp: owned_subject_def db_case_def split: sum.splits failure.splits db_error.splits)

lemma pre_new_transfer:
  assumes run: "pre_new_event E C er s = (Inr r, t)" and q: "content er = Transfer tr \<or> content er = EOL eo"
    and i: "request_subject_id (content er) = Ok i"
  obtains su v where "get_subject E i (nd_db s) = Ok su" "su_active su" "ec_completing s i = None"
    "\<exists>x u. process_transfer_or_eol_event E C er su v s = (Inr (), u) \<and> register_request E x er su u = (Inr r, t)"
proof -
  have run': "new_event E C er s = (Inr r, t)" "ec_completing s i = None"
    using run q i
    by (cases "ec_completing s i"; auto simp: pre_new_event_def bindA_eq_Inr esubject_def absent_run simp del: map_err.simps
        split: if_splits)+
  from run'(1) obtain su v w x where "get_subject E i (nd_db s) = Ok su \<and> su_active su"
      "eask (get_governance_version E (su_subject_id su) (su_governance_id su)) s = (Inr v, w)"
      "\<exists>u. process_transfer_or_eol_event E C er su v w = (Inr (), u) \<and> register_request E x er su u = (Inr r, t)"
    using q i by (auto simp: new_event_def bindA_eq_Inr owned_run)
  moreover from this(2) have "w = s" by (simp add: eask_def ask_gov_eq_Inr)
  ultimately show ?thesis using that run'(2) by blast
qed

section \<open>A new version of the governance during a transfer\<close>

definition requests_as :: "'b env \<Rightarrow> digest_identifier list \<Rightarrow> 'b data_store \<Rightarrow> 'b data_store \<Rightarrow> bool" where
  "requests_as E is m m' \<longleftrightarrow> (\<forall>j \<in> set is. get_request E j m' = get_request E j m)"

lemma keeps_requests_as:
  fixes E :: "'b env"
  shows "keeps (on_db (requests_as E is m) :: 'b completer \<Rightarrow> bool) (edb (set_taple_request E r q))"
    "keeps (on_db (requests_as E is m) :: 'b completer \<Rightarrow> bool) (edb (set_prevalidated_event E i ev))"
    "keeps (on_db (requests_as E is m) :: 'b completer \<Rightarrow> bool) (edb (del_prevalidated_event E i))"
proof -
  have keep: "keeps (on_db (requests_as E is m) :: 'b completer \<Rightarrow> bool) (edb a)"
    if "\<And>d. writes p d (snd (a d))" "p \<noteq> ''request''" "sep_free p" for a :: "('b data_store, 'a, db_error) act" and p
    using requests.get_foreign [OF that(1,2,3)]
    by (intro keeps_edb) (simp add: keeps_def requests_as_def)
  show "keeps (on_db (requests_as E is m) :: 'b completer \<Rightarrow> bool) (edb (set_taple_request E r q))"
    by (rule keep [OF taple_requests.writes_table]) simp_all
  show "keeps (on_db (requests_as E is m) :: 'b completer \<Rightarrow> bool) (edb (set_prevalidated_event E i ev))"
    by (rule keep [OF prevalidated.writes_table]) simp_all
  have "writes ''prevalidated-event'' d (snd (del_prevalidated_event E i d))" for d
    unfolding del_prevalidated_event_def get_key_eval bindA_simps by (rule writes_del)
  then show "keeps (on_db (requests_as E is m) :: 'b completer \<Rightarrow> bool) (edb (del_prevalidated_event E i))"
    by (rule keep) simp_all
qed

lemma keeps_requests_genesis:
  fixes E :: "'b env"
  assumes "content er = Create cr"
  shows "keeps (on_db (requests_as E is m) :: 'b completer \<Rightarrow> bool) (new_event E C er)"
proof -
  let ?P = "on_db (requests_as E is m) :: 'b completer \<Rightarrow> bool"
  have keys: "keeps ?P (genesis_keys E C er cr)"
    unfolding genesis_keys_def
    by (auto intro!: inv_intros split: sum.split failure.split db_error.split)
  have gov: "keeps ?P (genesis_governance E C cr)"
    unfolding genesis_governance_def by (intro inv_intros)
  have ve: "keeps ?P (create_validation_event_from_genesis E C cr h v i k)" for h v i k
    unfolding create_validation_event_from_genesis_def Let_def by (intro inv_intros)
  have "keeps ?P (new_genesis E C r er cr)" for r
    unfolding new_genesis_def
    by (intro keeps_bindA keeps_prod keeps_if keys gov ve keeps_requests_as keeps_db_event keeps_db_signers
        keeps_simple)
  then show ?thesis
    unfolding new_event_def using assms by (auto intro!: keeps_bindA keeps_simple)
qed

lemma keeps_requests_restart:
  fixes E :: "'b env"
  assumes "\<forall>j \<in> set is. \<forall>q f. get_request E j m = Ok q \<longrightarrow> content q \<noteq> Fact f" "j \<in> set is"
  shows "keeps (on_db (requests_as E is m) :: 'b completer \<Rightarrow> bool) (restart_subject E C v j)"
proof -
  let ?P = "on_db (requests_as E is m) :: 'b completer \<Rightarrow> bool"
  have "keeps ?P (restart_request E C j)"
    unfolding keeps_def
  proof (intro allI impI)
    fix s assume s: "?P s"
    then have "get_request E j (nd_db s) = get_request E j m" using assms(2) by (simp add: on_db_def requests_as_def)
    then show "?P (snd (restart_request E C j s))"
      using s assms by (auto simp: restart_request_def db_case_def split: sum.split failure.split db_error.split
          event_request.split)
  qed
  moreover have "keeps ?P (restart_genesis E C j ev)" if "content (ev_event_request (content ev)) = Create cr" for ev cr
  proof -
    have "keeps ?P (modA (\<lambda>s. s\<lparr>ec_completing := f s, ec_subjects_by_governance := g s\<rparr>))" for f g
      by (simp add: keeps_def on_db_def)
    then show ?thesis
      unfolding restart_genesis_def
      by (intro keeps_bindA keeps_db_channels keeps_requests_as keeps_requests_genesis [OF that] keeps_simple)
  qed
  moreover have "keeps ?P (restart_validation E C v j ev)" for ev
    unfolding restart_validation_def
    by (intro keeps_bindA keeps_prod keeps_db_event keeps_db_signers keeps_db_validation_event)
  ultimately show ?thesis
    unfolding restart_subject_def
    by (auto intro!: keeps_bindA keeps_db_case keeps_simple split: sum.split failure.split db_error.split
        event_request.split)
qed

lemma forA_fails:
  assumes "\<And>j. j \<in> set is \<Longrightarrow> keeps P (f j)" "\<And>s. P s \<Longrightarrow> \<not> is_Ok (fst (f i s))" "i \<in> set is" "P s"
  shows "\<not> is_Ok (fst (forA f is s))"
  using assms
proof (induction "is" arbitrary: s)
  case (Cons j js)
  obtain r u where r: "f j s = (r, u)" by fastforce
  then have u: "P u" using keepsD [OF Cons.prems(1) [of j] Cons.prems(4)] by simp
  show ?case
  proof (cases r)
    case (Inr x)
    then have "i \<in> set js" using Cons.prems(2) [OF Cons.prems(4)] Cons.prems(3) r by auto
    then show ?thesis using Cons.IH [OF Cons.prems(1) Cons.prems(2) _ u] r Inr by (auto simp: bindA_run)
  qed (simp add: r bindA_run)
qed simp

text \<open>An update that affects a subject whose stored request is not a fact fails.\<close>

lemma update_fails:
  fixes E :: "'b env"
  assumes "ec_subjects_by_governance s g = Some is" "i \<in> set is"
    and "get_request E i (nd_db s) = Ok er" "\<forall>f. content er \<noteq> Fact f"
    and "\<forall>j \<in> set is. \<forall>q f. get_request E j (nd_db s) = Ok q \<longrightarrow> content q \<noteq> Fact f"
  shows "\<not> is_Ok (fst (events_new_governance_version E C g v s))"
proof -
  have "\<not> is_Ok (fst (forA (restart_subject E C v) is s))"
  proof (rule forA_fails)
    show "j \<in> set is \<Longrightarrow> keeps (on_db (requests_as E is (nd_db s))) (restart_subject E C v j)" for j
      by (rule keeps_requests_restart [OF assms(5)])
    fix u :: "'b completer" assume "on_db (requests_as E is (nd_db s)) u"
    then have "get_request E i (nd_db u) = Ok er" using assms(2,3) by (simp add: on_db_def requests_as_def)
    then show "\<not> is_Ok (fst (restart_subject E C v i u))"
      using assms(4) by (auto simp: restart_subject_def restart_request_def bindA_run db_case_def
          split: event_request.split)
  qed (use assms(2) in \<open>simp_all add: on_db_def requests_as_def\<close>)
  then show ?thesis by (simp add: events_new_governance_version_def assms(1))
qed

text \<open>The turn that handles it is the last one. Visited first, the subject gives the error itself.\<close>

lemma update_turn_fails:
  assumes "\<not> is_Ok (fst (events_new_governance_version E C g v s))"
  shows "\<not> is_Ok (fst (event_turn E C L (EInputUpdate (Some (g, v))) s))"
  using assms by (auto simp: event_turn_def bindA_run split: prod.split sum.split)

lemma update_turn_first:
  assumes "ec_subjects_by_governance s g = Some (i # is)" "get_request E i (nd_db s) = Ok er" "\<forall>f. content er \<noteq> Fact f"
  shows "event_turn E C L (EInputUpdate (Some (g, v))) s = (Fail GenesisInGovUpdate, s)"
  using assms by (auto simp: event_turn_def events_new_governance_version_def restart_subject_def restart_request_def
      bindA_run db_case_def split: event_request.split)

lemma failed_turn_ends:
  assumes "\<not> is_Ok (fst (event_turn E C L i s))"
  shows "(\<exists>u. event_loop E C L (i # rest) s = TokenCancelled u) \<or> (\<exists>e u. event_loop E C L (i # rest) s = TaskUnwound e u)"
proof -
  obtain r t where run: "event_turn E C L i s = (r, t)" by fastforce
  then obtain x where r: "r = Inl x" using assms by (cases r) auto
  show ?thesis by (cases x) (simp_all add: run r)
qed

section \<open>A new version of the governance during a validation\<close>

lemma restart_validation_run:
  assumes run: "restart_validation E C v i ev s = (Inr (), t)" and h: "hash_of E C (content ev) h"
  shows "\<exists>ve K q. ec_validation_events t h = Some ve \<and> vp_governance_version (ve_proof ve) = v \<and>
    ec_validations t = ec_validations s \<and> ec_completing t i = Some (Validate, K, q, 0)"
proof -
  from run h obtain su a ve b K q where "create_validation_event E C su ev v a = (Inr ve, b)" "a = s"
    "ec_validation_events t h = Some ve" "ec_validations t = ec_validations b"
    "ec_completing t i = Some (Validate, K, q, 0)"
    by (auto simp: restart_validation_def bindA_eq_Inr eread_def db_read_eq_Inr get_signers_and_quorum_def
        eask_def ask_gov_eq_Inr ask_signatures_def tell_message_eq_Inr ecrypto_def hash_of_def
        set_validation_event_def set_phase_def)
  moreover have "vp_governance_version (ve_proof ve) = v" "ec_validations b = ec_validations a"
    using \<open>create_validation_event E C su ev v a = (Inr ve, b)\<close> unfolding create_validation_event_def Let_def
    by (cases "content (ev_event_request (content ev))"; cases "su_keys su";
        auto simp: bindA_eq_Inr esubject_def eread_def db_read_eq_Inr new_proof_def
          new_from_transfer_event_def sign_now_def clock_now_def)+
  ultimately show ?thesis by auto
qed

text \<open>The validation that reaches the quorum.\<close>

lemma accept_run:
  assumes phase: "ec_completing s i = Some (Validate, K, q, n)" "sg_signer g \<in> K"
    and verify: "signature_verify E g (PProof (ve_proof ve)) = Ok ()"
    and gs: "ec_validations s h = Some gs" "sg_signer g \<notin> sg_signer ` set gs"
    and quorum: "q \<le> of_nat (length (gs @ [g]))" and channel: "ec_ledger_open s"
  shows "ec_ledger (snd (accept_validation E L h ev ve i g s)) = ec_ledger s @
    [if ev_sn (content ev) = 0 then Genesis ev (gs @ [g]) (ve_proof ve) else OwnEvent ev (gs @ [g]) (ve_proof ve)]"
proof -
  let ?u = "s\<lparr>ec_validations := (ec_validations s)(h \<mapsto> gs @ [g])\<rparr>"
  have "filter (\<lambda>k. \<not> same_signer g k) gs = gs"
    using gs(2) by (auto simp: filter_id_conv same_signer_def)
  then have "accept_validation E L h ev ve i g s = (if of_nat (length (gs @ [g])) < q
      then more_validations E ve i (sg_signer g) K (q, n) else validated E L h ev ve i (gs @ [g])) ?u"
    using assms by (simp add: accept_validation_def bindA_run in_phase_def listed_signer_def verified_def
        save_validation_def save_in_def insert_or_replace_and_check_def Let_def)
  also have "\<dots> = validated E L h ev ve i (gs @ [g]) ?u"
    unfolding if_not_P [OF leD [OF quorum]] ..
  finally show ?thesis using asked_validated_open [of ?u E L h ev ve i "gs @ [g]"] channel by simp
qed

section \<open>A transfer that anybody signed\<close>

text \<open>Encoders and signers that work: what they are given can be written down and signed.\<close>

definition encodes :: "'b env \<Rightarrow> bool" where
  "encodes E \<longleftrightarrow> (\<forall>p. e_borsh E p \<noteq> None) \<and> (\<forall>x. ser (c_event E) x \<noteq> None) \<and>
     (\<forall>x. ser (c_event_request E) x \<noteq> None) \<and> (\<forall>x. ser (c_taple_request E) x \<noteq> None)"

definition can_sign :: "'b env \<Rightarrow> key_pair \<Rightarrow> bool" where
  "can_sign E keys \<longleftrightarrow> (\<forall>data. is_Ok (key_pair_sign E keys data))"

text \<open>A node that can start an event of its subject: it holds the keys and the last event with its
  validation, completes no other event of it, and the governance answers. No request occurs in it.\<close>

definition subject_ready :: "'b env \<Rightarrow> 'b completer \<Rightarrow> digest_identifier \<Rightarrow> subject \<Rightarrow> key_pair \<Rightarrow> bool" where
  "subject_ready E s i su keys \<longleftrightarrow>
     get_subject E i (nd_db s) = Ok su \<and> su_subject_id su = i \<and> su_active su \<and> su_keys su = Some keys \<and>
     is_Ok (get_event E i (su_sn su) (nd_db s)) \<and> is_Ok (get_signatures E i (su_sn su) (nd_db s)) \<and>
     ec_completing s i = None \<and> nd_gov_alive s \<and> nd_message_open s \<and>
     (\<exists>v. get_governance_version E i (su_governance_id su) (nd_db s) = Ok v \<and>
        is_Ok (get_signers E (metadata_at su i v) Validate (nd_db s)) \<and>
        is_Ok (get_quorum E (metadata_at su i v) Validate (nd_db s)))"

lemma encodes_hash:
  assumes "encodes E"
  shows "\<exists>h. from_serializable_borsh E p d = Ok h" "\<exists>h. generate_with_blake3 E p = Ok h"
  using assms by (auto simp: encodes_def from_serializable_borsh_def generate_with_blake3_def split: option.split)

lemma encodes_ser:
  assumes "encodes E"
  shows "\<exists>b. ser (c_event E) x = Some b" "\<exists>b. ser (c_event_request E) y = Some b"
    "\<exists>b. ser (c_taple_request E) z = Some b"
  using assms unfolding encodes_def by blast+

lemma sign_now_ok:
  assumes "encodes E" "can_sign E keys"
  obtains g where "sign_now E C f p keys s = (Ok g, s\<lparr>ec_ticks := Suc (ec_ticks s)\<rparr>)"
proof -
  obtain h where "from_serializable_borsh E (PStamped p (ec_clock s (ec_ticks s))) (cc_derivator C) = Ok h"
    using encodes_hash(1) [OF assms(1)] by blast
  moreover obtain x where "key_pair_sign E keys (di_digest h) = Ok x"
    using assms(2) by (auto simp: can_sign_def is_Ok_iff)
  ultimately show ?thesis
    by (intro that) (simp add: sign_now_def clock_now_def bindA_run signature_new_def Let_def)
qed

text \<open>The governance module reads the tables of the subjects and of the events.\<close>

lemma sourced_reads:
  assumes subjects: "\<And>j. get_subject E j m' = get_subject E j m" and events: "\<And>j n. get_event E j n m' = get_event E j n m"
  shows "sourced E g v m' = sourced E g v m"
proof -
  have "replay E g m' n k x = replay E g m n k x" for n k x
    by (induction k arbitrary: n x) (auto simp: events bindR_def split: sum.split)
  then have replay: "replay E g m' n k = replay E g m n k" for n k by blast
  show ?thesis
    unfolding sourced_def governance_event_sourcing_def subjects events replay ..
qed

lemma governance_reads:
  assumes subjects: "\<And>j. get_subject E j m' = get_subject E j m" and events: "\<And>j n. get_event E j n m' = get_event E j n m"
  shows "get_signers E md st m' = get_signers E md st m" "get_quorum E md st m' = get_quorum E md st m"
proof -
  note sourced = sourced_reads [OF subjects events]
  show signers: "get_signers E md st m' = get_signers E md st m" for st
    unfolding get_signers_def signers_version_def subjects sourced ..
  show "get_quorum E md st m' = get_quorum E md st m"
    unfolding get_quorum_def sourced signers ..
qed

lemma prevalidated_ok:
  assumes E: "encodes E" "can_sign E keys"
    and su: "su_keys su = Some keys" "get_signatures E (su_subject_id su) (su_sn su) (nd_db s) = Ok (gs, p)"
      "get_event E (su_subject_id su) (su_sn su) (nd_db s) = Ok prev"
  obtains ev d1 d h where "writes ''prevalidated-event'' (nd_db s) d1" "writes ''request'' d1 d"
    "create_event_prevalidated_no_eval E C er su v s =
       (Ok ev, s\<lparr>ec_ticks := Suc (ec_ticks s), ec_to_validate := (ec_to_validate s)(h \<mapsto> ev), nd_db := d\<rparr>)"
proof -
  obtain h1 where h1: "from_serializable_borsh E (PEvent (content prev)) (di_derivator (vp_event_hash p)) = Ok h1"
    using encodes_hash(1) [OF E(1)] by blast
  obtain h2 where h2: "from_serializable_borsh E (PValue (su_properties su)) (cc_derivator C) = Ok h2"
    using encodes_hash(1) [OF E(1)] by blast
  let ?c = "\<lparr>
       ev_subject_id = su_subject_id su,
       ev_event_request = er,
       ev_sn = su_sn su + 1,
       ev_gov_version = v,
       ev_patch = JArray [],
       ev_state_hash = h2,
       ev_eval_success = True,
       ev_appr_required = False,
       ev_approved = True,
       ev_hash_prev_event = h1,
       ev_evaluators = [],
       ev_approvers = []\<rparr>"
  obtain h where h: "from_serializable_borsh E (PEvent ?c) (cc_derivator C) = Ok h"
    using encodes_hash(1) [OF E(1)] by blast
  obtain g where g: "sign_now E C (\<lambda>_. EvCryptoError (Inl ''Error signing the hash of the event content''))
      (PEvent ?c) keys s = (Ok g, s\<lparr>ec_ticks := Suc (ec_ticks s)\<rparr>)"
    by (rule sign_now_ok [OF E])
  let ?ev = "\<lparr>content = ?c, signature = g\<rparr>"
  obtain b where b: "ser (c_event E) ?ev = Some b" using encodes_ser(1) [OF E(1)] by blast
  obtain d1 where put: "set_prevalidated_event E (su_subject_id su) ?ev (nd_db s) = (Ok (), d1)"
    by (simp add: set_prevalidated_event_def get_key_eval kv_put_def b coll_put_def)
  obtain d where del: "del_request E (su_subject_id su) d1 = (Ok (), d)"
    by (simp add: del_request_def get_key_eval coll_del_run)
  have run: "create_event_prevalidated_no_eval E C er su v s =
      (Ok ?ev, s\<lparr>ec_ticks := Suc (ec_ticks s), ec_to_validate := (ec_to_validate s)(h \<mapsto> ?ev), nd_db := d\<rparr>)"
    using su
    by (simp add: create_event_prevalidated_no_eval_def Let_def bindA_run previous_derivator_def db_case_def eread_def
        db_read_def esubject_def event_hash_id_def value_hash_id_def h1 h2 h own_keys_def g set_to_validate_def
        edb_def dbA_def zoomA_def put del)
  have "writes ''prevalidated-event'' (nd_db s) d1" "writes ''request'' d1 d"
    using prevalidated.writes_table [where E = E and k = "su_subject_id su" and x = ?ev and m = "nd_db s"]
      del_request_writes [of d1 E "su_subject_id su"] put del by simp_all
  then show ?thesis using run by (rule that)
qed

lemma validation_event_ok:
  assumes E: "encodes E" "can_sign E keys"
    and su: "su_keys su = Some keys" "get_signatures E (su_subject_id su) (su_sn su) (nd_db s) = Ok (gs, p)"
  obtains ve where "create_validation_event E C su ev v s = (Ok ve, s\<lparr>ec_ticks := Suc (ec_ticks s)\<rparr>)"
proof -
  obtain h where h: "from_serializable_borsh E (PEvent (content ev)) (cc_derivator C) = Ok h"
    using encodes_hash(1) [OF E(1)] by blast
  let ?p = "case content (ev_event_request (content ev)) of
      Transfer t \<Rightarrow> new_from_transfer_event su (ev_sn (content ev)) (ev_hash_prev_event (content ev)) h v (tr_public_key t)
    | _ \<Rightarrow> new_proof su (ev_sn (content ev)) (ev_hash_prev_event (content ev)) h v"
  obtain g where g: "sign_now E C EvSubjectError (PProof ?p) keys s = (Ok g, s\<lparr>ec_ticks := Suc (ec_ticks s)\<rparr>)"
    by (rule sign_now_ok [OF E])
  show ?thesis
    by (rule that) (simp add: create_validation_event_def Let_def esubject_def event_hash_id_def h bindA_run eread_def
        db_read_def su g)
qed

lemma start_validation_ok:
  assumes "nd_gov_alive s" "nd_message_open s" "get_signers E md Validate (nd_db s) = Ok K"
    "get_quorum E md Validate (nd_db s) = Ok q"
  obtains t where "start_validation E i md ve s = (Ok (), t)"
  using assms
  by (simp add: start_validation_def get_signers_and_quorum_def eask_def ask_gov_def bindA_run ask_signatures_def
      tell_message_def set_phase_def)

lemma register_ok:
  assumes "encodes E"
  obtains t where "register_request E r er su s = (Ok r, t)"
proof -
  obtain h where h: "generate_with_blake3 E (PSignedEventRequest er) = Ok h"
    using encodes_hash(2) [OF assms] by blast
  obtain b where b: "ser (c_event_request E) er = Some b" using encodes_ser(2) [OF assms] by blast
  have "\<forall>x. \<exists>c. ser (c_taple_request E) x = Some c" using encodes_ser(3) [OF assms] by blast
  from choice [OF this] obtain f where f: "\<And>x. ser (c_taple_request E) x = Some (f x)" by blast
  show ?thesis
    by (rule that) (simp add: register_request_def add_by_governance_def bindA_run esubject_def taple_request_from_def h
        edb_def dbA_def zoomA_def set_taple_request_def set_request_def get_key_eval kv_put_def b f coll_put_def)
qed

text \<open>A valid request for a transfer, whoever signed it, is accepted by a node that is ready.\<close>

lemma transfer_accepted_from:
  assumes E: "encodes E" "can_sign E keys"
    and ready: "subject_ready E s (tr_subject_id tr) su keys"
    and er: "content er = Transfer tr" "event_request_verify E er = Ok ()"
      "sg_signer (signature er) \<noteq> cc_own_identifier C"
    and r: "generate_with_blake3 E (PSignedEventRequest er) = Ok r" "get_taple_request E r (nd_db s) = Fail EntryNotFound"
  obtains t where "pre_new_event E C er s = (Ok r, t)"
proof -
  let ?i = "tr_subject_id tr"
  from ready obtain v prev gs p K q where su: "get_subject E ?i (nd_db s) = Ok su" "su_subject_id su = ?i"
      "su_active su" "su_keys su = Some keys" "get_event E ?i (su_sn su) (nd_db s) = Ok prev"
      "get_signatures E ?i (su_sn su) (nd_db s) = Ok (gs, p)"
    and s: "ec_completing s ?i = None" "nd_gov_alive s" "nd_message_open s"
    and gov: "get_governance_version E ?i (su_governance_id su) (nd_db s) = Ok v"
      "get_signers E (metadata_at su ?i v) Validate (nd_db s) = Ok K"
      "get_quorum E (metadata_at su ?i v) Validate (nd_db s) = Ok q"
    by (auto simp: subject_ready_def is_Ok_iff)
  obtain ev d1 d h where d: "writes ''prevalidated-event'' (nd_db s) d1" "writes ''request'' d1 d"
    and event: "create_event_prevalidated_no_eval E C er su v s =
       (Ok ev, s\<lparr>ec_ticks := Suc (ec_ticks s), ec_to_validate := (ec_to_validate s)(h \<mapsto> ev), nd_db := d\<rparr>)"
    using prevalidated_ok [OF E su(4), of s gs p prev C er v] su by metis
  let ?a = "s\<lparr>ec_ticks := Suc (ec_ticks s), ec_to_validate := (ec_to_validate s)(h \<mapsto> ev), nd_db := d\<rparr>"
  have reads: "get_subject E j d = get_subject E j (nd_db s)" "get_event E j n d = get_event E j n (nd_db s)"
    "get_signatures E j n d = get_signatures E j n (nd_db s)" for j n
    using subjects.get_foreign [OF d(1), of E j] subjects.get_foreign [OF d(2), of E j]
      events.get_foreign [OF d(1), of E "(j, n)"] events.get_foreign [OF d(2), of E "(j, n)"]
      get_signatures_foreign [OF d(1), of E j n] get_signatures_foreign [OF d(2), of E j n] by simp_all
  have "get_signatures E (su_subject_id su) (su_sn su) (nd_db ?a) = Ok (gs, p)" using reads(3) su by simp
  then obtain ve where ve: "create_validation_event E C su ev v ?a = (Ok ve, ?a\<lparr>ec_ticks := Suc (ec_ticks ?a)\<rparr>)"
    by (rule validation_event_ok [OF E su(4)])
  obtain h' where h': "from_serializable_borsh E (PEvent (content ev)) (cc_derivator C) = Ok h'"
    using encodes_hash(1) [OF E(1)] by blast
  let ?b = "(?a\<lparr>ec_ticks := Suc (ec_ticks ?a)\<rparr>)
    \<lparr>ec_validation_events := (ec_validation_events ?a)(h' \<mapsto> ve)\<rparr>"
  obtain c where start: "start_validation E (su_subject_id su) (metadata_at su (su_subject_id su) v) ve ?b = (Ok (), c)"
    using start_validation_ok [of ?b E "metadata_at su ?i v" K q] s gov
      governance_reads [where m = "nd_db s" and m' = d, OF reads(1,2)] su(2) by auto
  have "process_transfer_or_eol_event E C er su v s = (Ok (), c)"
    using s(1) su(2) er(1,3) event ve start
    by (simp add: process_transfer_or_eol_event_def Let_def bindA_run transfer_or_eol_allowed_def ecrypto_def h'
        set_validation_event_def)
  moreover obtain t where "register_request E r er su c = (Ok r, t)" by (rule register_ok [OF E(1)])
  ultimately have "pre_new_event E C er s = (Ok r, t)"
    using er r su s gov
    by (simp add: pre_new_event_def new_event_def bindA_run esubject_def db_case_def request_subject_id_def
        owned_subject_def eask_def ask_gov_def)
  then show ?thesis by (rule that)
qed

end
