(* ===== verification/Completer_Types.thy ===== *)
theory Completer_Types
  imports Completer_Laws
begin

text \<open>
  The maps of the event completer are well typed: every request waiting for evaluations or
  approvals is a fact, stored under its own hash, with the evaluations an approved event needs.
\<close>

section \<open>The invariant\<close>

definition completing_ok :: "(digest_identifier \<rightharpoonup> phase) \<Rightarrow> bool" where
  "completing_ok f \<longleftrightarrow> (\<forall>i p. f i = Some p \<longrightarrow> fst p \<in> {Evaluate, Approve, Validate})"

definition pre_evaluations_ok :: "'b env \<Rightarrow> (digest_identifier \<rightharpoonup> evaluation_request) \<Rightarrow> bool" where
  "pre_evaluations_ok E f \<longleftrightarrow> (\<forall>h q. f h = Some q \<longrightarrow>
     generate_with_blake3 E (PEvaluationRequest q) = Ok h \<and> (\<exists>x. content (eq_event_request q) = Fact x))"

definition approvals_ok ::
  "'b env \<Rightarrow> (digest_identifier \<rightharpoonup> signature list) \<Rightarrow> (digest_identifier \<rightharpoonup> approval_request signed) \<Rightarrow> bool" where
  "approvals_ok E f g \<longleftrightarrow> dom f = dom g \<and> (\<forall>h a. g h = Some a \<longrightarrow>
     approval_request_hash E (content a) Blake3_256 = Ok h \<and>
     (\<exists>x. content (aq_event_request (content a)) = Fact x))"

definition event_types :: "'b env \<Rightarrow> 'b completer \<Rightarrow> bool" where
  "event_types E s \<longleftrightarrow> completing_ok (ec_completing s) \<and> pre_evaluations_ok E (ec_pre_evaluations s) \<and>
     approvals_ok E (ec_approval_evaluators s) (ec_approval_requests s)"

lemma types_frame:
  "ec_completing t = ec_completing s \<Longrightarrow> ec_pre_evaluations t = ec_pre_evaluations s \<Longrightarrow>
     ec_approval_evaluators t = ec_approval_evaluators s \<Longrightarrow> ec_approval_requests t = ec_approval_requests s \<Longrightarrow>
     event_types E t = event_types E s"
  by (simp add: event_types_def)

section \<open>The operations keep it\<close>

lemma keeps_types_basic [inv_intros]:
  fixes E :: "'b env"
  shows "keeps (event_types E) (edb m)" "keeps (event_types E) (eread q)" "keeps (event_types E) (eask r)"
    "keeps (event_types E) (esubject x)" "keeps (event_types E) (ecrypto msg y)"
    "keeps (event_types E) clock_now" "keeps (event_types E) (add_by_governance g i)"
    "keeps (event_types E) (tell_message f c :: ('b, _) eact)" "keeps (event_types E) (ask_signatures E' i tm W n)"
    "keeps (event_types E) (in_phase st i)" "keeps (event_types E) (own_keys su)"
    "keeps (event_types E) (save_evaluation h e)" "keeps (event_types E) (save_approval h a)"
    "keeps (event_types E) (save_validation h v)" "keeps (event_types E) (verified w)"
    "keeps (event_types E) (listed_signer m2 k K)" "keeps (event_types E) (known_to_complete E' i)"
    "keeps (event_types E) (set_to_validate h ev)" "keeps (event_types E) (set_validation_event h ve)"
    "keeps (event_types E) (ask_ledger L lc)"
  by (auto simp: keeps_def event_types_def edb_def eread_def eask_def esubject_def ecrypto_def clock_now_def
      add_by_governance_def tell_message_def ask_signatures_def in_phase_def own_keys_def
      save_evaluation_def save_approval_def save_validation_def verified_def listed_signer_def
      known_to_complete_def set_to_validate_def set_validation_event_def ask_ledger_def
      dbA_def zoomA_def db_read_def ask_gov_def Let_def
      split: prod.splits sum.splits failure.splits gov_error.splits)

lemma keeps_set_phase [inv_intros]:
  "fst p \<in> {Evaluate, Approve, Validate} \<Longrightarrow> keeps (event_types E) (set_phase i p)"
  by (auto simp: keeps_def event_types_def set_phase_def completing_ok_def)

lemma keeps_types_signers [inv_intros]: "keeps (event_types E) (get_signers_and_quorum E' md st)"
  unfolding get_signers_and_quorum_def by (intro inv_intros)

lemma keeps_types_sign [inv_intros]: "keeps (event_types E) (sign_now E' C f p k)"
  unfolding sign_now_def by (intro inv_intros)

lemma keeps_types_derivator [inv_intros]: "keeps (event_types E) (previous_derivator E' C su)"
  unfolding previous_derivator_def
  by (auto intro!: inv_intros split: sum.split failure.split db_error.split)

lemma keeps_types_validation_event [inv_intros]: "keeps (event_types E) (create_validation_event E' C su ev v)"
  unfolding create_validation_event_def Let_def by (intro inv_intros)

lemma keeps_types_genesis_event [inv_intros]:
  "keeps (event_types E) (create_validation_event_from_genesis E' C cr h v i k)"
  unfolding create_validation_event_from_genesis_def Let_def by (intro inv_intros)

lemma keeps_types_sign_event [inv_intros]: "keeps (event_types E) (sign_event E' C msg ev su)"
  unfolding sign_event_def by (intro inv_intros)

lemma keeps_types_to_be_validated [inv_intros]: "keeps (event_types E) (to_be_validated E' su h ev ve)"
  unfolding to_be_validated_def by (intro inv_intros)

lemma keeps_types_genesis: "keeps (event_types E) (new_genesis E C r er cr)"
proof -
  have keys: "keeps (event_types E) (genesis_keys E C er cr)"
    unfolding genesis_keys_def
    by (auto intro!: inv_intros split: sum.split failure.split db_error.split)
  have gov: "keeps (event_types E) (genesis_governance E C cr)"
    unfolding genesis_governance_def by (intro inv_intros)
  show ?thesis
    unfolding new_genesis_def by (intro inv_intros keys gov) simp
qed

lemma keeps_types_transfer: "keeps (event_types E) (process_transfer_or_eol_event E C er su v)"
proof -
  have "keeps (event_types E) (transfer_or_eol_allowed E C er su)"
    unfolding transfer_or_eol_allowed_def Let_def
    by (cases "content er") (auto intro!: inv_intros)
  moreover have "keeps (event_types E) (start_validation E i md ve)" for i md ve
    unfolding start_validation_def by (intro inv_intros) simp
  moreover have "keeps (event_types E) (create_event_prevalidated_no_eval E C er su v)"
    unfolding create_event_prevalidated_no_eval_def Let_def by (intro inv_intros)
  ultimately show ?thesis
    unfolding process_transfer_or_eol_event_def Let_def by (intro inv_intros)
qed

text \<open>A new fact is the one way into the pre-evaluations.\<close>

lemma keeps_types_fact:
  assumes "content er = Fact x"
  shows "keeps (event_types E) (new_fact E C er i su v)"
proof -
  have may: "keeps (event_types E) (may_issue E C md er i)" for md
    unfolding may_issue_def Let_def by (intro inv_intros)
  have pre: "keeps (event_types E) (modA (\<lambda>s. s\<lparr>ec_pre_evaluations := (ec_pre_evaluations s)(h \<mapsto> q)\<rparr>))"
    if "generate_with_blake3 E (PEvaluationRequest q) = Ok h" "eq_event_request q = er" for h q
    using that assms by (auto simp: keeps_def event_types_def pre_evaluations_ok_def)
  have hash: "gives P (ecrypto msg r) (\<lambda>h. r = Ok h)" for P :: "'b completer \<Rightarrow> bool" and msg
      and r :: "(digest_identifier, commons_error) res"
    by (auto simp: gives_def ecrypto_def)
  show ?thesis
    unfolding new_fact_def Let_def
    by (rule keeps_bindA_gives [OF keeps_types_basic(5) hash] keeps_bindA keeps_prod pre may
        keeps_types_basic keeps_types_signers keeps_set_phase | simp)+
qed

lemma keeps_types_new_event: "keeps (event_types E) (new_event E C er)"
proof -
  have owned: "keeps (event_types E) (owned_subject E i)" for i
    unfolding owned_subject_def
    by (auto intro!: inv_intros split: sum.split failure.split db_error.split)
  have reg: "keeps (event_types E) (register_request E r q su)" for r q su
    unfolding register_request_def by (intro inv_intros)
  show ?thesis
    unfolding new_event_def
    by (cases "content er")
      (auto intro!: keeps_bindA keeps_simple keeps_types_genesis keeps_types_fact keeps_types_transfer
        keeps_types_basic owned reg)
qed

lemma keeps_types_pre_new_event: "keeps (event_types E) (pre_new_event E C er)"
  unfolding pre_new_event_def
  by (cases "content er")
    (auto intro!: keeps_bindA keeps_simple keeps_types_basic keeps_types_new_event keeps_db_case
      split: sum.split failure.split db_error.split)

lemma keeps_types_init: "keeps (event_types E) (completer_init E C)"
proof -
  have resume: "keeps (event_types E) (resume_validation E C su ev)" for su ev
    unfolding resume_validation_def by (intro inv_intros) simp
  have "keeps (event_types E) (resume_subject E C su)" for su
    unfolding resume_subject_def
    by (auto intro!: keeps_bindA keeps_db_case keeps_simple keeps_types_basic resume keeps_types_new_event
        split: sum.split failure.split db_error.split)
  then show ?thesis unfolding completer_init_def by (intro inv_intros)
qed

lemma keeps_types_restart: "keeps (event_types E) (restart_subject E C v i)"
proof -
  have "keeps (event_types E) (bindA (new_event E C er) (\<lambda>_. retA ()))" for er
    by (intro keeps_bindA keeps_types_new_event keeps_simple)
  then have request: "keeps (event_types E) (restart_request E C i)"
    unfolding restart_request_def
    by (auto intro!: keeps_db_case keeps_simple split: sum.split failure.split db_error.split event_request.split)
  have "keeps (event_types E) (modA (\<lambda>s. s\<lparr>ec_completing := (ec_completing s)(i := None),
      ec_subjects_by_governance := g s\<rparr>))" for g
    by (auto simp: keeps_def event_types_def completing_ok_def)
  then have genesis: "keeps (event_types E) (restart_genesis E C i ev)" for ev
    unfolding restart_genesis_def
    by (intro keeps_bindA keeps_types_new_event keeps_simple keeps_types_basic)
  have "keeps (event_types E) (restart_validation E C v i ev)" for ev
    unfolding restart_validation_def by (intro inv_intros) simp
  with request genesis show ?thesis
    unfolding restart_subject_def
    by (auto intro!: keeps_bindA keeps_db_case keeps_simple split: sum.split failure.split db_error.split
        event_request.split)
qed

lemma keeps_types_update: "keeps (event_types E) (events_new_governance_version E C g v)"
proof -
  have "keeps (event_types E) (forA (restart_subject E C v) is)" for "is"
    by (intro keeps_forA keeps_types_restart)
  then show ?thesis by (auto simp: keeps_def events_new_governance_version_def split: option.split)
qed

lemma gives_fact:
  "gives P (liftA (answered_subject e f (content er))) (\<lambda>_. \<exists>x. content er = Fact x)"
  by (auto simp: gives_def answered_subject_def split: event_request.splits)

text \<open>And an evaluated fact that needs an approval is the one way into the approval requests.\<close>

lemma keeps_types_evaluated:
  assumes "\<exists>x. content (eq_event_request q) = Fact x"
  shows "keeps (event_types E) (evaluated E C q r i su v gs)"
proof -
  have prev: "keeps (event_types E) (previous_event_hash E C su)"
    unfolding previous_event_hash_def by (intro inv_intros)
  have hash: "gives P (ecrypto msg y) (\<lambda>h. y = Ok h)" for P :: "'b completer \<Rightarrow> bool" and msg
      and y :: "(digest_identifier, subject_error) res"
    by (auto simp: gives_def ecrypto_def)
  have maps: "keeps (event_types E) (modA (\<lambda>s. s\<lparr>
        ec_approval_evaluators := (ec_approval_evaluators s)(h \<mapsto> gs),
        ec_approval_requests := (ec_approval_requests s)(h \<mapsto> \<lparr>content = aq, signature = g\<rparr>)\<rparr>))"
    if "approval_request_hash E aq Blake3_256 = Ok h" "aq_event_request aq = eq_event_request q" for h aq g
    using that assms by (auto simp: keeps_def event_types_def approvals_ok_def)
  have approve: "keeps (event_types E) (evaluated_to_approve E C q r su v h gs)" for h
    unfolding evaluated_to_approve_def Let_def
    by (rule keeps_bindA_gives [OF keeps_types_basic(5) hash] keeps_bindA maps keeps_types_basic
        keeps_types_sign keeps_simple | simp)+
  have validate: "keeps (event_types E) (evaluated_to_validate E C q r i su v h gs)" for h
    unfolding evaluated_to_validate_def by (intro inv_intros)
  have drop: "keeps (event_types E) (modA (\<lambda>s. s\<lparr>ec_evaluations := f s,
      ec_pre_evaluations := (ec_pre_evaluations s)(h := None)\<rparr>))" for f h
    by (auto simp: keeps_def event_types_def pre_evaluations_ok_def)
  have phase: "keeps (event_types E) (next_phase E i md st m)" if "st \<in> {Evaluate, Approve, Validate}" for md st m
    unfolding next_phase_def using that by (intro inv_intros) simp
  have stage: "gives P (if b then bindA a (\<lambda>m. retA (Approve, m)) else bindA a' (\<lambda>m. retA (Validate, m)))
      (\<lambda>x. fst x \<in> {Evaluate, Approve, Validate})" for P :: "'b completer \<Rightarrow> bool" and b a a'
    by (auto simp: gives_def bindA_eq_Inr)
  have rest: "keeps (event_types E) (bindA (if er_appr_required r
         then bindA (evaluated_to_approve E C q r su v h gs) (\<lambda>m. retA (Approve, m))
         else bindA (evaluated_to_validate E C q r i su v h gs) (\<lambda>m. retA (Validate, m))) (\<lambda>(stage, event_message).
       bindA (modA (\<lambda>s. s\<lparr>
         ec_evaluations := (ec_evaluations s)(er_eval_req_hash r := None),
         ec_pre_evaluations := (ec_pre_evaluations s)(er_eval_req_hash r := None)\<rparr>)) (\<lambda>_.
       next_phase E i (metadata_at su i v) stage event_message)))" for h
    by (rule keeps_bindA_gives [OF _ stage])
      (auto intro!: keeps_bindA keeps_if approve validate drop phase keeps_simple split: prod.split)
  show ?thesis
    unfolding evaluated_def by (intro keeps_bindA keeps_if prev rest keeps_simple)
qed

lemma keeps_types_evaluator: "keeps (event_types E) (evaluator_signatures E C r)"
proof -
  have more: "keeps (event_types E) (more_evaluations E q i k K n m)" for q i k K n m
    unfolding more_evaluations_def Let_def by (intro inv_intros) simp
  show ?thesis
    unfolding evaluator_signatures_def Let_def
    by (rule keeps_bindA_gives [OF keeps_simple(3) gives_fact] keeps_bindA keeps_prod keeps_if more
        keeps_types_evaluated keeps_types_basic keeps_simple | assumption)+
qed

lemma keeps_types_approver: "keeps (event_types E) (approver_signatures E C a)"
proof -
  have more: "keeps (event_types E) (more_approvals E q i k K n m)" for q i k K n m
    unfolding more_approvals_def by (intro inv_intros) simp
  have forget: "keeps (event_types E) (forget_approval h)" for h
    by (auto simp: keeps_def event_types_def approvals_ok_def forget_approval_def)
  have "keeps (event_types E) (approved_to_validate E C x i su gs)" for x i su gs
    unfolding approved_to_validate_def Let_def by (intro inv_intros forget) simp
  then show ?thesis
    unfolding approver_signatures_def Let_def by (intro inv_intros more)
qed

lemma keeps_types_validation: "keeps (event_types E) (validation_signatures E C L h g v)"
proof -
  have more: "keeps (event_types E) (more_validations E ve i k K q)" for ve i k K q
    unfolding more_validations_def Let_def by (intro inv_intros) simp
  have drop: "keeps (event_types E) (modA (\<lambda>s. s\<lparr>ec_to_validate := f s, ec_validation_events := f' s,
      ec_validations := f'' s, ec_completing := (ec_completing s)(i := None)\<rparr>))" for f f' f'' i
    by (auto simp: keeps_def event_types_def completing_ok_def)
  have validated: "keeps (event_types E) (validated E L h ev ve i gs)" for ev ve i gs
    unfolding validated_def by (intro keeps_bindA drop keeps_types_basic)
  have accept: "keeps (event_types E) (accept_validation E L h ev ve i g)" for ev ve i
    unfolding accept_validation_def by (intro inv_intros more validated)
  have ours: "keeps (event_types E) (our_governance E x i su)" for x i su
    unfolding our_governance_def
    by (auto intro!: inv_intros split: option.split event_request.split)
  show ?thesis
    unfolding validation_signatures_def
    by (auto intro!: keeps_bindA keeps_prod keeps_if accept ours keeps_types_basic keeps_db_case keeps_simple
        split: sum.split failure.split db_error.split)
qed

lemma event_step_types:
  assumes "event_step E C L s t" "event_types E s"
  shows "event_types E t"
  using assms(1)
proof cases
  case (Start r)
  then show ?thesis using keepsD [OF keeps_types_init [where E = E and C = C], of s] assms(2) by simp
next
  case (Turn i r)
  have "keeps (event_types E) (higher_governance_expected C j k)" for j k
    unfolding higher_governance_expected_def by (rule keeps_types_basic)
  then have "keeps (event_types E) (event_command_result E C L c)" for c
    unfolding event_command_result_def
    by (cases c) (simp_all add: keeps_attempt keeps_types_pre_new_event keeps_types_evaluator
        keeps_types_approver keeps_types_validation)
  then have "keeps (event_types E) (event_turn E C L i)"
    unfolding event_turn_def
    by (auto intro!: keeps_bindA keeps_simple keeps_process_command keeps_types_update
        split: event_input.split option.split)
  then show ?thesis using keepsD [of "event_types E" "event_turn E C L i" s] Turn assms(2) by simp
next
  case (Others d alive msgs_open msgs ledger_open)
  then show ?thesis using assms(2) by (simp add: event_types_def)
qed

lemma event_run_types: "(event_step E C L)\<^sup>*\<^sup>* s t \<Longrightarrow> event_types E s \<Longrightarrow> event_types E t"
  by (induction rule: rtranclp_induct) (auto dest: event_step_types)

end
