(* ===== verification/Sample_Completer.thy ===== *)
theory Sample_Completer
  imports Sample_Ledger Completer_Transfers Completer_Types
begin

text \<open>
  An event completer that creates a governance, one that is asked for the transfer of a subject,
  and one that validates an event when its governance changes.
\<close>

section \<open>Writes\<close>

lemma completer_puts [simp]:
  "set_prevalidated_event sample_env i ev m = (Ok (), db_after (set_prevalidated_event sample_env i ev) m)"
  "set_request sample_env i er m = (Ok (), db_after (set_request sample_env i er) m)"
  "del_prevalidated_event sample_env i m = (Ok (), db_after (del_prevalidated_event sample_env i) m)"
  "del_request sample_env i m = (Ok (), db_after (del_request sample_env i) m)"
  by (simp_all add: db_after_def set_prevalidated_event_def set_request_def del_prevalidated_event_def
      del_request_def get_key_eval kv_put_def sample_env_def coll_put_def coll_del_def)

lemma completer_writes [simp]:
  "writes ''prevalidated-event'' m (db_after (set_prevalidated_event E i ev) m)"
  "writes ''request'' m (db_after (set_request E i er) m)"
  "writes ''request'' m (db_after (del_request E i) m)"
  by (simp_all add: db_after_def prevalidated.writes_table requests.writes_table del_request_writes)

lemmas completer_foreign =
  subjects.get_foreign [OF completer_writes(1)] subjects.get_foreign [OF completer_writes(2)]
  subjects.get_foreign [OF completer_writes(3)]
  get_signatures_foreign [OF completer_writes(1)] get_signatures_foreign [OF completer_writes(3)]
  requests.get_foreign [OF completer_writes(1)] requests.get_foreign [OF writes_after(1)]
  requests.get_foreign [OF writes_after(2)] requests.get_foreign [OF writes_after(3)]
  requests.get_foreign [OF writes_after(4)]

lemma sample_request_other:
  assumes "i \<noteq> j" "id_valid sample_env i" "id_valid sample_env j"
  shows "get_request sample_env i (db_after (set_request sample_env j er) m) = get_request sample_env i m"
    "get_request sample_env i (db_after (del_request sample_env j) m) = get_request sample_env i m"
proof -
  show "get_request sample_env i (db_after (set_request sample_env j er) m) = get_request sample_env i m"
    unfolding db_after_def by (rule requests.get_put_other) (use assms in auto)
  have "''request'' @ char_MAX @ dstr sample_env i \<noteq> ''request'' @ char_MAX @ dstr sample_env j"
    using id_valid_inject [OF assms(2,3)] assms(1) by auto
  from coll_get_del_other [OF this, of m]
  show "get_request sample_env i (db_after (del_request sample_env j) m) = get_request sample_env i m"
    unfolding db_after_def del_request_def get_request_def get_key_eval bindA_simps bindR_simps
    by (simp only: kv_get_def)
qed

lemma empty_requests [simp]: "get_request E i [] = Fail EntryNotFound"
  by (simp add: get_request_def get_key_eval kv_get_def coll_get_def)

section \<open>The creation of a governance\<close>

definition sample_completing :: completer_config where
  "sample_completing = \<lparr>cc_own_identifier = sample_key 1, cc_derivator = Blake3_256\<rparr>"

definition sample_completer :: "blob data_store \<Rightarrow> blob completer" where
  "sample_completer db = \<lparr>
     nd_db = db,
     nd_gov_alive = True,
     nd_gov_updates = [],
     nd_message_open = True,
     nd_messages = [],
     nd_distribution_open = True,
     nd_distribution = [],
     nd_notification_open = True,
     nd_notifications = [],
     ec_subjects_by_governance = Map.empty,
     ec_completing = Map.empty,
     ec_pre_evaluations = Map.empty,
     ec_evaluations = Map.empty,
     ec_approval_evaluators = Map.empty,
     ec_approval_requests = Map.empty,
     ec_approvals = Map.empty,
     ec_to_validate = Map.empty,
     ec_validations = Map.empty,
     ec_validation_events = Map.empty,
     ec_ledger_open = True,
     ec_ledger = [],
     ec_clock = \<lambda>_. 1,
     ec_ticks = 0\<rparr>"

definition new_governance :: "event_request signed" where
  "new_governance = \<lparr>content = Create \<lparr>
       st_governance_id = default_digest,
       st_schema_id = ''governance'',
       st_namespace = '''',
       st_name = ''name'',
       st_public_key = sample_key 9\<rparr>, signature = sample_signature 1\<rparr>"

definition keys_db :: "blob data_store" where
  "keys_db = [(''keys'' @ char_MAX @ kstr sample_env (sample_key 9), BKeys (sample_keys 9))]"

definition silent_ledger :: "blob ledger_task" where
  "silent_ledger c d = (True, d)"

abbreviation sample_event_id :: digest_identifier where
  "sample_event_id \<equiv> new_digest Blake3_256 sample_hash"

lemma keys_db_reads [simp]:
  "get_keys sample_env (sample_key 9) keys_db = Ok (sample_keys 9)"
  "get_taple_request sample_env i keys_db = Fail EntryNotFound"
  "get_subject sample_env i keys_db = Fail EntryNotFound"
  by (simp_all add: keys_db_def get_keys_def get_taple_request_def get_subject_def get_key_eval kv_get_def
      coll_get_def sample_env_def)

lemmas run_completer = event_turn_def event_process_command_def event_command_result_def attempt_def
  pre_new_event_def new_event_def new_genesis_def genesis_keys_def genesis_governance_def
  create_validation_event_from_genesis_def sign_now_def clock_now_def bindA_run db_case_def
  edb_def eread_def eask_def esubject_def ecrypto_def dbA_def zoomA_def db_read_def ask_gov_def
  ask_signatures_def tell_message_def set_validation_event_def set_to_validate_def set_phase_def
  add_by_governance_def generate_subject_id_def event_request_verify_def taple_request_from_def Let_def

lemma sample_new_signature [simp]:
  "signature_new sample_env now p (sample_keys n) d = Ok \<lparr>
     sg_signer = sample_key n, sg_timestamp = now, sg_content_hash = new_digest d sample_hash,
     sg_value = new_signature_id Ed25519Sha512 [n]\<rparr>"
  by (simp add: signature_new_def sample_keys_def sample_key_def Let_def new_key_def)
     (simp add: sample_env_def)

lemma sample_basics [simp]:
  "ki_public_key (sample_key n) \<noteq> []" "sg_signer (sample_signature n) = sample_key n"
  "e_diff sample_env a b = Some b"
  "get_init_state sample_env default_digest i v m = Ok get_governance_initial_state"
  by (simp_all add: sample_key_def new_key_def sample_signature_def sample_env_def get_init_state_def
      default_digest_def)

lemma genesis_requested:
  obtains t where "event_turn sample_env sample_completing silent_ledger
      (EInputCommand (Some (None, EventCmd new_governance))) (sample_completer keys_db) = (Ok True, t)"
    "\<exists>ev. ec_to_validate t sample_event_id = Some ev \<and> ev_sn (content ev) = 0 \<and>
      ev_event_request (content ev) = new_governance"
    "\<exists>ve. ec_validation_events t sample_event_id = Some ve"
    "ec_completing t = [sample_event_id \<mapsto> (Validate, {sample_key 1}, 1, 0)]"
    "ec_validations t = Map.empty" "ec_ledger t = []" "ec_ledger_open t" "nd_message_open t"
    "get_subject sample_env sample_event_id (nd_db t) = Fail EntryNotFound"
proof -
  obtain r t where t: "event_turn sample_env sample_completing silent_ledger
      (EInputCommand (Some (None, EventCmd new_governance))) (sample_completer keys_db) = (r, t)" by fastforce
  then show ?thesis
    by (intro that) (auto simp: run_completer new_governance_def sample_completing_def sample_completer_def
      event_from_genesis_request_def completer_foreign foreign_reads)
qed

lemma genesis_to_ledger:
  obtains t r u ev p where
    "(event_step sample_env sample_completing silent_ledger)\<^sup>*\<^sup>* (sample_completer keys_db) t"
    "event_turn sample_env sample_completing silent_ledger
       (EInputCommand (Some (None, ValidatorResponse sample_event_id (sample_signature 1) 0))) t = (r, u)"
    "ec_ledger t = []" "ec_ledger u = [Genesis ev [sample_signature 1] p]"
    "ev_event_request (content ev) = new_governance"
proof -
  obtain t ev ve where t: "event_turn sample_env sample_completing silent_ledger
      (EInputCommand (Some (None, EventCmd new_governance))) (sample_completer keys_db) = (Ok True, t)"
    and ev: "ec_to_validate t sample_event_id = Some ev" "ev_sn (content ev) = 0"
      "ev_event_request (content ev) = new_governance"
    and ve: "ec_validation_events t sample_event_id = Some ve"
    and phase: "ec_completing t = [sample_event_id \<mapsto> (Validate, {sample_key 1}, 1, 0)]"
    and none: "ec_validations t = Map.empty" "ec_ledger t = []" "ec_ledger_open t" "nd_message_open t"
      "get_subject sample_env sample_event_id (nd_db t) = Fail EntryNotFound"
    using genesis_requested by metis
  obtain r u where u: "event_turn sample_env sample_completing silent_ledger
      (EInputCommand (Some (None, ValidatorResponse sample_event_id (sample_signature 1) 0))) t = (r, u)" by fastforce
  have "ec_ledger u = [Genesis ev [sample_signature 1] (ve_proof ve)]"
    using u ev ve phase none
    by (auto simp: run_completer validation_signatures_def validated_subject_id_def new_governance_def
        our_governance_def accept_validation_def in_phase_def listed_signer_def verified_def
        save_validation_def save_in_def validated_def ask_ledger_def silent_ledger_def sample_completing_def)
  moreover have "(event_step sample_env sample_completing silent_ledger)\<^sup>*\<^sup>* (sample_completer keys_db) t"
    using event_step.Turn [OF t] by (rule r_into_rtranclp)
  ultimately show ?thesis using that [OF _ u none(2) _ ev(3)] by blast
qed

lemma completer_starts: "completer_fresh (sample_completer db)" "event_types E (sample_completer db)"
  by (simp_all add: completer_fresh_def sample_completer_def event_types_def completing_ok_def
      pre_evaluations_ok_def approvals_ok_def)

section \<open>The transfer of a subject\<close>

text \<open>Subject 5 is ours; its governance is at version 1, and we are its validator.\<close>

definition schema_governance :: subject where
  "schema_governance = sample_subject (sample_id 2) default_digest ''governance'' 1 (JObject [
     (''members'', JArray []),
     (''policies'', JArray [JObject [
        (''id'', JString ''schema''),
        (''validate'', JObject [(''quorum'', JString ''MAJORITY'')])]]),
     (''roles'', JArray []),
     (''schemas'', JArray [])])"

definition our_subject :: subject where
  "our_subject = sample_subject_5\<lparr>su_keys := Some (sample_keys 9)\<rparr>"

definition transfer_db :: "blob data_store" where
  "transfer_db = db_after (set_signatures sample_env (sample_id 5) 0 [sample_signature 3] sample_proof)
     (db_after (set_event sample_env (sample_id 5) (sample_event (Create sample_start) 0 True))
     (db_after (set_subject sample_env (sample_id 5) our_subject)
     (db_after (set_subject sample_env (sample_id 2) schema_governance) [])))"

text \<open>Node 4, which is neither us nor the owner, asks for the transfer.\<close>

definition stranger_transfer :: "event_request signed" where
  "stranger_transfer = \<lparr>content = Transfer sample_transfer, signature = sample_signature 4\<rparr>"

lemma sample_get_signatures_set:
  assumes "get_signatures sample_env i sn m = Fail EntryNotFound"
  shows "get_signatures sample_env i sn (db_after (set_signatures sample_env i sn gs p) m) = Ok (gs, p)"
proof -
  have "coll_get (''signature'' @ char_MAX @ dstr sample_env i @ char_MAX @ get_u64_as_hexadecimal sn) m =
      Fail EntryNotFound"
    using assms by (auto simp: get_signatures_def get_key_eval kv_get_def coll_get_def split: option.splits)
      (auto simp: ok_or_def split: option.splits)
  then show ?thesis
    by (simp add: db_after_def set_signatures_def get_signatures_def get_key_eval kv_get_def kv_put_def
        bindA_run coll_put_def coll_get_def bt_get_insert sample_env_def del: sample_set_signatures)
qed

lemma transfer_db_reads [simp]:
  "get_subject sample_env (sample_id 5) transfer_db = Ok our_subject"
  "get_subject sample_env (sample_id 2) transfer_db = Ok schema_governance"
  "get_event sample_env (sample_id 5) 0 transfer_db = Ok (sample_event (Create sample_start) 0 True)"
  "get_signatures sample_env (sample_id 5) 0 transfer_db = Ok ([sample_signature 3], sample_proof)"
  "get_taple_request sample_env i transfer_db = Fail EntryNotFound"
  by (simp_all add: transfer_db_def foreign_reads event_reads taple_requests.get_foreign [OF writes_after(4)]
      sample_get_signatures_set)

lemma our_subject_sel [simp]:
  "su_subject_id our_subject = sample_id 5" "su_governance_id our_subject = sample_id 2" "su_sn our_subject = 0"
  "su_keys our_subject = Some (sample_keys 9)" "su_active our_subject" "su_owner our_subject = sample_key 1"
  by (simp_all add: our_subject_def) (simp add: sample_subject_5_def sample_subject_def)

lemma transfer_version [simp]:
  "get_governance_version sample_env i (sample_id 2) transfer_db = Ok 1"
  by (simp add: get_governance_version_def schema_governance_def sample_subject_def
      digest_to_str_def derivable_to_str_def default_digest_def)

lemma transfer_request_free: "get_request sample_env i transfer_db = Fail EntryNotFound"
  by (simp add: transfer_db_def completer_foreign)

text \<open>Other tables than those of subjects do not matter to the governance module.\<close>

lemma schema_signers:
  assumes "get_subject sample_env (sample_id 2) m = Ok schema_governance"
  shows "get_signers sample_env (metadata_at our_subject (sample_id 5) 1) Validate m = Ok {sample_key 1}"
    "get_quorum sample_env (metadata_at our_subject (sample_id 5) 1) Validate m = Ok 1"
proof -
  have sourced: "sourced sample_env (gov_of (metadata_at our_subject (sample_id 5) 1)) 1 m = Ok schema_governance"
    using assms by (simp add: sourced_def gov_of_def metadata_at_def governance_event_sourcing_def
        schema_governance_def sample_subject_def)
  have md: "md_governance_version (metadata_at our_subject (sample_id 5) 1) = 1"
    "md_schema_id (metadata_at our_subject (sample_id 5) 1) = ''schema''"
    by (simp_all add: metadata_at_def our_subject_def sample_subject_5_def sample_subject_def)
  show signers: "get_signers sample_env (metadata_at our_subject (sample_id 5) 1) Validate m = Ok {sample_key 1}"
    using sourced by (simp add: get_signers_def signers_version_def md schema_governance_def sample_subject_def
        get_members_from_governance_def Let_def)
  show "get_quorum sample_env (metadata_at our_subject (sample_id 5) 1) Validate m = Ok 1"
    using sourced by (simp add: get_quorum_def signers md schema_governance_def sample_subject_def get_as_array_def
        policy_quorum_def quorum_size_def)
qed

definition transfer_completer :: "blob completer" where
  "transfer_completer = (sample_completer transfer_db)\<lparr>
     ec_subjects_by_governance := [sample_id 2 \<mapsto> [sample_id 5]]\<rparr>"

lemma sample_encodes:
  "encodes sample_env" "can_sign sample_env (sample_keys 9)"
  by (simp_all add: encodes_def can_sign_def sample_env_def sample_keys_def)

lemma transfer_node_ready:
  "subject_ready sample_env transfer_completer (sample_id 5) our_subject (sample_keys 9)"
  by (simp add: subject_ready_def transfer_completer_def sample_completer_def schema_signers)

lemma transfer_accepted:
  obtains r t where "pre_new_event sample_env sample_completing stranger_transfer transfer_completer = (Ok r, t)"
    "ec_subjects_by_governance t (sample_id 2) = Some [sample_id 5, sample_id 2]"
    "get_request sample_env (sample_id 2) (nd_db t) = Fail EntryNotFound"
proof -
  obtain r t where t: "pre_new_event sample_env sample_completing stranger_transfer transfer_completer = (r, t)" by fastforce
  have "sample_id 2 \<noteq> sample_id 5" by simp
  then show ?thesis
    using t that
    by (auto simp: run_completer stranger_transfer_def transfer_completer_def sample_completer_def
        sample_completing_def request_subject_id_def owned_subject_def process_transfer_or_eol_event_def
        transfer_or_eol_allowed_def create_event_prevalidated_no_eval_def previous_derivator_def
        event_hash_id_def value_hash_id_def own_keys_def create_validation_event_def start_validation_def
        get_signers_and_quorum_def register_request_def schema_signers completer_foreign foreign_reads
        sample_request_other transfer_request_free)
qed

section \<open>A validation when the governance changes\<close>

definition validating_completer :: "blob completer" where
  "validating_completer =
     (sample_completer (db_after (set_prevalidated_event sample_env (sample_id 5) (sample_event (EOL sample_eol) 1 True))
       transfer_db))\<lparr>ec_validations := [sample_event_id \<mapsto> [sample_signature 3]]\<rparr>"

lemma validation_restarts:
  obtains t where "restart_subject sample_env sample_completing 1 (sample_id 5) validating_completer = (Ok (), t)"
    "ec_completing t (sample_id 5) = Some (Validate, {sample_key 1}, 1, 0)" "ec_ledger_open t" "ec_ledger t = []"
proof -
  obtain r t where t: "restart_subject sample_env sample_completing 1 (sample_id 5) validating_completer = (r, t)" by fastforce
  have "get_prevalidated_event sample_env (sample_id 5) (db_after (set_prevalidated_event sample_env (sample_id 5) x) m)
      = Ok x" for x m
    by (rule prevalidated.get_put [OF _ _ completer_puts(1)]) simp_all
  then show ?thesis
    using t that
    by (auto simp: run_completer validating_completer_def sample_completer_def restart_subject_def
        restart_request_def restart_validation_def create_validation_event_def event_hash_id_def
        sample_completing_def get_signers_and_quorum_def schema_signers completer_foreign transfer_request_free)
qed

end
