(* ===== verification/Gov_State.thy ===== *)
theory Gov_State
  imports Env Gov_Models
begin

text \<open>
  The document of a governance as the evaluator sees it: the structures of
  \<^verbatim>\<open>commons/schema_handler/gov_models.rs\<close> with their JSON form, and the checks of
  \<^verbatim>\<open>evaluator/runner/executor.rs\<close> on a new state of a governance. A \<^verbatim>\<open>HashSet\<close> of names is a set.
\<close>

section \<open>The document\<close>

record gov_member =
  gm_id :: string
  gm_name :: string
  gm_description :: "string option"

record gov_schema =
  gs_id :: string
  gs_schema :: json
  gs_initial_value :: json
  gs_contract :: contract

record policy_validation =
  pv_quorum :: quorum

record gov_policy =
  gp_id :: string
  gp_approve :: policy_validation
  gp_evaluate :: policy_validation
  gp_validate :: policy_validation

record gov_document =
  gd_members :: "gov_member list"
  gd_roles :: "role list"
  gd_schemas :: "gov_schema list"
  gd_policies :: "gov_policy list"

subsection \<open>From JSON\<close>

text \<open>A \<^verbatim>\<open>Vec\<close> is read from an array.\<close>

fun vec_of_json :: "(json \<Rightarrow> 'a option) \<Rightarrow> json \<Rightarrow> 'a list option" where
  "vec_of_json f (JArray xs) = sequence_opt (map f xs)"
| "vec_of_json f _ = None"

text \<open>An \<^verbatim>\<open>Option<String>\<close> is read from \<^verbatim>\<open>null\<close> or a string; in an object it may be missing.\<close>

fun opt_string_of_json :: "json \<Rightarrow> string option option" where
  "opt_string_of_json JNull = Some None"
| "opt_string_of_json (JString s) = Some (Some s)"
| "opt_string_of_json _ = None"

definition mk_member :: "json option \<Rightarrow> json option \<Rightarrow> json \<Rightarrow> gov_member option" where
  "mk_member i n d =
     (case (Option.bind i json_as_str, Option.bind n json_as_str, opt_string_of_json d) of
        (Some i', Some n', Some d') \<Rightarrow> Some \<lparr>gm_id = i', gm_name = n', gm_description = d'\<rparr>
      | _ \<Rightarrow> None)"

fun member_of_json :: "json \<Rightarrow> gov_member option" where
  "member_of_json (JObject m) =
     mk_member (bt_get m ''id'') (bt_get m ''name'')
       (case bt_get m ''description'' of None \<Rightarrow> JNull | Some d \<Rightarrow> d)"
| "member_of_json (JArray [i, n, d]) = mk_member (Some i) (Some n) d"
| "member_of_json _ = None"

definition mk_schema ::
  "json option \<Rightarrow> json option \<Rightarrow> json option \<Rightarrow> json option \<Rightarrow> gov_schema option" where
  "mk_schema i s v c =
     (case (Option.bind i json_as_str, s, v, Option.bind c contract_of_json) of
        (Some i', Some s', Some v', Some c') \<Rightarrow>
          Some \<lparr>gs_id = i', gs_schema = s', gs_initial_value = v', gs_contract = c'\<rparr>
      | _ \<Rightarrow> None)"

fun schema_of_json :: "json \<Rightarrow> gov_schema option" where
  "schema_of_json (JObject m) =
     mk_schema (bt_get m ''id'') (bt_get m ''schema'') (bt_get m ''initial_value'') (bt_get m ''contract'')"
| "schema_of_json (JArray [i, s, v, c]) = mk_schema (Some i) (Some s) (Some v) (Some c)"
| "schema_of_json _ = None"

fun validation_of_json :: "json \<Rightarrow> policy_validation option" where
  "validation_of_json (JObject m) =
     map_option (\<lambda>q. \<lparr>pv_quorum = q\<rparr>) (Option.bind (bt_get m ''quorum'') quorum_of_json)"
| "validation_of_json (JArray [q]) = map_option (\<lambda>q. \<lparr>pv_quorum = q\<rparr>) (quorum_of_json q)"
| "validation_of_json _ = None"

definition mk_policy ::
  "json option \<Rightarrow> json option \<Rightarrow> json option \<Rightarrow> json option \<Rightarrow> gov_policy option" where
  "mk_policy i a e v =
     (case (Option.bind i json_as_str, Option.bind a validation_of_json, Option.bind e validation_of_json,
            Option.bind v validation_of_json) of
        (Some i', Some a', Some e', Some v') \<Rightarrow>
          Some \<lparr>gp_id = i', gp_approve = a', gp_evaluate = e', gp_validate = v'\<rparr>
      | _ \<Rightarrow> None)"

fun policy_of_json :: "json \<Rightarrow> gov_policy option" where
  "policy_of_json (JObject m) =
     mk_policy (bt_get m ''id'') (bt_get m ''approve'') (bt_get m ''evaluate'') (bt_get m ''validate'')"
| "policy_of_json (JArray [i, a, e, v]) = mk_policy (Some i) (Some a) (Some e) (Some v)"
| "policy_of_json _ = None"

definition mk_document ::
  "json option \<Rightarrow> json option \<Rightarrow> json option \<Rightarrow> json option \<Rightarrow> gov_document option" where
  "mk_document ms rs ss ps =
     (case (Option.bind ms (vec_of_json member_of_json), Option.bind rs (vec_of_json role_of_json),
            Option.bind ss (vec_of_json schema_of_json), Option.bind ps (vec_of_json policy_of_json)) of
        (Some ms', Some rs', Some ss', Some ps') \<Rightarrow>
          Some \<lparr>gd_members = ms', gd_roles = rs', gd_schemas = ss', gd_policies = ps'\<rparr>
      | _ \<Rightarrow> None)"

fun document_of_json :: "json \<Rightarrow> gov_document option" where
  "document_of_json (JObject m) =
     mk_document (bt_get m ''members'') (bt_get m ''roles'') (bt_get m ''schemas'') (bt_get m ''policies'')"
| "document_of_json (JArray [ms, rs, ss, ps]) = mk_document (Some ms) (Some rs) (Some ss) (Some ps)"
| "document_of_json _ = None"

subsection \<open>To JSON\<close>

definition member_to_json :: "gov_member \<Rightarrow> json" where
  "member_to_json m = JObject (
     (case gm_description m of None \<Rightarrow> [] | Some d \<Rightarrow> [(''description'', JString d)]) @
     [(''id'', JString (gm_id m)), (''name'', JString (gm_name m))])"

definition contract_to_json :: "contract \<Rightarrow> json" where
  "contract_to_json c = JObject [(''raw'', JString (co_raw c))]"

definition schema_to_json :: "gov_schema \<Rightarrow> json" where
  "schema_to_json s = JObject [
     (''contract'', contract_to_json (gs_contract s)), (''id'', JString (gs_id s)),
     (''initial_value'', gs_initial_value s), (''schema'', gs_schema s)]"

definition validation_to_json :: "policy_validation \<Rightarrow> json" where
  "validation_to_json v = JObject [(''quorum'', quorum_to_json (pv_quorum v))]"

definition policy_to_json :: "gov_policy \<Rightarrow> json" where
  "policy_to_json p = JObject [
     (''approve'', validation_to_json (gp_approve p)), (''evaluate'', validation_to_json (gp_evaluate p)),
     (''id'', JString (gp_id p)), (''validate'', validation_to_json (gp_validate p))]"

definition document_to_json :: "gov_document \<Rightarrow> json" where
  "document_to_json g = JObject [
     (''members'', JArray (map member_to_json (gd_members g))),
     (''policies'', JArray (map policy_to_json (gd_policies g))),
     (''roles'', JArray (map role_to_json (gd_roles g))),
     (''schemas'', JArray (map schema_to_json (gd_schemas g)))]"

lemma sequence_map:
  "(\<And>x. x \<in> set xs \<Longrightarrow> f (g x) = Some x) \<Longrightarrow> sequence_opt (map f (map g xs)) = Some xs"
  by (induction xs) simp_all

lemma member_json_roundtrip [simp]: "member_of_json (member_to_json m) = Some m"
  by (cases m) (simp add: member_to_json_def mk_member_def split: option.split)

lemma schema_json_roundtrip [simp]: "schema_of_json (schema_to_json s) = Some s"
  by (cases s; cases "gs_contract s") (simp add: schema_to_json_def contract_to_json_def mk_schema_def)

lemma policy_json_roundtrip [simp]: "policy_of_json (policy_to_json p) = Some p"
  by (cases p) (simp add: policy_to_json_def validation_to_json_def mk_policy_def)

lemma document_json_roundtrip [simp]: "document_of_json (document_to_json g) = Some g"
  using sequence_map [of "gd_members g" member_of_json member_to_json]
    sequence_map [of "gd_roles g" role_of_json role_to_json]
    sequence_map [of "gd_schemas g" schema_of_json schema_to_json]
    sequence_map [of "gd_policies g" policy_of_json policy_to_json]
  by (simp add: document_to_json_def mk_document_def)

section \<open>The checks\<close>

datatype governance_state_error =
    DuplicatedMemberName
  | DuplicatedMemberID
  | DuplicatedPolicyID
  | NoGvernancePolicy
  | GovernanceShchemaIDDetected
  | NoCorrelationSchemaPolicy
  | PoliciesWithoutSchema
  | InvalidRoleSchema
  | IdWhoRoleNoExist
  | NameWhoRoleNoExist

fun members_checked ::
  "gov_member list \<Rightarrow> string set \<Rightarrow> string set \<Rightarrow> (string set \<times> string set, governance_state_error) res" where
  "members_checked [] id_set name_set = Ok (id_set, name_set)"
| "members_checked (m # ms) id_set name_set =
     (if gm_name m \<in> name_set then Fail DuplicatedMemberName
      else if gm_id m \<in> id_set then Fail DuplicatedMemberID
      else members_checked ms (insert (gm_id m) id_set) (insert (gm_name m) name_set))"

definition check_members :: "gov_member list \<Rightarrow> (string set \<times> string set, governance_state_error) res" where
  "check_members ms = members_checked ms {} {}"

fun policies_checked ::
  "gov_policy list \<Rightarrow> bool \<Rightarrow> string set \<Rightarrow> (bool \<times> string set, governance_state_error) res" where
  "policies_checked [] is_governance_present id_set = Ok (is_governance_present, id_set)"
| "policies_checked (p # ps) is_governance_present id_set =
     (if gp_id p \<in> id_set then Fail DuplicatedPolicyID
      else policies_checked ps (is_governance_present \<or> gp_id p = ''governance'') (insert (gp_id p) id_set))"

definition check_policies :: "gov_policy list \<Rightarrow> (string set, governance_state_error) res" where
  "check_policies ps =
     bindR (policies_checked ps False {}) (\<lambda>(is_governance_present, id_set).
     if \<not> is_governance_present then Fail NoGvernancePolicy
     else Ok (id_set - {''governance''}))"

fun check_schemas :: "gov_schema list \<Rightarrow> string set \<Rightarrow> (unit, governance_state_error) res" where
  "check_schemas [] policies_names = (if policies_names \<noteq> {} then Fail PoliciesWithoutSchema else Ok ())"
| "check_schemas (s # ss) policies_names =
     (if gs_id s = ''governance'' then Fail GovernanceShchemaIDDetected
      else if gs_id s \<notin> policies_names then Fail NoCorrelationSchemaPolicy
      else check_schemas ss (policies_names - {gs_id s}))"

fun roles_checked ::
  "role list \<Rightarrow> string set \<Rightarrow> string set \<Rightarrow> string set \<Rightarrow> (unit, governance_state_error) res" where
  "roles_checked [] schemas_names id_set name_set = Ok ()"
| "roles_checked (r # rs) schemas_names id_set name_set =
     bindR (case ro_schema r of
         SchemaID i \<Rightarrow> fail_if (i \<notin> schemas_names) InvalidRoleSchema
       | _ \<Rightarrow> Ok ()) (\<lambda>_.
     bindR (case ro_who r of
         WhoID i \<Rightarrow> fail_if (i \<notin> id_set) IdWhoRoleNoExist
       | WhoNAME n \<Rightarrow> fail_if (n \<notin> name_set) NameWhoRoleNoExist
       | _ \<Rightarrow> Ok ()) (\<lambda>_.
     roles_checked rs schemas_names id_set name_set))"

definition check_roles ::
  "role list \<Rightarrow> string set \<Rightarrow> string set \<Rightarrow> string set \<Rightarrow> (unit, governance_state_error) res" where
  "check_roles rs schemas_names id_set name_set =
     roles_checked rs (insert ''governance'' schemas_names) id_set name_set"

definition check_governance_state :: "gov_document \<Rightarrow> (unit, governance_state_error) res" where
  "check_governance_state g =
     bindR (check_members (gd_members g)) (\<lambda>(id_set, name_set).
     bindR (check_policies (gd_policies g)) (\<lambda>policies_names.
     bindR (check_schemas (gd_schemas g) policies_names) (\<lambda>_.
     check_roles (gd_roles g) policies_names id_set name_set)))"

section \<open>What they check\<close>

text \<open>The members and the schemas a role may name.\<close>

definition role_refers :: "string set \<Rightarrow> string set \<Rightarrow> string set \<Rightarrow> role \<Rightarrow> bool" where
  "role_refers schema_ids ids names r \<longleftrightarrow>
     (case ro_schema r of SchemaID i \<Rightarrow> i \<in> schema_ids | _ \<Rightarrow> True) \<and>
     (case ro_who r of WhoID i \<Rightarrow> i \<in> ids | WhoNAME n \<Rightarrow> n \<in> names | _ \<Rightarrow> True)"

definition well_formed_document :: "gov_document \<Rightarrow> bool" where
  "well_formed_document g \<longleftrightarrow>
     distinct (map gm_id (gd_members g)) \<and> distinct (map gm_name (gd_members g)) \<and>
     distinct (map gp_id (gd_policies g)) \<and> distinct (map gs_id (gd_schemas g)) \<and>
     ''governance'' \<in> gp_id ` set (gd_policies g) \<and>
     gs_id ` set (gd_schemas g) = gp_id ` set (gd_policies g) - {''governance''} \<and>
     (\<forall>r\<in>set (gd_roles g). role_refers (gp_id ` set (gd_policies g))
        (gm_id ` set (gd_members g)) (gm_name ` set (gd_members g)) r)"

lemma members_checked_Ok:
  "members_checked ms I N = Ok r \<longleftrightarrow>
     distinct (map gm_id ms) \<and> distinct (map gm_name ms) \<and>
     gm_id ` set ms \<inter> I = {} \<and> gm_name ` set ms \<inter> N = {} \<and>
     r = (I \<union> gm_id ` set ms, N \<union> gm_name ` set ms)"
  by (induction ms I N rule: members_checked.induct) auto

lemma policies_checked_Ok:
  "policies_checked ps b I = Ok r \<longleftrightarrow>
     distinct (map gp_id ps) \<and> gp_id ` set ps \<inter> I = {} \<and>
     r = (b \<or> ''governance'' \<in> gp_id ` set ps, I \<union> gp_id ` set ps)"
  by (induction ps b I rule: policies_checked.induct) auto

lemma check_schemas_Ok:
  "check_schemas ss P = Ok u \<longleftrightarrow>
     distinct (map gs_id ss) \<and> gs_id ` set ss = P \<and> ''governance'' \<notin> gs_id ` set ss"
  by (induction ss P rule: check_schemas.induct) auto

lemma roles_checked_Ok:
  "roles_checked rs S I N = Ok u \<longleftrightarrow> (\<forall>r\<in>set rs. role_refers S I N r)"
  by (induction rs S I N rule: roles_checked.induct)
    (auto simp: role_refers_def bindR_eq_Inr split: schema_enum.splits who.splits)

lemma check_members_Ok:
  "check_members ms = Ok r \<longleftrightarrow> distinct (map gm_id ms) \<and> distinct (map gm_name ms) \<and>
     r = (gm_id ` set ms, gm_name ` set ms)"
  by (simp add: check_members_def members_checked_Ok)

lemma check_policies_Ok:
  "check_policies ps = Ok P \<longleftrightarrow> distinct (map gp_id ps) \<and> ''governance'' \<in> gp_id ` set ps \<and>
     P = gp_id ` set ps - {''governance''}"
  by (auto simp: check_policies_def bindR_eq_Inr policies_checked_Ok simp del: insert_iff)

lemma check_roles_Ok:
  "''governance'' \<in> P \<Longrightarrow> check_roles rs (P - {''governance''}) I N = Ok u \<longleftrightarrow>
     (\<forall>r\<in>set rs. role_refers P I N r)"
  by (simp add: check_roles_def roles_checked_Ok insert_absorb)

lemma check_governance_state_Ok:
  "is_Ok (check_governance_state g) \<longleftrightarrow>
     (\<exists>P. check_policies (gd_policies g) = Ok P \<and> check_schemas (gd_schemas g) P = Ok () \<and>
        distinct (map gm_id (gd_members g)) \<and> distinct (map gm_name (gd_members g)) \<and>
        check_roles (gd_roles g) P (gm_id ` set (gd_members g)) (gm_name ` set (gd_members g)) = Ok ())"
  by (auto simp: is_Ok_iff check_governance_state_def bindR_eq_Inr check_members_Ok)

lemma check_governance_state_iff:
  "is_Ok (check_governance_state g) \<longleftrightarrow> well_formed_document g"
proof
  assume "is_Ok (check_governance_state g)"
  then obtain P where P: "check_policies (gd_policies g) = Ok P" "check_schemas (gd_schemas g) P = Ok ()"
    and members: "distinct (map gm_id (gd_members g))" "distinct (map gm_name (gd_members g))"
    and roles: "check_roles (gd_roles g) P (gm_id ` set (gd_members g)) (gm_name ` set (gd_members g)) = Ok ()"
    by (auto simp only: check_governance_state_Ok)
  have gov: "''governance'' \<in> gp_id ` set (gd_policies g)" "distinct (map gp_id (gd_policies g))"
    and eq: "P = gp_id ` set (gd_policies g) - {''governance''}"
    using P(1) by (simp_all only: check_policies_Ok)
  show "well_formed_document g"
    using P(2) members roles gov check_roles_Ok [OF gov(1)]
    by (simp add: well_formed_document_def check_schemas_Ok eq)
next
  assume "well_formed_document g"
  then show "is_Ok (check_governance_state g)"
    unfolding check_governance_state_Ok check_policies_Ok well_formed_document_def
    by (intro exI [of _ "gp_id ` set (gd_policies g) - {''governance''}"])
      (simp add: check_schemas_Ok check_roles_Ok)
qed

end
