(* ===== verification/Contract_Memory.thy ===== *)
theory Contract_Memory
  imports Prelude
begin

text \<open>
  The memory a contract shares with the evaluator (\<^verbatim>\<open>evaluator/runner/context.rs\<close>): bytes that are
  only ever appended, and the length of the allocation at each start. \<^verbatim>\<open>usize\<close> is \<open>nat\<close>: an address
  is at most the sum of the lengths requested, each below \<open>2 ^ 32\<close>.
\<close>

section \<open>Operations\<close>

record contract_memory =
  cm_memory :: bytes
  cm_map :: "nat \<rightharpoonup> nat"

definition memory_new :: contract_memory where
  "memory_new = \<lparr>cm_memory = [], cm_map = Map.empty\<rparr>"

definition alloc :: "nat \<Rightarrow> contract_memory \<Rightarrow> nat \<times> contract_memory" where
  "alloc n m =
     (length (cm_memory m),
      m\<lparr>cm_memory := cm_memory m @ replicate n 0, cm_map := (cm_map m)(length (cm_memory m) \<mapsto> n)\<rparr>)"

definition write_byte :: "nat \<Rightarrow> nat \<Rightarrow> u8 \<Rightarrow> contract_memory \<Rightarrow> (contract_memory, 'e) res" where
  "write_byte start_ptr offset data m =
     (if start_ptr + offset < length (cm_memory m)
      then Ok (m\<lparr>cm_memory := (cm_memory m)[start_ptr + offset := data]\<rparr>)
      else Abort ''index out of bounds'')"

definition read_byte :: "nat \<Rightarrow> contract_memory \<Rightarrow> (u8, 'e) res" where
  "read_byte ptr m =
     (if ptr < length (cm_memory m) then Ok (cm_memory m ! ptr) else Abort ''index out of bounds'')"

text \<open>The slice \<^verbatim>\<open>[ptr..ptr + len]\<close> panics when it does not fit.\<close>

definition read_data :: "'e \<Rightarrow> nat \<Rightarrow> contract_memory \<Rightarrow> (bytes, 'e) res" where
  "read_data invalid_pointer ptr m =
     (case cm_map m ptr of
        None \<Rightarrow> Fail invalid_pointer
      | Some n \<Rightarrow>
          if ptr + n \<le> length (cm_memory m) then Ok (take n (drop ptr (cm_memory m)))
          else Abort ''range end index out of range'')"

definition get_pointer_len :: "nat \<Rightarrow> contract_memory \<Rightarrow> int" where
  "get_pointer_len ptr m = (case cm_map m ptr of None \<Rightarrow> -1 | Some n \<Rightarrow> int n)"

fun copy_bytes :: "nat \<Rightarrow> bytes \<Rightarrow> contract_memory \<Rightarrow> contract_memory" where
  "copy_bytes i [] m = m"
| "copy_bytes i (b # bs) m = copy_bytes (i + 1) bs (m\<lparr>cm_memory := (cm_memory m)[i := b]\<rparr>)"

definition add_data_raw :: "bytes \<Rightarrow> contract_memory \<Rightarrow> nat \<times> contract_memory" where
  "add_data_raw bs m = (case alloc (length bs) m of (ptr, m') \<Rightarrow> (ptr, copy_bytes ptr bs m'))"

section \<open>Allocations\<close>

text \<open>Every allocation lies in the memory, and two of them do not overlap.\<close>

definition memory_inv :: "contract_memory \<Rightarrow> bool" where
  "memory_inv m \<longleftrightarrow>
     (\<forall>p n. cm_map m p = Some n \<longrightarrow> p + n \<le> length (cm_memory m)) \<and>
     (\<forall>p q n k. cm_map m p = Some n \<longrightarrow> cm_map m q = Some k \<longrightarrow> p < q \<longrightarrow> p + n \<le> q)"

lemma memory_inv_new [simp]: "memory_inv memory_new"
  by (simp add: memory_inv_def memory_new_def)

lemma memory_inv_alloc:
  assumes "memory_inv m" "alloc n m = (p, m')"
  shows "memory_inv m'"
  using assms by (fastforce simp: memory_inv_def alloc_def split: if_splits)

lemma memory_inv_write:
  assumes "memory_inv m" "write_byte p i b m = Ok m'"
  shows "memory_inv m'"
  using assms by (auto simp: memory_inv_def write_byte_def split: if_splits)

lemma copy_bytes_run:
  "i + length bs \<le> length (cm_memory m) \<Longrightarrow>
     cm_map (copy_bytes i bs m) = cm_map m \<and>
     cm_memory (copy_bytes i bs m) = take i (cm_memory m) @ bs @ drop (i + length bs) (cm_memory m)"
  by (induction i bs m rule: copy_bytes.induct) (simp_all add: take_Suc_conv_app_nth)

lemma add_data_raw_run:
  "add_data_raw bs m = (length (cm_memory m),
     m\<lparr>cm_memory := cm_memory m @ bs, cm_map := (cm_map m)(length (cm_memory m) \<mapsto> length bs)\<rparr>)"
proof -
  obtain m' where m': "alloc (length bs) m = (length (cm_memory m), m')"
    by (simp add: alloc_def)
  have "copy_bytes (length (cm_memory m)) bs m' =
      m\<lparr>cm_memory := cm_memory m @ bs, cm_map := (cm_map m)(length (cm_memory m) \<mapsto> length bs)\<rparr>"
    using m' by (intro contract_memory.equality) (auto simp: alloc_def copy_bytes_run)
  then show ?thesis
    by (simp add: add_data_raw_def m')
qed

lemma read_data_fits:
  assumes "memory_inv m"
  shows "\<not> is_panic (read_data e p m)"
  using assms by (auto simp: memory_inv_def read_data_def split: option.split)

text \<open>What was stored is read back, and stays when more is allocated.\<close>

lemma read_added:
  assumes "add_data_raw bs m = (p, m')"
  shows "read_data e p m' = Ok bs"
  using assms by (auto simp: add_data_raw_run read_data_def)

lemma read_after_alloc:
  assumes "memory_inv m" "cm_map m p = Some n" "0 < n" "alloc k m = (q, m')"
  shows "read_data e p m' = read_data e p m"
  using assms by (fastforce simp: memory_inv_def alloc_def read_data_def)

lemma slice_update:
  "j < p \<or> p + n \<le> j \<Longrightarrow> take n (drop p (xs[j := b])) = take n (drop p xs)"
  by (auto simp: list_eq_iff_nth_eq)

lemma read_after_write:
  assumes "memory_inv m" "cm_map m p = Some n" "cm_map m q = Some k" "p \<noteq> q" "i < k"
    and "write_byte q i b m = Ok m'"
  shows "read_data e p m' = read_data e p m"
proof -
  from assms(6) have m': "m' = m\<lparr>cm_memory := (cm_memory m)[q + i := b]\<rparr>"
    by (simp add: write_byte_def split: if_splits)
  have "q + i < p \<or> p + n \<le> q + i"
  proof (cases "p < q")
    case True
    then have "p + n \<le> q" using assms(1,2,3) by (simp add: memory_inv_def)
    then show ?thesis by simp
  next
    case False
    then have "q + k \<le> p" using assms(1-4) by (simp add: memory_inv_def)
    then show ?thesis using assms(5) by simp
  qed
  then show ?thesis
    by (simp add: m' read_data_def assms(2) slice_update)
qed

text \<open>An allocation of no bytes shares its start with the next one, whose length replaces its own.\<close>

lemma empty_alloc_shared:
  assumes "alloc 0 m = (p, m')" "alloc n m' = (q, m'')"
  shows "q = p \<and> cm_map m'' p = Some n"
  using assms by (auto simp: alloc_def)

end
