(* ===== verification/Runner.thy ===== *)
theory Runner
  imports Gov_State Contract_Memory Node
begin

text \<open>
  The execution of contracts (\<^verbatim>\<open>evaluator/runner\<close>): the built-in contract of governances, the
  contracts compiled to WebAssembly with the functions the host gives them, and the runner that
  turns a request for an evaluation into its answer.

  WebAssembly modules run in wasmtime. Of a module the code sees whether it can be instantiated and
  has the entry point, and the calls its run makes of the host functions before it returns or traps.
\<close>

section \<open>Errors\<close>

text \<open>A database error keeps its value where the code keeps its text.\<close>

datatype executor_error =
    XSubjectError subject_error
  | XDatabaseError db_error
  | ContractNotFound string string
  | ContractNotInstantiated
  | ContractEntryPointNotFound
  | ContractExecutionFailed
  | FunctionLinkingFailed string
  | StateJSONDeserializationFailed
  | JSONPATCHDeserializationFailed
  | StateHashGenerationFailed
  | ContextHashGenerationFailed
  | InvalidPointerPovided
  | RolesObtentionFailed
  | CantGenerateContractResult
  | OurGovIsLower
  | OurGovIsHigher
  | XCreateRequestNotAllowed
  | XGovernanceError request_error
  | SchemaCompilationFailed
  | ValueToStringConversionFailed
  | BorshSerializationError
  | BorshDeserializationError
  | ContractNotUpdated
  | XGovernanceNotFound

section \<open>The host\<close>

text \<open>A run of a contract: what it calls, and what it does with each answer.\<close>

datatype wasm_run =
    WasmReturn u32
  | WasmTrap
  | WasmPointerLen u32 "u32 \<Rightarrow> wasm_run"
  | WasmAlloc u32 "u32 \<Rightarrow> wasm_run"
  | WasmWriteByte u32 u32 u32 wasm_run
  | WasmReadByte u32 "u32 \<Rightarrow> wasm_run"
  | WasmCout u32 wasm_run

datatype wasm_module =
    CannotInstantiate
  | NoEntryPoint
  | EntryPoint "u32 \<Rightarrow> u32 \<Rightarrow> u32 \<Rightarrow> wasm_run"

text \<open>An \<^verbatim>\<open>i32\<close> address is extended with its sign: a negative one is far beyond the memory.\<close>

definition i32_as_usize :: "u32 \<Rightarrow> nat" where
  "i32_as_usize p = unat (scast p :: u64)"

text \<open>The functions of the linker (\<^verbatim>\<open>generate_linker\<close>): one step of the contract for each call, and
  the result pointer or the error at the end. A host function that panics ends the evaluator.\<close>

primrec run_wasm :: "wasm_run \<Rightarrow> contract_memory \<Rightarrow> (u32 \<times> contract_memory, executor_error) res" where
  "run_wasm (WasmReturn p) = (\<lambda>m. Ok (p, m))"
| "run_wasm WasmTrap = (\<lambda>m. Fail ContractExecutionFailed)"
| "run_wasm (WasmPointerLen p k) = (\<lambda>m. run_wasm (k (word_of_int (get_pointer_len (i32_as_usize p) m))) m)"
| "run_wasm (WasmAlloc n k) = (\<lambda>m. case alloc (unat n) m of (p, m') \<Rightarrow> run_wasm (k (word_of_nat p)) m')"
| "run_wasm (WasmWriteByte p i b k) =
     (\<lambda>m. bindR (write_byte (unat p) (unat i) (ucast b) m) (\<lambda>m'. run_wasm k m'))"
| "run_wasm (WasmReadByte p k) = (\<lambda>m. bindR (read_byte (i32_as_usize p) m) (\<lambda>b. run_wasm (k (ucast b)) m))"
| "run_wasm (WasmCout p k) = run_wasm k"

text \<open>The parameters of the evaluator: borsh, wasmtime, and the checker of JSON schemas, which is given
  the test of the format \<^verbatim>\<open>keyidentifier\<close>.\<close>

record evaluator_env =
  x_prims :: prims
  x_module :: "bytes \<Rightarrow> wasm_module option"
  x_json_schema :: "(string \<Rightarrow> bool) \<Rightarrow> json \<Rightarrow> (json \<Rightarrow> bool) option"

section \<open>Contracts\<close>

record contract_result =
  cr_final_state :: json
  cr_approval_required :: bool
  cr_success :: bool

definition contract_result_error :: contract_result where
  "contract_result_error = \<lparr>cr_final_state = JNull, cr_approval_required = False, cr_success = False\<rparr>"

datatype run_contract = CompiledContract bytes | GovContract

datatype patch_errors = JsonIsNotPatch | PatchGenerationError | PatchToJsonFailed

definition apply_patch ::
  "'b env \<Rightarrow> (json \<Rightarrow> 'a option) \<Rightarrow> json \<Rightarrow> json \<Rightarrow> ('a, patch_errors) res" where
  "apply_patch E from_value patch_arg state =
     (if \<not> e_is_patch E patch_arg then Fail JsonIsNotPatch
      else bindR (ok_or PatchGenerationError (e_patch E state patch_arg)) (\<lambda>v.
           ok_or PatchToJsonFailed (from_value v)))"

text \<open>\<^verbatim>\<open>GovernanceEvent\<close>, whose only variant is \<^verbatim>\<open>Patch { data }\<close>: an object with the variant's name and
  an object with the field.\<close>

fun governance_event_of_json :: "json \<Rightarrow> json option" where
  "governance_event_of_json (JObject [(k, JObject m)]) = (if k = ''Patch'' then bt_get m ''data'' else None)"
| "governance_event_of_json _ = None"

definition execute_gov_contract :: "'b env \<Rightarrow> json \<Rightarrow> json \<Rightarrow> (contract_result, executor_error) res" where
  "execute_gov_contract E state event =
     (case governance_event_of_json event of
        None \<Rightarrow> Ok contract_result_error
      | Some data \<Rightarrow>
          (case apply_patch E document_of_json data state of
             Inl _ \<Rightarrow> Ok contract_result_error
           | Inr patched_state \<Rightarrow>
               if is_Ok (check_governance_state patched_state)
               then Ok \<lparr>cr_final_state = document_to_json patched_state, cr_approval_required = True,
                 cr_success = True\<rparr>
               else Ok \<lparr>cr_final_state = state, cr_approval_required = False, cr_success = False\<rparr>))"

definition borsh_value :: "evaluator_env \<Rightarrow> json \<Rightarrow> (bytes, executor_error) res" where
  "borsh_value X v = map_err (\<lambda>_. BorshSerializationError) (ser_value (x_prims X) v)"

definition generate_context ::
  "evaluator_env \<Rightarrow> json \<Rightarrow> json \<Rightarrow> (contract_memory \<times> u32 \<times> u32, executor_error) res" where
  "generate_context X state event =
     bindR (borsh_value X state) (\<lambda>a.
     case add_data_raw a memory_new of (state_ptr, m) \<Rightarrow>
     bindR (borsh_value X event) (\<lambda>b.
     case add_data_raw b m of (event_ptr, m') \<Rightarrow>
     Ok (m', word_of_nat state_ptr, word_of_nat event_ptr)))"

text \<open>\<^verbatim>\<open>WasmContractResult\<close> is a value and two flags; nothing may follow. One more unit of fuel than
  there are bytes is enough for the value (\<open>decode_fuel\<close>). A float that is not finite panics.\<close>

definition wasm_result_of_bytes :: "prims \<Rightarrow> bytes \<Rightarrow> (contract_result, de_error) res" where
  "wasm_result_of_bytes P bs =
     bindR (de_value P (length bs + 1) bs) (\<lambda>(v, r).
     bindR (rd (rd_bool P r)) (\<lambda>(approval, r).
     bindR (rd (rd_bool P r)) (\<lambda>(success, r).
     if r = [] then Ok \<lparr>cr_final_state = v, cr_approval_required = approval, cr_success = success\<rparr>
     else Fail (IO (InvalidData ''Not all bytes read'')))))"

definition get_result :: "evaluator_env \<Rightarrow> contract_memory \<Rightarrow> u32 \<Rightarrow> (contract_result, executor_error) res" where
  "get_result X m pointer =
     bindR (read_data InvalidPointerPovided (unat pointer) m) (\<lambda>bs.
     map_err (\<lambda>_. CantGenerateContractResult) (wasm_result_of_bytes (x_prims X) bs))"

definition executor_run ::
  "'b env \<Rightarrow> evaluator_env \<Rightarrow> json \<Rightarrow> json \<Rightarrow> run_contract \<Rightarrow> bool \<Rightarrow> (contract_result, executor_error) res" where
  "executor_run E X state event compiled_contract is_owner =
     (case compiled_contract of
        GovContract \<Rightarrow> execute_gov_contract E state event
      | CompiledContract contract_bytes \<Rightarrow>
          bindR (unwrap (x_module X contract_bytes)) (\<lambda>module.
          bindR (generate_context X state event) (\<lambda>(m, state_ptr, event_ptr).
          case module of
            CannotInstantiate \<Rightarrow> Fail ContractNotInstantiated
          | NoEntryPoint \<Rightarrow> Fail ContractEntryPointNotFound
          | EntryPoint f \<Rightarrow>
              bindR (run_wasm (f state_ptr event_ptr (if is_owner then 1 else 0)) m) (\<lambda>(result_ptr, m').
              get_result X m' result_ptr))))"

section \<open>JSON schemas\<close>

text \<open>\<^verbatim>\<open>Schema::compile\<close> of \<^verbatim>\<open>commons/schema_handler/mod.rs\<close>; the compiled schema is its test.\<close>

definition validate_gov_keyidentifiers :: "'b env \<Rightarrow> string \<Rightarrow> bool" where
  "validate_gov_keyidentifiers E k = is_Ok (key_from_str (e_b64 E) k)"

datatype schema_error = SchemaCreationError

definition schema_compile :: "'b env \<Rightarrow> evaluator_env \<Rightarrow> json \<Rightarrow> (json \<Rightarrow> bool, schema_error) res" where
  "schema_compile E X schema = ok_or SchemaCreationError (x_json_schema X (validate_gov_keyidentifiers E) schema)"

section \<open>The runner\<close>

type_synonym ('b, 'z, 'a) xact = "(('b, 'z) node_scheme, 'a, executor_error) act"

definition generate_context_hash ::
  "'b env \<Rightarrow> evaluation_request \<Rightarrow> (digest_identifier, executor_error) res" where
  "generate_context_hash E r =
     map_err (\<lambda>_. ContextHashGenerationFailed) (generate_with_blake3 E (PEvaluationRequest r))"

text \<open>The check of the new state against the schema of the governance.\<close>

definition validation_state ::
  "'b env \<Rightarrow> evaluator_env \<Rightarrow> contract_result \<Rightarrow> digest_identifier \<Rightarrow> string \<Rightarrow> u64 \<Rightarrow> ('b, 'z, bool) xact" where
  "validation_state E X c governance_id schema_id governance_version =
     (if cr_success c then
        bindA (ask_gov XGovernanceError (get_schema E governance_id schema_id governance_version)) (\<lambda>schema.
        bindA (liftA (map_err (\<lambda>_. SchemaCompilationFailed) (schema_compile E X schema))) (\<lambda>valid.
        retA (valid (cr_final_state c))))
      else retA True)"

definition generate_json_patch :: "'b env \<Rightarrow> json \<Rightarrow> json \<Rightarrow> (json, executor_error) res" where
  "generate_json_patch E prev_state new_state = ok_or JSONPATCHDeserializationFailed (e_diff E prev_state new_state)"

text \<open>The governance the request is about.\<close>

definition evaluated_governance :: "evaluation_request \<Rightarrow> (digest_identifier, executor_error) res" where
  "evaluated_governance r =
     (if sc_schema_id (eq_context r) = ''governance'' then
        (case content (eq_event_request r) of
           Fact f \<Rightarrow> Ok (fa_subject_id f)
         | _ \<Rightarrow> Fail XCreateRequestNotAllowed)
      else Ok (sc_governance_id (eq_context r)))"

text \<open>The contract to run, with the governance version it was compiled for.\<close>

definition contract_to_run ::
  "'b env \<Rightarrow> evaluation_request \<Rightarrow> u64 \<Rightarrow> 'b data_store \<Rightarrow> (run_contract \<times> u64, executor_error) res" where
  "contract_to_run E r governance_sn d =
     (if sc_schema_id (eq_context r) = ''governance'' \<and> di_digest (sc_governance_id (eq_context r)) = []
      then Ok (GovContract, governance_sn)
      else case get_contract E (sc_governance_id (eq_context r)) (sc_schema_id (eq_context r)) d of
          Inr (c, _, v) \<Rightarrow> Ok (CompiledContract c, v)
        | Inl (Err EntryNotFound) \<Rightarrow>
            Fail (ContractNotFound (sc_schema_id (eq_context r)) (dstr E (sc_governance_id (eq_context r))))
        | Inl (Err e) \<Rightarrow> Fail (XDatabaseError e)
        | Inl (Panic e) \<Rightarrow> Abort e)"

text \<open>The errors of a contract that are answered with a failed evaluation.\<close>

fun failed_evaluation :: "executor_error \<Rightarrow> bool" where
  "failed_evaluation (XDatabaseError _) = False"
| "failed_evaluation StateJSONDeserializationFailed = False"
| "failed_evaluation JSONPATCHDeserializationFailed = False"
| "failed_evaluation ValueToStringConversionFailed = False"
| "failed_evaluation BorshSerializationError = False"
| "failed_evaluation BorshDeserializationError = False"
| "failed_evaluation ContractNotUpdated = False"
| "failed_evaluation XGovernanceNotFound = False"
| "failed_evaluation _ = True"

text \<open>The version of the governance we hold is the one the request is about.\<close>

definition check_version_evaluated ::
  "'b env \<Rightarrow> evaluation_request \<Rightarrow> digest_identifier \<Rightarrow> 'b data_store \<Rightarrow> (u64, executor_error) res" where
  "check_version_evaluated E r governance_id d =
     (case get_subject E governance_id d of
        Inl (Err EntryNotFound) \<Rightarrow> Fail XGovernanceNotFound
      | Inl (Err e) \<Rightarrow> Fail (XDatabaseError e)
      | Inl (Panic e) \<Rightarrow> Abort e
      | Inr governance \<Rightarrow>
          if eq_gov_version r < su_sn governance then Fail OurGovIsHigher
          else if su_sn governance < eq_gov_version r then Fail OurGovIsLower
          else Ok (su_sn governance))"

text \<open>What a contract gave, made into a patch and the hash of the state: after a failure nothing changes.\<close>

definition evaluation_outcome ::
  "'b env \<Rightarrow> evaluator_env \<Rightarrow> digest_derivator \<Rightarrow> evaluation_request \<Rightarrow> digest_identifier \<Rightarrow> contract_result \<Rightarrow>
     ('b, 'z, contract_result \<times> json \<times> digest_identifier) xact" where
  "evaluation_outcome E X d r governance_id c =
     (let state = sc_state (eq_context r);
          unchanged = (\<lambda>c. bindA (liftA (map_err (\<lambda>_. XSubjectError (CryptoError ''Hashing error''))
            (from_serializable_borsh E (PValue state) d))) (\<lambda>h. retA (c, JArray [], h))) in
      if \<not> cr_success c then unchanged c
      else (\<lambda>s. case validation_state E X c governance_id (sc_schema_id (eq_context r)) (eq_gov_version r) s of
          (Inl (Panic e), t) \<Rightarrow> (Abort e, t)
        | (Inr True, t) \<Rightarrow>
            bindA (liftA (generate_json_patch E state (cr_final_state c))) (\<lambda>patch.
            bindA (liftA (map_err (\<lambda>_. StateHashGenerationFailed)
              (from_serializable_borsh E (PValue (cr_final_state c)) d))) (\<lambda>h.
            retA (c, patch, h))) t
        | (_, t) \<Rightarrow> unchanged (c\<lparr>cr_success := False, cr_approval_required := False\<rparr>) t))"

text \<open>The answer, once the contract is known.\<close>

definition runner_answer ::
  "'b env \<Rightarrow> evaluator_env \<Rightarrow> digest_derivator \<Rightarrow> evaluation_request \<Rightarrow> fact_request \<Rightarrow> digest_identifier \<Rightarrow>
     digest_identifier \<Rightarrow> run_contract \<Rightarrow> ('b, 'z, evaluation_response) xact" where
  "runner_answer E X d r state_data governance_id context_hash contract =
     (case executor_run E X (sc_state (eq_context r)) (fa_payload state_data) contract
         (sc_is_owner (eq_context r)) of
       Inl (Panic e) \<Rightarrow> liftA (Abort e)
     | Inl (Err e) \<Rightarrow>
         if failed_evaluation e then
           bindA (liftA (map_err (\<lambda>_. StateHashGenerationFailed)
             (from_serializable_borsh E (PValue (sc_state (eq_context r))) d))) (\<lambda>h.
           retA \<lparr>er_patch = JArray [], er_eval_req_hash = context_hash, er_state_hash = h,
             er_eval_success = False, er_appr_required = False\<rparr>)
         else failA e
     | Inr c \<Rightarrow>
         bindA (evaluation_outcome E X d r governance_id c) (\<lambda>(c, patch, h).
         retA \<lparr>er_patch = patch, er_eval_req_hash = context_hash, er_state_hash = h,
           er_eval_success = cr_success c, er_appr_required = cr_approval_required c\<rparr>))"

definition runner_execute ::
  "'b env \<Rightarrow> evaluator_env \<Rightarrow> digest_derivator \<Rightarrow> evaluation_request \<Rightarrow> fact_request \<Rightarrow>
     ('b, 'z, evaluation_response) xact" where
  "runner_execute E X d r state_data =
     bindA (liftA (evaluated_governance r)) (\<lambda>governance_id.
     bindA (liftA (generate_context_hash E r)) (\<lambda>context_hash.
     bindA (getA (\<lambda>s. check_version_evaluated E r governance_id (nd_db s))) (\<lambda>governance_sn.
     bindA (getA (\<lambda>s. contract_to_run E r governance_sn (nd_db s))) (\<lambda>(contract, contract_gov_version).
     bindA (liftA (fail_if (contract_gov_version \<noteq> eq_gov_version r) ContractNotUpdated)) (\<lambda>_.
     runner_answer E X d r state_data governance_id context_hash contract)))))"

end
