(* ===== verification/Evaluator.thy ===== *)
theory Evaluator
  imports Runner
begin

text \<open>
  The evaluator (\<^verbatim>\<open>evaluator/manager.rs\<close>) and the compiler of contracts
  (\<^verbatim>\<open>evaluator/compiler\<close>) that keeps the table of compiled contracts in step with the governances.
\<close>

section \<open>The evaluator\<close>

datatype evaluator_error =
    EDatabaseError db_error
  | EChannelNotAvailable
  | ECreateRequestNotAllowed
  | JSONDeserializationFailed
  | SignatureGenerationFailed

datatype evaluator_error_response =
    CreateRequestNotAllowed
  | ContractExecutionError executor_error

datatype evaluator_answer = EvaluationDone "evaluator_error_response + unit"

record evaluator =
  x_signer :: self_signature_manager
  x_derivator :: digest_derivator

type_synonym ('b, 'z, 'a) evact = "(('b, 'z) node_scheme, 'a, evaluator_error) act"

definition tell_evaluation :: "key_identifier \<Rightarrow> taple_messages \<Rightarrow> ('b, 'z, evaluator_answer option) evact" where
  "tell_evaluation sender msg =
     bindA (tell_message (\<lambda>_. EChannelNotAvailable) (TaskRequest None msg {sender} direct_response)) (\<lambda>_.
     retA (Some (EvaluationDone (Inr ()))))"

text \<open>What is sent for each result of the runner; without an answer nobody is told.\<close>

definition evaluation_answered ::
  "'b env \<Rightarrow> evaluator \<Rightarrow> timestamp \<Rightarrow> evaluation_request \<Rightarrow> key_identifier \<Rightarrow>
     (evaluation_response, executor_error) res \<Rightarrow> ('b, 'z, evaluator_answer option) evact" where
  "evaluation_answered E V now r sender result =
     (case result of
        Inr response \<Rightarrow>
          bindA (liftA (map_err (\<lambda>_. SignatureGenerationFailed) (sm_sign E (x_signer V) now
            (PEvaluationResponseId (er_eval_req_hash response) (er_state_hash response)
               (er_eval_success response) (er_appr_required response)) (x_derivator V)))) (\<lambda>g.
          tell_evaluation sender (create_evaluator_response \<lparr>content = response, signature = g\<rparr>))
      | Inl (Err OurGovIsHigher) \<Rightarrow>
          tell_evaluation sender (EventMessage (HigherGovernanceExpected
            (sc_governance_id (eq_context r)) (sm_identifier (x_signer V))))
      | Inl (Err OurGovIsLower) \<Rightarrow>
          tell_evaluation sender (LedgerMessages (GetLCE (sm_identifier (x_signer V))
            (sc_governance_id (eq_context r))))
      | Inl (Err (XDatabaseError e)) \<Rightarrow> failA (EDatabaseError e)
      | Inl (Err (ContractNotFound _ _)) \<Rightarrow> retA None
      | Inl (Err ContractNotUpdated) \<Rightarrow> retA None
      | Inl (Err XGovernanceNotFound) \<Rightarrow> retA None
      | Inl (Err StateJSONDeserializationFailed) \<Rightarrow> failA JSONDeserializationFailed
      | Inl (Err JSONPATCHDeserializationFailed) \<Rightarrow> failA JSONDeserializationFailed
      | Inl (Err e) \<Rightarrow> retA (Some (EvaluationDone (Inl (ContractExecutionError e))))
      | Inl (Panic e) \<Rightarrow> liftA (Abort e))"

definition evaluation_result ::
  "'b env \<Rightarrow> evaluator_env \<Rightarrow> evaluator \<Rightarrow> timestamp \<Rightarrow> evaluator_message \<Rightarrow>
     ('b, 'z, evaluator_answer option) evact" where
  "evaluation_result E X V now msg =
     (case msg of
        EvaluationEvent r sender \<Rightarrow>
          (case content (eq_event_request r) of
             Fact state_data \<Rightarrow> (\<lambda>s.
               case runner_execute E X (x_derivator V) r state_data s of
                 (result, t) \<Rightarrow> evaluation_answered E V now r sender result t)
           | _ \<Rightarrow> retA (Some (EvaluationDone (Inl CreateRequestNotAllowed))))
      | AskForEvaluation _ \<Rightarrow> retA None)"

text \<open>\<open>sender_top\<close>: whether an answer is awaited, and whether the one who waits is still there.\<close>

definition evaluator_process_command ::
  "'b env \<Rightarrow> evaluator_env \<Rightarrow> evaluator \<Rightarrow> timestamp \<Rightarrow> bool option \<Rightarrow> evaluator_message \<Rightarrow>
     ('b, 'z, evaluator_answer option) evact" where
  "evaluator_process_command E X V now sender_top msg =
     bindA (evaluation_result E X V now msg) (\<lambda>response.
     case response of
       None \<Rightarrow> retA None
     | Some a \<Rightarrow>
         (case sender_top of
            None \<Rightarrow> retA None
          | Some True \<Rightarrow> retA (Some a)
          | Some False \<Rightarrow> failA EChannelNotAvailable))"

datatype evaluator_input =
    EInputCommand "(bool option \<times> evaluator_message) option"
  | EInputShutdown

definition evaluator_turn ::
  "'b env \<Rightarrow> evaluator_env \<Rightarrow> evaluator \<Rightarrow> timestamp \<Rightarrow> evaluator_input \<Rightarrow> ('b, 'z, bool) evact" where
  "evaluator_turn E X V now i =
     (case i of
        EInputCommand (Some (sender_top, msg)) \<Rightarrow>
          bindA (evaluator_process_command E X V now sender_top msg) (\<lambda>_. retA True)
      | EInputCommand None \<Rightarrow> retA False
      | EInputShutdown \<Rightarrow> retA False)"

section \<open>The compiler\<close>

datatype compiler_error_response =
    CDatabaseError db_error
  | BorshSerializeContractError
  | WriteFileError
  | FolderNotCreated string
  | CargoExecError
  | AddContractFail
  | CGovernanceError request_error
  | TempFolderCreationFailed
  | InvalidImportFound
  | NoSDKFound

text \<open>A module imports functions, by name, and other things.\<close>

datatype wasm_import = ImportFunc string | ImportOther string

text \<open>The parameters of the compiler: \<open>k_cargo\<close> is the way through the file system and cargo, from a
  source text to the file \<^verbatim>\<open>contract.wasm\<close>; \<open>k_precompile\<close> is \<^verbatim>\<open>precompile_module\<close>, and \<open>k_imports\<close>
  the imports of the module deserialised from its result.\<close>

record compiler_env =
  k_cargo :: "string \<Rightarrow> (bytes, compiler_error_response) res"
  k_precompile :: "bytes \<Rightarrow> bytes option"
  k_imports :: "bytes \<Rightarrow> wasm_import list option"

definition get_sdk_functions_identifier :: "string set" where
  "get_sdk_functions_identifier = {''alloc'', ''write_byte'', ''pointer_len'', ''read_byte''}"

fun imports_checked :: "string set \<Rightarrow> string set \<Rightarrow> wasm_import list \<Rightarrow> (string set, compiler_error_response) res" where
  "imports_checked available pending_sdk [] = Ok pending_sdk"
| "imports_checked available pending_sdk (ImportFunc n # is) =
     (if n \<notin> available then Fail InvalidImportFound
      else imports_checked available (pending_sdk - {n}) is)"
| "imports_checked available pending_sdk (ImportOther n # is) = Fail InvalidImportFound"

definition add_contract :: "compiler_env \<Rightarrow> bytes \<Rightarrow> (bytes, compiler_error_response) res" where
  "add_contract K file =
     bindR (ok_or AddContractFail (k_precompile K file)) (\<lambda>module_bytes.
     bindR (unwrap (k_imports K module_bytes)) (\<lambda>imports.
     bindR (imports_checked get_sdk_functions_identifier get_sdk_functions_identifier imports) (\<lambda>pending_sdk.
     if pending_sdk \<noteq> {} then Fail NoSDKFound else Ok module_bytes)))"

type_synonym ('b, 'z, 'a) kact = "(('b, 'z) node_scheme, 'a, compiler_error_response) act"

text \<open>The three ways of a contract: already of this version, unchanged, or to compile.\<close>

definition update_contract ::
  "'b env \<Rightarrow> compiler_env \<Rightarrow> digest_identifier \<Rightarrow> u64 \<Rightarrow> contract \<times> string \<Rightarrow> ('b, 'z, unit) kact" where
  "update_contract E K governance_id governance_version = (\<lambda>(contract_info, schema_id).
     bindA (getA (\<lambda>s. case get_contract E governance_id schema_id (nd_db s) of
         Inr c \<Rightarrow> Ok (Some c)
       | Inl (Err EntryNotFound) \<Rightarrow> Ok None
       | Inl (Err e) \<Rightarrow> Fail (CDatabaseError e)
       | Inl (Panic e) \<Rightarrow> Abort e)) (\<lambda>contract_data.
     bindA (liftA (map_err (\<lambda>_. BorshSerializeContractError)
       (generate_with_blake3 E (PString (co_raw contract_info))))) (\<lambda>new_contract_hash.
     let compiled = (
       bindA (liftA (bindR (k_cargo K (co_raw contract_info)) (add_contract K))) (\<lambda>compiled_contract.
       dbA CDatabaseError (put_contract E governance_id schema_id compiled_contract new_contract_hash
         governance_version))) in
     case contract_data of
       None \<Rightarrow> compiled
     | Some (c, h, v) \<Rightarrow>
         if governance_version = v then retA ()
         else if h = new_contract_hash then
           dbA CDatabaseError (put_contract E governance_id schema_id c new_contract_hash governance_version)
         else compiled)))"

definition update_contracts ::
  "'b env \<Rightarrow> compiler_env \<Rightarrow> digest_identifier \<Rightarrow> u64 \<Rightarrow> ('b, 'z, unit) kact" where
  "update_contracts E K governance_id governance_version =
     bindA (ask_gov CGovernanceError (get_contracts E governance_id governance_version)) (\<lambda>contracts.
     forA (update_contract E K governance_id governance_version) contracts)"

text \<open>The task: an update that fails is logged, and the next one awaited.\<close>

definition compiler_process_command ::
  "'b env \<Rightarrow> compiler_env \<Rightarrow> digest_identifier \<times> u64 \<Rightarrow> ('b, 'z, unit) kact" where
  "compiler_process_command E K = (\<lambda>(governance_id, governance_version) s.
     case update_contracts E K governance_id governance_version s of
       (Inl (Panic e), t) \<Rightarrow> (Abort e, t)
     | (_, t) \<Rightarrow> (Ok (), t))"

datatype compiler_input =
    KInputUpdate "(digest_identifier \<times> u64) option"
  | KInputShutdown

definition compiler_turn :: "'b env \<Rightarrow> compiler_env \<Rightarrow> compiler_input \<Rightarrow> ('b, 'z, bool) kact" where
  "compiler_turn E K i =
     (case i of
        KInputUpdate (Some u) \<Rightarrow> bindA (compiler_process_command E K u) (\<lambda>_. retA True)
      | KInputUpdate None \<Rightarrow> retA False
      | KInputShutdown \<Rightarrow> retA False)"

end
