(* ===== verification/Evaluator_Laws.thy ===== *)
theory Evaluator_Laws
  imports Evaluator Completer_Responses Governance_Laws Db_Laws
begin

text \<open>
  What a signed evaluation says: which state it gives, that the owner's check accepts it, which new
  states of a governance are accepted, and what the compiler leaves in the table of contracts.
\<close>

section \<open>The runner\<close>

lemma validation_state_db: "nd_db (snd (validation_state E X c governance_id i v s)) = nd_db s"
  by (auto simp: validation_state_def bindA_run retA_def liftA_def ask_gov_def
      split: sum.splits failure.splits gov_error.splits option.splits)

lemma validation_state_True:
  assumes "validation_state E X c governance_id i v s = (Ok True, t)" "cr_success c"
  shows "\<exists>schema valid. get_schema E governance_id i v (nd_db s) = Ok schema \<and>
    x_json_schema X (validate_gov_keyidentifiers E) schema = Some valid \<and> valid (cr_final_state c)"
  using assms by (auto simp: validation_state_def bindA_eq_Inr ask_gov_eq_Inr schema_compile_def)

text \<open>A successful outcome is the patch to a state that satisfies the schema, and its hash.\<close>

definition evaluated_state ::
  "'b env \<Rightarrow> evaluator_env \<Rightarrow> digest_derivator \<Rightarrow> evaluation_request \<Rightarrow> digest_identifier \<Rightarrow> 'b data_store \<Rightarrow>
     json \<Rightarrow> json \<Rightarrow> digest_identifier \<Rightarrow> bool" where
  "evaluated_state E X d r governance_id m v patch h \<longleftrightarrow>
     e_diff E (sc_state (eq_context r)) v = Some patch \<and>
     from_serializable_borsh E (PValue v) d = Ok h \<and>
     (\<exists>schema valid. get_schema E governance_id (sc_schema_id (eq_context r)) (eq_gov_version r) m = Ok schema \<and>
        x_json_schema X (validate_gov_keyidentifiers E) schema = Some valid \<and> valid v)"

lemma evaluation_outcome_Ok:
  assumes "evaluation_outcome E X d r governance_id c s = (Ok (c', patch, h), t)"
  shows "if cr_success c' then c' = c \<and> evaluated_state E X d r governance_id (nd_db s) (cr_final_state c) patch h
    else patch = JArray [] \<and> from_serializable_borsh E (PValue (sc_state (eq_context r))) d = Ok h"
proof (cases "cr_success c")
  case False
  then show ?thesis
    using assms by (auto simp: evaluation_outcome_def Let_def bindA_eq_Inr)
next
  case True
  obtain q u where q: "validation_state E X c governance_id (sc_schema_id (eq_context r)) (eq_gov_version r) s = (q, u)"
    by fastforce
  show ?thesis
  proof (cases "q = Ok True")
    case ok: True
    show ?thesis
      using assms True q ok validation_state_True [of E X c governance_id _ _ s u]
      by (auto simp: evaluation_outcome_def Let_def bindA_eq_Inr evaluated_state_def generate_json_patch_def)
  next
    case bad: False
    then show ?thesis
      using assms True q
      by (auto simp: evaluation_outcome_def Let_def bindA_eq_Inr split: sum.splits failure.splits bool.splits)
  qed
qed

lemma evaluation_outcome_flags:
  assumes "evaluation_outcome E X d r governance_id c s = (Ok (c', patch, h), t)"
  shows "cr_approval_required c' \<Longrightarrow> cr_approval_required c" "cr_success c' \<Longrightarrow> cr_success c"
    "cr_success c' \<Longrightarrow> cr_approval_required c' = cr_approval_required c"
  using assms
  by (auto simp: evaluation_outcome_def Let_def bindA_eq_Inr split: if_splits prod.splits sum.splits
      failure.splits bool.splits)

lemma check_version_evaluated_Ok:
  "check_version_evaluated E r i d = Ok n \<longleftrightarrow>
     (\<exists>governance. get_subject E i d = Ok governance \<and> su_sn governance = eq_gov_version r \<and>
        n = eq_gov_version r)"
  by (cases "get_subject E i d")
    (auto simp: check_version_evaluated_def split: failure.splits db_error.splits)

lemma runner_executed:
  assumes "runner_execute E X d r f s = (Ok resp, t)"
  shows "\<exists>governance_id governance contract.
    evaluated_governance r = Ok governance_id \<and>
    generate_with_blake3 E (PEvaluationRequest r) = Ok (er_eval_req_hash resp) \<and>
    get_subject E governance_id (nd_db s) = Ok governance \<and> su_sn governance = eq_gov_version r \<and>
    contract_to_run E r (eq_gov_version r) (nd_db s) = Ok (contract, eq_gov_version r) \<and>
    (if er_eval_success resp then
       \<exists>c. executor_run E X (sc_state (eq_context r)) (fa_payload f) contract (sc_is_owner (eq_context r)) = Ok c \<and>
         cr_success c \<and> er_appr_required resp = cr_approval_required c \<and>
         evaluated_state E X d r governance_id (nd_db s) (cr_final_state c) (er_patch resp) (er_state_hash resp)
     else er_patch resp = JArray [] \<and>
       from_serializable_borsh E (PValue (sc_state (eq_context r))) d = Ok (er_state_hash resp))"
proof -
  from assms obtain governance_id governance contract h where
    gov: "evaluated_governance r = Ok governance_id"
    and hash: "generate_with_blake3 E (PEvaluationRequest r) = Ok h"
    and sub: "get_subject E governance_id (nd_db s) = Ok governance" "su_sn governance = eq_gov_version r"
    and con: "contract_to_run E r (eq_gov_version r) (nd_db s) = Ok (contract, eq_gov_version r)"
    and rest: "runner_answer E X d r f governance_id h contract s = (Ok resp, t)"
    by (auto simp: runner_execute_def bindA_eq_Inr generate_context_hash_def check_version_evaluated_Ok)
  have "er_eval_req_hash resp = h \<and> (if er_eval_success resp then
       \<exists>c. executor_run E X (sc_state (eq_context r)) (fa_payload f) contract (sc_is_owner (eq_context r)) = Ok c \<and>
         cr_success c \<and> er_appr_required resp = cr_approval_required c \<and>
         evaluated_state E X d r governance_id (nd_db s) (cr_final_state c) (er_patch resp) (er_state_hash resp)
     else er_patch resp = JArray [] \<and>
       from_serializable_borsh E (PValue (sc_state (eq_context r))) d = Ok (er_state_hash resp))"
    using rest
    by (auto simp: runner_answer_def bindA_eq_Inr split: sum.splits failure.splits if_splits
        dest: evaluation_outcome_Ok evaluation_outcome_flags)
  then show ?thesis
    using gov hash sub con by blast
qed

section \<open>The check of the owner\<close>

text \<open>What \<^verbatim>\<open>json_patch::diff\<close> promises: its result is a patch, and leads from the first value to the
  second.\<close>

definition diff_ok :: "'b env \<Rightarrow> bool" where
  "diff_ok E \<longleftrightarrow> (\<forall>a b p. e_diff E a b = Some p \<longrightarrow> e_is_patch E p \<and> e_patch E a p = Some b)"

lemma hash_matches:
  assumes "runner_execute E X d r f s = (Ok resp, t)" "diff_ok E"
  shows "hash_match_after_patch E resp (er_patch resp) (sc_state (eq_context r)) = Ok True"
  using runner_executed [OF assms(1)] assms(2)
  by (auto simp: hash_match_after_patch_def Let_def evaluated_state_def diff_ok_def
      from_serializable_borsh_derivator split: if_splits)

section \<open>Governances\<close>

lemma execute_gov_contract_success:
  assumes "execute_gov_contract E state event = Ok c" "cr_success c"
  shows "cr_approval_required c \<and> (\<exists>data v g. governance_event_of_json event = Some data \<and>
    e_is_patch E data \<and> e_patch E state data = Some v \<and> document_of_json v = Some g \<and>
    well_formed_document g \<and> cr_final_state c = document_to_json g)"
  using assms
  by (auto simp: execute_gov_contract_def apply_patch_def contract_result_error_def bindR_eq_Inr
      check_governance_state_iff split: option.splits sum.splits if_splits)

lemma contract_to_run_governance:
  assumes "sc_schema_id (eq_context r) = ''governance''" "di_digest (sc_governance_id (eq_context r)) = []"
  shows "contract_to_run E r n m = Ok (GovContract, n)"
  using assms by (simp add: contract_to_run_def)

subsection \<open>What the governance module reads\<close>

lemma document_fields:
  "get_as_array (document_to_json g) ''policies'' = Ok (map policy_to_json (gd_policies g))"
  "get_as_array (document_to_json g) ''schemas'' = Ok (map schema_to_json (gd_schemas g))"
  "json_get (document_to_json g) ''roles'' = Some (JArray (map role_to_json (gd_roles g)))"
  "json_get (document_to_json g) ''members'' = Some (JArray (map member_to_json (gd_members g)))"
  by (simp_all add: document_to_json_def get_as_array_def)

lemma policy_found:
  "i \<in> gp_id ` set ps \<Longrightarrow>
     \<exists>p\<in>set ps. get_schema_from_policies (map policy_to_json ps) i = Ok (policy_to_json p) \<and> gp_id p = i"
  by (induction ps) (auto simp: policy_to_json_def)

fun policy_stage :: "validation_stage \<Rightarrow> gov_policy \<Rightarrow> quorum" where
  "policy_stage Approve p = pv_quorum (gp_approve p)"
| "policy_stage Evaluate p = pv_quorum (gp_evaluate p)"
| "policy_stage _ p = pv_quorum (gp_validate p)"

lemma policy_quorum_read:
  "stage \<in> {Approve, Evaluate, Validate} \<Longrightarrow>
     policy_quorum (policy_to_json p) (stage_to_str stage) = Ok (policy_stage stage p)"
  by (auto simp: policy_quorum_def policy_to_json_def validation_to_json_def)

lemma member_fields:
  "json_get (member_to_json m) ''id'' = Some (JString (gm_id m))"
  "json_get (member_to_json m) ''name'' = Some (JString (gm_name m))"
  by (simp_all add: member_to_json_def split: option.split)

text \<open>The members are read when their identifiers are different keys.\<close>

definition member_keys :: "'b env \<Rightarrow> (string \<Rightarrow> key_identifier) \<Rightarrow> gov_member list \<Rightarrow> bool" where
  "member_keys E key ms \<longleftrightarrow>
     (\<forall>m\<in>set ms. key_from_str (e_b64 E) (gm_id m) = Ok (key (gm_id m))) \<and> inj_on key (gm_id ` set ms)"

lemma members_read:
  assumes "distinct (map gm_id ms)" "distinct (map gm_name ms)" "member_keys E key ms"
    and "key ` gm_id ` set ms \<inter> fst acc = {}" "gm_name ` set ms \<inter> dom (snd acc) = {}"
  shows "\<exists>acc'. members_loop E (map member_to_json ms) acc = Ok acc' \<and>
    dom (snd acc') = gm_name ` set ms \<union> dom (snd acc)"
  using assms
proof (induction ms arbitrary: acc)
  case (Cons m ms)
  let ?acc = "(insert (key (gm_id m)) (fst acc), (snd acc)(gm_name m \<mapsto> key (gm_id m)))"
  have new: "key_from_str (e_b64 E) (gm_id m) = Ok (key (gm_id m))" "key (gm_id m) \<notin> fst acc"
      "gm_name m \<notin> dom (snd acc)"
    using Cons.prems(3,4,5) by (simp_all add: member_keys_def)
  have free: "key ` gm_id ` set ms \<inter> fst ?acc = {}" "gm_name ` set ms \<inter> dom (snd ?acc) = {}"
    using Cons.prems by (auto simp: member_keys_def inj_on_def)
  have keys: "member_keys E key ms" "distinct (map gm_id ms)" "distinct (map gm_name ms)"
    using Cons.prems(1,2,3) by (auto simp: member_keys_def)
  from Cons.IH [OF keys(2,3,1) free] obtain acc' where
    "members_loop E (map member_to_json ms) ?acc = Ok acc'"
    "dom (snd acc') = gm_name ` set ms \<union> dom (snd ?acc)" by (elim exE conjE)
  moreover have "members_loop E (map member_to_json (m # ms)) acc = members_loop E (map member_to_json ms) ?acc"
    using new by (simp add: member_fields)
  ultimately show ?case by auto
qed auto

lemma signers_read:
  assumes "stage \<noteq> StageCreate" "stage \<noteq> Invoke"
    and "\<forall>r\<in>set rs. role_refers schema_ids ids names r"
    and "\<forall>i\<in>ids. \<exists>k. key_from_str (e_b64 E) i = Ok k" "names \<subseteq> dom (snd members)"
  shows "\<exists>ks. get_signers_aux E rs schema_id namespace stage members is_gov signers = Ok ks"
  using assms(3)
proof (induction rs arbitrary: signers)
  case (Cons r rs)
  then have IH: "\<exists>ks. get_signers_aux E rs schema_id namespace stage members is_gov g = Ok ks" for g
    by simp
  show ?case
  proof (cases "ro_who r")
    case (WhoID i)
    then obtain k where "key_from_str (e_b64 E) i = Ok k"
      using Cons.prems assms(4) by (auto simp: role_refers_def)
    then show ?thesis using WhoID IH assms(1,2) by (simp add: Let_def)
  next
    case (WhoNAME n)
    then obtain k where "snd members n = Some k"
      using Cons.prems assms(5) by (auto simp: role_refers_def)
    then show ?thesis using WhoNAME IH assms(1,2) by (simp add: Let_def)
  qed (use IH assms(1,2) in \<open>simp_all add: Let_def\<close>)
qed simp

lemma governance_read:
  assumes "well_formed_document g" "member_keys E key (gd_members g)"
    and "get_subject E (gov_of md) m = Ok governance" "su_properties governance = document_to_json g"
    and "md_governance_version md = su_sn governance" "stage \<noteq> StageCreate" "stage \<noteq> Invoke"
  shows "\<exists>ks. get_signers E md stage m = Ok ks"
    "md_schema_id md \<in> insert ''governance'' (gs_id ` set (gd_schemas g)) \<Longrightarrow> stage \<noteq> Witness \<Longrightarrow>
       \<exists>q. get_quorum E md stage m = Ok q"
proof -
  have src: "sourced E (gov_of md) (su_sn governance) m = Ok governance"
    using assms(3) by (simp add: sourced_def governance_event_sourcing_def)
  obtain ms where ms: "get_members_from_governance E (document_to_json g) = Ok ms"
      "dom (snd ms) = gm_name ` set (gd_members g)"
    using members_read [of "gd_members g" E key "({}, Map.empty)"] assms(1,2)
    by (auto simp: get_members_from_governance_def document_fields well_formed_document_def)
  have ids: "\<forall>i\<in>gm_id ` set (gd_members g). \<exists>k. key_from_str (e_b64 E) i = Ok k"
    using assms(2) by (auto simp: member_keys_def)
  have "\<forall>r\<in>set (gd_roles g). role_refers (gp_id ` set (gd_policies g)) (gm_id ` set (gd_members g))
      (gm_name ` set (gd_members g)) r"
    using assms(1) by (simp add: well_formed_document_def)
  from signers_read [OF assms(6,7) this ids, of ms "md_schema_id md" "md_namespace md"
      "di_digest (md_governance_id md) = []" "{}"] ms(2)
  show signers: "\<exists>ks. get_signers E md stage m = Ok ks"
    by (auto simp: get_signers_def signers_version_def assms(3,4,5) src document_fields ms(1)
      simp del: roles_of_json.simps)
  assume "md_schema_id md \<in> insert ''governance'' (gs_id ` set (gd_schemas g))" and w: "stage \<noteq> Witness"
  then have "md_schema_id md \<in> gp_id ` set (gd_policies g)"
    using assms(1) by (auto simp: well_formed_document_def)
  from policy_found [OF this] obtain p where
    "get_schema_from_policies (map policy_to_json (gd_policies g)) (md_schema_id md) = Ok (policy_to_json p)"
    by blast
  moreover have "stage \<in> {Approve, Evaluate, Validate}"
    using w assms(6,7) by (cases stage) auto
  ultimately show "\<exists>q. get_quorum E md stage m = Ok q"
    using signers w
    by (auto simp: get_quorum_def assms(4,5) src document_fields policy_quorum_read)
qed

section \<open>The table of contracts\<close>

definition con_key :: "'b env \<Rightarrow> digest_identifier \<times> string \<Rightarrow> string" where
  "con_key E k = dstr E (fst k) @ char_MAX @ snd k"

lemma con_key_inject:
  assumes "id_valid E (fst k)" "id_valid E (fst k')" "con_key E k = con_key E k'"
  shows "k = k'"
proof -
  have sf: "sep_free (dstr E (fst k))" "sep_free (dstr E (fst k'))"
    using assms by (auto simp: id_valid_def dstr_sep_free)
  have "dstr E (fst k) = dstr E (fst k') \<and> snd k = snd k'"
    by (rule append_sep_inject [OF sf]) (use assms(3) in \<open>simp add: con_key_def\<close>)
  then show ?thesis
    using id_valid_inject [OF assms(1,2)] by (simp add: prod_eq_iff)
qed

lemma contract_free [simp]: "sep_free ''contract''"
  by (rule sep_free_ascii) simp

interpretation contracts: table "c_contract E" "''contract''" "con_key E" "\<lambda>k. id_valid E (fst k)"
  "\<lambda>_ _. True" "\<lambda>k. get_contract E (fst k) (snd k)"
  "\<lambda>k x. put_contract E (fst k) (snd k) (fst x) (fst (snd x)) (snd (snd x))" for E :: "'b env"
proof (rule table_kv)
  fix k k' :: "digest_identifier \<times> string" and x
  show "id_valid E (fst k) \<Longrightarrow> id_valid E (fst k') \<Longrightarrow> con_key E k = con_key E k' \<Longrightarrow> k = k'"
    by (rule con_key_inject)
qed (auto simp: get_contract_def put_contract_def get_key_eval con_key_def fun_eq_iff)

lemma contract_put:
  assumes "put_contract E g i b h v d = (Ok (), d')" "codec_ok (c_contract E)"
  shows "get_contract E g i d' = Ok (b, h, v)"
  using contracts.get_put [OF assms(2), of "(g, i)" "(b, h, v)"] assms(1) by simp

lemma contract_put_other:
  assumes "put_contract E g i b h v d = (r, d')" "id_valid E g" "j \<noteq> i"
  shows "get_contract E g j d' = get_contract E g j d"
  using contracts.get_put_other [of E "(g, i)" "(g, j)" "(b, h, v)" d] assms by simp

text \<open>A contract that has been brought to a version is found at it, and stays there.\<close>

definition contract_at :: "'b env \<Rightarrow> digest_identifier \<Rightarrow> u64 \<Rightarrow> string \<Rightarrow> 'b data_store \<Rightarrow> bool" where
  "contract_at E g v i d \<longleftrightarrow> (\<exists>b h. get_contract E g i d = Ok (b, h, v))"

lemma update_contract_puts:
  assumes "update_contract E K g v (c, i) s = (Ok (), t)"
  shows "nd_db t = nd_db s \<and> contract_at E g v i (nd_db s) \<or>
    (\<exists>b h. put_contract E g i b h v (nd_db s) = (Ok (), nd_db t))"
proof (cases "get_contract E g i (nd_db s)")
  case (Inr x)
  then show ?thesis
    using assms by (cases x) (auto simp: update_contract_def Let_def bindA_run bindA_eq_Inr dbA_eq_Inr
        contract_at_def split: if_splits sum.splits, metis+)
next
  case (Inl f)
  then show ?thesis
    using assms by (cases f) (auto simp: update_contract_def Let_def bindA_eq_Inr dbA_eq_Inr
        contract_at_def split: db_error.splits, metis)
qed

lemma update_contract_Ok:
  assumes "update_contract E K g v (c, i) s = (Ok (), t)" "codec_ok (c_contract E)" "id_valid E g"
  shows "contract_at E g v i (nd_db t)"
    "contract_at E g v j (nd_db s) \<Longrightarrow> contract_at E g v j (nd_db t)"
proof -
  show at: "contract_at E g v i (nd_db t)"
    using update_contract_puts [OF assms(1)] contract_put [OF _ assms(2)] by (auto simp: contract_at_def)
  assume j: "contract_at E g v j (nd_db s)"
  show "contract_at E g v j (nd_db t)"
  proof (cases "j = i")
    case False
    then show ?thesis
      using update_contract_puts [OF assms(1)] contract_put_other [OF _ assms(3)] j
      by (auto simp: contract_at_def)
  qed (use at in simp)
qed

lemma update_loop_keeps:
  "forA (update_contract E K g v) cs s = (Ok (), t) \<Longrightarrow> codec_ok (c_contract E) \<Longrightarrow> id_valid E g \<Longrightarrow>
     contract_at E g v j (nd_db s) \<Longrightarrow> contract_at E g v j (nd_db t)"
proof (induction cs arbitrary: s)
  case (Cons c cs)
  then obtain u where "update_contract E K g v (fst c, snd c) s = (Ok (), u)"
      "forA (update_contract E K g v) cs u = (Ok (), t)"
    by (auto simp: bindA_eq_Inr)
  then show ?case
    using Cons update_contract_Ok(2) by blast
qed simp

lemma update_loop_Ok:
  "forA (update_contract E K g v) cs s = (Ok (), t) \<Longrightarrow> codec_ok (c_contract E) \<Longrightarrow> id_valid E g \<Longrightarrow>
     x \<in> set cs \<Longrightarrow> contract_at E g v (snd x) (nd_db t)"
proof (induction cs arbitrary: s)
  case (Cons c cs)
  then obtain u where u: "update_contract E K g v (fst c, snd c) s = (Ok (), u)"
      "forA (update_contract E K g v) cs u = (Ok (), t)"
    by (auto simp: bindA_eq_Inr)
  show ?case
  proof (cases "x = c")
    case True
    then show ?thesis
      using update_loop_keeps [OF u(2)] update_contract_Ok(1) [OF u(1)] Cons.prems(2,3) by blast
  qed (use Cons.IH [OF u(2)] Cons.prems in simp)
qed simp

lemma contract_ready:
  assumes "contract_at E (sc_governance_id (eq_context r)) (eq_gov_version r) (sc_schema_id (eq_context r)) m"
    and "sc_schema_id (eq_context r) \<noteq> ''governance''"
  shows "\<exists>b. contract_to_run E r n m = Ok (CompiledContract b, eq_gov_version r)"
  using assms by (auto simp: contract_to_run_def contract_at_def)

section \<open>The memory of a run\<close>

lemma run_wasm_inv:
  "run_wasm w m = Ok (p, m') \<Longrightarrow> memory_inv m \<Longrightarrow> memory_inv m'"
proof (induction w arbitrary: m)
  case (WasmAlloc n k)
  obtain q u where u: "alloc (unat n) m = (q, u)" by fastforce
  then show ?case
    using WasmAlloc.IH [of "k (word_of_nat q)" u] WasmAlloc.prems memory_inv_alloc [OF WasmAlloc.prems(2) u]
    by simp
next
  case (WasmWriteByte q i b w)
  then show ?case
    by (auto simp: bindR_eq_Inr dest: memory_inv_write)
qed (auto simp: bindR_eq_Inr)

lemma wr_u8_nonempty:
  assumes "prims_ok P"
  shows "wr_u8 P x \<noteq> []"
proof
  assume "wr_u8 P x = []"
  then have "rd_u8 P bs = Some (x, bs)" for bs
    using assms unfolding prims_ok_def by (metis append_Nil)
  then show False
    using assms unfolding prims_ok_def by (metis option.inject prod.inject zero_neq_one)
qed

lemma ser_value_nonempty:
  "prims_ok P \<Longrightarrow> ser_value P v = Ok bs \<Longrightarrow> bs \<noteq> []"
  by (cases v) (auto simp: bindR_eq_Inr wr_u8_nonempty)

lemma generate_context_run:
  assumes "prims_ok (x_prims X)" "ser_value (x_prims X) state = Ok a" "ser_value (x_prims X) event = Ok b"
    and "length a < 2 ^ 32" "generate_context X state event = Ok (m, state_ptr, event_ptr)"
  shows "memory_inv m" "read_data e (unat state_ptr) m = Ok a" "read_data e (unat event_ptr) m = Ok b"
proof -
  have eq: "m = \<lparr>cm_memory = a @ b, cm_map = [0 \<mapsto> length a, length a \<mapsto> length b]\<rparr>"
      "state_ptr = 0" "event_ptr = word_of_nat (length a)"
    using assms(2,3,5) by (simp_all add: generate_context_def borsh_value_def add_data_raw_run memory_new_def)
  have ne: "a \<noteq> []"
    using ser_value_nonempty [OF assms(1,2)] .
  show "memory_inv m"
    using ne by (auto simp: eq memory_inv_def)
  show "read_data e (unat state_ptr) m = Ok a"
    using ne by (simp add: eq read_data_def)
  have "unat event_ptr = length a"
    using assms(4) by (simp add: eq unat_of_nat)
  then show "read_data e (unat event_ptr) m = Ok b"
    by (simp add: eq(1) read_data_def)
qed

text \<open>A host function that gets a bad address panics.\<close>

lemma run_wasm_panics:
  "length (cm_memory m) \<le> unat p + unat i \<Longrightarrow> is_panic (run_wasm (WasmWriteByte p i b w) m)"
  by (simp add: write_byte_def)

text \<open>A contract that is not base64 ends the governance module when the compiler asks for it.\<close>

lemma contracts_unreadable:
  "s \<in> set ss \<Longrightarrow> e_contract_raw E (co_raw (gs_contract s)) = None \<Longrightarrow>
     contracts_loop E (map schema_to_json ss) = Fail (Internal Base64DecodingError)"
proof (induction ss)
  case (Cons x ss)
  then show ?case
    by (cases "e_contract_raw E (co_raw (gs_contract x))")
      (auto simp: schema_to_json_def contract_to_json_def json_index_def)
qed simp

lemma get_contracts_unreadable:
  assumes "get_subject E i m = Ok governance" "su_properties governance = document_to_json g"
    and "s \<in> set (gd_schemas g)" "e_contract_raw E (co_raw (gs_contract s)) = None"
  shows "get_contracts E i (su_sn governance) m = Fail (Internal Base64DecodingError)"
  using assms contracts_unreadable [OF assms(3,4)]
  by (simp add: get_contracts_def sourced_def governance_event_sourcing_def document_fields)

end
