(* ===== verification/Sample_Evaluator.thy ===== *)
theory Sample_Evaluator
  imports Evaluator_Laws Sample_Runs
begin

text \<open>
  An evaluation of a new state of the sample governance, a contract in WebAssembly, and an update of
  the compiled contracts.
\<close>

section \<open>A new state of a governance\<close>

text \<open>Every schema accepts every value, and the module of every contract returns the state it got.\<close>

definition sample_evaluator_env :: evaluator_env where
  "sample_evaluator_env = \<lparr>
     x_prims = sample_prims,
     x_module = \<lambda>_. Some (EntryPoint (\<lambda>state event owner. WasmReturn state)),
     x_json_schema = \<lambda>_ _. Some (\<lambda>_. True)\<rparr>"

text \<open>The document with one member more. A key of this length has the 43 characters of an Ed25519 key.\<close>

definition sample_member :: key_identifier where
  "sample_member = new_key Ed25519 (replicate 21 7)"

lemma sample_member_text:
  "b64_dec sample_b64 (b64_enc sample_b64 (replicate 21 7)) = Some (replicate 21 7)"
  "length (b64_enc sample_b64 (replicate 21 7)) = 43" "ascii (b64_enc sample_b64 (replicate 21 7))"
proof -
  show "b64_dec sample_b64 (b64_enc sample_b64 (replicate 21 7)) = Some (replicate 21 7)"
    using sample_roundtrip unfolding sample_b64_def b64.select_convs .
  show "length (b64_enc sample_b64 (replicate 21 7)) = 43"
    by (simp add: sample_b64_def sample_enc_def length_concat sum_list_replicate)
  show "ascii (b64_enc sample_b64 (replicate 21 7))"
    using sample_b64_ok unfolding b64_ok_def by blast
qed

lemma sample_member_parses: "key_from_str (e_b64 sample_env) (kstr sample_env sample_member) = Ok sample_member"
  unfolding sample_env_b64
  by (rule key_roundtrip) (simp_all add: sample_member_def new_key_def b64_at_def sample_member_text)

definition sample_document :: gov_document where
  "sample_document = \<lparr>
     gd_members = [\<lparr>gm_id = kstr sample_env sample_member, gm_name = ''four'', gm_description = None\<rparr>],
     gd_roles = [\<lparr>ro_who = WhoNAME ''four'', ro_namespace = [], ro_role = ''VALIDATOR'',
       ro_schema = SchemaID ''governance''\<rparr>],
     gd_schemas = [],
     gd_policies = [\<lparr>gp_id = ''governance'', gp_approve = \<lparr>pv_quorum = MAJORITY\<rparr>,
       gp_evaluate = \<lparr>pv_quorum = MAJORITY\<rparr>, gp_validate = \<lparr>pv_quorum = MAJORITY\<rparr>\<rparr>]\<rparr>"

definition sample_patch :: fact_request where
  "sample_patch = \<lparr>fa_subject_id = sample_id 2,
     fa_payload = JObject [(''Patch'', JObject [(''data'', document_to_json sample_document)])]\<rparr>"

definition sample_evaluation :: evaluation_request where
  "sample_evaluation = \<lparr>
     eq_event_request = \<lparr>content = Fact sample_patch, signature = sample_signature 1\<rparr>,
     eq_context = \<lparr>sc_governance_id = default_digest, sc_schema_id = ''governance'', sc_is_owner = True,
       sc_state = get_governance_initial_state, sc_namespace = []\<rparr>,
     eq_sn = 1,
     eq_gov_version = 0\<rparr>"

definition sample_evaluation_response :: evaluation_response where
  "sample_evaluation_response = \<lparr>
     er_patch = document_to_json sample_document,
     er_eval_req_hash = new_digest Blake3_256 sample_hash,
     er_state_hash = new_digest Blake3_256 sample_hash,
     er_eval_success = True,
     er_appr_required = True\<rparr>"

lemma sample_document_wf: "well_formed_document sample_document"
  by (simp add: well_formed_document_def sample_document_def role_refers_def)

lemma sample_gov_contract:
  "execute_gov_contract sample_env get_governance_initial_state (fa_payload sample_patch) =
     Ok \<lparr>cr_final_state = document_to_json sample_document, cr_approval_required = True, cr_success = True\<rparr>"
proof -
  have "is_Ok (check_governance_state sample_document)"
    using sample_document_wf check_governance_state_iff by blast
  then show ?thesis
    by (simp add: execute_gov_contract_def sample_patch_def apply_patch_def sample_env_def)
qed

lemma sample_evaluated:
  "runner_execute sample_env sample_evaluator_env Blake3_256 sample_evaluation sample_patch (sample_node sample_db) =
     (Ok sample_evaluation_response, sample_node sample_db)"
proof -
  have eq: "evaluated_governance sample_evaluation = Ok (sample_id 2)"
      "generate_context_hash sample_env sample_evaluation = Ok (new_digest Blake3_256 sample_hash)"
      "check_version_evaluated sample_env sample_evaluation (sample_id 2) sample_db = Ok 0"
      "contract_to_run sample_env sample_evaluation 0 sample_db = Ok (GovContract, 0)"
    by (simp_all add: evaluated_governance_def sample_evaluation_def sample_patch_def generate_context_hash_def
        generate_with_blake3_def check_version_evaluated_def contract_to_run_def default_digest_def
        sample_db_def sample_governance_def sample_subject_def) (simp add: sample_env_def)
  have "executor_run sample_env sample_evaluator_env (sc_state (eq_context sample_evaluation))
      (fa_payload sample_patch) GovContract (sc_is_owner (eq_context sample_evaluation)) =
      Ok \<lparr>cr_final_state = document_to_json sample_document, cr_approval_required = True, cr_success = True\<rparr>"
    using sample_gov_contract by (simp add: executor_run_def sample_evaluation_def)
  then have "runner_answer sample_env sample_evaluator_env Blake3_256 sample_evaluation sample_patch (sample_id 2)
      (new_digest Blake3_256 sample_hash) GovContract (sample_node sample_db) =
      (Ok sample_evaluation_response, sample_node sample_db)"
    by (simp add: runner_answer_def evaluation_outcome_def Let_def bindA_run validation_state_def ask_gov_def
        get_schema_def schema_compile_def sample_evaluator_env_def generate_json_patch_def
        from_serializable_borsh_def sample_evaluation_response_def sample_evaluation_def sample_env_def)
  then show ?thesis
    by (simp add: runner_execute_def bindA_run eq) (simp add: sample_evaluation_def bindA_run)
qed

lemma sample_diff_ok [simp]: "diff_ok sample_env"
  by (simp add: diff_ok_def sample_env_def)

section \<open>A contract to compile\<close>

definition contract_document :: gov_document where
  "contract_document = \<lparr>
     gd_members = [],
     gd_roles = [],
     gd_schemas = [\<lparr>gs_id = ''schema'', gs_schema = JNull, gs_initial_value = JNull,
       gs_contract = \<lparr>co_raw = ''source''\<rparr>\<rparr>],
     gd_policies = map (\<lambda>i. \<lparr>gp_id = i, gp_approve = \<lparr>pv_quorum = MAJORITY\<rparr>,
       gp_evaluate = \<lparr>pv_quorum = MAJORITY\<rparr>, gp_validate = \<lparr>pv_quorum = MAJORITY\<rparr>\<rparr>) [''governance'', ''schema'']\<rparr>"

lemma contract_document_checked: "is_Ok (check_governance_state contract_document)"
  unfolding check_governance_state_iff
  by (simp add: well_formed_document_def contract_document_def)

definition contract_db :: "blob data_store" where
  "contract_db = snd (set_subject sample_env (sample_id 2)
     (sample_subject (sample_id 2) default_digest ''governance'' 1 (document_to_json contract_document)) [])"

definition sample_compiler :: compiler_env where
  "sample_compiler = \<lparr>
     k_cargo = \<lambda>_. Ok [1],
     k_precompile = Some,
     k_imports = \<lambda>_. Some (map ImportFunc [''alloc'', ''write_byte'', ''pointer_len'', ''read_byte''])\<rparr>"

lemma sample_contracts:
  "get_contracts sample_env (sample_id 2) 1 contract_db = Ok [(\<lparr>co_raw = ''source''\<rparr>, ''schema'')]"
  by (simp add: get_contracts_def sourced_def governance_event_sourcing_def contract_db_def sample_subject_def
      document_fields) (simp add: contract_document_def schema_to_json_def contract_to_json_def get_as_str_def
      json_index_def sample_env_def)

lemma sample_compiled:
  "\<exists>t. update_contracts sample_env sample_compiler (sample_id 2) 1 (sample_node contract_db) = (Ok (), t)"
proof -
  have "get_contract sample_env (sample_id 2) ''schema'' contract_db = Fail EntryNotFound"
  proof -
    have "writes ''subject'' [] contract_db"
      unfolding contract_db_def by (rule subjects.writes_table) simp
    from contracts.get_foreign [OF this, where k = "(sample_id 2, ''schema'')" and E = sample_env]
    have "get_contract sample_env (sample_id 2) ''schema'' contract_db =
        get_contract sample_env (sample_id 2) ''schema'' []" by simp
    then show ?thesis
      by (simp add: get_contract_def get_key_eval kv_get_def coll_get_def)
  qed
  moreover have "bindR (k_cargo sample_compiler ''source'') (add_contract sample_compiler) = Ok [1]"
    by (simp add: sample_compiler_def add_contract_def get_sdk_functions_identifier_def)
  ultimately show ?thesis
    by (simp add: update_contracts_def ask_gov_def sample_contracts bindA_run update_contract_def Let_def
        generate_with_blake3_def dbA_def zoomA_def put_contract_def get_key_eval kv_put_def coll_put_def)
     (simp add: sample_env_def)
qed

end
