(* ===== verification/Composition.thy ===== *)
theory Composition
  imports Ledger_Manager Completer_Laws Ledger_Sync_Laws
begin

text \<open>
  The event completer with the ledger as the one it asks (\<open>ledger_answers\<close>): what a completed event
  leaves in the database both share.
\<close>

section \<open>The end of a validation\<close>

lemma del_runs:
  "del_prevalidated_event E i m = (Ok (), bt_remove (''prevalidated-event'' @ char_MAX @ dstr E i) m)"
  "del_request E i m = (Ok (), bt_remove (''request'' @ char_MAX @ dstr E i) m)"
  by (simp_all add: del_prevalidated_event_def del_request_def get_key_eval bindA_run coll_del_def)

definition completed_db :: "'b env \<Rightarrow> digest_identifier \<Rightarrow> 'b data_store \<Rightarrow> 'b data_store" where
  "completed_db E i d = bt_remove (''request'' @ char_MAX @ dstr E i)
     (bt_remove (''prevalidated-event'' @ char_MAX @ dstr E i) d)"

lemma writes_remove: "writes p m (bt_remove (p @ char_MAX @ r) m)"
  using writes_del [of p m r] by (simp add: coll_del_def)

text \<open>Events and subjects stay; the request and the prevalidated event of the subject are gone.\<close>

lemma completed_db_reads:
  "get_event E j n (completed_db E i d) = get_event E j n d"
  "get_subject E j (completed_db E i d) = get_subject E j d"
  using events.get_foreign [OF writes_remove, of "''request''", where k = "(j, n)" and E = E]
    events.get_foreign [OF writes_remove, of "''prevalidated-event''", where k = "(j, n)" and E = E]
    subjects.get_foreign [OF writes_remove, of "''request''", where k = j and E = E]
    subjects.get_foreign [OF writes_remove, of "''prevalidated-event''", where k = j and E = E]
  by (simp_all add: completed_db_def)

lemma completed_db_forgets:
  assumes "bt_inv d"
  shows "get_request E i (completed_db E i d) = Fail EntryNotFound"
    "get_prevalidated_event E i (completed_db E i d) = Fail EntryNotFound"
proof -
  show "get_request E i (completed_db E i d) = Fail EntryNotFound"
    using assms by (intro requests.get_missing) (simp add: completed_db_def coll_get_def bt_get_remove ok_or_def)
  show "get_prevalidated_event E i (completed_db E i d) = Fail EntryNotFound"
    using assms by (intro prevalidated.get_missing) (simp add: completed_db_def coll_get_def bt_get_remove ok_or_def)
qed

text \<open>What the completer does once the ledger has answered.\<close>

lemma validated_run:
  assumes "L (OwnEvent ev gs (ve_proof ve)) (nd_db s) = (True, d)" "ev_sn (content ev) \<noteq> 0"
    and "ec_ledger_open s" "nd_message_open s"
  shows "\<exists>t. validated E L h ev ve i gs s = (Ok (), t) \<and> nd_db t = completed_db E i d \<and>
    ec_to_validate t = (ec_to_validate s)(h := None) \<and> ec_completing t = (ec_completing s)(i := None)"
  using assms
  by (simp add: validated_def bindA_run ask_ledger_def edb_def dbA_def zoomA_def del_runs tell_message_def
      completed_db_def)

section \<open>The ledger\<close>

lemma fact_result_sn: "fact_result E c s s' \<Longrightarrow> su_sn s' = ev_sn c"
  by (cases s'; cases s) (simp add: fact_result_def)

text \<open>The ledger answers the completer whether or not it could apply the event.\<close>

lemma ledger_answers_own:
  assumes "event_validated E C ev gs p (lg\<lparr>nd_db := d\<rparr>) = (r, u)"
    and "case r of Inl (Err e) \<Rightarrow> \<not> ledger_channel_closed e | Inl (Panic _) \<Rightarrow> False | Inr _ \<Rightarrow> True"
  shows "ledger_answers E C keys lg (OwnEvent ev gs p) d = (True, nd_db u)"
  using assms
  by (auto simp: ledger_answers_def ledger_process_command_def ledger_command_result_def ledger_attempt_def
      bindA_run split: sum.splits failure.splits)

end
