(* ===== verification/Message_Layer.thy ===== *)
theory Message_Layer
  imports Node
begin

text \<open>
  Messages on the network (\<^verbatim>\<open>message\<close>): how they are signed and sent, what a node accepts of those it
  receives, and the task manager that repeats requests until they are cancelled.
\<close>

section \<open>Sending and receiving\<close>

datatype message_error =
    TaskError
  | SenderChannelError
  | MessageChannelClosed
  | CreatingMessageError

datatype network_command =
    StartProviding "string list"
  | SendMessage bytes bytes
  | Bootstrap

text \<open>The channel to the network, and the parameter: MessagePack for signed messages.\<close>

record network =
  nw_open :: bool
  nw_sent :: "network_command list"

type_synonym rmp = "(message_content signed, bytes) codec"

record message_sender =
  ms_controller_id :: key_identifier
  ms_signature_manager :: self_signature_manager
  ms_derivator :: digest_derivator

type_synonym 'a nact = "(network, 'a, message_error) act"

definition signed_message_new ::
  "'b env \<Rightarrow> timestamp \<Rightarrow> key_identifier \<Rightarrow> key_identifier \<Rightarrow> taple_messages \<Rightarrow> self_signature_manager \<Rightarrow>
     digest_derivator \<Rightarrow> (message_content signed, message_error) res" where
  "signed_message_new E now sender receiver msg sm d =
     (let c = \<lparr>me_sender_id = sender, me_content = msg, me_receiver = receiver\<rparr> in
      bindR (map_err (\<lambda>_. CreatingMessageError) (sm_sign E sm now (PMessage c) d)) (\<lambda>g.
      Ok \<lparr>content = c, signature = g\<rparr>))"

definition tell_network :: "network_command \<Rightarrow> unit nact" where
  "tell_network c = (\<lambda>s.
     if nw_open s then (Ok (), s\<lparr>nw_sent := nw_sent s @ [c]\<rparr>) else (Fail MessageChannelClosed, s))"

definition send_message ::
  "'b env \<Rightarrow> rmp \<Rightarrow> message_sender \<Rightarrow> timestamp \<Rightarrow> key_identifier \<Rightarrow> taple_messages \<Rightarrow> unit nact" where
  "send_message E R M now target msg =
     bindA (liftA (signed_message_new E now (ms_controller_id M) target msg (ms_signature_manager M)
       (ms_derivator M))) (\<lambda>complete_message.
     bindA (liftA (unwrap (ser R complete_message))) (\<lambda>bytes.
     tell_network (SendMessage (ki_public_key target) bytes)))"

definition start_providing :: "string list \<Rightarrow> unit nact" where
  "start_providing keys = tell_network (StartProviding keys)"

definition bootstrap :: "unit nact" where
  "bootstrap = tell_network Bootstrap"

definition message_verify :: "'b env \<Rightarrow> message_content signed \<Rightarrow> (unit, subject_error) res" where
  "message_verify E m = signature_verify E (signature m) (PMessage (content m))"

text \<open>What the receiver hands on: bytes that are no message panic; so does a signer whose key does not
  parse.\<close>

definition message_received ::
  "'b env \<Rightarrow> rmp \<Rightarrow> key_identifier \<Rightarrow> bytes \<Rightarrow> (message_content signed option, unit) res" where
  "message_received E R own_id bytes =
     (case de R bytes of
        None \<Rightarrow> Abort ''Fallo de deserializacion''
      | Some message \<Rightarrow>
          (case message_verify E message of
             Inl (Panic e) \<Rightarrow> Abort e
           | Inl (Err _) \<Rightarrow> Ok None
           | Inr _ \<Rightarrow>
               if me_sender_id (content message) \<noteq> sg_signer (signature message) then Ok None
               else if me_receiver (content message) \<noteq> own_id then Ok None
               else Ok (Some message)))"

text \<open>The command of a module a received message becomes, with the protocol manager.\<close>

definition message_command ::
  "'b env \<Rightarrow> rmp \<Rightarrow> key_identifier \<Rightarrow> bytes \<Rightarrow> (module_command option, unit) res" where
  "message_command E R own_id bytes =
     bindR (message_received E R own_id bytes) (\<lambda>m.
     case m of
       None \<Rightarrow> Ok None
     | Some message \<Rightarrow> Ok (route (me_content (content message)) (me_sender_id (content message))))"

section \<open>Choosing the receivers\<close>

text \<open>The random index of each round is \<open>pick counter len\<close>, below the length.\<close>

fun take_random :: "(nat \<Rightarrow> nat \<Rightarrow> nat) \<Rightarrow> nat \<Rightarrow> nat \<Rightarrow> 'a list \<Rightarrow> 'a list" where
  "take_random pick counter 0 data = []"
| "take_random pick counter (Suc k) data =
     (let i = pick counter (length data) in
      data ! i # take_random pick (counter + 1) k (take i data @ drop (Suc i) data))"

definition get_n_distinct_random_data :: "(nat \<Rightarrow> nat \<Rightarrow> nat) \<Rightarrow> u32 \<Rightarrow> 'a list \<Rightarrow> 'a list" where
  "get_n_distinct_random_data pick quantity data =
     (if length data \<le> unat quantity then data else take_random pick 0 (unat quantity) data)"

text \<open>\<^verbatim>\<open>floor() as u32\<close> of the product with the length, as \<open>percentage_of\<close> does it with \<^verbatim>\<open>ceil\<close>.\<close>

definition floor_u32 :: "int \<times> int \<Rightarrow> u32" where
  "floor_u32 v =
     (case v of (m, k) \<Rightarrow>
        let c = (if 0 \<le> k then m * 2 ^ nat k else m div 2 ^ nat (- k))
        in word_of_int (max 0 (min c (2 ^ 32 - 1))))"

definition share_of :: "nat \<Rightarrow> u64 \<Rightarrow> u32" where
  "share_of n p =
     (let (a, i) = round_nat (int n);
          (m, k) = f64_dyadic p;
          (q, b) = round_nat (a * \<bar>m\<bar>)
      in floor_u32 ((if m < 0 then - q else q), k + int i + int b))"

definition get_message_targets :: "(nat \<Rightarrow> nat \<Rightarrow> nat) \<Rightarrow> key_identifier list \<Rightarrow> u64 \<Rightarrow> key_identifier list" where
  "get_message_targets pick all_targets replication_factor =
     get_n_distinct_random_data pick (max 1 (share_of (length all_targets) replication_factor)) all_targets"

definition send_to_all ::
  "'b env \<Rightarrow> rmp \<Rightarrow> message_sender \<Rightarrow> timestamp \<Rightarrow> taple_messages \<Rightarrow> key_identifier list \<Rightarrow> unit nact" where
  "send_to_all E R M now msg targets =
     forA (\<lambda>target s. case send_message E R M now target msg s of
         (Inl (Err _), t) \<Rightarrow> (Fail SenderChannelError, t)
       | rt \<Rightarrow> rt) targets"

definition make_future ::
  "'b env \<Rightarrow> rmp \<Rightarrow> message_sender \<Rightarrow> timestamp \<Rightarrow> (nat \<Rightarrow> nat \<Rightarrow> nat) \<Rightarrow> taple_messages \<Rightarrow>
     key_identifier list \<Rightarrow> message_config \<Rightarrow> unit nact" where
  "make_future E R M now pick msg targets config =
     send_to_all E R M now msg (get_message_targets pick targets (mc_replication_factor config))"

section \<open>The task manager\<close>

text \<open>A repeated request: its task runs, has ended with an error, or has panicked. A task without a
  period panics at its start.\<close>

datatype task_state = TaskRunning | TaskEnded | TaskPanicked

record repeated =
  rp_message :: taple_messages
  rp_targets :: "key_identifier list"
  rp_config :: message_config
  rp_state :: task_state

record task_manager =
  tm_list :: "string \<rightharpoonup> repeated"
  tm_once :: "(taple_messages \<times> key_identifier list \<times> message_config) list"
  tm_network :: network

type_synonym 'a tmact = "(task_manager, 'a, message_error) act"

definition cancel_task :: "string \<Rightarrow> unit tmact" where
  "cancel_task i = (\<lambda>s.
     case tm_list s i of
       None \<Rightarrow> (Ok (), s)
     | Some r \<Rightarrow>
         (if rp_state r = TaskPanicked then Fail TaskError else Ok (), s\<lparr>tm_list := (tm_list s)(i := None)\<rparr>))"

definition create_indefinite_message_task ::
  "string \<Rightarrow> taple_messages \<Rightarrow> key_identifier list \<Rightarrow> message_config \<Rightarrow> unit tmact" where
  "create_indefinite_message_task i msg targets config =
     bindA (cancel_task i) (\<lambda>_.
     modA (\<lambda>s. s\<lparr>tm_list := (tm_list s)(i \<mapsto> \<lparr>rp_message = msg, rp_targets = targets, rp_config = config,
       rp_state = TaskRunning\<rparr>)\<rparr>))"

definition create_message_task :: "taple_messages \<Rightarrow> key_identifier list \<Rightarrow> message_config \<Rightarrow> unit tmact" where
  "create_message_task msg targets config = modA (\<lambda>s. s\<lparr>tm_once := tm_once s @ [(msg, targets, config)]\<rparr>)"

text \<open>\<open>as_list\<close> is the order in which the receivers were collected.\<close>

definition task_process_input ::
  "(key_identifier set \<Rightarrow> key_identifier list) \<Rightarrow> message_task_command option \<Rightarrow> unit tmact" where
  "task_process_input as_list input =
     (case input of
        Some (TaskRequest (Some i) msg targets config) \<Rightarrow>
          create_indefinite_message_task i msg (as_list targets) config
      | Some (TaskRequest None msg targets config) \<Rightarrow> create_message_task msg (as_list targets) config
      | Some (TaskCancel i) \<Rightarrow> cancel_task i
      | None \<Rightarrow> failA SenderChannelError)"

text \<open>One tick of a repeated request.\<close>

definition repeated_tick ::
  "'b env \<Rightarrow> rmp \<Rightarrow> message_sender \<Rightarrow> timestamp \<Rightarrow> (nat \<Rightarrow> nat \<Rightarrow> nat) \<Rightarrow> string \<Rightarrow> task_manager \<Rightarrow> task_manager" where
  "repeated_tick E R M now pick i s =
     (case tm_list s i of
        None \<Rightarrow> s
      | Some r \<Rightarrow>
          if rp_state r \<noteq> TaskRunning then s
          else if mc_timeout (rp_config r) = 0
          then s\<lparr>tm_list := (tm_list s)(i \<mapsto> r\<lparr>rp_state := TaskPanicked\<rparr>)\<rparr>
          else case make_future E R M now pick (rp_message r) (rp_targets r) (rp_config r) (tm_network s) of
              (Inr _, n) \<Rightarrow> s\<lparr>tm_network := n\<rparr>
            | (Inl (Err _), n) \<Rightarrow>
                s\<lparr>tm_network := n, tm_list := (tm_list s)(i \<mapsto> r\<lparr>rp_state := TaskEnded\<rparr>)\<rparr>
            | (Inl (Panic _), n) \<Rightarrow>
                s\<lparr>tm_network := n, tm_list := (tm_list s)(i \<mapsto> r\<lparr>rp_state := TaskPanicked\<rparr>)\<rparr>)"

text \<open>One of the requests that are sent once: its outcome is not looked at.\<close>

definition once_run ::
  "'b env \<Rightarrow> rmp \<Rightarrow> message_sender \<Rightarrow> timestamp \<Rightarrow> (nat \<Rightarrow> nat \<Rightarrow> nat) \<Rightarrow> task_manager \<Rightarrow> task_manager" where
  "once_run E R M now pick s =
     (case tm_once s of
        [] \<Rightarrow> s
      | (msg, targets, config) # rest \<Rightarrow>
          s\<lparr>tm_once := rest, tm_network := snd (make_future E R M now pick msg targets config (tm_network s))\<rparr>)"

section \<open>What arrives\<close>

lemma message_command_authentic:
  assumes "message_command E R own_id bytes = Ok (Some c)"
  shows "\<exists>m. de R bytes = Some m \<and> signature_verify E (signature m) (PMessage (content m)) = Ok () \<and>
    sg_signer (signature m) = me_sender_id (content m) \<and> me_receiver (content m) = own_id \<and>
    route (me_content (content m)) (me_sender_id (content m)) = Some c"
  using assms
  by (auto simp: message_command_def message_received_def message_verify_def bindR_eq_Inr
      split: option.splits sum.splits failure.splits if_splits)

lemma message_roundtrip:
  assumes "send_message E R M now target msg s = (Ok (), t)" "codec_ok R"
    and "key_pair_ok E (sm_keys (ms_signature_manager M))"
    and "ms_controller_id M = new_key (get_key_derivator (sm_keys (ms_signature_manager M)))
      (public_key_bytes (sm_keys (ms_signature_manager M)))"
  obtains bytes where "nw_sent t = nw_sent s @ [SendMessage (ki_public_key target) bytes]"
    and "message_command E R target bytes = Ok (route msg (ms_controller_id M))"
    and "\<And>other. other \<noteq> target \<Longrightarrow> message_command E R other bytes = Ok None"
proof -
  let ?c = "\<lparr>me_sender_id = ms_controller_id M, me_content = msg, me_receiver = target\<rparr>"
  from assms(1) obtain g bytes where
    g: "sm_sign E (ms_signature_manager M) now (PMessage ?c) (ms_derivator M) = Ok g"
    and b: "ser R \<lparr>content = ?c, signature = g\<rparr> = Some bytes"
    and t: "nw_sent t = nw_sent s @ [SendMessage (ki_public_key target) bytes]"
    by (auto simp: send_message_def signed_message_new_def Let_def bindA_eq_Inr bindR_eq_Inr tell_network_def
        split: if_splits)
  have de: "de R bytes = Some \<lparr>content = ?c, signature = g\<rparr>"
    using b assms(2) by (simp add: codec_ok_def)
  have sn: "signature_new E now (PMessage ?c) (sm_keys (ms_signature_manager M)) (ms_derivator M) = Ok g"
    using g by (simp add: sm_sign_def)
  have "message_verify E \<lparr>content = ?c, signature = g\<rparr> = Ok ()" "sg_signer g = ms_controller_id M"
    using signature_new_verifies [OF assms(3) sn] signature_new_signer [OF sn] assms(4)
    by (simp_all add: message_verify_def)
  then have "message_command E R target bytes = Ok (route msg (ms_controller_id M))"
    and "\<And>other. other \<noteq> target \<Longrightarrow> message_command E R other bytes = Ok None"
    by (simp_all add: message_command_def message_received_def de)
  then show ?thesis using that t by blast
qed

text \<open>Bytes that are no message end the receiver.\<close>

lemma malformed_panics: "de R bytes = None \<Longrightarrow> is_panic (message_command E R own_id bytes)"
  by (simp add: message_command_def message_received_def)

section \<open>Who is chosen\<close>

lemma distinct_remove_nth:
  assumes "distinct xs" "i < length xs"
  shows "distinct (take i xs @ drop (Suc i) xs)" "xs ! i \<notin> set (take i xs @ drop (Suc i) xs)"
    "set (take i xs @ drop (Suc i) xs) \<subseteq> set xs"
proof -
  have eq: "xs = take i xs @ xs ! i # drop (Suc i) xs"
    using assms(2) by (rule id_take_nth_drop)
  have "distinct (take i xs @ xs ! i # drop (Suc i) xs)"
    using assms(1) eq by simp
  then show "distinct (take i xs @ drop (Suc i) xs)" "xs ! i \<notin> set (take i xs @ drop (Suc i) xs)"
    by auto
  show "set (take i xs @ drop (Suc i) xs) \<subseteq> set xs"
    by (auto dest: in_set_takeD in_set_dropD)
qed

lemma take_random_chosen:
  assumes pick: "\<And>k n. 0 < n \<Longrightarrow> pick k n < n"
  shows "distinct data \<Longrightarrow> q \<le> length data \<Longrightarrow>
    distinct (take_random pick c q data) \<and> set (take_random pick c q data) \<subseteq> set data \<and>
    length (take_random pick c q data) = q"
proof (induction q arbitrary: c data)
  case (Suc q)
  let ?i = "pick c (length data)" and ?rest = "take (pick c (length data)) data @ drop (Suc (pick c (length data))) data"
  have i: "?i < length data"
    using Suc.prems(2) by (intro pick) (cases data; simp)
  note rest = distinct_remove_nth [OF Suc.prems(1) i]
  have "q \<le> length ?rest" using Suc.prems(2) i by simp
  from Suc.IH [OF rest(1) this, of "c + 1"] show ?case
    using rest(2,3) i nth_mem [OF i] by (auto simp: Let_def)
qed simp

lemma bit_length_mult: "0 < n \<Longrightarrow> bit_length (n * 2 ^ k) = bit_length n + k"
proof (induction k)
  case (Suc k)
  have "bit_length (n * 2 ^ Suc k) = Suc (bit_length (n * 2 ^ Suc k div 2))"
    using Suc.prems by (subst bit_length.simps) (simp add: not_le)
  also have "n * 2 ^ Suc k div 2 = n * 2 ^ k" by simp
  finally show ?case using Suc by simp
qed simp

text \<open>With the factor one everybody is chosen.\<close>

lemma share_of_all:
  assumes "n < 2 ^ 32"
  shows "share_of n 0x3FF0000000000000 = of_nat n"
proof (cases "n = 0")
  case False
  let ?b = "bit_length (int n) - 1"
  have le: "bit_length (int n) \<le> 32"
    using assms by (intro bit_length_le) simp
  have pos: "0 < bit_length (int n)"
    using False by (subst bit_length.simps) simp
  have b: "bit_length (int n * 2 ^ 52) - 53 = ?b"
    using False by (simp add: bit_length_mult [of "int n" 52, simplified])
  have split: "int n * 2 ^ 52 = (int n * 2 ^ (52 - ?b)) * 2 ^ ?b"
    using le pos by (simp flip: power_add)
  have r: "round_nat (int n * 2 ^ 52) = (int n * 2 ^ (52 - ?b), ?b)"
    unfolding round_nat_def Let_def b
    by (subst (1 2 3 4) split) simp
  have dyadic: "f64_dyadic 0x3FF0000000000000 = (2 ^ 52, -52)"
    by (simp add: f64_dyadic_def f64_exponent_def Let_def)
  have exact: "round_nat (int n) = (int n, 0)"
    using assms by (intro round_nat_exact) simp
  have "int n * 2 ^ (52 - ?b) div 2 ^ (52 - ?b) = int n" by simp
  moreover have "nat (52 - int ?b) = 52 - ?b" "?b < 52" using le by simp_all
  ultimately have "floor_u32 (int n * 2 ^ (52 - ?b), - 52 + int ?b) = of_nat n"
    using assms by (simp add: floor_u32_def Let_def min_def max_def)
  then show ?thesis
    by (simp add: share_of_def exact dyadic r [simplified])
qed (simp add: share_of_def floor_u32_def round_nat_def f64_dyadic_def f64_exponent_def Let_def)

lemma targets_chosen:
  assumes "\<And>k n. 0 < n \<Longrightarrow> pick k n < n" "distinct targets"
  shows "distinct (get_message_targets pick targets p)" "set (get_message_targets pick targets p) \<subseteq> set targets"
    "length (get_message_targets pick targets p) =
      min (length targets) (unat (max 1 (share_of (length targets) p)))"
  using take_random_chosen [OF assms(1), where data = targets and c = 0 and
      q = "unat (max 1 (share_of (length targets) p))"] assms(2)
  by (auto simp: get_message_targets_def get_n_distinct_random_data_def min_def)

lemma all_chosen:
  assumes "length targets < 2 ^ 32"
  shows "get_message_targets pick targets 0x3FF0000000000000 = targets"
proof -
  have "unat (of_nat (length targets) :: u32) = length targets"
    using assms by (simp add: unat_of_nat)
  then have "length targets \<le> unat (max 1 (of_nat (length targets) :: u32))"
    by (metis max.cobounded2 word_le_nat_alt)
  then show ?thesis
    by (simp only: get_message_targets_def get_n_distinct_random_data_def share_of_all [OF assms] if_True)
qed

section \<open>The tasks\<close>

datatype task_input =
    TInput "message_task_command option"
  | TShutdown

definition task_manager_turn :: "(key_identifier set \<Rightarrow> key_identifier list) \<Rightarrow> task_input \<Rightarrow> bool tmact" where
  "task_manager_turn as_list i =
     (case i of
        TInput c \<Rightarrow> bindA (task_process_input as_list c) (\<lambda>_. retA True)
      | TShutdown \<Rightarrow> retA False)"

text \<open>After a cancellation nothing is sent for the request any more; a new request with the same name
  replaces the old one.\<close>

lemma cancelled_silent:
  assumes "task_process_input as_list (Some (TaskCancel i)) s = (r, t)"
  shows "repeated_tick E R M now pick i t = t"
  using assms by (auto simp: task_process_input_def cancel_task_def repeated_tick_def split: option.splits)

lemma request_replaces:
  assumes "task_process_input as_list (Some (TaskRequest (Some i) msg targets config)) s = (Ok (), t)"
  shows "tm_list t = (tm_list s)(i \<mapsto> \<lparr>rp_message = msg, rp_targets = as_list targets, rp_config = config,
      rp_state = TaskRunning\<rparr>) \<and> tm_network t = tm_network s"
  using assms
  by (auto simp: task_process_input_def create_indefinite_message_task_def cancel_task_def bindA_eq_Inr
      split: option.splits if_splits)

text \<open>A request without a period ends the manager when it is replaced or cancelled.\<close>

lemma no_period_ends:
  assumes "tm_list s i = Some r" "rp_state r = TaskRunning" "mc_timeout (rp_config r) = 0"
  shows "fst (task_process_input as_list (Some (TaskCancel i)) (repeated_tick E R M now pick i s)) = Fail TaskError"
  using assms by (simp add: task_process_input_def cancel_task_def repeated_tick_def)

end
