(* ===== verification/Sample_Composition.thy ===== *)
theory Sample_Composition
  imports Composition Message_Layer Ledger_External_Laws Sample_External Sample_Completer
begin

text \<open>
  An event the ledger refuses, and a message on the network.
\<close>

section \<open>A refused event\<close>

lemma ledger_db_ordered: "bt_inv ledger_db"
  unfolding ledger_db_def sample_db_def db_after_def
  by (intro keepsD [OF keeps_ordered_layers(1)] subjects.inv_put) simp

text \<open>The ledger is at event 0, so event 2 is refused after its signatures are stored.\<close>

definition refused_ledger :: "blob ledger" where
  "refused_ledger = (sample_ledger ledger_db (Some 0) None)\<lparr>nd_db :=
     db_after (set_signatures sample_env (sample_id 5) 2 [] sample_proof) ledger_db\<rparr>"

lemma event_refused:
  "event_validated sample_env sample_config (sample_event (Fact sample_fact) 2 True) [] sample_proof
     (sample_ledger ledger_db (Some 0) None) =
     (Fail (WrongSnInSubject (dstr sample_env (sample_id 5))), refused_ledger)"
  by (simp add: run_ledger foreign_reads refused_ledger_def)

lemma refused_db:
  "bt_inv (nd_db refused_ledger)"
  "get_event sample_env (sample_id 5) 2 (nd_db refused_ledger) = Fail EntryNotFound"
proof -
  have eq: "nd_db refused_ledger = db_after (set_signatures sample_env (sample_id 5) 2 [] sample_proof) ledger_db"
    by (simp add: refused_ledger_def)
  show "bt_inv (nd_db refused_ledger)"
    unfolding eq db_after_def
    by (rule keepsD [OF keeps_ordered_layers(2) ledger_db_ordered])
  have "get_event sample_env (sample_id 5) 2
      (snd (set_event sample_env (sample_id 5) (sample_event (Create sample_start) 0 True) sample_db)) =
      get_event sample_env (sample_id 5) 2 sample_db"
    by (rule events.get_put_other [of sample_env "(sample_id 5, 0)" "(sample_id 5, 2)", unfolded fst_conv snd_conv])
      simp_all
  moreover have "get_event sample_env (sample_id 5) 2 sample_db = Fail EntryNotFound"
    unfolding sample_db_def db_after_fold by (simp add: event_reads)
  ultimately show "get_event sample_env (sample_id 5) 2 (nd_db refused_ledger) = Fail EntryNotFound"
    by (simp add: refused_ledger_def ledger_db_def event_reads)
qed

section \<open>A message\<close>

definition sample_sender :: message_sender where
  "sample_sender = \<lparr>ms_controller_id = sample_key 1,
     ms_signature_manager = self_signature_manager_new (sample_keys 1) Blake3_256, ms_derivator = Blake3_256\<rparr>"

definition sample_message :: "message_content signed" where
  "sample_message = \<lparr>
     content = \<lparr>me_sender_id = sample_key 1, me_content = LedgerMessages (GetLCE (sample_key 1) (sample_id 5)),
       me_receiver = sample_key 2\<rparr>,
     signature = \<lparr>sg_signer = sample_key 1, sg_timestamp = 7, sg_content_hash = new_digest Blake3_256 sample_hash,
       sg_value = new_signature_id Ed25519Sha512 [1]\<rparr>\<rparr>"

text \<open>A codec of this one message.\<close>

definition sample_rmp :: rmp where
  "sample_rmp = \<lparr>ser = \<lambda>m. if m = sample_message then Some [1] else None, de = \<lambda>_. Some sample_message\<rparr>"

lemma sample_rmp_ok: "codec_ok sample_rmp"
  by (simp add: codec_ok_def sample_rmp_def)

lemma sample_sent:
  "send_message sample_env sample_rmp sample_sender 7 (sample_key 2)
     (LedgerMessages (GetLCE (sample_key 1) (sample_id 5))) \<lparr>nw_open = True, nw_sent = []\<rparr> =
   (Ok (), \<lparr>nw_open = True, nw_sent = [SendMessage (ki_public_key (sample_key 2)) [1]]\<rparr>)"
  by (simp add: send_message_def signed_message_new_def sample_sender_def sample_sign bindA_run sample_rmp_def
      sample_message_def tell_network_def Let_def)

lemma sample_sender_keys:
  "sm_keys (ms_signature_manager sample_sender) = sample_keys 1"
  "ms_controller_id sample_sender = new_key (get_key_derivator (sample_keys 1)) (public_key_bytes (sample_keys 1))"
  by (simp_all add: sample_sender_def self_signature_manager_new_def sample_keys_def sample_key_def new_key_def)

end
