(* ===== verification/Validation_Manager.thy ===== *)
theory Validation_Manager
  imports Validation
begin

text \<open>
  The task of the validator (\<^verbatim>\<open>validation/manager.rs\<close>): each request is handled and answered; an
  error of a channel ends the task.
\<close>

datatype validation_response = ValidationEventResponse "validation_error + validation_event_response"

definition validation_command_result ::
  "'b env \<Rightarrow> validator \<Rightarrow> timestamp \<Rightarrow> validation_event \<Rightarrow> key_identifier \<Rightarrow>
     (('b, 'z) node_scheme, validation_response, validation_error) act" where
  "validation_command_result E V now ve sender = (\<lambda>s.
     case Validation.validation_event E V now ve sender s of
       (Inl (Panic e), t) \<Rightarrow> (Abort e, t)
     | (Inl (Err (VChannelError e)), t) \<Rightarrow> (Fail (VChannelError e), t)
     | (Inl (Err e), t) \<Rightarrow> (Ok (ValidationEventResponse (Inl e)), t)
     | (Inr x, t) \<Rightarrow> (Ok (ValidationEventResponse (Inr x)), t))"

definition validation_process_command ::
  "'b env \<Rightarrow> validator \<Rightarrow> timestamp \<Rightarrow> bool option \<Rightarrow> validation_command \<Rightarrow>
     (('b, 'z) node_scheme, validation_response option, validation_error) act" where
  "validation_process_command E V now sender_top c =
     (case c of
        ValidationEvent ve sender \<Rightarrow>
          bindA (validation_command_result E V now ve sender) (\<lambda>r.
          case sender_top of
            None \<Rightarrow> retA None
          | Some True \<Rightarrow> retA (Some r)
          | Some False \<Rightarrow> liftA (Abort ''Sender Dropped''))
      | AskForValidation _ \<Rightarrow> retA None)"

datatype validation_input =
    VInputCommand "(bool option \<times> validation_command) option"
  | VInputShutdown

definition validation_turn ::
  "'b env \<Rightarrow> validator \<Rightarrow> timestamp \<Rightarrow> validation_input \<Rightarrow>
     (('b, 'z) node_scheme, bool, validation_error) act" where
  "validation_turn E V now i =
     (case i of
        VInputCommand (Some (sender_top, c)) \<Rightarrow>
          bindA (validation_process_command E V now sender_top c) (\<lambda>_. retA True)
      | VInputCommand None \<Rightarrow> retA False
      | VInputShutdown \<Rightarrow> retA False)"

text \<open>Errors of the governance module and of the database do not end the validator: the one
  who asks without waiting for an answer never notices.\<close>

lemma validation_turn_ends:
  assumes "validation_turn E V now (VInputCommand (Some (None, ValidationEvent ve sender))) s = (Fail e, t)"
  shows "\<exists>ce. e = VChannelError ce"
  using assms
  by (auto simp: validation_turn_def validation_process_command_def validation_command_result_def bindA_run
      split: prod.splits sum.splits failure.splits validation_error.splits)

end
