(* ===== verification/Authorized.thy ===== *)
theory Authorized
  imports Node Db_Laws
begin

text \<open>
  The list of preauthorised subjects and their providers (\<^verbatim>\<open>authorized_subjecs\<close>): a new entry, and
  the periodic question to the providers for the last events of every subject of the list.
\<close>

datatype authorized_error =
    AChannelError channel_error
  | ADatabaseError db_error

datatype authorized_command = NewAuthorizedSubject digest_identifier "key_identifier list"

datatype authorized_response = ANoResponse

type_synonym ('b, 'z, 'a) auact = "(('b, 'z) node_scheme, 'a, authorized_error) act"

text \<open>The question for the last event of a subject; without providers none is asked.\<close>

definition ask_providers ::
  "key_identifier \<Rightarrow> digest_identifier \<times> key_identifier list \<Rightarrow> ('b, 'z, unit) auact" where
  "ask_providers our_id = (\<lambda>(subject_id, providers).
     if providers \<noteq> []
     then tell_message AChannelError (TaskRequest None (LedgerMessages (GetLCE our_id subject_id))
       (set providers) direct_response)
     else retA ())"

definition ask_for_all :: "'b env \<Rightarrow> key_identifier \<Rightarrow> ('b, 'z, unit) auact" where
  "ask_for_all E our_id =
     bindA (db_read ADatabaseError (get_allowed_subjects_and_providers E None 10000))
       (\<lambda>preauthorized_subjects. forA (ask_providers our_id) preauthorized_subjects)"

definition new_authorized_subject ::
  "'b env \<Rightarrow> key_identifier \<Rightarrow> digest_identifier \<Rightarrow> key_identifier list \<Rightarrow> ('b, 'z, unit) auact" where
  "new_authorized_subject E our_id subject_id providers =
     bindA (dbA ADatabaseError (set_preauthorized_subject_and_providers E subject_id providers)) (\<lambda>_.
     ask_providers our_id (subject_id, providers))"

text \<open>The one answer is given only after success; a missing entry, which a write cannot report, is a
  \<^verbatim>\<open>todo!()\<close>.\<close>

definition authorized_command_run ::
  "'b env \<Rightarrow> key_identifier \<Rightarrow> bool option \<Rightarrow> authorized_command \<Rightarrow> ('b, 'z, authorized_response option) auact" where
  "authorized_command_run E our_id sender c =
     (case c of NewAuthorizedSubject subject_id providers \<Rightarrow> (\<lambda>s.
        case new_authorized_subject E our_id subject_id providers s of
          (Inl (Err (ADatabaseError EntryNotFound)), t) \<Rightarrow> (Abort ''not yet implemented'', t)
        | (Inl e, t) \<Rightarrow> (Inl e, t)
        | (Inr _, t) \<Rightarrow>
            (case sender of
               None \<Rightarrow> (Ok None, t)
             | Some True \<Rightarrow> (Ok (Some ANoResponse), t)
             | Some False \<Rightarrow> (Abort ''Sender Dropped'', t))))"

text \<open>What the start-up and each tick of the timer do: an empty list is no error.\<close>

definition authorized_tick :: "'b env \<Rightarrow> key_identifier \<Rightarrow> ('b, 'z, unit) auact" where
  "authorized_tick E our_id = (\<lambda>s.
     case ask_for_all E our_id s of
       (Inl (Err (ADatabaseError EntryNotFound)), t) \<Rightarrow> (Ok (), t)
     | rt \<Rightarrow> rt)"

datatype authorized_input =
    AInputCommand "(bool option \<times> authorized_command) option"
  | AInputTick
  | AInputShutdown

definition authorized_turn ::
  "'b env \<Rightarrow> key_identifier \<Rightarrow> authorized_input \<Rightarrow> ('b, 'z, bool) auact" where
  "authorized_turn E our_id i =
     (case i of
        AInputCommand (Some (sender, c)) \<Rightarrow> bindA (authorized_command_run E our_id sender c) (\<lambda>_. retA True)
      | AInputCommand None \<Rightarrow> retA False
      | AInputTick \<Rightarrow> bindA (authorized_tick E our_id) (\<lambda>_. retA True)
      | AInputShutdown \<Rightarrow> retA False)"

section \<open>What is asked\<close>

lemma ask_providers_run:
  "nd_message_open s \<Longrightarrow> ask_providers our_id x s = (Ok (), s\<lparr>nd_messages := nd_messages s @
     (if snd x = [] then [] else [TaskRequest None (LedgerMessages (GetLCE our_id (fst x)))
       (set (snd x)) direct_response])\<rparr>)"
  by (cases x) (simp add: ask_providers_def tell_message_def)

lemma ask_all_run:
  "nd_message_open s \<Longrightarrow> forA (ask_providers our_id) xs s = (Ok (), s\<lparr>nd_messages := nd_messages s @
     map (\<lambda>(i, ks). TaskRequest None (LedgerMessages (GetLCE our_id i)) (set ks) direct_response)
       (filter (\<lambda>(i, ks). ks \<noteq> []) xs)\<rparr>)"
  by (induction xs arbitrary: s) (auto simp: ask_providers_run bindA_run)

lemma preauthorized_keys:
  "get_preauthorized_subject_and_providers E i m =
     bindR (kv_get (c_providers E) (''preauthorized-subjects-and-providers'' @ char_MAX @ dstr E i) m) (\<lambda>r. Ok (snd r))"
  "set_preauthorized_subject_and_providers E i ks =
     kv_put (c_providers E) (''preauthorized-subjects-and-providers'' @ char_MAX @ dstr E i) (i, ks)"
  by (simp_all add: get_preauthorized_subject_and_providers_def set_preauthorized_subject_and_providers_def
      get_key_eval fun_eq_iff)

text \<open>A new entry is stored and its providers are asked at once.\<close>

lemma new_authorized_run:
  assumes "new_authorized_subject E our_id i ks s = (Ok (), t)" "codec_ok (c_providers E)"
  shows "get_preauthorized_subject_and_providers E i (nd_db t) = Ok ks"
    "nd_messages t = nd_messages s @ (if ks = [] then []
      else [TaskRequest None (LedgerMessages (GetLCE our_id i)) (set ks) direct_response])"
proof -
  from assms(1) obtain d where put: "set_preauthorized_subject_and_providers E i ks (nd_db s) = (Ok (), d)"
    and t: "ask_providers our_id (i, ks) (s\<lparr>nd_db := d\<rparr>) = (Ok (), t)"
    by (auto simp: new_authorized_subject_def bindA_eq_Inr dbA_eq_Inr)
  have db: "nd_db t = d" and "nd_messages t = nd_messages s @ (if ks = [] then []
      else [TaskRequest None (LedgerMessages (GetLCE our_id i)) (set ks) direct_response])"
    using t by (auto simp: ask_providers_def tell_message_eq_Inr split: if_splits)
  then show "nd_messages t = nd_messages s @ (if ks = [] then []
      else [TaskRequest None (LedgerMessages (GetLCE our_id i)) (set ks) direct_response])" by simp
  show "get_preauthorized_subject_and_providers E i (nd_db t) = Ok ks"
    using put assms(2)
    by (cases "ser (c_providers E) (i, ks)")
      (auto simp: db preauthorized_keys kv_put_def kv_get_def coll_put_def coll_get_def bt_get_insert codec_ok_def)
qed

end
