(* ===== verification/Tell.thy ===== *)
theory Tell
  imports Rust_Str
begin

text \<open>
  The protocol that carries one message to another node without an answer
  (\<^verbatim>\<open>network/tell\<close>): the framing of a message on a substream, the handler of a connection and the
  behaviour of the swarm. Peers, addresses and connections are the types of libp2p: type parameters.
\<close>

section \<open>Framing\<close>

text \<open>A substream is a byte stream with the operations of \<^verbatim>\<open>futures\<close>, and the variable-length integers
  of \<^verbatim>\<open>unsigned_varint\<close> on it: parameters.\<close>

datatype io_error = InvalidInput string | IoFailure string

record 'io byte_stream =
  bs_write_all :: "bytes \<Rightarrow> ('io, unit, io_error) act"
  bs_close :: "('io, unit, io_error) act"
  bs_read_exact :: "nat \<Rightarrow> ('io, bytes, io_error) act"
  bs_encode_usize :: "nat \<Rightarrow> bytes"
  bs_read_usize :: "('io, nat, io_error) act"

record tell_protocol =
  tp_message :: bytes
  tp_max_message_size :: u64

definition upgrade_outbound :: "'io byte_stream \<Rightarrow> tell_protocol \<Rightarrow> ('io, unit, io_error) act" where
  "upgrade_outbound S p =
     bindA (bs_write_all S (bs_encode_usize S (length (tp_message p)))) (\<lambda>_.
     bindA (bs_write_all S (tp_message p)) (\<lambda>_.
     bindA (bs_close S) (\<lambda>_.
     retA ())))"

definition message_too_long :: "nat \<Rightarrow> u64 \<Rightarrow> io_error" where
  "message_too_long len max_size =
     InvalidInput (''Message size exceeds limit: '' @ decimal len @ '' > '' @ decimal (unat max_size))"

definition upgrade_inbound :: "'io byte_stream \<Rightarrow> tell_protocol \<Rightarrow> ('io, bytes, io_error) act" where
  "upgrade_inbound S p = (\<lambda>io.
     case bs_read_usize S io of
       (Inl (Err _), io') \<Rightarrow> (Fail (InvalidInput ''varint''), io')
     | (Inl (Panic m), io') \<Rightarrow> (Abort m, io')
     | (Inr len, io') \<Rightarrow>
         if len > unat (tp_max_message_size p) then
           (Fail (message_too_long len (tp_max_message_size p)), io')
         else bs_read_exact S len io')"

text \<open>What the substream of two connected nodes does: what one end has written and the other not yet
  read are the same bytes, and a length is read back as it was written.\<close>

definition pipe_ok :: "'io byte_stream \<Rightarrow> ('io \<Rightarrow> bytes) \<Rightarrow> bool" where
  "pipe_ok S inside \<longleftrightarrow>
     (\<forall>b io io'. bs_write_all S b io = (Ok (), io') \<longrightarrow> inside io' = inside io @ b) \<and>
     (\<forall>io io'. bs_close S io = (Ok (), io') \<longrightarrow> inside io' = inside io) \<and>
     (\<forall>n rest io. n < 2 ^ 64 \<longrightarrow> inside io = bs_encode_usize S n @ rest \<longrightarrow>
        (\<exists>io'. bs_read_usize S io = (Ok n, io') \<and> inside io' = rest)) \<and>
     (\<forall>b rest io. inside io = b @ rest \<longrightarrow>
        (\<exists>io'. bs_read_exact S (length b) io = (Ok b, io') \<and> inside io' = rest))"

lemma upgrade_outbound_inside:
  assumes "pipe_ok S inside" and "upgrade_outbound S p io = (Ok (), io')"
  shows "inside io' = inside io @ bs_encode_usize S (length (tp_message p)) @ tp_message p"
  using assms by (fastforce simp: upgrade_outbound_def pipe_ok_def bindA_eq_Inr)

lemma upgrade_inbound_long:
  assumes "pipe_ok S inside" and "inside io = bs_encode_usize S n @ rest" "n < 2 ^ 64"
    and "unat (tp_max_message_size q) < n"
  shows "fst (upgrade_inbound S q io) = Fail (message_too_long n (tp_max_message_size q))"
proof -
  obtain io' where "bs_read_usize S io = (Ok n, io')"
    using assms(1-3) unfolding pipe_ok_def by blast
  then show ?thesis using assms(4) by (simp add: upgrade_inbound_def)
qed

lemma upgrade_inbound_fits:
  assumes "pipe_ok S inside" and "inside io = bs_encode_usize S (length m) @ m @ rest"
    and "length m \<le> unat (tp_max_message_size q)"
  obtains io' where "upgrade_inbound S q io = (Ok m, io')" "inside io' = rest"
proof -
  have "length m < 2 ^ 64"
    using assms(3) unsigned_less [of "tp_max_message_size q", where 'a = nat] by simp
  then obtain io1 where r: "bs_read_usize S io = (Ok (length m), io1)" "inside io1 = m @ rest"
    using assms(1,2) unfolding pipe_ok_def by blast
  then obtain io' where "bs_read_exact S (length m) io1 = (Ok m, io')" "inside io' = rest"
    using assms(1) unfolding pipe_ok_def by blast
  with r assms(3) show thesis
    by (intro that [of io']) (simp_all add: upgrade_inbound_def)
qed

section \<open>The handler of a connection\<close>

text \<open>Times and durations are in one unit; \<open>now\<close> is the clock of the call.\<close>

datatype tell_handler_event =
    OutboundTimeout
  | InboundTimeout
  | HandlerRequestSent
  | HandlerRequestReceived bytes

datatype keep_alive = KeepUntil nat | KeepYes | KeepNo

datatype upgrade_error = UpgradeTimeout | UpgradeOther string

record tell_handler =
  th_max_message_size :: u64
  th_pending_events :: "tell_handler_event list"
  th_outbound :: "tell_protocol list"
  th_pending_error :: "upgrade_error option"
  th_keep_alive :: keep_alive
  th_substream_timeout :: nat
  th_connection_timeout :: nat

definition tell_handler_new :: "nat \<Rightarrow> u64 \<Rightarrow> nat \<Rightarrow> nat \<Rightarrow> tell_handler" where
  "tell_handler_new now max_message_size keep timeout =
     \<lparr>th_max_message_size = max_message_size, th_pending_events = [], th_outbound = [],
      th_pending_error = None, th_keep_alive = KeepUntil (now + keep),
      th_substream_timeout = timeout, th_connection_timeout = keep\<rparr>"

definition listen_protocol :: "tell_handler \<Rightarrow> tell_protocol \<times> nat" where
  "listen_protocol h =
     (\<lparr>tp_message = [], tp_max_message_size = th_max_message_size h\<rparr>, th_substream_timeout h)"

definition fully_negotiated_inbound :: "bytes \<Rightarrow> tell_handler \<Rightarrow> tell_handler" where
  "fully_negotiated_inbound data h =
     h\<lparr>th_pending_events := th_pending_events h @ [HandlerRequestReceived data]\<rparr>"

definition fully_negotiated_outbound :: "nat \<Rightarrow> tell_handler \<Rightarrow> tell_handler" where
  "fully_negotiated_outbound now h =
     (let h = (if th_outbound h = [] then h\<lparr>th_keep_alive := KeepUntil (now + th_connection_timeout h)\<rparr>
               else h)
      in h\<lparr>th_pending_events := th_pending_events h @ [HandlerRequestSent]\<rparr>)"

definition handler_inject_event :: "tell_protocol \<Rightarrow> tell_handler \<Rightarrow> tell_handler" where
  "handler_inject_event event h =
     (let h = h\<lparr>th_keep_alive := KeepYes\<rparr> in h\<lparr>th_outbound := th_outbound h @ [event]\<rparr>)"

definition dial_upgrade_error :: "upgrade_error \<Rightarrow> tell_handler \<Rightarrow> tell_handler" where
  "dial_upgrade_error error h =
     (let h = h\<lparr>th_keep_alive := KeepNo\<rparr> in
      case error of
        UpgradeTimeout \<Rightarrow> h\<lparr>th_pending_events := th_pending_events h @ [OutboundTimeout]\<rparr>
      | UpgradeOther _ \<Rightarrow> h\<lparr>th_pending_error := Some error\<rparr>)"

definition listen_upgrade_error :: "upgrade_error \<Rightarrow> tell_handler \<Rightarrow> tell_handler" where
  "listen_upgrade_error error h =
     (let h = h\<lparr>th_keep_alive := KeepNo\<rparr> in
      case error of
        UpgradeTimeout \<Rightarrow> h\<lparr>th_pending_events := th_pending_events h @ [InboundTimeout]\<rparr>
      | UpgradeOther _ \<Rightarrow> h\<lparr>th_pending_error := Some error\<rparr>)"

datatype handler_poll =
    CloseConnection upgrade_error
  | CustomEvent tell_handler_event
  | OutboundSubstreamRequest tell_protocol nat

text \<open>\<open>None\<close> is \<^verbatim>\<open>Poll::Pending\<close>.\<close>

definition handler_poll :: "tell_handler \<Rightarrow> handler_poll option \<times> tell_handler" where
  "handler_poll h =
     (case th_pending_error h of
        Some err \<Rightarrow> (Some (CloseConnection err), h\<lparr>th_pending_error := None\<rparr>)
      | None \<Rightarrow>
          (case th_pending_events h of
             event # events \<Rightarrow> (Some (CustomEvent event), h\<lparr>th_pending_events := events\<rparr>)
           | [] \<Rightarrow>
               (case th_outbound h of
                  proto # protos \<Rightarrow>
                    (Some (OutboundSubstreamRequest proto (th_substream_timeout h)),
                     h\<lparr>th_outbound := protos\<rparr>)
                | [] \<Rightarrow> (None, h))))"

section \<open>The behaviour of the swarm\<close>

datatype 'p tell_behaviour_event =
    RequestSent 'p
  | RequestReceived bytes 'p
  | RequestFailed 'p

text \<open>A dial carries a new handler, which is the same for all and left out.\<close>

datatype ('p, 'c) behaviour_action =
    DialPeer 'p
  | NotifyHandler 'p 'c tell_protocol
  | GenerateEvent "'p tell_behaviour_event"

record ('p, 'a, 'c) tell_behaviour =
  tb_max_message_size :: u64
  tb_pending_events :: "('p, 'c) behaviour_action list"
  tb_connections :: "'p \<rightharpoonup> 'c"
  tb_pending_outbonds :: "'p \<rightharpoonup> bytes list"
  tb_connection_keep_alive :: nat
  tb_substream_timeout :: nat
  tb_routes :: "'p \<rightharpoonup> 'a"

definition tell_behaviour_new :: "u64 \<Rightarrow> nat \<Rightarrow> nat \<Rightarrow> ('p, 'a, 'c) tell_behaviour" where
  "tell_behaviour_new max_message_size keep_alive timeout =
     \<lparr>tb_max_message_size = max_message_size, tb_pending_events = [], tb_connections = Map.empty,
      tb_pending_outbonds = Map.empty, tb_connection_keep_alive = keep_alive,
      tb_substream_timeout = timeout, tb_routes = Map.empty\<rparr>"

definition new_handler :: "nat \<Rightarrow> ('p, 'a, 'c) tell_behaviour \<Rightarrow> tell_handler" where
  "new_handler now b =
     tell_handler_new now (tb_max_message_size b) (tb_connection_keep_alive b) (tb_substream_timeout b)"

definition try_send ::
  "'p \<Rightarrow> bytes \<Rightarrow> ('p, 'a, 'c) tell_behaviour \<Rightarrow> bytes option \<times> ('p, 'a, 'c) tell_behaviour" where
  "try_send peer data b =
     (case tb_connections b peer of
        Some conn_id \<Rightarrow>
          (None, b\<lparr>tb_pending_events := tb_pending_events b @
             [NotifyHandler peer conn_id
               \<lparr>tp_message = data, tp_max_message_size = tb_max_message_size b\<rparr>]\<rparr>)
      | None \<Rightarrow> (Some data, b))"

definition tell_send :: "'p \<Rightarrow> bytes \<Rightarrow> ('p, 'a, 'c) tell_behaviour \<Rightarrow> ('p, 'a, 'c) tell_behaviour" where
  "tell_send peer data b =
     (case try_send peer data b of
        (Some data, b) \<Rightarrow>
          let b = b\<lparr>tb_pending_events := tb_pending_events b @ [DialPeer peer]\<rparr>;
              waiting = (case tb_pending_outbonds b peer of None \<Rightarrow> [] | Some ds \<Rightarrow> ds)
          in b\<lparr>tb_pending_outbonds := (tb_pending_outbonds b)(peer \<mapsto> waiting @ [data])\<rparr>
      | (None, b) \<Rightarrow> b)"

definition get_route :: "'p \<Rightarrow> ('p, 'a, 'c) tell_behaviour \<Rightarrow> 'a option" where
  "get_route peer b = tb_routes b peer"

definition set_route :: "'p \<Rightarrow> 'a \<Rightarrow> ('p, 'a, 'c) tell_behaviour \<Rightarrow> ('p, 'a, 'c) tell_behaviour" where
  "set_route peer addr b = b\<lparr>tb_routes := (tb_routes b)(peer \<mapsto> addr)\<rparr>"

definition remove_route :: "'p \<Rightarrow> ('p, 'a, 'c) tell_behaviour \<Rightarrow> ('p, 'a, 'c) tell_behaviour" where
  "remove_route peer b = b\<lparr>tb_routes := (tb_routes b)(peer := None)\<rparr>"

definition tell_addresses_of_peer :: "'p \<Rightarrow> ('p, 'a, 'c) tell_behaviour \<Rightarrow> 'a list" where
  "tell_addresses_of_peer peer b = (case tb_routes b peer of Some addr \<Rightarrow> [addr] | None \<Rightarrow> [])"

definition tell_inject_event ::
  "'p \<Rightarrow> tell_handler_event \<Rightarrow> ('p, 'a, 'c) tell_behaviour \<Rightarrow> ('p, 'a, 'c) tell_behaviour" where
  "tell_inject_event peer event b =
     (let push = (\<lambda>e b. b\<lparr>tb_pending_events := tb_pending_events b @ [GenerateEvent e]\<rparr>) in
      case event of
        InboundTimeout \<Rightarrow> push (RequestFailed peer) (remove_route peer b)
      | OutboundTimeout \<Rightarrow> push (RequestFailed peer) (remove_route peer b)
      | HandlerRequestReceived data \<Rightarrow> push (RequestReceived data peer) b
      | HandlerRequestSent \<Rightarrow> push (RequestSent peer) b)"

definition connection_closed :: "'p \<Rightarrow> 'c \<Rightarrow> ('p, 'a, 'c) tell_behaviour \<Rightarrow> ('p, 'a, 'c) tell_behaviour" where
  "connection_closed peer conn b = b\<lparr>tb_connections := (tb_connections b)(peer := None)\<rparr>"

definition connection_established ::
  "'p \<Rightarrow> 'c \<Rightarrow> ('p, 'a, 'c) tell_behaviour \<Rightarrow> ('p, 'a, 'c) tell_behaviour" where
  "connection_established peer conn b =
     (let b = (case tb_connections b peer of
                 Some _ \<Rightarrow> b
               | None \<Rightarrow> b\<lparr>tb_connections := (tb_connections b)(peer \<mapsto> conn)\<rparr>)
      in case tb_pending_outbonds b peer of
           None \<Rightarrow> b
         | Some data \<Rightarrow>
             fold (\<lambda>request b. snd (try_send peer request b)) data
               (b\<lparr>tb_pending_outbonds := (tb_pending_outbonds b)(peer := None)\<rparr>))"

definition tell_poll ::
  "('p, 'a, 'c) tell_behaviour \<Rightarrow> ('p, 'c) behaviour_action option \<times> ('p, 'a, 'c) tell_behaviour" where
  "tell_poll b =
     (case tb_pending_events b of
        ev # evs \<Rightarrow> (Some ev, b\<lparr>tb_pending_events := evs\<rparr>)
      | [] \<Rightarrow> (None, b))"

section \<open>Messages to a peer leave in order\<close>

text \<open>What a client of a link to other nodes relies on: the messages given for one peer form a queue.\<close>

locale message_link =
  fixes send :: "'p \<Rightarrow> bytes \<Rightarrow> 'b \<Rightarrow> 'b"
    and queue :: "'b \<Rightarrow> 'p \<Rightarrow> bytes list"
    and ok :: "'b \<Rightarrow> bool"
  assumes queue_send: "ok b \<Longrightarrow> queue (send p d b) = (queue b)(p := queue b p @ [d])"
    and ok_send: "ok b \<Longrightarrow> ok (send p d b)"
begin

lemma send_all:
  "ok b \<Longrightarrow> queue (fold (send p) ds b) = (queue b)(p := queue b p @ ds) \<and> ok (fold (send p) ds b)"
  by (induction ds arbitrary: b) (simp_all add: queue_send ok_send fun_eq_iff)

end

fun notified :: "'p \<Rightarrow> ('p, 'c) behaviour_action list \<Rightarrow> bytes list" where
  "notified p [] = []"
| "notified p (NotifyHandler q c proto # as) =
     (if q = p then tp_message proto # notified p as else notified p as)"
| "notified p (_ # as) = notified p as"

definition waiting :: "'p \<Rightarrow> ('p, 'a, 'c) tell_behaviour \<Rightarrow> bytes list" where
  "waiting p b = (case tb_pending_outbonds b p of None \<Rightarrow> [] | Some ds \<Rightarrow> ds)"

text \<open>The abstraction of the behaviour: one queue for each peer.\<close>

definition tell_queue :: "('p, 'a, 'c) tell_behaviour \<Rightarrow> 'p \<Rightarrow> bytes list" where
  "tell_queue b p = notified p (tb_pending_events b) @ waiting p b"

definition tell_inv :: "('p, 'a, 'c) tell_behaviour \<Rightarrow> bool" where
  "tell_inv b \<longleftrightarrow> (\<forall>p. tb_connections b p \<noteq> None \<longrightarrow> tb_pending_outbonds b p = None)"

lemma notified_append [simp]: "notified p (xs @ ys) = notified p xs @ notified p ys"
  by (induction p xs rule: notified.induct) simp_all

lemma tell_send_queue:
  assumes "tell_inv b"
  shows "tell_queue (tell_send p d b) = (tell_queue b)(p := tell_queue b p @ [d])"
  using assms
  by (auto simp: fun_eq_iff tell_queue_def waiting_def tell_send_def try_send_def tell_inv_def Let_def
      split: option.splits)

lemma tell_send_inv: "tell_inv b \<Longrightarrow> tell_inv (tell_send p d b)"
  by (auto simp: tell_send_def try_send_def tell_inv_def Let_def split: option.splits)

interpretation tell: message_link tell_send tell_queue tell_inv
  by unfold_locales (simp_all add: tell_send_queue tell_send_inv)

lemma set_route_queue [simp]: "tell_queue (set_route p a b) = tell_queue b"
  by (simp add: set_route_def tell_queue_def waiting_def fun_eq_iff)

lemma remove_route_queue [simp]: "tell_queue (remove_route p b) = tell_queue b"
  by (simp add: remove_route_def tell_queue_def waiting_def fun_eq_iff)

lemma inject_event_queue [simp]: "tell_queue (tell_inject_event p e b) = tell_queue b"
  by (cases e) (simp_all add: tell_inject_event_def remove_route_def tell_queue_def waiting_def fun_eq_iff)

lemma closed_queue [simp]: "tell_queue (connection_closed p c b) = tell_queue b"
  by (simp add: connection_closed_def tell_queue_def waiting_def fun_eq_iff)

lemma flush_queue:
  assumes "tb_connections b p = Some c"
  shows "notified q (tb_pending_events (fold (\<lambda>d b. snd (try_send p d b)) ds b)) =
      notified q (tb_pending_events b) @ (if q = p then ds else []) \<and>
    tb_pending_outbonds (fold (\<lambda>d b. snd (try_send p d b)) ds b) = tb_pending_outbonds b \<and>
    tb_connections (fold (\<lambda>d b. snd (try_send p d b)) ds b) = tb_connections b"
  using assms by (induction ds arbitrary: b) (auto simp: try_send_def)

lemma established_queue:
  assumes "tell_inv b"
  shows "tell_queue (connection_established p c b) = tell_queue b \<and>
    tell_inv (connection_established p c b)"
proof (cases "tb_connections b p")
  case None
  show ?thesis
  proof (cases "tb_pending_outbonds b p")
    case (Some ds)
    let ?b = "b\<lparr>tb_connections := (tb_connections b)(p \<mapsto> c),
      tb_pending_outbonds := (tb_pending_outbonds b)(p := None)\<rparr>"
    have "connection_established p c b = fold (\<lambda>d b. snd (try_send p d b)) ds ?b"
      using None Some by (simp add: connection_established_def)
    with flush_queue [of ?b p c _ ds] assms Some show ?thesis
      by (auto simp: tell_queue_def waiting_def tell_inv_def fun_eq_iff)
  qed (use None assms in \<open>auto simp: connection_established_def tell_queue_def waiting_def
    tell_inv_def fun_eq_iff\<close>)
next
  case (Some c')
  then have "tb_pending_outbonds b p = None" using assms by (simp add: tell_inv_def)
  with Some assms show ?thesis by (simp add: connection_established_def)
qed

lemma poll_queue:
  "tell_poll b = (r, b') \<Longrightarrow>
   tell_queue b q = (case r of Some (NotifyHandler p c proto) \<Rightarrow>
      (if q = p then tp_message proto # tell_queue b' q else tell_queue b' q) | _ \<Rightarrow> tell_queue b' q)"
  by (auto simp: tell_poll_def tell_queue_def waiting_def split: list.splits behaviour_action.splits)

text \<open>The runs of the behaviour, with the messages given to it and those it has handed to the handlers
  of connections.\<close>

record ('p, 'a, 'c) tell_run =
  tr_behaviour :: "('p, 'a, 'c) tell_behaviour"
  tr_given :: "'p \<Rightarrow> bytes list"
  tr_handed :: "'p \<Rightarrow> bytes list"

inductive tell_step :: "('p, 'a, 'c) tell_run \<Rightarrow> ('p, 'a, 'c) tell_run \<Rightarrow> bool" where
  Send: "tell_step s (s\<lparr>tr_behaviour := tell_send p d (tr_behaviour s),
    tr_given := (tr_given s)(p := tr_given s p @ [d])\<rparr>)"
| Inject: "tell_step s (s\<lparr>tr_behaviour := tell_inject_event p e (tr_behaviour s)\<rparr>)"
| Established: "tell_step s (s\<lparr>tr_behaviour := connection_established p c (tr_behaviour s)\<rparr>)"
| Closed: "tell_step s (s\<lparr>tr_behaviour := connection_closed p c (tr_behaviour s)\<rparr>)"
| SetRoute: "tell_step s (s\<lparr>tr_behaviour := set_route p a (tr_behaviour s)\<rparr>)"
| RemoveRoute: "tell_step s (s\<lparr>tr_behaviour := remove_route p (tr_behaviour s)\<rparr>)"
| Hand: "tell_poll (tr_behaviour s) = (Some (NotifyHandler p c proto), b) \<Longrightarrow>
    tell_step s (s\<lparr>tr_behaviour := b, tr_handed := (tr_handed s)(p := tr_handed s p @ [tp_message proto])\<rparr>)"
| Poll: "tell_poll (tr_behaviour s) = (r, b) \<Longrightarrow> \<forall>p c proto. r \<noteq> Some (NotifyHandler p c proto) \<Longrightarrow>
    tell_step s (s\<lparr>tr_behaviour := b\<rparr>)"

definition tell_start :: "u64 \<Rightarrow> nat \<Rightarrow> nat \<Rightarrow> ('p, 'a, 'c) tell_run" where
  "tell_start n k t =
     \<lparr>tr_behaviour = tell_behaviour_new n k t, tr_given = \<lambda>_. [], tr_handed = \<lambda>_. []\<rparr>"

definition tell_run_inv :: "('p, 'a, 'c) tell_run \<Rightarrow> bool" where
  "tell_run_inv s \<longleftrightarrow> tell_inv (tr_behaviour s) \<and>
     (\<forall>p. tr_handed s p @ tell_queue (tr_behaviour s) p = tr_given s p)"

lemma poll_inv: "tell_poll b = (r, b') \<Longrightarrow> tell_inv b \<Longrightarrow> tell_inv b'"
  by (auto simp: tell_poll_def tell_inv_def split: list.splits)

lemma route_inv [simp]:
  "tell_inv b \<Longrightarrow> tell_inv (set_route p a b)" "tell_inv b \<Longrightarrow> tell_inv (remove_route p b)"
  "tell_inv b \<Longrightarrow> tell_inv (connection_closed p c b)" "tell_inv b \<Longrightarrow> tell_inv (tell_inject_event p e b)"
  by (cases e; simp add: tell_inv_def set_route_def remove_route_def connection_closed_def
      tell_inject_event_def)+

lemma tell_start_inv: "tell_run_inv (tell_start n k t)"
  by (simp add: tell_run_inv_def tell_start_def tell_behaviour_new_def tell_inv_def tell_queue_def waiting_def)

lemma tell_step_inv: "tell_step s t \<Longrightarrow> tell_run_inv s \<Longrightarrow> tell_run_inv t"
proof (induction rule: tell_step.induct)
  case (Hand s p c proto b)
  have q: "tell_queue (tr_behaviour s) q =
      (if q = p then tp_message proto # tell_queue b q else tell_queue b q)" for q
    using poll_queue [OF Hand(1), of q] by simp
  have "tr_given s q = tr_handed s q @ tell_queue (tr_behaviour s) q" for q
    using Hand(2) by (simp add: tell_run_inv_def)
  then show ?case
    using poll_inv [OF Hand(1)] Hand(2) by (simp add: tell_run_inv_def q)
next
  case (Poll s r b)
  have "tell_queue (tr_behaviour s) q = tell_queue b q" for q
    using poll_queue [OF Poll(1), of q] Poll(2) by (auto split: option.splits behaviour_action.splits)
  with poll_inv [OF Poll(1)] Poll(3) show ?case
    by (simp add: tell_run_inv_def)
qed (auto simp: tell_run_inv_def tell.queue_send tell.ok_send established_queue)

end
