(* ===== verification/Settings.thy ===== *)
theory Settings
  imports Identifiers
begin

text \<open>
  The settings of a node (\<^verbatim>\<open>commons/settings\<close>): the addresses it listens on, which are read from and
  printed as text, and the defaults.
\<close>

section \<open>Text\<close>

fun split_on :: "char \<Rightarrow> string \<Rightarrow> string list" where
  "split_on c [] = [[]]"
| "split_on c (x # xs) =
     (if x = c then [] # split_on c xs
      else (case split_on c xs of [] \<Rightarrow> [[x]] | y # ys \<Rightarrow> (x # y) # ys))"

fun parse_digits :: "nat \<Rightarrow> string \<Rightarrow> nat option" where
  "parse_digits acc [] = Some acc"
| "parse_digits acc (c # cs) =
     (let n = (of_char c :: nat) in
      if 48 \<le> n \<and> n \<le> 57 then parse_digits (acc * 10 + (n - 48)) cs else None)"

text \<open>\<^verbatim>\<open>str::parse::<u32>\<close>: a plus sign is allowed.\<close>

definition parse_u32 :: "string \<Rightarrow> u32 option" where
  "parse_u32 s =
     (let ds = (case s of c # cs \<Rightarrow> if c = CHR ''+'' \<and> cs \<noteq> [] then cs else s | [] \<Rightarrow> []) in
      if ds = [] then None
      else (case parse_digits 0 ds of
              Some n \<Rightarrow> if n < 2 ^ 32 then Some (of_nat n) else None
            | None \<Rightarrow> None))"

text \<open>\<^verbatim>\<open>Ipv4Addr\<close>: an octet has one to three digits and no leading zero.\<close>

type_synonym ipv4 = "u8 \<times> u8 \<times> u8 \<times> u8"

definition parse_octet :: "string \<Rightarrow> u8 option" where
  "parse_octet s =
     (if s = [] \<or> 3 < length s \<or> (1 < length s \<and> hd s = CHR ''0'') then None
      else (case parse_digits 0 s of
              Some n \<Rightarrow> if n < 256 then Some (of_nat n) else None
            | None \<Rightarrow> None))"

definition parse_ipv4 :: "string \<Rightarrow> ipv4 option" where
  "parse_ipv4 s =
     (case map parse_octet (split_on (CHR ''.'') s) of
        [Some a, Some b, Some c, Some d] \<Rightarrow> Some (a, b, c, d)
      | _ \<Rightarrow> None)"

definition print_ipv4 :: "ipv4 \<Rightarrow> string" where
  "print_ipv4 ip =
     (case ip of (a, b, c, d) \<Rightarrow>
        decimal (unat a) @ ''.'' @ decimal (unat b) @ ''.'' @ decimal (unat c) @ ''.'' @ decimal (unat d))"

section \<open>Listening addresses\<close>

datatype listen_addr_error =
    InvalidListenAddr
  | InvalidProtocolSpecified
  | InvalidIP4
  | InvalidIP6
  | NoTransportProtocolSpecified
  | NoTCP
  | NoU32Port
  | InvalidCombination

text \<open>\<^verbatim>\<open>Ipv6Addr\<close> with its \<^verbatim>\<open>FromStr\<close> and \<^verbatim>\<open>Display\<close> is a parameter.\<close>

record 'i ipv6 =
  parse_ipv6 :: "string \<Rightarrow> 'i option"
  print_ipv6 :: "'i \<Rightarrow> string"

datatype 'i listen_addr =
    ListenMemory "u32 option"
  | ListenIP4 "ipv4 option" "u32 option"
  | ListenIP6 "'i option" "u32 option"

definition default_port :: u32 where
  "default_port = 40040"

definition default_listen_addr :: "'i listen_addr" where
  "default_listen_addr = ListenIP4 (Some (0, 0, 0, 0)) (Some default_port)"

fun get_port :: "'i listen_addr \<Rightarrow> u32 option" where
  "get_port (ListenIP4 addr port) = port"
| "get_port (ListenIP6 addr port) = port"
| "get_port (ListenMemory port) = port"

fun increment_port :: "u32 \<Rightarrow> 'i listen_addr \<Rightarrow> 'i listen_addr" where
  "increment_port offset (ListenIP4 addr port) = ListenIP4 addr (map_option (\<lambda>p. p + offset) port)"
| "increment_port offset (ListenIP6 addr port) = ListenIP6 addr (map_option (\<lambda>p. p + offset) port)"
| "increment_port offset (ListenMemory port) = ListenMemory (map_option (\<lambda>p. p + offset) port)"

fun listen_addr_to_string :: "'i ipv6 \<Rightarrow> 'i listen_addr \<Rightarrow> (string, listen_addr_error) res" where
  "listen_addr_to_string I (ListenMemory port) =
     (let result = ''/memory'' in
      case port of
        Some port \<Rightarrow> Ok (result @ ''/'' @ decimal (unat port))
      | None \<Rightarrow> Ok result)"
| "listen_addr_to_string I (ListenIP4 addr port) =
     (let result = ''/ip4'' in
      case addr of
        Some ip \<Rightarrow>
          bindR (ok_or InvalidCombination port) (\<lambda>port.
          Ok (result @ ''/'' @ print_ipv4 ip @ ''/tcp/'' @ decimal (unat port)))
      | None \<Rightarrow> Ok result)"
| "listen_addr_to_string I (ListenIP6 addr port) =
     (let result = ''/ip6'' in
      case addr of
        Some ip \<Rightarrow>
          bindR (ok_or InvalidCombination port) (\<lambda>port.
          Ok (result @ ''/'' @ print_ipv6 I ip @ ''/tcp/'' @ decimal (unat port)))
      | None \<Rightarrow> Ok result)"

text \<open>The port that follows, if any section does.\<close>

definition next_port :: "string list \<Rightarrow> (u32 option, listen_addr_error) res" where
  "next_port sections =
     (case sections of
        [] \<Rightarrow> Ok None
      | port # _ \<Rightarrow> bindR (ok_or NoU32Port (parse_u32 port)) (\<lambda>port. Ok (Some port)))"

definition next_tcp_port :: "string list \<Rightarrow> (u32 option, listen_addr_error) res" where
  "next_tcp_port sections =
     (case sections of
        [] \<Rightarrow> Fail NoTransportProtocolSpecified
      | tcp # sections \<Rightarrow> if tcp \<noteq> ''tcp'' then Fail NoTCP else next_port sections)"

definition listen_addr_from :: "'i ipv6 \<Rightarrow> string \<Rightarrow> ('i listen_addr, listen_addr_error) res" where
  "listen_addr_from I value =
     (case split_on (CHR ''/'') value of
        [] \<Rightarrow> Fail InvalidListenAddr
      | data # sections \<Rightarrow>
          if data \<noteq> [] then Fail InvalidListenAddr
          else (case sections of
            [] \<Rightarrow> Fail InvalidListenAddr
          | protocol # sections \<Rightarrow>
              if protocol = ''ip4'' then
                (case sections of
                   ip # sections \<Rightarrow>
                     bindR (ok_or InvalidIP4 (parse_ipv4 ip)) (\<lambda>ip.
                     bindR (next_tcp_port sections) (\<lambda>port.
                     Ok (ListenIP4 (Some ip) port)))
                 | [] \<Rightarrow> Ok (ListenIP4 None None))
              else if protocol = ''ip6'' then
                (case sections of
                   ip # sections \<Rightarrow>
                     bindR (ok_or InvalidIP6 (parse_ipv6 I ip)) (\<lambda>ip.
                     bindR (next_tcp_port sections) (\<lambda>port.
                     Ok (ListenIP6 (Some ip) port)))
                 | [] \<Rightarrow> Ok (ListenIP6 None None))
              else if protocol = ''memory'' then
                bindR (next_port sections) (\<lambda>port. Ok (ListenMemory port))
              else Fail InvalidProtocolSpecified))"

section \<open>The settings and their defaults\<close>

record 'i network_settings =
  ns_listen_addr :: "'i listen_addr list"
  ns_known_nodes :: "string list"
  ns_external_address :: "string list"

definition default_network_settings :: "'i network_settings" where
  "default_network_settings =
     \<lparr>ns_listen_addr = [default_listen_addr], ns_known_nodes = [], ns_external_address = []\<rparr>"

text \<open>The replication factor is an \<^verbatim>\<open>f64\<close>, given by its bits: a quarter by default.\<close>

record node_settings =
  st_key_derivator :: key_derivator
  st_secret_key :: string
  st_digest_derivator :: digest_derivator
  st_replication_factor :: u64
  st_timeout :: u32
  st_passvotation :: u8
  st_smartcontracts_directory :: string

definition default_node_settings :: node_settings where
  "default_node_settings =
     \<lparr>st_key_derivator = Ed25519, st_secret_key = [], st_digest_derivator = Blake3_256,
      st_replication_factor = 0x3FD0000000000000, st_timeout = 3000, st_passvotation = 0,
      st_smartcontracts_directory = ''./contracts''\<rparr>"

record 'i settings =
  se_network :: "'i network_settings"
  se_node :: node_settings

section \<open>Printing and reading\<close>

lemma split_on_none: "c \<notin> set s \<Longrightarrow> split_on c s = [s]"
  by (induction s) auto

lemma split_on_sep: "c \<notin> set s \<Longrightarrow> split_on c (s @ c # t) = s # split_on c t"
  by (induction s) auto

lemma split_on_Cons: "split_on c (c # t) = [] # split_on c t"
  by simp

lemma split_on_not_Nil [simp]: "split_on c s \<noteq> []"
  by (cases s) (auto split: list.splits)

lemma decimal_chars: "c \<in> set (decimal n) \<Longrightarrow> 48 \<le> (of_char c :: nat) \<and> of_char c \<le> (57 :: nat)"
proof (induction n rule: decimal.induct)
  case (1 n)
  show ?case
  proof (cases "n < 10")
    case True
    with 1(2) show ?thesis by (auto simp: decimal.simps [of n])
  next
    case False
    have "n mod 10 < 10" by simp
    with False 1 show ?thesis by (auto simp: decimal.simps [of n])
  qed
qed

lemma decimal_sep:
  "CHR ''/'' \<notin> set (decimal n)" "CHR ''.'' \<notin> set (decimal n)" "CHR ''+'' \<notin> set (decimal n)"
  using decimal_chars by force+

lemma decimal_not_Nil [simp]: "decimal n \<noteq> []"
  by (simp add: decimal.simps [of n])

lemma parse_digits_append:
  "parse_digits a (s @ t) = (case parse_digits a s of None \<Rightarrow> None | Some b \<Rightarrow> parse_digits b t)"
  by (induction a s rule: parse_digits.induct) (simp_all add: Let_def)

lemma parse_digits_decimal [simp]: "parse_digits 0 (decimal n) = Some n"
proof (induction n rule: decimal.induct)
  case (1 n)
  show ?case
  proof (cases "n < 10")
    case True
    then show ?thesis by (simp add: decimal.simps [of n])
  next
    case False
    have "n mod 10 < 10" by simp
    with False 1 show ?thesis
      by (simp add: decimal.simps [of n] parse_digits_append)
  qed
qed

lemma parse_u32_decimal [simp]: "parse_u32 (decimal (unat p)) = Some p"
proof -
  have "(case decimal (unat p) of c # cs \<Rightarrow> if c = CHR ''+'' \<and> cs \<noteq> [] then cs else decimal (unat p) | [] \<Rightarrow> []) =
      decimal (unat p)"
    using decimal_sep(3) [of "unat p"] by (auto split: list.splits)
  moreover have "unat p < 2 ^ 32"
    using unsigned_less [of p, where 'a = nat] by simp
  ultimately show ?thesis by (simp add: parse_u32_def)
qed

lemma hd_decimal: "0 < n \<Longrightarrow> hd (decimal n) \<noteq> CHR ''0''"
proof (induction n rule: decimal.induct)
  case (1 n)
  show ?case
  proof (cases "n < 10")
    case True
    have "(of_char (char_of (48 + n) :: char) :: nat) \<noteq> of_char (CHR ''0'')"
      using True 1(2) by simp
    then have "char_of (48 + n) \<noteq> CHR ''0''" by metis
    with True show ?thesis by (simp add: decimal.simps [of n])
  next
    case False
    with 1 show ?thesis by (simp add: decimal.simps [of n])
  qed
qed

lemma length_decimal: "n < 10 ^ Suc k \<Longrightarrow> length (decimal n) \<le> Suc k"
proof (induction k arbitrary: n)
  case 0
  then show ?case by (simp add: decimal.simps [of n])
next
  case (Suc k)
  have "n div 10 < 10 ^ Suc k"
    using Suc.prems by (simp add: less_mult_imp_div_less)
  from Suc.IH [OF this] show ?case by (simp add: decimal.simps [of n])
qed

lemma parse_octet_decimal [simp]: "parse_octet (decimal (unat (a :: u8))) = Some a"
proof -
  have a: "unat a < 256" using unsigned_less [of a, where 'a = nat] by simp
  then have "length (decimal (unat a)) \<le> 3" using length_decimal [of "unat a" 2] by simp
  moreover have "hd (decimal (unat a)) \<noteq> CHR ''0''" if "1 < length (decimal (unat a))"
    using that hd_decimal [of "unat a"] by (cases "unat a = 0") (auto simp: decimal.simps [of 0])
  ultimately show ?thesis using a by (auto simp: parse_octet_def)
qed

lemma parse_print_ipv4 [simp]: "parse_ipv4 (print_ipv4 ip) = Some ip"
proof -
  obtain a b c d where ip: "ip = (a, b, c, d)" by (cases ip)
  show ?thesis
    unfolding ip parse_ipv4_def print_ipv4_def
    by (simp add: split_on_sep split_on_none decimal_sep)
qed

lemma print_ipv4_sep: "CHR ''/'' \<notin> set (print_ipv4 ip)"
  by (cases ip) (simp add: print_ipv4_def decimal_sep)

text \<open>What is needed of \<^verbatim>\<open>Ipv6Addr\<close>: its text is read back, and has no slash.\<close>

definition ipv6_ok :: "'i ipv6 \<Rightarrow> bool" where
  "ipv6_ok I \<longleftrightarrow> (\<forall>a. parse_ipv6 I (print_ipv6 I a) = Some a \<and> CHR ''/'' \<notin> set (print_ipv6 I a))"

text \<open>An address without an IP but with a port prints as if it had no port.\<close>

fun no_stray_port :: "'i listen_addr \<Rightarrow> bool" where
  "no_stray_port (ListenMemory port) = True"
| "no_stray_port (ListenIP4 addr port) = (addr = None \<longrightarrow> port = None)"
| "no_stray_port (ListenIP6 addr port) = (addr = None \<longrightarrow> port = None)"

fun has_address :: "'i listen_addr \<Rightarrow> bool" where
  "has_address (ListenMemory port) = False"
| "has_address (ListenIP4 addr port) = (addr \<noteq> None)"
| "has_address (ListenIP6 addr port) = (addr \<noteq> None)"

lemma split_on_slash:
  "CHR ''/'' \<notin> set s \<Longrightarrow> split_on (CHR ''/'') (CHR ''/'' # s) = [[], s]"
  "CHR ''/'' \<notin> set s \<Longrightarrow> split_on (CHR ''/'') (CHR ''/'' # s @ CHR ''/'' # t) = [] # s # split_on (CHR ''/'') t"
  by (simp_all add: split_on_none split_on_sep)

lemma listen_addr_printed:
  assumes "ipv6_ok I" "no_stray_port a" "listen_addr_to_string I a = Ok s"
  shows "listen_addr_from I s = Ok a"
proof (cases a)
  case (ListenMemory port)
  with assms show ?thesis
    by (cases port) (auto simp: listen_addr_from_def next_port_def split_on_none decimal_sep)
next
  case (ListenIP4 addr port)
  with assms show ?thesis
    by (cases addr; cases port)
      (auto simp: listen_addr_from_def next_tcp_port_def next_port_def split_on_none split_on_sep
        decimal_sep print_ipv4_sep)
next
  case (ListenIP6 addr port)
  with assms show ?thesis
    by (cases addr; cases port)
      (auto simp: listen_addr_from_def next_tcp_port_def next_port_def split_on_none split_on_sep
        decimal_sep ipv6_ok_def)
qed

lemma listen_addr_to_string_Ok:
  "is_Ok (listen_addr_to_string I a) \<longleftrightarrow> \<not> has_address a \<or> get_port a \<noteq> None"
  by (cases a; cases "get_port a") (auto split: option.splits simp: Let_def)

lemma listen_addr_from_no_stray: "listen_addr_from I s = Ok a \<Longrightarrow> no_stray_port a"
  by (auto simp: listen_addr_from_def bindR_eq_Inr split: list.splits if_splits)

end
