(* ===== verification/Network_Processor.thy ===== *)
theory Network_Processor
  imports Message_Layer Tell Settings "HOL-Library.AList"
begin

text \<open>
  The task of the network (\<^verbatim>\<open>network/network.rs\<close>, \<^verbatim>\<open>network/routing.rs\<close>): it sends messages to peers
  whose address it knows, keeps those to other peers until the routing finds them, and hands received
  messages on. libp2p is a parameter: the state \<open>'k\<close> of the swarm with its Kademlia and identify
  behaviours, and what they do to it.
\<close>

section \<open>The swarm and the state of the task\<close>

record ('k, 'p, 'a) libp2p =
  lp_peer_of_key :: "bytes \<Rightarrow> 'p option"
  lp_peer_from_bytes :: "bytes \<Rightarrow> 'p option"
  lp_parse_addr :: "string \<Rightarrow> 'a option"
  lp_add_external_address :: "'a \<Rightarrow> 'k \<Rightarrow> 'k"
  lp_listen_on :: "'a \<Rightarrow> 'k \<Rightarrow> 'k"
  lp_dial :: "'a \<Rightarrow> 'k \<Rightarrow> bool \<times> 'k"
  lp_addresses_of_peer :: "'k \<Rightarrow> 'p \<Rightarrow> 'a list"
  kad_add_address :: "'p \<Rightarrow> 'a \<Rightarrow> 'k \<Rightarrow> 'k"
  kad_start_providing :: "string \<Rightarrow> 'k \<Rightarrow> 'k"
  kad_get_closest_peers :: "'p \<Rightarrow> 'k \<Rightarrow> 'k"
  kad_bootstrap :: "'k \<Rightarrow> 'k"

datatype network_error = ProtocolConflict

datatype listen_protocols = ProtocolMemory | ProtocolIP

fun is_memory :: "'i listen_addr \<Rightarrow> bool" where
  "is_memory (ListenMemory port) = True"
| "is_memory (ListenIP4 addr port) = False"
| "is_memory (ListenIP6 addr port) = False"

definition check_listen_addr_integrity :: "'i listen_addr list \<Rightarrow> (listen_protocols, network_error) res" where
  "check_listen_addr_integrity addrs =
     (let has_memory = list_ex is_memory addrs;
          has_ip = list_ex (\<lambda>a. \<not> is_memory a) addrs
      in bindR (fail_if (has_memory \<and> has_ip) ProtocolConflict) (\<lambda>_.
         if has_ip then Ok ProtocolIP else Ok ProtocolMemory))"

text \<open>\<open>np_events\<close>: the messages received that were handed to the message receiver;
  \<open>np_bootstrap_retries\<close>: how many timers run for bootstrap nodes.\<close>

record ('k, 'p, 'a, 'c, 'i) network_processor =
  np_addr :: "'i listen_addr list"
  np_swarm :: 'k
  np_tell :: "('p, 'a, 'c) tell_behaviour"
  np_events_open :: bool
  np_events :: "bytes list"
  np_pendings :: "'p \<rightharpoonup> bytes list"
  np_active_get_querys :: "'p set"
  np_bootstrap_nodes :: "('p \<times> 'a) list"
  np_pending_bootstrap_nodes :: "('p \<times> 'a) list"
  np_bootstrap_retries :: nat
  np_node_public_key :: bytes
  np_external_addresses :: "'a list"

text \<open>A new task. \<open>routing_new\<close> is the swarm with the addresses of the bootstrap nodes added to
  Kademlia; \<open>open\<close> says whether the receiver of the messages still is there.\<close>

definition routing_new :: "('k, 'p, 'a) libp2p \<Rightarrow> ('p \<times> 'a) list \<Rightarrow> 'k \<Rightarrow> 'k" where
  "routing_new L bootstrap_nodes swarm =
     fold (\<lambda>(peer, addr). kad_add_address L peer addr) bootstrap_nodes swarm"

definition taple_network_behaviour :: "('p, 'a, 'c) tell_behaviour" where
  "taple_network_behaviour = tell_behaviour_new 100000 10 10"

definition network_new ::
  "('k, 'p, 'a) libp2p \<Rightarrow> 'i listen_addr list \<Rightarrow> ('p \<times> 'a) list \<Rightarrow> bool \<Rightarrow> bytes \<Rightarrow> 'a list \<Rightarrow> 'k \<Rightarrow>
     (('k, 'p, 'a, 'c, 'i) network_processor, network_error) res" where
  "network_new L addr bootstrap_nodes opened public_key external_addresses swarm =
     bindR (check_listen_addr_integrity addr) (\<lambda>_.
     Ok \<lparr>np_addr = addr, np_swarm = routing_new L bootstrap_nodes swarm, np_tell = taple_network_behaviour,
         np_events_open = opened, np_events = [], np_pendings = Map.empty, np_active_get_querys = {},
         np_bootstrap_nodes = bootstrap_nodes, np_pending_bootstrap_nodes = [],
         np_bootstrap_retries = 0, np_node_public_key = public_key,
         np_external_addresses = external_addresses\<rparr>)"

section \<open>Its operations\<close>

type_synonym ('k, 'p, 'a, 'c, 'i) pact = "(('k, 'p, 'a, 'c, 'i) network_processor, unit, unit) act"

definition event_send :: "bytes \<Rightarrow> ('k, 'p, 'a, 'c, 'i) pact" where
  "event_send message = (\<lambda>s.
     if np_events_open s then (Ok (), s\<lparr>np_events := np_events s @ [message]\<rparr>)
     else (Abort ''Event receiver not to be dropped.'', s))"

definition dial_or_panic :: "('k, 'p, 'a) libp2p \<Rightarrow> 'a \<Rightarrow> ('k, 'p, 'a, 'c, 'i) pact" where
  "dial_or_panic L addr = (\<lambda>s.
     case lp_dial L addr (np_swarm s) of
       (True, k) \<Rightarrow> (Ok (), s\<lparr>np_swarm := k\<rparr>)
     | (False, k) \<Rightarrow> (Abort ''Conection with bootstrap failed'', s\<lparr>np_swarm := k\<rparr>))"

definition reconnect :: "('k, 'p, 'a) libp2p \<Rightarrow> 'p \<times> 'a \<Rightarrow> ('k, 'p, 'a, 'c, 'i) pact" where
  "reconnect L node =
     (case node of (peer, addr) \<Rightarrow>
        bindA (modA (\<lambda>s. s\<lparr>np_pending_bootstrap_nodes := AList.delete peer (np_pending_bootstrap_nodes s)\<rparr>)) (\<lambda>_.
        dial_or_panic L addr))"

definition connect_to_pending_bootstraps :: "('k, 'p, 'a) libp2p \<Rightarrow> ('k, 'p, 'a, 'c, 'i) pact" where
  "connect_to_pending_bootstraps L = (\<lambda>s. forA (reconnect L) (np_pending_bootstrap_nodes s) s)"

definition send_pendings :: "'p \<Rightarrow> ('k, 'p, 'a, 'c, 'i) network_processor \<Rightarrow> ('k, 'p, 'a, 'c, 'i) network_processor" where
  "send_pendings peer s =
     (case np_pendings s peer of
        Some pending_messages \<Rightarrow>
          s\<lparr>np_pendings := (np_pendings s)(peer := None),
            np_tell := fold (tell_send peer) pending_messages (np_tell s)\<rparr>
      | None \<Rightarrow> s)"

text \<open>The composed behaviour has the addresses of the routing and those of the tell behaviour.\<close>

definition addresses_of_peer :: "('k, 'p, 'a) libp2p \<Rightarrow> 'p \<Rightarrow> ('k, 'p, 'a, 'c, 'i) network_processor \<Rightarrow> 'a list" where
  "addresses_of_peer L peer s =
     lp_addresses_of_peer L (np_swarm s) peer @ tell_addresses_of_peer peer (np_tell s)"

definition store_pending :: "'p \<Rightarrow> bytes \<Rightarrow> ('k, 'p, 'a, 'c, 'i) network_processor \<Rightarrow> ('k, 'p, 'a, 'c, 'i) network_processor" where
  "store_pending peer message s =
     (case np_pendings s peer of
        Some pending_list \<Rightarrow>
          let pending_list = (if length pending_list \<ge> 100 then tl pending_list else pending_list)
          in s\<lparr>np_pendings := (np_pendings s)(peer \<mapsto> pending_list @ [message])\<rparr>
      | None \<Rightarrow> s\<lparr>np_pendings := (np_pendings s)(peer \<mapsto> [message])\<rparr>)"

definition query_peer :: "('k, 'p, 'a) libp2p \<Rightarrow> 'p \<Rightarrow> ('k, 'p, 'a, 'c, 'i) network_processor \<Rightarrow> ('k, 'p, 'a, 'c, 'i) network_processor" where
  "query_peer L peer s =
     (if peer \<in> np_active_get_querys s then s
      else s\<lparr>np_active_get_querys := insert peer (np_active_get_querys s),
             np_swarm := kad_get_closest_peers L peer (np_swarm s)\<rparr>)"

definition network_handle_command :: "('k, 'p, 'a) libp2p \<Rightarrow> network_command \<Rightarrow> ('k, 'p, 'a, 'c, 'i) pact" where
  "network_handle_command L command =
     (case command of
        StartProviding keys \<Rightarrow>
          modA (\<lambda>s. s\<lparr>np_swarm := fold (kad_start_providing L) keys (np_swarm s)\<rparr>)
      | SendMessage receptor message \<Rightarrow> (\<lambda>s.
          if receptor = np_node_public_key s then event_send message s
          else (case lp_peer_of_key L receptor of
            None \<Rightarrow> (Ok (), s)
          | Some peer \<Rightarrow>
              if addresses_of_peer L peer s \<noteq> [] then
                (Ok (), s\<lparr>np_tell := tell_send peer message (np_tell s)\<rparr>)
              else (Ok (), store_pending peer message (query_peer L peer s))))
      | Bootstrap \<Rightarrow> modA (\<lambda>s. s\<lparr>np_swarm := kad_bootstrap L (np_swarm s)\<rparr>))"

text \<open>The events of the swarm. Those that are only logged are one constructor in each type.\<close>

datatype query_result =
    GetClosestPeersOk bytes
  | GetClosestPeersTimeout bytes
  | OtherQueryResult

datatype ('p, 'a) routing_event =
    IdentifyReceived 'p "'a list"
  | QueryCompleted query_result
  | RoutablePeer 'p 'a
  | OtherRoutingEvent

datatype ('p, 'a) swarm_event =
    OutgoingConnectionError "'p option"
  | TellEvent "'p tell_behaviour_event"
  | RoutingEvent "('p, 'a) routing_event"
  | LoggedEvent

definition routing_handle_event :: "('k, 'p, 'a) libp2p \<Rightarrow> ('p, 'a) routing_event \<Rightarrow> 'k \<Rightarrow> 'k" where
  "routing_handle_event L event k =
     (case event of
        IdentifyReceived peer listen_addrs \<Rightarrow> fold (kad_add_address L peer) listen_addrs k
      | _ \<Rightarrow> k)"

definition query_completed :: "('k, 'p, 'a) libp2p \<Rightarrow> query_result \<Rightarrow>
    ('k, 'p, 'a, 'c, 'i) network_processor \<Rightarrow> ('k, 'p, 'a, 'c, 'i) network_processor" where
  "query_completed L result s =
     (let finished = (\<lambda>key.
            case lp_peer_from_bytes L key of
              Some peer \<Rightarrow> s\<lparr>np_active_get_querys := np_active_get_querys s - {peer}\<rparr>
            | None \<Rightarrow> s)
      in case result of
           GetClosestPeersOk key \<Rightarrow> finished key
         | GetClosestPeersTimeout key \<Rightarrow> finished key
         | OtherQueryResult \<Rightarrow> s)"

definition connection_error :: "'p \<Rightarrow> ('k, 'p, 'a, 'c, 'i) network_processor \<Rightarrow> ('k, 'p, 'a, 'c, 'i) network_processor" where
  "connection_error peer s =
     (let s = s\<lparr>np_tell := remove_route peer (np_tell s)\<rparr> in
      case find (\<lambda>(p, _). p = peer) (np_bootstrap_nodes s) of
        Some (p, multiaddr) \<Rightarrow>
          let s = s\<lparr>np_pending_bootstrap_nodes := AList.update p multiaddr (np_pending_bootstrap_nodes s)\<rparr>
          in if np_bootstrap_retries s = 0 then s\<lparr>np_bootstrap_retries := 1\<rparr> else s
      | None \<Rightarrow> s)"

definition routable_peer :: "'p \<Rightarrow> 'a \<Rightarrow> ('k, 'p, 'a, 'c, 'i) network_processor \<Rightarrow> ('k, 'p, 'a, 'c, 'i) network_processor" where
  "routable_peer peer address s =
     (if peer \<in> np_active_get_querys s then
        let s = s\<lparr>np_tell := set_route peer address (np_tell s)\<rparr>;
            s = s\<lparr>np_active_get_querys := np_active_get_querys s - {peer}\<rparr>
        in send_pendings peer s
      else s)"

definition network_handle_event :: "('k, 'p, 'a) libp2p \<Rightarrow> ('p, 'a) swarm_event \<Rightarrow> ('k, 'p, 'a, 'c, 'i) pact" where
  "network_handle_event L event =
     (case event of
        OutgoingConnectionError None \<Rightarrow> retA ()
      | OutgoingConnectionError (Some peer) \<Rightarrow> modA (connection_error peer)
      | TellEvent (RequestReceived data peer) \<Rightarrow> event_send data
      | TellEvent _ \<Rightarrow> retA ()
      | RoutingEvent (QueryCompleted result) \<Rightarrow> modA (query_completed L result)
      | RoutingEvent (RoutablePeer peer address) \<Rightarrow> modA (routable_peer peer address)
      | RoutingEvent ev \<Rightarrow> modA (\<lambda>s. s\<lparr>np_swarm := routing_handle_event L ev (np_swarm s)\<rparr>)
      | LoggedEvent \<Rightarrow> retA ())"

section \<open>The task\<close>

text \<open>What the loop selects on, in the order it comes. A timer fires only when one runs.\<close>

datatype ('p, 'a) network_input =
    InSwarm "('p, 'a) swarm_event"
  | InCommand network_command
  | InCommandsClosed
  | InRetry
  | InCancelled

text \<open>\<open>None\<close>: the task waits for more. \<open>Some c\<close>: it has ended, and has cancelled the token if \<open>c\<close>.\<close>

fun network_loop ::
  "('k, 'p, 'a) libp2p \<Rightarrow> ('p, 'a) network_input list \<Rightarrow>
     (('k, 'p, 'a, 'c, 'i) network_processor, bool option, unit) act" where
  "network_loop L [] = retA None"
| "network_loop L (InSwarm event # is) = bindA (network_handle_event L event) (\<lambda>_. network_loop L is)"
| "network_loop L (InCommand c # is) = bindA (network_handle_command L c) (\<lambda>_. network_loop L is)"
| "network_loop L (InCommandsClosed # is) = retA (Some False)"
| "network_loop L (InRetry # is) = (\<lambda>s.
     if np_bootstrap_retries s = 0 then network_loop L is s
     else bindA (modA (\<lambda>s. s\<lparr>np_bootstrap_retries := np_bootstrap_retries s - 1\<rparr>)) (\<lambda>_.
          bindA (connect_to_pending_bootstraps L) (\<lambda>_. network_loop L is)) s)"
| "network_loop L (InCancelled # is) = retA (Some True)"

definition network_listen :: "('k, 'p, 'a) libp2p \<Rightarrow> 'i ipv6 \<Rightarrow> 'i listen_addr \<Rightarrow> ('k, 'p, 'a, 'c, 'i) pact" where
  "network_listen L I addr =
     (case get_port addr of
        None \<Rightarrow> retA ()
      | Some _ \<Rightarrow>
          (case listen_addr_to_string I addr of
             Inl _ \<Rightarrow> liftA (Abort ''unwrap'')
           | Inr text \<Rightarrow>
               (case lp_parse_addr L text of
                  None \<Rightarrow> liftA (Abort ''String para multiaddress'')
                | Some multiadd \<Rightarrow> modA (\<lambda>s. s\<lparr>np_swarm := lp_listen_on L multiadd (np_swarm s)\<rparr>))))"

definition network_run ::
  "('k, 'p, 'a) libp2p \<Rightarrow> 'i ipv6 \<Rightarrow> ('p, 'a) network_input list \<Rightarrow>
     (('k, 'p, 'a, 'c, 'i) network_processor, bool option, unit) act" where
  "network_run L I inputs = (\<lambda>s.
     bindA (modA (\<lambda>s. s\<lparr>np_swarm := fold (lp_add_external_address L) (np_external_addresses s) (np_swarm s)\<rparr>)) (\<lambda>_.
     bindA (forA (network_listen L I) (np_addr s)) (\<lambda>_.
     bindA (forA (\<lambda>(_, addr). dial_or_panic L addr) (np_bootstrap_nodes s)) (\<lambda>_.
     network_loop L inputs))) s)"

end
