(* ===== verification/Network_Laws.thy ===== *)
theory Network_Laws
  imports Network_Processor "HOL-Library.Multiset"
begin

text \<open>
  What the task of the network does to messages: over every run, with libp2p calling the tell behaviour
  at any time, each message asked for is handed to a connection at most once, and is lost only when more
  than a hundred are kept for one peer; and the bootstrap nodes that could not be reached are dialled
  again.
\<close>

section \<open>The messages kept for a peer\<close>

definition kept :: "('k, 'p, 'a, 'c, 'i) network_processor \<Rightarrow> 'p \<Rightarrow> bytes list" where
  "kept s p = (case np_pendings s p of None \<Rightarrow> [] | Some ms \<Rightarrow> ms)"

lemma kept_tell [simp]: "kept (s\<lparr>np_tell := b\<rparr>) = kept s"
  by (simp add: kept_def fun_eq_iff)

abbreviation held :: "('k, 'p, 'a, 'c, 'i) network_processor \<Rightarrow> 'p \<Rightarrow> bytes list" where
  "held s p \<equiv> tell_queue (np_tell s) p"

text \<open>\<open>moves s t\<close>: \<open>t\<close> has the messages of \<open>s\<close>, some of them moved on to the tell behaviour.\<close>

definition moves :: "('k, 'p, 'a, 'c, 'i) network_processor \<Rightarrow> ('k, 'p, 'a, 'c, 'i) network_processor \<Rightarrow> bool" where
  "moves s t \<longleftrightarrow> (tell_inv (np_tell s) \<longrightarrow> tell_inv (np_tell t)) \<and>
     (tell_inv (np_tell s) \<longrightarrow>
       (\<forall>p. held t p @ kept t p = held s p @ kept s p \<and> length (kept t p) \<le> length (kept s p)))"

lemma moves_refl [simp]: "moves s s"
  by (simp add: moves_def)

lemma movesD:
  assumes "moves s t" "tell_inv (np_tell s)"
  shows "tell_inv (np_tell t)" "held t p @ kept t p = held s p @ kept s p"
    "length (kept t p) \<le> length (kept s p)"
  using assms by (simp_all add: moves_def)

lemma moves_same [intro]: "np_tell t = np_tell s \<Longrightarrow> np_pendings t = np_pendings s \<Longrightarrow> moves s t"
  by (simp add: moves_def kept_def)

lemma moves_tell:
  assumes "tell_inv (np_tell s) \<Longrightarrow> tell_inv b \<and> tell_queue b = tell_queue (np_tell s)"
  shows "moves s (s\<lparr>np_tell := b\<rparr>)"
  using assms by (auto simp: moves_def kept_def)

lemma moves_trans:
  assumes "moves s t" "moves t u"
  shows "moves s u"
proof (cases "tell_inv (np_tell s)")
  case True
  note st = movesD [OF assms(1) True]
  note tu = movesD [OF assms(2) st(1)]
  have "length (kept u p) \<le> length (kept s p)" for p
    using st(3) [of p] tu(3) [of p] by (rule order_trans [rotated])
  with tu(1) st(2) tu(2) show ?thesis by (simp only: moves_def) simp
qed (simp add: moves_def)

lemma moves_send_pendings: "moves s (send_pendings p s)"
proof (cases "np_pendings s p")
  case (Some ms)
  then have "kept (send_pendings p s) q = (if q = p then [] else kept s q)" for q
    by (simp add: send_pendings_def kept_def)
  moreover have "kept s p = ms" using Some by (simp add: kept_def)
  moreover have "np_tell (send_pendings p s) = fold (tell_send p) ms (np_tell s)"
    using Some by (simp add: send_pendings_def)
  ultimately show ?thesis
    using tell.send_all [of "np_tell s" p ms] by (auto simp: moves_def)
qed (simp add: send_pendings_def)

lemma moves_routable_peer: "moves s (routable_peer p a s)"
proof (cases "p \<in> np_active_get_querys s")
  case True
  let ?t = "s\<lparr>np_tell := set_route p a (np_tell s)\<rparr>"
  have "moves s ?t" by (intro moves_tell) simp
  moreover have "moves ?t (?t\<lparr>np_active_get_querys := np_active_get_querys s - {p}\<rparr>)"
    by (intro moves_same) simp_all
  ultimately have "moves s (?t\<lparr>np_active_get_querys := np_active_get_querys s - {p}\<rparr>)"
    by (rule moves_trans)
  then have "moves s (send_pendings p (?t\<lparr>np_active_get_querys := np_active_get_querys s - {p}\<rparr>))"
    by (rule moves_trans) (rule moves_send_pendings)
  moreover have "routable_peer p a s =
      send_pendings p (?t\<lparr>np_active_get_querys := np_active_get_querys s - {p}\<rparr>)"
    using True by (simp add: routable_peer_def)
  ultimately show ?thesis by simp
qed (simp add: routable_peer_def)

lemma moves_connection_error: "moves s (connection_error p s)"
proof -
  let ?t = "s\<lparr>np_tell := remove_route p (np_tell s)\<rparr>"
  have "moves s ?t" by (intro moves_tell) simp
  moreover have "moves ?t (connection_error p s)"
    by (intro moves_same) (simp_all add: connection_error_def Let_def split: option.splits)
  ultimately show ?thesis by (rule moves_trans)
qed

lemma moves_event_send: "moves s (snd (event_send m s))"
  by (intro moves_same) (simp_all add: event_send_def)

lemma moves_query_completed: "moves s (query_completed L r s)"
  by (intro moves_same) (simp_all add: query_completed_def Let_def split: query_result.splits option.splits)

lemma moves_event: "moves s (snd (network_handle_event L e s))"
proof (cases e)
  case (OutgoingConnectionError p)
  then show ?thesis by (cases p) (simp_all add: network_handle_event_def moves_connection_error)
next
  case (TellEvent e')
  then show ?thesis by (cases e') (simp_all add: network_handle_event_def moves_event_send)
next
  case (RoutingEvent e')
  then show ?thesis
    by (cases e') (auto simp: network_handle_event_def moves_query_completed moves_routable_peer)
qed (simp add: network_handle_event_def)

lemma moves_reconnect: "moves s (snd (reconnect L node s))"
  by (intro moves_same)
    (simp_all add: reconnect_def bindA_run dial_or_panic_def split: prod.splits bool.splits)

lemma moves_reconnects: "moves s (snd (forA (reconnect L) nodes s))"
proof (induction nodes arbitrary: s)
  case (Cons node nodes)
  obtain r t where rt: "reconnect L node s = (r, t)" by (cases "reconnect L node s")
  with moves_reconnect [of s L node] have "moves s t" by simp
  with moves_trans [OF this Cons.IH [of t]] rt show ?case
    by (simp add: bindA_run split: sum.splits)
qed simp

lemma moves_connect: "moves s (snd (connect_to_pending_bootstraps L s))"
  by (simp add: connect_to_pending_bootstraps_def moves_reconnects)

section \<open>Requests\<close>

text \<open>The messages a command asks to send to a peer.\<close>

definition addressed ::
  "('k, 'p, 'a) libp2p \<Rightarrow> bytes \<Rightarrow> network_command \<Rightarrow> 'p \<Rightarrow> bytes list" where
  "addressed L own c p =
     (case c of
        SendMessage receptor m \<Rightarrow>
          if receptor \<noteq> own \<and> lp_peer_of_key L receptor = Some p then [m] else []
      | _ \<Rightarrow> [])"

text \<open>What a command does with them: it passes them on, or keeps them, and forgets the oldest of a
  hundred.\<close>

definition takes ::
  "bytes list \<Rightarrow> bytes list \<Rightarrow> bytes list \<Rightarrow> bytes list \<Rightarrow> bytes list \<Rightarrow> bool" where
  "takes ms held_s kept_s held_t kept_t \<longleftrightarrow>
     (ms = [] \<and> held_t = held_s \<and> kept_t = kept_s) \<or>
     (held_t = held_s @ ms \<and> kept_t = kept_s) \<or>
     (held_t = held_s \<and> (\<exists>m. ms = [m] \<and> kept_t = (if length kept_s \<ge> 100 then tl kept_s else kept_s) @ [m]))"

lemma command_takes:
  assumes "tell_inv (np_tell s)"
  shows "tell_inv (np_tell (snd (network_handle_command L c s))) \<and>
    takes (addressed L (np_node_public_key s) c p) (held s p) (kept s p)
      (held (snd (network_handle_command L c s)) p) (kept (snd (network_handle_command L c s)) p)"
proof (cases c)
  case (SendMessage receptor m)
  show ?thesis
  proof (cases "receptor = np_node_public_key s")
    case True
    with SendMessage assms show ?thesis
      by (simp add: network_handle_command_def event_send_def addressed_def takes_def kept_def)
  next
    case other: False
    show ?thesis
    proof (cases "lp_peer_of_key L receptor")
      case None
      with SendMessage other assms show ?thesis
        by (simp add: network_handle_command_def addressed_def takes_def)
    next
      case (Some peer)
      show ?thesis
      proof (cases "addresses_of_peer L peer s = []")
        case False
        with SendMessage other Some assms show ?thesis
          by (simp add: network_handle_command_def addressed_def takes_def tell.queue_send tell.ok_send kept_def)
      next
        case True
        with SendMessage other Some assms show ?thesis
          by (auto simp: network_handle_command_def addressed_def takes_def store_pending_def kept_def
              query_peer_def Let_def split: option.splits)
      qed
    qed
  qed
qed (simp_all add: network_handle_command_def assms addressed_def takes_def kept_def)

section \<open>Runs\<close>

text \<open>A run of the task, with the messages asked for and those handed to connections. The swarm changes
  on its own, and calls the tell behaviour.\<close>

record ('k, 'p, 'a, 'c, 'i) net_run =
  nr_task :: "('k, 'p, 'a, 'c, 'i) network_processor"
  nr_requested :: "'p \<Rightarrow> bytes list"
  nr_handed :: "'p \<Rightarrow> bytes list"

inductive net_step ::
  "('k, 'p, 'a) libp2p \<Rightarrow> ('k, 'p, 'a, 'c, 'i) net_run \<Rightarrow> ('k, 'p, 'a, 'c, 'i) net_run \<Rightarrow> bool" for L where
  Command: "network_handle_command L c (nr_task s) = (Ok (), t) \<Longrightarrow>
    net_step L s (s\<lparr>nr_task := t, nr_requested :=
      (\<lambda>p. nr_requested s p @ addressed L (np_node_public_key (nr_task s)) c p)\<rparr>)"
| Event: "network_handle_event L e (nr_task s) = (Ok (), t) \<Longrightarrow> net_step L s (s\<lparr>nr_task := t\<rparr>)"
| Retry: "np_bootstrap_retries (nr_task s) = Suc n \<Longrightarrow>
    connect_to_pending_bootstraps L ((nr_task s)\<lparr>np_bootstrap_retries := n\<rparr>) = (Ok (), t) \<Longrightarrow>
    net_step L s (s\<lparr>nr_task := t\<rparr>)"
| Swarm: "net_step L s (s\<lparr>nr_task := (nr_task s)\<lparr>np_swarm := k\<rparr>\<rparr>)"
| Inject: "net_step L s (s\<lparr>nr_task := (nr_task s)\<lparr>np_tell := tell_inject_event p e (np_tell (nr_task s))\<rparr>\<rparr>)"
| Established: "net_step L s (s\<lparr>nr_task := (nr_task s)\<lparr>np_tell := connection_established p c (np_tell (nr_task s))\<rparr>\<rparr>)"
| Closed: "net_step L s (s\<lparr>nr_task := (nr_task s)\<lparr>np_tell := connection_closed p c (np_tell (nr_task s))\<rparr>\<rparr>)"
| Hand: "tell_poll (np_tell (nr_task s)) = (Some (NotifyHandler p c proto), b) \<Longrightarrow>
    net_step L s (s\<lparr>nr_task := (nr_task s)\<lparr>np_tell := b\<rparr>,
      nr_handed := (nr_handed s)(p := nr_handed s p @ [tp_message proto])\<rparr>)"
| Poll: "tell_poll (np_tell (nr_task s)) = (r, b) \<Longrightarrow> \<forall>p c proto. r \<noteq> Some (NotifyHandler p c proto) \<Longrightarrow>
    net_step L s (s\<lparr>nr_task := (nr_task s)\<lparr>np_tell := b\<rparr>\<rparr>)"

text \<open>\<open>accounted R h k\<close>: of the requests \<open>R\<close> those in \<open>h\<close> have left and those in \<open>k\<close> are kept.\<close>

definition accounted :: "bytes list \<Rightarrow> bytes list \<Rightarrow> bytes list \<Rightarrow> bool" where
  "accounted R h k \<longleftrightarrow> mset (h @ k) \<subseteq># mset R \<and> (length R \<le> 100 \<longrightarrow> mset (h @ k) = mset R) \<and> length k \<le> 100"

definition net_inv :: "('k, 'p, 'a, 'c, 'i) net_run \<Rightarrow> bool" where
  "net_inv s \<longleftrightarrow> tell_inv (np_tell (nr_task s)) \<and>
     (\<forall>p. accounted (nr_requested s p) (nr_handed s p @ held (nr_task s) p) (kept (nr_task s) p))"

lemma accounted_less:
  assumes "accounted R h k" "h' @ k' = h @ k" "length k' \<le> length k"
  shows "accounted R h' k'"
  using assms unfolding accounted_def by (metis le_trans)

lemma mset_tl_subseteq: "mset (h @ tl xs) \<subseteq># mset (h @ xs)"
  by (cases xs) simp_all

lemma accounted_takes:
  assumes "accounted R (d @ h) k" "takes ms h k h' k'"
  shows "accounted (R @ ms) (d @ h') k'"
proof -
  consider "ms = []" "h' = h" "k' = k" | "h' = h @ ms" "k' = k"
    | m where "h' = h" "ms = [m]" "k' = (if length k \<ge> 100 then tl k else k) @ [m]"
    using assms(2) unfolding takes_def by blast
  then show ?thesis
  proof cases
    case (3 m)
    show ?thesis
    proof (cases "length k \<ge> 100")
      case True
      then have "length R \<ge> 100"
        using assms(1) size_mset_mono [of "mset (d @ h @ k)" "mset R"] by (simp add: accounted_def)
      moreover have "mset (d @ h @ tl k) \<subseteq># mset R"
        using mset_tl_subseteq [of "d @ h" k] assms(1) subset_mset.order_trans [of "mset (d @ h @ tl k)" "mset (d @ h @ k)" "mset R"]
        by (simp add: accounted_def)
      ultimately show ?thesis
        using 3 True assms(1) by (simp add: accounted_def)
    qed (use 3 assms(1) in \<open>auto simp: accounted_def\<close>)
  qed (use assms(1) in \<open>auto simp: accounted_def ac_simps\<close>)
qed

lemma net_inv_moves:
  assumes "net_inv s" "moves (nr_task s) t"
  shows "net_inv (s\<lparr>nr_task := t\<rparr>)"
proof -
  have inv: "tell_inv (np_tell (nr_task s))" using assms(1) by (simp add: net_inv_def)
  have "accounted (nr_requested s p) (nr_handed s p @ held t p) (kept t p)" for p
  proof (rule accounted_less)
    show "accounted (nr_requested s p) (nr_handed s p @ held (nr_task s) p) (kept (nr_task s) p)"
      using assms(1) by (simp add: net_inv_def)
  qed (use movesD(2,3) [OF assms(2) inv, of p] in simp_all)
  then show ?thesis using movesD(1) [OF assms(2) inv] by (simp add: net_inv_def)
qed

text \<open>What the swarm does to the tell behaviour moves nothing either, except that it hands over the first
  message.\<close>

lemma poll_same:
  "tell_poll b = (r, b') \<Longrightarrow> \<forall>p c proto. r \<noteq> Some (NotifyHandler p c proto) \<Longrightarrow> tell_queue b' = tell_queue b"
  by (auto simp: tell_poll_def tell_queue_def waiting_def fun_eq_iff
      split: list.splits behaviour_action.splits) (metis behaviour_action.exhaust notified.simps(3,4))

lemma net_step_inv: "net_step L s t \<Longrightarrow> net_inv s \<Longrightarrow> net_inv t"
proof (induction rule: net_step.induct)
  case (Command c s t)
  have "accounted (nr_requested s p @ addressed L (np_node_public_key (nr_task s)) c p)
      (nr_handed s p @ held t p) (kept t p)" for p
    using command_takes [of "nr_task s" L c p] Command
    by (intro accounted_takes) (auto simp: net_inv_def)
  moreover have "tell_inv (np_tell t)"
    using command_takes [of "nr_task s" L c] Command by (auto simp: net_inv_def)
  ultimately show ?case by (simp add: net_inv_def)
next
  case (Event e s t)
  from moves_event [of "nr_task s" L e] Event(1) have "moves (nr_task s) t" by simp
  with Event(2) show ?case by (rule net_inv_moves)
next
  case (Retry s n t)
  have "moves (nr_task s) ((nr_task s)\<lparr>np_bootstrap_retries := n\<rparr>)" by (intro moves_same) simp_all
  moreover have "moves ((nr_task s)\<lparr>np_bootstrap_retries := n\<rparr>) t"
    using moves_connect [of "(nr_task s)\<lparr>np_bootstrap_retries := n\<rparr>" L] Retry(2) by simp
  ultimately have "moves (nr_task s) t" by (rule moves_trans)
  with Retry(3) show ?case by (rule net_inv_moves)
next
  case (Swarm s k)
  then show ?case by (intro net_inv_moves) auto
next
  case (Inject s p e)
  then show ?case by (intro net_inv_moves moves_tell) simp_all
next
  case (Established s p c)
  then show ?case by (intro net_inv_moves moves_tell) (simp_all add: established_queue)
next
  case (Closed s p c)
  then show ?case by (intro net_inv_moves moves_tell) simp_all
next
  case (Hand s p c proto b)
  have q: "held (nr_task s) q = (if q = p then tp_message proto # tell_queue b q else tell_queue b q)" for q
    using poll_queue [OF Hand(1), of q] by simp
  have a: "accounted (nr_requested s x) (nr_handed s x @ held (nr_task s) x) (kept (nr_task s) x)" for x
    using Hand(2) by (simp add: net_inv_def)
  have "accounted (nr_requested s x)
      (((nr_handed s)(p := nr_handed s p @ [tp_message proto])) x @ tell_queue b x) (kept (nr_task s) x)" for x
    using a [of x] q [of x] by (cases "x = p") simp_all
  then show ?case
    using Hand(2) poll_inv [OF Hand(1)] by (simp add: net_inv_def)
next
  case (Poll s r b)
  then show ?case
    using poll_inv [OF Poll(1)] poll_same [OF Poll(1,2)] by (intro net_inv_moves moves_tell) simp_all
qed

lemma net_start_inv:
  assumes "network_new L addr boots opened key ext k = Ok st"
  shows "net_inv \<lparr>nr_task = st, nr_requested = \<lambda>_. [], nr_handed = \<lambda>_. []\<rparr>"
  using assms
  by (auto simp: network_new_def bindR_eq_Inr net_inv_def accounted_def kept_def taple_network_behaviour_def
      tell_behaviour_new_def tell_inv_def tell_queue_def waiting_def)

lemma net_run_inv: "(net_step L)\<^sup>*\<^sup>* s t \<Longrightarrow> net_inv s \<Longrightarrow> net_inv t"
  by (induction rule: rtranclp_induct) (auto intro: net_step_inv)

section \<open>Bootstrap nodes\<close>

text \<open>While a bootstrap node waits to be dialled again a timer runs, and never more than one.\<close>

definition boot_inv :: "('k, 'p, 'a, 'c, 'i) network_processor \<Rightarrow> bool" where
  "boot_inv s \<longleftrightarrow> distinct (map fst (np_pending_bootstrap_nodes s)) \<and> np_bootstrap_retries s \<le> 1 \<and>
     (np_pending_bootstrap_nodes s \<noteq> [] \<longrightarrow> np_bootstrap_retries s = 1)"

lemma reconnect_pending:
  assumes "reconnect L node s = (r, t)"
  shows "np_pending_bootstrap_nodes t = AList.delete (fst node) (np_pending_bootstrap_nodes s) \<and>
    np_bootstrap_retries t = np_bootstrap_retries s"
  using assms by (auto simp: reconnect_def bindA_run dial_or_panic_def split: prod.splits bool.splits)

lemma reconnects_pending:
  assumes "forA (reconnect L) nodes s = (Ok (), t)"
  shows "np_pending_bootstrap_nodes t = fold AList.delete (map fst nodes) (np_pending_bootstrap_nodes s) \<and>
    np_bootstrap_retries t = np_bootstrap_retries s"
  using assms
proof (induction nodes arbitrary: s)
  case (Cons node nodes)
  from Cons.prems obtain u where u: "reconnect L node s = (Ok (), u)" "forA (reconnect L) nodes u = (Ok (), t)"
    by (auto simp: bindA_eq_Inr)
  from Cons.IH [OF u(2)] reconnect_pending [OF u(1)] show ?case by simp
qed simp

lemma fold_delete_Nil: "fst ` set xs \<subseteq> set ks \<Longrightarrow> fold AList.delete ks xs = []"
proof (induction ks arbitrary: xs)
  case (Cons k ks)
  then have "fst ` set (AList.delete k xs) \<subseteq> set ks" by (auto simp: AList.delete_eq)
  from Cons.IH [OF this] show ?case by simp
qed auto

lemma connect_to_pending_Ok:
  assumes "connect_to_pending_bootstraps L s = (Ok (), t)"
  shows "np_pending_bootstrap_nodes t = [] \<and> np_bootstrap_retries t = np_bootstrap_retries s"
  using reconnects_pending [OF assms [unfolded connect_to_pending_bootstraps_def]]
  by (simp add: fold_delete_Nil)

lemma boot_same:
  assumes "boot_inv s" "np_pending_bootstrap_nodes t = np_pending_bootstrap_nodes s"
    "np_bootstrap_retries t = np_bootstrap_retries s"
  shows "boot_inv t"
  using assms by (simp add: boot_inv_def)

lemma update_not_Nil [simp]: "AList.update k v xs \<noteq> []"
  by (cases xs) (auto split: prod.splits)

lemma boot_connection_error: "boot_inv s \<Longrightarrow> boot_inv (connection_error p s)"
  by (auto simp: connection_error_def boot_inv_def Let_def distinct_update split: option.splits)

lemma boot_routable:
  "np_pending_bootstrap_nodes (routable_peer p a s) = np_pending_bootstrap_nodes s \<and>
   np_bootstrap_retries (routable_peer p a s) = np_bootstrap_retries s"
  by (simp add: routable_peer_def send_pendings_def Let_def split: option.splits)

lemma boot_event: "boot_inv s \<Longrightarrow> boot_inv (snd (network_handle_event L e s))"
proof (cases e)
  case (OutgoingConnectionError p)
  then show "boot_inv s \<Longrightarrow> ?thesis"
    by (cases p) (simp_all add: network_handle_event_def boot_connection_error)
next
  case (TellEvent e')
  then show "boot_inv s \<Longrightarrow> ?thesis"
    by (cases e') (simp_all add: network_handle_event_def event_send_def boot_inv_def)
next
  case (RoutingEvent e')
  then show "boot_inv s \<Longrightarrow> ?thesis"
  proof (cases e')
    case (QueryCompleted r)
    with RoutingEvent show "boot_inv s \<Longrightarrow> ?thesis"
      by (auto simp: network_handle_event_def query_completed_def Let_def boot_inv_def
          split: query_result.splits option.splits)
  next
    case (RoutablePeer p a)
    with RoutingEvent boot_routable [of p a s] show "boot_inv s \<Longrightarrow> ?thesis"
      by (auto simp: network_handle_event_def intro: boot_same)
  qed (simp_all add: network_handle_event_def boot_inv_def)
qed (simp add: network_handle_event_def)

lemma boot_command: "boot_inv s \<Longrightarrow> boot_inv (snd (network_handle_command L c s))"
  by (auto simp: network_handle_command_def event_send_def store_pending_def query_peer_def boot_inv_def Let_def
      split: network_command.splits option.splits)

lemma boot_step: "net_step L s t \<Longrightarrow> boot_inv (nr_task s) \<Longrightarrow> boot_inv (nr_task t)"
proof (induction rule: net_step.induct)
  case (Command c s t)
  then show ?case using boot_command [of "nr_task s" L c] by simp
next
  case (Event e s t)
  then show ?case using boot_event [of "nr_task s" L e] by simp
next
  case (Retry s n t)
  from connect_to_pending_Ok [OF Retry(2)] Retry(1,3) show ?case by (simp add: boot_inv_def)
qed (simp_all add: boot_inv_def)

lemma boot_run: "(net_step L)\<^sup>*\<^sup>* s t \<Longrightarrow> boot_inv (nr_task s) \<Longrightarrow> boot_inv (nr_task t)"
  by (induction rule: rtranclp_induct) (auto intro: boot_step)

lemma network_new_boot: "network_new L addr boots opened key ext k = Ok st \<Longrightarrow> boot_inv st"
  by (auto simp: network_new_def bindR_eq_Inr boot_inv_def)

section \<open>Messages that stay\<close>

text \<open>A peer that turns up when no query for it runs is not sent what is kept for it; a message asked for
  once its address is known goes ahead.\<close>

lemma routable_late: "p \<notin> np_active_get_querys s \<Longrightarrow> routable_peer p a s = s"
  by (simp add: routable_peer_def)

lemma kept_overtaken:
  assumes "tell_inv (np_tell s)" "receptor \<noteq> np_node_public_key s" "lp_peer_of_key L receptor = Some p"
    "addresses_of_peer L p s \<noteq> []"
    "network_handle_command L (SendMessage receptor m) s = (r, t)"
  shows "held t p = held s p @ [m] \<and> kept t p = kept s p"
  using assms by (auto simp: network_handle_command_def tell.queue_send)

end
