(* ===== verification/Api.thy ===== *)
theory Api
  imports Completer_Responses Approval Authorized Ledger_Manager
begin

text \<open>
  The interface of the node to its user (\<^verbatim>\<open>api\<close>): the calls of \<^verbatim>\<open>Api\<close>, the commands they send to the
  API's task, what the task asks of the other modules and the database, and its answers.
\<close>

section \<open>Commands, answers and errors\<close>

text \<open>\<^verbatim>\<open>APIInternalError\<close>; the texts of its database errors are read by nobody and left out.\<close>

datatype api_internal_error =
    ApiChannelError
  | ApiOneshotUnavailable
  | ApiSignError
  | UnexpectedManagerResponse
  | InternalDatabaseError

datatype api_error =
    EventCreationError event_error
  | NotFound string
  | UnexpectedError
  | ApprovalInternalError approval_error_response
  | InvalidParameters string
  | SignError
  | VoteNotNeeded string
  | NotEnoughPermissions string
  | DatabaseError string
  | Conflict string

record get_subjects_params =
  gs_namespace :: string
  gs_from :: "string option"
  gs_quantity :: "int option"

record get_events_params =
  ge_subject_id :: digest_identifier
  ge_from :: "int option"
  ge_quantity :: "int option"

record get_governance_subjects_params =
  gg_governance_id :: digest_identifier
  gg_from :: "string option"
  gg_quantity :: "int option"

record get_allowed_subjects_params =
  ga_from :: "string option"
  ga_quantity :: "int option"

record get_approvals_params =
  gp_state :: "approval_state option"
  gp_from :: "string option"
  gp_quantity :: "int option"

datatype api_command =
    CmdGetSubjects get_subjects_params
  | CmdGetSubjectByGovernance get_subjects_params digest_identifier
  | CmdGetGovernances get_subjects_params
  | CmdGetSubject digest_identifier
  | CmdGetEvent digest_identifier u64
  | CmdGetEvents get_events_params
  | CmdVoteResolve bool digest_identifier
  | CmdExternalRequest "event_request signed"
  | CmdGetPendingRequests
  | CmdGetSingleRequest digest_identifier
  | CmdSetPreauthorizedSubject digest_identifier "key_identifier list"
  | CmdGetAllPreauthorizedSubjects get_allowed_subjects_params
  | CmdAddKeys key_derivator
  | CmdGetValidationProof digest_identifier
  | CmdGetRequest digest_identifier
  | CmdGetGovernanceSubjects get_governance_subjects_params
  | CmdGetApproval digest_identifier
  | CmdGetApprovals get_approvals_params

datatype api_response =
    AnsGetSubjects "api_error + subject_data list"
  | AnsGetSubjectByGovernance "api_error + subject_data list"
  | AnsGetGovernances "api_error + subject_data list"
  | AnsGetSubject "api_error + subject_data"
  | AnsGetEvents "api_error + event signed list"
  | AnsHandleExternalRequest "api_error + digest_identifier"
  | AnsVoteResolve "api_error + approval_entity"
  | AnsGetPendingRequests "api_error + approval_entity list"
  | AnsGetSingleRequest "api_error + approval_entity"
  | AnsGetEvent "api_error + event signed"
  | AnsAddKeys "api_error + key_identifier"
  | AnsGetValidationProof "api_error + signature list \<times> validation_proof"
  | AnsGetRequest "api_error + taple_request"
  | AnsGetGovernanceSubjects "api_error + subject_data list"
  | AnsGetApproval "api_error + approval_entity"
  | AnsGetApprovals "api_error + approval_entity list"
  | AnsSetPreauthorizedSubjectCompleted
  | AnsGetAllPreauthorizedSubjects "api_error + (digest_identifier \<times> key_identifier list) list"

text \<open>\<^verbatim>\<open>Display\<close> of the database errors.\<close>

fun db_error_text :: "db_error \<Rightarrow> string" where
  "db_error_text EntryNotFound = ''Entry Not Found''"
| "db_error_text SerializeError = ''Error while serializing''"
| "db_error_text DeserializeError = ''Error while deserializing''"
| "db_error_text SubjectApplyFailed = ''Subject Apply failed''"
| "db_error_text NoDigestIdentifier = ''Conversion to Digest Identifier failed''"
| "db_error_text KeyElementsError = ''Key Elements must have more than one element''"
| "db_error_text (CustomError m) = ''An error withing the database custom implementation '' @ m"
| "db_error_text NonExistentStatus = ''State non existent, possibilities are: Pending or Voted.''"

section \<open>The other modules\<close>

text \<open>
  The rest of the node is a state \<open>'s\<close>. The API reads its database and asks the event completer, the
  approver, the ledger and the module of authorised subjects over their channels; \<open>None\<close> is a channel
  that is closed, or closes before the answer. \<open>am_fuel\<close> bounds the passes over pending approvals.
\<close>

record ('s, 'b) api_modules =
  am_db :: "'s \<Rightarrow> 'b data_store"
  am_put_db :: "'b data_store \<Rightarrow> 's \<Rightarrow> 's"
  am_fuel :: nat
  am_event :: "event_command \<Rightarrow> 's \<Rightarrow> event_response option \<times> 's"
  am_approval :: "approval_messages \<Rightarrow> 's \<Rightarrow> approval_responses option \<times> 's"
  am_ledger :: "ledger_command \<Rightarrow> 's \<Rightarrow> ledger_response option \<times> 's"
  am_authorized :: "authorized_command \<Rightarrow> 's \<Rightarrow> bool \<times> 's"

type_synonym ('s, 'a) api_act = "('s, 'a, api_internal_error) act"

text \<open>\<^verbatim>\<open>EventAPI\<close>.\<close>

definition send_event_request ::
  "('s, 'b) api_modules \<Rightarrow> event_request signed \<Rightarrow> ('s, event_response) api_act" where
  "send_event_request M event_request = (\<lambda>s.
     case am_event M (EventCmd event_request) s of
       (Some response, t) \<Rightarrow> (Ok response, t)
     | (None, t) \<Rightarrow> (Ok (REvent (Fail EventApiChannelNotAvailable)), t))"

text \<open>\<^verbatim>\<open>ApprovalAPI\<close>.\<close>

definition approval_api_ask ::
  "('s, 'b) api_modules \<Rightarrow> approval_messages \<Rightarrow> (approval_responses \<Rightarrow> (approval_error_response + 'a) option) \<Rightarrow>
     ('s, approval_error_response + 'a) api_act" where
  "approval_api_ask M msg unpack = (\<lambda>s.
     case am_approval M msg s of
       (None, t) \<Rightarrow> (Ok (Inl APIChannelNotAvailable), t)
     | (Some r, t) \<Rightarrow>
         (case unpack r of
            Some data \<Rightarrow> (Ok data, t)
          | None \<Rightarrow> (Abort ''unreachable'', t)))"

definition approval_emit_vote ::
  "('s, 'b) api_modules \<Rightarrow> digest_identifier \<Rightarrow> bool \<Rightarrow> ('s, approval_error_response + approval_entity) api_act" where
  "approval_emit_vote M request_id acceptance =
     approval_api_ask M (EmitVote \<lparr>vo_request_id = request_id, vo_acceptance = acceptance\<rparr>)
       (\<lambda>r. case r of RespEmitVote data \<Rightarrow> Some data | _ \<Rightarrow> None)"

definition approval_get_all_requests ::
  "('s, 'b) api_modules \<Rightarrow> ('s, approval_error_response + approval_entity list) api_act" where
  "approval_get_all_requests M =
     approval_api_ask M GetAllRequest (\<lambda>r. case r of RespGetAllRequest data \<Rightarrow> Some (Inr data) | _ \<Rightarrow> None)"

definition approval_get_single_request ::
  "('s, 'b) api_modules \<Rightarrow> digest_identifier \<Rightarrow> ('s, approval_error_response + approval_entity) api_act" where
  "approval_get_single_request M request_id =
     approval_api_ask M (GetSingleRequest request_id)
       (\<lambda>r. case r of RespGetSingleRequest data \<Rightarrow> Some data | _ \<Rightarrow> None)"

section \<open>What the API does for a command\<close>

text \<open>Reading the database: an answer for each outcome; a panic of the database is one of the task.\<close>

definition api_read ::
  "('s, 'b) api_modules \<Rightarrow> ('b data_store \<Rightarrow> ('a, db_error) res) \<Rightarrow> (db_error \<Rightarrow> ('s, api_response) api_act) \<Rightarrow>
     ('a \<Rightarrow> ('s, api_response) api_act) \<Rightarrow> ('s, api_response) api_act" where
  "api_read M q onerror onvalue = (\<lambda>s.
     case q (am_db M s) of
       Inl (Panic m) \<Rightarrow> (Abort m, s)
     | Inl (Err e) \<Rightarrow> onerror e s
     | Inr x \<Rightarrow> onvalue x s)"

definition max_quantity :: int where
  "max_quantity = 100"

definition page_quantity :: "int option \<Rightarrow> int" where
  "page_quantity quantity = (case quantity of None \<Rightarrow> max_quantity | Some q \<Rightarrow> min q max_quantity)"

definition get_from_and_quantity :: "get_subjects_params \<Rightarrow> string option \<times> int" where
  "get_from_and_quantity data = (gs_from data, page_quantity (gs_quantity data))"

definition db_failure :: "db_error \<Rightarrow> api_error + 'a" where
  "db_failure e = Inl (DatabaseError (db_error_text e))"

definition handle_external_request ::
  "('s, 'b) api_modules \<Rightarrow> event_request signed \<Rightarrow> ('s, api_response) api_act" where
  "handle_external_request M request =
     bindA (send_event_request M request) (\<lambda>response.
     case response of
       REvent (Inr data) \<Rightarrow> retA (AnsHandleExternalRequest (Inr data))
     | REvent (Inl (Err PublicKeyIsEmpty)) \<Rightarrow>
         retA (AnsHandleExternalRequest (Inl (InvalidParameters ''Invalid specify public key'')))
     | REvent (Inl (Err error)) \<Rightarrow> retA (AnsHandleExternalRequest (Inl (EventCreationError error)))
     | REvent (Inl (Panic m)) \<Rightarrow> liftA (Abort m)
     | RNoResponse \<Rightarrow> failA UnexpectedManagerResponse)"

definition emit_vote ::
  "'b env \<Rightarrow> ('s, 'b) api_modules \<Rightarrow> digest_identifier \<Rightarrow> bool \<Rightarrow> ('s, api_response) api_act" where
  "emit_vote E M request_id acceptance =
     bindA (approval_emit_vote M request_id acceptance) (\<lambda>result.
     case result of
       Inr data \<Rightarrow> retA (AnsVoteResolve (Inr data))
     | Inl RequestNotFound \<Rightarrow>
         retA (AnsVoteResolve (Inl (NotFound (''Request '' @ dstr E request_id @ '' not found''))))
     | Inl RequestAlreadyResponded \<Rightarrow>
         retA (AnsVoteResolve (Inl (Conflict ''Request already responded'')))
     | Inl APIChannelNotAvailable \<Rightarrow> failA ApiChannelError
     | Inl _ \<Rightarrow> failA UnexpectedManagerResponse)"

text \<open>A failure of the database is answered as if all subjects had been asked for.\<close>

definition inner_get_subjects_by_governance ::
  "'b env \<Rightarrow> ('s, 'b) api_modules \<Rightarrow> get_subjects_params \<Rightarrow> digest_identifier \<Rightarrow> ('s, api_response) api_act" where
  "inner_get_subjects_by_governance E M data governance_id =
     (case get_from_and_quantity data of (from, quantity) \<Rightarrow>
        api_read M (get_governance_subjects E governance_id from quantity)
          (\<lambda>e. retA (AnsGetSubjects (db_failure e)))
          (\<lambda>subjects. retA (AnsGetSubjectByGovernance (Inr (map subject_data_from subjects)))))"

definition inner_get_all_subjects ::
  "'b env \<Rightarrow> ('s, 'b) api_modules \<Rightarrow> get_subjects_params \<Rightarrow> ('s, api_response) api_act" where
  "inner_get_all_subjects E M data =
     (case get_from_and_quantity data of (from, quantity) \<Rightarrow>
        api_read M (get_subjects E from quantity)
          (\<lambda>e. retA (AnsGetSubjects (db_failure e)))
          (\<lambda>subjects. retA (AnsGetSubjects (Inr (map subject_data_from subjects)))))"

definition inner_get_all_governances ::
  "'b env \<Rightarrow> ('s, 'b) api_modules \<Rightarrow> get_subjects_params \<Rightarrow> ('s, api_response) api_act" where
  "inner_get_all_governances E M data =
     (case get_from_and_quantity data of (from, quantity) \<Rightarrow>
        api_read M (get_governances E from quantity)
          (\<lambda>e. retA (AnsGetGovernances (db_failure e)))
          (\<lambda>subjects. retA (AnsGetGovernances (Inr (map subject_data_from subjects)))))"

definition inner_get_single_subject ::
  "'b env \<Rightarrow> ('s, 'b) api_modules \<Rightarrow> digest_identifier \<Rightarrow> ('s, api_response) api_act" where
  "inner_get_single_subject E M subject_id =
     api_read M (get_subject E subject_id)
       (\<lambda>e. if e = EntryNotFound
            then retA (AnsGetSubject (Inl (NotFound (''Subject '' @ dstr E subject_id))))
            else retA (AnsGetSubject (db_failure e)))
       (\<lambda>subject. retA (AnsGetSubject (Inr (subject_data_from subject))))"

definition inner_get_request ::
  "'b env \<Rightarrow> ('s, 'b) api_modules \<Rightarrow> digest_identifier \<Rightarrow> ('s, api_response) api_act" where
  "inner_get_request E M request_id =
     api_read M (get_taple_request E request_id)
       (\<lambda>e. if e = EntryNotFound
            then retA (AnsGetRequest (Inl (NotFound (''Request '' @ dstr E request_id))))
            else retA (AnsGetRequest (db_failure e)))
       (\<lambda>request. retA (AnsGetRequest (Inr request)))"

definition inner_get_event ::
  "'b env \<Rightarrow> ('s, 'b) api_modules \<Rightarrow> digest_identifier \<Rightarrow> u64 \<Rightarrow> ('s, api_response) api_act" where
  "inner_get_event E M subject_id sn =
     api_read M (get_event E subject_id sn)
       (\<lambda>e. if e = EntryNotFound
            then retA (AnsGetEvent (Inl (NotFound
              (''Event '' @ decimal (unat sn) @ '' of subejct '' @ dstr E subject_id))))
            else retA (AnsGetEvent (db_failure e)))
       (\<lambda>event. retA (AnsGetEvent (Inr event)))"

definition inner_get_events_of_subject ::
  "'b env \<Rightarrow> ('s, 'b) api_modules \<Rightarrow> get_events_params \<Rightarrow> ('s, api_response) api_act" where
  "inner_get_events_of_subject E M data =
     api_read M (get_events_by_range E (ge_subject_id data) (ge_from data) (page_quantity (ge_quantity data)))
       (\<lambda>e. retA (AnsGetEvents (db_failure e)))
       (\<lambda>events. retA (AnsGetEvents (Inr events)))"

definition inner_get_pending_request :: "('s, 'b) api_modules \<Rightarrow> ('s, api_response) api_act" where
  "inner_get_pending_request M =
     bindA (approval_get_all_requests M) (\<lambda>result.
     case result of
       Inr data \<Rightarrow> retA (AnsGetPendingRequests (Inr data))
     | Inl error \<Rightarrow> retA (AnsGetPendingRequests (Inl (ApprovalInternalError error))))"

definition inner_get_single_request ::
  "'b env \<Rightarrow> ('s, 'b) api_modules \<Rightarrow> digest_identifier \<Rightarrow> ('s, api_response) api_act" where
  "inner_get_single_request E M request_id =
     bindA (approval_get_single_request M request_id) (\<lambda>result.
     case result of
       Inr data \<Rightarrow> retA (AnsGetSingleRequest (Inr data))
     | Inl ApprovalRequestNotFound \<Rightarrow>
         retA (AnsGetSingleRequest (Inl (NotFound
           (''Approval Request '' @ dstr E request_id @ '' not found''))))
     | Inl error \<Rightarrow> retA (AnsGetSingleRequest (Inl (ApprovalInternalError error))))"

definition set_preauthorized_subject ::
  "('s, 'b) api_modules \<Rightarrow> digest_identifier \<Rightarrow> key_identifier list \<Rightarrow> ('s, api_response) api_act" where
  "set_preauthorized_subject M subject_id providers = (\<lambda>s.
     case am_authorized M (NewAuthorizedSubject subject_id providers) s of
       (True, t) \<Rightarrow> (Ok AnsSetPreauthorizedSubjectCompleted, t)
     | (False, t) \<Rightarrow> (Fail InternalDatabaseError, t))"

definition get_all_preauthorized_subjects_and_providers ::
  "'b env \<Rightarrow> ('s, 'b) api_modules \<Rightarrow> get_allowed_subjects_params \<Rightarrow> ('s, api_response) api_act" where
  "get_all_preauthorized_subjects_and_providers E M data =
     api_read M (get_allowed_subjects_and_providers E (ga_from data) (page_quantity (ga_quantity data)))
       (\<lambda>e. failA InternalDatabaseError)
       (\<lambda>data. retA (AnsGetAllPreauthorizedSubjects (Inr data)))"

definition inner_generate_keys :: "('s, 'b) api_modules \<Rightarrow> key_derivator \<Rightarrow> ('s, api_response) api_act" where
  "inner_generate_keys M derivator = (\<lambda>s.
     case am_ledger M (GenerateKey derivator) s of (response, t) \<Rightarrow>
       (case generate_keys response of
          Inr public_key \<Rightarrow> (Ok (AnsAddKeys (Inr public_key)), t)
        | Inl _ \<Rightarrow> (Fail InternalDatabaseError, t)))"

definition inner_get_validation_proof ::
  "'b env \<Rightarrow> ('s, 'b) api_modules \<Rightarrow> digest_identifier \<Rightarrow> ('s, api_response) api_act" where
  "inner_get_validation_proof E M subject_id =
     api_read M (get_validation_proof E subject_id)
       (\<lambda>e. retA (AnsGetValidationProof (db_failure e)))
       (\<lambda>vproof. retA (AnsGetValidationProof (Inr vproof)))"

definition inner_get_governance_subjects ::
  "'b env \<Rightarrow> ('s, 'b) api_modules \<Rightarrow> get_governance_subjects_params \<Rightarrow> ('s, api_response) api_act" where
  "inner_get_governance_subjects E M data =
     api_read M (get_governance_subjects E (gg_governance_id data) (gg_from data) (page_quantity (gg_quantity data)))
       (\<lambda>e. retA (AnsGetGovernanceSubjects (db_failure e)))
       (\<lambda>subjects. retA (AnsGetGovernanceSubjects (Inr (map subject_data_from subjects))))"

definition inner_get_approval ::
  "'b env \<Rightarrow> ('s, 'b) api_modules \<Rightarrow> digest_identifier \<Rightarrow> ('s, api_response) api_act" where
  "inner_get_approval E M subject_id =
     api_read M (get_approval E subject_id)
       (\<lambda>e. retA (AnsGetApproval (db_failure e)))
       (\<lambda>approval. retA (AnsGetApproval (Inr approval)))"

definition approvals_quantity :: "int option \<Rightarrow> int" where
  "approvals_quantity quantity =
     (case quantity of None \<Rightarrow> max_quantity | Some tmp \<Rightarrow> if tmp = 0 then max_quantity else tmp)"

text \<open>The query deletes entries on its way.\<close>

definition inner_get_approvals ::
  "'b env \<Rightarrow> ('s, 'b) api_modules \<Rightarrow> get_approvals_params \<Rightarrow> ('s, api_response) api_act" where
  "inner_get_approvals E M data = (\<lambda>s.
     case get_approvals (am_fuel M) E (gp_state data) (gp_from data) (approvals_quantity (gp_quantity data)) (am_db M s) of
       (Inl (Panic m), d) \<Rightarrow> (Abort m, am_put_db M d s)
     | (Inl (Err e), d) \<Rightarrow> (Ok (AnsGetApprovals (db_failure e)), am_put_db M d s)
     | (Inr approvals, d) \<Rightarrow> (Ok (AnsGetApprovals (Inr approvals)), am_put_db M d s))"

definition api_response_to ::
  "'b env \<Rightarrow> ('s, 'b) api_modules \<Rightarrow> api_command \<Rightarrow> ('s, api_response) api_act" where
  "api_response_to E M command =
     (case command of
        CmdGetSubjects data \<Rightarrow> inner_get_all_subjects E M data
      | CmdGetGovernances data \<Rightarrow> inner_get_all_governances E M data
      | CmdGetEvents data \<Rightarrow> inner_get_events_of_subject E M data
      | CmdGetSubject data \<Rightarrow> inner_get_single_subject E M data
      | CmdGetRequest request_id \<Rightarrow> inner_get_request E M request_id
      | CmdGetEvent subject_id sn \<Rightarrow> inner_get_event E M subject_id sn
      | CmdVoteResolve acceptance i \<Rightarrow> emit_vote E M i acceptance
      | CmdGetPendingRequests \<Rightarrow> inner_get_pending_request M
      | CmdGetSingleRequest data \<Rightarrow> inner_get_single_request E M data
      | CmdExternalRequest event_request \<Rightarrow> handle_external_request M event_request
      | CmdSetPreauthorizedSubject subject_id providers \<Rightarrow> set_preauthorized_subject M subject_id providers
      | CmdAddKeys derivator \<Rightarrow> inner_generate_keys M derivator
      | CmdGetValidationProof subject_id \<Rightarrow> inner_get_validation_proof E M subject_id
      | CmdGetGovernanceSubjects data \<Rightarrow> inner_get_governance_subjects E M data
      | CmdGetApproval request_id \<Rightarrow> inner_get_approval E M request_id
      | CmdGetApprovals data \<Rightarrow> inner_get_approvals E M data
      | CmdGetAllPreauthorizedSubjects data \<Rightarrow> get_all_preauthorized_subjects_and_providers E M data
      | CmdGetSubjectByGovernance params gov_id \<Rightarrow> inner_get_subjects_by_governance E M params gov_id)"

section \<open>The task\<close>

text \<open>A command comes with a channel for the answer, open or dropped by now; a command without one is
  a panic.\<close>

definition api_process_command ::
  "'b env \<Rightarrow> ('s, 'b) api_modules \<Rightarrow> bool option \<Rightarrow> api_command \<Rightarrow> ('s, api_response) api_act" where
  "api_process_command E M sender command =
     (case sender of
        None \<Rightarrow> liftA (Abort ''Tell in API'')
      | Some opened \<Rightarrow>
          bindA (api_response_to E M command) (\<lambda>response.
          if opened then retA response else failA ApiOneshotUnavailable))"

datatype api_input =
    ApiInputCommand "(bool option \<times> api_command) option"
  | ApiInputShutdown

text \<open>The Boolean says whether the task goes on. It stops after an error, and then cancels the token
  that all tasks of the node share; a closed channel does not stop it.\<close>

definition api_turn ::
  "'b env \<Rightarrow> ('s, 'b) api_modules \<Rightarrow> api_input \<Rightarrow> ('s, bool) api_act" where
  "api_turn E M i =
     (case i of
        ApiInputCommand (Some (sender, command)) \<Rightarrow> (\<lambda>s.
          case api_process_command E M sender command s of
            (Inl (Panic m), t) \<Rightarrow> (Abort m, t)
          | (Inl (Err _), t) \<Rightarrow> (Ok False, t)
          | (Inr _, t) \<Rightarrow> (Ok True, t))
      | ApiInputCommand None \<Rightarrow> retA True
      | ApiInputShutdown \<Rightarrow> retA False)"

section \<open>The calls of the user\<close>

text \<open>A call asks the task and takes the answer it expects: no answer, because the task has ended, and
  another answer are panics of the caller.\<close>

definition api_call ::
  "'b env \<Rightarrow> ('s, 'b) api_modules \<Rightarrow> api_command \<Rightarrow> (api_response \<Rightarrow> (api_error + 'a) option) \<Rightarrow>
     ('s, 'a, api_error) act" where
  "api_call E M command expected = (\<lambda>s.
     case api_process_command E M (Some True) command s of
       (Inl _, t) \<Rightarrow> (Abort ''unwrap'', t)
     | (Inr response, t) \<Rightarrow>
         (case expected response of
            Some (Inr data) \<Rightarrow> (Ok data, t)
          | Some (Inl e) \<Rightarrow> (Fail e, t)
          | None \<Rightarrow> (Abort ''unreachable'', t)))"

definition api_get_request ::
  "'b env \<Rightarrow> ('s, 'b) api_modules \<Rightarrow> digest_identifier \<Rightarrow> ('s, taple_request, api_error) act" where
  "api_get_request E M request_id =
     api_call E M (CmdGetRequest request_id) (\<lambda>r. case r of AnsGetRequest data \<Rightarrow> Some data | _ \<Rightarrow> None)"

definition api_external_request ::
  "'b env \<Rightarrow> ('s, 'b) api_modules \<Rightarrow> event_request signed \<Rightarrow> ('s, digest_identifier, api_error) act" where
  "api_external_request E M event_request =
     api_call E M (CmdExternalRequest event_request)
       (\<lambda>r. case r of AnsHandleExternalRequest data \<Rightarrow> Some data | _ \<Rightarrow> None)"

definition api_get_pending_requests ::
  "'b env \<Rightarrow> ('s, 'b) api_modules \<Rightarrow> ('s, approval_entity list, api_error) act" where
  "api_get_pending_requests E M =
     api_call E M CmdGetPendingRequests (\<lambda>r. case r of AnsGetPendingRequests data \<Rightarrow> Some data | _ \<Rightarrow> None)"

definition api_get_single_request ::
  "'b env \<Rightarrow> ('s, 'b) api_modules \<Rightarrow> digest_identifier \<Rightarrow> ('s, approval_entity, api_error) act" where
  "api_get_single_request E M i =
     api_call E M (CmdGetSingleRequest i) (\<lambda>r. case r of AnsGetSingleRequest data \<Rightarrow> Some data | _ \<Rightarrow> None)"

definition api_get_subjects ::
  "'b env \<Rightarrow> ('s, 'b) api_modules \<Rightarrow> string \<Rightarrow> string option \<Rightarrow> int option \<Rightarrow> ('s, subject_data list, api_error) act" where
  "api_get_subjects E M namespace from quantity =
     api_call E M (CmdGetSubjects \<lparr>gs_namespace = namespace, gs_from = from, gs_quantity = quantity\<rparr>)
       (\<lambda>r. case r of AnsGetSubjects data \<Rightarrow> Some data | _ \<Rightarrow> None)"

definition api_get_subjects_by_governance ::
  "'b env \<Rightarrow> ('s, 'b) api_modules \<Rightarrow> digest_identifier \<Rightarrow> string option \<Rightarrow> int option \<Rightarrow>
     ('s, subject_data list, api_error) act" where
  "api_get_subjects_by_governance E M governance_id from quantity =
     api_call E M (CmdGetSubjectByGovernance \<lparr>gs_namespace = [], gs_from = from, gs_quantity = quantity\<rparr> governance_id)
       (\<lambda>r. case r of AnsGetSubjectByGovernance data \<Rightarrow> Some data | _ \<Rightarrow> None)"

definition api_get_governances ::
  "'b env \<Rightarrow> ('s, 'b) api_modules \<Rightarrow> string \<Rightarrow> string option \<Rightarrow> int option \<Rightarrow> ('s, subject_data list, api_error) act" where
  "api_get_governances E M namespace from quantity =
     api_call E M (CmdGetGovernances \<lparr>gs_namespace = namespace, gs_from = from, gs_quantity = quantity\<rparr>)
       (\<lambda>r. case r of AnsGetGovernances data \<Rightarrow> Some data | _ \<Rightarrow> None)"

definition api_get_event ::
  "'b env \<Rightarrow> ('s, 'b) api_modules \<Rightarrow> digest_identifier \<Rightarrow> u64 \<Rightarrow> ('s, event signed, api_error) act" where
  "api_get_event E M subject_id sn =
     api_call E M (CmdGetEvent subject_id sn) (\<lambda>r. case r of AnsGetEvent data \<Rightarrow> Some data | _ \<Rightarrow> None)"

definition api_get_events ::
  "'b env \<Rightarrow> ('s, 'b) api_modules \<Rightarrow> digest_identifier \<Rightarrow> int option \<Rightarrow> int option \<Rightarrow>
     ('s, event signed list, api_error) act" where
  "api_get_events E M subject_id from quantity =
     api_call E M (CmdGetEvents \<lparr>ge_subject_id = subject_id, ge_from = from, ge_quantity = quantity\<rparr>)
       (\<lambda>r. case r of AnsGetEvents data \<Rightarrow> Some data | _ \<Rightarrow> None)"

definition api_get_subject ::
  "'b env \<Rightarrow> ('s, 'b) api_modules \<Rightarrow> digest_identifier \<Rightarrow> ('s, subject_data, api_error) act" where
  "api_get_subject E M subject_id =
     api_call E M (CmdGetSubject subject_id) (\<lambda>r. case r of AnsGetSubject data \<Rightarrow> Some data | _ \<Rightarrow> None)"

definition api_approval_request ::
  "'b env \<Rightarrow> ('s, 'b) api_modules \<Rightarrow> digest_identifier \<Rightarrow> bool \<Rightarrow> ('s, approval_entity, api_error) act" where
  "api_approval_request E M request_id acceptance =
     api_call E M (CmdVoteResolve acceptance request_id)
       (\<lambda>r. case r of AnsVoteResolve data \<Rightarrow> Some data | _ \<Rightarrow> None)"

definition api_add_preauthorize_subject ::
  "'b env \<Rightarrow> ('s, 'b) api_modules \<Rightarrow> digest_identifier \<Rightarrow> key_identifier list \<Rightarrow> ('s, unit, api_error) act" where
  "api_add_preauthorize_subject E M subject_id providers =
     api_call E M (CmdSetPreauthorizedSubject subject_id providers)
       (\<lambda>r. case r of AnsSetPreauthorizedSubjectCompleted \<Rightarrow> Some (Inr ()) | _ \<Rightarrow> None)"

definition api_get_all_allowed_subjects_and_providers ::
  "'b env \<Rightarrow> ('s, 'b) api_modules \<Rightarrow> string option \<Rightarrow> int option \<Rightarrow>
     ('s, (digest_identifier \<times> key_identifier list) list, api_error) act" where
  "api_get_all_allowed_subjects_and_providers E M from quantity =
     api_call E M (CmdGetAllPreauthorizedSubjects \<lparr>ga_from = from, ga_quantity = quantity\<rparr>)
       (\<lambda>r. case r of AnsGetAllPreauthorizedSubjects data \<Rightarrow> Some data | _ \<Rightarrow> None)"

definition api_add_keys ::
  "'b env \<Rightarrow> ('s, 'b) api_modules \<Rightarrow> key_derivator \<Rightarrow> ('s, key_identifier, api_error) act" where
  "api_add_keys E M derivator =
     api_call E M (CmdAddKeys derivator) (\<lambda>r. case r of AnsAddKeys data \<Rightarrow> Some data | _ \<Rightarrow> None)"

definition api_get_validation_proof ::
  "'b env \<Rightarrow> ('s, 'b) api_modules \<Rightarrow> digest_identifier \<Rightarrow> ('s, signature list \<times> validation_proof, api_error) act" where
  "api_get_validation_proof E M subject_id =
     api_call E M (CmdGetValidationProof subject_id)
       (\<lambda>r. case r of AnsGetValidationProof data \<Rightarrow> Some data | _ \<Rightarrow> None)"

definition api_get_governance_subjects ::
  "'b env \<Rightarrow> ('s, 'b) api_modules \<Rightarrow> digest_identifier \<Rightarrow> string option \<Rightarrow> int option \<Rightarrow>
     ('s, subject_data list, api_error) act" where
  "api_get_governance_subjects E M governance_id from quantity =
     api_call E M (CmdGetGovernanceSubjects \<lparr>gg_governance_id = governance_id, gg_from = from, gg_quantity = quantity\<rparr>)
       (\<lambda>r. case r of AnsGetGovernanceSubjects data \<Rightarrow> Some data | _ \<Rightarrow> None)"

definition api_get_approval ::
  "'b env \<Rightarrow> ('s, 'b) api_modules \<Rightarrow> digest_identifier \<Rightarrow> ('s, approval_entity, api_error) act" where
  "api_get_approval E M request_id =
     api_call E M (CmdGetApproval request_id) (\<lambda>r. case r of AnsGetApproval data \<Rightarrow> Some data | _ \<Rightarrow> None)"

definition api_get_approvals ::
  "'b env \<Rightarrow> ('s, 'b) api_modules \<Rightarrow> approval_state option \<Rightarrow> string option \<Rightarrow> int option \<Rightarrow>
     ('s, approval_entity list, api_error) act" where
  "api_get_approvals E M state from quantity =
     api_call E M (CmdGetApprovals \<lparr>gp_state = state, gp_from = from, gp_quantity = quantity\<rparr>)
       (\<lambda>r. case r of AnsGetApprovals data \<Rightarrow> Some data | _ \<Rightarrow> None)"

end
