(* ===== verification/Api_Laws.thy ===== *)
theory Api_Laws
  imports Api Completer_Transfers Approval_Laws
begin

text \<open>
  What a call of the API gives its caller: the kind of its answer, the size of a page, and, with the
  event completer and the approver of this development as the modules it asks, what an accepted request
  and a vote leave behind.
\<close>

section \<open>The answer of a command\<close>

definition fits :: "api_command \<Rightarrow> api_response \<Rightarrow> bool" where
  "fits c r =
     (case c of
        CmdGetSubjects _ \<Rightarrow> (case r of AnsGetSubjects _ \<Rightarrow> True | _ \<Rightarrow> False)
      | CmdGetSubjectByGovernance _ _ \<Rightarrow> (case r of AnsGetSubjectByGovernance _ \<Rightarrow> True | _ \<Rightarrow> False)
      | CmdGetGovernances _ \<Rightarrow> (case r of AnsGetGovernances _ \<Rightarrow> True | _ \<Rightarrow> False)
      | CmdGetSubject _ \<Rightarrow> (case r of AnsGetSubject _ \<Rightarrow> True | _ \<Rightarrow> False)
      | CmdGetEvent _ _ \<Rightarrow> (case r of AnsGetEvent _ \<Rightarrow> True | _ \<Rightarrow> False)
      | CmdGetEvents _ \<Rightarrow> (case r of AnsGetEvents _ \<Rightarrow> True | _ \<Rightarrow> False)
      | CmdVoteResolve _ _ \<Rightarrow> (case r of AnsVoteResolve _ \<Rightarrow> True | _ \<Rightarrow> False)
      | CmdExternalRequest _ \<Rightarrow> (case r of AnsHandleExternalRequest _ \<Rightarrow> True | _ \<Rightarrow> False)
      | CmdGetPendingRequests \<Rightarrow> (case r of AnsGetPendingRequests _ \<Rightarrow> True | _ \<Rightarrow> False)
      | CmdGetSingleRequest _ \<Rightarrow> (case r of AnsGetSingleRequest _ \<Rightarrow> True | _ \<Rightarrow> False)
      | CmdSetPreauthorizedSubject _ _ \<Rightarrow> (case r of AnsSetPreauthorizedSubjectCompleted \<Rightarrow> True | _ \<Rightarrow> False)
      | CmdGetAllPreauthorizedSubjects _ \<Rightarrow> (case r of AnsGetAllPreauthorizedSubjects _ \<Rightarrow> True | _ \<Rightarrow> False)
      | CmdAddKeys _ \<Rightarrow> (case r of AnsAddKeys _ \<Rightarrow> True | _ \<Rightarrow> False)
      | CmdGetValidationProof _ \<Rightarrow> (case r of AnsGetValidationProof _ \<Rightarrow> True | _ \<Rightarrow> False)
      | CmdGetRequest _ \<Rightarrow> (case r of AnsGetRequest _ \<Rightarrow> True | _ \<Rightarrow> False)
      | CmdGetGovernanceSubjects _ \<Rightarrow> (case r of AnsGetGovernanceSubjects _ \<Rightarrow> True | _ \<Rightarrow> False)
      | CmdGetApproval _ \<Rightarrow> (case r of AnsGetApproval _ \<Rightarrow> True | _ \<Rightarrow> False)
      | CmdGetApprovals _ \<Rightarrow> (case r of AnsGetApprovals _ \<Rightarrow> True | _ \<Rightarrow> False))"

lemma api_read_Ok:
  "api_read M q f g s = (Ok r, t) \<longleftrightarrow>
     (\<exists>e. q (am_db M s) = Fail e \<and> f e s = (Ok r, t)) \<or> (\<exists>x. q (am_db M s) = Ok x \<and> g x s = (Ok r, t))"
  by (simp add: api_read_def split: sum.splits failure.splits)

lemma fits_reads:
  "inner_get_all_subjects E M p s = (Ok r, t) \<Longrightarrow> fits (CmdGetSubjects p) r"
  "inner_get_all_governances E M p s = (Ok r, t) \<Longrightarrow> fits (CmdGetGovernances p) r"
  "inner_get_events_of_subject E M ep s = (Ok r, t) \<Longrightarrow> fits (CmdGetEvents ep) r"
  "inner_get_single_subject E M i s = (Ok r, t) \<Longrightarrow> fits (CmdGetSubject i) r"
  "inner_get_request E M i s = (Ok r, t) \<Longrightarrow> fits (CmdGetRequest i) r"
  "inner_get_event E M i n s = (Ok r, t) \<Longrightarrow> fits (CmdGetEvent i n) r"
  "inner_get_validation_proof E M i s = (Ok r, t) \<Longrightarrow> fits (CmdGetValidationProof i) r"
  "inner_get_governance_subjects E M gp s = (Ok r, t) \<Longrightarrow> fits (CmdGetGovernanceSubjects gp) r"
  "inner_get_approval E M i s = (Ok r, t) \<Longrightarrow> fits (CmdGetApproval i) r"
  "get_all_preauthorized_subjects_and_providers E M ap s = (Ok r, t) \<Longrightarrow> fits (CmdGetAllPreauthorizedSubjects ap) r"
  by (auto simp: fits_def inner_get_all_subjects_def inner_get_all_governances_def inner_get_events_of_subject_def
      inner_get_single_subject_def inner_get_request_def inner_get_event_def inner_get_validation_proof_def
      inner_get_governance_subjects_def inner_get_approval_def get_all_preauthorized_subjects_and_providers_def
      api_read_Ok get_from_and_quantity_def split: if_splits)

lemma fits_ask:
  "emit_vote E M i b s = (Ok r, t) \<Longrightarrow> fits (CmdVoteResolve b i) r"
  unfolding emit_vote_def
  by (erule bindA_OkE) (auto simp: fits_def split: sum.splits approval_error_response.splits)

lemma fits_pending: "inner_get_pending_request M s = (Ok r, t) \<Longrightarrow> fits CmdGetPendingRequests r"
  unfolding inner_get_pending_request_def by (erule bindA_OkE) (auto simp: fits_def split: sum.splits)

lemma fits_single: "inner_get_single_request E M i s = (Ok r, t) \<Longrightarrow> fits (CmdGetSingleRequest i) r"
  unfolding inner_get_single_request_def
  by (erule bindA_OkE) (auto simp: fits_def split: sum.splits approval_error_response.splits)

lemma fits_external:
  assumes "handle_external_request M q s = (Ok r, t)"
  shows "fits (CmdExternalRequest q) r"
proof -
  obtain response u where u: "send_event_request M q s = (Ok response, u)"
    and run: "(case response of
       REvent (Inr data) \<Rightarrow> retA (AnsHandleExternalRequest (Inr data))
     | REvent (Inl (Err PublicKeyIsEmpty)) \<Rightarrow>
         retA (AnsHandleExternalRequest (Inl (InvalidParameters ''Invalid specify public key'')))
     | REvent (Inl (Err error)) \<Rightarrow> retA (AnsHandleExternalRequest (Inl (EventCreationError error)))
     | REvent (Inl (Panic m)) \<Rightarrow> liftA (Abort m)
     | RNoResponse \<Rightarrow> failA UnexpectedManagerResponse) u = (Ok r, t)"
    using assms unfolding handle_external_request_def by (rule bindA_OkE)
  show ?thesis
  proof (cases response)
    case (REvent x)
    show ?thesis
    proof (cases x)
      case (Inl f)
      show ?thesis
      proof (cases f)
        case (Err e)
        with run REvent Inl show ?thesis by (cases e) (auto simp: fits_def)
      qed (use run REvent Inl in simp)
    qed (use run REvent in \<open>auto simp: fits_def\<close>)
  qed (use run in simp)
qed

lemma fits_preauthorized:
  "set_preauthorized_subject M i ks s = (Ok r, t) \<Longrightarrow> fits (CmdSetPreauthorizedSubject i ks) r"
  by (auto simp: set_preauthorized_subject_def fits_def split: prod.splits bool.splits)

lemma fits_keys: "inner_generate_keys M d s = (Ok r, t) \<Longrightarrow> fits (CmdAddKeys d) r"
  by (auto simp: inner_generate_keys_def fits_def split: prod.splits sum.splits)

lemma fits_approvals: "inner_get_approvals E M p s = (Ok r, t) \<Longrightarrow> fits (CmdGetApprovals p) r"
  by (auto simp: inner_get_approvals_def fits_def split: prod.splits sum.splits failure.splits)

lemmas fits_asks = fits_ask fits_pending fits_single fits_external fits_preauthorized fits_keys fits_approvals

lemma governance_answer:
  "inner_get_subjects_by_governance E M p g s = (Ok r, t) \<Longrightarrow>
     (fits (CmdGetSubjectByGovernance p g) r \<longleftrightarrow>
      is_Ok (get_governance_subjects E g (gs_from p) (page_quantity (gs_quantity p)) (am_db M s)))"
  by (auto simp: fits_def inner_get_subjects_by_governance_def api_read_Ok get_from_and_quantity_def)

lemma api_answers:
  assumes "api_response_to E M c s = (Ok r, t)"
    and "\<And>p g. c \<noteq> CmdGetSubjectByGovernance p g"
  shows "fits c r"
  using assms by (cases c) (auto simp: api_response_to_def dest: fits_reads fits_asks)

section \<open>Pages\<close>

lemma page_from_unknown:
  assumes "k \<notin> fst ` set (coll_iter (q < 0) (p @ char_MAX) m)"
  shows "get_by_range (Some k) q p m = Fail EntryNotFound"
  using assms by (simp add: get_by_range_def seek_not_found)

lemma unwrap_all_length: "unwrap_all c bs = Ok xs \<Longrightarrow> length xs = length bs"
  by (induction bs arbitrary: xs) (auto simp: bindR_eq_Inr)

lemma decode_all_length: "decode_all c bs = Ok xs \<Longrightarrow> length xs = length bs"
  by (induction bs arbitrary: xs) (auto simp: bindR_eq_Inr)

lemma api_call_Ok:
  "api_call E M c f s = (Ok x, t) \<longleftrightarrow>
     (\<exists>r. api_response_to E M c s = (Ok r, t) \<and> f r = Some (Inr x))"
  by (auto simp: api_call_def api_process_command_def bindA_run split: sum.splits option.splits prod.splits)

lemma return_subjects_length: "return_subjects E vs m = Ok xs \<Longrightarrow> length xs = length vs"
  by (induction vs arbitrary: xs) (auto simp: bindR_eq_Inr)

lemma page_length:
  assumes "get_subjects E from q m = Ok xs \<or> get_governances E from q m = Ok xs \<or>
      get_governance_subjects E g from q m = Ok xs"
    and "- (2 ^ 63) < q"
  shows "int (length xs) \<le> \<bar>q\<bar>"
proof -
  obtain p ys where "get_by_range from q p m = Ok ys" "length xs = length ys"
    using assms(1)
    by (cases "from") (auto simp: get_subjects_def get_governances_def get_governance_subjects_def bindR_eq_Inr
        dest!: unwrap_all_length return_subjects_length)
  with get_by_range_length assms(2) show ?thesis by metis
qed

lemma page_quantity_abs:
  "\<bar>page_quantity q\<bar> = (case q of None \<Rightarrow> 100 | Some n \<Rightarrow> if n < 0 then - n else min n 100)"
  by (simp add: page_quantity_def max_quantity_def split: option.splits)

lemma page_quantity_above: "q \<noteq> Some (- (2 ^ 63)) \<Longrightarrow> (\<And>n. q = Some n \<Longrightarrow> - (2 ^ 63) \<le> n) \<Longrightarrow> - (2 ^ 63) < page_quantity q"
  by (force simp: page_quantity_def max_quantity_def split: option.splits)

lemma subject_pages:
  assumes "api_get_subjects E M ns from q s = (Ok xs, t) \<or> api_get_governances E M ns from q s = (Ok xs, t) \<or>
      api_get_governance_subjects E M g from q s = (Ok xs, t) \<or>
      api_get_subjects_by_governance E M g from q s = (Ok xs, t)"
  obtains ys where "xs = map subject_data_from ys" "t = s"
    "get_subjects E from (page_quantity q) (am_db M s) = Ok ys \<or>
     get_governances E from (page_quantity q) (am_db M s) = Ok ys \<or>
     get_governance_subjects E g from (page_quantity q) (am_db M s) = Ok ys"
  using assms
  by (auto simp: api_get_subjects_def api_get_governances_def api_get_governance_subjects_def
      api_get_subjects_by_governance_def api_call_Ok api_response_to_def inner_get_all_subjects_def
      inner_get_all_governances_def inner_get_governance_subjects_def inner_get_subjects_by_governance_def
      api_read_Ok get_from_and_quantity_def db_failure_def)

section \<open>Requests of the user, with the event completer\<close>

text \<open>\<^verbatim>\<open>ask\<close> on the channel of the event completer: no answer when its task fails.\<close>

definition completer_asks ::
  "'b env \<Rightarrow> completer_config \<Rightarrow> 'b ledger_task \<Rightarrow> event_command \<Rightarrow> 'b completer \<Rightarrow>
     event_response option \<times> 'b completer" where
  "completer_asks E C L c s =
     (case event_process_command E C L (Some True) c s of
        (Inr r, t) \<Rightarrow> (r, t)
      | (Inl _, t) \<Rightarrow> (None, t))"

lemma completer_asks_event:
  "completer_asks E C L (EventCmd q) s = (case pre_new_event E C q s of
     (Inl (Panic _), t) \<Rightarrow> (None, t)
   | (Inl (Err e), t) \<Rightarrow> (if channel_is_closed e then None else Some (REvent (Fail e)), t)
   | (Inr i, t) \<Rightarrow> (Some (REvent (Ok i)), t))"
  by (simp add: completer_asks_def event_process_command_def event_command_result_def attempt_def bindA_run
      split: sum.splits failure.splits prod.splits)

lemma external_request_run:
  assumes "am_event M = completer_asks E C L"
  shows "api_external_request E M q s = (Ok i, t) \<longleftrightarrow> pre_new_event E C q s = (Ok i, t)"
    "pre_new_event E C q s = (Fail e, t) \<Longrightarrow> \<not> channel_is_closed e \<Longrightarrow> e \<noteq> PublicKeyIsEmpty \<Longrightarrow>
      api_external_request E M q s = (Fail (EventCreationError e), t)"
proof -
  show "api_external_request E M q s = (Ok i, t) \<longleftrightarrow> pre_new_event E C q s = (Ok i, t)"
  proof (cases "pre_new_event E C q s")
    case (Pair r u)
    show ?thesis
    proof (cases r)
      case (Inl f)
      show ?thesis
      proof (cases f)
        case (Err e)
        then show ?thesis using Pair Inl
          by (cases e) (auto simp: api_external_request_def api_call_Ok api_response_to_def handle_external_request_def
              send_event_request_def assms completer_asks_event bindA_run)
      qed (use Pair Inl in \<open>auto simp: api_external_request_def api_call_Ok api_response_to_def
        handle_external_request_def send_event_request_def assms completer_asks_event bindA_run\<close>)
    qed (use Pair in \<open>auto simp: api_external_request_def api_call_Ok api_response_to_def
        handle_external_request_def send_event_request_def assms completer_asks_event bindA_run\<close>)
  qed
  show "pre_new_event E C q s = (Fail e, t) \<Longrightarrow> \<not> channel_is_closed e \<Longrightarrow> e \<noteq> PublicKeyIsEmpty \<Longrightarrow>
      api_external_request E M q s = (Fail (EventCreationError e), t)"
    by (cases e) (auto simp: api_external_request_def api_call_def api_process_command_def api_response_to_def
        handle_external_request_def send_event_request_def assms completer_asks_event bindA_run)
qed

text \<open>What an accepted request leaves behind.\<close>

definition request_kept :: "'b env \<Rightarrow> digest_identifier \<Rightarrow> event_request signed \<Rightarrow> 'b data_store \<Rightarrow> bool" where
  "request_kept E i q m \<longleftrightarrow> (\<exists>tq. get_taple_request E i m = Ok tq \<and> tq_event_request tq = q)"

lemma taple_request_of: "taple_request_from E q = Ok tq \<Longrightarrow> tq_event_request tq = q"
  by (auto simp: taple_request_from_def bindR_eq_Inr)

lemma set_taple_request_kept:
  assumes "set_taple_request E i tq m = (Ok (), d)" "tq_event_request tq = q" "codec_ok (c_taple_request E)"
  shows "request_kept E i q d"
  unfolding request_kept_def using assms(2) taple_requests.get_put [OF assms(3) _ assms(1)] by auto

lemma request_kept_foreign:
  assumes "writes p m m'" "p \<noteq> ''taple-request''" "sep_free p"
  shows "request_kept E i q m' = request_kept E i q m"
  using taple_requests.get_foreign [OF assms, of E i] by (simp add: request_kept_def)

lemma put_writes:
  "set_prevalidated_event E i ev m = (r, m') \<Longrightarrow> writes ''prevalidated-event'' m m'"
  "set_request E i q m = (r, m') \<Longrightarrow> writes ''request'' m m'"
  using prevalidated.writes_table [where E = E and k = i and x = ev and m = m]
    requests.writes_table [where E = E and k = i and x = q and m = m] by simp_all

lemma index_db: "add_by_governance g i s = (r, t) \<Longrightarrow> nd_db t = nd_db s"
  "set_phase i p s = (r, t) \<Longrightarrow> nd_db t = nd_db s"
  by (auto simp: add_by_governance_def set_phase_def Let_def)

text \<open>\<open>ends m Q\<close>: a run of \<open>m\<close> without an error ends in \<open>Q\<close>.\<close>

definition ends :: "('s, 'a, 'e) act \<Rightarrow> ('a \<Rightarrow> 's \<Rightarrow> bool) \<Rightarrow> bool" where
  "ends m Q \<longleftrightarrow> (\<forall>s x t. m s = (Ok x, t) \<longrightarrow> Q x t)"

lemma ends_bindA: "(\<And>x. ends (k x) Q) \<Longrightarrow> ends (bindA m k) Q"
  by (auto simp: ends_def bindA_eq_Inr)

lemma ends_prod: "(\<And>a b. ends (f a b) Q) \<Longrightarrow> ends (case x of (a, b) \<Rightarrow> f a b) Q"
  by (cases x) simp

lemma genesis_kept:
  fixes E :: "'b env"
  assumes ok: "codec_ok (c_taple_request E)"
  shows "ends (bindA (esubject (taple_request_from E q)) (\<lambda>request_data.
    bindA (edb (set_taple_request E i request_data)) (\<lambda>_.
    bindA (edb (set_prevalidated_event E si ev)) (\<lambda>_.
    bindA (if c then add_by_governance g si else retA ()) (\<lambda>_.
    bindA (set_phase si ph) (\<lambda>_. retA i))))))
    (\<lambda>j t. j = i \<and> request_kept E i q (nd_db t))"
  unfolding ends_def
proof (intro allI impI)
  fix s :: "'b completer" and j t
  assume "bindA (esubject (taple_request_from E q)) (\<lambda>request_data.
    bindA (edb (set_taple_request E i request_data)) (\<lambda>_.
    bindA (edb (set_prevalidated_event E si ev)) (\<lambda>_.
    bindA (if c then add_by_governance g si else retA ()) (\<lambda>_.
    bindA (set_phase si ph) (\<lambda>_. retA i))))) s = (Ok j, t)"
  then obtain tq d d' u v where tq: "taple_request_from E q = Ok tq"
    and puts: "set_taple_request E i tq (nd_db s) = (Ok (), d)" "set_prevalidated_event E si ev d = (Ok (), d')"
    and u: "(if c then add_by_governance g si else retA ()) u = (Ok (), v)" "nd_db u = d'"
    and t: "set_phase si ph v = (Ok (), t)" "j = i"
    by (auto simp: bindA_eq_Inr edb_eq_Inr esubject_def)
  have "request_kept E i q d"
    using set_taple_request_kept [OF puts(1) taple_request_of [OF tq] ok] .
  then have "request_kept E i q d'"
    using request_kept_foreign [OF put_writes(1) [OF puts(2)]] by simp
  moreover have "nd_db t = d'"
    using u index_db(2) [OF t(1)] by (auto dest: index_db(1) split: if_splits)
  ultimately show "j = i \<and> request_kept E i q (nd_db t)" using t(2) by simp
qed

lemma new_genesis_kept:
  assumes run: "new_genesis E C i q cr s = (Ok j, t)" and ok: "codec_ok (c_taple_request E)"
  shows "j = i \<and> request_kept E i q (nd_db t)"
proof -
  have "ends (new_genesis E C i q cr) (\<lambda>j t. j = i \<and> request_kept E i q (nd_db t))"
    unfolding new_genesis_def by (intro genesis_kept [OF ok] ends_bindA ends_prod)
  with run show ?thesis unfolding ends_def by blast
qed

lemma register_request_kept:
  assumes run: "register_request E i q su s = (Ok j, t)" and ok: "codec_ok (c_taple_request E)"
  shows "j = i \<and> request_kept E i q (nd_db t)"
proof -
  from run obtain tq d d' where tq: "taple_request_from E q = Ok tq"
    and puts: "set_taple_request E i (tq\<lparr>tq_sn := Some (su_sn su + 1), tq_subject_id := Some (su_subject_id su)\<rparr>)
        (nd_db s) = (Ok (), d)" "set_request E (su_subject_id su) q d = (Ok (), d')"
    and t: "nd_db t = d'" "j = i"
    by (auto simp: register_request_def bindA_eq_Inr edb_eq_Inr esubject_def add_by_governance_def Let_def)
  have "request_kept E i q d"
    using set_taple_request_kept [OF puts(1) _ ok] taple_request_of [OF tq] by simp
  then show ?thesis
    using request_kept_foreign [OF put_writes(2) [OF puts(2)]] t by simp
qed

lemma pre_new_event_kept:
  assumes run: "pre_new_event E C q s = (Ok i, t)" and ok: "codec_ok (c_taple_request E)"
  shows "event_request_verify E q = Ok ()" "generate_with_blake3 E (PSignedEventRequest q) = Ok i"
    "request_kept E i q (nd_db t)"
proof -
  from run obtain h where h: "event_request_verify E q = Ok ()" "generate_with_blake3 E (PSignedEventRequest q) = Ok h"
    and new: "new_event E C q s = (Ok i, t)"
    by (cases "content q") (auto simp: pre_new_event_def bindA_eq_Inr esubject_def absent_run simp del: map_err.simps
        split: if_splits)
  have "i = h \<and> request_kept E h q (nd_db t)"
  proof (cases "content q")
    case (Create cr)
    with new h(2) show ?thesis
      by (auto simp: new_event_def bindA_eq_Inr simp del: map_err.simps dest: new_genesis_kept [OF _ ok])
  qed (use new h(2) in \<open>auto simp: new_event_def bindA_eq_Inr simp del: map_err.simps
    dest!: register_request_kept [OF _ ok]\<close>)
  with h show "event_request_verify E q = Ok ()" "generate_with_blake3 E (PSignedEventRequest q) = Ok i"
    "request_kept E i q (nd_db t)" by simp_all
qed

lemma pre_new_event_again:
  assumes "event_request_verify E q = Ok ()" "generate_with_blake3 E (PSignedEventRequest q) = Ok i"
    "request_kept E i q (nd_db s)"
  shows "pre_new_event E C q s = (Fail EvRequestAlreadyKnown, s)"
  using assms by (auto simp: pre_new_event_def esubject_def bindA_run db_case_def request_kept_def)

lemma get_request_kept:
  assumes "request_kept E i q (am_db M s)"
  shows "\<exists>tq. api_get_request E M i s = (Ok tq, s) \<and> tq_event_request tq = q"
  using assms by (auto simp: request_kept_def api_get_request_def api_call_Ok api_response_to_def
      inner_get_request_def api_read_Ok)

section \<open>Votes of the user, with the approver\<close>

definition approver_asks ::
  "'b env \<Rightarrow> approver \<Rightarrow> timestamp \<Rightarrow> approval_messages \<Rightarrow> ('b, 'z) node_scheme \<Rightarrow>
     approval_responses option \<times> ('b, 'z) node_scheme" where
  "approver_asks E A now c s =
     (case approval_command E A now (Some True) c s of
        (Inr r, t) \<Rightarrow> (r, t)
      | (Inl _, t) \<Rightarrow> (None, t))"

lemma generate_vote_Ok:
  fixes s t :: "('b, 'z) node_scheme"
  assumes run: "generate_vote E A now i acceptance s = (Ok (Inr (a, k)), t)" and ok: "codec_ok (c_approval E)"
  obtains data where "get_approval E i (nd_db s) = Ok data" "\<not> responded data" "k = ae_sender data"
    "ae_state a = (if acceptance then RespondedAccepted else RespondedRejected)"
    "get_approval E i (nd_db t) = Ok a" "nd_messages t = nd_messages s"
proof (cases "get_approval E i (nd_db s)")
  case (Inr data)
  with run have fresh: "\<not> responded data"
    by (auto simp: generate_vote_def get_single_request_def responded_def)
  with run Inr obtain g sid d e f where a: "a = data\<lparr>ae_response :=
        Some \<lparr>content = \<lparr>ar_appr_req_hash = i, ar_approved = acceptance\<rparr>, signature = g\<rparr>,
      ae_state := if acceptance then RespondedAccepted else RespondedRejected\<rparr>" "k = ae_sender data"
    and d: "set_approval E i a (nd_db s) = (Ok (), d)" "del_subject_approval_index E sid i d = (Ok (), e)"
      "del_governance_approval_index E (aq_gov_id (content (ae_request data))) i e = (Ok (), f)"
    and t: "nd_db t = f" "nd_messages t = nd_messages s"
    by (auto simp: generate_vote_def get_single_request_def responded_def Let_def bindA_eq_Inr adb_def dbA_eq_Inr)
  have "get_approval E i d = Ok a" using set_approval_get [OF ok d(1)] by simp
  moreover have "keeps_approvals E d e"
    using keepsD [OF index_keeps(2), of E d d sid i] d(2) by simp
  moreover have "keeps_approvals E e f"
    using keepsD [OF index_keeps(4), of E e e "aq_gov_id (content (ae_request data))" i] d(3) by simp
  ultimately have "get_approval E i f = Ok a" by (simp add: keeps_approvals_def)
  with that [of data] Inr fresh a t show thesis by simp
qed (use run in \<open>auto simp: generate_vote_def get_single_request_def\<close>)

lemma approval_api_ask_Ok:
  "approval_api_ask M msg u s = (Ok d, t) \<longleftrightarrow>
     (am_approval M msg s = (None, t) \<and> d = Inl APIChannelNotAvailable) \<or>
     (\<exists>r. am_approval M msg s = (Some r, t) \<and> u r = Some d)"
  by (auto simp: approval_api_ask_def split: prod.splits option.splits)

lemma emit_vote_Ok:
  assumes "emit_vote E M i b s = (Ok (AnsVoteResolve (Inr a)), t)"
  shows "approval_emit_vote M i b s = (Ok (Inr a), t)"
proof -
  obtain d u where d: "approval_emit_vote M i b s = (Ok d, u)"
    and run: "(case d of
       Inr data \<Rightarrow> retA (AnsVoteResolve (Inr data))
     | Inl RequestNotFound \<Rightarrow>
         retA (AnsVoteResolve (Inl (NotFound (''Request '' @ dstr E i @ '' not found''))))
     | Inl RequestAlreadyResponded \<Rightarrow>
         retA (AnsVoteResolve (Inl (Conflict ''Request already responded'')))
     | Inl APIChannelNotAvailable \<Rightarrow> failA ApiChannelError
     | Inl _ \<Rightarrow> failA UnexpectedManagerResponse) u = (Ok (AnsVoteResolve (Inr a)), t)"
    using assms unfolding emit_vote_def by (rule bindA_OkE)
  show ?thesis
  proof (cases d)
    case (Inl e)
    then show ?thesis using run by (cases e) simp_all
  qed (use run d in simp)
qed

lemma approval_request_Ok:
  assumes "am_approval M = approver_asks E A now" "api_approval_request E M i b s = (Ok a, t)"
  shows "approval_command E A now (Some True) (EmitVote \<lparr>vo_request_id = i, vo_acceptance = b\<rparr>) s =
      (Ok (Some (RespEmitVote (Inr a))), t)"
proof -
  obtain r where r: "emit_vote E M i b s = (Ok r, t)"
    "(case r of AnsVoteResolve data \<Rightarrow> Some data | _ \<Rightarrow> None) = Some (Inr a)"
    using assms(2) by (auto simp: api_approval_request_def api_call_Ok api_response_to_def)
  then have "r = AnsVoteResolve (Inr a)" by (cases r) simp_all
  with r(1) have "approval_emit_vote M i b s = (Ok (Inr a), t)" by (simp add: emit_vote_Ok)
  then obtain x where x: "approver_asks E A now (EmitVote \<lparr>vo_request_id = i, vo_acceptance = b\<rparr>) s = (Some x, t)"
    "(case x of RespEmitVote data \<Rightarrow> Some data | _ \<Rightarrow> None) = Some (Inr a)"
    by (auto simp: approval_emit_vote_def approval_api_ask_Ok assms(1))
  from x(2) have "x = RespEmitVote (Inr a)" by (cases x) simp_all
  with x(1) show ?thesis by (auto simp: approver_asks_def split: sum.splits prod.splits)
qed

lemma vote_again:
  assumes "am_approval M = approver_asks E A now"
    and "generate_vote E A now i b s = (Ok (Inl RequestAlreadyResponded), t)"
  shows "api_approval_request E M i b s = (Fail (Conflict ''Request already responded''), t)"
  using assms
  by (simp add: api_approval_request_def api_call_def api_process_command_def api_response_to_def emit_vote_def
      approval_emit_vote_def approval_api_ask_def approver_asks_def approval_command_def answer_def bindA_run)

text \<open>A vote that is answered: the request had none before, the answer is recorded, and a message with it
  has left for the one who asked.\<close>

lemma emit_vote_command_Ok:
  fixes s t :: "('b, 'z) node_scheme"
  assumes "approval_command E A now (Some True) (EmitVote v) s = (Ok (Some (RespEmitVote (Inr a))), t)"
  obtains u k response where "generate_vote E A now (vo_request_id v) (vo_acceptance v) s = (Ok (Inr (a, k)), u)"
    "ae_response a = Some response" "nd_db t = nd_db u"
    "nd_messages t = nd_messages u @ [TaskRequest None (create_approver_response response) {k} direct_response]"
proof -
  obtain r u where r: "generate_vote E A now (vo_request_id v) (vo_acceptance v) s = (Ok r, u)"
    and run: "(case r of
        Inr (vote, owner) \<Rightarrow>
          bindA (liftA (unwrap (ae_response vote))) (\<lambda>response.
          bindA (send_message (create_approver_response response) owner) (\<lambda>_.
          answer (Some True) (RespEmitVote (Inr vote))))
      | Inl e \<Rightarrow> answer (Some True) (RespEmitVote (Inl e))) u = (Ok (Some (RespEmitVote (Inr a))), t)"
    using assms by (auto simp: approval_command_def elim!: bindA_OkE)
  show thesis
  proof (cases r)
    case (Inr x)
    obtain vote k where x: "x = (vote, k)" by (cases x)
    with run Inr r show thesis
      by (intro that [where u = u and k = k and response = "the (ae_response a)"])
        (auto simp: bindA_eq_Inr answer_def send_message_def tell_message_eq_Inr)
  qed (use run in \<open>simp add: answer_def\<close>)
qed

end
