(* ===== verification/Channel.thy ===== *)
theory Channel
  imports Models
begin

text \<open>
  The channels between the tasks of a node (\<^verbatim>\<open>commons/channel/channel.rs\<close>): many senders, one
  receiver, a bounded queue; a question carries the sender of its answer. The queue and the one-shot
  channels are tokio's: a full queue makes the sender wait, a receiver that is dropped makes what waits
  in the queue be lost. Waiting is the result \<open>None\<close>.
\<close>

section \<open>The channel and its ends\<close>

text \<open>A one-shot channel is known by its position in \<open>ch_oneshots\<close>.\<close>

datatype 'i channel_data = AskData nat 'i | TellData 'i

datatype 'r oneshot = OneshotOpen | OneshotAnswered 'r | OneshotSenderDropped | OneshotReceiverDropped

record ('i, 'r) channel =
  ch_buffer :: nat
  ch_queue :: "'i channel_data list"
  ch_receiver :: bool
  ch_senders :: bool
  ch_oneshots :: "'r oneshot list"

type_synonym ('i, 'r, 'a) channel_act = "(('i, 'r) channel, 'a, channel_error) act"

definition channel_new :: "nat \<Rightarrow> (('i, 'r) channel, channel_error) res" where
  "channel_new buffer =
     (if buffer = 0 then Abort ''mpsc bounded channel requires buffer > 0''
      else Ok \<lparr>ch_buffer = buffer, ch_queue = [], ch_receiver = True, ch_senders = True, ch_oneshots = []\<rparr>)"

definition channel_send :: "'i channel_data \<Rightarrow> ('i, 'r, unit option) channel_act" where
  "channel_send d = (\<lambda>c.
     if \<not> ch_receiver c then (Fail ChannelClosed, c)
     else if length (ch_queue c) \<ge> ch_buffer c then (Ok None, c)
     else (Ok (Some ()), c\<lparr>ch_queue := ch_queue c @ [d]\<rparr>))"

text \<open>\<^verbatim>\<open>ask\<close> is the sending of the question and then, with the number of its one-shot channel, the
  wait for the answer.\<close>

definition channel_ask :: "'i \<Rightarrow> ('i, 'r, nat option) channel_act" where
  "channel_ask data = (\<lambda>c.
     let sx = length (ch_oneshots c) in
     bindA (channel_send (AskData sx data)) (\<lambda>sent.
     case sent of
       None \<Rightarrow> retA None
     | Some _ \<Rightarrow>
         bindA (modA (\<lambda>c. c\<lparr>ch_oneshots := ch_oneshots c @ [OneshotOpen]\<rparr>)) (\<lambda>_.
         retA (Some sx))) c)"

definition channel_await :: "nat \<Rightarrow> ('i, 'r, 'r option) channel_act" where
  "channel_await rx = getA (\<lambda>c.
     case ch_oneshots c ! rx of
       OneshotAnswered r \<Rightarrow> Ok (Some r)
     | OneshotSenderDropped \<Rightarrow> Fail ChannelClosed
     | _ \<Rightarrow> Ok None)"

definition channel_tell :: "'i \<Rightarrow> ('i, 'r, unit option) channel_act" where
  "channel_tell data = channel_send (TellData data)"

text \<open>Without waiting: a channel that is closed is reported as full.\<close>

definition channel_try_tell :: "'i \<Rightarrow> ('i, 'r, unit) channel_act" where
  "channel_try_tell data = (\<lambda>c.
     if ch_receiver c \<and> length (ch_queue c) < ch_buffer c
     then (Ok (), c\<lparr>ch_queue := ch_queue c @ [TellData data]\<rparr>)
     else (Fail FullQueue, c))"

text \<open>The receiver takes the oldest entry; \<open>Some None\<close> when there is none and all senders are gone.\<close>

definition channel_receive :: "('i, 'r, 'i channel_data option option) channel_act" where
  "channel_receive = (\<lambda>c.
     case ch_queue c of
       d # ds \<Rightarrow> (Ok (Some (Some d)), c\<lparr>ch_queue := ds\<rparr>)
     | [] \<Rightarrow> (Ok (if ch_senders c then None else Some None), c))"

text \<open>\<^verbatim>\<open>oneshot::Sender::send\<close>, false when the one who asked no longer waits; \<open>channel_ignore\<close>: its sender
  is dropped without an answer; \<open>channel_abandon\<close>: nobody waits for the answer any longer.\<close>

definition oneshot_send :: "nat \<Rightarrow> 'r \<Rightarrow> ('i, 'r, bool) channel_act" where
  "oneshot_send sx r = (\<lambda>c.
     if ch_oneshots c ! sx = OneshotReceiverDropped then (Ok False, c)
     else (Ok True, c\<lparr>ch_oneshots := (ch_oneshots c)[sx := OneshotAnswered r]\<rparr>))"

fun oneshot_drop :: "'i channel_data \<Rightarrow> 'r oneshot list \<Rightarrow> 'r oneshot list" where
  "oneshot_drop (AskData sx data) os = (if os ! sx = OneshotOpen then os[sx := OneshotSenderDropped] else os)"
| "oneshot_drop (TellData data) os = os"

definition channel_ignore :: "'i channel_data \<Rightarrow> ('i, 'r) channel \<Rightarrow> ('i, 'r) channel" where
  "channel_ignore d c = c\<lparr>ch_oneshots := oneshot_drop d (ch_oneshots c)\<rparr>"

definition channel_abandon :: "nat \<Rightarrow> ('i, 'r) channel \<Rightarrow> ('i, 'r) channel" where
  "channel_abandon rx c =
     (if ch_oneshots c ! rx = OneshotOpen
      then c\<lparr>ch_oneshots := (ch_oneshots c)[rx := OneshotReceiverDropped]\<rparr> else c)"

text \<open>The receiver is dropped, and all that waits in the queue with it.\<close>

definition channel_close :: "('i, 'r) channel \<Rightarrow> ('i, 'r) channel" where
  "channel_close c =
     c\<lparr>ch_receiver := False, ch_queue := [], ch_oneshots := fold oneshot_drop (ch_queue c) (ch_oneshots c)\<rparr>"

section \<open>The questions that are open\<close>

fun asks_of :: "'i channel_data list \<Rightarrow> (nat \<times> 'i) list" where
  "asks_of [] = []"
| "asks_of (AskData sx data # ds) = (sx, data) # asks_of ds"
| "asks_of (TellData data # ds) = asks_of ds"

lemma asks_of_append [simp]: "asks_of (ds @ es) = asks_of ds @ asks_of es"
  by (induction ds rule: asks_of.induct) auto

text \<open>Each open one-shot channel belongs to exactly one question that waits in the queue, or to the one
  the receiver is working on.\<close>

definition unanswered :: "'r oneshot \<Rightarrow> bool" where
  "unanswered o1 \<longleftrightarrow> o1 = OneshotOpen \<or> o1 = OneshotReceiverDropped"

definition open_ids :: "(nat \<times> 'i) list \<Rightarrow> ('i, 'r) channel \<Rightarrow> nat list" where
  "open_ids held c = map fst (held @ asks_of (ch_queue c))"

lemma open_ids_simps [simp]:
  "open_ids ((sx, data) # held) c = sx # open_ids held c"
  "open_ids held (c\<lparr>ch_oneshots := os\<rparr>) = open_ids held c"
  "open_ids held (c\<lparr>ch_queue := ch_queue c @ [TellData data]\<rparr>) = open_ids held c"
  by (simp_all add: open_ids_def)

lemma nth_update: "xs[i := x] ! j = (if i = j \<and> j < length xs then x else xs ! j)"
  by (cases "i < length xs") (auto simp: list_update_beyond)

definition channel_ok :: "(nat \<times> 'i) list \<Rightarrow> ('i, 'r) channel \<Rightarrow> bool" where
  "channel_ok held c \<longleftrightarrow>
     distinct (open_ids held c) \<and>
     (\<forall>sx \<in> set (open_ids held c). sx < length (ch_oneshots c) \<and> unanswered (ch_oneshots c ! sx)) \<and>
     (\<forall>sx < length (ch_oneshots c). ch_oneshots c ! sx = OneshotOpen \<longrightarrow> sx \<in> set (open_ids held c))"

lemma channel_new_ok: "channel_new buffer = Ok c \<Longrightarrow> channel_ok [] c"
  by (auto simp: channel_new_def channel_ok_def open_ids_def split: if_splits)

lemma channel_tell_ok:
  assumes "channel_ok held c" "channel_tell data c = (r, c')"
  shows "channel_ok held c'"
  using assms by (auto simp: channel_tell_def channel_send_def channel_ok_def split: if_splits)

lemma channel_ask_cases:
  assumes "channel_ask data c = (r, c')"
  obtains "r = Ok (Some (length (ch_oneshots c)))" "length (ch_queue c) < ch_buffer c" "ch_receiver c"
      "c' = c\<lparr>ch_queue := ch_queue c @ [AskData (length (ch_oneshots c)) data],
              ch_oneshots := ch_oneshots c @ [OneshotOpen]\<rparr>"
    | "r = Ok None" "c' = c" | "r = Fail ChannelClosed" "c' = c"
  using assms by (auto simp: channel_ask_def channel_send_def Let_def bindA_run split: if_splits)

lemma channel_ask_ok:
  assumes "channel_ok held c" "channel_ask data c = (r, c')"
  shows "channel_ok held c'"
  using assms(2)
proof (cases rule: channel_ask_cases)
  case 1
  have ids: "open_ids held c' = open_ids held c @ [length (ch_oneshots c)]"
    by (simp add: open_ids_def 1(4))
  have "length (ch_oneshots c) \<notin> set (open_ids held c)"
    using assms(1) by (auto simp: channel_ok_def)
  then show ?thesis using assms(1) ids
    by (auto simp: channel_ok_def 1(4) nth_append less_Suc_eq unanswered_def)
qed (use assms(1) in auto)

lemma channel_receive_ok:
  assumes "channel_ok [] c" "channel_receive c = (Ok (Some (Some d)), c')"
  shows "channel_ok (asks_of [d]) c'"
proof -
  obtain ds where "ch_queue c = d # ds" "c' = c\<lparr>ch_queue := ds\<rparr>"
    using assms(2) by (auto simp: channel_receive_def split: list.splits if_splits)
  then have "open_ids (asks_of [d]) c' = open_ids [] c" "ch_oneshots c' = ch_oneshots c"
    by (cases d; simp add: open_ids_def)+
  with assms(1) show ?thesis by (simp add: channel_ok_def)
qed

lemma oneshot_send_ok:
  assumes "channel_ok [(sx, data)] c" "oneshot_send sx r c = (b, c')"
  shows "channel_ok [] c'"
  using assms by (auto simp: oneshot_send_def channel_ok_def nth_update unanswered_def split: if_splits)

lemma channel_abandon_ok:
  assumes "channel_ok held c" "rx < length (ch_oneshots c)"
  shows "channel_ok held (channel_abandon rx c)"
proof -
  have "open_ids held (channel_abandon rx c) = open_ids held c"
    by (simp add: open_ids_def channel_abandon_def)
  then show ?thesis using assms
    by (auto simp: channel_ok_def channel_abandon_def nth_update unanswered_def)
qed

lemma oneshot_drop_length [simp]: "length (oneshot_drop d os) = length os"
  by (cases d) auto

lemma fold_oneshot_drop_length [simp]: "length (fold oneshot_drop ds os) = length os"
  by (induction ds arbitrary: os) auto

lemma fold_oneshot_drop_nth:
  assumes "sx < length os"
  shows "fold oneshot_drop ds os ! sx =
    (if os ! sx = OneshotOpen \<and> sx \<in> fst ` set (asks_of ds) then OneshotSenderDropped else os ! sx)"
  using assms
proof (induction ds arbitrary: os)
  case (Cons d ds)
  then show ?case by (cases d) (auto simp: nth_update)
qed simp

lemma channel_ignore_ok: "channel_ok (asks_of [d]) c \<Longrightarrow> channel_ok [] (channel_ignore d c)"
  by (cases d) (auto simp: channel_ignore_def channel_ok_def nth_update)

text \<open>Once the receiver is dropped nobody waits in vain.\<close>

lemma channel_close_ok:
  assumes "channel_ok [] c"
  shows "channel_ok [] (channel_close c)"
    and "sx < length (ch_oneshots c) \<Longrightarrow> ch_oneshots (channel_close c) ! sx \<noteq> OneshotOpen"
  using assms by (auto simp: channel_close_def channel_ok_def open_ids_def fold_oneshot_drop_nth split: if_splits)

end
