(* ===== verification/Governance_Manager.thy ===== *)
theory Governance_Manager
  imports Node Channel
begin

text \<open>
  The task of the governance module and its interface (\<^verbatim>\<open>governance/governance.rs\<close>): the questions and
  answers, the loop, and the calls the other modules make over the channel. The laws are in
  \<open>Governance_Manager_Laws\<close>: what \<open>Node\<close> takes a question to be, a reading of the database, is what the
  calls do.
\<close>

section \<open>Questions and answers\<close>

datatype governance_message =
    AskInitState digest_identifier string u64
  | AskSchema digest_identifier string u64
  | AskSigners metadata validation_stage
  | AskQuorum metadata validation_stage
  | AskInvokeInfo metadata validation_stage key_identifier
  | AskContracts digest_identifier u64
  | AskGovernanceVersion digest_identifier digest_identifier
  | AskIsGovernance digest_identifier
  | GovUpdated digest_identifier u64

datatype governance_response =
    GiveInitState "request_error + json"
  | GiveSchema "request_error + json"
  | GiveSigners "request_error + key_identifier set"
  | GiveQuorum "request_error + u32"
  | GiveInvokeInfo "request_error + bool"
  | GiveContracts "request_error + (contract \<times> string) list"
  | GiveGovernanceVersion "request_error + u64"
  | GiveIsGovernance "request_error + bool"
  | GiveNoResponse

text \<open>The two levels of results of the queries: a request error is an answer, an internal error is not.\<close>

definition nested :: "('a, gov_error) res \<Rightarrow> (request_error + 'a, internal_error) res" where
  "nested q =
     (case q of
        Inr x \<Rightarrow> Ok (Inr x)
      | Inl (Err (Request e)) \<Rightarrow> Ok (Inl e)
      | Inl (Err (Internal e)) \<Rightarrow> Fail e
      | Inl (Panic m) \<Rightarrow> Abort m)"

definition governance_reply ::
  "'b env \<Rightarrow> 'b data_store \<Rightarrow> governance_message \<Rightarrow> (governance_response, internal_error) res" where
  "governance_reply E m data =
     (case data of
        AskSchema governance_id schema_id governance_version \<Rightarrow>
          bindR (nested (get_schema E governance_id schema_id governance_version m)) (\<lambda>to_send. Ok (GiveSchema to_send))
      | AskSigners metadata stage \<Rightarrow>
          bindR (nested (get_signers E metadata stage m)) (\<lambda>to_send. Ok (GiveSigners to_send))
      | AskQuorum metadata stage \<Rightarrow>
          bindR (nested (get_quorum E metadata stage m)) (\<lambda>to_send. Ok (GiveQuorum to_send))
      | AskGovernanceVersion governance_id subject_id \<Rightarrow>
          bindR (nested (get_governance_version E subject_id governance_id m)) (\<lambda>version. Ok (GiveGovernanceVersion version))
      | AskIsGovernance subject_id \<Rightarrow>
          bindR (nested (is_governance E subject_id m)) (\<lambda>to_send. Ok (GiveIsGovernance to_send))
      | AskInvokeInfo metadata stage invoker \<Rightarrow>
          bindR (nested (get_issue_create_info E metadata stage invoker m)) (\<lambda>to_send. Ok (GiveInvokeInfo to_send))
      | AskContracts governance_id governance_version \<Rightarrow>
          bindR (nested (get_contracts E governance_id governance_version m)) (\<lambda>to_send. Ok (GiveContracts to_send))
      | AskInitState governance_id schema_id governance_version \<Rightarrow>
          bindR (nested (get_init_state E governance_id schema_id governance_version m)) (\<lambda>to_send. Ok (GiveInitState to_send))
      | GovUpdated _ _ \<Rightarrow> Abort ''unreachable'')"

section \<open>The task\<close>

text \<open>\<open>gt_receivers\<close>: how many tasks are subscribed to the new versions, \<open>gt_updates\<close>: the versions sent to
  them; \<open>gt_cancelled\<close>: the token that all tasks of the node share.\<close>

record 'b governance_task =
  gt_channel :: "(governance_message, governance_response) channel"
  gt_db :: "'b data_store"
  gt_receivers :: nat
  gt_updates :: "(digest_identifier \<times> u64) list"
  gt_cancelled :: bool

type_synonym ('b, 'a, 'e) gov_act = "('b governance_task, 'a, 'e) act"

text \<open>The answer is sent. Only for a quorum is it an unwrap when nobody waits for it.\<close>

definition send_reply :: "nat \<Rightarrow> governance_message \<Rightarrow> governance_response \<Rightarrow> ('b, unit, internal_error) gov_act" where
  "send_reply sx data response =
     bindA (zoomA gt_channel (\<lambda>c s. s\<lparr>gt_channel := c\<rparr>) IChannelError (oneshot_send sx response)) (\<lambda>sent.
     if sent then retA ()
     else case data of AskQuorum _ _ \<Rightarrow> liftA (Abort ''unwrap'') | _ \<Rightarrow> failA OneshotClosed)"

definition governance_process_input ::
  "'b env \<Rightarrow> governance_message channel_data option \<Rightarrow> ('b, unit, internal_error) gov_act" where
  "governance_process_input E input =
     (case input of
        Some (AskData sx data) \<Rightarrow>
          bindA (getA (\<lambda>s. governance_reply E (gt_db s) data)) (\<lambda>response. send_reply sx data response)
      | Some (TellData (GovUpdated governance_id governance_version)) \<Rightarrow>
          bindA (getA (\<lambda>s. nested (governance_updated (gt_receivers s) governance_id governance_version))) (\<lambda>result.
          case result of
            Inr update \<Rightarrow> modA (\<lambda>s. s\<lparr>gt_updates := gt_updates s @ [update]\<rparr>)
          | Inl error \<Rightarrow> retA ())
      | Some (TellData _) \<Rightarrow> liftA (Abort ''unreachable'')
      | None \<Rightarrow> failA (IChannelError ChannelClosed))"

text \<open>When the task ends, its channel is dropped and with it what waits there. A panic ends it without
  cancelling the token.\<close>

definition governance_end :: "'b governance_task \<Rightarrow> 'b governance_task" where
  "governance_end s = s\<lparr>gt_channel := channel_close (gt_channel s)\<rparr>"

definition governance_ignore ::
  "governance_message channel_data option \<Rightarrow> 'b governance_task \<Rightarrow> 'b governance_task" where
  "governance_ignore input s =
     (case input of Some d \<Rightarrow> s\<lparr>gt_channel := channel_ignore d (gt_channel s)\<rparr> | None \<Rightarrow> s)"

definition governance_message_turn :: "'b env \<Rightarrow> ('b, bool, unit) gov_act" where
  "governance_message_turn E = (\<lambda>s.
     case channel_receive (gt_channel s) of
       (Inr (Some input), c) \<Rightarrow>
         (case governance_process_input E input (s\<lparr>gt_channel := c\<rparr>) of
            (Inr _, t) \<Rightarrow> (Ok True, t)
          | (Inl (Err _), t) \<Rightarrow> (Ok False, (governance_end (governance_ignore input t))\<lparr>gt_cancelled := True\<rparr>)
          | (Inl (Panic m), t) \<Rightarrow> (Abort m, governance_end (governance_ignore input t)))
     | _ \<Rightarrow> (Ok True, s))"

definition governance_shutdown :: "('b, bool, unit) gov_act" where
  "governance_shutdown = (\<lambda>s. (Ok False, (governance_end s)\<lparr>gt_cancelled := True\<rparr>))"

section \<open>The calls of the other modules\<close>

text \<open>A call is its question and what it takes from the answer.\<close>

type_synonym 'a governance_call = "governance_message \<times> (governance_response \<Rightarrow> (request_error + 'a) option)"

definition call_get_init_state :: "digest_identifier \<Rightarrow> string \<Rightarrow> u64 \<Rightarrow> json governance_call" where
  "call_get_init_state governance_id schema_id governance_version =
     (AskInitState governance_id schema_id governance_version,
      \<lambda>response. case response of GiveInitState init_state \<Rightarrow> Some init_state | _ \<Rightarrow> None)"

definition call_get_schema :: "digest_identifier \<Rightarrow> string \<Rightarrow> u64 \<Rightarrow> json governance_call" where
  "call_get_schema governance_id schema_id governance_version =
     (AskSchema governance_id schema_id governance_version,
      \<lambda>response. case response of GiveSchema schema \<Rightarrow> Some schema | _ \<Rightarrow> None)"

definition call_get_signers :: "metadata \<Rightarrow> validation_stage \<Rightarrow> key_identifier set governance_call" where
  "call_get_signers metadata stage =
     (AskSigners metadata stage, \<lambda>response. case response of GiveSigners signers \<Rightarrow> Some signers | _ \<Rightarrow> None)"

definition call_get_quorum :: "metadata \<Rightarrow> validation_stage \<Rightarrow> u32 governance_call" where
  "call_get_quorum metadata stage =
     (AskQuorum metadata stage, \<lambda>response. case response of GiveQuorum quorum \<Rightarrow> Some quorum | _ \<Rightarrow> None)"

definition call_get_invoke_info :: "metadata \<Rightarrow> validation_stage \<Rightarrow> key_identifier \<Rightarrow> bool governance_call" where
  "call_get_invoke_info metadata stage invoker =
     (AskInvokeInfo metadata stage invoker,
      \<lambda>response. case response of GiveInvokeInfo invoke_info \<Rightarrow> Some invoke_info | _ \<Rightarrow> None)"

definition call_get_contracts :: "digest_identifier \<Rightarrow> u64 \<Rightarrow> (contract \<times> string) list governance_call" where
  "call_get_contracts governance_id governance_version =
     (AskContracts governance_id governance_version,
      \<lambda>response. case response of GiveContracts contracts \<Rightarrow> Some contracts | _ \<Rightarrow> None)"

definition call_get_governance_version :: "digest_identifier \<Rightarrow> digest_identifier \<Rightarrow> u64 governance_call" where
  "call_get_governance_version governance_id subject_id =
     (AskGovernanceVersion governance_id subject_id,
      \<lambda>response. case response of GiveGovernanceVersion version \<Rightarrow> Some version | _ \<Rightarrow> None)"

definition call_is_governance :: "digest_identifier \<Rightarrow> bool governance_call" where
  "call_is_governance subject_id =
     (AskIsGovernance subject_id, \<lambda>response. case response of GiveIsGovernance result \<Rightarrow> Some result | _ \<Rightarrow> None)"

text \<open>The question is sent, and then its answer awaited: \<open>None\<close> while there is none.\<close>

definition call_send :: "'a governance_call \<Rightarrow> ('b, nat option, request_error) gov_act" where
  "call_send call =
     zoomA gt_channel (\<lambda>c s. s\<lparr>gt_channel := c\<rparr>) (\<lambda>_. RChannelClosed) (channel_ask (fst call))"

definition call_await :: "'a governance_call \<Rightarrow> nat \<Rightarrow> 'b governance_task \<Rightarrow> ('a, request_error) res option" where
  "call_await call rx s =
     (case fst (channel_await rx (gt_channel s)) of
        Inl _ \<Rightarrow> Some (Fail RChannelClosed)
      | Inr None \<Rightarrow> None
      | Inr (Some response) \<Rightarrow>
          (case snd call response of
             Some (Inr x) \<Rightarrow> Some (Ok x)
           | Some (Inl e) \<Rightarrow> Some (Fail e)
           | None \<Rightarrow> Some (Fail RUnexpectedResponse)))"

text \<open>A new version is told, not asked for.\<close>

definition tell_governance_updated :: "digest_identifier \<Rightarrow> u64 \<Rightarrow> ('b, unit option, request_error) gov_act" where
  "tell_governance_updated governance_id governance_version =
     zoomA gt_channel (\<lambda>c s. s\<lparr>gt_channel := c\<rparr>) (\<lambda>_. RChannelClosed)
       (channel_tell (GovUpdated governance_id governance_version))"

end
