(* ===== verification/Governance_Manager_Laws.thy ===== *)
theory Governance_Manager_Laws
  imports Governance_Manager
begin

text \<open>
  The runs of the governance module: other tasks ask and tell at any time, stop waiting, and change the
  database. The answer to a question is what the query gives on the database the module read for it,
  so \<open>ask_gov\<close> of \<open>Node\<close>, which reads the database at once, is what a call does.
\<close>

section \<open>What a turn does to the channel\<close>

lemma close_answered [simp]:
  assumes "sx < length (ch_oneshots c)"
  shows "ch_oneshots (channel_close c) ! sx = OneshotAnswered r \<longleftrightarrow> ch_oneshots c ! sx = OneshotAnswered r"
    and "ch_oneshots (channel_close c) ! sx = OneshotReceiverDropped \<longleftrightarrow> ch_oneshots c ! sx = OneshotReceiverDropped"
  using assms by (auto simp: channel_close_def fold_oneshot_drop_nth)

lemma ignore_answered [simp]:
  "ch_oneshots (channel_ignore d c) ! sx = OneshotAnswered r \<longleftrightarrow> ch_oneshots c ! sx = OneshotAnswered r"
  "ch_oneshots (channel_ignore d c) ! sx = OneshotReceiverDropped \<longleftrightarrow> ch_oneshots c ! sx = OneshotReceiverDropped"
  by (cases d; auto simp: channel_ignore_def nth_update)+

lemma close_sel [simp]:
  "ch_queue (channel_close c) = []" "\<not> ch_receiver (channel_close c)"
  "length (ch_oneshots (channel_close c)) = length (ch_oneshots c)"
  "length (ch_oneshots (channel_ignore d c)) = length (ch_oneshots c)"
  "ch_queue (channel_ignore d c) = ch_queue c"
  by (simp_all add: channel_close_def channel_ignore_def)

lemma zoom_oneshot_send:
  "zoomA gt_channel (\<lambda>c s. s\<lparr>gt_channel := c\<rparr>) f (oneshot_send sx resp) s =
     (if ch_oneshots (gt_channel s) ! sx = OneshotReceiverDropped then (Ok False, s)
      else (Ok True, s\<lparr>gt_channel := (gt_channel s)
        \<lparr>ch_oneshots := (ch_oneshots (gt_channel s))[sx := OneshotAnswered resp]\<rparr>\<rparr>))"
  by (simp add: zoomA_def oneshot_send_def)

text \<open>The four ends of a turn: nothing to do, an answer, a notice handled, the end of the task.\<close>

lemma turn_cases:
  assumes "governance_message_turn E s = (r, t)"
  obtains (idle) "t = s" "ch_queue (gt_channel s) = []"
    | (answer) sx data ds resp where "ch_queue (gt_channel s) = AskData sx data # ds"
        "governance_reply E (gt_db s) data = Ok resp"
        "ch_oneshots (gt_channel s) ! sx \<noteq> OneshotReceiverDropped"
        "gt_channel t = (gt_channel s)\<lparr>ch_queue := ds,
           ch_oneshots := (ch_oneshots (gt_channel s))[sx := OneshotAnswered resp]\<rparr>"
    | (told) data ds where "ch_queue (gt_channel s) = TellData data # ds"
        "gt_channel t = (gt_channel s)\<lparr>ch_queue := ds\<rparr>"
    | (ended) d ds where "ch_queue (gt_channel s) = d # ds"
        "gt_channel t = channel_close (channel_ignore d ((gt_channel s)\<lparr>ch_queue := ds\<rparr>))"
    | (closed) "ch_queue (gt_channel s) = []" "gt_channel t = channel_close (gt_channel s)"
proof (cases "ch_queue (gt_channel s)")
  case Nil
  with assms idle closed show ?thesis
    by (auto simp: governance_message_turn_def channel_receive_def governance_process_input_def
        governance_end_def governance_ignore_def split: if_splits)
next
  case (Cons d ds)
  define u where "u = s\<lparr>gt_channel := (gt_channel s)\<lparr>ch_queue := ds\<rparr>\<rparr>"
  obtain p v where p: "governance_process_input E (Some d) u = (p, v)" by fastforce
  have turn: "t = (case p of Inr _ \<Rightarrow> v
      | Inl (Err _) \<Rightarrow> (governance_end (governance_ignore (Some d) v))\<lparr>gt_cancelled := True\<rparr>
      | Inl (Panic _) \<Rightarrow> governance_end (governance_ignore (Some d) v))"
    using assms Cons p
    by (auto simp: governance_message_turn_def channel_receive_def u_def split: sum.splits failure.splits)
  have failed: thesis if "\<not> is_Ok p" "gt_channel v = gt_channel u"
  proof -
    have "gt_channel t = channel_close (channel_ignore d ((gt_channel s)\<lparr>ch_queue := ds\<rparr>))"
      using that turn
      by (cases p) (auto simp: governance_end_def governance_ignore_def u_def split: failure.splits)
    with Cons show thesis by (rule ended)
  qed
  show ?thesis
  proof (cases d)
    case (TellData data)
    have v: "gt_channel v = gt_channel u"
      using p TellData
      by (cases data) (auto simp: governance_process_input_def bindA_run getA_def modA_def retA_def liftA_def
          split: sum.splits prod.splits)
    show ?thesis
    proof (cases "is_Ok p")
      case True
      then have "gt_channel t = (gt_channel s)\<lparr>ch_queue := ds\<rparr>"
        using turn v by (auto simp: is_Ok_iff u_def)
      with Cons TellData show ?thesis by (intro told) simp_all
    next
      case False
      from failed [OF this v] show ?thesis .
    qed
  next
    case (AskData sx data)
    show ?thesis
    proof (cases "\<exists>resp. governance_reply E (gt_db s) data = Ok resp \<and> ch_oneshots (gt_channel s) ! sx \<noteq> OneshotReceiverDropped")
      case True
      then obtain resp where resp: "governance_reply E (gt_db s) data = Ok resp"
        "ch_oneshots (gt_channel s) ! sx \<noteq> OneshotReceiverDropped" by blast
      then have "p = Ok ()" "gt_channel v = (gt_channel s)\<lparr>ch_queue := ds,
          ch_oneshots := (ch_oneshots (gt_channel s))[sx := OneshotAnswered resp]\<rparr>"
        using p AskData by (auto simp: governance_process_input_def send_reply_def zoom_oneshot_send bindA_run
            getA_def retA_def u_def)
      with resp Cons AskData turn show ?thesis by (intro answer) simp_all
    next
      case False
      then have "\<not> is_Ok p" "gt_channel v = gt_channel u"
        using p AskData by (auto simp: governance_process_input_def send_reply_def zoom_oneshot_send bindA_run
            getA_def retA_def failA_def liftA_def u_def split: sum.splits prod.splits governance_message.splits)
      then show ?thesis by (rule failed)
    qed
  qed
qed

section \<open>Runs\<close>

text \<open>\<open>gr_asked\<close>: the question of every one-shot channel; \<open>gr_read\<close>: the database the module had when it
  turned to a question.\<close>

record 'b governance_run =
  gr_task :: "'b governance_task"
  gr_asked :: "governance_message list"
  gr_read :: "nat \<rightharpoonup> 'b data_store"

abbreviation gr_channel :: "'b governance_run \<Rightarrow> (governance_message, governance_response) channel" where
  "gr_channel r \<equiv> gt_channel (gr_task r)"

definition with_channel ::
  "(governance_message, governance_response) channel \<Rightarrow> 'b governance_run \<Rightarrow> 'b governance_run" where
  "with_channel c r = r\<lparr>gr_task := (gr_task r)\<lparr>gt_channel := c\<rparr>\<rparr>"

definition now_read :: "'b governance_run \<Rightarrow> nat \<rightharpoonup> 'b data_store" where
  "now_read r =
     (case ch_queue (gr_channel r) of
        AskData sx _ # _ \<Rightarrow> (gr_read r)(sx \<mapsto> gt_db (gr_task r))
      | _ \<Rightarrow> gr_read r)"

inductive gov_step :: "'b env \<Rightarrow> 'b governance_run \<Rightarrow> 'b governance_run \<Rightarrow> bool" for E where
  Ask: "channel_ask msg (gr_channel r) = (Ok (Some sx), c) \<Longrightarrow>
    gov_step E r ((with_channel c r)\<lparr>gr_asked := gr_asked r @ [msg]\<rparr>)"
| Tell: "channel_tell msg (gr_channel r) = (Ok (Some ()), c) \<Longrightarrow> gov_step E r (with_channel c r)"
| Abandon: "rx < length (gr_asked r) \<Longrightarrow> gov_step E r (with_channel (channel_abandon rx (gr_channel r)) r)"
| Others: "gov_step E r (r\<lparr>gr_task := (gr_task r)\<lparr>gt_db := d, gt_receivers := n\<rparr>\<rparr>)"
| Turn: "ch_receiver (gr_channel r) \<Longrightarrow> governance_message_turn E (gr_task r) = (x, t) \<Longrightarrow>
    gov_step E r (r\<lparr>gr_task := t, gr_read := now_read r\<rparr>)"
| Shutdown: "governance_shutdown (gr_task r) = (x, t) \<Longrightarrow> gov_step E r (r\<lparr>gr_task := t\<rparr>)"

definition gov_start :: "(governance_message, governance_response) channel \<Rightarrow> 'b data_store \<Rightarrow> nat \<Rightarrow> 'b governance_run" where
  "gov_start c d n =
     \<lparr>gr_task = \<lparr>gt_channel = c, gt_db = d, gt_receivers = n, gt_updates = [], gt_cancelled = False\<rparr>,
      gr_asked = [], gr_read = Map.empty\<rparr>"

definition gov_inv :: "'b env \<Rightarrow> 'b governance_run \<Rightarrow> bool" where
  "gov_inv E r \<longleftrightarrow>
     channel_ok [] (gr_channel r) \<and> length (gr_asked r) = length (ch_oneshots (gr_channel r)) \<and>
     (\<forall>(sx, msg) \<in> set (asks_of (ch_queue (gr_channel r))). gr_asked r ! sx = msg) \<and>
     (\<forall>sx < length (gr_asked r). \<forall>resp. ch_oneshots (gr_channel r) ! sx = OneshotAnswered resp \<longrightarrow>
        (\<exists>d. gr_read r sx = Some d \<and> governance_reply E d (gr_asked r ! sx) = Ok resp)) \<and>
     (ch_receiver (gr_channel r) \<longrightarrow> OneshotSenderDropped \<notin> set (ch_oneshots (gr_channel r))) \<and>
     (\<not> ch_receiver (gr_channel r) \<longrightarrow> ch_queue (gr_channel r) = [])"

lemma with_channel_sel [simp]:
  "gr_channel (with_channel c r) = c" "gr_asked (with_channel c r) = gr_asked r"
  "gr_read (with_channel c r) = gr_read r"
  by (simp_all add: with_channel_def)

lemma gov_start_inv: "channel_new buffer = Ok c \<Longrightarrow> gov_inv E (gov_start c d n)"
  using channel_new_ok [of buffer c]
  by (auto simp: gov_start_def gov_inv_def channel_new_def split: if_splits)

lemma gov_inv_shutdown:
  assumes "gov_inv E r" "gt_channel t = channel_close (gr_channel r)"
  shows "gov_inv E (r\<lparr>gr_task := t\<rparr>)"
  using assms channel_close_ok(1) [of "gr_channel r"] by (auto simp: gov_inv_def)

lemma gov_inv_ask:
  assumes "gov_inv E r" "channel_ask msg (gr_channel r) = (Ok (Some sx), c)"
  shows "gov_inv E ((with_channel c r)\<lparr>gr_asked := gr_asked r @ [msg]\<rparr>)"
  using assms(2)
proof (cases rule: channel_ask_cases)
  case 1
  have "channel_ok [] c" using channel_ask_ok [OF _ assms(2)] assms(1) by (simp add: gov_inv_def)
  moreover have "sx' < length (gr_asked r)" if "(sx', m) \<in> set (asks_of (ch_queue (gr_channel r)))" for sx' m
  proof -
    have "sx' \<in> set (open_ids [] (gr_channel r))" using that by (force simp: open_ids_def)
    then show ?thesis using assms(1) unfolding gov_inv_def channel_ok_def by metis
  qed
  moreover have "OneshotSenderDropped \<notin> set (ch_oneshots c)"
    using assms(1) 1(3,4) by (simp add: gov_inv_def)
  moreover have "\<exists>d. gr_read r sx' = Some d \<and> governance_reply E d ((gr_asked r @ [msg]) ! sx') = Ok resp"
    if "sx' < Suc (length (gr_asked r))" "ch_oneshots c ! sx' = OneshotAnswered resp" for sx' resp
    using that assms(1) 1(4) by (auto simp: gov_inv_def nth_append less_Suc_eq)
  ultimately show ?thesis using assms(1) 1(3,4)
    unfolding gov_inv_def with_channel_def by (fastforce simp: nth_append)
qed simp_all

lemma gov_inv_tell:
  assumes "gov_inv E r" "channel_tell msg (gr_channel r) = (Ok (Some ()), c)"
  shows "gov_inv E (with_channel c r)"
proof -
  have c: "c = (gr_channel r)\<lparr>ch_queue := ch_queue (gr_channel r) @ [TellData msg]\<rparr>" "ch_receiver (gr_channel r)"
    using assms(2) by (auto simp: channel_tell_def channel_send_def split: if_splits)
  have "channel_ok [] c" using channel_tell_ok [OF _ assms(2)] assms(1) by (simp add: gov_inv_def)
  with assms(1) c show ?thesis by (simp add: gov_inv_def with_channel_def)
qed

lemma gov_inv_abandon:
  assumes "gov_inv E r" "rx < length (gr_asked r)"
  shows "gov_inv E (with_channel (channel_abandon rx (gr_channel r)) r)"
proof -
  have "channel_ok [] (channel_abandon rx (gr_channel r))"
    using channel_abandon_ok [of "[]" "gr_channel r" rx] assms by (simp add: gov_inv_def)
  moreover have "ch_oneshots (channel_abandon rx (gr_channel r)) ! sx = OneshotAnswered resp \<longleftrightarrow>
      ch_oneshots (gr_channel r) ! sx = OneshotAnswered resp" for sx resp
    by (auto simp: channel_abandon_def nth_update)
  moreover have "OneshotSenderDropped \<notin> set os \<Longrightarrow> OneshotSenderDropped \<notin> set (os[rx := OneshotReceiverDropped])"
    for os :: "governance_response oneshot list"
    using set_update_subset_insert [of os rx OneshotReceiverDropped] by auto
  ultimately show ?thesis using assms(1)
    by (auto simp: gov_inv_def with_channel_def) (auto simp: channel_abandon_def split: if_splits)
qed

lemma gov_inv_turn:
  assumes "gov_inv E r" "governance_message_turn E (gr_task r) = (x, t)"
  shows "gov_inv E (r\<lparr>gr_task := t, gr_read := now_read r\<rparr>)"
  using assms(2)
proof (cases rule: turn_cases)
  case idle
  with assms(1) show ?thesis by (simp add: now_read_def)
next
  case closed
  with gov_inv_shutdown [OF assms(1) closed(2)] show ?thesis by (simp add: now_read_def gov_inv_def)
next
  case (told data ds)
  have "open_ids [] ((gr_channel r)\<lparr>ch_queue := ds\<rparr>) = open_ids [] (gr_channel r)"
    using told(1) by (simp add: open_ids_def)
  with assms(1) told show ?thesis by (simp add: gov_inv_def channel_ok_def now_read_def)
next
  case (answer sx data ds resp)
  let ?c = "(gr_channel r)\<lparr>ch_queue := ds\<rparr>"
  have ids: "open_ids [] (gr_channel r) = sx # open_ids [] ?c"
    using answer(1) by (simp add: open_ids_def)
  have "channel_receive (gr_channel r) = (Ok (Some (Some (AskData sx data))), ?c)"
    by (simp add: channel_receive_def answer(1))
  from channel_receive_ok [OF _ this] have "channel_ok [(sx, data)] ?c"
    using assms(1) by (simp add: gov_inv_def)
  from oneshot_send_ok [OF this, of resp "Ok True"] have ok: "channel_ok [] (gt_channel t)"
    using answer(3,4) by (simp add: oneshot_send_def)
  have asked: "gr_asked r ! sx = data"
    using assms(1) answer(1) by (simp add: gov_inv_def)
  have "\<exists>d. now_read r sx' = Some d \<and> governance_reply E d (gr_asked r ! sx') = Ok resp'"
    if "sx' < length (gr_asked r)" "ch_oneshots (gt_channel t) ! sx' = OneshotAnswered resp'" for sx' resp'
    using that assms(1) answer asked
    by (cases "sx' = sx") (auto simp: gov_inv_def now_read_def nth_update split: if_splits)
  moreover have "OneshotSenderDropped \<notin> set os \<Longrightarrow> OneshotSenderDropped \<notin> set (os[sx := OneshotAnswered resp])"
    for os :: "governance_response oneshot list"
    using set_update_subset_insert [of os sx "OneshotAnswered resp"] by auto
  ultimately show ?thesis using assms(1) ok answer(1,4) by (simp add: gov_inv_def)
next
  case (ended d ds)
  let ?c = "(gr_channel r)\<lparr>ch_queue := ds\<rparr>"
  have "channel_receive (gr_channel r) = (Ok (Some (Some d)), ?c)"
    by (simp add: channel_receive_def ended(1))
  from channel_close_ok(1) [OF channel_ignore_ok [OF channel_receive_ok [OF _ this]]]
  have ok: "channel_ok [] (gt_channel t)"
    using assms(1) ended(2) by (simp add: gov_inv_def)
  have "\<exists>d. now_read r sx = Some d \<and> governance_reply E d (gr_asked r ! sx) = Ok resp"
    if "sx < length (gr_asked r)" "ch_oneshots (gt_channel t) ! sx = OneshotAnswered resp" for sx resp
  proof -
    have old: "ch_oneshots (gr_channel r) ! sx = OneshotAnswered resp"
      using that assms(1) ended(2) by (simp add: gov_inv_def)
    have "sx \<notin> set (open_ids [] (gr_channel r))"
      using assms(1) old by (auto simp: gov_inv_def channel_ok_def unanswered_def)
    then have "now_read r sx = gr_read r sx"
      using ended(1) by (cases d) (auto simp: now_read_def open_ids_def)
    with assms(1) that(1) old show ?thesis by (simp add: gov_inv_def)
  qed
  with assms(1) ok ended(2) show ?thesis by (simp add: gov_inv_def)
qed

theorem gov_step_inv: "gov_step E r r' \<Longrightarrow> gov_inv E r \<Longrightarrow> gov_inv E r'"
proof (induction rule: gov_step.induct)
  case (Others r d n)
  then show ?case by (simp add: gov_inv_def)
next
  case (Shutdown r x t)
  then have "gt_channel t = channel_close (gr_channel r)"
    by (auto simp: governance_shutdown_def governance_end_def)
  then show ?case by (rule gov_inv_shutdown [OF Shutdown(2)])
qed (blast intro: gov_inv_ask gov_inv_tell gov_inv_abandon gov_inv_turn)+

lemma gov_run_inv: "(gov_step E)\<^sup>*\<^sup>* r r' \<Longrightarrow> gov_inv E r \<Longrightarrow> gov_inv E r'"
  by (induction rule: rtranclp_induct) (blast intro: gov_step_inv)+

section \<open>Answers\<close>

text \<open>A call and the query it stands for.\<close>

definition reads :: "'b env \<Rightarrow> 'a governance_call \<Rightarrow> ('b data_store \<Rightarrow> ('a, gov_error) res) \<Rightarrow> bool" where
  "reads E call q \<longleftrightarrow>
     (\<forall>d resp. governance_reply E d (fst call) = Ok resp \<longrightarrow>
        (\<exists>a. snd call resp = Some a \<and> nested (q d) = Ok a))"

lemma calls_read [intro, simp]:
  "reads E (call_get_init_state g i v) (get_init_state E g i v)"
  "reads E (call_get_schema g i v) (get_schema E g i v)"
  "reads E (call_get_signers md st) (get_signers E md st)"
  "reads E (call_get_quorum md st) (get_quorum E md st)"
  "reads E (call_get_invoke_info md st k) (get_issue_create_info E md st k)"
  "reads E (call_get_contracts g v) (get_contracts E g v)"
  "reads E (call_get_governance_version g h) (get_governance_version E h g)"
  "reads E (call_is_governance h) (is_governance E h)"
  by (auto simp: reads_def governance_reply_def call_get_init_state_def call_get_schema_def
      call_get_signers_def call_get_quorum_def call_get_invoke_info_def call_get_contracts_def
      call_get_governance_version_def call_is_governance_def bindR_eq_Inr)

text \<open>What a waiting call sees: nothing yet, the end of the task, or what \<open>ask_gov\<close> gives on the database
  that was read for it.\<close>

definition answered_as ::
  "'a governance_call \<Rightarrow> ('b data_store \<Rightarrow> ('a, gov_error) res) \<Rightarrow> nat \<Rightarrow> 'b governance_run \<Rightarrow> bool" where
  "answered_as call q rx r \<longleftrightarrow>
     (gr_asked r ! rx = fst call \<longrightarrow>
        call_await call rx (gr_task r) = None \<or>
        call_await call rx (gr_task r) = Some (Fail RChannelClosed) \<and> \<not> ch_receiver (gr_channel r) \<or>
        (\<exists>d. gr_read r rx = Some d \<and>
           (\<forall>s :: 'b node. nd_db s = d \<longrightarrow> nd_gov_alive s \<longrightarrow>
              call_await call rx (gr_task r) = Some (fst (ask_gov (\<lambda>e. e) q s)))))"

lemma ask_gov_nested:
  assumes "nested (q (nd_db s)) = Ok a" "nd_gov_alive s"
  shows "fst (ask_gov (\<lambda>e. e) q s) = (case a of Inr x \<Rightarrow> Ok x | Inl e \<Rightarrow> Fail e)"
  using assms by (auto simp: ask_gov_def nested_def split: sum.splits failure.splits gov_error.splits)

lemma gov_inv_answered:
  assumes "gov_inv E r" "rx < length (gr_asked r)" "ch_oneshots (gr_channel r) ! rx = OneshotAnswered resp"
  obtains d where "gr_read r rx = Some d" "governance_reply E d (gr_asked r ! rx) = Ok resp"
  using assms unfolding gov_inv_def by blast

lemma call_answered:
  assumes "gov_inv E r" "rx < length (gr_asked r)" "reads E call q"
  shows "answered_as call q rx r"
  unfolding answered_as_def
proof (intro impI, goal_cases)
  case 1
  show ?case
  proof (cases "ch_oneshots (gr_channel r) ! rx")
    case OneshotSenderDropped
    moreover have "rx < length (ch_oneshots (gr_channel r))"
      using assms(1,2) by (simp add: gov_inv_def)
    ultimately have "\<not> ch_receiver (gr_channel r)"
      using assms(1) unfolding gov_inv_def by (metis nth_mem)
    with OneshotSenderDropped show ?thesis by (simp add: call_await_def channel_await_def getA_def)
  next
    case (OneshotAnswered resp)
    with assms(1,2) obtain d where d: "gr_read r rx = Some d" "governance_reply E d (fst call) = Ok resp"
      unfolding 1 [symmetric] by (rule gov_inv_answered)
    with assms(3) obtain a where a: "snd call resp = Some a" "nested (q d) = Ok a"
      by (auto simp: reads_def)
    from OneshotAnswered a(1) have "call_await call rx (gr_task r) = Some (case a of Inr x \<Rightarrow> Ok x | Inl e \<Rightarrow> Fail e)"
      by (cases a) (simp_all add: call_await_def channel_await_def getA_def)
    with d(1) a(2) ask_gov_nested show ?thesis by metis
  qed (simp_all add: call_await_def channel_await_def getA_def)
qed

section \<open>Nobody waits for ever\<close>

fun governance_turns :: "'b env \<Rightarrow> nat \<Rightarrow> 'b governance_task \<Rightarrow> 'b governance_task" where
  "governance_turns E 0 s = s"
| "governance_turns E (Suc n) s =
     governance_turns E n (if ch_receiver (gt_channel s) then snd (governance_message_turn E s) else s)"

lemma turn_queue:
  assumes "governance_message_turn E s = (x, t)"
  shows "length (ch_queue (gt_channel t)) \<le> length (ch_queue (gt_channel s)) - 1"
    and "length (ch_oneshots (gt_channel t)) = length (ch_oneshots (gt_channel s))"
    and "rx < length (ch_oneshots (gt_channel s)) \<Longrightarrow> ch_oneshots (gt_channel t) ! rx = OneshotReceiverDropped \<Longrightarrow>
      ch_oneshots (gt_channel s) ! rx = OneshotReceiverDropped"
  using assms by (cases rule: turn_cases; simp add: nth_update split: if_splits)+

lemma turns_run:
  "\<exists>reads. (gov_step E)\<^sup>*\<^sup>* r (r\<lparr>gr_task := governance_turns E n (gr_task r), gr_read := reads\<rparr>)"
proof (induction n arbitrary: r)
  case (Suc n)
  show ?case
  proof (cases "ch_receiver (gr_channel r)")
    case True
    let ?r = "r\<lparr>gr_task := snd (governance_message_turn E (gr_task r)), gr_read := now_read r\<rparr>"
    have "gov_step E r ?r"
      using True by (rule gov_step.Turn) (rule prod.collapse [symmetric])
    with Suc [of ?r] True show ?thesis by (auto intro: converse_rtranclp_into_rtranclp)
  qed (use Suc in simp)
next
  case 0
  show ?case by (intro exI [of _ "gr_read r"]) simp
qed

lemma turn_closed:
  assumes "governance_message_turn E s = (x, t)" "ch_receiver (gt_channel s)" "\<not> ch_receiver (gt_channel t)"
  shows "ch_queue (gt_channel t) = []"
  using assms by (cases rule: turn_cases) simp_all

lemma turns_queue:
  assumes "\<not> ch_receiver (gt_channel s) \<Longrightarrow> ch_queue (gt_channel s) = []"
  shows "length (ch_queue (gt_channel (governance_turns E n s))) \<le> length (ch_queue (gt_channel s)) - n \<and>
    (rx < length (ch_oneshots (gt_channel s)) \<longrightarrow>
      ch_oneshots (gt_channel (governance_turns E n s)) ! rx = OneshotReceiverDropped \<longrightarrow>
      ch_oneshots (gt_channel s) ! rx = OneshotReceiverDropped)"
  using assms
proof (induction n arbitrary: s)
  case (Suc n)
  show ?case
  proof (cases "ch_receiver (gt_channel s)")
    case True
    obtain x t where t: "governance_message_turn E s = (x, t)" by fastforce
    note turn = turn_queue [OF t] and closed = turn_closed [OF t True]
    have "length (ch_queue (gt_channel (governance_turns E n t))) \<le> length (ch_queue (gt_channel s)) - Suc n"
      using Suc(1) [OF closed, THEN conjunct1] turn(1) by arith
    with Suc(1) [OF closed] turn(2,3) True t show ?thesis by auto
  next
    case False
    with Suc(1) [of s] Suc(2) show ?thesis by simp
  qed
qed simp

text \<open>After as many turns as messages wait every question has its answer, if the one who asked still waits.\<close>

lemma turns_answer:
  assumes "gov_inv E r" "rx < length (gr_asked r)"
    and "ch_oneshots (gr_channel r) ! rx \<noteq> OneshotReceiverDropped" "length (ch_queue (gr_channel r)) \<le> n"
  shows "call_await call rx (governance_turns E n (gr_task r)) \<noteq> None"
proof -
  let ?c = "gt_channel (governance_turns E n (gr_task r))"
  obtain reads where "gov_inv E (r\<lparr>gr_task := governance_turns E n (gr_task r), gr_read := reads\<rparr>)"
    using turns_run [of E r n] gov_run_inv assms(1) by metis
  then have inv: "channel_ok [] ?c" "length (gr_asked r) = length (ch_oneshots ?c)"
    by (simp_all add: gov_inv_def)
  have quiet: "\<not> ch_receiver (gr_channel r) \<Longrightarrow> ch_queue (gr_channel r) = []"
    and old: "length (gr_asked r) = length (ch_oneshots (gr_channel r))"
    using assms(1) by (simp_all add: gov_inv_def)
  from turns_queue [OF quiet, where n = n and E = E and rx = rx] assms(2-4) old
  have "ch_queue ?c = []" "ch_oneshots ?c ! rx \<noteq> OneshotReceiverDropped" by auto
  moreover from this inv assms(2) have "ch_oneshots ?c ! rx \<noteq> OneshotOpen"
    by (auto simp: channel_ok_def open_ids_def)
  ultimately show ?thesis
    by (cases "ch_oneshots ?c ! rx")
      (auto simp: call_await_def channel_await_def getA_def split: option.splits sum.splits)
qed

end
