(* ===== verification/Key_Pairs.thy ===== *)
theory Key_Pairs
  imports Env
begin

text \<open>
  Key pairs (\<^verbatim>\<open>commons/crypto\<close>): how they are made from seeds and keys, their bytes and texts, and
  reading them back. \<^verbatim>\<open>ed25519-dalek\<close>, \<^verbatim>\<open>libsecp256k1\<close>, \<^verbatim>\<open>hex\<close> and \<^verbatim>\<open>getrandom\<close> are parameters; keys are their
  serialised bytes. Signing and verifying are in \<open>Env\<close>.
\<close>

section \<open>The libraries\<close>

text \<open>\<open>cl_secret\<close> and \<open>cl_public\<close> parse a key and give it in its serialised form; \<open>cl_public_of\<close> is the
  public key of a secret one.\<close>

record crypto_lib =
  cl_random :: "bytes option"
  cl_secret :: "key_derivator \<Rightarrow> bytes \<Rightarrow> bytes option"
  cl_public :: "key_derivator \<Rightarrow> bytes \<Rightarrow> bytes option"
  cl_public_of :: "key_derivator \<Rightarrow> bytes \<Rightarrow> bytes"
  cl_hex :: "string \<Rightarrow> bytes option"

definition create_seed :: "crypto_lib \<Rightarrow> bytes \<Rightarrow> (bytes, id_error) res" where
  "create_seed L initial_seed =
     (if initial_seed = [] then ok_or (SeedError ''couldn't generate random seed'') (cl_random L)
      else if length initial_seed \<le> 32 then Ok (initial_seed @ replicate (32 - length initial_seed) 0)
      else Fail (SeedError ''seed is greater than 32''))"

text \<open>\<^verbatim>\<open>expect\<close>.\<close>

definition expect :: "string \<Rightarrow> 'a option \<Rightarrow> ('a, id_error) res" where
  "expect m x = (case x of None \<Rightarrow> Abort m | Some y \<Rightarrow> Ok y)"

definition expect_Ok :: "string \<Rightarrow> ('a, 'x) res \<Rightarrow> ('a, 'e) res" where
  "expect_Ok m r =
     (case r of
        Inl (Err _) \<Rightarrow> Abort m
      | Inl (Panic p) \<Rightarrow> Abort p
      | Inr x \<Rightarrow> Ok x)"

lemma expect_Ok_eq [simp]: "expect_Ok m r = Ok x \<longleftrightarrow> r = Ok x"
  by (auto simp: expect_Ok_def split: sum.splits failure.splits)

lemma expect_Ok_Inr [simp]: "expect_Ok m (Inr x) = Ok x"
  by (simp add: expect_Ok_def)

section \<open>Making key pairs\<close>

definition key_pair_of :: "crypto_lib \<Rightarrow> key_derivator \<Rightarrow> bytes \<Rightarrow> base_key_pair" where
  "key_pair_of L d sk = \<lparr>bkp_public_key = cl_public_of L d sk, bkp_secret_key = Some sk\<rparr>"

definition ed25519_from_seed :: "crypto_lib \<Rightarrow> bytes \<Rightarrow> (base_key_pair, id_error) res" where
  "ed25519_from_seed L seed =
     bindR (expect_Ok ''invalid seed'' (create_seed L seed)) (\<lambda>secret_seed.
     bindR (expect ''cannot generate secret key'' (cl_secret L Ed25519 secret_seed)) (\<lambda>sk.
     Ok (key_pair_of L Ed25519 sk)))"

definition ed25519_from_public_key :: "crypto_lib \<Rightarrow> bytes \<Rightarrow> (base_key_pair, id_error) res" where
  "ed25519_from_public_key L public_key =
     bindR (expect ''cannot generate public key'' (cl_public L Ed25519 public_key)) (\<lambda>pk.
     Ok \<lparr>bkp_public_key = pk, bkp_secret_key = None\<rparr>)"

definition ed25519_from_secret_key :: "crypto_lib \<Rightarrow> bytes \<Rightarrow> (base_key_pair, id_error) res" where
  "ed25519_from_secret_key L secret_key =
     bindR (expect ''cannot generate secret key'' (cl_secret L Ed25519 secret_key)) (\<lambda>sk.
     Ok (key_pair_of L Ed25519 sk))"

definition secp256k1_from_seed :: "crypto_lib \<Rightarrow> bytes \<Rightarrow> (base_key_pair, id_error) res" where
  "secp256k1_from_seed L seed =
     bindR (expect_Ok ''invalid seed'' (create_seed L seed)) (\<lambda>secret_seed.
     bindR (expect ''Couldn't create key'' (cl_secret L Secp256k1 secret_seed)) (\<lambda>sk.
     Ok (key_pair_of L Secp256k1 sk)))"

definition secp256k1_from_public_key :: "crypto_lib \<Rightarrow> bytes \<Rightarrow> (base_key_pair, id_error) res" where
  "secp256k1_from_public_key L pk =
     bindR (expect ''Could not parse public key'' (cl_public L Secp256k1 pk)) (\<lambda>pk.
     Ok \<lparr>bkp_public_key = pk, bkp_secret_key = None\<rparr>)"

definition secp256k1_from_secret_key :: "crypto_lib \<Rightarrow> bytes \<Rightarrow> (base_key_pair, id_error) res" where
  "secp256k1_from_secret_key L secret_key =
     bindR (unwrap (cl_secret L Secp256k1 secret_key)) (\<lambda>sk.
     Ok (key_pair_of L Secp256k1 sk))"

definition generate_ed25519 :: "crypto_lib \<Rightarrow> bytes option \<Rightarrow> (key_pair, id_error) res" where
  "generate_ed25519 L seed =
     bindR (ed25519_from_seed L (case seed of None \<Rightarrow> [] | Some x \<Rightarrow> x)) (\<lambda>k. Ok (KPEd25519 k))"

definition generate_secp256k1 :: "crypto_lib \<Rightarrow> bytes option \<Rightarrow> (key_pair, id_error) res" where
  "generate_secp256k1 L seed =
     bindR (secp256k1_from_seed L (case seed of None \<Rightarrow> [] | Some x \<Rightarrow> x)) (\<lambda>k. Ok (KPSecp256k1 k))"

definition key_pair_from_secret :: "crypto_lib \<Rightarrow> key_derivator \<Rightarrow> bytes \<Rightarrow> (key_pair, id_error) res" where
  "key_pair_from_secret L d secret =
     (case d of
        Ed25519 \<Rightarrow> bindR (ed25519_from_secret_key L secret) (\<lambda>k. Ok (KPEd25519 k))
      | Secp256k1 \<Rightarrow> bindR (secp256k1_from_secret_key L secret) (\<lambda>k. Ok (KPSecp256k1 k)))"

text \<open>The result is never an error: a text that is not hexadecimal is a panic.\<close>

definition key_pair_from_hex :: "crypto_lib \<Rightarrow> key_derivator \<Rightarrow> string \<Rightarrow> (key_pair, id_error) res" where
  "key_pair_from_hex L derivator hex_key =
     bindR (unwrap (cl_hex L hex_key)) (\<lambda>secret. key_pair_from_secret L derivator secret)"

section \<open>Their bytes\<close>

definition base_secret_key_bytes :: "base_key_pair \<Rightarrow> bytes" where
  "base_secret_key_bytes k = (case bkp_secret_key k of None \<Rightarrow> [] | Some x \<Rightarrow> x)"

fun secret_key_bytes :: "key_pair \<Rightarrow> bytes" where
  "secret_key_bytes (KPEd25519 k) = base_secret_key_bytes k"
| "secret_key_bytes (KPSecp256k1 k) = base_secret_key_bytes k"

text \<open>\<^verbatim>\<open>copy_from_slice\<close> into a part of an array: a panic when the lengths differ.\<close>

definition key_bytes :: "nat \<Rightarrow> nat \<Rightarrow> base_key_pair \<Rightarrow> (bytes, id_error) res" where
  "key_bytes secret_length public_length k =
     (if length (base_secret_key_bytes k) \<noteq> secret_length \<or> length (bkp_public_key k) \<noteq> public_length
      then Abort ''copy_from_slice'' else Ok (base_secret_key_bytes k @ bkp_public_key k))"

definition ed25519_to_bytes :: "base_key_pair \<Rightarrow> (bytes, id_error) res" where
  "ed25519_to_bytes = key_bytes 32 32"

definition secp256k1_to_bytes :: "base_key_pair \<Rightarrow> (bytes, id_error) res" where
  "secp256k1_to_bytes = key_bytes 32 65"

fun key_pair_to_bytes :: "key_pair \<Rightarrow> (bytes, id_error) res" where
  "key_pair_to_bytes (KPEd25519 k) = ed25519_to_bytes k"
| "key_pair_to_bytes (KPSecp256k1 k) = secp256k1_to_bytes k"

definition key_pair_to_str :: "b64 \<Rightarrow> key_pair \<Rightarrow> (string, id_error) res" where
  "key_pair_to_str B k = bindR (key_pair_to_bytes k) (\<lambda>b. Ok (b64_enc B b))"

text \<open>Cloning makes the key pair again from its secret key.\<close>

definition key_pair_clone :: "crypto_lib \<Rightarrow> key_pair \<Rightarrow> (key_pair, id_error) res" where
  "key_pair_clone L k = key_pair_from_secret L (get_key_derivator k) (secret_key_bytes k)"

text \<open>serde: the text of the bytes; reading slices the first 32.\<close>

definition key_pair_deserialize_str :: "crypto_lib \<Rightarrow> b64 \<Rightarrow> key_derivator \<Rightarrow> string \<Rightarrow> (key_pair, id_error) res" where
  "key_pair_deserialize_str L B d s =
     bindR (ok_or Base64DecodingError (b64_dec B s)) (\<lambda>bytes.
     if length bytes < 32 then Abort ''slice'' else key_pair_from_secret L d (take 32 bytes))"

text \<open>borsh: the kind and the secret key. All errors of reading are one.\<close>

fun derivator_tag :: "key_derivator \<Rightarrow> u8" where
  "derivator_tag Ed25519 = 0"
| "derivator_tag Secp256k1 = 1"

definition key_pair_borsh :: "key_pair \<Rightarrow> (bytes, id_error) res" where
  "key_pair_borsh k =
     (if length (secret_key_bytes k) \<noteq> 32 then Abort ''unwrap''
      else Ok (derivator_tag (get_key_derivator k) # secret_key_bytes k))"

definition key_pair_from_borsh :: "crypto_lib \<Rightarrow> bytes \<Rightarrow> (key_pair \<times> bytes, id_error) res" where
  "key_pair_from_borsh L input =
     (case input of
        [] \<Rightarrow> Fail DeserializationError
      | order # rest \<Rightarrow>
          let read = (\<lambda>d. if length rest < 32 then Fail DeserializationError
                else bindR (key_pair_from_secret L d (take 32 rest)) (\<lambda>k. Ok (k, drop 32 rest)))
          in if order = 0 then read Ed25519
             else if order = 1 then read Secp256k1
             else Fail DeserializationError)"

section \<open>Round trips\<close>

text \<open>A secret key has 32 bytes and is its own serialised form; a public key has the length of its kind.\<close>

definition crypto_ok :: "crypto_lib \<Rightarrow> bool" where
  "crypto_ok L \<longleftrightarrow>
     (\<forall>d s sk. cl_secret L d s = Some sk \<longrightarrow> sk = s \<and> length s = 32) \<and>
     (\<forall>d sk. length (cl_public_of L d sk) = (case d of Ed25519 \<Rightarrow> 32 | Secp256k1 \<Rightarrow> 65))"

definition made_pair :: "crypto_lib \<Rightarrow> key_pair \<Rightarrow> bool" where
  "made_pair L k \<longleftrightarrow> (\<exists>sk. key_pair_from_secret L (get_key_derivator k) sk = Ok k)"

fun mk_pair :: "key_derivator \<Rightarrow> base_key_pair \<Rightarrow> key_pair" where
  "mk_pair Ed25519 b = KPEd25519 b"
| "mk_pair Secp256k1 b = KPSecp256k1 b"

lemma mk_pair_sel [simp]:
  "get_key_derivator (mk_pair d b) = d" "secret_key_bytes (mk_pair d b) = base_secret_key_bytes b"
  "public_key_bytes (mk_pair d b) = bkp_public_key b"
  by (cases d; simp)+

lemma key_pair_from_secret_Ok:
  "key_pair_from_secret L d s = Ok k \<longleftrightarrow> (\<exists>sk. cl_secret L d s = Some sk \<and> k = mk_pair d (key_pair_of L d sk))"
  by (cases d) (auto simp: key_pair_from_secret_def ed25519_from_secret_key_def secp256k1_from_secret_key_def
      bindR_eq_Inr expect_def unwrap_def split: option.splits)

lemma crypto_ok_secret: "crypto_ok L \<Longrightarrow> cl_secret L d s = Some sk \<Longrightarrow> sk = s \<and> length s = 32"
  by (simp add: crypto_ok_def)

lemma made_by_secret: "key_pair_from_secret L d sk = Ok k \<Longrightarrow> get_key_derivator k = d \<and> made_pair L k"
  by (metis key_pair_from_secret_Ok made_pair_def mk_pair_sel(1))

lemma made_by_seed:
  assumes "generate_ed25519 L seed = Ok k \<or> generate_secp256k1 L seed = Ok k"
  shows "made_pair L k"
proof -
  obtain d s sk where "cl_secret L d s = Some sk" "k = mk_pair d (key_pair_of L d sk)"
    using assms
    by (auto simp: generate_ed25519_def generate_secp256k1_def ed25519_from_seed_def secp256k1_from_seed_def
        bindR_eq_Inr expect_def split: option.splits; metis mk_pair.simps)
  then show ?thesis by (metis key_pair_from_secret_Ok made_pair_def mk_pair_sel(1))
qed

lemma made_pairE:
  assumes "crypto_ok L" "made_pair L k"
  obtains d sk where "k = mk_pair d (key_pair_of L d sk)" "cl_secret L d sk = Some sk" "length sk = 32"
proof -
  obtain s sk where "cl_secret L (get_key_derivator k) s = Some sk"
    "k = mk_pair (get_key_derivator k) (key_pair_of L (get_key_derivator k) sk)"
    using assms(2) by (auto simp: made_pair_def key_pair_from_secret_Ok)
  with crypto_ok_secret [OF assms(1) this(1)] that show thesis by auto
qed

lemma made_pair_secret:
  assumes "crypto_ok L" "made_pair L k"
  shows "key_pair_from_secret L (get_key_derivator k) (secret_key_bytes k) = Ok k"
    and "length (secret_key_bytes k) = 32"
  by (rule made_pairE [OF assms]; simp add: key_pair_from_secret_Ok base_secret_key_bytes_def key_pair_of_def)+

lemma made_pair_public:
  assumes "crypto_ok L" "made_pair L k"
  shows "length (public_key_bytes k) = (case get_key_derivator k of Ed25519 \<Rightarrow> 32 | Secp256k1 \<Rightarrow> 65)"
  by (rule made_pairE [OF assms]) (use assms(1) in \<open>simp add: key_pair_of_def crypto_ok_def\<close>)

lemma made_pair_bytes:
  assumes "crypto_ok L" "made_pair L k"
  shows "key_pair_to_bytes k = Ok (secret_key_bytes k @ public_key_bytes k)"
  using made_pair_secret(2) [OF assms] made_pair_public [OF assms]
  by (cases k) (simp_all add: ed25519_to_bytes_def secp256k1_to_bytes_def key_bytes_def)

lemma key_pair_borsh_roundtrip:
  assumes "crypto_ok L" "made_pair L k"
  shows "\<exists>b. key_pair_borsh k = Ok b \<and> key_pair_from_borsh L (b @ rest) = Ok (k, rest)"
  using made_pair_secret [OF assms]
  by (cases k) (simp_all add: key_pair_borsh_def key_pair_from_borsh_def Let_def)

lemma key_pair_str_roundtrip:
  assumes "crypto_ok L" "made_pair L k" "\<And>x. b64_dec B (b64_enc B x) = Some x"
  shows "\<exists>s. key_pair_to_str B k = Ok s \<and> key_pair_deserialize_str L B (get_key_derivator k) s = Ok k"
  using made_pair_secret [OF assms(1,2)] made_pair_bytes [OF assms(1,2)] assms(3)
  by (simp add: key_pair_to_str_def key_pair_deserialize_str_def ok_or_def)

lemma key_pair_clone_same:
  assumes "crypto_ok L" "made_pair L k"
  shows "key_pair_clone L k = Ok k"
  using made_pair_secret(1) [OF assms] by (simp add: key_pair_clone_def)

text \<open>A key pair without its secret key cannot be cloned nor written.\<close>

lemma public_pair_panics:
  assumes "crypto_ok L" "secret_key_bytes k = []"
  shows "(\<exists>m. key_pair_clone L k = Abort m) \<and> key_pair_borsh k = Abort ''unwrap'' \<and>
    key_pair_to_bytes k = Abort ''copy_from_slice''"
proof -
  have "cl_secret L d [] = None" for d
    using assms(1) unfolding crypto_ok_def by (metis list.size(3) not_Some_eq zero_neq_numeral)
  with assms(2) show ?thesis
    by (cases k) (simp_all add: key_pair_clone_def key_pair_from_secret_def ed25519_from_secret_key_def
        secp256k1_from_secret_key_def expect_def unwrap_def key_pair_borsh_def ed25519_to_bytes_def
        secp256k1_to_bytes_def key_bytes_def)
qed

end
