(* ===== verification/Node_Start.thy ===== *)
theory Node_Start
  imports Key_Pairs Network_Laws Governance_Manager
begin

text \<open>
  The start of a node (\<^verbatim>\<open>node.rs\<close>): the key the node has for good, the addresses of other nodes in the
  settings, and the parts that are made of both. The tasks that are spawned are the modules of the
  other theories.
\<close>

section \<open>The key of the node\<close>

text \<open>\<^verbatim>\<open>Error\<close>, as far as the start gives it.\<close>

datatype node_error =
    AcessPointError string
  | InvalidKeyPairSpecified string
  | NodeDatabaseError db_error

text \<open>Whatever keeps the stored identifier from being read counts as none being stored.\<close>

definition keep_controller_id :: "'b env \<Rightarrow> string \<Rightarrow> ('b data_store, unit, node_error) act" where
  "keep_controller_id E identifier = (\<lambda>m.
     case get_controller_id E m of
       Inr stored_identifier \<Rightarrow>
         (if identifier \<noteq> stored_identifier then Fail (InvalidKeyPairSpecified stored_identifier) else Ok (), m)
     | Inl (Panic msg) \<Rightarrow> (Abort msg, m)
     | Inl (Err _) \<Rightarrow>
         (case set_controller_id E identifier m of
            (Inl (Err e), m') \<Rightarrow> (Fail (NodeDatabaseError e), m')
          | (Inl (Panic msg), m') \<Rightarrow> (Abort msg, m')
          | (Inr _, m') \<Rightarrow> (Ok (), m')))"

definition register_node_key ::
  "'b env \<Rightarrow> crypto_lib \<Rightarrow> key_derivator \<Rightarrow> string \<Rightarrow> ('b data_store, key_pair, node_error) act" where
  "register_node_key E L derivator secret_key =
     bindA (liftA (expect_Ok ''unwrap'' (key_pair_from_hex L derivator secret_key))) (\<lambda>key.
     bindA (keep_controller_id E (kstr E (new_key (get_key_derivator key) (public_key_bytes key)))) (\<lambda>_.
     retA key))"

section \<open>Addresses\<close>

text \<open>\<^verbatim>\<open>str::split\<close> with a text that is not empty.\<close>

function split_str :: "string \<Rightarrow> string \<Rightarrow> string list" where
  "split_str pat s =
     (case s of
        [] \<Rightarrow> [[]]
      | c # cs \<Rightarrow>
          if pat \<noteq> [] \<and> starts_with pat s then [] # split_str pat (drop (length pat) s)
          else (case split_str pat cs of y # ys \<Rightarrow> (c # y) # ys | [] \<Rightarrow> [[c]]))"
  by pat_completeness auto
termination by (relation "measure (length \<circ> snd)") auto

declare split_str.simps [simp del]

definition network_access_point ::
  "('k, 'p, 'a) libp2p \<Rightarrow> (string \<Rightarrow> 'p option) \<Rightarrow> string \<Rightarrow> ('p \<times> 'a, node_error) res" where
  "network_access_point L parse_peer point =
     (case split_str ''/p2p/'' point of
        [_, peer] \<Rightarrow>
          bindR (ok_or (AcessPointError (''Invalid MultiAddress conversion: '' @ point)) (lp_parse_addr L point)) (\<lambda>value.
          bindR (ok_or (AcessPointError (''Invalid PeerId conversion: '' @ point)) (parse_peer peer)) (\<lambda>i.
          Ok (i, value)))
      | _ \<Rightarrow> Fail (AcessPointError point))"

fun network_access_points ::
  "('k, 'p, 'a) libp2p \<Rightarrow> (string \<Rightarrow> 'p option) \<Rightarrow> string list \<Rightarrow> (('p \<times> 'a) list, node_error) res" where
  "network_access_points L parse_peer [] = Ok []"
| "network_access_points L parse_peer (point # points) =
     bindR (network_access_point L parse_peer point) (\<lambda>p.
     bindR (network_access_points L parse_peer points) (\<lambda>ps. Ok (p # ps)))"

fun external_addresses :: "('k, 'p, 'a) libp2p \<Rightarrow> string list \<Rightarrow> ('a list, node_error) res" where
  "external_addresses L [] = Ok []"
| "external_addresses L (address # addresses) =
     bindR (ok_or (AcessPointError (''Invalid MultiAddress conversion in External Address: '' @ address))
       (lp_parse_addr L address)) (\<lambda>a.
     bindR (external_addresses L addresses) (\<lambda>as. Ok (a # as)))"

section \<open>The parts of a node\<close>

record ('k, 'p, 'a, 'c, 'i) node_parts =
  pt_network :: "('k, 'p, 'a, 'c, 'i) network_processor"
  pt_signature_manager :: self_signature_manager
  pt_controller_id :: key_identifier
  pt_api_controller_id :: string
  pt_api_public_key :: bytes
  pt_governance :: "(governance_message, governance_response) channel"

definition buffer_size :: nat where
  "buffer_size = 1000"

definition node_build ::
  "'b env \<Rightarrow> crypto_lib \<Rightarrow> ('k, 'p, 'a) libp2p \<Rightarrow> (string \<Rightarrow> 'p option) \<Rightarrow> 'k \<Rightarrow> 'i settings \<Rightarrow>
     ('b data_store, ('k, 'p, 'a, 'c, 'i) node_parts, node_error) act" where
  "node_build E C L parse_peer swarm settings =
     bindA (liftA (expect_Ok ''channel'' (channel_new buffer_size))) (\<lambda>governance.
     bindA (register_node_key E C (st_key_derivator (se_node settings)) (st_secret_key (se_node settings))) (\<lambda>kp.
     let controller_id = new_key (get_key_derivator kp) (public_key_bytes kp) in
     bindA (liftA (network_access_points L parse_peer (ns_known_nodes (se_network settings)))) (\<lambda>points.
     bindA (liftA (external_addresses L (ns_external_address (se_network settings)))) (\<lambda>external.
     bindA (liftA (expect_Ok ''Network created''
         (network_new L (ns_listen_addr (se_network settings)) points True (public_key_bytes kp) external swarm))) (\<lambda>network.
     retA \<lparr>pt_network = network,
       pt_signature_manager = self_signature_manager_new kp (st_digest_derivator (se_node settings)),
       pt_controller_id = controller_id, pt_api_controller_id = kstr E controller_id,
       pt_api_public_key = public_key_bytes kp, pt_governance = governance\<rparr>)))))"

section \<open>Laws\<close>

lemma controller_id_stored:
  assumes "codec_ok (c_string E)" "set_controller_id E i m = (Ok (), m')"
  shows "get_controller_id E m' = Ok i"
proof -
  obtain key b where key: "get_key [S ''controller-id''] = Ok (key :: string)"
    and b: "ser (c_string E) i = Some b" "m' = bt_insert key b m"
    using assms(2)
    by (auto simp: set_controller_id_def kv_put_def coll_put_def liftA_def bindA_eq_Inr ok_or_def split: option.splits)
  then show ?thesis
    using assms(1) by (simp add: get_controller_id_def kv_get_def coll_get_def bt_get_insert codec_ok_def ok_or_def)
qed

abbreviation key_text :: "'b env \<Rightarrow> key_pair \<Rightarrow> string" where
  "key_text E kp \<equiv> kstr E (new_key (get_key_derivator kp) (public_key_bytes kp))"

lemma keep_controller_id_Ok:
  assumes "keep_controller_id E i m = (Ok u, m')" "codec_ok (c_string E)"
  shows "get_controller_id E m' = Ok i"
proof (cases "get_controller_id E m")
  case (Inr stored)
  with assms(1) show ?thesis by (auto simp: keep_controller_id_def split: if_splits)
next
  case (Inl e)
  then have "set_controller_id E i m = (Ok (), m')"
    using assms(1) by (auto simp: keep_controller_id_def split: failure.splits sum.splits prod.splits)
  with controller_id_stored [OF assms(2)] show ?thesis by blast
qed

lemma register_key:
  assumes "register_node_key E L d secret m = (Ok kp, m')"
  shows "key_pair_from_hex L d secret = Ok kp"
    and "codec_ok (c_string E) \<Longrightarrow> get_controller_id E m' = Ok (key_text E kp)"
  using assms keep_controller_id_Ok by (fastforce simp: register_node_key_def bindA_eq_Inr liftA_def retA_def)+

text \<open>Once an identifier is stored, a start changes nothing, and succeeds with that key alone.\<close>

lemma register_again:
  assumes "get_controller_id E m = Ok i" "key_pair_from_hex L d secret = Ok kp"
  shows "register_node_key E L d secret m =
    (if key_text E kp = i then Ok kp else Fail (InvalidKeyPairSpecified i), m)"
  using assms by (simp add: register_node_key_def keep_controller_id_def bindA_run liftA_def retA_def)

lemma build_parts:
  assumes "node_build E C L parse_peer swarm settings m = (Ok parts, m')"
  obtains kp points external where
    "register_node_key E C (st_key_derivator (se_node settings)) (st_secret_key (se_node settings)) m = (Ok kp, m')"
    "network_new L (ns_listen_addr (se_network settings)) points True (public_key_bytes kp) external swarm =
       Ok (pt_network parts)"
    "pt_controller_id parts = new_key (get_key_derivator kp) (public_key_bytes kp)"
    "sm_identifier (pt_signature_manager parts) = pt_controller_id parts"
    "pt_api_controller_id parts = key_text E kp" "pt_api_public_key parts = public_key_bytes kp"
    "channel_new buffer_size = Ok (pt_governance parts)"
  using assms
  by (auto simp: node_build_def bindA_eq_Inr liftA_def retA_def self_signature_manager_new_def Let_def
      split: sum.splits)

end
