(* ===== verification/Ledger_Forged.thy ===== *)
theory Ledger_Forged
  imports Ledger_Manager Ledger_Laws
begin

text \<open>
  What the ledger makes of the signatures that come with an event of one of our own subjects:
  nothing but to store them. Two handlings of one event that differ in the signatures and in
  the proof go the same way and leave the same state, up to the table of signatures.
\<close>

section \<open>Operations that do not look at the signatures\<close>

text \<open>Two ledgers that differ in their stored signatures only, and the operations that cannot tell
  them apart.\<close>

definition alike :: "'b ledger \<Rightarrow> 'b ledger \<Rightarrow> bool" where
  "alike s t \<longleftrightarrow> writes_in {''signature''} (nd_db s) (nd_db t) \<and> t = s\<lparr>nd_db := nd_db t\<rparr>"

definition blind :: "('b, 'a) lact \<Rightarrow> bool" where
  "blind m \<longleftrightarrow> (\<forall>s t. alike s t \<longrightarrow> fst (m s) = fst (m t) \<and> alike (snd (m s)) (snd (m t)))"

named_theorems blind_ops \<open>operations that do not look at the stored signatures\<close>

lemma blindI:
  "(\<And>s d. writes_in {''signature''} (nd_db s) d \<Longrightarrow>
     fst (m s) = fst (m (s\<lparr>nd_db := d\<rparr>)) \<and> alike (snd (m s)) (snd (m (s\<lparr>nd_db := d\<rparr>)))) \<Longrightarrow> blind m"
  unfolding blind_def alike_def by metis

lemma blindD: "blind m \<Longrightarrow> alike s t \<Longrightarrow> m s = (r, s') \<Longrightarrow> \<exists>t'. m t = (r, t') \<and> alike s' t'"
  unfolding blind_def by (metis fst_conv prod.collapse snd_conv)

lemma blind_simple [blind_ops]:
  "blind (retA x)" "blind (failA e)" "blind (liftA r)"
  by (simp_all add: blind_def)

lemma blind_bindA [blind_ops]:
  assumes "blind m" "\<And>x. blind (k x)"
  shows "blind (bindA m k)"
  unfolding blind_def
proof (intro allI impI)
  fix s t :: "'a ledger" assume st: "alike s t"
  obtain r s' where m: "m s = (r, s')" by fastforce
  obtain t' where t': "m t = (r, t')" "alike s' t'" using blindD [OF assms(1) st m] by blast
  then show "fst (bindA m k s) = fst (bindA m k t) \<and> alike (snd (bindA m k s)) (snd (bindA m k t))"
    using m assms(2) unfolding blind_def by (cases r) (simp_all add: bindA_run)
qed

lemma blind_if [blind_ops]: "blind m \<Longrightarrow> blind n \<Longrightarrow> blind (if c then m else n)"
  by simp

lemma blind_channels [blind_ops]:
  "blind (tell_distribution f c)" "blind (notify n)" "blind (gov_updated h i v)"
  "blind (set_is_gov i b)" "blind (set_state i c1 h1)" "blind (advance_state i)"
  by (auto intro!: blindI simp: alike_def tell_distribution_def notify_def gov_updated_def set_is_gov_def
      set_state_def advance_state_def bindA_run unwrap_def split: option.splits)

lemma signatures_elsewhere:
  "writes_in {''signature''} m m' \<Longrightarrow> get_subject E i m' = get_subject E i m"
  "writes_in {''signature''} m m' \<Longrightarrow> get_event E i sn m' = get_event E i sn m"
  "writes_in {''signature''} m m' \<Longrightarrow> get_keys E k m' = get_keys E k m"
  using subjects.get_unwritten [of "{''signature''}" m m' E i]
    events.get_unwritten [of "{''signature''}" m m' E "(i, sn)"]
    key_pairs.get_unwritten [of "{''signature''}" m m' E k] by simp_all

lemma blind_reads [blind_ops]:
  "blind (lread_or e (get_subject E i))" "blind (lread (get_keys E k))" "blind (lask (is_governance E i))"
  "blind (lift_subject r)" "blind (request_hash E er)"
  by (auto intro!: blindI simp: alike_def lread_or_def lread_def db_read_def lask_def ask_gov_def lift_subject_def
      request_hash_def is_governance_def signatures_elsewhere split: sum.split failure.split gov_error.split)

text \<open>A write: the same bytes under the same key, whatever is stored already.\<close>

lemma blind_ldb:
  assumes "\<And>m m'. writes_in {''signature''} m m' \<Longrightarrow>
    fst (x m) = fst (x m') \<and> writes_in {''signature''} (snd (x m)) (snd (x m'))"
  shows "blind (ldb x)"
  using assms by (auto intro!: blindI simp: alike_def ldb_def dbA_def zoomA_def split: prod.split)
    (metis fst_conv snd_conv)+

lemma blind_put: "blind (ldb (kv_put c k x))"
proof (rule blind_ldb)
  fix m m' :: "'a data_store" assume "writes_in {''signature''} m m'"
  then show "fst (kv_put c k x m) = fst (kv_put c k x m') \<and>
      writes_in {''signature''} (snd (kv_put c k x m)) (snd (kv_put c k x m'))"
    by (cases "ser c x") (auto simp: kv_put_def writes_in_def mem.get_put, auto simp: coll_put_def)
qed

lemma blind_writes [blind_ops]:
  "blind (ldb (set_event E i ev))" "blind (ldb (set_subject E i x))" "blind (ldb (set_taple_request E i q))"
  "blind (ldb (del_signatures E i sn))"
proof -
  show "blind (ldb (del_signatures E i sn))"
  proof (rule blind_ldb)
    fix m m' :: "'a data_store" assume "writes_in {''signature''} m m'"
    then show "fst (del_signatures E i sn m) = fst (del_signatures E i sn m') \<and>
        writes_in {''signature''} (snd (del_signatures E i sn m)) (snd (del_signatures E i sn m'))"
      using writes_del_signatures [of m E i sn] writes_del_signatures [of m' E i sn]
      by (simp add: writes_in_def writes_def del_signatures_def get_key_eval coll_del_run)
  qed
qed (unfold set_event_def set_subject_def set_taple_request_def get_key_eval bindA_simps, (rule blind_put)+)

lemma blind_finished [blind_ops]: "blind (set_finished_request E r er sn i b)"
  unfolding set_finished_request_def by (intro blind_ops)

lemma blind_getA: "(\<And>s d. f (s\<lparr>nd_db := d\<rparr>) = f s) \<Longrightarrow> blind (getA f)"
  by (rule blindI) (simp add: alike_def)

lemma blind_after [blind_ops]: "blind (after_event E g i sn)"
  unfolding after_event_def Let_def
  by (rule blind_bindA, rule blind_getA) (auto intro!: blind_ops split: option.split bool.split)

section \<open>The signatures\<close>

text \<open>Storing other signatures and another proof: it works when they can be written down at all.\<close>

lemma set_signatures_total:
  assumes total: "\<forall>x. ser (c_signatures E) x \<noteq> None" and "set_signatures E i sn gs p m = (Ok (), n)"
  shows "\<exists>n'. set_signatures E i sn gs' p' m = (Ok (), n') \<and> writes_in {''signature''} n n'"
proof -
  from total have "\<forall>x. \<exists>d. ser (c_signatures E) x = Some d" by blast
  from choice [OF this] obtain f where f: "\<And>x. ser (c_signatures E) x = Some (f x)" by blast
  have "\<exists>n'. set_signatures E i sn gs' p' m = (Ok (), n')"
    using assms(2)
    by (auto simp: f set_signatures_def get_key_eval bindA_run bindR_def ok_or_def kv_put_def coll_put_def
        split: sum.splits failure.splits db_error.splits option.splits prod.splits)
  then obtain n' where n': "set_signatures E i sn gs' p' m = (Ok (), n')" by blast
  have "writes ''signature'' m n" "writes ''signature'' m n'"
    using writes_set_signatures [of m E i sn gs p] writes_set_signatures [of m E i sn gs' p'] assms(2) n' by simp_all
  then have "writes_in {''signature''} n n'" by (auto simp: writes_in_def writes_def)
  with n' show ?thesis by blast
qed

text \<open>A handling that stores them on the way, and is blind to them before and after.\<close>

definition blind_pair :: "('b, 'a) lact \<Rightarrow> ('b, 'a) lact \<Rightarrow> bool" where
  "blind_pair m m' \<longleftrightarrow> (\<forall>s t x. m s = (Ok x, t) \<longrightarrow> (\<exists>t'. m' s = (Ok x, t') \<and> alike t t'))"

lemma pair_then:
  assumes "blind_pair m m'" "\<And>x. blind (k x)"
  shows "blind_pair (bindA m k) (bindA m' k)"
  unfolding blind_pair_def bindA_eq_Inr
proof (intro allI impI, elim exE conjE)
  fix s t x y u assume m: "m s = (Ok y, u)" and k: "k y u = (Ok x, t)"
  obtain u' where u': "m' s = (Ok y, u')" "alike u u'" using assms(1) m unfolding blind_pair_def by blast
  obtain t' where "k y u' = (Ok x, t')" "alike t t'" using blindD [OF assms(2) u'(2) k] by blast
  with u'(1) show "\<exists>t'. (\<exists>a b. m' s = (Ok a, b) \<and> k a b = (Ok x, t')) \<and> alike t t'" by blast
qed

lemma pair_after: "(\<And>x. blind_pair (k x) (k' x)) \<Longrightarrow> blind_pair (bindA m k) (bindA m k')"
  unfolding blind_pair_def bindA_eq_Inr by blast

lemma pair_signatures:
  assumes "\<forall>x. ser (c_signatures E) x \<noteq> None" "\<And>x. blind (k x)"
  shows "blind_pair (bindA (ldb (set_signatures E i sn gs p)) k) (bindA (ldb (set_signatures E i sn gs' p')) k)"
proof (rule pair_then [OF _ assms(2)])
  show "blind_pair (ldb (set_signatures E i sn gs p)) (ldb (set_signatures E i sn gs' p'))"
    using set_signatures_total [OF assms(1), of i sn gs p _ _ gs' p']
    unfolding blind_pair_def ldb_def dbA_eq_Inr alike_def by fastforce
qed

lemma pair_validated:
  assumes "\<forall>x. ser (c_signatures E) x \<noteq> None"
  shows "blind_pair (event_validated E C ev gs p) (event_validated E C ev gs' p')"
proof -
  have fact: "blind_pair (validated_fact E r ev gs p i) (validated_fact E r ev gs' p' i)" for r i
    unfolding validated_fact_def Let_def by (intro pair_after pair_signatures [OF assms] blind_ops)
  have eol: "blind_pair (validated_eol E r ev gs p i) (validated_eol E r ev gs' p' i)" for r i
    unfolding validated_eol_def Let_def by (intro pair_after pair_signatures [OF assms] blind_ops)
  have transfer: "blind_pair (validated_transfer E C r ev gs p tr) (validated_transfer E C r ev gs' p' tr)" for r tr
    unfolding validated_transfer_def Let_def by (intro pair_after pair_signatures [OF assms] blind_ops)
  have "blind_pair (validated_request E C r ev gs p) (validated_request E C r ev gs' p')" for r
  proof (cases "content (ev_event_request (content ev))")
    case (Create cr)
    then show ?thesis by (simp add: validated_request_def blind_pair_def)
  qed (simp_all only: validated_request_def event_request.case,
      (intro pair_then fact eol transfer blind_ops)+)
  then show ?thesis
    unfolding event_validated_def Let_def by (intro pair_after pair_then blind_ops)
qed

text \<open>So an own event is applied without any signature, and with any proof, if it is applied at all.\<close>

lemma validated_unsigned:
  assumes "\<forall>x. ser (c_signatures E) x \<noteq> None" "event_validated E C ev gs p s = (Ok (), t)"
  obtains t' where "event_validated E C ev gs' p' s = (Ok (), t')" "alike t t'"
  using pair_validated [OF assms(1)] assms(2) unfolding blind_pair_def by blast

end
