(* ===== verification/Sample_Interfaces.thy ===== *)
theory Sample_Interfaces
  imports Network_Laws Api_Laws Sample_Approval Sample_Completer
begin

text \<open>
  Concrete interfaces of a node: a swarm whose addresses are strings and which records what it dials, a
  substream as a list of bytes with LEB128 lengths, and an API over the sample completer and approver.
\<close>

section \<open>A substream\<close>

text \<open>Unsigned LEB128, the encoding of \<^verbatim>\<open>unsigned_varint\<close>.\<close>

fun leb128 :: "nat \<Rightarrow> bytes" where
  "leb128 n = (if n < 128 then [of_nat n] else of_nat (n mod 128 + 128) # leb128 (n div 128))"

declare leb128.simps [simp del]

fun read_leb128 :: "bytes \<Rightarrow> (nat \<times> bytes) option" where
  "read_leb128 [] = None"
| "read_leb128 (b # bs) =
     (if unat b < 128 then Some (unat b, bs)
      else (case read_leb128 bs of None \<Rightarrow> None | Some (n, rest) \<Rightarrow> Some (unat b - 128 + 128 * n, rest)))"

lemma unat_byte: "n < 256 \<Longrightarrow> unat (of_nat n :: u8) = n"
  by (simp add: unat_of_nat)

lemma read_leb128 [simp]: "read_leb128 (leb128 n @ rest) = Some (n, rest)"
proof (induction n rule: leb128.induct)
  case (1 n)
  show ?case
  proof (cases "n < 128")
    case True
    then show ?thesis by (simp add: leb128.simps [of n] unat_byte)
  next
    case False
    have b: "unat (of_nat (n mod 128 + 128) :: u8) = n mod 128 + 128"
      by (rule unat_byte) (simp add: less_Suc_eq_le [symmetric])
    have "n mod 128 + 128 * (n div 128) = n" by simp
    with False 1 show ?thesis
      by (simp only: leb128.simps [of n] if_False append_Cons read_leb128.simps b) simp
  qed
qed

definition sample_stream :: "bytes byte_stream" where
  "sample_stream = \<lparr>
     bs_write_all = (\<lambda>b io. (Ok (), io @ b)),
     bs_close = (\<lambda>io. (Ok (), io)),
     bs_read_exact = (\<lambda>n io. if n \<le> length io then (Ok (take n io), drop n io)
       else (Fail (IoFailure ''unexpected end''), [])),
     bs_encode_usize = leb128,
     bs_read_usize = (\<lambda>io. case read_leb128 io of
         Some (n, rest) \<Rightarrow> (Ok n, rest) | None \<Rightarrow> (Fail (IoFailure ''varint''), io))\<rparr>"

lemma sample_stream_ok: "pipe_ok sample_stream (\<lambda>io. io)"
  by (auto simp: pipe_ok_def sample_stream_def)

section \<open>A swarm\<close>

text \<open>A peer is a number, the one byte of its key; nobody's address is known at first.\<close>

definition sample_libp2p :: "(string list, nat, string) libp2p" where
  "sample_libp2p = \<lparr>
     lp_peer_of_key = (\<lambda>k. case k of [b] \<Rightarrow> Some (unat b) | _ \<Rightarrow> None),
     lp_peer_from_bytes = (\<lambda>k. case k of [b] \<Rightarrow> Some (unat b) | _ \<Rightarrow> None),
     lp_parse_addr = Some,
     lp_add_external_address = (\<lambda>a k. k),
     lp_listen_on = (\<lambda>a k. k),
     lp_dial = (\<lambda>a k. (True, k @ [a])),
     lp_addresses_of_peer = (\<lambda>k p. []),
     kad_add_address = (\<lambda>p a k. k),
     kad_start_providing = (\<lambda>s k. k),
     kad_get_closest_peers = (\<lambda>p k. k),
     kad_bootstrap = (\<lambda>k. k)\<rparr>"

definition sample_network :: "(string list, nat, string, nat, unit) network_processor" where
  "sample_network = \<lparr>np_addr = [ListenMemory (Some 1)], np_swarm = [], np_tell = taple_network_behaviour,
     np_events_open = True, np_events = [], np_pendings = Map.empty, np_active_get_querys = {},
     np_bootstrap_nodes = [(7, ''/memory/7'')], np_pending_bootstrap_nodes = [], np_bootstrap_retries = 0,
     np_node_public_key = [1], np_external_addresses = []\<rparr>"

lemma sample_network_new:
  "network_new sample_libp2p [ListenMemory (Some 1)] [(7, ''/memory/7'')] True [1] [] [] = Ok sample_network"
  by (simp add: network_new_def check_listen_addr_integrity_def sample_network_def routing_new_def sample_libp2p_def
      bindR_def fail_if_def Let_def)

text \<open>A message to peer 2, whose address turns up, and then its way to the connection.\<close>

definition sample_requested :: "(string list, nat, string, nat, unit) network_processor" where
  "sample_requested = snd (network_handle_command sample_libp2p (SendMessage [2] [5]) sample_network)"

lemma sample_requested_step:
  "net_step sample_libp2p \<lparr>nr_task = sample_network, nr_requested = \<lambda>_. [], nr_handed = \<lambda>_. []\<rparr>
     \<lparr>nr_task = sample_requested, nr_requested = (\<lambda>p. addressed sample_libp2p [1] (SendMessage [2] [5]) p),
      nr_handed = \<lambda>_. []\<rparr>"
proof -
  have "network_handle_command sample_libp2p (SendMessage [2] [5]) sample_network = (Ok (), sample_requested)"
    by (simp add: sample_requested_def network_handle_command_def sample_network_def sample_libp2p_def
        addresses_of_peer_def tell_addresses_of_peer_def taple_network_behaviour_def tell_behaviour_new_def)
  from net_step.Command [where s = "\<lparr>nr_task = sample_network, nr_requested = \<lambda>_. [], nr_handed = \<lambda>_. []\<rparr>",
      simplified, OF this]
  show ?thesis by (simp add: sample_network_def)
qed

lemma sample_requested_kept: "kept sample_requested 2 = [[5]]"
  by (simp add: sample_requested_def network_handle_command_def sample_network_def sample_libp2p_def
      addresses_of_peer_def tell_addresses_of_peer_def taple_network_behaviour_def tell_behaviour_new_def
      kept_def store_pending_def query_peer_def)

section \<open>An API\<close>

definition completer_modules :: "(blob completer, blob) api_modules" where
  "completer_modules = \<lparr>
     am_db = nd_db,
     am_put_db = (\<lambda>d s. s\<lparr>nd_db := d\<rparr>),
     am_fuel = 2,
     am_event = completer_asks sample_env sample_completing silent_ledger,
     am_approval = (\<lambda>c s. (None, s)),
     am_ledger = (\<lambda>c s. (None, s)),
     am_authorized = (\<lambda>c s. (False, s))\<rparr>"

definition approver_modules :: "(blob node, blob) api_modules" where
  "approver_modules = \<lparr>
     am_db = nd_db,
     am_put_db = (\<lambda>d s. s\<lparr>nd_db := d\<rparr>),
     am_fuel = 2,
     am_event = (\<lambda>c s. (None, s)),
     am_approval = approver_asks sample_env sample_approver 9,
     am_ledger = (\<lambda>c s. (None, s)),
     am_authorized = (\<lambda>c s. (False, s))\<rparr>"

lemma completer_modules_sel [simp]:
  "am_event completer_modules = completer_asks sample_env sample_completing silent_ledger"
  "am_db completer_modules = nd_db"
  by (simp_all add: completer_modules_def)

lemma approver_modules_sel [simp]:
  "am_approval approver_modules = approver_asks sample_env sample_approver 9" "am_db approver_modules = nd_db"
  by (simp_all add: approver_modules_def)

lemma approver_api_votes:
  "\<exists>a t. api_approval_request sample_env approver_modules (sample_id 7) True approver_node = (Ok a, t)"
proof -
  have "\<exists>f. generate_vote sample_env sample_approver 9 (sample_id 7) True approver_node =
    (Ok (Inr (sample_pending\<lparr>ae_response := Some \<lparr>content = \<lparr>ar_appr_req_hash = sample_id 7, ar_approved = True\<rparr>,
       signature = signature sample_response\<rparr>,
     ae_state := if True then RespondedAccepted else RespondedRejected\<rparr>, ae_sender sample_pending)),
     approver_node\<lparr>nd_db := f\<rparr>)"
    by (rule generate_vote_run [where i = "sample_id 5"])
      (simp_all add: sample_ser_approval approver_db sample_pending_def responded_def
        subject_id_by_request_def sample_approval_request_def approver_fact_def sample_approver_def sample_sign
        sample_response_def)
  then show ?thesis
    using approver_empty(5)
    by (auto simp: api_approval_request_def api_call_Ok api_response_to_def emit_vote_def approval_emit_vote_def
        approval_api_ask_def approver_asks_def approval_command_def answer_def bindA_run send_message_def
        tell_message_def unwrap_def)
qed

end
