(* ===== verification/Spec2Isabelle.thy ===== *)
theory Spec2Isabelle
  imports Governance_Laws Ledger_Sync_Laws Sample_External Sample_Approval Sample_Distribution
    Sample_Completer Sample_Evaluator Sample_Composition Validation_Manager Authorized Network_Laws Api_Laws
    Governance_Manager_Laws Node_Start Distribution_Ledger Ledger_Forged
    Sample_Interfaces
begin

text \<open>
  A verification development of TAPLE core (\<^verbatim>\<open>core/src\<close>), a peer-to-peer ledger of subjects. Each
  subject has its own chain of events; a governance, itself a subject, says who may create subjects
  and issue, evaluate, approve, validate and witness their events and how many signatures each
  stage needs.

  The node is a set of modules that run as tasks, exchange messages over channels and share
  one database. A module handles one message at a time, so its handlers are modelled as functions
  on its state: an action \<open>('s, 'a, 'e) act\<close> takes the state to a result and a new state. A result
  is a value, an error the code returns, or a panic (\<open>Ok\<close>, \<open>Fail\<close>, \<open>Abort\<close>; theory \<open>Prelude\<close>), so every
  \<^verbatim>\<open>?\<close>, early return and \<^verbatim>\<open>unwrap\<close> is a branch of the model. The state at an error is the state the
  code leaves behind.

  \<^bold>\<open>Theories and the code they model\<close> (files under \<^verbatim>\<open>core/src\<close>):
  \<^item> \<open>Rust_Str\<close>, \<open>BTree\<close>: the standard library's string operations and \<^verbatim>\<open>BTreeMap\<close>.
  \<^item> \<open>Identifiers\<close>: \<^verbatim>\<open>commons/identifier\<close>, the text form of digests, keys and signatures.
  \<^item> \<open>Json_Value\<close>: \<^verbatim>\<open>commons/models/value_wrapper.rs\<close>, JSON values and their binary encoding. The
    decoder recurses on its input, so it takes fuel; one unit more than there are bytes is
    enough (\<open>decoding_terminates\<close>).
  \<^item> \<open>Models\<close>, \<open>Env\<close>: \<^verbatim>\<open>commons/models\<close>: requests, events, subjects, proofs, signatures.
    \<open>env\<close> holds what third-party crates do: base64, borsh, hashes, the two signature schemes, JSON
    patches. What is needed of them is a named hypothesis (\<open>b64_ok\<close>, \<open>codec_ok\<close>, \<open>key_pair_ok\<close>, and \<open>encodes\<close>
    and \<open>can_sign\<close> of \<open>Completer_Transfers\<close>: what is given can be written down, and signed).
    \<open>Gov_State\<close>: the document of a governance as the evaluator reads, checks and writes it.
  \<^item> \<open>Store\<close>, \<open>Db_Layers\<close>: \<^verbatim>\<open>database\<close>, the in-memory store and the tables over it. \<open>Db_Laws\<close>: the
    contract of a table (locale \<open>table\<close>) and its interpretations.
  \<^item> \<open>Floats\<close>, \<open>Gov_Models\<close>, \<open>Governance\<close>: \<^verbatim>\<open>governance\<close> and the documents it reads, the percentage
    quorums in \<^verbatim>\<open>f64\<close> bit by bit. \<open>Governance_Laws\<close>: who the signers are, who is permitted, and
    what a past version is.
  \<^item> \<open>Messages\<close>: the messages of all modules and their routing. \<open>Node\<close>: the environment of a
    module: database, channels, the governance module behind its channel.
  \<^item> \<open>Channel\<close>, \<open>Governance_Manager\<close>: \<^verbatim>\<open>commons/channel\<close>, questions and notices over a bounded queue, and the
    task of the governance module behind it with the calls of the others. \<open>Governance_Manager_Laws\<close>: over
    any interleaving a call gives what \<open>Node\<close> takes it to give.
  \<^item> \<open>Validation\<close>: \<^verbatim>\<open>validation/validation.rs\<close> and the safety of its register.
  \<^item> \<open>Ledger\<close>, \<open>Ledger_Sync\<close>, \<open>Ledger_External\<close>: \<^verbatim>\<open>ledger/ledger.rs\<close>, a handler per operation: our own
    events, the events between the last applied one and the head, and last candidate events.
    \<open>Ledger_Laws\<close>, \<open>Ledger_Sync_Laws\<close>, \<open>Ledger_External_Laws\<close>: their effect on events, subjects
    and positions. \<open>Ledger_Forged\<close>: that the signatures that come with an own event make no
    difference to what is done with it.
  \<^item> \<open>Completer\<close>, \<open>Completer_Requests\<close>, \<open>Completer_Responses\<close>: \<^verbatim>\<open>event\<close>, the event completer: requests
    for events of our subjects, the evaluations, approvals and validations it collects for them, new
    versions of the governances, and the task with its loop (\<open>event_loop\<close>), which an error ends with the
    cancellation of the token of the node. The ledger it asks is a parameter: what it does to the
    shared database, and whether it survives; \<open>Composition\<close> puts the ledger of this development
    there. \<open>Completer_Laws\<close>: what reaches the ledger (locale
    \<open>event_registry\<close>). \<open>Completer_Types\<close>: its maps are well typed. \<open>Completer_Transfers\<close>: who can
    have a transfer signed, and what a new version of a governance does to transfers and to
    collected validations.
  \<^item> \<open>Approval\<close>: \<^verbatim>\<open>approval\<close>, the approver: requests, votes and the task. \<open>Approval_Laws\<close>: its
    invariant over all runs, that every vote sent is the recorded answer of its request.
  \<^item> \<open>Distribution\<close>: \<^verbatim>\<open>distribution\<close>, the exchange of witness signatures. \<open>Distribution_Laws\<close>: its
    invariant, that each signature stored is one of an event that was stored, whatever other tasks
    do to the events. \<open>Distribution_Ledger\<close>: the ledger is such a task.
  \<^item> \<open>Contract_Memory\<close>, \<open>Runner\<close>, \<open>Evaluator\<close>: \<^verbatim>\<open>evaluator\<close>, the memory a contract shares with its host,
    the functions of the host, the executor of contracts, the compiler's module and the evaluator's
    requests. What a contract does is a finite tree of the host functions it calls (\<open>wasm_run\<close>):
    contracts that do not return have no such tree. \<open>evaluator_env\<close> and \<open>compiler_env\<close> hold the
    JSON-schema checker, cargo and wasmtime. \<open>Evaluator_Laws\<close>: what an answer of the
    evaluator says, when contracts are ready.
  \<^item> \<open>Message_Layer\<close>: \<^verbatim>\<open>message\<close> and \<^verbatim>\<open>protocol\<close>, the sending of signed messages, the choice of who
    receives them, their retries, and their way to the modules.
  \<^item> \<open>Ledger_Manager\<close>, \<open>Validation_Manager\<close>, \<open>Authorized\<close>: the tasks of the ledger and the
    validator, and \<^verbatim>\<open>authorized_subjecs\<close>.
  \<^item> \<open>Tell\<close>, \<open>Network_Processor\<close>: \<^verbatim>\<open>network\<close>. The tell protocol: framing, handler and behaviour, with the
    contract of a queue for each peer (locale \<open>message_link\<close>). The network task: what is sent, kept for
    peers without an address and handed on. The swarm with its routing is a parameter (\<open>libp2p\<close>).
    \<open>Network_Laws\<close>: the account of all messages over a run, and of the bootstrap nodes.
  \<^item> \<open>Settings\<close>: \<^verbatim>\<open>commons/settings\<close>, listening addresses, their text, and the defaults.
  \<^item> \<open>Key_Pairs\<close>, \<open>Node_Start\<close>: \<^verbatim>\<open>commons/crypto\<close>, the making, writing and reading of key pairs over the
    cryptographic libraries, and \<^verbatim>\<open>node.rs\<close>, the key a node has for good, the addresses in its settings
    and the parts made of them.
  \<^item> \<open>Api\<close>: \<^verbatim>\<open>api\<close>, the commands of the user, their answers and the task. The modules it asks are
    parameters (\<open>api_modules\<close>). \<open>Api_Laws\<close> puts the event completer and the approver of this development
    there.
  \<^item> \<open>Samples\<close>, \<open>Sample_Runs\<close>, \<open>Sample_Ledger\<close>, \<open>Sample_External\<close>, \<open>Sample_Approval\<close>,
    \<open>Sample_Distribution\<close>, \<open>Sample_Completer\<close>, \<open>Sample_Evaluator\<close>, \<open>Sample_Composition\<close>, \<open>Sample_Interfaces\<close>: a concrete environment and runs of the modules on it, with which the hypotheses of the properties are shown to hold together.

  \<^bold>\<open>The properties\<close> C1 to C3 are about the validator, C4 to C11 about the event completer (C10 and
  C11 with the ledger behind it), C12 to C17 about evaluations, governance documents and contracts,
  C18 and C19 about events of the node's own subjects in the ledger, C20 to C24 about events and
  proofs of other nodes, C25 and C26 about governances and the channel to their module, C27 about the
  database, C28 and C29 about identifiers and values, C30 and C31 about last candidate events, C32
  about approvals, C33 to C36 about messages and the network, C37 about the distribution of events,
  C38 to C40 about the API. Theorems without a number complete them.

  \<^bold>\<open>Integers\<close> have the width of the code (\<open>u64\<close>, \<open>u32\<close>): arithmetic wraps as in a release build.
  \<^verbatim>\<open>isize\<close> arguments are integers within its bounds. Sets that the code iterates in no fixed order
  are lists; the results do not depend on the order except for which error comes first.

  \<^bold>\<open>Not modelled\<close>: the inside of libp2p, wasmtime, cargo and the JSON-schema checker, the MessagePack
  form of messages, the JSON schema of governances (a constant that is a parameter), and the
  spawning of the tasks: third-party code, data and glue. Time
  enters only as arguments: how long a task waits and in which order the tasks run is not modelled.
  The queue of a channel is modelled where its order matters, for the governance module; elsewhere it
  is the list of what was sent.
\<close>

section \<open>Validation\<close>

text \<open>
  C1. A validator never signs two different events for one position of a subject: over any run,
  whatever is requested and whatever the other modules do to the rest of the database, two
  proofs it has signed for one subject and one sequence number differ at most in the governance
  version.
\<close>

theorem validator_no_equivocation:
  assumes "b64_ok (e_b64 E)" "codec_ok (c_proof E)"
    and "validator_run E V (s, []) (t, signed_proofs)"
    and "p \<in> set signed_proofs" "q \<in> set signed_proofs"
    and "di_digest (vp_subject_id p) \<noteq> []"
    and "vp_subject_id p = vp_subject_id q" "vp_sn p = vp_sn q"
  shows "is_similar p q"
  using validator_run_inv [OF assms(1-3) validator_inv_start] assms(4-8)
  by (simp add: validator_inv_def no_conflict_def)

theorem validator_no_equivocation_witness:
  "\<exists>t. validator_run sample_env sample_validator (sample_node sample_db, []) (t, [sample_proof]) \<and>
     is_similar sample_proof sample_proof"
proof -
  obtain r t where run: "validation_event sample_env sample_validator 8 sample_request (sample_key 1)
      (sample_node sample_db) = (r, t)" by fastforce
  then have "is_Ok r"
    using sample_request_Ok [of 8 "sample_key 1"] by simp
  then have "validator_step sample_env sample_validator (sample_node sample_db, []) (t, [sample_proof])"
    using validator_step.Request [OF run, of "[]"] by simp
  then have "validator_run sample_env sample_validator (sample_node sample_db, []) (t, [sample_proof])"
    by (simp add: validator_run_def)
  moreover from this have "is_similar sample_proof sample_proof"
    by (rule validator_no_equivocation [rotated 2]) simp_all
  ultimately show ?thesis by blast
qed

text \<open>
  C2. The chain of proofs: when a validator answers a request for an event that is neither the
  first of its subject nor at the position it signed last, the request carries a previous proof
  which the new one follows (its event hash is the previous event hash, its number is one less,
  and it is about the same subject); the request is signed with the key that previous proof
  names; and that proof is the one the validator has registered, or a quorum of the validators
  of the governance signed it.
\<close>

theorem validator_chain:
  assumes "validation_event E V now ve sender s = (Ok resp, t)"
    and "vp_sn (ve_proof ve) \<noteq> 0"
    and "\<And>lastp. get_validation_register E (vp_subject_id (ve_proof ve)) (nd_db s) = Ok lastp \<Longrightarrow>
      vp_sn lastp \<noteq> vp_sn (ve_proof ve)"
  shows "\<exists>prev. ve_previous_proof ve = Some prev \<and>
    vp_event_hash prev = vp_prev_event_hash (ve_proof ve) \<and> vp_sn prev + 1 = vp_sn (ve_proof ve) \<and>
    vp_subject_id prev = vp_subject_id (ve_proof ve) \<and>
    vp_governance_id prev = vp_governance_id (ve_proof ve) \<and>
    sg_signer (ve_subject_signature ve) = vp_subject_public_key prev \<and>
    signature_verify E (ve_subject_signature ve) (PProof (ve_proof ve)) = Ok () \<and>
    ((\<exists>lastp. get_validation_register E (vp_subject_id (ve_proof ve)) (nd_db s) = Ok lastp \<and>
        is_similar lastp prev) \<or>
     validators_signed E prev (ve_prev_event_validation_signatures ve) (nd_db s))"
proof -
  obtain v where "validation_checks E V ve sender s = (Ok v, s)"
    using assms(1) by (rule validation_event_Ok)
  then show ?thesis
  proof (rule validation_checks_parts, goal_cases)
    case (1 r pk)
    have "r = Some lastp \<Longrightarrow> vp_sn lastp \<noteq> vp_sn (ve_proof ve)" for lastp
      using 1(3) assms(3) by simp
    from check_proofs_chain [OF 1(5) assms(2) this] show ?case
      using 1(3,4,6) by (auto simp: follows_def split: option.splits)
  qed
qed

theorem validator_chain_witness:
  "\<exists>prev. ve_previous_proof sample_request_1 = Some prev \<and>
     vp_event_hash prev = vp_prev_event_hash sample_proof_1"
proof -
  obtain resp t where run: "validation_event sample_env sample_validator 8 sample_request_1 (sample_key 1)
      (sample_node sample_registered) = (Ok resp, t)"
    using sample_request_1_Ok [of 8 "sample_key 1"] by (auto simp: is_Ok_iff fst_def split: prod.splits)
  show ?thesis
    using validator_chain [OF run] by auto
qed

text \<open>
  C3. The answer of a validator: the proof is registered as the last one of the subject, the
  message sent to the one who asked carries the validator's own signature of it, which anyone
  can verify, and the governance version of the proof is the one the validator has.
\<close>

theorem validator_answer:
  assumes "codec_ok (c_proof E)" "key_pair_ok E (sm_keys (va_signature_manager V))"
    and "validation_event E V now ve sender s = (Ok resp, t)"
  shows "get_validation_register E (vp_subject_id (ve_proof ve)) (nd_db t) = Ok (ve_proof ve) \<and>
    signature_verify E (vr_validation_signature resp) (PProof (ve_proof ve)) = Ok () \<and>
    vr_gov_version_validation resp = vp_governance_version (ve_proof ve) \<and>
    nd_messages t = nd_messages s @ [TaskRequest None (EventMessage (ValidatorResponse
      (vp_event_hash (ve_proof ve)) (vr_validation_signature resp) (vp_governance_version (ve_proof ve))))
      {sender} direct_response]"
  using assms(3)
  by (rule validation_event_Ok)
    (use assms(1,2) in \<open>simp add: registers.get_put sm_sign_def signature_new_verifies\<close>)

theorem validator_answer_witness:
  "\<exists>resp t. validation_event sample_env sample_validator 8 sample_request (sample_key 1)
       (sample_node sample_db) = (Ok resp, t) \<and>
     get_validation_register sample_env (sample_id 5) (nd_db t) = Ok sample_proof"
proof -
  obtain resp t where run: "validation_event sample_env sample_validator 8 sample_request (sample_key 1)
      (sample_node sample_db) = (Ok resp, t)"
    using sample_request_Ok [of 8 "sample_key 1"] by (auto simp: is_Ok_iff fst_def split: prod.splits)
  have "key_pair_ok sample_env (sm_keys (va_signature_manager sample_validator))"
    by (simp add: self_signature_manager_new_def)
  then show ?thesis
    using validator_answer [OF _ _ run] run by auto
qed

section \<open>The event completer\<close>



text \<open>
  C5. The ledger is asked only by a turn that handles a validation of an event whose subject is
  in the validation phase: the validator is one of those still awaited, its signature of the
  current proof is valid, and with it the signatures collected reach the quorum of the phase. What
  is handed over is exactly that event with those signatures and that proof.
\<close>

theorem quorum_before_ledger:
  assumes "event_turn E C L i s = (r, t)" "ec_ledger t \<noteq> ec_ledger s"
  shows "\<exists>sender h g v ev ve j K q n gs.
    i = EInputCommand (Some (sender, ValidatorResponse h g v)) \<and>
    ec_to_validate s h = Some ev \<and> ec_validation_events s h = Some ve \<and>
    validated_subject_id E C (content ev) = Ok j \<and>
    ec_completing s j = Some (Validate, K, q, n) \<and> sg_signer g \<in> K \<and>
    signature_verify E g (PProof (ve_proof ve)) = Ok () \<and>
    gs = filter (\<lambda>k. sg_signer k \<noteq> sg_signer g) (case ec_validations s h of None \<Rightarrow> [] | Some ks \<Rightarrow> ks) @ [g] \<and>
    q \<le> of_nat (length gs) \<and>
    ec_ledger t = ec_ledger s @
      [if ev_sn (content ev) = 0 then Genesis ev gs (ve_proof ve) else OwnEvent ev gs (ve_proof ve)]"
proof -
  obtain sender h g v y where i: "i = EInputCommand (Some (sender, ValidatorResponse h g v))"
    and run: "validation_signatures E C L h g v s = (y, t)"
    using asked_turn [OF assms] by blast
  obtain ev ve j where ev: "ec_to_validate s h = Some ev" "ec_validation_events s h = Some ve"
      "validated_subject_id E C (content ev) = Ok j"
    and acc: "accept_validation E L h ev ve j g s = (y, t)"
    using asked_signatures [OF run assms(2)] by blast
  have "save_in same_signer (ec_validations s h) g =
      filter (\<lambda>k. sg_signer k \<noteq> sg_signer g) (case ec_validations s h of None \<Rightarrow> [] | Some ks \<Rightarrow> ks) @ [g]"
    by (cases "ec_validations s h")
      (simp_all add: save_in_def insert_or_replace_and_check_def same_signer_def eq_commute [of "sg_signer g"])
  with i ev asked_accept [OF acc assms(2)] show ?thesis by (metis (no_types, lifting))
qed

theorem quorum_before_ledger_witness:
  "\<exists>i s r t sender h g v ev ve j K q n.
     event_turn sample_env sample_completing silent_ledger i s = (r, t) \<and> ec_ledger t \<noteq> ec_ledger s \<and>
     i = EInputCommand (Some (sender, ValidatorResponse h g v)) \<and>
     ec_to_validate s h = Some ev \<and> ec_validation_events s h = Some ve \<and>
     validated_subject_id sample_env sample_completing (content ev) = Ok j \<and>
     ec_completing s j = Some (Validate, K, q, n) \<and> sg_signer g \<in> K"
proof -
  obtain t r u ev p where
    run: "event_turn sample_env sample_completing silent_ledger
         (EInputCommand (Some (None, ValidatorResponse sample_event_id (sample_signature 1) 0))) t = (r, u)"
    and u: "ec_ledger t = []" "ec_ledger u = [Genesis ev [sample_signature 1] p]"
    by (rule genesis_to_ledger) blast
  have "ec_ledger u \<noteq> ec_ledger t" using u by simp
  with quorum_before_ledger [OF run this] run show ?thesis by metis
qed

text \<open>
  C6. A new version of the governance replaces the proof of an event under validation, but the
  validations collected so far stay: once one signature of the new proof completes the quorum, the
  ledger gets the old signatures with the new proof, whatever they signed.
\<close>

theorem stale_validations:
  assumes "restart_subject E C v i s = (Ok (), t)"
    and "get_request E i (nd_db s) = Fail EntryNotFound" "get_prevalidated_event E i (nd_db s) = Ok ev"
    and "\<forall>cr. content (ev_event_request (content ev)) \<noteq> Create cr"
    and "from_serializable_borsh E (PEvent (content ev)) (cc_derivator C) = Ok h" "ec_validations s h = Some gs"
  shows "\<exists>ve K q. ec_validation_events t h = Some ve \<and> vp_governance_version (ve_proof ve) = v \<and>
    ec_completing t i = Some (Validate, K, q, 0) \<and> ec_validations t h = Some gs \<and>
    (\<forall>L g. sg_signer g \<in> K \<longrightarrow> sg_signer g \<notin> sg_signer ` set gs \<longrightarrow>
       signature_verify E g (PProof (ve_proof ve)) = Ok () \<longrightarrow> q \<le> of_nat (length (gs @ [g])) \<longrightarrow> ec_ledger_open t \<longrightarrow>
       ec_ledger (snd (accept_validation E L h ev ve i g t)) = ec_ledger t @
         [if ev_sn (content ev) = 0 then Genesis ev (gs @ [g]) (ve_proof ve) else OwnEvent ev (gs @ [g]) (ve_proof ve)])"
proof -
  have run: "restart_validation E C v i ev s = (Ok (), t)"
    using assms(1-4)
    by (cases "content (ev_event_request (content ev))")
      (auto simp: restart_subject_def restart_request_def bindA_run db_case_def)
  have h: "hash_of E C (content ev) h" using assms(5) by (simp add: hash_of_def)
  obtain ve K q where t: "ec_validation_events t h = Some ve" "vp_governance_version (ve_proof ve) = v"
      "ec_validations t h = Some gs" "ec_completing t i = Some (Validate, K, q, 0)"
    using restart_validation_run [OF run h] assms(6) by auto
  then show ?thesis using accept_run [OF t(4) _ _ t(3)] by blast
qed

theorem stale_validations_witness:
  "\<exists>t ve. restart_subject sample_env sample_completing 1 (sample_id 5) validating_completer = (Ok (), t) \<and>
     ec_ledger (snd (accept_validation sample_env silent_ledger sample_event_id (sample_event (EOL sample_eol) 1 True)
       ve (sample_id 5) (sample_signature 1) t)) =
     [OwnEvent (sample_event (EOL sample_eol) 1 True) [sample_signature 3, sample_signature 1] (ve_proof ve)] \<and>
     vp_governance_version (ve_proof ve) = 1"
proof -
  let ?ev = "sample_event (EOL sample_eol) 1 True"
  obtain t where t: "restart_subject sample_env sample_completing 1 (sample_id 5) validating_completer = (Ok (), t)"
    "ec_completing t (sample_id 5) = Some (Validate, {sample_key 1}, 1, 0)" "ec_ledger_open t" "ec_ledger t = []"
    by (rule validation_restarts)
  have reads: "get_request sample_env (sample_id 5) (nd_db validating_completer) = Fail EntryNotFound"
    "get_prevalidated_event sample_env (sample_id 5) (nd_db validating_completer) = Ok ?ev"
    "ec_validations validating_completer sample_event_id = Some [sample_signature 3]"
    by (simp_all add: validating_completer_def sample_completer_def completer_foreign transfer_request_free
        prevalidated.get_put [OF _ _ completer_puts(1)])
  from stale_validations [OF t(1) reads(1,2) _ _ reads(3)] obtain ve where
    version: "vp_governance_version (ve_proof ve) = 1"
    and later: "\<forall>L g. sg_signer g \<in> {sample_key 1} \<longrightarrow> sg_signer g \<notin> sg_signer ` set [sample_signature 3] \<longrightarrow>
       signature_verify sample_env g (PProof (ve_proof ve)) = Ok () \<longrightarrow>
       1 \<le> (of_nat (length ([sample_signature 3] @ [g])) :: u32) \<longrightarrow> ec_ledger_open t \<longrightarrow>
       ec_ledger (snd (accept_validation sample_env L sample_event_id ?ev ve (sample_id 5) g t)) = ec_ledger t @
         [OwnEvent ?ev ([sample_signature 3] @ [g]) (ve_proof ve)]"
    using t(2) by (auto simp: sample_completing_def)
  have "ec_ledger (snd (accept_validation sample_env silent_ledger sample_event_id ?ev ve (sample_id 5)
      (sample_signature 1) t)) = [OwnEvent ?ev [sample_signature 3, sample_signature 1] (ve_proof ve)]"
    using later [rule_format, of "sample_signature 1" silent_ledger] t by simp
  with version t(1) show ?thesis by blast
qed



text \<open>
  C8. An accepted request for a transfer or an end of life stays stored, although its event is already
  under validation. As long as it is, a new version of a governance that the subject is registered
  under ends the event completer, provided that no other subject registered there has a fact waiting:
  the update is an error or, from a subject visited earlier, a panic, so the loop of the task is
  left with whatever inputs remain. After an error, which it is for sure when the subject is the
  first to be visited, the task cancels the token that all tasks of the node share, which ends the node.
\<close>

theorem transfer_ends_node:
  fixes s t :: "'b completer"
  assumes "pre_new_event E C er s = (Ok r, t)" "content er = Transfer tr \<or> content er = EOL eo"
    and "request_subject_id (content er) = Ok i" "get_subject E i (nd_db s) = Ok su" "su_subject_id su = i"
    and "codec_ok (c_event_request E)"
  shows "ec_completing t i \<noteq> None \<and> get_request E i (nd_db t) = Ok er \<and>
    (\<forall>(u :: 'b completer) g is v rest.
      get_request E i (nd_db u) = Ok er \<longrightarrow> ec_subjects_by_governance u g = Some is \<longrightarrow> i \<in> set is \<longrightarrow>
      (\<forall>j \<in> set is. j = i \<or> (\<forall>q f. get_request E j (nd_db u) = Ok q \<longrightarrow> content q \<noteq> Fact f)) \<longrightarrow>
      ((\<exists>w. event_loop E C L (EInputUpdate (Some (g, v)) # rest) u = TokenCancelled w) \<or>
       (\<exists>e w. event_loop E C L (EInputUpdate (Some (g, v)) # rest) u = TaskUnwound e w)) \<and>
      (hd is = i \<longrightarrow> event_loop E C L (EInputUpdate (Some (g, v)) # rest) u = TokenCancelled u))"
proof -
  from pre_new_transfer [OF assms(1,2,3)] assms(4) obtain w x u where
    run: "process_transfer_or_eol_event E C er su w s = (Inr (), u)" "register_request E x er su u = (Inr r, t)"
      "su_active su"
    by (metis sum.inject(2))
  have er: "get_request E i (nd_db t) = Ok er" using register_run(1) [OF run(2) assms(6)] assms(5) by simp
  have "ec_completing u i \<noteq> None"
    using run(1) assms(5)
    by (auto simp: process_transfer_or_eol_event_def Let_def bindA_eq_Inr start_validation_def set_phase_def)
  then have "ec_completing t i \<noteq> None" using register_run(4) [OF run(2) assms(6)] by simp
  moreover have "\<not> is_Ok (fst (event_turn E C L (EInputUpdate (Some (g, v))) u))"
    if "get_request E i (nd_db u) = Ok er" "ec_subjects_by_governance u g = Some is" "i \<in> set is"
      "\<forall>j \<in> set is. j = i \<or> (\<forall>q f. get_request E j (nd_db u) = Ok q \<longrightarrow> content q \<noteq> Fact f)"
    for u :: "'b completer" and g "is" v
    using assms(2) that by (intro update_turn_fails update_fails [OF that(2,3,1)]) auto
  note ends = failed_turn_ends [OF this]
  have first: "event_loop E C L (EInputUpdate (Some (g, v)) # rest) u = TokenCancelled u"
    if "get_request E i (nd_db u) = Ok er" "ec_subjects_by_governance u g = Some is" "i \<in> set is" "hd is = i"
    for u :: "'b completer" and g "is" v rest
  proof -
    have "is = i # tl is" using that(3,4) by (cases "is") auto
    then have "ec_subjects_by_governance u g = Some (i # tl is)" using that(2) by simp
    from update_turn_first [OF this that(1)] show ?thesis using assms(2) by auto
  qed
  ultimately show ?thesis using er ends first by blast
qed

theorem transfer_ends_node_witness:
  "\<exists>r t. pre_new_event sample_env sample_completing stranger_transfer transfer_completer = (Ok r, t) \<and>
     event_loop sample_env sample_completing silent_ledger [EInputUpdate (Some (sample_id 2, 2))] t = TokenCancelled t"
proof -
  obtain r t where t: "pre_new_event sample_env sample_completing stranger_transfer transfer_completer = (Ok r, t)"
    "ec_subjects_by_governance t (sample_id 2) = Some [sample_id 5, sample_id 2]"
    "get_request sample_env (sample_id 2) (nd_db t) = Fail EntryNotFound"
    by (rule transfer_accepted) blast
  have s: "content stranger_transfer = Transfer sample_transfer"
    "request_subject_id (content stranger_transfer) = Ok (sample_id 5)"
    "get_subject sample_env (sample_id 5) (nd_db transfer_completer) = Ok our_subject"
    by (simp_all add: stranger_transfer_def transfer_completer_def sample_completer_def request_subject_id_def)
  note ends = transfer_ends_node [OF t(1) disjI1 [OF s(1)] s(2,3) our_subject_sel(1) sample_codecs(4)]
  have "get_request sample_env (sample_id 5) (nd_db t) = Ok stranger_transfer" using ends by blast
  moreover have "\<forall>j \<in> set [sample_id 5, sample_id 2]. j = sample_id 5 \<or>
      (\<forall>q f. get_request sample_env j (nd_db t) = Ok q \<longrightarrow> content q \<noteq> Fact f)"
    using t(3) by simp
  ultimately have "event_loop sample_env sample_completing silent_ledger [EInputUpdate (Some (sample_id 2, 2))] t =
      TokenCancelled t"
    using ends t(2) by (metis list.sel(1) list.set_intros(1))
  with t(1) show ?thesis by blast
qed

text \<open>
  C9. The maps of the event completer stay well typed over any run: a subject is completing an event
  only in one of the three phases that collect signatures; every request for evaluation and for approval
  is of a fact and stored under its own hash; and the evaluations of an event are there exactly while its
  request for approval is.
\<close>

theorem completer_typed:
  assumes "(event_step E C L)\<^sup>*\<^sup>* s t"
    and "ec_completing s = Map.empty" "ec_pre_evaluations s = Map.empty"
      "ec_approval_requests s = Map.empty" "ec_approval_evaluators s = Map.empty"
  shows "(\<forall>i p. ec_completing t i = Some p \<longrightarrow> fst p \<in> {Evaluate, Approve, Validate}) \<and>
    (\<forall>h q. ec_pre_evaluations t h = Some q \<longrightarrow>
       generate_with_blake3 E (PEvaluationRequest q) = Ok h \<and> (\<exists>f. content (eq_event_request q) = Fact f)) \<and>
    (\<forall>h a. ec_approval_requests t h = Some a \<longrightarrow>
       approval_request_hash E (content a) Blake3_256 = Ok h \<and>
       (\<exists>f. content (aq_event_request (content a)) = Fact f)) \<and>
    dom (ec_approval_evaluators t) = dom (ec_approval_requests t)"
proof -
  have "event_types E s"
    using assms(2-) by (simp add: event_types_def completing_ok_def pre_evaluations_ok_def approvals_ok_def)
  from event_run_types [OF assms(1) this] show ?thesis
    by (auto simp: event_types_def completing_ok_def pre_evaluations_ok_def approvals_ok_def)
qed

theorem completer_typed_witness:
  "\<exists>t. (event_step sample_env sample_completing silent_ledger)\<^sup>*\<^sup>* (sample_completer keys_db) t \<and>
     (\<exists>p. ec_completing t sample_event_id = Some p \<and> fst p \<in> {Evaluate, Approve, Validate})"
proof -
  obtain t where t: "event_turn sample_env sample_completing silent_ledger
      (EInputCommand (Some (None, EventCmd new_governance))) (sample_completer keys_db) = (Ok True, t)"
    and p: "ec_completing t sample_event_id = Some (Validate, {sample_key 1}, 1, 0)"
    by (rule genesis_requested) auto
  have run: "(event_step sample_env sample_completing silent_ledger)\<^sup>*\<^sup>* (sample_completer keys_db) t"
    using event_step.Turn [OF t] by (rule r_into_rtranclp)
  from completer_typed [OF this] have "fst (Validate, {sample_key 1}, 1 :: u32, 0 :: u32) \<in> {Evaluate, Approve, Validate}"
    using p by (auto simp: sample_completer_def)
  with run p show ?thesis by blast
qed

text \<open>
  C10. The completer and the ledger together: when the last validation of a fact arrives and the ledger
  applies the event, the shared database holds the event and the subject at its number, and the
  completer is free for the next event of the subject.
\<close>

theorem completed_event_applied:
  fixes s :: "'b completer" and lg u :: "'b ledger"
  assumes "codec_ok (c_event E)" "codec_ok (c_subject E)"
    and "event_validated E C ev gs (ve_proof ve) (lg\<lparr>nd_db := nd_db s\<rparr>) = (Ok (), u)"
    and "content (ev_event_request (content ev)) = Fact f" "ev_sn (content ev) \<noteq> 0"
    and "ec_ledger_open s" "nd_message_open s"
  shows "\<exists>t subject. validated E (ledger_answers E C keys lg) h ev ve i gs s = (Ok (), t) \<and>
    get_event E (fa_subject_id f) (ev_sn (content ev)) (nd_db t) = Ok ev \<and>
    get_subject E (fa_subject_id f) (nd_db t) = Ok subject \<and> su_sn subject = ev_sn (content ev) \<and>
    ec_to_validate t h = None \<and> ec_completing t i = None"
proof -
  obtain subject where stored: "get_event E (fa_subject_id f) (ev_sn (content ev)) (nd_db u) = Ok ev"
      "get_subject E (fa_subject_id f) (nd_db u) = Ok subject" "su_sn subject = ev_sn (content ev)"
    using event_validated_fact [OF assms(1-4)] by (auto simp: event_stored_def dest: fact_result_sn)
  have "ledger_answers E C keys lg (OwnEvent ev gs (ve_proof ve)) (nd_db s) = (True, nd_db u)"
    using ledger_answers_own [OF assms(3)] by simp
  from validated_run [where L = "ledger_answers E C keys lg" and E = E and h = h and i = i, OF this assms(5-7)] stored show ?thesis
    by (auto simp: completed_db_reads)
qed

theorem completed_event_applied_witness:
  "\<exists>t subject. validated sample_env (ledger_answers sample_env sample_config (\<lambda>_. sample_keys 1)
       (sample_ledger ledger_db (Some 0) None)) (sample_id 6) (sample_event (Fact sample_fact) 1 True)
       sample_request (sample_id 5) [] (sample_completer ledger_db) = (Ok (), t) \<and>
     get_subject sample_env (sample_id 5) (nd_db t) = Ok subject \<and> su_sn subject = 1"
proof -
  have db: "(sample_ledger ledger_db (Some 0) None)\<lparr>nd_db := ledger_db\<rparr> = sample_ledger ledger_db (Some 0) None"
    by (simp add: sample_ledger_def)
  obtain u where "event_validated sample_env sample_config (sample_event (Fact sample_fact) 1 True) []
      (ve_proof sample_request) ((sample_ledger ledger_db (Some 0) None)\<lparr>nd_db := nd_db (sample_completer ledger_db)\<rparr>) =
      (Ok (), u)"
    using sample_validated(1) db by (auto simp: is_Ok_iff fst_def sample_completer_def split: prod.splits)
  from completed_event_applied [OF _ _ this, of sample_fact "\<lambda>_. sample_keys 1" "sample_id 6" "sample_id 5"]
  show ?thesis by (auto simp: sample_completer_def)
qed

text \<open>
  C11. An event the ledger refuses is lost: the ledger answers the completer all the same, which then
  deletes the request and the prevalidated event and forgets the event, although it was
  validated by a quorum.
\<close>

theorem failed_event_lost:
  fixes s :: "'b completer" and lg u :: "'b ledger"
  assumes "event_validated E C ev gs (ve_proof ve) (lg\<lparr>nd_db := nd_db s\<rparr>) = (Fail e, u)"
    and "\<not> ledger_channel_closed e" "bt_inv (nd_db u)" "ev_sn (content ev) \<noteq> 0"
    and "ec_ledger_open s" "nd_message_open s"
  shows "\<exists>t. validated E (ledger_answers E C keys lg) h ev ve i gs s = (Ok (), t) \<and>
    get_event E j n (nd_db t) = get_event E j n (nd_db u) \<and>
    get_request E i (nd_db t) = Fail EntryNotFound \<and> get_prevalidated_event E i (nd_db t) = Fail EntryNotFound \<and>
    ec_to_validate t h = None \<and> ec_completing t i = None"
proof -
  have "ledger_answers E C keys lg (OwnEvent ev gs (ve_proof ve)) (nd_db s) = (True, nd_db u)"
    using ledger_answers_own [OF assms(1)] assms(2) by simp
  from validated_run [where L = "ledger_answers E C keys lg" and E = E and h = h and i = i, OF this assms(4-6)] completed_db_forgets [OF assms(3)] show ?thesis
    by (auto simp: completed_db_reads)
qed

theorem failed_event_lost_witness:
  "\<exists>t. validated sample_env (ledger_answers sample_env sample_config (\<lambda>_. sample_keys 1)
       (sample_ledger ledger_db (Some 0) None)) (sample_id 6) (sample_event (Fact sample_fact) 2 True)
       sample_request (sample_id 5) [] (sample_completer ledger_db) = (Ok (), t) \<and>
     get_event sample_env (sample_id 5) 2 (nd_db t) = Fail EntryNotFound \<and>
     get_request sample_env (sample_id 5) (nd_db t) = Fail EntryNotFound"
proof -
  have db: "(sample_ledger ledger_db (Some 0) None)\<lparr>nd_db := ledger_db\<rparr> = sample_ledger ledger_db (Some 0) None"
    by (simp add: sample_ledger_def)
  have c: "nd_db (sample_completer ledger_db) = ledger_db" "ec_ledger_open (sample_completer ledger_db)"
      "nd_message_open (sample_completer ledger_db)" "ve_proof sample_request = sample_proof"
    by (simp_all add: sample_completer_def)
  from failed_event_lost [where s = "sample_completer ledger_db" and lg = "sample_ledger ledger_db (Some 0) None"
      and ve = sample_request, unfolded c(1,4) db, OF event_refused _ refused_db(1) _ c(2,3),
      of "\<lambda>_. sample_keys 1" "sample_id 6" "sample_id 5" "sample_id 5" 2] refused_db(2)
  show ?thesis by auto
qed

section \<open>Evaluation\<close>

text \<open>
  C12. An evaluation that is signed says what the owner of the subject checks: its patch leads from the
  state of the request to the state with the announced hash, that state satisfies the schema
  of the governance version named, and a failed evaluation changes nothing.
\<close>

theorem evaluation_accepted:
  assumes "runner_execute E X d r f s = (Ok resp, t)" "diff_ok E"
  shows "hash_match_after_patch E resp (er_patch resp) (sc_state (eq_context r)) = Ok True \<and>
    generate_with_blake3 E (PEvaluationRequest r) = Ok (er_eval_req_hash resp) \<and>
    (if er_eval_success resp
     then \<exists>v governance_id schema valid.
       e_patch E (sc_state (eq_context r)) (er_patch resp) = Some v \<and>
       evaluated_governance r = Ok governance_id \<and>
       get_schema E governance_id (sc_schema_id (eq_context r)) (eq_gov_version r) (nd_db s) = Ok schema \<and>
       schema_compile E X schema = Ok valid \<and> valid v
     else er_patch resp = JArray [])"
  using hash_matches [OF assms] runner_executed [OF assms(1)] assms(2)
  by (auto simp: evaluated_state_def diff_ok_def schema_compile_def split: if_splits)

theorem evaluation_accepted_witness:
  "hash_match_after_patch sample_env sample_evaluation_response (er_patch sample_evaluation_response)
     (sc_state (eq_context sample_evaluation)) = Ok True"
  using evaluation_accepted [OF sample_evaluated sample_diff_ok] by blast

text \<open>
  C13. A governance changes only with an approval: when an evaluation of a governance succeeds, it asks for
  an approval, and the new state is a document whose members, policies and schemas have
  different names, with a policy for each schema and for the governance itself, and whose roles
  name members and schemas of the document.
\<close>

theorem governance_evaluated:
  assumes "runner_execute E X d r f s = (Ok resp, t)" "er_eval_success resp"
    and "sc_schema_id (eq_context r) = ''governance''" "di_digest (sc_governance_id (eq_context r)) = []"
  shows "er_appr_required resp \<and> (\<exists>g. well_formed_document g \<and>
    e_diff E (sc_state (eq_context r)) (document_to_json g) = Some (er_patch resp) \<and>
    from_serializable_borsh E (PValue (document_to_json g)) d = Ok (er_state_hash resp))"
  using runner_executed [OF assms(1)] assms(2) execute_gov_contract_success
  by (fastforce simp: contract_to_run_governance [OF assms(3,4)] executor_run_def evaluated_state_def)

theorem governance_evaluated_witness:
  "\<exists>g. well_formed_document g \<and>
     e_diff sample_env get_governance_initial_state (document_to_json g) = Some (er_patch sample_evaluation_response)"
  using governance_evaluated [OF sample_evaluated]
  by (auto simp: sample_evaluation_response_def sample_evaluation_def default_digest_def)





text \<open>
  A contract that is not base64 ends the governance module, although the checks on the document accept
  it: as soon as the governance is updated, the compiler asks for its contracts.
\<close>

lemma broken_contract_stops:
  fixes st :: "'b node"
  assumes "s \<in> set (gd_schemas g)" "e_contract_raw E (co_raw (gs_contract s)) = None"
    and "get_subject E i (nd_db st) = Ok governance" "su_properties governance = document_to_json g"
  shows "\<not> nd_gov_alive (snd (update_contracts E K i (su_sn governance) st))"
  using get_contracts_unreadable [OF assms(3,4,1,2)]
  by (simp add: update_contracts_def bindA_run ask_gov_def)

lemma broken_contract_stops_witness:
  "is_Ok (check_governance_state contract_document) \<and> \<not> nd_gov_alive (snd (update_contracts (sample_env\<lparr>e_contract_raw := \<lambda>_. None\<rparr>) sample_compiler (sample_id 2) 1
     (sample_node contract_db)))"
proof -
  have "get_subject (sample_env\<lparr>e_contract_raw := \<lambda>_. None\<rparr>) (sample_id 2) contract_db = Ok
      (sample_subject (sample_id 2) default_digest ''governance'' 1 (document_to_json contract_document))"
    using get_subject_sample_set by (simp add: contract_db_def get_subject_def)
  from broken_contract_stops [OF _ _ _ , where i = "sample_id 2" and st = "sample_node contract_db" and
      E = "sample_env\<lparr>e_contract_raw := \<lambda>_. None\<rparr>" and g = contract_document and K = sample_compiler
      and governance = "sample_subject (sample_id 2) default_digest ''governance'' 1
        (document_to_json contract_document)" and s = "hd (gd_schemas contract_document)"] this
  show ?thesis using contract_document_checked by (simp add: contract_document_def sample_subject_def)
qed

text \<open>
  C16. After an update of the compiled contracts, the contract of every schema of the governance
  is there at the new version, so that requests for that version find it.
\<close>

theorem contracts_ready:
  assumes "update_contracts E K i v s = (Ok (), t)" "codec_ok (c_contract E)" "id_valid E i"
    and "get_contracts E i v (nd_db s) = Ok cs" "x \<in> set cs" "snd x \<noteq> ''governance''"
    and "sc_governance_id (eq_context r) = i" "sc_schema_id (eq_context r) = snd x" "eq_gov_version r = v"
  shows "\<exists>b. contract_to_run E r n (nd_db t) = Ok (CompiledContract b, v)"
proof -
  have "forA (update_contract E K i v) cs s = (Ok (), t)"
    using assms(1,4) by (auto simp: update_contracts_def bindA_eq_Inr ask_gov_eq_Inr)
  then have "contract_at E i v (snd x) (nd_db t)"
    using update_loop_Ok assms(2,3,5) by blast
  then show ?thesis
    using contract_ready [of E r "nd_db t"] assms(6-9) by simp
qed

theorem contracts_ready_witness:
  "\<exists>t b. update_contracts sample_env sample_compiler (sample_id 2) 1 (sample_node contract_db) = (Ok (), t) \<and>
     contract_to_run sample_env (sample_evaluation\<lparr>eq_gov_version := 1,
       eq_context := (eq_context sample_evaluation)\<lparr>sc_governance_id := sample_id 2, sc_schema_id := ''schema''\<rparr>\<rparr>)
       1 (nd_db t) = Ok (CompiledContract b, 1)"
proof -
  obtain t where t: "update_contracts sample_env sample_compiler (sample_id 2) 1 (sample_node contract_db) = (Ok (), t)"
    using sample_compiled by blast
  from contracts_ready [OF t _ sample_id_valid, of "[(\<lparr>co_raw = ''source''\<rparr>, ''schema'')]"] sample_contracts t
  show ?thesis by simp
qed

text \<open>
  C17. A contract gets exactly the state and the event of the request, and cannot spoil the bookkeeping
  of the memory it shares with the evaluator: after any run, reading at a pointer gives an allocation
  or an error, and is never out of bounds.
\<close>

theorem contract_memory:
  assumes "prims_ok (x_prims X)" "ser_value (x_prims X) state = Ok a" "ser_value (x_prims X) event = Ok b"
    and "length a < 2 ^ 32" "generate_context X state event = Ok (m, state_ptr, event_ptr)"
  shows "read_data e (unat state_ptr) m = Ok a \<and> read_data e (unat event_ptr) m = Ok b \<and>
    (\<forall>w p m' q. run_wasm w m = Ok (p, m') \<longrightarrow> \<not> is_panic (read_data e q m'))"
proof (intro conjI allI impI)
  fix w p m' q
  assume "run_wasm w m = Ok (p, m')"
  from run_wasm_inv [OF this generate_context_run(1) [OF assms]] show "\<not> is_panic (read_data e q m')"
    by (rule read_data_fits)
qed (rule generate_context_run(2,3) [OF assms])+

theorem contract_memory_witness:
  "\<exists>m p q b. generate_context sample_evaluator_env JNull (JBool True) = Ok (m, p, q) \<and>
     ser_value sample_prims (JBool True) = Ok b \<and> read_data InvalidPointerPovided (unat q) m = Ok b"
proof -
  have prims: "x_prims sample_evaluator_env = sample_prims"
    by (simp add: sample_evaluator_env_def)
  obtain a b where ab: "ser_value sample_prims JNull = Ok a" "ser_value sample_prims (JBool True) = Ok b"
      "length a < 2 ^ 32"
    by (simp add: sample_prims_def)
  obtain m p q where run: "generate_context sample_evaluator_env JNull (JBool True) = Ok (m, p, q)"
    by (simp add: generate_context_def borsh_value_def prims ab add_data_raw_run)
  from contract_memory [of sample_evaluator_env JNull a "JBool True" b, unfolded prims,
      OF sample_prims_ok ab run, of InvalidPointerPovided] ab(2) run show ?thesis
    by blast
qed

section \<open>The ledger\<close>

text \<open>
  C18. Nobody checks an own event that comes from outside. A message of any node with the command that
  the completer sends to the ledger is handed to the ledger; and an event the ledger applies
  when it comes with signatures and a proof, it applies just as well without a single signature
  and with any proof, with the same events, subjects and positions as a result. So a fact
  event is stored, and moves its subject, if only it is the next one.
\<close>

theorem forged_own_event:
  fixes s t :: "'b ledger"
  assumes "codec_ok (c_event E)" "codec_ok (c_subject E)" "\<forall>x. ser (c_signatures E) x \<noteq> None"
    and "event_validated E C ev gs p s = (Ok (), t)"
  shows "\<exists>c t'. route (LedgerMessages (OwnEvent ev [] q)) sender = Some (ToLedger c) \<and>
    ledger_turn E C keys (LInputCommand (Some (None, c))) s = (Ok True, t') \<and>
    (\<forall>i. get_subject E i (nd_db t') = get_subject E i (nd_db t)) \<and>
    (\<forall>i sn. get_event E i sn (nd_db t') = get_event E i sn (nd_db t)) \<and>
    lg_ledger_state t' = lg_ledger_state t \<and>
    (\<forall>f. content (ev_event_request (content ev)) = Fact f \<longrightarrow>
      get_event E (fa_subject_id f) (ev_sn (content ev)) (nd_db t') = Ok ev \<and>
      (\<exists>subject. get_subject E (fa_subject_id f) (nd_db t') = Ok subject \<and> su_sn subject = ev_sn (content ev)))"
proof -
  obtain t' where t': "event_validated E C ev [] q s = (Ok (), t')" "alike t t'"
    by (rule validated_unsigned [OF assms(3,4)])
  have same: "get_subject E i (nd_db t') = get_subject E i (nd_db t)"
    "get_event E i sn (nd_db t') = get_event E i sn (nd_db t)" for i sn
    using t'(2) signatures_elsewhere by (auto simp: alike_def)
  have "lg_ledger_state t' = lg_ledger_state t"
    using t'(2) unfolding alike_def by (metis ledger.select_convs(2) ledger.surjective node.update_convs(1))
  moreover have "get_event E (fa_subject_id f) (ev_sn (content ev)) (nd_db t') = Ok ev \<and>
      (\<exists>subject. get_subject E (fa_subject_id f) (nd_db t') = Ok subject \<and> su_sn subject = ev_sn (content ev))"
    if "content (ev_event_request (content ev)) = Fact f" for f
    using event_validated_fact [OF assms(1,2) t'(1) that] by (auto simp: event_stored_def dest: fact_result_sn)
  moreover have "ledger_turn E C keys (LInputCommand (Some (None, OwnEvent ev [] q))) s = (Ok True, t')"
    using t'(1) by (simp add: ledger_turn_def ledger_process_command_def ledger_command_result_def
        ledger_attempt_def bindA_run)
  ultimately show ?thesis using same by auto
qed

theorem forged_own_event_witness:
  "\<exists>c t subject. route (LedgerMessages (OwnEvent (sample_event (Fact sample_fact) 1 True) [] candidate_proof))
       (sample_key 200) = Some (ToLedger c) \<and>
     ledger_turn sample_env sample_config (\<lambda>_. sample_keys 1) (LInputCommand (Some (None, c)))
       (sample_ledger ledger_db (Some 0) None) = (Ok True, t) \<and>
     get_subject sample_env (sample_id 5) (nd_db t) = Ok subject \<and> su_sn subject = 1"
proof -
  obtain t where run: "event_validated sample_env sample_config (sample_event (Fact sample_fact) 1 True) []
      sample_proof (sample_ledger ledger_db (Some 0) None) = (Ok (), t)"
    using sample_validated(1) by (auto simp: is_Ok_iff fst_def split: prod.splits)
  have "\<forall>x. ser (c_signatures sample_env) x \<noteq> None" by (simp add: sample_env_def)
  from forged_own_event [OF _ _ this run, of candidate_proof "sample_key 200" "\<lambda>_. sample_keys 1"] show ?thesis
    by fastforce
qed

text \<open>
  C19. A validated fact: the ledger held the subject at the number before the event, and after it
  the event is stored and the subject is at the event's number, with the patch applied to its
  state if the event was approved and with the old state if not, and otherwise unchanged.
\<close>

theorem ledger_fact:
  fixes s t :: "'b ledger"
  assumes "codec_ok (c_event E)" "codec_ok (c_subject E)"
    and "event_validated E C ev gs p s = (Ok (), t)"
    and "content (ev_event_request (content ev)) = Fact f"
  shows "\<exists>subject subject'. get_subject E (fa_subject_id f) (nd_db s) = Ok subject \<and>
    su_sn subject = ev_sn (content ev) - 1 \<and>
    subject' = subject\<lparr>su_sn := ev_sn (content ev), su_properties := su_properties subject'\<rparr> \<and>
    (if ev_approved (content ev)
     then e_patch E (su_properties subject) (ev_patch (content ev)) = Some (su_properties subject')
     else su_properties subject' = su_properties subject) \<and>
    get_event E (fa_subject_id f) (ev_sn (content ev)) (nd_db t) = Ok ev \<and>
    get_subject E (fa_subject_id f) (nd_db t) = Ok subject'"
  using event_validated_fact [OF assms] by (simp add: fact_result_def event_stored_def) metis

theorem ledger_fact_witness:
  "\<exists>t s'. event_validated sample_env sample_config (sample_event (Fact sample_fact) 1 True) [] sample_proof
       (sample_ledger ledger_db (Some 0) None) = (Ok (), t) \<and>
     get_subject sample_env (sample_id 5) (nd_db t) = Ok s' \<and> su_sn s' = 1 \<and> su_properties s' = JArray []"
proof -
  obtain t where run: "event_validated sample_env sample_config (sample_event (Fact sample_fact) 1 True) []
      sample_proof (sample_ledger ledger_db (Some 0) None) = (Ok (), t)"
    using sample_validated(1) by (auto simp: is_Ok_iff fst_def split: prod.splits)
  from ledger_fact [OF _ _ run, of sample_fact] obtain subject' :: subject
    where s': "subject' = sample_subject_5\<lparr>su_sn := 1, su_properties := su_properties subject'\<rparr>"
      "su_properties subject' = JArray []" "get_subject sample_env (sample_id 5) (nd_db t) = Ok subject'"
    by auto
  have "su_sn subject' = 1" by (subst s'(1)) simp
  with run s' show ?thesis by blast
qed

text \<open>
  A validated transfer: the event is stored and the subject has the signer of the request as
  its owner, the public key of the request, the event's number, and our key pair for it exactly
  when we are the new owner.
\<close>

lemma ledger_transfer:
  fixes s t :: "'b ledger"
  assumes "codec_ok (c_event E)" "codec_ok (c_subject E)"
    and "event_validated E C ev gs p s = (Ok (), t)"
    and "content (ev_event_request (content ev)) = Transfer tr"
  shows "\<exists>subject keys. get_subject E (tr_subject_id tr) (nd_db s) = Ok subject \<and>
    get_event E (tr_subject_id tr) (ev_sn (content ev)) (nd_db t) = Ok ev \<and>
    get_subject E (tr_subject_id tr) (nd_db t) = Ok (subject\<lparr>
      su_owner := sg_signer (signature (ev_event_request (content ev))),
      su_public_key := tr_public_key tr, su_keys := keys, su_sn := ev_sn (content ev)\<rparr>) \<and>
    (keys = None \<longleftrightarrow> sg_signer (signature (ev_event_request (content ev))) \<noteq> lc_our_id C)"
  using event_validated_transfer [OF assms] by (simp add: event_stored_def transfer_subject_def)

lemma ledger_transfer_witness:
  "\<exists>t. event_validated sample_env sample_config (sample_event (Transfer sample_transfer) 1 True) [] sample_proof
       (sample_ledger ledger_db (Some 0) None) = (Ok (), t) \<and>
     get_subject sample_env (sample_id 5) (nd_db t) = Ok (sample_subject_5\<lparr>su_owner := sample_key 1,
       su_public_key := sample_key 8, su_keys := None, su_sn := 1\<rparr>)"
proof -
  obtain t where run: "event_validated sample_env sample_config (sample_event (Transfer sample_transfer) 1 True)
      [] sample_proof (sample_ledger ledger_db (Some 0) None) = (Ok (), t)"
    using sample_validated(2) by (auto simp: is_Ok_iff fst_def split: prod.splits)
  then show ?thesis
    using ledger_transfer [OF _ _ run, of sample_transfer] by auto
qed

text \<open>
  A validated end of life: the event is stored and the subject is at its number and no longer
  active.
\<close>

lemma ledger_eol:
  fixes s t :: "'b ledger"
  assumes "codec_ok (c_event E)" "codec_ok (c_subject E)"
    and "event_validated E C ev gs p s = (Ok (), t)"
    and "content (ev_event_request (content ev)) = EOL e"
  shows "\<exists>subject. get_subject E (eo_subject_id e) (nd_db s) = Ok subject \<and>
    get_event E (eo_subject_id e) (ev_sn (content ev)) (nd_db t) = Ok ev \<and>
    get_subject E (eo_subject_id e) (nd_db t) =
      Ok (subject\<lparr>su_sn := ev_sn (content ev), su_active := False\<rparr>)"
  using event_validated_eol [OF assms] by (simp add: event_stored_def)

lemma ledger_eol_witness:
  "\<exists>t. event_validated sample_env sample_config (sample_event (EOL sample_eol) 1 True) [] sample_proof
       (sample_ledger ledger_db (Some 0) None) = (Ok (), t) \<and>
     get_subject sample_env (sample_id 5) (nd_db t) =
       Ok (sample_subject_5\<lparr>su_sn := 1, su_active := False\<rparr>)"
proof -
  obtain t where run: "event_validated sample_env sample_config (sample_event (EOL sample_eol) 1 True)
      [] sample_proof (sample_ledger ledger_db (Some 0) None) = (Ok (), t)"
    using sample_validated(3) by (auto simp: is_Ok_iff fst_def split: prod.splits)
  then show ?thesis
    using ledger_eol [OF _ _ run, of sample_eol] by auto
qed

text \<open>
  The rest of what a validated event does: the position of its subject moves one event
  further and no other position changes, the distribution module is asked for the signatures of
  the event, and the request of the event is recorded as finished, successful exactly if the
  event was evaluated successfully and approved.
\<close>

lemma ledger_progress:
  fixes s t :: "'b ledger"
  assumes "codec_ok (c_taple_request E)" "event_validated E C ev gs p s = (Ok (), t)"
    and "request_subject (content (ev_event_request (content ev))) = Some i"
  shows "lg_ledger_state t = (lg_ledger_state s)(i := next_position (lg_ledger_state s i)) \<and>
    next_position (lg_ledger_state s i) \<noteq> None \<and>
    (\<exists>l. nd_distribution t = l @ [SignaturesNeeded i (ev_sn (content ev))]) \<and>
    (\<exists>rid r. generate_with_blake3 E (PSignedEventRequest (ev_event_request (content ev))) = Ok rid \<and>
       get_taple_request E rid (nd_db t) = Ok r \<and> tq_state r = Finished \<and>
       tq_success r = Some (ev_eval_success (content ev) \<and> ev_approved (content ev)) \<and>
       tq_sn r = Some (ev_sn (content ev)))"
  using event_validated_position [OF assms(2,3)] event_validated_finished [OF assms(1,2)] by blast

lemma ledger_progress_witness:
  "\<exists>t. event_validated sample_env sample_config (sample_event (Fact sample_fact) 1 True) [] sample_proof
       (sample_ledger ledger_db (Some 0) None) = (Ok (), t) \<and>
     lg_ledger_state t (sample_id 5) = Some \<lparr>ls_current_sn = Some 1, ls_head = None\<rparr>"
proof -
  obtain t where run: "event_validated sample_env sample_config (sample_event (Fact sample_fact) 1 True) []
      sample_proof (sample_ledger ledger_db (Some 0) None) = (Ok (), t)"
    using sample_validated(1) by (auto simp: is_Ok_iff fst_def split: prod.splits)
  then show ?thesis
    using ledger_progress [OF _ run, of "sample_id 5"]
    by (simp add: request_subject_def next_position_def)
qed

section \<open>The ledger behind its head\<close>

text \<open>
  C20. An event accepted between the last applied one and the head: it is signed, and it is
  exactly the next one of a subject with a known head; the position of the subject moves by one,
  or to the head when only the head was left, and no other position changes.
\<close>

theorem sync_step:
  fixes s t :: "'b ledger"
  assumes "external_intermediate_event E C ev s = (Ok (), t)"
  shows "\<exists>l h. lg_ledger_state s (ev_subject_id (content ev)) = Some l \<and> ls_head l = Some h \<and>
    verify_event_signatures E ev = Ok () \<and>
    ev_sn (content ev) = next_sn (ls_current_sn l) \<and>
    lg_ledger_state t =
      (lg_ledger_state s)(ev_subject_id (content ev) \<mapsto> sync_position (ls_current_sn l) h)"
  using assms by (rule intermediate_Ok) blast

theorem sync_step_witness:
  "\<exists>t. external_intermediate_event sample_env sample_config (sample_event (Transfer sample_transfer) 1 True)
       (sample_ledger ledger_db (Some 0) (Some 3)) = (Ok (), t) \<and>
     lg_ledger_state t (sample_id 5) = Some \<lparr>ls_current_sn = Some 1, ls_head = Some 3\<rparr>"
proof -
  obtain t where run: "external_intermediate_event sample_env sample_config
      (sample_event (Transfer sample_transfer) 1 True) (sample_ledger ledger_db (Some 0) (Some 3)) = (Ok (), t)"
    using sample_synced by (auto simp: is_Ok_iff fst_def split: prod.splits)
  then show ?thesis
    using sync_step [OF run] by (auto simp: sync_position_def)
qed

text \<open>
  C21. Catching up ends: the events a subject accepts one after the other have consecutive
  numbers from the next one on, so each is applied once and in order; the head stays ahead of
  the position; and no more events are accepted than lie between the position and the head.
\<close>

theorem sync_run:
  fixes s t :: "'b ledger"
  assumes "forA (external_intermediate_event E C) evs s = (Ok (), t)"
    and "\<forall>ev \<in> set evs. ev_subject_id (content ev) = i"
    and "lg_ledger_state s i = Some l" "position_ok l"
  shows "map (\<lambda>ev. ev_sn (content ev)) evs =
      map (\<lambda>j. next_sn (ls_current_sn l) + of_nat j) [0..<length evs] \<and>
    (\<exists>l'. lg_ledger_state t i = Some l' \<and> position_ok l' \<and> length evs + distance l' \<le> distance l)"
  using catch_up [OF assms] by (auto simp: add.commute)

theorem sync_run_witness:
  "\<exists>t l'. forA (external_intermediate_event sample_env sample_config)
       [sample_event (Transfer sample_transfer) 1 True] (sample_ledger ledger_db (Some 0) (Some 3)) = (Ok (), t) \<and>
     lg_ledger_state t (sample_id 5) = Some l' \<and> position_ok l'"
proof -
  obtain t where "external_intermediate_event sample_env sample_config
      (sample_event (Transfer sample_transfer) 1 True) (sample_ledger ledger_db (Some 0) (Some 3)) = (Ok (), t)"
    using sample_synced by (auto simp: is_Ok_iff fst_def split: prod.splits)
  then have run: "forA (external_intermediate_event sample_env sample_config)
      [sample_event (Transfer sample_transfer) 1 True] (sample_ledger ledger_db (Some 0) (Some 3)) = (Ok (), t)"
    by (simp add: bindA_eq_Inr)
  have "position_ok \<lparr>ls_current_sn = Some 0, ls_head = Some 3\<rparr>"
    by (simp add: position_ok_def)
  then show ?thesis
    using sync_run [OF run, of "sample_id 5"] run by fastforce
qed

text \<open>
  C22. The head is only applied with a validation proof that fits the subject: the stored proof
  of the head names the subject's identity, the number after the subject's, the hash of the
  subject's last stored event and the hash of the head event itself. After that nothing is
  missing any more and the distribution module is asked for the signatures of the head.
\<close>

theorem head_applied:
  fixes s t :: "'b ledger"
  assumes "apply_head E C i h subject s = (Ok (), t)"
  shows "(\<exists>ev p. get_event E i h (nd_db s) = Ok ev \<and> get_lce_validation_proof E i (nd_db s) = Ok p \<and>
      from_serializable_borsh E (PEvent (content ev)) (di_derivator (vp_event_hash p)) = Ok (vp_event_hash p) \<and>
      proof_prev_hash E p subject (nd_db s) = Ok (vp_prev_event_hash p) \<and>
      vp_sn p = su_sn subject + 1 \<and> vp_subject_id p = su_subject_id subject \<and>
      vp_governance_id p = su_governance_id subject \<and> vp_schema_id p = su_schema_id subject \<and>
      vp_namespace p = su_namespace subject \<and> vp_name p = su_name subject) \<and>
    lg_ledger_state t = (lg_ledger_state s)(i \<mapsto> \<lparr>ls_current_sn = Some h, ls_head = None\<rparr>) \<and>
    (\<exists>l. nd_distribution t = l @ [SignaturesNeeded i h])"
  using apply_head_position [OF assms] by (fastforce simp: proof_fits_def content_hash_as_def)

theorem head_applied_witness:
  "\<exists>t. apply_head sample_env sample_config (sample_id 5) 1 sample_subject_5
       (sample_ledger head_db (Some 0) (Some 1)) = (Ok (), t) \<and>
     lg_ledger_state t (sample_id 5) = Some \<lparr>ls_current_sn = Some 1, ls_head = None\<rparr>"
proof -
  obtain t where run: "apply_head sample_env sample_config (sample_id 5) 1 sample_subject_5
      (sample_ledger head_db (Some 0) (Some 1)) = (Ok (), t)"
    using sample_head_applied by (auto simp: is_Ok_iff fst_def split: prod.splits)
  then show ?thesis
    using head_applied [OF run] by simp
qed

text \<open>
  The node that makes a proof and the node that checks it agree: the proof made from a
  subject for its next event, with the hash of its last stored event, passes the check of the
  ledger against the same subject, with the subject's key or, for a transfer, the new key.
\<close>

lemma made_proof_accepted:
  assumes "get_event E (su_subject_id s) (su_sn s) m = Ok prev"
    and "from_serializable_borsh E (PEvent (content prev)) d = Ok h"
  shows "check_validation_proof E (new_proof s (su_sn s + 1) h eh v) s eh (su_public_key s) m = Ok () \<and>
    check_validation_proof E (new_from_transfer_event s (su_sn s + 1) h eh v pk) s eh pk m = Ok ()"
  using new_proof_fits [OF assms] by (simp add: check_validation_proof_iff)

lemma made_proof_accepted_witness:
  "check_validation_proof sample_env
     (new_proof sample_subject_5 1 (new_digest Blake3_256 sample_hash) (sample_id 7) 0)
     sample_subject_5 (sample_id 7) (su_public_key sample_subject_5) ledger_db = Ok ()"
  using made_proof_accepted [of sample_env sample_subject_5 ledger_db, OF _ sample_hashes(1)]
  by (metis add_0 ledger_db_reads(4) sample_ledger_sel(8,9))

text \<open>
  C23. An event that needs evaluation passes the check of the ledger only if enough different
  evaluators of the governance signed exactly the evaluation result the event carries, and,
  unless it is approved without needing approval, enough different approvers signed exactly its
  approval or rejection. Nothing is written by the check.
\<close>

theorem event_checked:
  fixes s t :: "'b ledger"
  assumes "check_event E ev md ctx s = (Ok (), t)"
    and "requires_eval_appr (content (ev_event_request (content ev)))"
  shows "t = s \<and>
    (\<exists>evaluators q resp. get_signers E md Evaluate (nd_db s) = Ok evaluators \<and>
       get_quorum E md Evaluate (nd_db s) = Ok q \<and>
       event_evaluation_response E ctx (content ev) = Ok resp \<and>
       quorum_signed E (PEvaluationResponse resp) evaluators
         (if ev_eval_success (content ev) then q else quorum_negative evaluators q)
         (ev_evaluators (content ev))) \<and>
    (ev_approved (content ev) \<and> \<not> ev_appr_required (content ev) \<or>
     (\<exists>approvers r aresp. get_signers E md Approve (nd_db s) = Ok approvers \<and>
       get_quorum E md Approve (nd_db s) = Ok r \<and>
       event_approval_response E (sc_governance_id ctx) (content ev) = Ok aresp \<and>
       quorum_signed E (PApprovalResponse aresp) approvers
         (if ev_approved (content ev) then r else quorum_negative approvers r)
         (ev_approvers (content ev))))"
proof -
  obtain es q as r where "t = s"
    and es: "get_signers E md Evaluate (nd_db s) = Ok es" "get_quorum E md Evaluate (nd_db s) = Ok q"
    and as: "get_signers E md Approve (nd_db s) = Ok as" "get_quorum E md Approve (nd_db s) = Ok r"
    and v: "verify_eval_appr E ctx (es, q, quorum_negative es q) (as, r, quorum_negative as r) ev = Ok ()"
    using check_event_Ok [OF assms(1)] by blast
  then show ?thesis
    using verify_eval_appr_Ok [OF v assms(2)] by blast
qed

theorem event_checked_witness:
  "\<exists>evaluators q. get_signers sample_env sample_metadata Evaluate ledger_db = Ok evaluators \<and>
     get_quorum sample_env sample_metadata Evaluate ledger_db = Ok q"
  using event_checked [OF sample_checked] by auto

text \<open>
  Acceptance and rejection exclude each other as far as signers are honest: with a quorum
  between one and the number of signers, a positive quorum of signatures and a negative quorum
  always have a signer in common, so two opposite results of one evaluation need a signer that
  signed both.
\<close>

lemma opposite_quorums_meet:
  assumes "finite signers" "unat q \<le> card signers" "card signers < 2 ^ 32 - 1"
    and "quorum_signed E yes signers q gs" "quorum_signed E no signers (quorum_negative signers q) gs'"
  shows "\<exists>k. k \<in> sg_signer ` set gs \<inter> sg_signer ` set gs'"
  using assms by (rule quorums_intersect)

lemma opposite_quorums_meet_witness:
  "\<exists>k. k \<in> sg_signer ` set [sample_signature 1] \<inter> sg_signer ` set [sample_signature 1]"
  by (rule opposite_quorums_meet [of "{sample_key 1}" 1 sample_env "PValue JNull" _ "PValue (JBool True)"])
    (simp_all add: quorum_signed_def quorum_negative_def)

text \<open>
  C24. A quorum of one more than the signers, which a governance may fix, makes the negative
  quorum wrap around to zero: a failed evaluation and its rejection then pass the check with
  no signature at all.
\<close>

theorem unreachable_quorum:
  assumes "q = of_nat (card signers) + 1" "r = of_nat (card approvers) + 1"
    and "\<not> ev_eval_success (content ev)" "\<not> ev_approved (content ev)"
    and "ev_evaluators (content ev) = []" "ev_approvers (content ev) = []"
    and "\<And>x. e_borsh E x \<noteq> None"
  shows "verify_eval_appr E ctx (signers, q, quorum_negative signers q)
    (approvers, r, quorum_negative approvers r) ev = Ok ()"
proof -
  have "from_serializable_borsh E x d = Ok (new_digest d (e_hash E d (the (e_borsh E x))))" for x d
    using assms(7) [of x] by (auto simp: from_serializable_borsh_def)
  then show ?thesis
    using assms(1-6)
    by (simp add: verify_eval_appr_def event_evaluation_response_def evaluation_request_hash_def
        event_approval_response_def get_approval_hash_def approval_request_hash_def
        check_quorum_def quorum_negative_wraps)
qed

definition unsigned_rejection :: "event signed" where
  "unsigned_rejection = (sample_event (Fact sample_fact) 1 False)\<lparr>content :=
     (content (sample_event (Fact sample_fact) 1 False))\<lparr>ev_eval_success := False,
       ev_evaluators := [], ev_approvers := []\<rparr>\<rparr>"

theorem unreachable_quorum_witness:
  "verify_eval_appr sample_env (get_subject_context sample_governance (sample_key 1))
     ({sample_key 1}, 2, quorum_negative {sample_key 1} 2) ({sample_key 1}, 2, quorum_negative {sample_key 1} 2)
     unsigned_rejection = Ok ()"
  by (rule unreachable_quorum) (simp_all add: unsigned_rejection_def sample_env_def)

text \<open>
  The ledger accepts a set of signatures of a proof exactly when enough different allowed
  signers have a valid signature of it in the set, whatever else the set holds: repeated, foreign
  or invalid signatures neither help nor hurt.
\<close>

lemma signatures_accepted:
  assumes "\<And>g m. g \<in> set gs \<Longrightarrow> signature_verify E g (PProof p) \<noteq> Abort m"
  shows "verify_signatures E gs signers q p = Ok () \<longleftrightarrow>
    unat q \<le> card {k \<in> signers. \<exists>g \<in> set gs. sg_signer g = k \<and> signature_verify E g (PProof p) = Ok ()}"
  using verify_signatures_iff [OF assms] by (simp add: good_signers_def)

lemma signatures_accepted_witness:
  "verify_signatures sample_env [sample_signature 1, sample_signature 1, sample_signature 7]
     {sample_key 1, sample_key 2} 1 sample_proof = Ok ()"
proof -
  have "{k \<in> {sample_key 1, sample_key 2}.
      \<exists>g \<in> set [sample_signature 1, sample_signature 1, sample_signature 7].
        sg_signer g = k \<and> signature_verify sample_env g (PProof sample_proof) = Ok ()} = {sample_key 1}"
    by auto
  then show ?thesis
    by (subst signatures_accepted) auto
qed

section \<open>Governance\<close>



text \<open>
  Permission to create or to issue: the governance grants it exactly when some role for
  that stage, schema and namespace covers the invoker: by identifier or name if it is a member,
  as one of the members, as one of the non-members, or as anyone.
\<close>

lemma permission_granted:
  assumes "issue_create_info E rs schema_id namespace stage ms is_gov invoker = Ok b"
  shows "b \<longleftrightarrow> (\<exists>r \<in> set rs. role_permits E ms schema_id namespace stage is_gov invoker r)"
  using assms by (rule issue_create_info_permits)

definition sample_roles :: "role list" where
  "sample_roles =
     [\<lparr>ro_who = WhoMEMBERS, ro_namespace = [], ro_role = ''CREATOR'', ro_schema = SchemaALL\<rparr>,
      \<lparr>ro_who = WhoNOT_MEMBERS, ro_namespace = ''ns'', ro_role = ''CREATOR'', ro_schema = SchemaID ''schema''\<rparr>]"

lemma permission_granted_witness:
  "\<exists>r \<in> set sample_roles.
     role_permits sample_env ({}, Map.empty) ''schema'' ''ns'' StageCreate False (sample_key 1) r"
proof -
  have "issue_create_info sample_env sample_roles ''schema'' ''ns'' StageCreate ({}, Map.empty) False
      (sample_key 1) = Ok True"
    by (simp add: sample_roles_def role_applies_def namespace_contiene_def Let_def)
  from permission_granted [OF this] show ?thesis by simp
qed

text \<open>
  A governance read at a version before its current one is the initial document with the
  patches of all the stored events up to that version applied in order, whether the events were
  approved or not. When events were rejected this differs from the states the governance really
  had, which the ledger does not change for them.
\<close>

lemma governance_at_past_version:
  assumes "get_subject E g m = Ok cur" "v < su_sn cur" "governance_event_sourcing E g v m = Ok s"
  shows "su_sn s = v \<and>
    (\<exists>evs. length evs = unat v \<and> (\<forall>j < unat v. get_event E g (1 + of_nat j) m = Ok (evs ! j)) \<and>
      patched E (map (\<lambda>ev. ev_patch (content ev)) evs) get_governance_initial_state =
        Some (su_properties s))"
  using sourcing_past [OF assms] by simp

lemma governance_at_past_version_witness:
  "\<exists>s. governance_event_sourcing sample_env (sample_id 2) 1 governance_db = Ok s \<and> su_sn s = 1 \<and>
     su_properties s = JArray []"
proof -
  obtain s where s: "governance_event_sourcing sample_env (sample_id 2) 1 governance_db = Ok s"
    using sample_past by (auto simp: is_Ok_iff)
  have "(1 :: u64) < su_sn (sample_governance\<lparr>su_sn := 2\<rparr>)" by simp
  from governance_at_past_version [OF governance_db_reads(1) this s] s show ?thesis
    by (auto simp: Suc_le_eq length_Suc_conv)
qed

text \<open>
  The roles of a governance document survive being written as JSON and read back, for
  roles of every kind, and the quorums of its policies likewise.
\<close>

lemma roles_roundtrip:
  "roles_of_json (JArray (map role_to_json rs)) = Some rs \<and> quorum_of_json (quorum_to_json q) = Some q"
  by (simp only: roles_json_roundtrip quorum_json_roundtrip simp_thms)

text \<open>
  C26. Asking the governance module over its channel is reading the database: whatever the other tasks
  ask, tell and write meanwhile, a call sees nothing yet, the end of the module, or what \<open>ask_gov\<close>
  gives on the database the module had when it turned to the question; and after as many turns as
  messages wait, a call that still waits has its answer.
\<close>

theorem governance_channel:
  fixes r :: "'b governance_run"
  assumes "channel_new buffer = Ok c" "(gov_step E)\<^sup>*\<^sup>* (gov_start c d n) r" "rx < length (gr_asked r)"
  shows "answered_as (call_get_init_state g i v) (get_init_state E g i v) rx r \<and>
    answered_as (call_get_schema g i v) (get_schema E g i v) rx r \<and>
    answered_as (call_get_signers md st) (get_signers E md st) rx r \<and>
    answered_as (call_get_quorum md st) (get_quorum E md st) rx r \<and>
    answered_as (call_get_invoke_info md st who) (get_issue_create_info E md st who) rx r \<and>
    answered_as (call_get_contracts g v) (get_contracts E g v) rx r \<and>
    answered_as (call_get_governance_version g h) (get_governance_version E h g) rx r \<and>
    answered_as (call_is_governance h) (is_governance E h) rx r \<and>
    (ch_oneshots (gr_channel r) ! rx \<noteq> OneshotReceiverDropped \<longrightarrow>
      (\<forall>k \<ge> length (ch_queue (gr_channel r)). call_await call rx (governance_turns E k (gr_task r)) \<noteq> None))"
proof -
  have inv: "gov_inv E r"
    using gov_run_inv [OF assms(2) gov_start_inv [OF assms(1)]] .
  show ?thesis
    by (intro conjI impI allI call_answered [OF inv assms(3)] turns_answer [OF inv assms(3)]) simp_all
qed

theorem governance_channel_witness:
  "\<exists>c r. channel_new 1 = Ok c \<and> (gov_step sample_env)\<^sup>*\<^sup>* (gov_start c sample_db 1) r \<and>
     gr_asked r = [AskIsGovernance (sample_id 9)] \<and> gr_read r = Map.empty \<and>
     call_await (call_is_governance (sample_id 9)) 0 (governance_turns sample_env 1 (gr_task r)) \<noteq> None"
proof -
  obtain c :: "(governance_message, governance_response) channel" where c: "channel_new 1 = Ok c"
    by (simp add: channel_new_def)
  let ?s = "gov_start c sample_db 1"
  obtain c' where ask: "channel_ask (AskIsGovernance (sample_id 9)) c = (Ok (Some 0), c')"
    "ch_queue c' = [AskData 0 (AskIsGovernance (sample_id 9))]" "ch_oneshots c' = [OneshotOpen]"
    using c by (auto simp: channel_new_def channel_ask_def channel_send_def bindA_run)
  let ?r = "(with_channel c' ?s)\<lparr>gr_asked := gr_asked ?s @ [AskIsGovernance (sample_id 9)]\<rparr>"
  have run: "(gov_step sample_env)\<^sup>*\<^sup>* ?s ?r"
    using ask(1) by (intro r_into_rtranclp gov_step.Ask) (simp add: gov_start_def)
  have r: "gr_asked ?r = [AskIsGovernance (sample_id 9)]" "gr_channel ?r = c'" "gr_read ?r = Map.empty"
    by (simp_all add: gov_start_def with_channel_def)
  have answers: "\<forall>k \<ge> length (ch_queue (gr_channel ?r)).
      call_await (call_is_governance (sample_id 9)) 0 (governance_turns sample_env k (gr_task ?r)) \<noteq> None"
    using governance_channel [OF c run, of 0, where call = "call_is_governance (sample_id 9)"]
    unfolding r(1,2) ask(2,3) by simp
  have "length (ch_queue (gr_channel ?r)) \<le> 1"
    unfolding r(2) ask(2) by simp
  from answers [rule_format, OF this]
  have "call_await (call_is_governance (sample_id 9)) 0 (governance_turns sample_env 1 (gr_task ?r)) \<noteq> None" .
  with c run r show ?thesis by blast
qed

section \<open>The database\<close>

text \<open>
  C27. The table of subjects and the table of events are maps: a write that succeeds updates
  the map in one place, a subject under its identifier and an event under the identifier and its
  number, neither changes the other table, and a write that fails changes nothing.
\<close>

theorem tables_are_maps:
  assumes "codec_ok (c_subject E)" "codec_ok (c_event E)" "id_valid E i"
  shows "(case set_subject E i x m of (r, m') \<Rightarrow>
      subjects.view E m' = (if is_Ok r then (subjects.view E m)(i \<mapsto> x) else subjects.view E m) \<and>
      events.view E m' = events.view E m) \<and>
    (case set_event E i ev m of (r, m') \<Rightarrow>
      events.view E m' = (if is_Ok r then (events.view E m)((i, ev_sn (content ev)) \<mapsto> ev)
        else events.view E m) \<and>
      subjects.view E m' = subjects.view E m)"
proof -
  obtain r1 m1 where 1: "set_subject E i x m = (r1, m1)" by fastforce
  obtain r2 m2 where 2: "set_event E i ev m = (r2, m2)" by fastforce
  have "events.view E m1 = events.view E m"
    using events.view_foreign [OF writes_sets(1) [of m E i x]] 1 by simp
  moreover have "subjects.view E m2 = subjects.view E m"
    using subjects.view_foreign [OF writes_set_event [of m E i ev]] 2 by simp
  moreover have "subjects.view E m1 = (if is_Ok r1 then (subjects.view E m)(i \<mapsto> x) else subjects.view E m)"
    using 1 subjects.view_put [OF assms(1,3) TrueI] subjects.view_put_fail by (cases r1) auto
  moreover have "events.view E m2 =
      (if is_Ok r2 then (events.view E m)((i, ev_sn (content ev)) \<mapsto> ev) else events.view E m)"
    using 2 events.view_put [where k = "(i, ev_sn (content ev))", OF assms(2)] assms(3)
      events.view_put_fail [where k = "(i, ev_sn (content ev))"] by (cases r2) auto
  ultimately show ?thesis using 1 2 by simp
qed

theorem tables_are_maps_witness:
  "subjects.view sample_env (db_after (set_subject sample_env (sample_id 5) sample_subject_5) ledger_db) =
     (subjects.view sample_env ledger_db)(sample_id 5 \<mapsto> sample_subject_5)"
  using tables_are_maps [of sample_env "sample_id 5" ledger_db sample_subject_5] by simp

text \<open>
  The keys of the events of a subject are in the order of the events: among the keys
  the event table builds for one subject, a smaller number gives a smaller key, so iterating over
  the store visits the events of a subject in order.
\<close>

lemma event_keys_ordered:
  assumes "get_key [S ''event'', S (dstr E i), N a] = Ok k"
    and "get_key [S ''event'', S (dstr E i), N b] = Ok l"
  shows "k < l \<longleftrightarrow> a < b"
proof -
  have "k = (''event'' @ char_MAX @ dstr E i @ char_MAX) @ get_u64_as_hexadecimal a"
    "l = (''event'' @ char_MAX @ dstr E i @ char_MAX) @ get_u64_as_hexadecimal b"
    using assms by (simp_all add: get_key_eval)
  then show ?thesis by (simp only: list_less_append_same hexadecimal_less_iff)
qed

lemma event_keys_ordered_witness:
  "''event'' @ char_MAX @ dstr sample_env (sample_id 5) @ char_MAX @ get_u64_as_hexadecimal 9 <
   ''event'' @ char_MAX @ dstr sample_env (sample_id 5) @ char_MAX @ get_u64_as_hexadecimal 10"
  using event_keys_ordered [OF get_key_2N get_key_2N, of sample_env "sample_id 5" 9 10] by simp

text \<open>
  A range of the events of a subject that starts after a given event is never found: the
  number is looked up in decimal among keys that end in a 16-digit hexadecimal number and a space.
\<close>

lemma events_from_never_found:
  assumes "\<forall>k \<in> fst ` set m. starts_with (''event'' @ char_MAX @ dstr E i @ char_MAX) k \<longrightarrow>
    (\<exists>sn. k = ''event'' @ char_MAX @ dstr E i @ char_MAX @ get_u64_as_hexadecimal sn)"
  shows "get_events_by_range E i (Some n) q m = Fail EntryNotFound"
  by (rule events_from_not_found) (use assms in \<open>simp add: event_keys_ok_def ev_key_def\<close>)

lemma events_from_never_found_witness:
  "get_events_by_range sample_env (sample_id 5) (Some 0) 10
     [(''event'' @ char_MAX @ dstr sample_env (sample_id 5) @ char_MAX @ get_u64_as_hexadecimal 0,
       BEvent (sample_event (Create sample_start) 0 True)),
      (''event'' @ char_MAX @ dstr sample_env (sample_id 5) @ char_MAX @ get_u64_as_hexadecimal 1,
       BEvent (sample_event (Fact sample_fact) 1 True))] = Fail EntryNotFound"
  by (rule events_from_never_found) auto

text \<open>
  All subjects of the in-memory database are hidden by any entry of another table whose key
  is smaller: the iterator ends at the first key without the prefix instead of skipping it.
\<close>

lemma subjects_hidden:
  assumes "m = (k, d) # rest" "\<not> starts_with (''subject'' @ char_MAX) k"
  shows "get_all_subjects E m = Ok []"
  using assms by (rule get_all_subjects_hidden)

lemma subjects_hidden_witness:
  "get_all_subjects sample_env
     [(''controller-id'', BString ''me''),
      (''subject'' @ char_MAX @ dstr sample_env (sample_id 5), BSubject sample_subject_5)] = Ok []"
  by (rule subjects_hidden [OF refl]) (simp add: starts_with_def)

section \<open>Identifiers, values and signatures\<close>

text \<open>
  C28. Identifiers survive being written as text and read back: digests, public keys and
  signatures whose material has the length their derivator announces.
\<close>

theorem identifiers_roundtrip:
  assumes "di_digest d \<noteq> []" "b64_at B (di_digest d) (digest_derivative_len (di_derivator d))"
    and "ki_public_key k \<noteq> []" "b64_at B (ki_public_key k) (key_derivative_len (ki_derivator k))"
    and "si_signature g \<noteq> []" "b64_at B (si_signature g) (signature_derivative_len (si_derivator g))"
  shows "digest_from_str B (digest_to_str B d) = Ok d \<and> key_from_str B (key_to_str B k) = Ok k \<and>
    signature_from_str B (signature_to_str B g) = Ok g"
  using assms by (simp add: digest_roundtrip key_roundtrip signature_roundtrip)

text \<open>The material of 43 and of 86 characters, for the witness.\<close>

definition two_codes :: b64 where
  "two_codes = \<lparr>
     b64_enc = \<lambda>b. replicate (if b = [1] then 43 else 86) CHR ''A'',
     b64_dec = \<lambda>s. Some (if length s = 43 then [1] else [2])\<rparr>"

theorem identifiers_roundtrip_witness:
  "digest_from_str two_codes (digest_to_str two_codes (new_digest SHA3_256 [1])) = Ok (new_digest SHA3_256 [1])"
  using identifiers_roundtrip [of "new_digest SHA3_256 [1]" two_codes "new_key Ed25519 [1]"
      "new_signature_id Ed25519Sha512 [2]"]
  by (simp add: new_digest_def new_key_def new_signature_id_def b64_at_def two_codes_def ascii_def
      list_all_iff)

text \<open>
  Reading an identifier can panic instead of failing: the code of a digest is sliced before
  the length is known, so the one-character text \<^verbatim>\<open>0\<close> ends the task, and so does any text that
  begins with a character of more than one byte; the same goes for the generic identifier, which
  tries the digest first, and for the empty text of a signature.
\<close>

lemma identifier_panics:
  "is_panic (digest_from_str B ''0'') \<and> is_panic (identifier_from_str B ''0'') \<and>
   is_panic (signature_from_str B []) \<and>
   (128 \<le> (of_char c :: nat) \<and> (of_char c :: nat) < 192 \<longrightarrow> is_panic (digest_from_str B (b # c # s)))"
  by (simp add: identifier_from_str_def digest_from_str_def digest_derivator_from_str_def
      signature_from_str_def signature_derivator_from_str_def slice_def char_boundary_def)

lemma identifier_panics_witness:
  "is_panic (digest_from_str sample_b64 [char_of (0xC3 :: nat), char_of (0xA9 :: nat)])"
  using identifier_panics [of sample_b64 "char_of (0xA9 :: nat)" "char_of (0xC3 :: nat)" "[]"] by simp

text \<open>
  C29. JSON values survive the binary encoding: every value within the limits of the format (32-bit
  lengths, numbers in range, finite floats) is encoded, and decoding gives it back and leaves what
  follows it.
\<close>

theorem value_roundtrip:
  assumes "prims_ok P" "json_wf v"
  shows "\<exists>bs. ser_value P v = Ok bs \<and> de_value P (json_depth v) (bs @ r) = Ok (v, r)"
  using ser_value_total [OF assms(2)] de_value_ser [OF assms(1) _ assms(2)] by blast

theorem value_roundtrip_witness:
  "\<exists>bs. ser_value sample_prims get_governance_initial_state = Ok bs \<and>
     de_value sample_prims (json_depth get_governance_initial_state) (bs @ [7]) =
       Ok (get_governance_initial_state, [7])"
  by (rule value_roundtrip [OF sample_prims_ok])
    (simp add: get_governance_initial_state_def)

text \<open>
  Decoding a JSON value returns on every input, also on bytes no encoder wrote: as each
  value takes at least one byte, one more level of recursion than there are bytes is enough.
\<close>

lemma decoding_terminates:
  assumes "readers_ok P"
  shows "de_value P (Suc (length bs)) bs \<noteq> Fail OutOfFuel"
  using decode_fuel(1) [OF assms] by blast

lemma decoding_terminates_witness:
  "de_value sample_prims (Suc (length (replicate 9 (3 :: u8)))) (replicate 9 3) \<noteq> Fail OutOfFuel"
  by (rule decoding_terminates [OF sample_readers_ok])

text \<open>
  The hash an evaluator announces for a state it has not built equals the hash of the state
  the ledger builds later by applying the same patch.
\<close>

lemma announced_state_hash:
  assumes "update_subject E p n s = Ok s'"
  shows "state_hash_after_apply E p d s = get_state_hash E d s'"
  using assms by (rule state_hash_after_apply_correct)

lemma announced_state_hash_witness:
  "state_hash_after_apply sample_env (JArray []) Blake3_256 sample_subject_5 =
     get_state_hash sample_env Blake3_256 (sample_subject_5\<lparr>su_properties := JArray [], su_sn := 1\<rparr>)"
  by (rule announced_state_hash [of _ _ 1]) (simp add: update_subject_def)

text \<open>
  The genesis event means the same to its creator and to those who receive it: from the event
  a creator makes, any node derives the subject with the identifier, number, governance version
  and owner that the event announces and with the state whose hash it carries, and the event's
  signature with the subject's keys verifies.
\<close>

lemma genesis_understood:
  assumes "event_from_genesis_request E now er keys v init_state d = Ok ev" "content er = Create start"
    and "st_public_key start = new_key (get_key_derivator keys) (public_key_bytes keys)"
    and "key_pair_ok E keys"
  shows "\<exists>s. from_genesis_event E ev init_state k d = Ok s \<and>
    su_subject_id s = ev_subject_id (content ev) \<and> su_sn s = ev_sn (content ev) \<and>
    su_genesis_gov_version s = v \<and> su_owner s = sg_signer (signature er) \<and>
    get_state_hash E d s = Ok (ev_state_hash (content ev)) \<and>
    signature_verify E (signature ev) (PEvent (content ev)) = Ok ()"
  using genesis_roundtrip(1) [OF assms(1-3)] genesis_roundtrip(2) [OF assms] by blast

lemma genesis_understood_witness:
  "\<exists>ev s. event_from_genesis_request sample_env 1 \<lparr>content = Create sample_start, signature = sample_signature 1\<rparr>
       (sample_keys 9) 0 JNull Blake3_256 = Ok ev \<and>
     from_genesis_event sample_env ev JNull None Blake3_256 = Ok s \<and> su_owner s = sample_key 1"
proof -
  have "is_Ok (event_from_genesis_request sample_env 1
      \<lparr>content = Create sample_start, signature = sample_signature 1\<rparr> (sample_keys 9) 0 JNull Blake3_256)"
    by (simp add: event_from_genesis_request_def generate_subject_id_def signature_new_def Let_def
        sample_keys_def sample_env_def from_serializable_borsh_def)
  then obtain ev where ev: "event_from_genesis_request sample_env 1
      \<lparr>content = Create sample_start, signature = sample_signature 1\<rparr> (sample_keys 9) 0 JNull Blake3_256 = Ok ev"
    by (auto simp: is_Ok_iff)
  have "st_public_key sample_start = new_key (get_key_derivator (sample_keys 9)) (public_key_bytes (sample_keys 9))"
    by (simp add: sample_start_def sample_key_def sample_keys_def)
  from genesis_understood [OF ev _ this] ev show ?thesis
    by (fastforce simp: sample_signature_def)
qed

text \<open>
  A node that applies the end of life of a subject of another node marks it inactive but
  leaves its number at the event before, unlike the node that owns it.
\<close>

lemma sourced_eol:
  fixes s t :: "'b ledger"
  assumes "codec_ok (c_subject E)" "event_sourcing_eol E ev s = (Ok subject', t)"
    and "content (ev_event_request (content ev)) = EOL e"
  shows "\<exists>subject. get_subject E (eo_subject_id e) (nd_db s) = Ok subject \<and>
    get_subject E (eo_subject_id e) (nd_db t) = Ok (subject\<lparr>su_active := False\<rparr>)"
  using assms by (rule event_sourcing_eol_sn)

lemma sourced_eol_witness:
  "\<exists>subject' t. event_sourcing_eol sample_env (sample_event (EOL sample_eol) 1 True)
       (sample_ledger ledger_db (Some 0) (Some 1)) = (Ok subject', t) \<and>
     get_subject sample_env (sample_id 5) (nd_db t) = Ok (sample_subject_5\<lparr>su_active := False\<rparr>)"
proof -
  have "is_Ok (fst (event_sourcing_eol sample_env (sample_event (EOL sample_eol) 1 True)
      (sample_ledger ledger_db (Some 0) (Some 1))))"
    by (simp add: event_sourcing_eol_def run_sync)
  then obtain subject' t where run: "event_sourcing_eol sample_env (sample_event (EOL sample_eol) 1 True)
      (sample_ledger ledger_db (Some 0) (Some 1)) = (Ok subject', t)"
    by (auto simp: is_Ok_iff fst_def split: prod.splits)
  then show ?thesis
    using sourced_eol [OF _ run, of sample_eol] by auto
qed

section \<open>Last candidate events\<close>

text \<open>
  C30. A last candidate event of another node is only accepted with valid signatures of its own. If it
  is a genesis, nothing else of what was sent with it is checked but the hash function its proof uses:
  it is accepted with any signatures and from any sender just as well. Of the others, a quorum of
  validators signed the proof, and the node is a witness of its subject or was told to keep it;
  but the subject, the governance and the version of these two checks are those the proof names,
  and for an event that is not applied at once nothing compares them with the event. An accepted one
  moves the position of its own subject and no other: it becomes the head of a subject that was
  not known; of a known subject it must be after the last applied event.
\<close>

theorem candidate_signed:
  fixes s t :: "'b ledger"
  assumes "codec_ok (c_event E)" "codec_ok (c_subject E)" "codec_ok (c_proof E)"
    and "external_event E C ev gs sender p s = (Ok (), t)"
  shows "verify_event_signatures E ev = Ok () \<and>
    (\<forall>cr gs' sender' p'. content (ev_event_request (content ev)) = Create cr \<longrightarrow>
      di_derivator (vp_event_hash p') = di_derivator (vp_event_hash p) \<longrightarrow>
      external_event E C ev gs' sender' p' s = (Ok (), t)) \<and>
    (\<forall>i. request_subject (content (ev_event_request (content ev))) = Some i \<longrightarrow>
      our_business E C (get_metadata p) (nd_db s) \<and> quorum_of_validators E p gs (nd_db s) \<and>
      (\<forall>j. j \<noteq> i \<longrightarrow> lg_ledger_state t j = lg_ledger_state s j) \<and>
      (case lg_ledger_state s i of
         None \<Rightarrow> lg_ledger_state t i = Some \<lparr>ls_current_sn = None, ls_head = Some (ev_sn (content ev))\<rparr>
       | Some l \<Rightarrow> \<exists>c. ls_current_sn l = Some c \<and> c < ev_sn (content ev) \<and>
           (lg_ledger_state t i = Some \<lparr>ls_current_sn = Some (ev_sn (content ev)), ls_head = None\<rparr> \<and>
              ls_head l = None \<or>
            lg_ledger_state t i = Some \<lparr>ls_current_sn = Some c, ls_head = Some (ev_sn (content ev))\<rparr>)))"
proof (intro conjI allI impI)
  show "verify_event_signatures E ev = Ok ()" by (rule external_event_signed [OF assms(4)])
  show "external_event E C ev gs' sender' p' s = (Ok (), t)"
    if "content (ev_event_request (content ev)) = Create cr"
      "di_derivator (vp_event_hash p') = di_derivator (vp_event_hash p)" for cr gs' sender' p'
    using assms(4) external_genesis_unvalidated
      [OF that, where E = E and C = C and gs = gs' and gs' = gs and sender = sender' and sender' = sender and s = s]
    by simp
next
  fix i assume i: "request_subject (content (ev_event_request (content ev))) = Some i"
  obtain h where acc: "candidate_accepted E C i ev gs p h s t"
    using external_event_Ok [OF assms i] by blast
  show "our_business E C (get_metadata p) (nd_db s)" "quorum_of_validators E p gs (nd_db s)"
    using acc by (auto simp: candidate_accepted_def candidate_first_def candidate_checked_def split: option.splits)
  show "lg_ledger_state t j = lg_ledger_state s j" if "j \<noteq> i" for j
    using acc that by (cases "lg_ledger_state s i")
      (auto simp: candidate_accepted_def candidate_first_def candidate_checked_def candidate_taken_def
        candidate_next_def candidate_later_def split: if_splits)
  show "case lg_ledger_state s i of
         None \<Rightarrow> lg_ledger_state t i = Some \<lparr>ls_current_sn = None, ls_head = Some (ev_sn (content ev))\<rparr>
       | Some l \<Rightarrow> \<exists>c. ls_current_sn l = Some c \<and> c < ev_sn (content ev) \<and>
           (lg_ledger_state t i = Some \<lparr>ls_current_sn = Some (ev_sn (content ev)), ls_head = None\<rparr> \<and>
              ls_head l = None \<or>
            lg_ledger_state t i = Some \<lparr>ls_current_sn = Some c, ls_head = Some (ev_sn (content ev))\<rparr>)"
    using acc by (cases "lg_ledger_state s i")
      (auto simp: candidate_accepted_def candidate_first_def candidate_checked_def candidate_taken_def
        candidate_next_def candidate_later_def split: if_splits)
qed

theorem candidate_signed_witness:
  "\<exists>t. external_event sample_env owner_config (candidate_event (Fact governance_fact))
       [sample_signature 1] (sample_key 9) candidate_proof (candidate_ledger None) = (Ok (), t) \<and>
     quorum_of_validators sample_env candidate_proof [sample_signature 1] candidate_db"
proof -
  obtain t where run: "external_event sample_env owner_config (candidate_event (Fact governance_fact))
      [sample_signature 1] (sample_key 9) candidate_proof (candidate_ledger None) = (Ok (), t)"
    using candidate_applied by (auto simp: is_Ok_iff fst_def split: prod.splits)
  then show ?thesis
    using candidate_signed [OF _ _ _ run, THEN conjunct2, THEN conjunct2, rule_format, of "sample_id 2"] run by simp
qed

text \<open>
  C31. The next event of a known subject without a head is applied at once: its proof fits the
  subject, naming the hashes of this event and of the one before and the key that is to sign
  next; the event is stored with what it makes of the subject, and its distribution starts. A
  fact has also been issued by the owner or by someone the governance permits to.
\<close>

theorem candidate_next_fits:
  fixes s t :: "'b ledger"
  assumes "codec_ok (c_event E)" "codec_ok (c_subject E)" "codec_ok (c_proof E)"
    and "external_event E C ev gs sender p s = (Ok (), t)"
    and "request_subject (content (ev_event_request (content ev))) = Some i"
    and "lg_ledger_state s i = Some l" "ls_head l = None"
    and "get_subject E i (nd_db s) = Ok subject" "ev_sn (content ev) = su_sn subject + 1"
  shows "su_active subject \<and>
    (\<exists>h subject'. from_serializable_borsh E (PEvent (content ev)) (di_derivator (vp_event_hash p)) = Ok h \<and>
      proof_fits E p subject h (next_key (content ev) subject) (nd_db s) \<and>
      next_subject E C (content ev) subject subject' \<and>
      get_event E i (ev_sn (content ev)) (nd_db t) = Ok ev \<and> get_subject E i (nd_db t) = Ok subject') \<and>
    (\<exists>ds. nd_distribution t = ds @ [SignaturesNeeded i (ev_sn (content ev))])"
  using external_event_Ok [OF assms(1-5)] assms(6-9)
  by (auto simp: candidate_accepted_def candidate_checked_def candidate_taken_def candidate_next_def
      event_stored_def)

theorem candidate_next_fits_witness:
  "\<exists>t. external_event sample_env owner_config (candidate_event (Fact governance_fact))
       [sample_signature 1] (sample_key 9) candidate_proof (candidate_ledger None) = (Ok (), t) \<and>
     get_event sample_env (sample_id 2) 1 (nd_db t) = Ok (candidate_event (Fact governance_fact))"
proof -
  obtain t where run: "external_event sample_env owner_config (candidate_event (Fact governance_fact))
      [sample_signature 1] (sample_key 9) candidate_proof (candidate_ledger None) = (Ok (), t)"
    using candidate_applied by (auto simp: is_Ok_iff fst_def split: prod.splits)
  then show ?thesis
    using candidate_next_fits [OF _ _ _ run, of "sample_id 2" _ sample_governance] by auto
qed

text \<open>
  A candidate event that arrives while the subject already has a head always replaces the
  head, also when its number is just the next one: then the head is the event to apply next,
  which catching up never looks for, and whatever events follow, the subject keeps that head
  until the sequence numbers run out. If it has the number of the head, the event that was just
  stored is deleted with the old head.
\<close>

lemma candidate_replaces_head_stuck:
  fixes s t u :: "'b ledger"
  assumes "codec_ok (c_event E)" "codec_ok (c_subject E)" "codec_ok (c_proof E)"
    and "external_event E C ev gs sender p s = (Ok (), t)"
    and "request_subject (content (ev_event_request (content ev))) = Some i"
    and "lg_ledger_state s i = Some l" "ls_current_sn l = Some c" "ls_head l = Some h"
    and "bt_inv (nd_db s)"
  shows "(ev_sn (content ev) = h \<longrightarrow> get_event E i h (nd_db t) = Fail EntryNotFound) \<and>
    lg_ledger_state t i = Some \<lparr>ls_current_sn = Some c, ls_head = Some (ev_sn (content ev))\<rparr> \<and>
    (ev_sn (content ev) = c + 1 \<longrightarrow>
      (\<forall>evs u. forA (external_intermediate_event E C) evs t = (Ok (), u) \<longrightarrow>
         (\<forall>e \<in> set evs. ev_subject_id (content e) = i) \<longrightarrow> unat c + length evs + 2 < 2 ^ 64 \<longrightarrow>
         lg_ledger_state u i = Some \<lparr>ls_current_sn = Some (c + of_nat (length evs)), ls_head = Some (c + 1)\<rparr>))"
proof -
  have t: "lg_ledger_state t i = Some \<lparr>ls_current_sn = Some c, ls_head = Some (ev_sn (content ev))\<rparr>"
    and lost: "ev_sn (content ev) = h \<longrightarrow> get_event E i h (nd_db t) = Fail EntryNotFound"
    using candidate_replaces_head [OF assms(1-6,8)] assms(7,9) by auto
  have "lg_ledger_state u i = Some \<lparr>ls_current_sn = Some (c + of_nat (length evs)), ls_head = Some (c + 1)\<rparr>"
    if "ev_sn (content ev) = c + 1" "forA (external_intermediate_event E C) evs t = (Ok (), u)"
      "\<forall>e \<in> set evs. ev_subject_id (content e) = i" "unat c + length evs + 2 < 2 ^ 64" for evs u
    using stuck_run [OF that(2,3), of c "c + 1"] t that(1,4) unat_plus_small [of c 1] by simp
  then show ?thesis using t lost by blast
qed

lemma candidate_replaces_head_stuck_witness:
  "\<exists>t. external_event sample_env owner_config (candidate_event (Transfer sample_transfer))
       [sample_signature 1] (sample_key 9) candidate_proof (candidate_ledger (Some 3)) = (Ok (), t) \<and>
     lg_ledger_state t (sample_id 5) = Some \<lparr>ls_current_sn = Some 0, ls_head = Some 1\<rparr>"
proof -
  obtain t where run: "external_event sample_env owner_config (candidate_event (Transfer sample_transfer))
      [sample_signature 1] (sample_key 9) candidate_proof (candidate_ledger (Some 3)) = (Ok (), t)"
    using candidate_head by (auto simp: is_Ok_iff fst_def split: prod.splits)
  then show ?thesis
    using candidate_replaces_head_stuck [OF _ _ _ run, of "sample_id 5" "\<lparr>ls_current_sn = Some 0, ls_head = Some 3\<rparr>" 0 3] candidate_db_ordered by simp
qed

text \<open>The proof of that run is one of the governance and not of the subject: nothing compares it
  with the event before the event is the head.\<close>

lemma candidate_foreign_proof:
  "vp_subject_id candidate_proof = sample_id 2 \<and>
   is_Ok (fst (external_event sample_env owner_config (candidate_event (Transfer sample_transfer))
     [sample_signature 1] (sample_key 9) candidate_proof (candidate_ledger (Some 3)))) \<and>
   request_subject (content (ev_event_request (content (candidate_event (Transfer sample_transfer))))) =
     Some (sample_id 5)"
  using candidate_head by (simp add: candidate_proof_def new_proof_def)

text \<open>
  A genesis event from another node is accepted or refused whatever its validation: the
  signatures and the sender play no part in what the handler does, and of the proof only the
  kind of its event hash.
\<close>

lemma external_genesis_unchecked:
  assumes "content (ev_event_request (content ev)) = Create cr"
    and "di_derivator (vp_event_hash p) = di_derivator (vp_event_hash p')"
  shows "external_event E C ev gs sender p s = external_event E C ev gs' sender' p' s"
  using assms by (rule external_genesis_unvalidated)

lemma external_genesis_unchecked_witness:
  "external_event sample_env sample_config (sample_event (Create sample_start) 0 True) [sample_signature 1]
     (sample_key 9) candidate_proof (candidate_ledger None) =
   external_event sample_env sample_config (sample_event (Create sample_start) 0 True) []
     (sample_key 8) (candidate_proof\<lparr>vp_sn := 7\<rparr>) (candidate_ledger None)"
  by (rule external_genesis_unchecked [of _ sample_start]) simp_all

section \<open>Approvals\<close>

text \<open>
  C32. An approver never votes twice on a request: whatever commands, votes, requests, governance
  updates and steps of other tasks follow each other, two votes it sends on one request are the same
  vote, with the same signature.
\<close>

theorem no_double_vote:
  fixes s :: "('b, 'z) node_scheme"
  assumes "approval_codecs E" "store_ok E (nd_db s)"
    and "answered E (nd_db s) = (\<lambda>_. None)" "sent_votes s = {}"
    and "(approval_step E A)\<^sup>*\<^sup>* (Running s) t"
    and "v \<in> sent_votes (task_node t)" "w \<in> sent_votes (task_node t)" "vote_id v = vote_id w"
  shows "v = w"
proof -
  have "vote_inv E (task_node t)"
    using approval_run_inv [OF assms(1,5)] vote_inv_start [OF assms(2-4)] by simp
  then show ?thesis using vote_inv_unique [OF _ assms(6,7)] assms(8) by simp
qed

theorem no_double_vote_witness:
  "\<exists>t. (approval_step sample_env sample_approver)\<^sup>*\<^sup>* (Running approver_node) t \<and>
     sample_response \<in> sent_votes (task_node t) \<and>
     (\<forall>w \<in> sent_votes (task_node t). vote_id w = sample_id 7 \<longrightarrow> w = sample_response)"
proof -
  obtain t where t: "approval_command sample_env sample_approver 9 None (EmitVote sample_vote) approver_node = (Ok None, t)"
    "nd_messages t = [TaskRequest None (EventMessage (ApproverResponse sample_response)) {sample_key 4} direct_response]"
    using approver_votes by blast
  have "approval_turn sample_env sample_approver 9 (InputCommand (Some (None, EmitVote sample_vote))) approver_node = (Ok True, t)"
    by (simp add: approval_turn_def bindA_run t(1))
  then have run: "(approval_step sample_env sample_approver)\<^sup>*\<^sup>* (Running approver_node) (Running t)"
    by (blast intro: approval_step.Turn)
  have sent: "sample_response \<in> sent_votes (task_node (Running t))"
    by (auto simp: sent_votes_def t(2))
  have "\<forall>w \<in> sent_votes (task_node (Running t)). vote_id w = sample_id 7 \<longrightarrow> w = sample_response"
    using no_double_vote [OF sample_approval_codecs approver_empty(1-3) run _ sent]
    by (auto simp: sample_response_def)
  then show ?thesis using run sent by blast
qed

text \<open>
  Any node can cast the vote of an approver: a vote command that arrives over the network is
  handed to the approver as it is, whoever sent it, and the approver signs the vote with its own
  key and sends it to the node that asked for the approval.
\<close>

lemma remote_vote:
  fixes s :: "('b, 'z) node_scheme"
  assumes "\<And>x. ser (c_approval E) x \<noteq> None"
    and "get_approval E (vo_request_id v) (nd_db s) = Ok a" "ae_state a = Pending"
    and "subject_id_by_request E (content (aq_event_request (content (ae_request a))))
      (aq_gov_version (content (ae_request a))) (ap_derivator A) = Ok i"
    and "sm_sign E (ap_signature_manager A) now
      (PApprovalResponse \<lparr>ar_appr_req_hash = vo_request_id v, ar_approved = vo_acceptance v\<rparr>)
      (ap_derivator A) = Ok g"
    and "nd_message_open s"
  shows "\<exists>t cmd. route (ApprovalMessages (EmitVote v)) sender = Some (ToApproval cmd) \<and>
    approval_command E A now None cmd s = (Ok None, t) \<and>
    nd_messages t = nd_messages s @ [TaskRequest None (EventMessage (ApproverResponse
      \<lparr>content = \<lparr>ar_appr_req_hash = vo_request_id v, ar_approved = vo_acceptance v\<rparr>, signature = g\<rparr>))
      {ae_sender a} direct_response]"
  using emit_vote_run [OF assms(1,2) _ assms(4-6)] assms(3) by (simp add: responded_def)

lemma remote_vote_witness:
  "\<exists>t cmd. route (ApprovalMessages (EmitVote sample_vote)) (sample_key 200) = Some (ToApproval cmd) \<and>
    approval_command sample_env sample_approver 9 None cmd approver_node = (Ok None, t) \<and>
    nd_messages t = nd_messages approver_node @ [TaskRequest None (EventMessage (ApproverResponse
      \<lparr>content = \<lparr>ar_appr_req_hash = vo_request_id sample_vote, ar_approved = vo_acceptance sample_vote\<rparr>,
       signature = signature sample_response\<rparr>)) {ae_sender sample_pending} direct_response]"
  by (rule remote_vote [where i = "sample_id 5"])
    (simp_all add: sample_ser_approval approver_db sample_vote_def sample_pending_def
      subject_id_by_request_def sample_approval_request_def approver_fact_def sample_approver_def sample_sign
      sample_response_def approver_empty(5))

text \<open>
  Listing the pending approvals returns: the loop around its passes runs at most twice, because
  the second pass looks for a key of another table and fails; the operation never panics.
\<close>

lemma pending_approvals_end:
  assumes "b64_ok (e_b64 E)" "pending_keys_ok E m" "2 \<le> fuel"
  shows "get_approvals fuel E (Some Pending) start quantity m = get_approvals 2 E (Some Pending) start quantity m \<and>
    \<not> is_panic (fst (get_approvals fuel E (Some Pending) start quantity m))"
proof -
  obtain n where "fuel = n + 2" using assms(3) by (metis add.commute le_iff_add)
  then show ?thesis
    using pending_loop_ends [OF assms(1,2)] by (simp add: get_approvals_def)
qed

lemma pending_approvals_end_witness:
  "get_approvals 9 sample_env (Some Pending) None 1 [] = get_approvals 2 sample_env (Some Pending) None 1 [] \<and>
   \<not> is_panic (fst (get_approvals 9 sample_env (Some Pending) None 1 []))"
  by (rule pending_approvals_end) (simp_all add: pending_keys_ok_def)

section \<open>Messages\<close>

text \<open>
  C33. What one node sends to another arrives there, and only there, as a command of the module it is for,
  with the sender as the one who asks.
\<close>

theorem message_delivered:
  assumes "Message_Layer.send_message E R M now target msg s = (Ok (), t)" "codec_ok R"
    and "key_pair_ok E (sm_keys (ms_signature_manager M))"
    and "ms_controller_id M = new_key (get_key_derivator (sm_keys (ms_signature_manager M)))
      (public_key_bytes (sm_keys (ms_signature_manager M)))"
  shows "\<exists>bytes. nw_sent t = nw_sent s @ [SendMessage (ki_public_key target) bytes] \<and>
    message_command E R target bytes = Ok (route msg (ms_controller_id M)) \<and>
    (\<forall>other. other \<noteq> target \<longrightarrow> message_command E R other bytes = Ok None)"
  by (rule message_roundtrip [OF assms]) blast

theorem message_delivered_witness:
  "message_command sample_env sample_rmp (sample_key 2) [1] =
     Ok (Some (ToLedger (GetLCE (sample_key 1) (sample_id 5)))) \<and>
   message_command sample_env sample_rmp (sample_key 3) [1] = Ok None"
  using message_delivered [OF sample_sent sample_rmp_ok, unfolded sample_sender_keys, OF sample_keys_ok refl]
  by (auto simp: sample_key_def new_key_def)

text \<open>
  The receivers of a repeated message are chosen without repetition among those given, at least one
  of them, and with the factor one all of them.
\<close>

lemma targets_selected:
  assumes "\<And>k n. 0 < n \<Longrightarrow> pick k n < n" "distinct targets" "targets \<noteq> []" "length targets < 2 ^ 32"
  shows "distinct (get_message_targets pick targets p) \<and> get_message_targets pick targets p \<noteq> [] \<and>
    set (get_message_targets pick targets p) \<subseteq> set targets \<and>
    length (get_message_targets pick targets p) =
      min (length targets) (unat (max 1 (share_of (length targets) p))) \<and>
    get_message_targets pick targets (mc_replication_factor direct_response) = targets"
proof -
  have "unat (max 1 (share_of (length targets) p)) \<noteq> 0"
    by (metis max.cobounded1 unat_eq_zero word_gt_0 word_zero_le linorder_not_le zero_neq_one order.antisym)
  moreover note chosen = targets_chosen [where pick = pick, OF assms(1,2), of p]
  ultimately have "length (get_message_targets pick targets p) \<noteq> 0"
    using assms(3) by simp
  then have "get_message_targets pick targets p \<noteq> []"
    by (rule contrapos_nn) simp
  then show ?thesis
    using chosen all_chosen [OF assms(4), of pick] by (simp add: direct_response_def)
qed

lemma targets_selected_witness:
  "length (get_message_targets (\<lambda>k n. n - 1) (map sample_key [1, 2, 3, 4]) 0x3FE0000000000000) = 2"
proof -
  have "distinct (map sample_key [1, 2, 3, 4])" "map sample_key [1, 2, 3, 4] \<noteq> []"
      "length (map sample_key [1, 2, 3, 4]) < 2 ^ 32"
    by (simp_all add: sample_key_def new_key_def)
  moreover have "\<And>k n :: nat. 0 < n \<Longrightarrow> n - 1 < n" by simp
  ultimately have "length (get_message_targets (\<lambda>k n. n - 1) (map sample_key [1, 2, 3, 4]) 0x3FE0000000000000) =
      min (length (map sample_key [1, 2, 3, 4]))
        (unat (max 1 (share_of (length (map sample_key [1, 2, 3, 4])) 0x3FE0000000000000)))"
    using targets_selected [where pick = "\<lambda>k n. n - 1" and p = "0x3FE0000000000000"] by blast
  moreover have "length (map sample_key [1, 2, 3, 4]) = 4" by simp
  moreover have "unat (max 1 (share_of 4 0x3FE0000000000000)) = 2" by code_simp
  ultimately show ?thesis by (simp only:) 
qed

text \<open>
  C34. The network task loses and repeats nothing: over any run, with libp2p calling the tell behaviour at
  any time, the messages handed to connections to a peer, those on the way there and those kept for it
  are among the messages asked for, each as often at most; they are all of them as long as no more than
  a hundred were asked for, and no more than a hundred are kept.
\<close>

theorem network_accounts:
  assumes "network_new L addr boots opened key ext k = Ok st"
    and "(net_step L)\<^sup>*\<^sup>* \<lparr>nr_task = st, nr_requested = \<lambda>_. [], nr_handed = \<lambda>_. []\<rparr> t"
  shows "mset (nr_handed t p @ tell_queue (np_tell (nr_task t)) p @ kept (nr_task t) p) \<subseteq># mset (nr_requested t p) \<and>
    (length (nr_requested t p) > 100 \<or>
     mset (nr_handed t p @ tell_queue (np_tell (nr_task t)) p @ kept (nr_task t) p) = mset (nr_requested t p)) \<and>
    length (kept (nr_task t) p) \<le> 100"
proof -
  have "accounted (nr_requested t p) (nr_handed t p @ tell_queue (np_tell (nr_task t)) p) (kept (nr_task t) p)"
    using net_run_inv [OF assms(2) net_start_inv [OF assms(1)]] by (simp add: net_inv_def)
  then show ?thesis
    by (cases "length (nr_requested t p) \<le> 100") (simp_all add: accounted_def)
qed

theorem network_accounts_witness:
  "\<exists>t. (net_step sample_libp2p)\<^sup>*\<^sup>* \<lparr>nr_task = sample_network, nr_requested = \<lambda>_. [], nr_handed = \<lambda>_. []\<rparr> t \<and>
     nr_requested t 2 = [[5]] \<and> kept (nr_task t) 2 = [[5]] \<and>
     mset (nr_handed t 2 @ tell_queue (np_tell (nr_task t)) 2 @ kept (nr_task t) 2) = {#[5]#}"
proof -
  let ?t = "\<lparr>nr_task = sample_requested, nr_requested = (\<lambda>p. addressed sample_libp2p [1] (SendMessage [2] [5]) p),
      nr_handed = \<lambda>_. []\<rparr>"
  have run: "(net_step sample_libp2p)\<^sup>*\<^sup>* \<lparr>nr_task = sample_network, nr_requested = \<lambda>_. [], nr_handed = \<lambda>_. []\<rparr> ?t"
    using sample_requested_step by blast
  have "nr_requested ?t 2 = [[5]]" by (simp add: addressed_def sample_libp2p_def)
  with network_accounts [OF sample_network_new run, of 2] run sample_requested_kept show ?thesis
    by (intro exI [of _ ?t]) simp
qed

text \<open>
  C35. Messages to a peer leave in order: in every run of the tell behaviour, whatever connections come and
  go, the messages handed to connections to a peer, followed by those that wait, are exactly those that
  were given for it, in the order they were given.
\<close>

theorem tell_in_order:
  assumes "tell_step\<^sup>*\<^sup>* (tell_start n keep timeout) t"
  shows "tr_handed t p @ tell_queue (tr_behaviour t) p = tr_given t p"
proof -
  have "tell_run_inv t"
    using assms by (induction rule: rtranclp_induct) (auto intro: tell_start_inv tell_step_inv)
  then show ?thesis by (simp add: tell_run_inv_def)
qed

theorem tell_in_order_witness:
  "\<exists>t :: (nat, string, nat) tell_run. tell_step\<^sup>*\<^sup>* (tell_start 100000 10 10) t \<and> tr_given t 2 = [[5]] \<and>
     tell_queue (tr_behaviour t) 2 = [[5]]"
proof -
  let ?s = "tell_start 100000 10 10 :: (nat, string, nat) tell_run"
  let ?t = "?s\<lparr>tr_behaviour := tell_send 2 [5] (tr_behaviour ?s), tr_given := (tr_given ?s)(2 := tr_given ?s 2 @ [[5]])\<rparr>"
  have run: "tell_step\<^sup>*\<^sup>* ?s ?t" by (intro r_into_rtranclp tell_step.Send)
  have "tr_given ?t 2 = [[5]]" "tr_handed ?t 2 = []" by (simp_all add: tell_start_def)
  with tell_in_order [OF run, of 2] run show ?thesis by (intro exI [of _ ?t]) simp
qed

text \<open>
  C36. A message arrives as it was sent if it is no longer than the receiver allows, and otherwise the
  receiver refuses it; the sender has written it in either case, and does not learn of it.
\<close>

theorem tell_framed:
  assumes "pipe_ok B inside" "inside io = []" "upgrade_outbound B p io = (Ok (), io')"
    and "length (tp_message p) < 2 ^ 64"
  shows "if length (tp_message p) \<le> unat (tp_max_message_size q)
    then \<exists>io''. upgrade_inbound B q io' = (Ok (tp_message p), io'') \<and> inside io'' = []
    else fst (upgrade_inbound B q io') = Fail (message_too_long (length (tp_message p)) (tp_max_message_size q))"
proof -
  have inside: "inside io' = bs_encode_usize B (length (tp_message p)) @ tp_message p"
    using upgrade_outbound_inside [OF assms(1,3)] assms(2) by simp
  show ?thesis
  proof (cases "length (tp_message p) \<le> unat (tp_max_message_size q)")
    case True
    from upgrade_inbound_fits [OF assms(1) _ True, of io' "[]"] inside True show ?thesis by simp metis
  next
    case False
    with upgrade_inbound_long [OF assms(1) inside assms(4)] show ?thesis by simp
  qed
qed

theorem tell_framed_witness:
  "upgrade_inbound sample_stream \<lparr>tp_message = [], tp_max_message_size = 2\<rparr> [2, 9, 8] = (Ok [9, 8], []) \<and>
   fst (upgrade_inbound sample_stream \<lparr>tp_message = [], tp_max_message_size = 1\<rparr> [2, 9, 8]) =
     Fail (message_too_long (length [9 :: u8, 8]) 1)"
proof -
  have sent: "upgrade_outbound sample_stream \<lparr>tp_message = [9, 8], tp_max_message_size = 9\<rparr> [] = (Ok (), [2, 9, 8])"
    by (simp add: upgrade_outbound_def sample_stream_def bindA_run leb128.simps)
  show ?thesis
    using tell_framed [OF sample_stream_ok refl sent, of "\<lparr>tp_message = [], tp_max_message_size = 2\<rparr>"]
      tell_framed [OF sample_stream_ok refl sent, of "\<lparr>tp_message = [], tp_max_message_size = 1\<rparr>"]
    by simp
qed

text \<open>
  A bootstrap node whose connection failed is dialled again: while one waits exactly one timer runs, and
  when it fires and the dials are accepted, none waits any longer.
\<close>

lemma bootstraps_redialled:
  assumes "network_new L addr boots opened key ext k = Ok st"
    and "(net_step L)\<^sup>*\<^sup>* \<lparr>nr_task = st, nr_requested = \<lambda>_. [], nr_handed = \<lambda>_. []\<rparr> t"
    and "connect_to_pending_bootstraps L ((nr_task t)\<lparr>np_bootstrap_retries := 0\<rparr>) = (Ok (), u)"
  shows "np_bootstrap_retries (nr_task t) \<le> 1 \<and>
    (np_pending_bootstrap_nodes (nr_task t) = [] \<or> np_bootstrap_retries (nr_task t) = 1) \<and>
    np_pending_bootstrap_nodes u = [] \<and> np_bootstrap_retries u = 0"
  using boot_run [OF assms(2)] network_new_boot [OF assms(1)] connect_to_pending_Ok [OF assms(3)]
  by (auto simp: boot_inv_def)

lemma bootstraps_redialled_witness:
  "np_bootstrap_retries (connection_error 7 sample_network) = 1 \<and>
   fst (connect_to_pending_bootstraps sample_libp2p
     ((connection_error 7 sample_network)\<lparr>np_bootstrap_retries := 0\<rparr>)) = Ok ()"
  by (simp add: connection_error_def sample_network_def connect_to_pending_bootstraps_def reconnect_def
      dial_or_panic_def sample_libp2p_def bindA_run)

text \<open>
  Messages that were kept for a peer are not sent when the peer turns up after its query has ended, and
  a later message to it goes ahead of them.
\<close>

lemma kept_messages_stay:
  assumes "tell_inv (np_tell s)" "receptor \<noteq> np_node_public_key s" "lp_peer_of_key L receptor = Some p"
    and "p \<notin> np_active_get_querys s" "addresses_of_peer L p s \<noteq> []"
    and "network_handle_command L (SendMessage receptor m) s = (r, t)"
  shows "routable_peer p a s = s \<and> tell_queue (np_tell t) p = tell_queue (np_tell s) p @ [m] \<and> kept t p = kept s p"
  using kept_overtaken [OF assms(1-3,5,6)] routable_late [OF assms(4)] by simp

text \<open>
  A listening address is read back from its text, unless it has a port and no IP; it has a text unless
  it has an IP and no port, and what is read never has a port and no IP.
\<close>

lemma listen_addr_roundtrip:
  assumes "ipv6_ok I"
  shows "(is_Ok (listen_addr_to_string I a) \<longleftrightarrow> \<not> has_address a \<or> get_port a \<noteq> None) \<and>
    (no_stray_port a \<longrightarrow> listen_addr_to_string I a = Ok s \<longrightarrow> listen_addr_from I s = Ok a) \<and>
    (listen_addr_from I v = Ok b \<longrightarrow> no_stray_port b)"
  using listen_addr_to_string_Ok listen_addr_printed [OF assms] listen_addr_from_no_stray by blast

lemma listen_addr_roundtrip_witness:
  "listen_addr_from \<lparr>parse_ipv6 = \<lambda>s. Some (), print_ipv6 = \<lambda>_. ''::''\<rparr> ''/ip4/0.0.0.0/tcp/40040'' =
     Ok default_listen_addr"
proof -
  have ok: "ipv6_ok \<lparr>parse_ipv6 = \<lambda>s. Some (), print_ipv6 = \<lambda>_. ''::''\<rparr>" by (simp add: ipv6_ok_def)
  show ?thesis
    using listen_addr_roundtrip [OF ok, of default_listen_addr "''/ip4/0.0.0.0/tcp/40040''"]
    by (simp add: default_listen_addr_def default_port_def print_ipv4_def decimal.simps char_of_def bit_0)
qed

section \<open>Distribution\<close>

text \<open>
  C37. Every witness signature a node keeps was made for an event it had stored: over any run of the
  distribution task, whatever messages it receives and whatever the other tasks do to the stored
  events meanwhile (they may delete and replace them, as the ledger does with the head it held when
  a newer one arrives), each signature stored for a subject and a number is a valid signature of
  an event that was stored under that number at some moment of the run. So they are all signatures
  of the stored event as long as no other one has been stored in its place. Of the other tasks it
  is only asked that they leave the witness signatures to the distribution, which holds of every
  turn of the ledger (\<open>ledger_turn_is_other\<close>).
\<close>

theorem witnesses_verified:
  fixes \<sigma> :: "nat \<Rightarrow> ('b, 'z) node_scheme"
  assumes "codec_ok (c_witness E)" "key_pair_ok E (sm_keys (di_signature_manager D))"
    and "witnessed_start E (nd_db (\<sigma> 0))" "distribution_run E D \<sigma> n"
    and "get_witness_signatures E i (nd_db (\<sigma> n)) = Ok (sn, gs)"
  shows "(\<forall>g \<in> set gs. \<exists>k\<le>n. \<exists>ev. get_event E i sn (nd_db (\<sigma> k)) = Ok ev \<and>
      signature_verify E g (PSignedEvent ev) = Ok ()) \<and>
    (\<forall>ev. (\<forall>k\<le>n. \<forall>ev'. get_event E i sn (nd_db (\<sigma> k)) = Ok ev' \<longrightarrow> ev' = ev) \<longrightarrow>
      (\<forall>g \<in> set gs. signature_verify E g (PSignedEvent ev) = Ok ()))"
proof -
  have "\<exists>k\<le>n. \<exists>ev. get_event E i sn (nd_db (\<sigma> k)) = Ok ev \<and> signature_verify E g (PSignedEvent ev) = Ok ()"
    if "g \<in> set gs" for g
    using witness_signature_origin [OF assms that] by metis
  then show ?thesis by metis
qed

theorem witnesses_verified_witness:
  "\<exists>\<sigma>. distribution_run sample_env sample_distributor \<sigma> 2 \<and> \<sigma> 0 = candidate_ledger None \<and>
     get_witness_signatures sample_env (sample_id 2) (nd_db (\<sigma> 2)) = Ok (0, [sample_witness_signature]) \<and>
     get_event sample_env (sample_id 2) 0 (nd_db (\<sigma> 2)) = Fail EntryNotFound \<and>
     (\<exists>k\<le>2. \<exists>ev. get_event sample_env (sample_id 2) 0 (nd_db (\<sigma> k)) = Ok ev \<and>
       signature_verify sample_env sample_witness_signature (PSignedEvent ev) = Ok ())"
proof -
  obtain \<sigma> :: "nat \<Rightarrow> blob ledger" where run: "distribution_run sample_env sample_distributor \<sigma> 2"
      "\<sigma> 0 = candidate_ledger None"
      "get_witness_signatures sample_env (sample_id 2) (nd_db (\<sigma> 2)) = Ok (0, [sample_witness_signature])"
      "get_event sample_env (sample_id 2) 0 (nd_db (\<sigma> 2)) = Fail EntryNotFound"
    by (rule distribution_signed_deleted)
  have keys: "key_pair_ok sample_env (sm_keys (di_signature_manager sample_distributor))"
    by (simp add: sample_distributor_def self_signature_manager_new_def)
  have "witnessed_start sample_env (nd_db (\<sigma> 0))" by (simp add: run(2) candidate_witnessed)
  from witnesses_verified [OF sample_codecs(9) keys this run(1,3)]
  have "\<exists>k\<le>2. \<exists>ev. get_event sample_env (sample_id 2) 0 (nd_db (\<sigma> k)) = Ok ev \<and>
      signature_verify sample_env sample_witness_signature (PSignedEvent ev) = Ok ()"
    by simp
  with run show ?thesis by blast
qed

text \<open>
  A node that is a witness of a subject but keeps no signatures of it stops when the governance
  of the subject changes: the update is answered with a database error, which ends the task and
  with it the node. A node gets there by an update that removes it from the witnesses, which deletes
  its signatures, and a later one that makes it a witness again.
\<close>

lemma witness_again_stops:
  fixes s u :: "('b, 'z) node_scheme"
  assumes "get_subjects_by_governance E g (nd_db s) = Ok (i # ids)"
    and "get_subject E g (nd_db s) = Ok governance" "get_subject E i (nd_db s) = Ok x"
    and "get_targets E (build_metadata x (su_sn governance)) x s = (Ok T, u)" "own_id D \<in> T"
    and "get_witness_signatures E i (nd_db s) = Fail EntryNotFound"
  shows "distribution_turn E D now (DInputUpdate (Some g)) s = (Fail (DDatabaseError EntryNotFound), u)"
  using recheck_unsigned [OF assms(3-6)] assms(1,2)
  by (simp add: distribution_turn_def witnesses_updated_def bindA_run dread_def db_read_def)

lemma witness_again_stops_witness:
  "distribution_turn sample_env sample_distributor 9 (DInputUpdate (Some (sample_id 2))) (sample_node dropped_db) =
     (Fail (DDatabaseError EntryNotFound), sample_node dropped_db)"
  by (rule witness_again_stops [where i = "sample_id 5" and ids = "[]"
      and governance = sample_governance and x = sample_subject_5 and T = "{sample_key 1}"])
    (simp_all add: dropped_listed get_targets_def dask_def ask_gov_def bindA_run dropped_targets)

section \<open>The API\<close>

text \<open>
  C38. A page that starts at a key which is not there: the call for the subjects of a governance panics,
  since the answer is of another kind, although the same question asked as \<open>get_governance_subjects\<close> is
  answered with an error; and the call for the allowed subjects stops the task of the API, and with it
  the node.
\<close>

theorem unknown_page:
  assumes "k \<notin> fst ` set (coll_iter (page_quantity q < 0)
      (''governance-index'' @ char_MAX @ dstr E g @ char_MAX) (am_db M s))"
    and "k \<notin> fst ` set (coll_iter (page_quantity q < 0)
      (''preauthorized-subjects-and-providers'' @ char_MAX) (am_db M s))"
  shows "api_get_governance_subjects E M g (Some k) q s = (Fail (DatabaseError ''Entry Not Found''), s) \<and>
    api_get_subjects_by_governance E M g (Some k) q s = (Abort ''unreachable'', s) \<and>
    api_get_all_allowed_subjects_and_providers E M (Some k) q s = (Abort ''unwrap'', s) \<and>
    api_turn E M (ApiInputCommand (Some (Some True, CmdGetAllPreauthorizedSubjects
      \<lparr>ga_from = Some k, ga_quantity = q\<rparr>))) s = (Ok False, s)"
proof -
  have "get_governance_subjects E g (Some k) (page_quantity q) (am_db M s) = Fail EntryNotFound"
    unfolding get_governance_subjects_def
    by (subst page_from_unknown) (simp_all only: append_assoc assms(1) bindR_simps not_False_eq_True)
  moreover have "get_allowed_subjects_and_providers E (Some k) (page_quantity q) (am_db M s) = Fail EntryNotFound"
    using page_from_unknown [OF assms(2)] by (simp add: get_allowed_subjects_and_providers_def)
  ultimately show ?thesis
    by (simp add: api_get_governance_subjects_def api_get_subjects_by_governance_def
        api_get_all_allowed_subjects_and_providers_def api_call_def api_turn_def api_process_command_def
        api_response_to_def inner_get_governance_subjects_def inner_get_subjects_by_governance_def
        get_all_preauthorized_subjects_and_providers_def api_read_def get_from_and_quantity_def db_failure_def
        bindA_run)
qed

theorem unknown_page_witness:
  "api_get_subjects_by_governance sample_env completer_modules (sample_id 2) (Some ''nobody'') None
     (sample_completer []) = (Abort ''unreachable'', sample_completer []) \<and>
   api_turn sample_env completer_modules (ApiInputCommand (Some (Some True, CmdGetAllPreauthorizedSubjects
     \<lparr>ga_from = Some ''nobody'', ga_quantity = None\<rparr>))) (sample_completer []) = (Ok False, sample_completer [])"
proof -
  have "coll_iter r p (am_db completer_modules (sample_completer [])) = []" for r p
    by (simp add: sample_completer_def coll_iter_def)
  then show ?thesis
    using unknown_page [of "''nobody''" None sample_env "sample_id 2" completer_modules "sample_completer []"]
    by simp
qed

text \<open>
  Every other command is answered in its kind: the answer fits the command, except that of a page of the
  subjects of a governance which the database fails to give.
\<close>

lemma api_answers_fit:
  assumes "api_process_command E M sender c s = (Ok r, t)"
  shows "fits c r \<longleftrightarrow> \<not> (\<exists>p g. c = CmdGetSubjectByGovernance p g \<and>
    \<not> is_Ok (get_governance_subjects E g (gs_from p) (page_quantity (gs_quantity p)) (am_db M s)))"
proof -
  have run: "api_response_to E M c s = (Ok r, t)"
    using assms by (auto simp: api_process_command_def bindA_eq_Inr split: option.splits if_splits)
  show ?thesis
  proof (cases "\<exists>p g. c = CmdGetSubjectByGovernance p g")
    case True
    with run governance_answer [of E M _ _ s r t] show ?thesis by (auto simp: api_response_to_def)
  next
    case False
    with api_answers [OF run] show ?thesis by blast
  qed
qed

lemma api_answers_fit_witness:
  "fits (CmdGetRequest (sample_id 7)) (AnsGetRequest (Inl (NotFound (''Request '' @ dstr sample_env (sample_id 7)))))"
proof -
  have "api_process_command sample_env completer_modules (Some True) (CmdGetRequest (sample_id 7))
      (sample_completer []) =
    (Ok (AnsGetRequest (Inl (NotFound (''Request '' @ dstr sample_env (sample_id 7))))), sample_completer [])"
    by (simp add: api_process_command_def api_response_to_def inner_get_request_def api_read_def bindA_run
        sample_completer_def get_taple_request_def get_key_eval kv_get_def coll_get_def)
  from api_answers_fit [OF this] show ?thesis by simp
qed

text \<open>
  A page of subjects has at most as many entries as were asked for, and no more than a hundred when the
  number is positive or missing; a negative number, which reads backwards, has no such limit.
\<close>

lemma pages_bounded:
  assumes "api_get_subjects E M ns k q s = (Ok xs, t) \<or> api_get_governances E M ns k q s = (Ok xs, t) \<or>
      api_get_governance_subjects E M g k q s = (Ok xs, t) \<or> api_get_subjects_by_governance E M g k q s = (Ok xs, t)"
    and "\<And>n. q = Some n \<Longrightarrow> - (2 ^ 63) < n"
  shows "int (length xs) \<le> (case q of None \<Rightarrow> 100 | Some n \<Rightarrow> if n < 0 then - n else min n 100) \<and> t = s"
proof -
  obtain ys where ys: "xs = map subject_data_from ys" "t = s"
    "get_subjects E k (page_quantity q) (am_db M s) = Ok ys \<or>
     get_governances E k (page_quantity q) (am_db M s) = Ok ys \<or>
     get_governance_subjects E g k (page_quantity q) (am_db M s) = Ok ys"
    by (rule subject_pages [OF assms(1)])
  have "- (2 ^ 63) < page_quantity q"
    using assms(2) by (auto simp: page_quantity_def max_quantity_def split: option.splits)
  with page_length [OF ys(3)] ys(1,2) show ?thesis by (simp add: page_quantity_abs)
qed

lemma pages_bounded_witness:
  "\<exists>xs. api_get_subjects sample_env completer_modules [] None (Some 1000) (sample_completer []) =
     (Ok xs, sample_completer []) \<and> length xs \<le> 100"
proof -
  have run: "api_get_subjects sample_env completer_modules [] None (Some 1000) (sample_completer []) =
      (Ok [], sample_completer [])"
    by (simp add: api_get_subjects_def api_call_def api_process_command_def api_response_to_def
        inner_get_all_subjects_def get_from_and_quantity_def api_read_def bindA_run get_subjects_def get_by_range_def
        sample_completer_def coll_iter_def)
  from pages_bounded [OF disjI1 [OF run]] run show ?thesis by simp
qed

text \<open>
  C39. A request the API accepts: its identifier is the hash of the request, the request can be asked for
  under it at once, and the same request is refused from then on.
\<close>

theorem api_request_kept:
  assumes "am_event M = completer_asks E C L" "am_db M = nd_db" "codec_ok (c_taple_request E)"
    and "api_external_request E M q s = (Ok i, t)"
  shows "generate_with_blake3 E (PSignedEventRequest q) = Ok i \<and>
    (\<exists>tq. api_get_request E M i t = (Ok tq, t) \<and> tq_event_request tq = q) \<and>
    api_external_request E M q t = (Fail (EventCreationError EvRequestAlreadyKnown), t)"
proof -
  have run: "pre_new_event E C q s = (Ok i, t)"
    using assms(4) external_request_run(1) [OF assms(1)] by blast
  note request = pre_new_event_kept [OF run assms(3)]
  have "request_kept E i q (am_db M t)" using request(3) assms(2) by simp
  from get_request_kept [OF this] external_request_run(2) [OF assms(1) pre_new_event_again [OF request]] request(2)
  show ?thesis by simp
qed

theorem api_request_kept_witness:
  "\<exists>i t. api_external_request sample_env completer_modules stranger_transfer transfer_completer = (Ok i, t) \<and>
     api_external_request sample_env completer_modules stranger_transfer t =
       (Fail (EventCreationError EvRequestAlreadyKnown), t)"
proof -
  obtain i t where "pre_new_event sample_env sample_completing stranger_transfer transfer_completer = (Ok i, t)"
    by (rule transfer_accepted) blast
  then have run: "api_external_request sample_env completer_modules stranger_transfer transfer_completer = (Ok i, t)"
    using external_request_run(1) [where M = completer_modules] by simp
  from api_request_kept [OF _ _ _ this] run show ?thesis by auto
qed

text \<open>
  C40. A vote the API accepts is recorded and sent to the node that asked for it, with the answer of the
  user, and every later vote on the request is refused.
\<close>

theorem api_vote_once:
  fixes s t :: "('b, 'z) node_scheme"
  assumes "am_approval M = approver_asks E A now" "codec_ok (c_approval E)"
    and "api_approval_request E M i b s = (Ok a, t)"
  shows "\<exists>pending response. get_approval E i (nd_db s) = Ok pending \<and>
    ae_state a = (if b then RespondedAccepted else RespondedRejected) \<and> get_approval E i (nd_db t) = Ok a \<and>
    ae_response a = Some response \<and>
    nd_messages t = nd_messages s @ [TaskRequest None (create_approver_response response) {ae_sender pending} direct_response] \<and>
    (\<forall>c. api_approval_request E M i c t = (Fail (Conflict ''Request already responded''), t))"
proof -
  have run: "approval_command E A now (Some True) (EmitVote \<lparr>vo_request_id = i, vo_acceptance = b\<rparr>) s =
      (Ok (Some (RespEmitVote (Inr a))), t)"
    by (rule approval_request_Ok [OF assms(1,3)])
  obtain u k response where u: "generate_vote E A now i b s = (Ok (Inr (a, k)), u)" "ae_response a = Some response"
    "nd_db t = nd_db u"
    "nd_messages t = nd_messages u @ [TaskRequest None (create_approver_response response) {k} direct_response]"
    by (rule emit_vote_command_Ok [OF run]) simp
  obtain data where data: "get_approval E i (nd_db s) = Ok data" "\<not> responded data" "k = ae_sender data"
    "ae_state a = (if b then RespondedAccepted else RespondedRejected)"
    "get_approval E i (nd_db u) = Ok a" "nd_messages u = nd_messages s"
    by (rule generate_vote_Ok [OF u(1) assms(2)])
  have "generate_vote E A now i c t = (Ok (Inl RequestAlreadyResponded), t)" for c
    using data(4,5) u(3) by (simp add: generate_vote_def get_single_request_def)
  then have "api_approval_request E M i c t = (Fail (Conflict ''Request already responded''), t)" for c
    by (rule vote_again [OF assms(1)])
  with u data show ?thesis by auto
qed

theorem api_vote_once_witness:
  "\<exists>a t. api_approval_request sample_env approver_modules (sample_id 7) True approver_node = (Ok a, t) \<and>
     ae_state a = RespondedAccepted \<and>
     api_approval_request sample_env approver_modules (sample_id 7) False t =
       (Fail (Conflict ''Request already responded''), t)"
proof -
  obtain a t where run: "api_approval_request sample_env approver_modules (sample_id 7) True approver_node = (Ok a, t)"
    using approver_api_votes by blast
  have "codec_ok (c_approval sample_env)" using sample_approval_codecs by (simp only: approval_codecs_def)
  from api_vote_once [OF approver_modules_sel(1) this run] run show ?thesis by auto
qed

section \<open>The start of a node\<close>

text \<open>
  A node keeps its key: after a start that succeeds, as long as the stored identifier is not changed, every
  later start with the same key succeeds and one with another key is refused, and neither changes the
  database.
\<close>

lemma node_key_fixed:
  assumes "node_build E C L parse_peer swarm settings m = (Ok parts, m')"
    and "codec_ok (c_string E)" "b64_ok (e_b64 E)"
    and "get_controller_id E n = get_controller_id E m'"
    and "key_pair_from_hex C d secret = Ok kp" "public_key_bytes kp \<noteq> []"
  shows "register_node_key E C d secret n =
    (if new_key (get_key_derivator kp) (public_key_bytes kp) = pt_controller_id parts then Ok kp
     else Fail (InvalidKeyPairSpecified (pt_api_controller_id parts)), n)"
proof (rule build_parts [OF assms(1)])
  fix k points external
  assume key: "register_node_key E C (st_key_derivator (se_node settings)) (st_secret_key (se_node settings)) m = (Ok k, m')"
    and parts: "pt_controller_id parts = new_key (get_key_derivator k) (public_key_bytes k)"
    "pt_api_controller_id parts = key_text E k"
  have "get_controller_id E n = Ok (key_text E k)"
    using register_key(2) [OF key assms(2)] assms(4) by simp
  note again = register_again [OF this assms(5)]
  have "ki_public_key (new_key (get_key_derivator kp) (public_key_bytes kp)) \<noteq> []"
    using assms(6) by (simp add: new_key_def)
  from kstr_inject [OF assms(3) this, of "pt_controller_id parts"]
  have "key_text E kp = key_text E k \<longleftrightarrow> new_key (get_key_derivator kp) (public_key_bytes kp) = pt_controller_id parts"
    unfolding parts(1) by metis
  with again parts show ?thesis by simp
qed

end
